(* ===== verification/Prelude.thy ===== *)
theory Prelude
  imports Complex_Main "HOL-Library.State_Monad"
begin

text \<open>
  The prelude of the development: identifiers, rendered texts and domain errors
  (\<open>backend/pkg/errors/errors.go\<close>), tables of rows keyed by an identifier (the model of
  the PostgreSQL tables), and the reasoning tools for effectful operations: error-propagating
  sequencing \<open>attempt\<close>, the frame rules of a reflexive and transitive state relation
  (locale \<open>frame\<close>) and the evaluation rules \<open>run_simps\<close>.
\<close>

section \<open>Proof collections\<close>

named_theorems run_simps \<open>evaluation of monadic combinators under run_state\<close>
named_theorems op_defs \<open>definitions of the store operations\<close>
named_theorems frame_intros \<open>introduction rules that show that an operation keeps a relation\<close>

section \<open>Identifiers, texts, errors\<close>

text \<open>
  A \<open>uuid.UUID\<close> is a number, \<open>uuid.Nil\<close> is 0. A text is the list of the fragments that
  \<open>fmt.Sprintf\<close> would concatenate: literal strings, rendered UUIDs, rendered integers, numbers
  rendered with a fixed count of decimals.
  Texts only flow into messages, so they are kept unrendered.
\<close>

type_synonym uuid = nat
type_synonym time = int

definition uuid_nil :: uuid where
  "uuid_nil = 0"

datatype frag = T string | U uuid | N int | F nat real

type_synonym msg = "frag list"

datatype category =
    CategoryNotFound | CategoryValidation | CategoryConflict | CategoryUnauthorized
  | CategoryForbidden | CategoryInternal | CategoryInvalidState

text \<open>
  An \<open>error\<close> value: a \<open>DomainError\<close> (its \<open>Details\<close> map is never read by the modelled code),
  \<open>fmt.Errorf\<close> with and without \<open>%w\<close>, the executor's three sentinels, and the context's
  cancellation error.
\<close>

datatype err =
    DomainError category string msg "err option"
  | WrapErr msg err
  | PlainErr msg
  | ErrRunPaused
  | ErrStepSuspended
  | ErrStageSuspended
  | ErrCtxCancelled

type_synonym 'a res = "err + 'a"

text \<open>\<open>DomainError.Error()\<close> and the texts of the other errors.\<close>

fun err_text :: "err \<Rightarrow> msg" where
  "err_text (DomainError cat code msg (Some c)) =
     [T code, T '': ''] @ msg @ [T '': ''] @ err_text c"
| "err_text (DomainError cat code msg None) = [T code, T '': ''] @ msg"
| "err_text (WrapErr t e) = t @ [T '': ''] @ err_text e"
| "err_text (PlainErr t) = t"
| "err_text ErrRunPaused = [T ''run paused'']"
| "err_text ErrStepSuspended = [T ''step suspended for approval'']"
| "err_text ErrStageSuspended = [T ''stage suspended pending transition'']"
| "err_text ErrCtxCancelled = [T ''context canceled'']"

text \<open>\<open>Unwrap\<close>, and \<open>errors.Is\<close>: the target occurs in the chain of unwrapped errors.\<close>

fun err_unwrap :: "err \<Rightarrow> err option" where
  "err_unwrap (DomainError cat code msg c) = c"
| "err_unwrap (WrapErr t e) = Some e"
| "err_unwrap e = None"

fun err_is :: "err \<Rightarrow> err \<Rightarrow> bool" where
  "err_is (DomainError cat code msg (Some c)) t =
     (DomainError cat code msg (Some c) = t \<or> err_is c t)"
| "err_is (WrapErr x e) t = (WrapErr x e = t \<or> err_is e t)"
| "err_is e t = (e = t)"

definition toUpperChar :: "nat \<Rightarrow> char \<Rightarrow> string" where
  "toUpperChar i c =
     (let n = (of_char c :: nat) in
      if 65 \<le> n \<and> n \<le> 90 then (if 0 < i then ''_'' @ [c] else [c])
      else if 97 \<le> n \<and> n \<le> 122 then [char_of (n - 32)]
      else [c])"

fun toUpperSnakeFrom :: "nat \<Rightarrow> string \<Rightarrow> string" where
  "toUpperSnakeFrom i [] = []"
| "toUpperSnakeFrom i (c # cs) = toUpperChar i c @ toUpperSnakeFrom (Suc i) cs"

definition toUpperSnake :: "string \<Rightarrow> string" where
  "toUpperSnake s = toUpperSnakeFrom 0 s"

definition NewNotFound :: "string \<Rightarrow> frag \<Rightarrow> err" where
  "NewNotFound resource i =
     DomainError CategoryNotFound (toUpperSnake resource @ ''_NOT_FOUND'')
       [T resource, T '' with ID '', i, T '' not found''] None"

text \<open>The apostrophe of the message formats.\<close>

definition apostrophe :: frag where
  "apostrophe = T [CHR 0x27]"

definition NewValidation :: "msg \<Rightarrow> msg \<Rightarrow> err" where
  "NewValidation field reason =
     DomainError CategoryValidation ''VALIDATION_ERROR''
       ([T ''validation failed on field '', apostrophe] @ field @ [apostrophe, T '': ''] @ reason) None"

definition NewConflict :: "string \<Rightarrow> string \<Rightarrow> err" where
  "NewConflict resource v =
     DomainError CategoryConflict (toUpperSnake resource @ ''_ALREADY_EXISTS'')
       [T resource, T '' '', apostrophe, T v, apostrophe, T '' already exists''] None"

definition NewInvalidState :: "string \<Rightarrow> msg \<Rightarrow> err" where
  "NewInvalidState code msg = DomainError CategoryInvalidState code msg None"

definition NewInternal :: "string \<Rightarrow> err \<Rightarrow> err" where
  "NewInternal msg c = DomainError CategoryInternal ''INTERNAL_ERROR'' [T msg] (Some c)"

definition NewContainerError :: "msg \<Rightarrow> err \<Rightarrow> err" where
  "NewContainerError msg c =
     DomainError CategoryInternal ''CONTAINER_OPERATION_FAILED'' msg (Some c)"

text \<open>\<open>isNotFound\<close>: a type assertion on the outermost error only.\<close>

fun isNotFound :: "err \<Rightarrow> bool" where
  "isNotFound (DomainError cat code msg c) = (cat = CategoryNotFound)"
| "isNotFound e = False"

lemma isNotFound_New [simp]:
  "isNotFound (NewNotFound r i)"
  "\<not> isNotFound (NewInternal m c)"
  "\<not> isNotFound (NewValidation f r2)"
  by (simp_all add: NewNotFound_def NewInternal_def NewValidation_def)

lemma err_is_refl [simp]: "err_is e e"
  by (cases "(e, e)" rule: err_is.cases) auto

lemma err_is_sentinel [simp]:
  "err_is (NewInternal m c) t = (NewInternal m c = t \<or> err_is c t)"
  "err_is (NewNotFound r i) t = (NewNotFound r i = t)"
  by (simp_all add: NewInternal_def NewNotFound_def)

section \<open>Tables\<close>

text \<open>
  A table is the list of its rows in insertion order (the order of \<open>created_at\<close>). Rows are
  addressed by an identifier; \<open>tbl_update\<close> is \<open>UPDATE ... WHERE id = $1\<close>.
\<close>

fun tbl_find :: "('r \<Rightarrow> 'k) \<Rightarrow> 'k \<Rightarrow> 'r list \<Rightarrow> 'r option" where
  "tbl_find key i [] = None"
| "tbl_find key i (r # rs) = (if key r = i then Some r else tbl_find key i rs)"

definition tbl_update :: "('r \<Rightarrow> 'k) \<Rightarrow> 'k \<Rightarrow> ('r \<Rightarrow> 'r) \<Rightarrow> 'r list \<Rightarrow> 'r list" where
  "tbl_update key i f rs = map (\<lambda>r. if key r = i then f r else r) rs"

lemma tbl_find_eq_Some:
  "tbl_find key i rs = Some r \<Longrightarrow> r \<in> set rs \<and> key r = i"
  by (induction rs) (auto split: if_splits)

lemma tbl_find_key [dest]: "tbl_find key i rs = Some r \<Longrightarrow> key r = i"
  by (auto dest: tbl_find_eq_Some)

lemma tbl_find_None_iff: "tbl_find key i rs = None \<longleftrightarrow> i \<notin> key ` set rs"
  by (induction rs) auto

lemma tbl_find_Some_iff:
  "distinct (map key rs) \<Longrightarrow> tbl_find key i rs = Some r \<longleftrightarrow> r \<in> set rs \<and> key r = i"
  by (induction rs) (auto simp: rev_image_eqI)

lemma tbl_find_append:
  "tbl_find key i (xs @ ys) =
     (case tbl_find key i xs of None \<Rightarrow> tbl_find key i ys | Some r \<Rightarrow> Some r)"
  by (induction xs) auto

lemma tbl_update_Nil [simp]: "tbl_update key i f [] = []"
  by (simp add: tbl_update_def)

lemma tbl_update_Cons [simp]:
  "tbl_update key i f (r # rs) = (if key r = i then f r else r) # tbl_update key i f rs"
  by (simp add: tbl_update_def)

lemma tbl_update_append [simp]:
  "tbl_update key i f (xs @ ys) = tbl_update key i f xs @ tbl_update key i f ys"
  by (simp add: tbl_update_def)

lemma length_tbl_update [simp]: "length (tbl_update key i f rs) = length rs"
  by (simp add: tbl_update_def)

lemma keys_tbl_update [simp]:
  "(\<And>r. key (f r) = key r) \<Longrightarrow> map key (tbl_update key i f rs) = map key rs"
  by (simp add: tbl_update_def)

lemma tbl_find_update:
  assumes "\<And>r. key (f r) = key r"
  shows "tbl_find key j (tbl_update key i f rs) =
           (if i = j then map_option f (tbl_find key j rs) else tbl_find key j rs)"
  using assms by (induction rs) auto

lemma set_tbl_update:
  "set (tbl_update key i f rs) = (\<lambda>r. if key r = i then f r else r) ` set rs"
  by (simp add: tbl_update_def)

lemma tbl_update_absent: "i \<notin> key ` set rs \<Longrightarrow> tbl_update key i f rs = rs"
  by (induction rs) auto

text \<open>\<open>COALESCE(arg, column)\<close>: a \<open>NULL\<close> argument keeps the column.\<close>

definition coalesce :: "'a option \<Rightarrow> 'a option \<Rightarrow> 'a option" where
  "coalesce a b = (case a of None \<Rightarrow> b | Some x \<Rightarrow> Some x)"

lemma coalesce_simps [simp]: "coalesce None b = b" "coalesce (Some x) b = Some x"
  by (simp_all add: coalesce_def)

section \<open>Effects\<close>

text \<open>
  Effectful code is a state monad whose results carry the error. \<open>attempt m f\<close> is
  \<open>x, err := m; if err != nil { return err }; f(x)\<close>.
\<close>

definition attempt :: "('s, 'e + 'a) state \<Rightarrow> ('a \<Rightarrow> ('s, 'e + 'b) state) \<Rightarrow> ('s, 'e + 'b) state"
  where
  "attempt m f =
     do { r \<leftarrow> m; case r of Inl e \<Rightarrow> State_Monad.return (Inl e) | Inr x \<Rightarrow> f x }"

definition ok :: "'a \<Rightarrow> ('s, 'e + 'a) state" where
  "ok x = State_Monad.return (Inr x)"

definition fail :: "'e \<Rightarrow> ('s, 'e + 'a) state" where
  "fail e = State_Monad.return (Inl e)"

abbreviation skip :: "('s, unit) state" where
  "skip \<equiv> State_Monad.return ()"

text \<open>\<open>return nil, wrap(err)\<close>: an error is replaced before it is returned.\<close>

definition wrap_err :: "('e \<Rightarrow> 'e) \<Rightarrow> ('s, 'e + 'a) state \<Rightarrow> ('s, 'e + 'a) state" where
  "wrap_err g m =
     do { r \<leftarrow> m; State_Monad.return (case r of Inl e \<Rightarrow> Inl (g e) | Inr x \<Rightarrow> Inr x) }"

text \<open>A loop over a list whose body only has effects.\<close>

fun for_each :: "'x list \<Rightarrow> ('x \<Rightarrow> ('s, unit) state) \<Rightarrow> ('s, unit) state" where
  "for_each [] f = State_Monad.return ()"
| "for_each (x # xs) f = do { _ \<leftarrow> f x; for_each xs f }"

lemma run_ok [run_simps]: "run_state (ok x) s = (Inr x, s)"
  by (simp add: ok_def)

lemma run_fail [run_simps]: "run_state (fail e) s = (Inl e, s)"
  by (simp add: fail_def)

lemma run_attempt [run_simps]:
  "run_state (attempt m f) s =
     (case run_state m s of (Inl e, s') \<Rightarrow> (Inl e, s') | (Inr x, s') \<Rightarrow> run_state (f x) s')"
  by (simp add: attempt_def split: prod.splits sum.splits)

lemma attempt_Inr:
  assumes "run_state (attempt m f) w = (Inr y, w')"
  obtains x v where "run_state m w = (Inr x, v)" "run_state (f x) v = (Inr y, w')"
  using assms by (auto simp: run_attempt split: prod.splits sum.splits)

lemma run_wrap_err [run_simps]:
  "run_state (wrap_err g m) s =
     (case run_state m s of (Inl e, s') \<Rightarrow> (Inl (g e), s') | (Inr x, s') \<Rightarrow> (Inr x, s'))"
  by (simp add: wrap_err_def split: prod.splits sum.splits)

lemma run_wrap_err_Inr: "run_state (wrap_err g m) w = (Inr x, w') \<longleftrightarrow> run_state m w = (Inr x, w')"
  by (auto simp: run_wrap_err split: prod.splits sum.splits)

lemma run_if [run_simps]:
  "run_state (if c then m else n) s = (if c then run_state m s else run_state n s)"
  by simp

lemma run_case_option [run_simps]:
  "run_state (case x of None \<Rightarrow> m | Some y \<Rightarrow> f y) s =
     (case x of None \<Rightarrow> run_state m s | Some y \<Rightarrow> run_state (f y) s)"
  by (simp split: option.splits)

lemma run_case_sum [run_simps]:
  "run_state (case x of Inl e \<Rightarrow> f e | Inr y \<Rightarrow> g y) s =
     (case x of Inl e \<Rightarrow> run_state (f e) s | Inr y \<Rightarrow> run_state (g y) s)"
  by (simp split: sum.splits)

lemma run_case_prod [run_simps]:
  "run_state (case x of (a, b) \<Rightarrow> f a b) s = (case x of (a, b) \<Rightarrow> run_state (f a b) s)"
  by (simp split: prod.splits)

lemma run_let [run_simps]: "run_state (Let x f) s = Let x (\<lambda>y. run_state (f y) s)"
  by simp

declare run_state_bind [run_simps]

section \<open>Relations kept by effects\<close>

text \<open>
  \<open>keeps R m\<close>: every run of \<open>m\<close> relates its first and its last state by \<open>R\<close>, whatever it
  returns. With a reflexive and transitive \<open>R\<close> the property is compositional; the locale
  proves the composition rules once, each component instantiates it with the relations its
  operations respect.
\<close>

definition keeps :: "('s \<Rightarrow> 's \<Rightarrow> bool) \<Rightarrow> ('s, 'a) state \<Rightarrow> bool" where
  "keeps R m \<longleftrightarrow> (\<forall>s. R s (snd (run_state m s)))"

lemma keepsI: "(\<And>s. R s (snd (run_state m s))) \<Longrightarrow> keeps R m"
  by (simp add: keeps_def)

lemma keepsD: "keeps R m \<Longrightarrow> run_state m s = (x, s') \<Longrightarrow> R s s'"
  unfolding keeps_def by (metis snd_conv)

locale frame =
  fixes R :: "'s \<Rightarrow> 's \<Rightarrow> bool"
  assumes frame_refl: "R s s"
    and frame_trans: "R s t \<Longrightarrow> R t u \<Longrightarrow> R s u"
begin

lemma return [frame_intros, intro]: "keeps R (State_Monad.return x)"
  by (simp add: keeps_def frame_refl)

lemma bind [frame_intros]:
  assumes "keeps R m" and "\<And>x. keeps R (f x)"
  shows "keeps R (State_Monad.bind m f)"
  using assms unfolding keeps_def
  by (auto split: prod.splits intro: frame_trans)

lemma ok [frame_intros, intro]: "keeps R (ok x)"
  by (simp add: ok_def return)

lemma fail [frame_intros, intro]: "keeps R (fail e)"
  by (simp add: fail_def return)

lemma attempt [frame_intros]:
  assumes "keeps R m" and "\<And>x. keeps R (f x)"
  shows "keeps R (attempt m f)"
  unfolding attempt_def by (rule bind) (auto simp: assms split: sum.splits)

text \<open>Sequencing when the continuation relies on what the first effect returns.\<close>

lemma bind_post:
  assumes "keeps R m" and "\<And>s x s'. run_state m s = (x, s') \<Longrightarrow> P x"
    and "\<And>x. P x \<Longrightarrow> keeps R (f x)"
  shows "keeps R (State_Monad.bind m f)"
  using assms unfolding keeps_def
  by (auto split: prod.splits intro: frame_trans)

lemma attempt_post:
  assumes "keeps R m" and "\<And>s x s'. run_state m s = (Inr x, s') \<Longrightarrow> P x"
    and "\<And>x. P x \<Longrightarrow> keeps R (f x)"
  shows "keeps R (attempt m f)"
  unfolding attempt_def
  by (rule bind_post [where P = "\<lambda>r. \<forall>x. r = Inr x \<longrightarrow> P x"])
     (use assms in \<open>auto split: sum.splits\<close>)

lemma wrap_err [frame_intros]: "keeps R m \<Longrightarrow> keeps R (wrap_err g m)"
  unfolding wrap_err_def by (rule bind) (auto simp: return)

lemma if_then [frame_intros]:
  "(c \<Longrightarrow> keeps R m) \<Longrightarrow> (\<not> c \<Longrightarrow> keeps R n) \<Longrightarrow> keeps R (if c then m else n)"
  by simp

lemma case_option [frame_intros]:
  "keeps R m \<Longrightarrow> (\<And>y. keeps R (f y)) \<Longrightarrow> keeps R (case x of None \<Rightarrow> m | Some y \<Rightarrow> f y)"
  by (simp split: option.splits)

lemma case_sum [frame_intros]:
  "(\<And>e. keeps R (f e)) \<Longrightarrow> (\<And>y. keeps R (g y)) \<Longrightarrow>
   keeps R (case x of Inl e \<Rightarrow> f e | Inr y \<Rightarrow> g y)"
  by (simp split: sum.splits)

lemma case_prod [frame_intros]:
  "(\<And>a b. keeps R (f a b)) \<Longrightarrow> keeps R (case x of (a, b) \<Rightarrow> f a b)"
  by (simp split: prod.splits)

lemma let_in [frame_intros]: "(\<And>y. keeps R (f y)) \<Longrightarrow> keeps R (Let x f)"
  by simp

lemma for_each [frame_intros]: "(\<And>x. x \<in> set xs \<Longrightarrow> keeps R (f x)) \<Longrightarrow> keeps R (for_each xs f)"
  by (induction xs) (auto intro!: bind return)

end

end
