(* ===== verification/PipelineConfig.thy ===== *)
theory PipelineConfig
  imports Prelude
begin

text \<open>
  The pipeline configuration of a project (\<open>backend/internal/domain/model/pipeline_config.go\<close>):
  steps, guards and groups (the stages of the board), the normalisation done after YAML
  decoding, and the views the engine takes of a configuration: the exit policy of a stage, the
  guards that watch a step, the flat list of steps with and without their stage. The YAML
  decoder \<open>yaml.Unmarshal\<close> is a parameter; an absent string is the empty string and an absent
  slice the empty list, as in the decoded Go value. A \<open>float64\<close> ceiling is a real number.
\<close>

section \<open>Data\<close>

record guard =
  guard_kind :: string
  guard_threshold :: int
  guard_max :: real
  guard_on_fail :: string

definition GuardLogSilence :: string where "GuardLogSilence = ''log_silence''"
definition GuardWallclock :: string where "GuardWallclock = ''wallclock''"
definition GuardCostBatch :: string where "GuardCostBatch = ''cost_batch''"

definition GuardOnFailHaltGate :: string where "GuardOnFailHaltGate = ''halt-gate''"
definition GuardOnFailFail :: string where "GuardOnFailFail = ''fail''"
definition GuardOnFailRetry :: string where "GuardOnFailRetry = ''retry''"

lemmas guard_consts = GuardLogSilence_def GuardWallclock_def GuardCostBatch_def
  GuardOnFailHaltGate_def GuardOnFailFail_def GuardOnFailRetry_def

record retry_policy =
  max_retries :: int
  retry_type :: string

record pipeline_step =
  ps_id :: string
  ps_name :: string
  ps_action_type :: string
  ps_description :: string
  ps_agent_id :: string
  ps_model :: string
  ps_auto_approve :: bool
  ps_retry_policy :: retry_policy
  ps_config :: "(string \<rightharpoonup> string) option"
  ps_guards :: "guard list"

definition TransitionAuto :: string where "TransitionAuto = ''auto''"
definition TransitionManual :: string where "TransitionManual = ''manual''"
definition TransitionGate :: string where "TransitionGate = ''gate''"

lemmas transition_consts = TransitionAuto_def TransitionManual_def TransitionGate_def

lemma transition_distinct [simp]:
  "TransitionAuto \<noteq> TransitionManual" "TransitionAuto \<noteq> TransitionGate"
  "TransitionManual \<noteq> TransitionAuto" "TransitionManual \<noteq> TransitionGate"
  "TransitionGate \<noteq> TransitionAuto" "TransitionGate \<noteq> TransitionManual"
  "TransitionAuto \<noteq> []" "TransitionManual \<noteq> []" "TransitionGate \<noteq> []"
  by (simp_all add: transition_consts)

record pipeline_group =
  pg_id :: string
  pg_name :: string
  pg_steps :: "pipeline_step list"
  pg_transition :: string
  pg_guards :: "guard list"

record step_with_stage =
  sws_step :: pipeline_step
  sws_group_id :: string
  sws_group_name :: string

record pipeline_config_yaml =
  groups :: "pipeline_group list"

record pipeline_config_raw =
  raw_groups :: "pipeline_group list"
  raw_steps :: "pipeline_step list"

section \<open>Operations\<close>

definition normalizeGuard :: "guard \<Rightarrow> guard" where
  "normalizeGuard g = (if guard_on_fail g = [] then g\<lparr>guard_on_fail := GuardOnFailHaltGate\<rparr> else g)"

definition normalizeGuards :: "guard list \<Rightarrow> guard list" where
  "normalizeGuards gs = map normalizeGuard gs"

definition normalizeStep :: "pipeline_step \<Rightarrow> pipeline_step" where
  "normalizeStep s = s\<lparr>ps_guards := normalizeGuards (ps_guards s)\<rparr>"

definition normalizeGroup :: "pipeline_group \<Rightarrow> pipeline_group" where
  "normalizeGroup g =
     (let g1 = (if pg_transition g = [] then g\<lparr>pg_transition := TransitionAuto\<rparr> else g) in
      g1\<lparr>pg_guards := normalizeGuards (pg_guards g1),
         pg_steps := map normalizeStep (pg_steps g1)\<rparr>)"

definition rawGroups :: "pipeline_config_raw \<Rightarrow> pipeline_group list" where
  "rawGroups raw =
     (if raw_groups raw \<noteq> [] then raw_groups raw
      else if raw_steps raw \<noteq> [] then
        [\<lparr>pg_id = ''default'', pg_name = ''Default'', pg_steps = raw_steps raw,
          pg_transition = [], pg_guards = []\<rparr>]
      else [])"

definition ParsePipelineConfigYAML ::
  "('d \<Rightarrow> pipeline_config_raw res) \<Rightarrow> 'd \<Rightarrow> pipeline_config_yaml res" where
  "ParsePipelineConfigYAML unmarshal data =
     (case unmarshal data of
        Inl e \<Rightarrow> Inl (WrapErr [T ''invalid YAML''] e)
      | Inr raw \<Rightarrow> Inr \<lparr>groups = map normalizeGroup (rawGroups raw)\<rparr>)"

fun transitionIn :: "string \<Rightarrow> pipeline_group list \<Rightarrow> string" where
  "transitionIn stageID [] = TransitionAuto"
| "transitionIn stageID (g # gs) =
     (if pg_id g = stageID
      then (if pg_transition g = [] then TransitionAuto else pg_transition g)
      else transitionIn stageID gs)"

definition TransitionForStage :: "pipeline_config_yaml \<Rightarrow> string \<Rightarrow> string" where
  "TransitionForStage c stageID = transitionIn stageID (groups c)"

text \<open>The inner loop of \<open>GuardsForStep\<close>: the first step of a group with the searched ID.\<close>

fun guardsInGroup :: "string \<Rightarrow> guard list \<Rightarrow> pipeline_step list \<Rightarrow> guard list option" where
  "guardsInGroup stepID stageGuards [] = None"
| "guardsInGroup stepID stageGuards (s # ss) =
     (if ps_id s = stepID
      then Some (if ps_guards s = [] \<and> stageGuards = [] then [] else ps_guards s @ stageGuards)
      else guardsInGroup stepID stageGuards ss)"

fun guardsIn :: "string \<Rightarrow> pipeline_group list \<Rightarrow> guard list" where
  "guardsIn stepID [] = []"
| "guardsIn stepID (g # gs) =
     (case guardsInGroup stepID (pg_guards g) (pg_steps g) of
        Some guards \<Rightarrow> guards | None \<Rightarrow> guardsIn stepID gs)"

definition GuardsForStep :: "pipeline_config_yaml \<Rightarrow> string \<Rightarrow> guard list" where
  "GuardsForStep c stepID = guardsIn stepID (groups c)"

fun flatStepsFrom :: "pipeline_step list \<Rightarrow> pipeline_group list \<Rightarrow> pipeline_step list" where
  "flatStepsFrom steps [] = steps"
| "flatStepsFrom steps (g # gs) = flatStepsFrom (steps @ pg_steps g) gs"

definition FlatSteps :: "pipeline_config_yaml \<Rightarrow> pipeline_step list" where
  "FlatSteps c = flatStepsFrom [] (groups c)"

fun stampStage :: "pipeline_group \<Rightarrow> step_with_stage list \<Rightarrow> pipeline_step list \<Rightarrow> step_with_stage list"
  where
  "stampStage g steps [] = steps"
| "stampStage g steps (s # ss) =
     stampStage g (steps @ [\<lparr>sws_step = s, sws_group_id = pg_id g, sws_group_name = pg_name g\<rparr>]) ss"

fun flatStepsWithStageFrom ::
  "step_with_stage list \<Rightarrow> pipeline_group list \<Rightarrow> step_with_stage list" where
  "flatStepsWithStageFrom steps [] = steps"
| "flatStepsWithStageFrom steps (g # gs) =
     flatStepsWithStageFrom (stampStage g steps (pg_steps g)) gs"

definition FlatStepsWithStage :: "pipeline_config_yaml \<Rightarrow> step_with_stage list" where
  "FlatStepsWithStage c = flatStepsWithStageFrom [] (groups c)"

definition ValidActionTypes :: "string \<Rightarrow> bool" where
  "ValidActionTypes a = (a \<in> set [''agent_run'', ''git_branch'', ''git_pr'', ''notification'',
     ''human'', ''ci_poll'', ''hitl_gate'', ''implement'', ''review'', ''merge'', ''test'',
     ''custom''])"

section \<open>The flat views\<close>

lemma flatStepsFrom_concat: "flatStepsFrom acc gs = acc @ concat (map pg_steps gs)"
  by (induction gs arbitrary: acc) auto

lemma FlatSteps_concat: "FlatSteps c = concat (map pg_steps (groups c))"
  by (simp add: FlatSteps_def flatStepsFrom_concat)

definition stamped :: "pipeline_group \<Rightarrow> step_with_stage list" where
  "stamped g =
     map (\<lambda>s. \<lparr>sws_step = s, sws_group_id = pg_id g, sws_group_name = pg_name g\<rparr>) (pg_steps g)"

lemma stampStage_map:
  "stampStage g acc ss =
     acc @ map (\<lambda>s. \<lparr>sws_step = s, sws_group_id = pg_id g, sws_group_name = pg_name g\<rparr>) ss"
  by (induction ss arbitrary: acc) auto

lemma flatStepsWithStageFrom_concat:
  "flatStepsWithStageFrom acc gs = acc @ concat (map stamped gs)"
  by (induction gs arbitrary: acc) (auto simp: stampStage_map stamped_def)

lemma FlatStepsWithStage_concat: "FlatStepsWithStage c = concat (map stamped (groups c))"
  by (simp add: FlatStepsWithStage_def flatStepsWithStageFrom_concat)

lemma steps_of_stamped [simp]: "map sws_step (stamped g) = pg_steps g"
  by (simp add: stamped_def comp_def)

lemma FlatStepsWithStage_steps: "map sws_step (FlatStepsWithStage c) = FlatSteps c"
  by (simp add: FlatStepsWithStage_concat FlatSteps_concat map_concat comp_def)

lemma length_FlatStepsWithStage: "length (FlatStepsWithStage c) = length (FlatSteps c)"
  using FlatStepsWithStage_steps [of c] by (metis length_map)

lemma FlatStepsWithStage_origin:
  assumes "x \<in> set (FlatStepsWithStage c)"
  obtains g where "g \<in> set (groups c)" "sws_step x \<in> set (pg_steps g)"
    "sws_group_id x = pg_id g" "sws_group_name x = pg_name g"
  using assms by (auto simp: FlatStepsWithStage_concat stamped_def)

section \<open>Normalisation\<close>

lemma normalizeGuard_on_fail [simp]: "guard_on_fail (normalizeGuard g) \<noteq> []"
  by (simp add: normalizeGuard_def guard_consts)

lemma normalizeGuard_idem [simp]: "normalizeGuard (normalizeGuard g) = normalizeGuard g"
  by (simp add: normalizeGuard_def guard_consts)

lemma normalizeGuards_idem [simp]: "normalizeGuards (normalizeGuards gs) = normalizeGuards gs"
  by (simp add: normalizeGuards_def)

lemma normalizeStep_idem [simp]: "normalizeStep (normalizeStep s) = normalizeStep s"
  by (simp add: normalizeStep_def)

lemma normalizeStep_fields [simp]:
  "ps_id (normalizeStep s) = ps_id s" "ps_name (normalizeStep s) = ps_name s"
  "ps_action_type (normalizeStep s) = ps_action_type s" "ps_model (normalizeStep s) = ps_model s"
  "ps_agent_id (normalizeStep s) = ps_agent_id s" "ps_config (normalizeStep s) = ps_config s"
  "ps_guards (normalizeStep s) = normalizeGuards (ps_guards s)"
  by (simp_all add: normalizeStep_def)

lemma normalizeGroup_fields [simp]:
  "pg_id (normalizeGroup g) = pg_id g" "pg_name (normalizeGroup g) = pg_name g"
  "pg_steps (normalizeGroup g) = map normalizeStep (pg_steps g)"
  "pg_guards (normalizeGroup g) = normalizeGuards (pg_guards g)"
  "pg_transition (normalizeGroup g) =
     (if pg_transition g = [] then TransitionAuto else pg_transition g)"
  by (simp_all add: normalizeGroup_def Let_def)

lemma normalizeGroup_idem: "normalizeGroup (normalizeGroup g) = normalizeGroup g"
  by (rule pipeline_group.equality) (simp_all add: comp_def)

lemma ParsePipelineConfigYAML_groups:
  "ParsePipelineConfigYAML unmarshal data = Inr c \<longleftrightarrow>
     (\<exists>raw. unmarshal data = Inr raw \<and> groups c = map normalizeGroup (rawGroups raw))"
  by (auto simp: ParsePipelineConfigYAML_def split: sum.splits)

lemma transitionIn_normalize:
  "transitionIn i (map normalizeGroup gs) = transitionIn i gs"
  by (induction gs) auto

lemma transitionIn_first:
  "transitionIn i gs =
     (case find (\<lambda>g. pg_id g = i) gs of
        None \<Rightarrow> TransitionAuto
      | Some g \<Rightarrow> if pg_transition g = [] then TransitionAuto else pg_transition g)"
  by (induction gs) auto

section \<open>Guards of a step\<close>

lemma guardsInGroup_None: "stepID \<notin> ps_id ` set ss \<Longrightarrow> guardsInGroup stepID sg ss = None"
  by (induction ss) auto

lemma guardsInGroup_Some:
  "distinct (map ps_id ss) \<Longrightarrow> s \<in> set ss \<Longrightarrow> guardsInGroup (ps_id s) sg ss = Some (ps_guards s @ sg)"
  by (induction ss) (auto simp: rev_image_eqI)

lemma guardsIn_distinct:
  assumes "distinct (map ps_id (concat (map pg_steps gs)))"
    and "g \<in> set gs" and "s \<in> set (pg_steps g)"
  shows "guardsIn (ps_id s) gs = ps_guards s @ pg_guards g"
  using assms
proof (induction gs)
  case (Cons h gs)
  show ?case
  proof (cases "g = h")
    case True
    with Cons.prems show ?thesis by (simp add: guardsInGroup_Some)
  next
    case False
    with Cons.prems have g: "g \<in> set gs" by simp
    with Cons.prems have "ps_id s \<notin> ps_id ` set (pg_steps h)"
      by (auto simp: image_iff)
    with Cons g show ?thesis by (simp add: guardsInGroup_None)
  qed
qed simp

end
