(* ===== verification/Model.thy ===== *)
theory Model
  imports PipelineConfig
begin

text \<open>
  The domain model (\<open>backend/internal/domain/model\<close>): statuses and their transition tables,
  runs, run steps, stories, projects, human-in-the-loop requests, epic runs, events and the run
  context handed to an action, with the progress percentage of a run computed as the code
  computes it, in IEEE double arithmetic.
\<close>

section \<open>Dynamically typed values\<close>

text \<open>
  A value of a \<open>map[string]any\<close> (run metadata, event payload): every constructor but
  \<open>JBool\<close>, \<open>JInt\<close>, \<open>JReal\<close> and \<open>JStrs\<close> (an array) is a JSON string, kept with the kind of value it was rendered from.
\<close>

datatype jval =
    JStr string
  | JUuid uuid
  | JTime time
  | JText msg
  | JBool bool
  | JInt int
  | JReal real
  | JStrs "string list"

type_synonym metadata = "string \<rightharpoonup> jval"

fun frag_empty :: "frag \<Rightarrow> bool" where
  "frag_empty (T s) = (s = [])"
| "frag_empty (U i) = False"
| "frag_empty (N i) = False"
| "frag_empty (F d x) = False"

text \<open>\<open>v, ok := m[k].(string); ok && v != ""\<close>.\<close>

fun nonempty_string :: "jval option \<Rightarrow> bool" where
  "nonempty_string (Some (JStr s)) = (s \<noteq> [])"
| "nonempty_string (Some (JUuid i)) = True"
| "nonempty_string (Some (JTime t)) = True"
| "nonempty_string (Some (JText m)) = (\<not> list_all frag_empty m)"
| "nonempty_string _ = False"

text \<open>Decimal rendering of an integer (\<open>%d\<close>), used in the per-step metadata keys.\<close>

fun show_nat :: "nat \<Rightarrow> string" where
  "show_nat n =
     (if n < 10 then [char_of (48 + n)] else show_nat (n div 10) @ [char_of (48 + n mod 10)])"

declare show_nat.simps [simp del]

definition show_int :: "int \<Rightarrow> string" where
  "show_int i = (if i < 0 then ''-'' @ show_nat (nat (- i)) else show_nat (nat i))"

definition stepKey :: "int \<Rightarrow> string \<Rightarrow> string" where
  "stepKey i suffix = ''step_'' @ show_int i @ ''_'' @ suffix"

section \<open>Runs and steps\<close>

datatype run_status =
    RunStatusPending | RunStatusRunning | RunStatusPaused
  | RunStatusCompleted | RunStatusFailed | RunStatusCancelled

datatype step_status =
    StepStatusPending | StepStatusRunning | StepStatusCompleted
  | StepStatusFailed | StepStatusCancelled | StepStatusWaitingApproval

fun run_status_name :: "run_status \<Rightarrow> string" where
  "run_status_name RunStatusPending = ''pending''"
| "run_status_name RunStatusRunning = ''running''"
| "run_status_name RunStatusPaused = ''paused''"
| "run_status_name RunStatusCompleted = ''completed''"
| "run_status_name RunStatusFailed = ''failed''"
| "run_status_name RunStatusCancelled = ''cancelled''"

fun step_status_name :: "step_status \<Rightarrow> string" where
  "step_status_name StepStatusPending = ''pending''"
| "step_status_name StepStatusRunning = ''running''"
| "step_status_name StepStatusCompleted = ''completed''"
| "step_status_name StepStatusFailed = ''failed''"
| "step_status_name StepStatusCancelled = ''cancelled''"
| "step_status_name StepStatusWaitingApproval = ''waiting_approval''"

text \<open>
  The JSON configuration snapshot of a run, seen through the two decoders the code applies to
  it: a marshalled \<open>PipelineConfigYAML\<close>, the steps-only object \<open>CreateRun\<close> accepts (name and
  action of each step), bytes that are not valid JSON for either (with the decoder's error), or
  no bytes at all.
\<close>

datatype snapshot =
    SnapNone
  | SnapConfig pipeline_config_yaml
  | SnapSteps "(string \<times> string) list"
  | SnapBad err

record run =
  run_id :: uuid
  run_project :: uuid
  run_story :: uuid
  run_status :: run_status
  run_snapshot :: snapshot
  run_metadata :: metadata
  run_started_at :: "time option"
  run_completed_at :: "time option"
  run_paused_at :: "time option"
  run_error :: "msg option"
  run_created_at :: time
  run_updated_at :: time

record run_step =
  rs_id :: uuid
  rs_run :: uuid
  rs_name :: string
  rs_order :: int
  rs_action :: string
  rs_status :: step_status
  rs_started_at :: "time option"
  rs_completed_at :: "time option"
  rs_error :: "msg option"
  rs_container :: "string option"
  rs_log_tail :: "string option"
  rs_stage_id :: string
  rs_stage_name :: string
  rs_retry_count :: int
  rs_retry_type :: "string option"
  rs_parent :: "uuid option"
  rs_config :: "(string \<rightharpoonup> string) option"
  rs_created_at :: time

text \<open>\<open>validRunTransitions\<close>, \<open>validStepTransitions\<close>: a missing key is \<open>None\<close>.\<close>

fun validRunTransitions :: "run_status \<Rightarrow> run_status list option" where
  "validRunTransitions RunStatusPending = Some [RunStatusRunning, RunStatusCancelled]"
| "validRunTransitions RunStatusRunning =
     Some [RunStatusPaused, RunStatusCompleted, RunStatusFailed, RunStatusCancelled]"
| "validRunTransitions RunStatusPaused = Some [RunStatusRunning, RunStatusCancelled]"
| "validRunTransitions RunStatusFailed = Some [RunStatusRunning]"
| "validRunTransitions RunStatusCompleted = None"
| "validRunTransitions RunStatusCancelled = None"

fun validStepTransitions :: "step_status \<Rightarrow> step_status list option" where
  "validStepTransitions StepStatusPending = Some [StepStatusRunning, StepStatusCancelled]"
| "validStepTransitions StepStatusRunning =
     Some [StepStatusCompleted, StepStatusFailed, StepStatusCancelled, StepStatusWaitingApproval]"
| "validStepTransitions StepStatusWaitingApproval =
     Some [StepStatusRunning, StepStatusCompleted, StepStatusFailed, StepStatusCancelled]"
| "validStepTransitions StepStatusCompleted = None"
| "validStepTransitions StepStatusFailed = None"
| "validStepTransitions StepStatusCancelled = None"

definition ErrCodeInvalidStateTransition :: string where
  "ErrCodeInvalidStateTransition = ''INVALID_STATE_TRANSITION''"

definition ValidateRunTransition :: "run_status \<Rightarrow> run_status \<Rightarrow> unit res" where
  "ValidateRunTransition src dst =
     (case validRunTransitions src of
        None \<Rightarrow> Inl (NewInvalidState ErrCodeInvalidStateTransition
          [T ''no transitions allowed from run status: '', T (run_status_name src)])
      | Some allowed \<Rightarrow>
          if dst \<in> set allowed then Inr ()
          else Inl (NewInvalidState ErrCodeInvalidStateTransition
            [T ''cannot transition run from '', T (run_status_name src), T '' to '',
             T (run_status_name dst)]))"

definition ValidateStepTransition :: "step_status \<Rightarrow> step_status \<Rightarrow> unit res" where
  "ValidateStepTransition src dst =
     (case validStepTransitions src of
        None \<Rightarrow> Inl (NewInvalidState ErrCodeInvalidStateTransition
          [T ''no transitions allowed from step status: '', T (step_status_name src)])
      | Some allowed \<Rightarrow>
          if dst \<in> set allowed then Inr ()
          else Inl (NewInvalidState ErrCodeInvalidStateTransition
            [T ''cannot transition step from '', T (step_status_name src), T '' to '',
             T (step_status_name dst)]))"

definition run_step_ok :: "run_status \<Rightarrow> run_status \<Rightarrow> bool" where
  "run_step_ok a b \<longleftrightarrow> (case validRunTransitions a of None \<Rightarrow> False | Some bs \<Rightarrow> b \<in> set bs)"

definition step_step_ok :: "step_status \<Rightarrow> step_status \<Rightarrow> bool" where
  "step_step_ok a b \<longleftrightarrow> (case validStepTransitions a of None \<Rightarrow> False | Some bs \<Rightarrow> b \<in> set bs)"

lemma ValidateRunTransition_iff: "ValidateRunTransition a b = Inr () \<longleftrightarrow> run_step_ok a b"
  by (auto simp: ValidateRunTransition_def run_step_ok_def split: option.splits)

lemma ValidateStepTransition_iff: "ValidateStepTransition a b = Inr () \<longleftrightarrow> step_step_ok a b"
  by (auto simp: ValidateStepTransition_def step_step_ok_def split: option.splits)

definition run_terminal :: "run_status \<Rightarrow> bool" where
  "run_terminal s \<longleftrightarrow> s = RunStatusFailed \<or> s = RunStatusCompleted \<or> s = RunStatusCancelled"

definition run_active :: "run_status \<Rightarrow> bool" where
  "run_active s \<longleftrightarrow> s = RunStatusPending \<or> s = RunStatusRunning \<or> s = RunStatusPaused"

lemma run_active_iff: "run_active s \<longleftrightarrow> \<not> run_terminal s"
  by (cases s) (auto simp: run_active_def run_terminal_def)

section \<open>The other entities\<close>

definition StoryStatusBacklog :: string where "StoryStatusBacklog = ''backlog''"
definition StoryStatusRunning :: string where "StoryStatusRunning = ''running''"
definition StoryStatusDone :: string where "StoryStatusDone = ''done''"
definition StoryStatusFailed :: string where "StoryStatusFailed = ''failed''"

lemmas story_status_consts =
  StoryStatusBacklog_def StoryStatusRunning_def StoryStatusDone_def StoryStatusFailed_def

record story =
  story_id :: uuid
  story_project :: uuid
  story_epic :: "uuid option"
  story_key :: string
  story_title :: string
  story_objective :: "string option"
  story_target_files :: "string list option"
  story_depends_on :: "string list option"
  story_scope :: "string option"
  story_status :: string
  story_acceptance :: "string option"
  story_current_stage :: "string option"
  story_source :: string
  story_external_id :: "string option"
  story_external_item_id :: "string option"
  story_source_url :: "string option"
  story_synced_at :: "time option"
  story_import_hash :: "string option"
  story_writeback_status :: "string option"
  story_created_at :: time
  story_updated_at :: time

text \<open>\<open>range\<close> over a possibly nil slice.\<close>

definition elems :: "'a list option \<Rightarrow> 'a list" where
  "elems xs = (case xs of None \<Rightarrow> [] | Some ys \<Rightarrow> ys)"

record epic =
  epic_id :: uuid
  epic_project :: uuid
  epic_name :: string
  epic_description :: "string option"
  epic_status :: string
  epic_source :: string
  epic_external_id :: "string option"
  epic_source_url :: "string option"
  epic_synced_at :: "time option"
  epic_created_at :: time
  epic_updated_at :: time

text \<open>The planning connector of a project, and an audit row of a status push to its tracker.\<close>

record status_mapping =
  map_backlog :: "string option"
  map_running :: "string option"
  map_done :: "string option"
  map_failed :: "string option"

record planning_connector =
  conn_project :: uuid
  conn_source :: string
  conn_project_url :: "string option"
  conn_status_field :: string
  conn_done_options :: "string list"
  conn_epic_type :: string
  conn_mapping :: status_mapping
  conn_writeback_enabled :: bool
  conn_post_comment :: bool

record write_back =
  wb_project :: uuid
  wb_story :: uuid
  wb_run :: "uuid option"
  wb_source :: "string option"
  wb_external_id :: "string option"
  wb_internal_status :: "string option"
  wb_remote_status :: "string option"
  wb_success :: bool
  wb_error_code :: "string option"
  wb_error_message :: "msg option"

record project =
  project_id :: uuid
  project_name :: string
  project_description :: "string option"
  project_owner :: "uuid option"
  project_repo_url :: "string option"
  project_git_provider :: string
  project_git_token_env :: "string option"
  project_agent_runtime :: string
  project_default_model :: "string option"
  project_max_budget :: "real option"
  project_max_container_timeout :: "time option"
  cb_count :: int
  cb_active :: bool
  cb_max :: int
  project_created_at :: time
  project_updated_at :: time

datatype hitl_status = HITLStatusPending | HITLStatusApproved | HITLStatusRejected | HITLStatusResolved

definition HITLGateApproval :: string where "HITLGateApproval = ''approval''"
definition HITLGateHuman :: string where "HITLGateHuman = ''human''"
definition HITLGateProbeHalt :: string where "HITLGateProbeHalt = ''probe_halt''"

definition HITLActionResume :: string where "HITLActionResume = ''resume''"
definition HITLActionOverride :: string where "HITLActionOverride = ''override''"
definition HITLActionSendBack :: string where "HITLActionSendBack = ''send_back''"
definition HITLActionSkip :: string where "HITLActionSkip = ''skip''"
definition HITLActionAbort :: string where "HITLActionAbort = ''abort''"

lemmas hitl_consts = HITLGateApproval_def HITLGateHuman_def HITLGateProbeHalt_def
  HITLActionResume_def HITLActionOverride_def HITLActionSendBack_def HITLActionSkip_def
  HITLActionAbort_def

definition ValidHITLResolutionAction :: "string \<Rightarrow> bool" where
  "ValidHITLResolutionAction s \<longleftrightarrow>
     s = HITLActionResume \<or> s = HITLActionOverride \<or> s = HITLActionSendBack
     \<or> s = HITLActionSkip \<or> s = HITLActionAbort"

record halt_reason =
  hr_probe :: string
  hr_on_fail :: string
  hr_observed :: real
  hr_threshold :: real
  hr_unit :: string
  hr_detail :: msg

record hitl_request =
  hitl_id :: uuid
  hitl_step :: uuid
  hitl_gate_type :: string
  hitl_diff :: "string option"
  hitl_message :: "msg option"
  hitl_status :: hitl_status
  hitl_resolved_at :: "time option"
  hitl_resolved_by :: "uuid option"
  hitl_rejection_reason :: "string option"
  hitl_halt_reason :: "halt_reason option"
  hitl_resolution_action :: "string option"
  hitl_created_at :: time

datatype epic_run_status =
    EpicRunStatusPending | EpicRunStatusRunning | EpicRunStatusCompleted
  | EpicRunStatusFailed | EpicRunStatusPaused

fun epic_run_status_name :: "epic_run_status \<Rightarrow> string" where
  "epic_run_status_name EpicRunStatusPending = ''pending''"
| "epic_run_status_name EpicRunStatusRunning = ''running''"
| "epic_run_status_name EpicRunStatusCompleted = ''completed''"
| "epic_run_status_name EpicRunStatusFailed = ''failed''"
| "epic_run_status_name EpicRunStatusPaused = ''paused''"

record epic_run =
  er_id :: uuid
  er_project :: uuid
  er_epic :: uuid
  er_status :: epic_run_status
  er_created_at :: time
  er_completed_at :: "time option"

record epic_run_story =
  ers_epic_run :: uuid
  ers_story :: uuid
  ers_run :: "uuid option"
  ers_group :: int
  ers_status :: string

fun validEpicRunTransitions :: "epic_run_status \<Rightarrow> epic_run_status list option" where
  "validEpicRunTransitions EpicRunStatusPending = Some [EpicRunStatusRunning]"
| "validEpicRunTransitions EpicRunStatusRunning =
     Some [EpicRunStatusCompleted, EpicRunStatusFailed, EpicRunStatusPaused]"
| "validEpicRunTransitions EpicRunStatusCompleted = None"
| "validEpicRunTransitions EpicRunStatusFailed = None"
| "validEpicRunTransitions EpicRunStatusPaused = None"

definition ValidateEpicRunTransition :: "epic_run_status \<Rightarrow> epic_run_status \<Rightarrow> unit res" where
  "ValidateEpicRunTransition src dst =
     (case validEpicRunTransitions src of
        None \<Rightarrow> Inl (NewInvalidState ErrCodeInvalidStateTransition
          [T ''no transitions allowed from epic run status: '', T (epic_run_status_name src)])
      | Some allowed \<Rightarrow>
          if dst \<in> set allowed then Inr ()
          else Inl (NewInvalidState ErrCodeInvalidStateTransition
            [T ''cannot transition epic run from '', T (epic_run_status_name src), T '' to '',
             T (epic_run_status_name dst)]))"

text \<open>
  An event, without its own random identifier (no operation reads it): \<open>ev_payload\<close> lists the
  entries of the payload object. \<open>EventName\<close> is the dot notation of its kind.
\<close>

record event =
  ev_project :: uuid
  ev_entity_type :: string
  ev_entity :: uuid
  ev_action :: string
  ev_payload :: "(string \<times> jval) list"
  ev_created_at :: time

definition EventName :: "event \<Rightarrow> string" where
  "EventName e = ev_entity_type e @ ''.'' @ ev_action e"

record agent =
  agent_id :: uuid
  agent_model :: string
  agent_image :: string
  agent_stack_ref :: "uuid option"
  agent_runtime_kind :: string
  agent_template :: string
  agent_provider :: string
  agent_name :: string
  agent_type :: string
  agent_project :: "uuid option"
  agent_scope :: string

definition RuntimeKindFromProvider :: "string \<Rightarrow> string" where
  "RuntimeKindFromProvider provider =
     (if provider = ''opencode'' then ''opencode'' else ''claude_code'')"

record stack =
  stack_id :: uuid
  stack_key :: string
  stack_image_ref :: string

record pipeline_config =
  pc_id :: uuid
  pc_project :: uuid
  pc_yaml :: string
  pc_version :: int
  pc_created_at :: time
  pc_updated_at :: time

record cost_record =
  cr_id :: uuid
  cr_step :: uuid
  cr_project :: uuid
  cr_agent :: "uuid option"
  cr_tokens_in :: int
  cr_tokens_out :: int
  cr_cost :: real
  cr_model :: string
  cr_created_at :: time

record run_context =
  rc_run :: run
  rc_step :: run_step
  rc_project :: uuid
  rc_story :: uuid
  rc_user :: uuid
  rc_metadata :: metadata

section \<open>People, secrets and notifications\<close>

text \<open>
  \<open>usr_deleted_at\<close> marks a soft-deleted account. The text of a reset token is a fresh
  identifier; an encrypted value is the byte string the encryption returned.
\<close>

definition RoleAdmin :: string where "RoleAdmin = ''admin''"
definition RoleUser :: string where "RoleUser = ''user''"

record user =
  usr_id :: uuid
  usr_email :: string
  usr_password :: string
  usr_name :: string
  usr_role :: string
  usr_created_at :: time
  usr_updated_at :: time
  usr_deleted_at :: "time option"

record reset_token =
  rt_id :: uuid
  rt_user :: uuid
  rt_token :: uuid
  rt_expires :: time
  rt_used :: "time option"
  rt_created_at :: time

record project_member =
  pm_project :: uuid
  pm_user :: uuid
  pm_role :: string
  pm_created_at :: time

record user_api_key =
  key_id :: uuid
  key_user :: uuid
  key_provider :: string
  key_name :: string
  key_encrypted :: string
  key_hint :: string
  key_created_at :: time
  key_updated_at :: time

record credential =
  cred_id :: uuid
  cred_name :: string
  cred_scope :: string
  cred_project :: "uuid option"
  cred_value :: string
  cred_created_at :: time
  cred_updated_at :: time

record git_connection =
  gc_id :: uuid
  gc_project :: uuid
  gc_provider :: string
  gc_kind :: string
  gc_secret :: string
  gc_last4 :: "string option"
  gc_token_type :: "string option"
  gc_scopes :: "string list"
  gc_status :: string
  gc_login :: "string option"
  gc_expires :: "time option"
  gc_validated :: "time option"
  gc_error :: "string option"
  gc_created_at :: time
  gc_updated_at :: time

record capability =
  cap_id :: uuid
  cap_kind :: string
  cap_name :: string
  cap_version :: int
  cap_scope :: string
  cap_project :: "uuid option"
  cap_spec :: string
  cap_created_at :: time

record notification_config =
  nc_id :: uuid
  nc_project :: uuid
  nc_channel :: string
  nc_config :: "string \<rightharpoonup> string"
  nc_events :: "string list"
  nc_enabled :: bool
  nc_created_at :: time
  nc_updated_at :: time

section \<open>The surroundings of an agent\<close>

text \<open>The environment of a project: its stacks, sidecar services and setup commands.\<close>

record env_service =
  svc_name :: string
  svc_image :: string
  svc_env :: "string \<rightharpoonup> string"

record environment =
  env_id :: uuid
  env_project :: uuid
  env_stacks :: "string list"
  env_services :: "env_service list"
  env_source :: string
  env_commands :: "(string \<times> string) list"
  env_created_at :: time
  env_updated_at :: time

text \<open>The bearer token of an agent container; its text is a fresh identifier.\<close>

record container_token =
  tok_token :: uuid
  tok_run :: uuid
  tok_step :: uuid
  tok_agent :: uuid
  tok_role :: string
  tok_expires :: time

record container_opts =
  co_image :: string
  co_network :: string
  co_memory :: int
  co_cpus :: real
  co_env :: "msg list"
  co_labels :: "(string \<times> msg) list"
  co_extra_networks :: "string list"
  co_entrypoint :: "string list"
  co_cmd :: "string list"

record callback_spec =
  cs_url :: string
  cs_token :: "uuid option"
  cs_run :: uuid
  cs_step :: uuid

record run_spec =
  sp_runtime_kind :: string
  sp_model :: string
  sp_provider :: string
  sp_image :: string
  sp_prompt :: msg
  sp_env :: "msg list"
  sp_labels :: "(string \<times> msg) list"
  sp_memory :: int
  sp_cpus :: real
  sp_network :: string
  sp_callback :: "callback_spec option"

text \<open>
  A call that changed something outside the board: the container manager, the sidecar manager and
  the execution substrate (with the identifier they returned), the status of an item on the
  tracker, a branch or a pull request on the git host, a message, a notification.
\<close>

datatype call =
    CallCreate container_opts string
  | CallStart string
  | CallStop string
  | CallRemove string
  | CallLaunch run_spec string
  | CallStopRun string
  | CallSidecars uuid string
  | CallCleanup uuid string
  | CallTracker string string string
  | CallBranch string string string
  | CallPullRequest string string string
  | CallEmail string uuid
  | CallNotify string "string \<rightharpoonup> string" event

section \<open>Progress of a run\<close>

text \<open>
  \<open>int(float64(completed) / float64(len(steps)) * 100)\<close>. \<open>rne a b\<close> is \<open>a / b\<close> rounded to the
  nearest integer, ties to even. The quotient of \<open>c \<le> n\<close> is the 53-bit significand
  \<open>m = rne (c * 2 ^ k) n\<close> scaled by \<open>2 ^ (- k)\<close>, where \<open>dbl c n\<close> doublings bring \<open>c\<close> up to
  \<open>n\<close>; the product with 100 is rounded to 53 bits again and then truncated.
\<close>

definition rne :: "nat \<Rightarrow> nat \<Rightarrow> nat" where
  "rne a b =
     (let q = a div b; r = a mod b in
      if 2 * r < b then q else if 2 * r > b then q + 1 else if even q then q else q + 1)"

function (sequential) dbl :: "nat \<Rightarrow> nat \<Rightarrow> nat" where
  "dbl 0 n = 0"
| "dbl (Suc c) n = (if n \<le> Suc c then 0 else Suc (dbl (2 * Suc c) n))"
  by pat_completeness auto
termination by (relation "measure (\<lambda>(c, n). n - c)") auto

definition percentOf :: "nat \<Rightarrow> nat \<Rightarrow> nat" where
  "percentOf c n =
     (if c = 0 then 0
      else
        let k = 52 + dbl c n;
            p = 100 * rne (c * 2 ^ k) n;
            s = (if p < 2 ^ 59 then 6 else 7)
        in (rne p (2 ^ s) * 2 ^ s) div 2 ^ k)"

definition ComputeProgress :: "run_step list \<Rightarrow> nat" where
  "ComputeProgress steps =
     (if steps = [] then 0
      else percentOf (length (filter (\<lambda>s. rs_status s = StepStatusCompleted) steps)) (length steps))"

end
