(* ===== verification/Store.thy ===== *)
theory Store
  imports Model
begin

text \<open>
  The PostgreSQL store and the other shared state the services act on, with the repositories of
  \<open>backend/internal/adapter/postgres\<close> (\<open>run_repo.go\<close>, \<open>story_repo.go\<close>, \<open>project_repo.go\<close>,
  \<open>hitl_repo.go\<close>, \<open>epic_run_repository.go\<close>, \<open>event_repo.go\<close>) as operations on it: every query
  of \<open>backend/queries\<close> they run is written out on tables that are lists of rows in insertion
  order. Every round trip to the database or to the job queue can fail: the list \<open>w_faults\<close>
  says which of the next calls do (the call then has no effect and returns the repository's
  internal error), so a theorem that does not restrict it holds under every pattern of failures.
  Constraint violations the schema declares and the code reacts to are modelled; column lengths
  are not.
\<close>

section \<open>The state\<close>

datatype job =
    JobExecuteRun uuid
  | JobWriteBack uuid uuid uuid string

record world =
  w_runs :: "run list"
  w_steps :: "run_step list"
  w_stories :: "story list"
  w_projects :: "project list"
  w_hitl :: "hitl_request list"
  w_epics :: "epic list"
  w_epic_runs :: "epic_run list"
  w_epic_run_stories :: "epic_run_story list"
  w_configs :: "pipeline_config list"
  w_agents :: "agent list"
  w_stacks :: "stack list"
  w_costs :: "cost_record list"
  w_connectors :: "planning_connector list"
  w_writebacks :: "write_back list"
  w_events :: "event list"
  w_jobs :: "job list"
  w_stops :: "string list"
  w_users :: "user list"
  w_resets :: "reset_token list"
  w_revoked :: "(uuid \<times> time) list"
  w_members :: "project_member list"
  w_api_keys :: "user_api_key list"
  w_credentials :: "credential list"
  w_git :: "git_connection list"
  w_capabilities :: "capability list"
  w_agent_caps :: "(uuid \<times> uuid) list"
  w_notify :: "notification_config list"
  w_environments :: "environment list"
  w_tokens :: "container_token list"
  w_channels :: "uuid \<rightharpoonup> (int \<times> string) option"
  w_calls :: "call list"
  w_clock :: time
  w_tick :: nat
  w_next :: uuid
  w_faults :: "bool list"

type_synonym 'a op = "(world, 'a) state"
type_synonym 'a fop = "(world, 'a res) state"

definition reading :: "(world \<Rightarrow> 'a) \<Rightarrow> 'a op" where
  "reading f = State (\<lambda>w. (f w, w))"

definition writing :: "(world \<Rightarrow> 'a \<times> world) \<Rightarrow> 'a op" where
  "writing f = State f"

text \<open>\<open>time.Now\<close>: the clock moves by an arbitrary amount \<open>w_tick\<close> at each reading.\<close>

definition time_now :: "time op" where
  "time_now = writing (\<lambda>w. (w_clock w, w\<lparr>w_clock := w_clock w + int (w_tick w)\<rparr>))"

text \<open>\<open>uuid.New\<close>, and the identifiers the database generates.\<close>

definition uuid_new :: "uuid op" where
  "uuid_new = writing (\<lambda>w. (w_next w, w\<lparr>w_next := Suc (w_next w)\<rparr>))"

definition pop_fault :: "bool op" where
  "pop_fault = writing (\<lambda>w. case w_faults w of [] \<Rightarrow> (False, w) | b # bs \<Rightarrow> (b, w\<lparr>w_faults := bs\<rparr>))"

definition db_failure :: err where
  "db_failure = PlainErr [T ''database error'']"

definition fault_op :: "err \<Rightarrow> 'a fop \<Rightarrow> 'a fop" where
  "fault_op e m = do { down \<leftarrow> pop_fault; if down then fail e else m }"

definition db_op :: "string \<Rightarrow> 'a fop \<Rightarrow> 'a fop" where
  "db_op what = fault_op (NewInternal what db_failure)"

text \<open>An \<open>UPDATE ... WHERE id = $1 RETURNING *\<close> on a table, with its not-found error.\<close>

definition update_row ::
  "(world \<Rightarrow> 'r list) \<Rightarrow> ('r list \<Rightarrow> world \<Rightarrow> world) \<Rightarrow> ('r \<Rightarrow> uuid) \<Rightarrow> string \<Rightarrow> uuid
     \<Rightarrow> (world \<Rightarrow> 'r \<Rightarrow> 'r) \<Rightarrow> 'r fop" where
  "update_row tbl set_tbl key what i f =
     writing (\<lambda>w. case tbl_find key i (tbl w) of
         None \<Rightarrow> (Inl (NewNotFound what (U i)), w)
       | Some r \<Rightarrow> (Inr (f w r), set_tbl (tbl_update key i (f w) (tbl w)) w))"

definition find_row ::
  "(world \<Rightarrow> 'r list) \<Rightarrow> ('r \<Rightarrow> uuid) \<Rightarrow> string \<Rightarrow> uuid \<Rightarrow> 'r fop" where
  "find_row tbl key what i =
     reading (\<lambda>w. case tbl_find key i (tbl w) of
         None \<Rightarrow> Inl (NewNotFound what (U i)) | Some r \<Rightarrow> Inr r)"

section \<open>Runs\<close>

abbreviation set_runs :: "run list \<Rightarrow> world \<Rightarrow> world" where
  "set_runs rs w \<equiv> w\<lparr>w_runs := rs\<rparr>"

abbreviation set_steps :: "run_step list \<Rightarrow> world \<Rightarrow> world" where
  "set_steps rs w \<equiv> w\<lparr>w_steps := rs\<rparr>"

text \<open>\<open>CreateRun\<close>: the foreign key on the project is the only constraint; there is none on the story.\<close>

definition CreateRun ::
  "uuid \<Rightarrow> uuid \<Rightarrow> run_status \<Rightarrow> snapshot \<Rightarrow> metadata \<Rightarrow> run fop" where
  "CreateRun project_arg story_arg status snap meta =
     db_op ''failed to create run''
       (writing (\<lambda>w.
          if tbl_find project_id project_arg (w_projects w) = None
          then (Inl (NewNotFound ''project'' (U project_arg)), w)
          else
            let r = \<lparr>run_id = w_next w, run_project = project_arg, run_story = story_arg,
                     run_status = status, run_snapshot = snap, run_metadata = meta,
                     run_started_at = None, run_completed_at = None, run_paused_at = None,
                     run_error = None, run_created_at = w_clock w, run_updated_at = w_clock w\<rparr>
            in (Inr r, w\<lparr>w_runs := w_runs w @ [r], w_next := Suc (w_next w)\<rparr>)))"

definition GetRun :: "uuid \<Rightarrow> run fop" where
  "GetRun i = db_op ''failed to get run'' (find_row w_runs run_id ''run'' i)"

text \<open>The most recent pending, running or paused run of a story, if any.\<close>

definition GetActiveRunByStory :: "uuid \<Rightarrow> run option fop" where
  "GetActiveRunByStory sid =
     db_op ''failed to get active run by story''
       (reading (\<lambda>w. Inr (find (\<lambda>r. run_story r = sid \<and> run_active (run_status r)) (rev (w_runs w)))))"

definition ListRunsByStatus :: "run_status \<Rightarrow> run list fop" where
  "ListRunsByStatus st =
     db_op ''failed to list runs by status''
       (reading (\<lambda>w. Inr (filter (\<lambda>r. run_status r = st) (w_runs w))))"

definition orphan_run :: "time \<Rightarrow> msg \<Rightarrow> world \<Rightarrow> run \<Rightarrow> run" where
  "orphan_run t m w r =
     (if run_status r = RunStatusRunning
      then r\<lparr>run_status := RunStatusFailed, run_completed_at := Some t, run_error := Some m,
             run_updated_at := w_clock w\<rparr>
      else r)"

text \<open>\<open>MarkRunOrphanedIfRunning\<close>: the number of affected rows is positive.\<close>

definition MarkRunOrphanedIfRunning :: "uuid \<Rightarrow> time \<Rightarrow> msg \<Rightarrow> bool fop" where
  "MarkRunOrphanedIfRunning i t m =
     db_op ''failed to mark run orphaned''
       (writing (\<lambda>w.
          (Inr (\<exists>r \<in> set (w_runs w). run_id r = i \<and> run_status r = RunStatusRunning),
           w\<lparr>w_runs := tbl_update run_id i (orphan_run t m w) (w_runs w)\<rparr>)))"

definition set_run_status ::
  "run_status \<Rightarrow> time option \<Rightarrow> time option \<Rightarrow> time option \<Rightarrow> msg option \<Rightarrow> world \<Rightarrow> run \<Rightarrow> run" where
  "set_run_status st sa ca pa em w r =
     r\<lparr>run_status := st,
       run_started_at := coalesce sa (run_started_at r),
       run_completed_at := coalesce ca (run_completed_at r),
       run_paused_at := coalesce pa (run_paused_at r),
       run_error := coalesce em (run_error r),
       run_updated_at := w_clock w\<rparr>"

definition UpdateRunStatus ::
  "uuid \<Rightarrow> run_status \<Rightarrow> time option \<Rightarrow> time option \<Rightarrow> time option \<Rightarrow> msg option \<Rightarrow> run fop" where
  "UpdateRunStatus i st sa ca pa em =
     db_op ''failed to update run status''
       (update_row w_runs set_runs run_id ''run'' i (set_run_status st sa ca pa em))"

definition UpdateRunMetadata :: "uuid \<Rightarrow> metadata \<Rightarrow> unit fop" where
  "UpdateRunMetadata i meta =
     db_op ''failed to update run metadata''
       (writing (\<lambda>w. (Inr (),
          w\<lparr>w_runs := tbl_update run_id i
               (\<lambda>r. r\<lparr>run_metadata := meta, run_updated_at := w_clock w\<rparr>) (w_runs w)\<rparr>)))"

section \<open>Run steps\<close>

definition insert_step :: "string \<Rightarrow> (world \<Rightarrow> run_step) \<Rightarrow> run_step fop" where
  "insert_step what mk =
     writing (\<lambda>w.
       if tbl_find run_id (rs_run (mk w)) (w_runs w) = None
          \<or> (\<exists>p. rs_parent (mk w) = Some p \<and> tbl_find rs_id p (w_steps w) = None)
       then (Inl (NewInternal what db_failure), w)
       else (Inr (mk w), w\<lparr>w_steps := w_steps w @ [mk w]\<rparr>))"

definition blank_step :: "uuid \<Rightarrow> uuid \<Rightarrow> string \<Rightarrow> int \<Rightarrow> string \<Rightarrow> step_status \<Rightarrow> time \<Rightarrow> run_step" where
  "blank_step i r name ord act st now =
     \<lparr>rs_id = i, rs_run = r, rs_name = name, rs_order = ord, rs_action = act, rs_status = st,
      rs_started_at = None, rs_completed_at = None, rs_error = None, rs_container = None,
      rs_log_tail = None, rs_stage_id = [], rs_stage_name = [], rs_retry_count = 0,
      rs_retry_type = None, rs_parent = None, rs_config = None, rs_created_at = now\<rparr>"

definition CreateRunStep ::
  "uuid \<Rightarrow> string \<Rightarrow> int \<Rightarrow> string \<Rightarrow> step_status \<Rightarrow> string \<Rightarrow> string \<Rightarrow> run_step fop" where
  "CreateRunStep r name ord act st stage_id stage_name =
     db_op ''failed to create run step''
       (do { i \<leftarrow> uuid_new;
             insert_step ''failed to create run step''
               (\<lambda>w. (blank_step i r name ord act st (w_clock w))
                  \<lparr>rs_stage_id := stage_id, rs_stage_name := stage_name\<rparr>) })"

text \<open>\<open>CreateRetryRunStep\<close> inserts the row of a retry under the identifier the service chose.\<close>

definition CreateRetryRunStep :: "run_step \<Rightarrow> run_step fop" where
  "CreateRetryRunStep s =
     db_op ''failed to create retry run step''
       (insert_step ''failed to create retry run step''
          (\<lambda>w. (blank_step (rs_id s) (rs_run s) (rs_name s) (rs_order s) (rs_action s)
                   (rs_status s) (w_clock w))
             \<lparr>rs_retry_count := rs_retry_count s, rs_retry_type := rs_retry_type s,
              rs_parent := rs_parent s, rs_stage_id := rs_stage_id s,
              rs_stage_name := rs_stage_name s\<rparr>))"

definition GetRunStep :: "uuid \<Rightarrow> run_step fop" where
  "GetRunStep i = db_op ''failed to get run step'' (find_row w_steps rs_id ''run step'' i)"

text \<open>Ties of \<open>step_order\<close> are returned in insertion order.\<close>

definition steps_of :: "uuid \<Rightarrow> world \<Rightarrow> run_step list" where
  "steps_of i w = sort_key rs_order (filter (\<lambda>s. rs_run s = i) (w_steps w))"

definition ListRunStepsByRun :: "uuid \<Rightarrow> run_step list fop" where
  "ListRunStepsByRun i = db_op ''failed to list run steps'' (reading (\<lambda>w. Inr (steps_of i w)))"

definition ListRetryStepsByParent :: "uuid \<Rightarrow> run_step list fop" where
  "ListRetryStepsByParent p =
     db_op ''failed to list retry steps by parent''
       (reading (\<lambda>w. Inr (sort_key rs_retry_count (filter (\<lambda>s. rs_parent s = Some p) (w_steps w)))))"

definition set_step_status ::
  "step_status \<Rightarrow> time option \<Rightarrow> time option \<Rightarrow> msg option \<Rightarrow> world \<Rightarrow> run_step \<Rightarrow> run_step" where
  "set_step_status st sa ca em w s =
     s\<lparr>rs_status := st,
       rs_started_at := coalesce sa (rs_started_at s),
       rs_completed_at := coalesce ca (rs_completed_at s),
       rs_error := coalesce em (rs_error s)\<rparr>"

definition UpdateRunStepStatus ::
  "uuid \<Rightarrow> step_status \<Rightarrow> time option \<Rightarrow> time option \<Rightarrow> msg option \<Rightarrow> run_step fop" where
  "UpdateRunStepStatus i st sa ca em =
     db_op ''failed to update run step status''
       (update_row w_steps set_steps rs_id ''run step'' i (set_step_status st sa ca em))"

definition UpdateRunStepContainerInfo ::
  "uuid \<Rightarrow> string option \<Rightarrow> string option \<Rightarrow> run_step fop" where
  "UpdateRunStepContainerInfo i c l =
     db_op ''failed to update run step container info''
       (update_row w_steps set_steps rs_id ''run step'' i
          (\<lambda>w s. s\<lparr>rs_container := coalesce c (rs_container s),
                   rs_log_tail := coalesce l (rs_log_tail s)\<rparr>))"

text \<open>\<open>right(coalesce(log_tail, '') || $2, 16000)\<close>.\<close>

definition append_log_tail :: "string \<Rightarrow> string option \<Rightarrow> string" where
  "append_log_tail t old =
     (let s = (case old of None \<Rightarrow> [] | Some x \<Rightarrow> x) @ t in drop (length s - 16000) s)"

definition AppendStepLogTail :: "uuid \<Rightarrow> string \<Rightarrow> unit fop" where
  "AppendStepLogTail i t =
     db_op ''failed to append run step log tail''
       (writing (\<lambda>w. (Inr (),
          w\<lparr>w_steps := tbl_update rs_id i
               (\<lambda>s. s\<lparr>rs_log_tail := Some (append_log_tail t (rs_log_tail s))\<rparr>) (w_steps w)\<rparr>)))"

section \<open>Stories and projects\<close>

abbreviation set_stories :: "story list \<Rightarrow> world \<Rightarrow> world" where
  "set_stories rs w \<equiv> w\<lparr>w_stories := rs\<rparr>"

abbreviation set_projects :: "project list \<Rightarrow> world \<Rightarrow> world" where
  "set_projects rs w \<equiv> w\<lparr>w_projects := rs\<rparr>"

definition GetStoryByID :: "uuid \<Rightarrow> story fop" where
  "GetStoryByID i = db_op ''failed to get story'' (find_row w_stories story_id ''story'' i)"

text \<open>
  \<open>StoryRepo.Update\<close>: the columns the query writes, each with its \<open>COALESCE\<close>; the current
  stage, the provenance and the write-back status are not among them.
\<close>

definition set_story :: "story \<Rightarrow> world \<Rightarrow> story \<Rightarrow> story" where
  "set_story x w s =
     s\<lparr>story_title := story_title x,
       story_objective := coalesce (story_objective x) (story_objective s),
       story_target_files := coalesce (story_target_files x) (story_target_files s),
       story_depends_on := coalesce (story_depends_on x) (story_depends_on s),
       story_scope := coalesce (story_scope x) (story_scope s),
       story_status := story_status x,
       story_acceptance := coalesce (story_acceptance x) (story_acceptance s),
       story_epic := coalesce (story_epic x) (story_epic s),
       story_updated_at := w_clock w\<rparr>"

definition UpdateStory :: "story \<Rightarrow> story fop" where
  "UpdateStory x =
     db_op ''failed to update story''
       (update_row w_stories set_stories story_id ''story'' (story_id x) (set_story x))"

definition UpdateStoryCurrentStage :: "uuid \<Rightarrow> string option \<Rightarrow> story fop" where
  "UpdateStoryCurrentStage i stage =
     db_op ''failed to update story current stage''
       (update_row w_stories set_stories story_id ''story'' i
          (\<lambda>w s. s\<lparr>story_current_stage := stage, story_updated_at := w_clock w\<rparr>))"

definition SetWritebackStatus :: "uuid \<Rightarrow> string \<Rightarrow> unit fop" where
  "SetWritebackStatus i st =
     db_op ''failed to set story writeback status''
       (writing (\<lambda>w. (Inr (),
          w\<lparr>w_stories := tbl_update story_id i
               (\<lambda>s. s\<lparr>story_writeback_status := Some st, story_updated_at := w_clock w\<rparr>)
               (w_stories w)\<rparr>)))"

text \<open>\<open>LIMIT\<close> and \<open>OFFSET\<close>; the epic's stories newest first.\<close>

definition ListStoriesByEpic :: "uuid \<Rightarrow> nat \<Rightarrow> nat \<Rightarrow> story list fop" where
  "ListStoriesByEpic e limit offset =
     db_op ''failed to list stories by epic''
       (reading (\<lambda>w. Inr (take limit (drop offset
          (rev (filter (\<lambda>s. story_epic s = Some e) (w_stories w)))))))"

text \<open>\<open>toDomainProject\<close> does not fill in the project's container timeout.\<close>

definition toDomainProject :: "project \<Rightarrow> project" where
  "toDomainProject p = p\<lparr>project_max_container_timeout := None\<rparr>"

definition GetProjectByID :: "uuid \<Rightarrow> project fop" where
  "GetProjectByID i =
     db_op ''failed to get project''
       (reading (\<lambda>w. case tbl_find project_id i (w_projects w) of
           None \<Rightarrow> Inl (NewNotFound ''project'' (U i)) | Some p \<Rightarrow> Inr (toDomainProject p)))"

lemma toDomainProject_fields [simp]:
  "project_id (toDomainProject p) = project_id p" "cb_count (toDomainProject p) = cb_count p"
  "cb_active (toDomainProject p) = cb_active p" "cb_max (toDomainProject p) = cb_max p"
  "project_max_container_timeout (toDomainProject p) = None"
  by (simp_all add: toDomainProject_def)

definition increment_breaker :: "world \<Rightarrow> project \<Rightarrow> project" where
  "increment_breaker w p =
     p\<lparr>cb_count := cb_count p + 1,
       cb_active := (if cb_max p \<le> cb_count p + 1 then True else cb_active p),
       project_updated_at := w_clock w\<rparr>"

definition reset_breaker :: "world \<Rightarrow> project \<Rightarrow> project" where
  "reset_breaker w p = p\<lparr>cb_count := 0, cb_active := False, project_updated_at := w_clock w\<rparr>"

definition IncrementCircuitBreakerCount :: "uuid \<Rightarrow> project fop" where
  "IncrementCircuitBreakerCount i =
     db_op ''failed to increment circuit breaker count''
       (update_row w_projects set_projects project_id ''project'' i increment_breaker)"

definition ResetCircuitBreaker :: "uuid \<Rightarrow> project fop" where
  "ResetCircuitBreaker i =
     db_op ''failed to reset circuit breaker''
       (update_row w_projects set_projects project_id ''project'' i reset_breaker)"

text \<open>The configuration tables a launch reads: pipeline configurations, agents, stacks.\<close>

definition GetPipelineConfig :: "uuid \<Rightarrow> pipeline_config fop" where
  "GetPipelineConfig p =
     db_op ''failed to get pipeline config'' (find_row w_configs pc_project ''pipeline_config'' p)"

text \<open>Rows from before the columns existed have no provider or runtime.\<close>

definition toDomainAgent :: "agent \<Rightarrow> agent" where
  "toDomainAgent a =
     (let provider = (if agent_provider a = [] then ''claude'' else agent_provider a)
      in a\<lparr>agent_provider := provider,
           agent_runtime_kind := (if agent_runtime_kind a = [] then RuntimeKindFromProvider provider
                                  else agent_runtime_kind a)\<rparr>)"

lemma toDomainAgent_simps [simp]:
  "agent_id (toDomainAgent a) = agent_id a" "agent_stack_ref (toDomainAgent a) = agent_stack_ref a"
  "agent_image (toDomainAgent a) = agent_image a" "agent_project (toDomainAgent a) = agent_project a"
  "agent_name (toDomainAgent a) = agent_name a" "agent_scope (toDomainAgent a) = agent_scope a"
  "agent_model (toDomainAgent a) = agent_model a" "agent_template (toDomainAgent a) = agent_template a"
  "agent_type (toDomainAgent a) = agent_type a"
  by (simp_all add: toDomainAgent_def Let_def)

definition GetAgent :: "uuid \<Rightarrow> agent fop" where
  "GetAgent i =
     db_op ''failed to get agent''
       (reading (\<lambda>w. case tbl_find agent_id i (w_agents w) of
           None \<Rightarrow> Inl (NewNotFound ''agent'' (U i)) | Some a \<Rightarrow> Inr (toDomainAgent a)))"

definition GetStack :: "uuid \<Rightarrow> stack fop" where
  "GetStack i = db_op ''failed to get stack'' (find_row w_stacks stack_id ''stack'' i)"

section \<open>Human-in-the-loop requests\<close>

abbreviation set_hitl :: "hitl_request list \<Rightarrow> world \<Rightarrow> world" where
  "set_hitl rs w \<equiv> w\<lparr>w_hitl := rs\<rparr>"

text \<open>\<open>created_at\<close> is the database clock; a missing step is the foreign key's not-found error.\<close>

definition CreateHITL :: "hitl_request \<Rightarrow> hitl_request fop" where
  "CreateHITL req =
     db_op ''failed to create HITL request''
       (writing (\<lambda>w.
          if tbl_find rs_id (hitl_step req) (w_steps w) = None
          then (Inl (NewNotFound ''run_step'' (U (hitl_step req))), w)
          else
            let r = req\<lparr>hitl_resolved_at := None, hitl_resolved_by := None,
                        hitl_rejection_reason := None, hitl_resolution_action := None,
                        hitl_created_at := w_clock w\<rparr>
            in (Inr r, w\<lparr>w_hitl := w_hitl w @ [r]\<rparr>)))"

definition GetHITLByID :: "uuid \<Rightarrow> hitl_request fop" where
  "GetHITLByID i = db_op ''failed to get HITL request'' (find_row w_hitl hitl_id ''hitl_request'' i)"

text \<open>\<open>LIMIT 1\<close> without an order: the oldest row of the step.\<close>

definition GetHITLByRunStepID :: "uuid \<Rightarrow> hitl_request fop" where
  "GetHITLByRunStepID s =
     db_op ''failed to get HITL request by run step ID'' (find_row w_hitl hitl_step ''hitl_request'' s)"

definition set_hitl_status ::
  "hitl_status \<Rightarrow> uuid option \<Rightarrow> string option \<Rightarrow> string option \<Rightarrow> time \<Rightarrow> world
     \<Rightarrow> hitl_request \<Rightarrow> hitl_request" where
  "set_hitl_status st who reason act t w h =
     h\<lparr>hitl_status := st, hitl_resolved_at := Some t, hitl_resolved_by := who,
       hitl_rejection_reason := reason,
       hitl_resolution_action := coalesce act (hitl_resolution_action h)\<rparr>"

definition UpdateHITLStatus ::
  "uuid \<Rightarrow> hitl_status \<Rightarrow> uuid option \<Rightarrow> string option \<Rightarrow> time \<Rightarrow> hitl_request fop" where
  "UpdateHITLStatus i st who reason t =
     db_op ''failed to update HITL request status''
       (update_row w_hitl set_hitl hitl_id ''hitl_request'' i (set_hitl_status st who reason None t))"

definition UpdateHITLResolution ::
  "uuid \<Rightarrow> hitl_status \<Rightarrow> uuid option \<Rightarrow> string \<Rightarrow> time \<Rightarrow> hitl_request fop" where
  "UpdateHITLResolution i st who act t =
     db_op ''failed to update HITL request resolution''
       (update_row w_hitl set_hitl hitl_id ''hitl_request'' i
          (set_hitl_status st who None (if act = [] then None else Some act) t))"

section \<open>Events and the job queue\<close>

definition Publish ::
  "uuid \<Rightarrow> string \<Rightarrow> uuid \<Rightarrow> string \<Rightarrow> (string \<times> jval) list \<Rightarrow> unit fop" where
  "Publish project_arg typ ent act payload =
     do { t \<leftarrow> time_now;
          db_op ''failed to create event''
            (writing (\<lambda>w.
               if tbl_find project_id project_arg (w_projects w) = None
               then (Inl (NewNotFound ''project'' (U project_arg)), w)
               else (Inr (), w\<lparr>w_events := w_events w @
                  [\<lparr>ev_project = project_arg, ev_entity_type = typ, ev_entity = ent,
                    ev_action = act, ev_payload = payload, ev_created_at = t\<rparr>]\<rparr>))) }"

text \<open>Publishing is best effort everywhere: the error is logged or dropped.\<close>

definition publishEvent ::
  "uuid \<Rightarrow> string \<Rightarrow> uuid \<Rightarrow> string \<Rightarrow> (string \<times> jval) list \<Rightarrow> unit op" where
  "publishEvent project_arg typ ent act payload =
     do { _ \<leftarrow> Publish project_arg typ ent act payload; skip }"

definition enqueue :: "string \<Rightarrow> job \<Rightarrow> unit fop" where
  "enqueue what j =
     fault_op (WrapErr [T what] db_failure) (writing (\<lambda>w. (Inr (), w\<lparr>w_jobs := w_jobs w @ [j]\<rparr>)))"

definition EnqueueExecuteRun :: "uuid \<Rightarrow> unit fop" where
  "EnqueueExecuteRun i = enqueue ''enqueue execute_run job'' (JobExecuteRun i)"

definition EnqueueWriteBack :: "uuid \<Rightarrow> uuid \<Rightarrow> uuid \<Rightarrow> string \<Rightarrow> unit fop" where
  "EnqueueWriteBack p s r st = enqueue ''enqueue planning_write_back job'' (JobWriteBack p s r st)"

section \<open>Evaluation\<close>

lemma run_reading [run_simps]: "run_state (reading f) w = (f w, w)"
  by (simp add: reading_def)

lemma run_writing [run_simps]: "run_state (writing f) w = f w"
  by (simp add: writing_def)

lemma run_time_now [run_simps]:
  "run_state time_now w = (w_clock w, w\<lparr>w_clock := w_clock w + int (w_tick w)\<rparr>)"
  by (simp add: time_now_def run_simps)

lemma run_uuid_new [run_simps]:
  "run_state uuid_new w = (w_next w, w\<lparr>w_next := Suc (w_next w)\<rparr>)"
  by (simp add: uuid_new_def run_simps)

lemma run_return [run_simps]: "run_state (State_Monad.return x) w = (x, w)"
  by (simp add: State_Monad.return_def)

text \<open>With no pending fault a repository call is the query itself.\<close>

lemma run_fault_op [run_simps]:
  "w_faults w = [] \<Longrightarrow> run_state (fault_op e m) w = run_state m w"
  by (simp add: fault_op_def pop_fault_def run_simps)

lemma run_fault_op_faults:
  "run_state (fault_op e m) w =
     (case w_faults w of
        [] \<Rightarrow> run_state m w
      | b # bs \<Rightarrow> if b then (Inl e, w\<lparr>w_faults := bs\<rparr>) else run_state m (w\<lparr>w_faults := bs\<rparr>))"
  by (simp add: fault_op_def pop_fault_def run_simps split: list.splits)

lemma run_db_op [run_simps]:
  "w_faults w = [] \<Longrightarrow> run_state (db_op what m) w = run_state m w"
  by (simp add: db_op_def run_simps)

lemmas run_db_op_faults = run_fault_op_faults [of "NewInternal what db_failure" for what,
    folded db_op_def]

lemma run_update_row [run_simps]:
  "run_state (update_row tbl set_tbl key what i f) w =
     (case tbl_find key i (tbl w) of
        None \<Rightarrow> (Inl (NewNotFound what (U i)), w)
      | Some r \<Rightarrow> (Inr (f w r), set_tbl (tbl_update key i (f w) (tbl w)) w))"
  by (simp add: update_row_def run_simps)

lemma run_find_row [run_simps]:
  "run_state (find_row tbl key what i) w =
     (case tbl_find key i (tbl w) of
        None \<Rightarrow> (Inl (NewNotFound what (U i)), w) | Some r \<Rightarrow> (Inr r, w))"
  by (simp add: find_row_def run_simps split: option.splits)

lemmas run_ops =
  CreateRun_def GetRun_def GetActiveRunByStory_def ListRunsByStatus_def
  MarkRunOrphanedIfRunning_def UpdateRunStatus_def UpdateRunMetadata_def insert_step_def
  CreateRunStep_def CreateRetryRunStep_def GetRunStep_def ListRunStepsByRun_def
  ListRetryStepsByParent_def UpdateRunStepStatus_def UpdateRunStepContainerInfo_def
  AppendStepLogTail_def

lemmas other_ops =
  GetStoryByID_def UpdateStory_def UpdateStoryCurrentStage_def SetWritebackStatus_def
  ListStoriesByEpic_def GetProjectByID_def IncrementCircuitBreakerCount_def
  ResetCircuitBreaker_def GetPipelineConfig_def GetAgent_def GetStack_def CreateHITL_def GetHITLByID_def GetHITLByRunStepID_def
  UpdateHITLStatus_def UpdateHITLResolution_def Publish_def publishEvent_def enqueue_def
  EnqueueExecuteRun_def EnqueueWriteBack_def

declare run_ops [op_defs] other_ops [op_defs]

lemma set_status_fields [simp]:
  "run_id (set_run_status st sa ca pa em w r) = run_id r"
  "run_project (set_run_status st sa ca pa em w r) = run_project r"
  "run_story (set_run_status st sa ca pa em w r) = run_story r"
  "run_status (set_run_status st sa ca pa em w r) = st"
  "run_snapshot (set_run_status st sa ca pa em w r) = run_snapshot r"
  "run_metadata (set_run_status st sa ca pa em w r) = run_metadata r"
  "run_id (orphan_run t m w r) = run_id r"
  "run_story (orphan_run t m w r) = run_story r"
  "rs_id (set_step_status st' sa ca em w s) = rs_id s"
  "rs_run (set_step_status st' sa ca em w s) = rs_run s"
  "rs_order (set_step_status st' sa ca em w s) = rs_order s"
  "rs_name (set_step_status st' sa ca em w s) = rs_name s"
  "rs_action (set_step_status st' sa ca em w s) = rs_action s"
  "rs_stage_id (set_step_status st' sa ca em w s) = rs_stage_id s"
  "rs_stage_name (set_step_status st' sa ca em w s) = rs_stage_name s"
  "rs_config (set_step_status st' sa ca em w s) = rs_config s"
  "rs_status (set_step_status st' sa ca em w s) = st'"
  "story_id (set_story x w y) = story_id y"
  "story_status (set_story x w y) = story_status x"
  "story_current_stage (set_story x w y) = story_current_stage y"
  "project_id (increment_breaker w p) = project_id p"
  "project_id (reset_breaker w p) = project_id p"
  "hitl_id (set_hitl_status hst who reason act tm w h) = hitl_id h"
  "hitl_step (set_hitl_status hst who reason act tm w h) = hitl_step h"
  "hitl_status (set_hitl_status hst who reason act tm w h) = hst"
  by (simp_all add: set_run_status_def orphan_run_def set_step_status_def set_story_def
        increment_breaker_def reset_breaker_def set_hitl_status_def)

section \<open>Concrete states for witnesses\<close>

definition empty_world :: world where
  "empty_world =
     \<lparr>w_runs = [], w_steps = [], w_stories = [], w_projects = [], w_hitl = [], w_epics = [], w_epic_runs = [],
      w_epic_run_stories = [], w_configs = [], w_agents = [], w_stacks = [], w_costs = [],
      w_connectors = [], w_writebacks = [],
      w_events = [], w_jobs = [], w_stops = [],
      w_users = [], w_resets = [], w_revoked = [], w_members = [], w_api_keys = [],
      w_credentials = [], w_git = [], w_capabilities = [], w_agent_caps = [], w_notify = [],
      w_environments = [], w_tokens = [], w_channels = Map.empty, w_calls = [], w_clock = 1000, w_tick = 0, w_next = 100,
      w_faults = []\<rparr>"

definition sample_project :: project where
  "sample_project =
     \<lparr>project_id = 1, project_name = ''demo'', project_description = None, project_owner = None,
      project_repo_url = Some ''https://git.example/demo.git'', project_git_provider = ''gitea'',
      project_git_token_env = None, project_agent_runtime = ''docker'', project_default_model = None,
      project_max_budget = None, project_max_container_timeout = None, cb_count = 0, cb_active = False,
      cb_max = 3, project_created_at = 0, project_updated_at = 0\<rparr>"

end
