(* ===== verification/CircuitBreaker.thy ===== *)
theory CircuitBreaker
  imports Store
begin

text \<open>
  The circuit breaker of a project (\<open>circuit_breaker_service.go\<close> over the counter columns of
  \<open>projects\<close>): the operations, and an abstract breaker, a triple of count, active flag and
  maximum, that they refine.
\<close>

section \<open>Operations\<close>

definition CircuitBreakerOpen :: err where
  "CircuitBreakerOpen =
     DomainError CategoryValidation ''CIRCUIT_BREAKER_OPEN''
       [T ''circuit breaker is active for this project - all pipeline runs are paused''] None"

definition CheckCircuitBreaker :: "uuid \<Rightarrow> unit fop" where
  "CheckCircuitBreaker pid =
     attempt (GetProjectByID pid) (\<lambda>p. if cb_active p then fail CircuitBreakerOpen else ok ())"

definition publishCircuitBreakerEvent :: "project \<Rightarrow> string \<Rightarrow> unit op" where
  "publishCircuitBreakerEvent p act =
     publishEvent (project_id p) ''circuit_breaker'' (project_id p) act
       [(''project_id'', JUuid (project_id p)), (''count'', JInt (cb_count p)),
        (''max'', JInt (cb_max p))]"

definition RecordFailure :: "uuid \<Rightarrow> unit fop" where
  "RecordFailure pid =
     attempt (IncrementCircuitBreakerCount pid) (\<lambda>p.
       if cb_active p
       then do { _ \<leftarrow> publishCircuitBreakerEvent p ''triggered''; ok () }
       else ok ())"

definition RecordSuccess :: "uuid \<Rightarrow> unit fop" where
  "RecordSuccess pid =
     attempt (GetProjectByID pid) (\<lambda>p.
       if 0 < cb_count p then attempt (ResetCircuitBreaker pid) (\<lambda>_. ok ()) else ok ())"

definition Reset :: "uuid \<Rightarrow> unit fop" where
  "Reset pid =
     attempt (GetProjectByID pid) (\<lambda>p.
       if \<not> cb_active p \<and> cb_count p = 0 then ok ()
       else attempt (ResetCircuitBreaker pid) (\<lambda>p.
              do { _ \<leftarrow> publishCircuitBreakerEvent p ''reset''; ok () }))"

lemmas breaker_ops =
  CheckCircuitBreaker_def RecordFailure_def RecordSuccess_def Reset_def
  publishCircuitBreakerEvent_def

section \<open>The abstract breaker\<close>

type_synonym breaker = "int \<times> bool \<times> int"

fun trip :: "breaker \<Rightarrow> breaker" where
  "trip (c, a, m) = (c + 1, a \<or> m \<le> c + 1, m)"

fun settle :: "breaker \<Rightarrow> breaker" where
  "settle (c, a, m) = (if 0 < c then (0, False, m) else (c, a, m))"

fun clear :: "breaker \<Rightarrow> breaker" where
  "clear (c, a, m) = (0, False, m)"

definition breaker_of :: "uuid \<Rightarrow> world \<Rightarrow> breaker option" where
  "breaker_of pid w =
     map_option (\<lambda>p. (cb_count p, cb_active p, cb_max p)) (tbl_find project_id pid (w_projects w))"

lemma breaker_of_cong [simp]:
  "breaker_of pid (w\<lparr>w_events := es\<rparr>) = breaker_of pid w"
  "breaker_of pid (w\<lparr>w_clock := t\<rparr>) = breaker_of pid w"
  "breaker_of pid (w\<lparr>w_faults := bs\<rparr>) = breaker_of pid w"
  by (simp_all add: breaker_of_def)

lemma breaker_of_update:
  assumes "\<And>p. project_id (f p) = project_id p"
  shows "breaker_of pid (w\<lparr>w_projects := tbl_update project_id i f (w_projects w)\<rparr>) =
           (if i = pid
            then map_option (\<lambda>p. (cb_count (f p), cb_active (f p), cb_max (f p)))
                   (tbl_find project_id pid (w_projects w))
            else breaker_of pid w)"
  using assms by (auto simp: breaker_of_def tbl_find_update option.map_comp comp_def)

lemma publishEvent_projects [simp]:
  "w_projects (snd (run_state (publishEvent p typ ent act pl) w)) = w_projects w"
  by (simp add: publishEvent_def Publish_def run_simps run_db_op_faults split: list.splits)

lemma breaker_of_publish [simp]:
  "breaker_of pid (snd (run_state (publishEvent p typ ent act pl) w)) = breaker_of pid w"
  by (simp add: breaker_of_def)

lemma publishEvent_faults [simp]:
  "w_faults w = [] \<Longrightarrow> w_faults (snd (run_state (publishEvent p typ ent act pl) w)) = []"
  by (simp add: publishEvent_def Publish_def run_simps)

lemma RecordFailure_refines_trip:
  assumes "w_faults w = []" and "breaker_of pid w = Some b"
  shows "\<exists>w'. run_state (RecordFailure pid) w = (Inr (), w') \<and> w_faults w' = []
    \<and> breaker_of pid w' = Some (trip b)"
proof -
  from assms(2) obtain p where p: "tbl_find project_id pid (w_projects w) = Some p"
    and b: "b = (cb_count p, cb_active p, cb_max p)"
    by (auto simp: breaker_of_def)
  let ?w = "w\<lparr>w_projects := tbl_update project_id pid (increment_breaker w) (w_projects w)\<rparr>"
  let ?p = "increment_breaker w p"
  let ?e = "publishCircuitBreakerEvent ?p ''triggered''"
  have "breaker_of pid ?w = Some (trip b)"
    by (simp add: breaker_of_update p b increment_breaker_def)
  moreover have "run_state (RecordFailure pid) w =
      (Inr (), if cb_active ?p then snd (run_state ?e ?w) else ?w)"
    using assms(1) p
    by (simp add: RecordFailure_def IncrementCircuitBreakerCount_def run_simps split: prod.splits)
  ultimately show ?thesis
    using assms(1) by (simp add: publishCircuitBreakerEvent_def)
qed

lemma RecordSuccess_refines_settle:
  assumes "w_faults w = []" and "breaker_of pid w = Some b"
  shows "\<exists>w'. run_state (RecordSuccess pid) w = (Inr (), w') \<and> w_faults w' = []
    \<and> breaker_of pid w' = Some (settle b)"
proof -
  from assms(2) obtain p where p: "tbl_find project_id pid (w_projects w) = Some p"
    and b: "b = (cb_count p, cb_active p, cb_max p)"
    by (auto simp: breaker_of_def)
  from assms(1) p b assms(2) show ?thesis
    by (auto simp: RecordSuccess_def GetProjectByID_def ResetCircuitBreaker_def run_simps
          breaker_of_update reset_breaker_def)
qed

lemma CheckCircuitBreaker_iff:
  assumes "w_faults w = []"
  shows "run_state (CheckCircuitBreaker pid) w =
    ((case breaker_of pid w of
        None \<Rightarrow> Inl (NewNotFound ''project'' (U pid))
      | Some (c, a, m) \<Rightarrow> if a then Inl CircuitBreakerOpen else Inr ()), w)"
  using assms
  by (auto simp: breaker_of_def CheckCircuitBreaker_def GetProjectByID_def run_simps
        split: option.splits)

section \<open>Consecutive failures\<close>

text \<open>\<open>n\<close> failed runs of the project, one after another.\<close>

fun recordFailures :: "nat \<Rightarrow> uuid \<Rightarrow> unit fop" where
  "recordFailures 0 pid = ok ()"
| "recordFailures (Suc n) pid = attempt (RecordFailure pid) (\<lambda>_. recordFailures n pid)"

lemma trips: "(trip ^^ n) (c, a, m) = (c + int n, a \<or> (0 < n \<and> m \<le> c + int n), m)"
  by (induction n) auto

lemma recordFailures_refines:
  assumes "w_faults w = []" and "breaker_of pid w = Some b"
  shows "\<exists>w'. run_state (recordFailures n pid) w = (Inr (), w') \<and> w_faults w' = []
    \<and> breaker_of pid w' = Some ((trip ^^ n) b)"
  using assms
proof (induction n arbitrary: w b)
  case 0
  then show ?case by (simp add: run_simps)
next
  case (Suc n)
  from RecordFailure_refines_trip [OF Suc.prems] obtain w1 where
    w1: "run_state (RecordFailure pid) w = (Inr (), w1)" "w_faults w1 = []"
      "breaker_of pid w1 = Some (trip b)"
    by blast
  from Suc.IH [OF w1(2,3)] w1(1) show ?case
    by (auto simp: run_simps funpow_swap1)
qed

text \<open>
  from a cleared breaker, \<open>n > 0\<close> failed runs in a row close the project to new runs exactly
  when \<open>n\<close> has reached the configured maximum: the check then reports the open breaker, and
  below the maximum it passes.
\<close>

theorem breaker_trips_at_max:
  assumes "w_faults w = []" and "breaker_of pid w = Some (0, False, m)" and "0 < n"
  shows "\<exists>w'. run_state (recordFailures n pid) w = (Inr (), w') \<and>
    run_state (CheckCircuitBreaker pid) w' =
      ((if m \<le> int n then Inl CircuitBreakerOpen else Inr ()), w')"
proof -
  from recordFailures_refines [OF assms(1,2), of n] assms(3) obtain w' where
    "run_state (recordFailures n pid) w = (Inr (), w')" "w_faults w' = []"
    "breaker_of pid w' = Some (int n, m \<le> int n, m)"
    by (auto simp: trips)
  then show ?thesis by (auto simp: CheckCircuitBreaker_iff)
qed

text \<open>
  a successful run clears the breaker of its project even when it is tripped: the project
  accepts runs again although no administrator has reset it.
\<close>

theorem success_clears_tripped_breaker:
  assumes "w_faults w = []" and "breaker_of pid w = Some (c, True, m)" and "0 < c"
  shows "\<exists>w'. run_state (RecordSuccess pid) w = (Inr (), w') \<and>
    run_state (CheckCircuitBreaker pid) w = (Inl CircuitBreakerOpen, w) \<and>
    run_state (CheckCircuitBreaker pid) w' = (Inr (), w')"
  using RecordSuccess_refines_settle [OF assms(1,2)] assms
  by (auto simp: CheckCircuitBreaker_iff)

section \<open>Witnesses\<close>

lemma breaker_trips_at_max_witness:
  "\<exists>w'. run_state (recordFailures 3 1) (empty_world\<lparr>w_projects := [sample_project]\<rparr>) = (Inr (), w') \<and>
    run_state (CheckCircuitBreaker 1) w' = (Inl CircuitBreakerOpen, w')"
  using breaker_trips_at_max [of "empty_world\<lparr>w_projects := [sample_project]\<rparr>" 1 3 3]
  by (simp add: empty_world_def sample_project_def breaker_of_def)

lemma success_clears_tripped_breaker_witness:
  "\<exists>w'. run_state (RecordSuccess 1)
      (empty_world\<lparr>w_projects := [sample_project\<lparr>cb_count := 3, cb_active := True\<rparr>]\<rparr>) = (Inr (), w')
    \<and> run_state (CheckCircuitBreaker 1) w' = (Inr (), w')"
  using success_clears_tripped_breaker
    [of "empty_world\<lparr>w_projects := [sample_project\<lparr>cb_count := 3, cb_active := True\<rparr>]\<rparr>" 1 3 3]
  by (auto simp: empty_world_def sample_project_def breaker_of_def)

end
