(* ===== verification/Executor.thy ===== *)
theory Executor
  imports CircuitBreaker
begin

text \<open>
  The pipeline executor (\<open>backend/internal/domain/service/pipeline_executor.go\<close>): \<open>ExecuteRun\<close>
  and every helper it calls, with the stage boundaries, the manual and gate transition policies,
  suspension, failure and cancellation. What the executor is wired to is the record
  \<open>exec_env\<close>: the optional collaborators (circuit breaker, HITL repository, write-back
  enqueuer), the registered actions, the cancellation of its context and the interference of
  other processes before each step. The \<open>for\<close> loop over the steps is recursion on the list.
\<close>

section \<open>Environment\<close>

text \<open>
  An action acts on the world and on the shared metadata map; the map it leaves behind is part
  of its result, also when it fails.
\<close>

type_synonym action = "run_context \<Rightarrow> (unit res \<times> metadata) op"

record exec_env =
  x_circuit_breaker :: bool
  x_hitl_repo :: bool
  x_writeback :: bool
  x_actions :: "string \<rightharpoonup> action"
  x_parse_uuid :: "string \<rightharpoonup> uuid"
  x_sha1 :: "uuid \<Rightarrow> string \<Rightarrow> uuid"
  x_ctx_done :: "world \<Rightarrow> bool"
  x_other :: "uuid \<Rightarrow> world \<Rightarrow> world"

text \<open>\<open>InMemoryActionRegistry.Get\<close>.\<close>

definition getAction :: "exec_env \<Rightarrow> string \<Rightarrow> action res" where
  "getAction env name =
     (case x_actions env name of
        None \<Rightarrow> Inl (NewNotFound ''action'' (T name)) | Some a \<Rightarrow> Inr a)"

record stage_ref =
  sr_id :: string
  sr_name :: string

definition newStageRef :: "run_step \<Rightarrow> stage_ref" where
  "newStageRef s = \<lparr>sr_id = rs_stage_id s, sr_name = rs_stage_name s\<rparr>"

definition matches :: "stage_ref option \<Rightarrow> string \<Rightarrow> bool" where
  "matches s stageID = (case s of None \<Rightarrow> False | Some r \<Rightarrow> sr_id r = stageID)"

definition stageEntityID :: "exec_env \<Rightarrow> uuid \<Rightarrow> string \<Rightarrow> uuid" where
  "stageEntityID env r stageID = x_sha1 env r (''stage:'' @ stageID)"

definition stageStartedKey :: "string \<Rightarrow> string" where
  "stageStartedKey stageID = ''stage_started_'' @ stageID"

definition pausedReasonManualStart :: string where
  "pausedReasonManualStart = ''awaiting_manual_start''"

section \<open>Story status and write-back\<close>

definition WritebackPending :: string where "WritebackPending = ''pending''"

definition enqueueWriteBack :: "exec_env \<Rightarrow> run \<Rightarrow> string \<Rightarrow> unit op" where
  "enqueueWriteBack env run status =
     (if \<not> x_writeback env \<or> run_story run = uuid_nil then skip
      else if status = StoryStatusRunning \<or> status = StoryStatusDone \<or> status = StoryStatusFailed
      then do {
        _ \<leftarrow> SetWritebackStatus (run_story run) WritebackPending;
        _ \<leftarrow> EnqueueWriteBack (run_project run) (run_story run) (run_id run) status;
        skip }
      else skip)"

definition updateStoryStatus :: "exec_env \<Rightarrow> run \<Rightarrow> string \<Rightarrow> unit op" where
  "updateStoryStatus env run status =
     (if run_story run = uuid_nil then skip
      else do {
        r \<leftarrow> GetStoryByID (run_story run);
        case r of
          Inl e \<Rightarrow> skip
        | Inr story \<Rightarrow> do {
            u \<leftarrow> UpdateStory (story\<lparr>story_status := status\<rparr>);
            case u of
              Inl e \<Rightarrow> skip
            | Inr updated \<Rightarrow> do {
                _ \<leftarrow> publishEvent (run_project run) ''story'' (run_story run) ''status_updated''
                  [(''story_id'', JUuid (run_story run)), (''run_id'', JUuid (run_id run)),
                   (''status'', JStr status)];
                enqueueWriteBack env run status } } })"

section \<open>Stages\<close>

definition setCurrentStage :: "run \<Rightarrow> string option \<Rightarrow> unit op" where
  "setCurrentStage run stage =
     (if run_story run = uuid_nil then skip
      else do { _ \<leftarrow> UpdateStoryCurrentStage (run_story run) stage; skip })"

definition stagePayload :: "run \<Rightarrow> stage_ref \<Rightarrow> (string \<times> jval) list" where
  "stagePayload run s =
     [(''stage_id'', JStr (sr_id s)), (''stage_name'', JStr (sr_name s)),
      (''story_id'', JUuid (run_story run)), (''run_id'', JUuid (run_id run))]"

definition enterStage :: "exec_env \<Rightarrow> run \<Rightarrow> stage_ref \<Rightarrow> unit op" where
  "enterStage env run stage = do {
     _ \<leftarrow> setCurrentStage run (Some (sr_name stage));
     publishEvent (run_project run) ''stage'' (stageEntityID env (run_id run) (sr_id stage))
       ''entered'' (stagePayload run stage) }"

definition exitStage :: "exec_env \<Rightarrow> run \<Rightarrow> stage_ref option \<Rightarrow> stage_ref option \<Rightarrow> unit op" where
  "exitStage env run prev nxt =
     (case prev of
        None \<Rightarrow> skip
      | Some p \<Rightarrow>
          publishEvent (run_project run) ''stage'' (stageEntityID env (run_id run) (sr_id p))
            ''exited''
            (stagePayload run p @
             (case nxt of None \<Rightarrow> []
              | Some n \<Rightarrow> [(''next_stage_id'', JStr (sr_id n)), (''next_stage_name'', JStr (sr_name n))])))"

definition clearStoryCurrentStage :: "run \<Rightarrow> unit op" where
  "clearStoryCurrentStage run = setCurrentStage run None"

text \<open>\<open>json.Unmarshal\<close> of a snapshot into a \<open>PipelineConfigYAML\<close>.\<close>

fun decodeConfig :: "snapshot \<Rightarrow> pipeline_config_yaml res" where
  "decodeConfig SnapNone = Inl (PlainErr [T ''unexpected end of JSON input''])"
| "decodeConfig (SnapConfig c) = Inr c"
| "decodeConfig (SnapSteps s) = Inr \<lparr>groups = []\<rparr>"
| "decodeConfig (SnapBad e) = Inl e"

definition parseTransitionPolicy :: "run \<Rightarrow> pipeline_config_yaml option" where
  "parseTransitionPolicy run =
     (if run_snapshot run = SnapNone then None
      else case decodeConfig (run_snapshot run) of Inl e \<Rightarrow> None | Inr c \<Rightarrow> Some c)"

definition transitionFor :: "pipeline_config_yaml option \<Rightarrow> string \<Rightarrow> string" where
  "transitionFor policy stageID =
     (case policy of None \<Rightarrow> TransitionAuto | Some c \<Rightarrow> TransitionForStage c stageID)"

definition stageStarted :: "metadata \<Rightarrow> string \<Rightarrow> bool" where
  "stageStarted meta stageID = (meta (stageStartedKey stageID) = Some (JBool True))"

definition parkedMetadata :: "metadata \<Rightarrow> stage_ref \<Rightarrow> metadata" where
  "parkedMetadata meta s =
     meta(''paused_reason'' \<mapsto> JStr pausedReasonManualStart,
          ''paused_stage_id'' \<mapsto> JStr (sr_id s), ''paused_stage_name'' \<mapsto> JStr (sr_name s))"

definition enforceManualOnEnter ::
  "exec_env \<Rightarrow> run \<Rightarrow> stage_ref \<Rightarrow> pipeline_config_yaml option \<Rightarrow> metadata \<Rightarrow> unit fop" where
  "enforceManualOnEnter env run nxt policy meta =
     (if transitionFor policy (sr_id nxt) \<noteq> TransitionManual then ok ()
      else if stageStarted meta (sr_id nxt) then ok ()
      else do {
        _ \<leftarrow> UpdateRunMetadata (run_id run) (parkedMetadata meta nxt);
        now \<leftarrow> time_now;
        r \<leftarrow> UpdateRunStatus (run_id run) RunStatusPaused None None (Some now) None;
        case r of
          Inl e \<Rightarrow> fail (WrapErr [T ''pause run for manual stage '', T (sr_id nxt)] e)
        | Inr updated \<Rightarrow> do {
            _ \<leftarrow> setCurrentStage run (Some (sr_name nxt));
            _ \<leftarrow> publishEvent (run_project run) ''stage''
              (stageEntityID env (run_id run) (sr_id nxt)) ''awaiting_start''
              (stagePayload run nxt @ [(''transition'', JStr TransitionManual)]);
            fail ErrStageSuspended } })"

text \<open>The request a gate raises on its anchor step.\<close>

definition gateRequest :: "uuid \<Rightarrow> uuid \<Rightarrow> time \<Rightarrow> hitl_request" where
  "gateRequest i step_arg now =
     \<lparr>hitl_id = i, hitl_step = step_arg, hitl_gate_type = HITLGateApproval, hitl_diff = None,
      hitl_message = None, hitl_status = HITLStatusPending, hitl_resolved_at = None,
      hitl_resolved_by = None, hitl_rejection_reason = None, hitl_halt_reason = None,
      hitl_resolution_action = None, hitl_created_at = now\<rparr>"

definition raiseGate :: "run \<Rightarrow> stage_ref \<Rightarrow> run_step \<Rightarrow> unit fop" where
  "raiseGate run leaving anchor = do {
     i \<leftarrow> uuid_new;
     created \<leftarrow> time_now;
     attempt (wrap_err (WrapErr [T ''create gate HITL request for stage '', T (sr_id leaving)])
                (CreateHITL (gateRequest i (rs_id anchor) created))) (\<lambda>_. do {
     now \<leftarrow> time_now;
     attempt (wrap_err (WrapErr [T ''set anchor step waiting_approval for gate stage '', T (sr_id leaving)])
                (UpdateRunStepStatus (rs_id anchor) StepStatusWaitingApproval (Some now) None None)) (\<lambda>_.
     attempt (wrap_err (WrapErr [T ''pause run for gate stage '', T (sr_id leaving)])
                (UpdateRunStatus (run_id run) RunStatusPaused None None (Some now) None)) (\<lambda>_. do {
     _ \<leftarrow> publishEvent (run_project run) ''hitl_gate'' i ''pending''
       [(''run_id'', JUuid (run_id run)), (''story_id'', JUuid (run_story run)),
        (''step_id'', JUuid (rs_id anchor)), (''hitl_request_id'', JUuid i),
        (''stage_id'', JStr (sr_id leaving)), (''stage_name'', JStr (sr_name leaving))];
     fail ErrStageSuspended })) }) }"

definition enforceGateOnExit ::
  "exec_env \<Rightarrow> run \<Rightarrow> stage_ref option \<Rightarrow> pipeline_config_yaml option \<Rightarrow> run_step option
     \<Rightarrow> unit fop" where
  "enforceGateOnExit env run leaving policy anchor =
     (case leaving of
        None \<Rightarrow> ok ()
      | Some l \<Rightarrow>
          if transitionFor policy (sr_id l) \<noteq> TransitionGate then ok ()
          else case anchor of
            None \<Rightarrow> ok ()
          | Some a \<Rightarrow>
              if \<not> x_hitl_repo env then ok ()
              else do {
                r \<leftarrow> GetHITLByRunStepID (rs_id a);
                case r of
                  Inr existing \<Rightarrow>
                    if hitl_status existing = HITLStatusApproved then ok ()
                    else fail ErrStageSuspended
                | Inl e \<Rightarrow> raiseGate run l a })"

section \<open>One step\<close>

definition extractStepConfig :: "snapshot \<Rightarrow> int \<Rightarrow> (string \<rightharpoonup> string) option" where
  "extractStepConfig snap ord =
     (if snap = SnapNone then None
      else case decodeConfig snap of
        Inl e \<Rightarrow> None
      | Inr c \<Rightarrow>
          if ord < 0 \<or> int (length (FlatSteps c)) \<le> ord then None
          else ps_config (FlatSteps c ! nat ord))"

text \<open>Copy the per-step key of the run metadata to its bare name, or remove the bare name.\<close>

definition injectKey :: "int \<Rightarrow> string \<Rightarrow> metadata \<Rightarrow> metadata" where
  "injectKey ord name meta =
     (let v = meta (stepKey ord name) in
      if nonempty_string v then meta(name := v) else meta(name := None))"

definition injectStepMetadata :: "int \<Rightarrow> metadata \<Rightarrow> metadata" where
  "injectStepMetadata ord meta =
     injectKey ord ''runtime_kind'' (injectKey ord ''agent_image'' (injectKey ord ''agent_id''
       (injectKey ord ''model'' (injectKey ord ''template_content'' meta))))"

definition launchingUser :: "exec_env \<Rightarrow> metadata \<Rightarrow> uuid" where
  "launchingUser env meta =
     (case meta ''launched_by_user_id'' of
        Some (JUuid u) \<Rightarrow> u
      | Some (JStr s) \<Rightarrow>
          if s = [] then uuid_nil
          else (case x_parse_uuid env s of None \<Rightarrow> uuid_nil | Some u \<Rightarrow> u)
      | _ \<Rightarrow> uuid_nil)"

definition runContext :: "exec_env \<Rightarrow> run \<Rightarrow> run_step \<Rightarrow> metadata \<Rightarrow> run_context" where
  "runContext env run s meta =
     \<lparr>rc_run = run,
      rc_step = (if rs_config s = None
                 then s\<lparr>rs_config := extractStepConfig (run_snapshot run) (rs_order s)\<rparr> else s),
      rc_project = run_project run, rc_story = run_story run,
      rc_user = launchingUser env meta,
      rc_metadata = injectStepMetadata (rs_order s) meta\<rparr>"

definition stepPayload :: "run \<Rightarrow> run_step \<Rightarrow> (string \<times> jval) list" where
  "stepPayload run s =
     [(''run_id'', JUuid (run_id run)), (''story_id'', JUuid (run_story run)),
      (''step_id'', JUuid (rs_id s)), (''step_name'', JStr (rs_name s))]"

definition statusEntry :: "string \<Rightarrow> string \<times> jval" where
  "statusEntry name = (''status'', JStr name)"

text \<open>After the action: persist the metadata, detect a suspension, complete the step.\<close>

definition finishStep :: "run \<Rightarrow> run_step \<Rightarrow> metadata \<Rightarrow> unit fop" where
  "finishStep run s meta = do {
     _ \<leftarrow> UpdateRunMetadata (run_id run) meta;
     refetched \<leftarrow> GetRunStep (rs_id s);
     if (case refetched of Inl e \<Rightarrow> False | Inr s' \<Rightarrow> rs_status s' = StepStatusWaitingApproval)
     then fail ErrStepSuspended
     else do {
       completedAt \<leftarrow> time_now;
       attempt (UpdateRunStepStatus (rs_id s) StepStatusCompleted None (Some completedAt) None)
         (\<lambda>updated. do {
            _ \<leftarrow> publishEvent (run_project run) ''step'' (rs_id updated) ''completed''
              (stepPayload run updated @ [statusEntry ''completed'',
                (''completed_at'', JTime completedAt)]);
            ok () }) } }"

definition performStep ::
  "exec_env \<Rightarrow> run \<Rightarrow> run_step \<Rightarrow> metadata \<Rightarrow> (unit res \<times> metadata) op" where
  "performStep env run s meta =
     (case getAction env (rs_action s) of
        Inl e \<Rightarrow>
          State_Monad.return (Inl (WrapErr [T ''action lookup failed for '', T (rs_action s)] e), meta)
      | Inr act \<Rightarrow> do {
          (r, meta') \<leftarrow> act (runContext env run s meta);
          case r of
            Inl e \<Rightarrow> State_Monad.return (Inl e, meta')
          | Inr _ \<Rightarrow> do {
              q \<leftarrow> finishStep run s meta';
              State_Monad.return (q, meta') } })"

definition executeStep ::
  "exec_env \<Rightarrow> run \<Rightarrow> run_step \<Rightarrow> metadata \<Rightarrow> (unit res \<times> metadata) op" where
  "executeStep env run s meta = do {
     startedAt \<leftarrow> time_now;
     r \<leftarrow> UpdateRunStepStatus (rs_id s) StepStatusRunning (Some startedAt) None None;
     case r of
       Inl e \<Rightarrow> State_Monad.return (Inl e, meta)
     | Inr s' \<Rightarrow> do {
         _ \<leftarrow> publishEvent (run_project run) ''step'' (rs_id s') ''started''
           (stepPayload run s' @ [(''action'', JStr (rs_action s')), statusEntry ''running'',
             (''started_at'', JTime startedAt)]);
         performStep env run s' meta } }"

section \<open>Failure and cancellation\<close>

definition runPayload :: "uuid \<Rightarrow> run \<Rightarrow> string \<Rightarrow> (string \<times> jval) list" where
  "runPayload i run st =
     [(''run_id'', JUuid i), (''story_id'', JUuid (run_story run)), statusEntry st]"

definition handleStepFailure :: "exec_env \<Rightarrow> run \<Rightarrow> run_step \<Rightarrow> err \<Rightarrow> unit op" where
  "handleStepFailure env run s stepErr = do {
     failedAt \<leftarrow> time_now;
     _ \<leftarrow> UpdateRunStepStatus (rs_id s) StepStatusFailed None (Some failedAt) (Some (err_text stepErr));
     _ \<leftarrow> publishEvent (run_project run) ''step'' (rs_id s) ''failed''
       (stepPayload run s @ [statusEntry ''failed'', (''error_message'', JText (err_text stepErr))]);
     _ \<leftarrow> UpdateRunStatus (run_id run) RunStatusFailed None (Some failedAt) None
       (Some (err_text stepErr));
     _ \<leftarrow> publishEvent (run_project run) ''run'' (run_id run) ''failed''
       (runPayload (run_id run) run ''failed'' @ [(''error_message'', JText (err_text stepErr))]);
     updateStoryStatus env run StoryStatusFailed }"

definition cancelMsg :: msg where
  "cancelMsg = [T ''execution cancelled'']"

definition handleCancellation :: "exec_env \<Rightarrow> run \<Rightarrow> run_step \<Rightarrow> unit op" where
  "handleCancellation env run s = do {
     cancelledAt \<leftarrow> time_now;
     _ \<leftarrow> UpdateRunStepStatus (rs_id s) StepStatusCancelled None (Some cancelledAt) (Some cancelMsg);
     _ \<leftarrow> publishEvent (run_project run) ''step'' (rs_id s) ''cancelled''
       (stepPayload run s @ [statusEntry ''cancelled'']);
     _ \<leftarrow> UpdateRunStatus (run_id run) RunStatusCancelled None (Some cancelledAt) None (Some cancelMsg);
     _ \<leftarrow> publishEvent (run_project run) ''run'' (run_id run) ''cancelled''
       (runPayload (run_id run) run ''cancelled'');
     updateStoryStatus env run StoryStatusBacklog }"

definition recordStepFailure :: "exec_env \<Rightarrow> run \<Rightarrow> unit op" where
  "recordStepFailure env run =
     (if x_circuit_breaker env then do { _ \<leftarrow> RecordFailure (run_project run); skip } else skip)"

section \<open>The loop\<close>

text \<open>
  What the loop over the steps ends with: the value \<open>ExecuteRun\<close> returns at once, or the stage,
  the last executed step and the metadata with which it reaches the end of the list.
\<close>

type_synonym loop_exit = "unit res + (stage_ref option \<times> run_step option \<times> metadata)"

text \<open>A parked stage is a normal return, any other error is returned.\<close>

definition parkOr :: "unit fop \<Rightarrow> (unit, 'b) sum fop \<Rightarrow> (unit, 'b) sum fop" where
  "parkOr m n = do {
     r \<leftarrow> m;
     case r of
       Inl e \<Rightarrow> if err_is e ErrStageSuspended then ok (Inl ()) else fail e
     | Inr _ \<Rightarrow> n }"

text \<open>Entering the stage of a step: \<open>Inl ()\<close> when the run has been parked.\<close>

definition crossBoundary ::
  "exec_env \<Rightarrow> run \<Rightarrow> pipeline_config_yaml option \<Rightarrow> stage_ref option \<Rightarrow> run_step option
     \<Rightarrow> run_step \<Rightarrow> metadata \<Rightarrow> (unit, stage_ref option) sum fop" where
  "crossBoundary env run policy cur prev s meta =
     (if matches cur (rs_stage_id s) then ok (Inr cur)
      else
        parkOr (enforceGateOnExit env run cur policy prev)
          (parkOr (enforceManualOnEnter env run (newStageRef s) policy meta)
             (do { _ \<leftarrow> exitStage env run cur (Some (newStageRef s));
                   _ \<leftarrow> enterStage env run (newStageRef s);
                   ok (Inr (Some (newStageRef s))) })))"

fun runLoop ::
  "exec_env \<Rightarrow> run \<Rightarrow> pipeline_config_yaml option \<Rightarrow> run_step list \<Rightarrow> stage_ref option
     \<Rightarrow> run_step option \<Rightarrow> metadata \<Rightarrow> loop_exit op" where
  "runLoop env run policy [] cur prev meta = State_Monad.return (Inr (cur, prev, meta))"
| "runLoop env run policy (s # ss) cur prev meta =
     (if rs_status s = StepStatusCompleted then runLoop env run policy ss cur prev meta
      else do {
        _ \<leftarrow> writing (\<lambda>w. ((), x_other env (rs_id s) w));
        cancelled \<leftarrow> reading (x_ctx_done env);
        if cancelled
        then do { _ \<leftarrow> handleCancellation env run s; State_Monad.return (Inl (Inl ErrCtxCancelled)) }
        else do {
          current \<leftarrow> GetRun (run_id run);
          if (case current of Inl e \<Rightarrow> False | Inr r \<Rightarrow> run_status r = RunStatusPaused)
          then State_Monad.return (Inl (Inl ErrRunPaused))
          else do {
            b \<leftarrow> crossBoundary env run policy cur prev s meta;
            case b of
              Inl e \<Rightarrow> State_Monad.return (Inl (Inl e))
            | Inr (Inl _) \<Rightarrow> State_Monad.return (Inl (Inr ()))
            | Inr (Inr cur') \<Rightarrow> do {
                (r, meta') \<leftarrow> executeStep env run s meta;
                case r of
                  Inl e \<Rightarrow>
                    if err_is e ErrStepSuspended then State_Monad.return (Inl (Inr ()))
                    else do {
                      _ \<leftarrow> handleStepFailure env run s e;
                      _ \<leftarrow> recordStepFailure env run;
                      State_Monad.return (Inl (Inl e)) }
                | Inr _ \<Rightarrow> runLoop env run policy ss cur' (Some s) meta' } } } })"

section \<open>ExecuteRun\<close>

definition completeRun :: "exec_env \<Rightarrow> run \<Rightarrow> unit fop" where
  "completeRun env run = do {
     completedAt \<leftarrow> time_now;
     attempt (UpdateRunStatus (run_id run) RunStatusCompleted None (Some completedAt) None None) (\<lambda>_. do {
       _ \<leftarrow> publishEvent (run_project run) ''run'' (run_id run) ''completed''
         (runPayload (run_id run) run ''completed'' @ [(''completed_at'', JTime completedAt)]);
       _ \<leftarrow> updateStoryStatus env run StoryStatusDone;
       _ \<leftarrow> (if x_circuit_breaker env then do { _ \<leftarrow> RecordSuccess (run_project run); skip } else skip);
       ok () }) }"

definition finishRun ::
  "exec_env \<Rightarrow> run \<Rightarrow> pipeline_config_yaml option \<Rightarrow> stage_ref option \<Rightarrow> run_step option
     \<Rightarrow> unit fop" where
  "finishRun env run policy cur prev =
     (case cur of
        None \<Rightarrow> completeRun env run
      | Some c \<Rightarrow> do {
          r \<leftarrow> enforceGateOnExit env run cur policy prev;
          case r of
            Inl e \<Rightarrow> if err_is e ErrStageSuspended then ok () else fail e
          | Inr _ \<Rightarrow> do {
              _ \<leftarrow> exitStage env run cur None;
              _ \<leftarrow> clearStoryCurrentStage run;
              completeRun env run } })"

definition startRun :: "exec_env \<Rightarrow> uuid \<Rightarrow> run_step list \<Rightarrow> unit fop" where
  "startRun env i steps = do {
     now \<leftarrow> time_now;
     attempt (UpdateRunStatus i RunStatusRunning (Some now) None None None) (\<lambda>run. do {
       _ \<leftarrow> publishEvent (run_project run) ''run'' (run_id run) ''started''
         (runPayload i run ''running'' @ [(''started_at'', JTime now)]);
       _ \<leftarrow> updateStoryStatus env run StoryStatusRunning;
       out \<leftarrow> runLoop env run (parseTransitionPolicy run) steps None None (run_metadata run);
       case out of
         Inl r \<Rightarrow> State_Monad.return r
       | Inr (cur, prev, meta) \<Rightarrow> finishRun env run (parseTransitionPolicy run) cur prev }) }"

definition checkBreaker :: "exec_env \<Rightarrow> run \<Rightarrow> unit fop" where
  "checkBreaker env run =
     (if x_circuit_breaker env then CheckCircuitBreaker (run_project run) else ok ())"

definition ExecuteRun :: "exec_env \<Rightarrow> uuid \<Rightarrow> unit fop" where
  "ExecuteRun env i =
     attempt (GetRun i) (\<lambda>run.
       if run_status run = RunStatusFailed \<or> run_status run = RunStatusCompleted
          \<or> run_status run = RunStatusCancelled
       then ok ()
       else do {
         cb \<leftarrow> checkBreaker env run;
         case cb of
           Inl e \<Rightarrow> do {
             failedAt \<leftarrow> time_now;
             _ \<leftarrow> UpdateRunStatus i RunStatusFailed None (Some failedAt) None (Some (err_text e));
             fail e }
         | Inr _ \<Rightarrow>
             attempt (ListRunStepsByRun i) (\<lambda>steps. startRun env i (sort_key rs_order steps)) })"

end
