(* ===== verification/ExecutorSpec.thy ===== *)
theory ExecutorSpec
  imports Executor
begin

text \<open>
  The correctness of the executor: the views of the store its behaviour is stated over, the
  effect of every helper on them, and the lemmas on the loop over the steps from which the
  properties of \<open>ExecuteRun\<close> follow.
\<close>

section \<open>Views\<close>

definition stepSt :: "world \<Rightarrow> uuid \<rightharpoonup> step_status" where
  "stepSt w j = map_option rs_status (tbl_find rs_id j (w_steps w))"

definition stepAct :: "world \<Rightarrow> uuid \<rightharpoonup> string" where
  "stepAct w j = map_option rs_action (tbl_find rs_id j (w_steps w))"

definition runSt :: "world \<Rightarrow> uuid \<rightharpoonup> run_status" where
  "runSt w i = map_option run_status (tbl_find run_id i (w_runs w))"

definition storySt :: "world \<Rightarrow> uuid \<rightharpoonup> string" where
  "storySt w k = map_option story_status (tbl_find story_id k (w_stories w))"

definition storyStage :: "world \<Rightarrow> uuid \<rightharpoonup> string option" where
  "storyStage w k = map_option story_current_stage (tbl_find story_id k (w_stories w))"

definition after :: "'a op \<Rightarrow> world \<Rightarrow> world" where
  "after m w = snd (run_state m w)"

lemma run_unit: "run_state (m :: unit op) w = ((), after m w)"
  by (simp add: after_def prod_eq_iff)

lemmas run_publishEvent [run_simps] = run_unit [of "publishEvent p ty ent act pl" for p ty ent act pl]

lemma stepSt_update_status:
  "stepSt (u\<lparr>w_steps := tbl_update rs_id j (set_step_status st sa ca em v) (w_steps w)\<rparr>) =
     (if stepSt w j = None then stepSt w else (stepSt w)(j \<mapsto> st))"
  by (rule ext) (auto simp: stepSt_def tbl_find_update option.map_comp comp_def)

lemma stepAct_update_status:
  "stepAct (u\<lparr>w_steps := tbl_update rs_id j (set_step_status st sa ca em v) (w_steps w)\<rparr>) = stepAct w"
  by (rule ext) (auto simp: stepAct_def tbl_find_update option.map_comp comp_def)

lemma stepAct_dom: "stepAct w j = None \<longleftrightarrow> stepSt w j = None"
  by (auto simp: stepAct_def stepSt_def)

lemma runSt_update_status:
  "runSt (u\<lparr>w_runs := tbl_update run_id i (set_run_status st sa ca pa em v) (w_runs w)\<rparr>) =
     (if runSt w i = None then runSt w else (runSt w)(i \<mapsto> st))"
  by (rule ext) (auto simp: runSt_def tbl_find_update option.map_comp comp_def)

lemma runSt_update_meta:
  "runSt (u\<lparr>w_runs := tbl_update run_id i (\<lambda>r. r\<lparr>run_metadata := m, run_updated_at := t\<rparr>) (w_runs w)\<rparr>) =
     runSt w"
  by (rule ext) (auto simp: runSt_def tbl_find_update option.map_comp comp_def)

lemma views_cong:
  "w_steps w' = w_steps w \<Longrightarrow> stepSt w' = stepSt w"
  "w_steps w' = w_steps w \<Longrightarrow> stepAct w' = stepAct w"
  "w_runs w' = w_runs w \<Longrightarrow> runSt w' = runSt w"
  "w_stories w' = w_stories w \<Longrightarrow> storySt w' = storySt w"
  "w_stories w' = w_stories w \<Longrightarrow> storyStage w' = storyStage w"
  by (auto simp: stepSt_def stepAct_def runSt_def storySt_def storyStage_def)

lemma views_simps [simp]:
  "stepSt (w\<lparr>w_runs := a\<rparr>) = stepSt w" "stepSt (w\<lparr>w_stories := b\<rparr>) = stepSt w"
  "stepSt (w\<lparr>w_clock := t\<rparr>) = stepSt w" "stepSt (w\<lparr>w_hitl := h\<rparr>) = stepSt w"
  "stepSt (w\<lparr>w_projects := pr\<rparr>) = stepSt w" "stepSt (w\<lparr>w_next := nx\<rparr>) = stepSt w"
  "stepAct (w\<lparr>w_runs := a\<rparr>) = stepAct w" "stepAct (w\<lparr>w_stories := b\<rparr>) = stepAct w"
  "stepAct (w\<lparr>w_clock := t\<rparr>) = stepAct w" "stepAct (w\<lparr>w_hitl := h\<rparr>) = stepAct w"
  "stepAct (w\<lparr>w_projects := pr\<rparr>) = stepAct w" "stepAct (w\<lparr>w_next := nx\<rparr>) = stepAct w"
  "runSt (w\<lparr>w_steps := c\<rparr>) = runSt w" "runSt (w\<lparr>w_stories := b\<rparr>) = runSt w"
  "runSt (w\<lparr>w_clock := t\<rparr>) = runSt w" "runSt (w\<lparr>w_hitl := h\<rparr>) = runSt w"
  "runSt (w\<lparr>w_projects := pr\<rparr>) = runSt w" "runSt (w\<lparr>w_next := nx\<rparr>) = runSt w"
  "storySt (w\<lparr>w_steps := c\<rparr>) = storySt w" "storySt (w\<lparr>w_runs := a\<rparr>) = storySt w"
  "storySt (w\<lparr>w_clock := t\<rparr>) = storySt w" "storySt (w\<lparr>w_projects := pr\<rparr>) = storySt w"
  "storyStage (w\<lparr>w_steps := c\<rparr>) = storyStage w" "storyStage (w\<lparr>w_runs := a\<rparr>) = storyStage w"
  "storyStage (w\<lparr>w_clock := t\<rparr>) = storyStage w" "storyStage (w\<lparr>w_projects := pr\<rparr>) = storyStage w"
  by (auto intro!: views_cong)

section \<open>Effects that leave the tables alone\<close>

text \<open>
  \<open>logged w w'\<close>: \<open>w'\<close> has the tables of \<open>w\<close>; events, jobs, clock and pending faults may differ,
  but no fault appears.
\<close>

definition logged :: "world \<Rightarrow> world \<Rightarrow> bool" where
  "logged w w' \<longleftrightarrow>
     w_runs w' = w_runs w \<and> w_steps w' = w_steps w \<and> w_stories w' = w_stories w
     \<and> w_projects w' = w_projects w \<and> w_hitl w' = w_hitl w
     \<and> (w_faults w = [] \<longrightarrow> w_faults w' = [])"

lemma logged_refl [simp]: "logged w w"
  by (simp add: logged_def)

lemma logged_trans: "logged u v \<Longrightarrow> logged v w \<Longrightarrow> logged u w"
  by (simp add: logged_def)

lemma publishEvent_logged: "logged w (after (publishEvent p typ ent act pl) w)"
  by (simp add: logged_def after_def publishEvent_def Publish_def run_simps run_db_op_faults
        split: list.splits)

lemma after_publish [simp]:
  "w_runs (after (publishEvent p typ ent act pl) w) = w_runs w"
  "w_steps (after (publishEvent p typ ent act pl) w) = w_steps w"
  "w_stories (after (publishEvent p typ ent act pl) w) = w_stories w"
  "w_projects (after (publishEvent p typ ent act pl) w) = w_projects w"
  "w_hitl (after (publishEvent p typ ent act pl) w) = w_hitl w"
  "w_faults w = [] \<Longrightarrow> w_faults (after (publishEvent p typ ent act pl) w) = []"
  using publishEvent_logged [of w p _ ent act pl] by (auto simp: logged_def)

lemma after_publish_next [simp]: "w_next (after (publishEvent p typ ent act pl) w) = w_next w"
  by (simp add: after_def publishEvent_def Publish_def run_simps run_db_op_faults split: list.splits)

lemma after_publish_views [simp]:
  "stepSt (after (publishEvent p typ ent act pl) w) = stepSt w"
  "stepAct (after (publishEvent p typ ent act pl) w) = stepAct w"
  "runSt (after (publishEvent p typ ent act pl) w) = runSt w"
  "storySt (after (publishEvent p typ ent act pl) w) = storySt w"
  "storyStage (after (publishEvent p typ ent act pl) w) = storyStage w"
  by (auto intro!: views_cong)

section \<open>Story updates\<close>

text \<open>
  \<open>storyOnly\<close>: an effect that may only touch stories, events, jobs, clock and pending faults.
\<close>

definition storyOnly :: "world \<Rightarrow> world \<Rightarrow> bool" where
  "storyOnly w w' \<longleftrightarrow>
     w_runs w' = w_runs w \<and> w_steps w' = w_steps w \<and> w_projects w' = w_projects w
     \<and> w_hitl w' = w_hitl w \<and> w_next w' = w_next w \<and> (w_faults w = [] \<longrightarrow> w_faults w' = [])"

interpretation story_only: frame storyOnly
  by unfold_locales (auto simp: storyOnly_def)

lemma storyOnly_ops [frame_intros]:
  "keeps storyOnly (GetStoryByID i)" "keeps storyOnly (UpdateStory x)"
  "keeps storyOnly (UpdateStoryCurrentStage i st)" "keeps storyOnly (SetWritebackStatus i ws)"
  "keeps storyOnly (EnqueueWriteBack a b c d)" "keeps storyOnly (publishEvent p typ ent act pl)"
  by (simp_all add: keeps_def storyOnly_def op_defs run_simps run_db_op_faults run_fault_op_faults
        split: list.splits option.splits)

lemma updateStoryStatus_storyOnly: "keeps storyOnly (updateStoryStatus env run st)"
  unfolding updateStoryStatus_def enqueueWriteBack_def by (intro frame_intros)

lemma setCurrentStage_storyOnly: "keeps storyOnly (setCurrentStage run st)"
  unfolding setCurrentStage_def by (intro frame_intros)

lemma exitStage_storyOnly: "keeps storyOnly (exitStage env run a b)"
  unfolding exitStage_def by (intro frame_intros)

lemma enterStage_storyOnly: "keeps storyOnly (enterStage env run s)"
  unfolding enterStage_def by (intro frame_intros setCurrentStage_storyOnly)

lemma keeps_after: "keeps R m \<Longrightarrow> R w (after m w)"
  by (simp add: keeps_def after_def)

lemma after_storyOnly:
  assumes "keeps storyOnly m"
  shows "w_runs (after m w) = w_runs w" "w_steps (after m w) = w_steps w"
    "w_projects (after m w) = w_projects w" "w_hitl (after m w) = w_hitl w"
    "stepSt (after m w) = stepSt w" "stepAct (after m w) = stepAct w"
    "runSt (after m w) = runSt w" "w_next (after m w) = w_next w"
    "w_faults w = [] \<Longrightarrow> w_faults (after m w) = []"
  using keeps_after [OF assms, of w] by (auto simp: storyOnly_def intro: views_cong)

lemmas after_story_ops [simp] =
  after_storyOnly [OF updateStoryStatus_storyOnly] after_storyOnly [OF setCurrentStage_storyOnly]
  after_storyOnly [OF exitStage_storyOnly] after_storyOnly [OF enterStage_storyOnly]

lemmas run_unit_ops [run_simps] =
  run_unit [of "updateStoryStatus env run st" for env run st]
  run_unit [of "setCurrentStage run st" for run st]
  run_unit [of "exitStage env run a b" for env run a b]
  run_unit [of "enterStage env run a" for env run a]
  run_unit [of "handleStepFailure env run s e" for env run s e]
  run_unit [of "handleCancellation env run s" for env run s]
  run_unit [of "recordStepFailure env run" for env run]

lemma after_bind [simp]: "after (State_Monad.bind m f) w = (case run_state m w of (x, w') \<Rightarrow> after (f x) w')"
  by (simp add: after_def split: prod.splits)

lemma after_return [simp]: "after (State_Monad.return x) w = w"
  by (simp add: after_def run_simps)

lemma storySt_update_stories:
  assumes "\<And>s. story_id (f s) = story_id s"
  shows "storySt (u\<lparr>w_stories := tbl_update story_id k f (w_stories w)\<rparr>) j =
      (if k = j then map_option (\<lambda>s. story_status (f s)) (tbl_find story_id j (w_stories w))
       else storySt w j)"
    and "storyStage (u\<lparr>w_stories := tbl_update story_id k f (w_stories w)\<rparr>) j =
      (if k = j then map_option (\<lambda>s. story_current_stage (f s)) (tbl_find story_id j (w_stories w))
       else storyStage w j)"
  using assms by (auto simp: storySt_def storyStage_def tbl_find_update option.map_comp comp_def)

lemma enqueueWriteBack_views:
  assumes "w_faults w = []"
  shows "storySt (after (enqueueWriteBack env run st) w) = storySt w"
    and "storyStage (after (enqueueWriteBack env run st) w) = storyStage w"
  using assms
  by (auto simp: after_def enqueueWriteBack_def SetWritebackStatus_def EnqueueWriteBack_def
        enqueue_def run_simps storySt_update_stories storySt_def storyStage_def tbl_find_update
        option.map_comp comp_def intro!: ext)

lemma updateStoryStatus_views:
  assumes "w_faults w = []"
  shows "storySt (after (updateStoryStatus env run st) w) =
      (if run_story run = uuid_nil \<or> storySt w (run_story run) = None then storySt w
       else (storySt w)(run_story run \<mapsto> st))"
    and "storyStage (after (updateStoryStatus env run st) w) = storyStage w"
proof -
  let ?k = "run_story run"
  consider "?k = uuid_nil" | "?k \<noteq> uuid_nil" "tbl_find story_id ?k (w_stories w) = None"
    | x where "?k \<noteq> uuid_nil" "tbl_find story_id ?k (w_stories w) = Some x" by fastforce
  then have "storySt (after (updateStoryStatus env run st) w) =
      (if ?k = uuid_nil \<or> storySt w ?k = None then storySt w else (storySt w)(?k \<mapsto> st)) \<and>
    storyStage (after (updateStoryStatus env run st) w) = storyStage w"
  proof cases
    case 3
    let ?f = "set_story (x\<lparr>story_status := st\<rparr>) w"
    let ?w = "w\<lparr>w_stories := tbl_update story_id ?k ?f (w_stories w)\<rparr>"
    have "story_id x = ?k" using 3 by blast
    moreover from 3 have "storySt w ?k \<noteq> None" by (simp add: storySt_def)
    moreover have "storySt ?w = (storySt w)(?k \<mapsto> st)" "storyStage ?w = storyStage w"
      using 3 by (auto simp: storySt_def storyStage_def tbl_find_update intro!: ext)
    ultimately show ?thesis using 3 assms
      by (auto simp: updateStoryStatus_def GetStoryByID_def UpdateStory_def run_simps
            enqueueWriteBack_views)
  qed (use assms in \<open>auto simp: updateStoryStatus_def GetStoryByID_def run_simps storySt_def\<close>)
  then show "storySt (after (updateStoryStatus env run st) w) =
      (if ?k = uuid_nil \<or> storySt w ?k = None then storySt w else (storySt w)(?k \<mapsto> st))"
    and "storyStage (after (updateStoryStatus env run st) w) = storyStage w" by auto
qed

lemma setCurrentStage_views:
  assumes "w_faults w = []"
  shows "storyStage (after (setCurrentStage run st) w) =
      (if run_story run = uuid_nil \<or> storyStage w (run_story run) = None then storyStage w
       else (storyStage w)(run_story run \<mapsto> st))"
    and "storySt (after (setCurrentStage run st) w) = storySt w"
  using assms
  by (auto simp: setCurrentStage_def UpdateStoryCurrentStage_def run_simps storySt_update_stories
        storySt_def storyStage_def tbl_find_update intro!: ext split: option.splits)

lemma stage_views:
  assumes "w_faults w = []"
  shows "storySt (after (exitStage env run a b) w) = storySt w"
    "storyStage (after (exitStage env run a b) w) = storyStage w"
    "storySt (after (enterStage env run s) w) = storySt w"
  using assms
  by (simp_all add: exitStage_def enterStage_def run_simps setCurrentStage_views split: option.splits)

section \<open>Executing one step\<close>

text \<open>
  An action that succeeds, or fails with an error, without touching runs, steps, stories,
  projects or HITL requests (it may publish, run containers and change the metadata).
\<close>

definition succeeds :: "exec_env \<Rightarrow> string \<Rightarrow> bool" where
  "succeeds env name \<longleftrightarrow>
     (\<exists>a. x_actions env name = Some a \<and>
        (\<forall>ctx w. \<exists>m w'. run_state (a ctx) w = ((Inr (), m), w') \<and> logged w w'))"

definition failsWith :: "exec_env \<Rightarrow> string \<Rightarrow> err \<Rightarrow> bool" where
  "failsWith env name e \<longleftrightarrow>
     (\<exists>a. x_actions env name = Some a \<and>
        (\<forall>ctx w. \<exists>m w'. run_state (a ctx) w = ((Inl e, m), w') \<and> logged w w'))"

lemma logged_views:
  "logged w w' \<Longrightarrow> stepSt w' = stepSt w" "logged w w' \<Longrightarrow> runSt w' = runSt w"
  "logged w w' \<Longrightarrow> stepAct w' = stepAct w"
  "logged w w' \<Longrightarrow> storySt w' = storySt w" "logged w w' \<Longrightarrow> storyStage w' = storyStage w"
  by (auto simp: logged_def intro: views_cong)

text \<open>The part of the state the loop must not lose: no pending faults and the tables it reads.\<close>

definition kept :: "world \<Rightarrow> world \<Rightarrow> bool" where
  "kept w w' \<longleftrightarrow> stepAct w' = stepAct w \<and> w_stories w' = w_stories w \<and> w_projects w' = w_projects w \<and> w_hitl w' = w_hitl w
     \<and> (w_faults w = [] \<longrightarrow> w_faults w' = [])"

lemma kept_refl [simp]: "kept w w"
  by (simp add: kept_def)

lemma kept_trans: "kept u v \<Longrightarrow> kept v w \<Longrightarrow> kept u w"
  by (simp add: kept_def)

lemma logged_kept: "logged w w' \<Longrightarrow> kept w w'"
  using views_cong(2) [of w' w] by (simp add: logged_def kept_def)

lemma stepSt_Some: "stepSt w j = Some st \<longleftrightarrow> (\<exists>r. tbl_find rs_id j (w_steps w) = Some r \<and> rs_status r = st)"
  by (auto simp: stepSt_def)

lemma start_step:
  assumes "w_faults w = []" and "stepSt w j = Some st"
  shows "\<exists>row w1. run_state (UpdateRunStepStatus j st' sa ca em) w = (Inr row, w1)
    \<and> rs_id row = j \<and> stepAct w j = Some (rs_action row) \<and> w_runs w1 = w_runs w \<and> kept w w1
    \<and> w_next w1 = w_next w \<and> stepSt w1 = (stepSt w)(j \<mapsto> st')"
proof -
  from assms(2) obtain r where r: "tbl_find rs_id j (w_steps w) = Some r"
    by (auto simp: stepSt_Some)
  then have "rs_id r = j" by blast
  moreover from r have "stepAct w j = Some (rs_action r)" by (simp add: stepAct_def)
  ultimately show ?thesis using r assms
    by (simp add: UpdateRunStepStatus_def run_simps stepSt_update_status stepAct_update_status kept_def)
qed

lemma finishStep_success:
  assumes "w_faults w = []" and "stepSt w (rs_id s) = Some st" and "st \<noteq> StepStatusWaitingApproval"
  shows "\<exists>w'. run_state (finishStep run s meta) w = (Inr (), w') \<and> kept w w' \<and> runSt w' = runSt w
    \<and> stepSt w' = (stepSt w)(rs_id s \<mapsto> StepStatusCompleted)"
proof -
  from assms(2) obtain r where r: "tbl_find rs_id (rs_id s) (w_steps w) = Some r" "rs_status r = st"
    by (auto simp: stepSt_Some)
  let ?meta = "\<lambda>r. r\<lparr>run_metadata := meta, run_updated_at := w_clock w\<rparr>"
  let ?w1 = "w\<lparr>w_runs := tbl_update run_id (run_id run) ?meta (w_runs w),
     w_clock := w_clock w + int (w_tick w)\<rparr>"
  let ?done = "set_step_status StepStatusCompleted None (Some (w_clock w)) None ?w1"
  let ?w2 = "?w1\<lparr>w_steps := tbl_update rs_id (rs_id s) ?done (w_steps w)\<rparr>"
  have "stepSt ?w2 = (stepSt w)(rs_id s \<mapsto> StepStatusCompleted)"
    using assms(2) by (auto simp: stepSt_def tbl_find_update intro!: ext)
  moreover have "runSt ?w2 = runSt w"
    by (auto simp: runSt_def tbl_find_update option.map_comp comp_def intro!: ext)
  moreover have "stepAct ?w2 = stepAct w"
    by (auto simp: stepAct_def tbl_find_update option.map_comp comp_def intro!: ext)
  ultimately show ?thesis
    using assms(1,3) r
    by (auto simp: finishStep_def UpdateRunMetadata_def GetRunStep_def UpdateRunStepStatus_def
          run_simps kept_def)
qed

text \<open>Up to the action: the step is running and its row's action is the one looked up.\<close>

lemma executeStep_begin:
  assumes "w_faults w = []" and "stepSt w (rs_id s) = Some st"
    and "stepAct w (rs_id s) = Some (rs_action s)"
  shows "\<exists>row v. run_state (executeStep env run s meta) w = run_state (performStep env run row meta) v
    \<and> rs_id row = rs_id s \<and> rs_action row = rs_action s \<and> w_faults v = [] \<and> kept w v
    \<and> w_next v = w_next w \<and> runSt v = runSt w \<and> stepSt v = (stepSt w)(rs_id s \<mapsto> StepStatusRunning)"
proof -
  let ?w0 = "w\<lparr>w_clock := w_clock w + int (w_tick w)\<rparr>"
  have w0: "w_faults ?w0 = []" "stepSt ?w0 (rs_id s) = Some st" using assms(1,2) by simp_all
  from start_step [OF w0, of StepStatusRunning "Some (w_clock w)" None None] assms(3) obtain row w1 where
    w1: "run_state (UpdateRunStepStatus (rs_id s) StepStatusRunning (Some (w_clock w)) None None) ?w0
        = (Inr row, w1)" "rs_id row = rs_id s" "rs_action row = rs_action s" "w_runs w1 = w_runs w"
      "kept w w1" "stepSt w1 = (stepSt w)(rs_id s \<mapsto> StepStatusRunning)" "w_next w1 = w_next w"
    by (auto simp: kept_def)
  let ?pl = "stepPayload run row @ [(''action'', JStr (rs_action row)), statusEntry ''running'',
    (''started_at'', JTime (w_clock w))]"
  let ?w2 = "after (publishEvent (run_project run) ''step'' (rs_id row) ''started'' ?pl) w1"
  have "run_state (executeStep env run s meta) w = run_state (performStep env run row meta) ?w2"
    using w1(1) by (simp add: executeStep_def run_simps)
  moreover have "w_faults ?w2 = []" "kept w ?w2" "runSt ?w2 = runSt w" "w_next ?w2 = w_next w"
      "stepSt ?w2 = (stepSt w)(rs_id s \<mapsto> StepStatusRunning)"
    using w1(4-7) assms(1) views_cong(3) [OF w1(4)] by (auto simp: kept_def)
  ultimately show ?thesis using w1(2,3) by blast
qed

lemma executeStep_success:
  assumes "w_faults w = []" and "stepSt w (rs_id s) = Some st"
    and "stepAct w (rs_id s) = Some (rs_action s)" and "succeeds env (rs_action s)"
  shows "\<exists>m w'. run_state (executeStep env run s meta) w = ((Inr (), m), w') \<and> kept w w'
    \<and> runSt w' = runSt w \<and> stepSt w' = (stepSt w)(rs_id s \<mapsto> StepStatusCompleted)"
proof -
  from executeStep_begin [OF assms(1-3), of env run meta] obtain row v where
    v: "run_state (executeStep env run s meta) w = run_state (performStep env run row meta) v"
      "rs_id row = rs_id s" "rs_action row = rs_action s" "w_faults v = []" "kept w v"
      "runSt v = runSt w" "stepSt v = (stepSt w)(rs_id s \<mapsto> StepStatusRunning)"
    by blast
  from assms(4) obtain a where a: "x_actions env (rs_action s) = Some a"
    and run_a: "\<And>ctx w. \<exists>m w'. run_state (a ctx) w = ((Inr (), m), w') \<and> logged w w'"
    by (auto simp: succeeds_def)
  from run_a [of "runContext env run row meta" v] obtain m w3 where
    w3: "run_state (a (runContext env run row meta)) v = ((Inr (), m), w3)" "logged v w3"
    by blast
  have f3: "w_faults w3 = []" using v(4) w3(2) by (simp add: logged_def)
  have s3: "stepSt w3 = (stepSt w)(rs_id s \<mapsto> StepStatusRunning)" "runSt w3 = runSt w"
    using logged_views(1,2) [OF w3(2)] v(6,7) by simp_all
  from finishStep_success [OF f3, of row StepStatusRunning run m] s3 v(2) obtain w4 where
    w4: "run_state (finishStep run row m) w3 = (Inr (), w4)" "kept w3 w4" "runSt w4 = runSt w"
      "stepSt w4 = (stepSt w)(rs_id s \<mapsto> StepStatusCompleted)"
    by auto
  have "kept w w4" using v(5) logged_kept [OF w3(2)] w4(2) by (blast intro: kept_trans)
  with v(1,3) w3 w4 a show ?thesis
    by (auto simp: performStep_def getAction_def run_simps)
qed

lemma executeStep_fails:
  assumes "w_faults w = []" and "stepSt w (rs_id s) = Some st"
    and "stepAct w (rs_id s) = Some (rs_action s)" and "failsWith env (rs_action s) e"
  shows "\<exists>m w'. run_state (executeStep env run s meta) w = ((Inl e, m), w') \<and> kept w w'
    \<and> runSt w' = runSt w \<and> stepSt w' = (stepSt w)(rs_id s \<mapsto> StepStatusRunning)"
proof -
  from executeStep_begin [OF assms(1-3), of env run meta] obtain row v where
    v: "run_state (executeStep env run s meta) w = run_state (performStep env run row meta) v"
      "rs_action row = rs_action s" "kept w v"
      "runSt v = runSt w" "stepSt v = (stepSt w)(rs_id s \<mapsto> StepStatusRunning)"
    by blast
  from assms(4) obtain a where a: "x_actions env (rs_action s) = Some a"
    and run_a: "\<And>ctx w. \<exists>m w'. run_state (a ctx) w = ((Inl e, m), w') \<and> logged w w'"
    by (auto simp: failsWith_def)
  from run_a [of "runContext env run row meta" v] obtain m w3 where
    w3: "run_state (a (runContext env run row meta)) v = ((Inl e, m), w3)" "logged v w3"
    by blast
  have "kept w w3" using v(3) logged_kept [OF w3(2)] by (rule kept_trans)
  with v(1,2,4,5) w3 a logged_views(1,2) [OF w3(2)] show ?thesis
    by (auto simp: performStep_def getAction_def run_simps)
qed

section \<open>Advancing through the steps\<close>

definition runOK :: "uuid \<Rightarrow> world \<Rightarrow> bool" where
  "runOK i w \<longleftrightarrow> (\<exists>st. runSt w i = Some st \<and> st \<noteq> RunStatusPaused)"

text \<open>
  \<open>adv i w w'\<close>: the executor of run \<open>i\<close> can go on in \<open>w'\<close> when it could in \<open>w\<close>. No step or story
  row is lost, no completed step is reopened, the run exists and is not paused; its status may be
  anything else.
\<close>

definition adv :: "uuid \<Rightarrow> world \<Rightarrow> world \<Rightarrow> bool" where
  "adv i w w' \<longleftrightarrow>
     (w_faults w = [] \<longrightarrow> w_faults w' = []) \<and> dom (storySt w') = dom (storySt w)
     \<and> stepAct w' = stepAct w
     \<and> (\<forall>j. stepSt w j = Some StepStatusCompleted \<longrightarrow> stepSt w' j = Some StepStatusCompleted)
     \<and> (runOK i w \<longrightarrow> runOK i w')"

lemma adv_refl [simp]: "adv i w w"
  by (simp add: adv_def)

lemma adv_trans: "adv i u v \<Longrightarrow> adv i v w \<Longrightarrow> adv i u w"
  by (simp add: adv_def)

lemma kept_adv:
  assumes "kept w w'" and "runSt w' = runSt w" and "stepSt w' = (stepSt w)(j \<mapsto> StepStatusCompleted)"
    and "stepSt w j \<noteq> None"
  shows "adv i w w'"
  using assms views_cong(4) [of w' w] by (auto simp: adv_def kept_def runOK_def)

lemma adv_logged: "logged w w' \<Longrightarrow> adv i w w'"
  using logged_views [of w w'] by (auto simp: adv_def runOK_def logged_def)

text \<open>The stage the loop is in, if any, is left automatically.\<close>

definition autoRef :: "pipeline_config_yaml option \<Rightarrow> stage_ref option \<Rightarrow> bool" where
  "autoRef policy cur \<longleftrightarrow> (\<forall>c. cur = Some c \<longrightarrow> transitionFor policy (sr_id c) = TransitionAuto)"

lemma autoRef_None [simp]: "autoRef policy None"
  by (simp add: autoRef_def)

lemma newStageRef_id [simp]: "sr_id (newStageRef s) = rs_stage_id s"
  by (simp add: newStageRef_def)

lemma crossBoundary_auto:
  assumes "autoRef policy cur" and "transitionFor policy (rs_stage_id s) = TransitionAuto"
  shows "run_state (crossBoundary env run policy cur prev s meta) w =
     (if matches cur (rs_stage_id s) then (Inr (Inr cur), w)
      else (Inr (Inr (Some (newStageRef s))),
            after (enterStage env run (newStageRef s))
              (after (exitStage env run cur (Some (newStageRef s))) w)))"
  using assms
  by (simp add: crossBoundary_def parkOr_def enforceGateOnExit_def enforceManualOnEnter_def run_simps
        autoRef_def split: option.splits)

lemma crossBoundary_auto_adv:
  assumes "autoRef policy cur" and "transitionFor policy (rs_stage_id s) = TransitionAuto"
    and "w_faults w = []"
  shows "\<exists>c w'. run_state (crossBoundary env run policy cur prev s meta) w = (Inr (Inr (Some c)), w')
    \<and> adv i w w' \<and> stepSt w' = stepSt w \<and> runSt w' = runSt w \<and> autoRef policy (Some c)"
  using assms
  by (auto simp: crossBoundary_auto matches_def adv_def runOK_def stage_views autoRef_def
        split: option.splits)

lemma crossBoundary_auto_apart:
  assumes "autoRef policy cur" and "transitionFor policy (rs_stage_id s) = TransitionAuto"
    and "run_state (crossBoundary env run policy cur prev s meta) w = (x, w')"
  shows "w_projects w' = w_projects w"
  using assms by (auto simp: crossBoundary_auto split: if_splits)

text \<open>
  \<open>apart env J w w'\<close>: steps outside \<open>J\<close> and the projects are as before, unless another process
  touches them.
\<close>

definition apart :: "exec_env \<Rightarrow> uuid set \<Rightarrow> world \<Rightarrow> world \<Rightarrow> bool" where
  "apart env J w w' \<longleftrightarrow>
     (\<forall>j. j \<notin> J \<and> (\<forall>k v. stepSt (x_other env k v) j = stepSt v j) \<longrightarrow> stepSt w' j = stepSt w j)
     \<and> ((\<forall>k v. w_projects (x_other env k v) = w_projects v) \<longrightarrow> w_projects w' = w_projects w)"

lemma apart_refl [simp]: "apart env J w w"
  by (simp add: apart_def)

lemma apart_trans: "apart env J u v \<Longrightarrow> apart env K v w \<Longrightarrow> apart env (J \<union> K) u w"
  by (simp add: apart_def)

lemma apart_mono: "apart env J u v \<Longrightarrow> J \<subseteq> K \<Longrightarrow> apart env K u v"
  by (auto simp: apart_def)

text \<open>
  A step the loop may have to execute successfully: its row is as listed, its action succeeds,
  its stage is entered and left automatically.
\<close>

definition ready :: "exec_env \<Rightarrow> pipeline_config_yaml option \<Rightarrow> world \<Rightarrow> run_step \<Rightarrow> bool" where
  "ready env policy w s \<longleftrightarrow>
     stepAct w (rs_id s) = Some (rs_action s) \<and>
     (if rs_status s = StepStatusCompleted then stepSt w (rs_id s) = Some StepStatusCompleted
      else succeeds env (rs_action s) \<and> transitionFor policy (rs_stage_id s) = TransitionAuto)"

lemma ready_adv: "ready env policy w s \<Longrightarrow> adv i w w' \<Longrightarrow> ready env policy w' s"
  by (auto simp: ready_def adv_def)

text \<open>One iteration on a step that is not completed, up to \<open>executeStep\<close>.\<close>

lemma runLoop_to_step:
  assumes auto_policy: "autoRef policy cur" "transitionFor policy (rs_stage_id s) = TransitionAuto"
    and live: "\<And>v. \<not> x_ctx_done env v"
    and others: "\<And>j v. adv (run_id run) v (x_other env j v)"
    and w: "w_faults w = []" "runOK (run_id run) w" "rs_status s \<noteq> StepStatusCompleted"
  shows "\<exists>c v. run_state (runLoop env run policy (s # ss) cur prev meta) w =
      run_state (do {
         (r, meta') \<leftarrow> executeStep env run s meta;
         case r of
           Inl e \<Rightarrow>
             if err_is e ErrStepSuspended then State_Monad.return (Inl (Inr ()))
             else do {
               _ \<leftarrow> handleStepFailure env run s e;
               _ \<leftarrow> recordStepFailure env run;
               State_Monad.return (Inl (Inl e)) }
         | Inr _ \<Rightarrow> runLoop env run policy ss (Some c) (Some s) meta' }) v
    \<and> adv (run_id run) w v \<and> apart env {} w v \<and> w_faults v = [] \<and> autoRef policy (Some c)"
proof -
  let ?i = "run_id run"
  let ?w0 = "x_other env (rs_id s) w"
  have a0: "adv ?i w ?w0" by (rule others)
  with w have f0: "w_faults ?w0 = []" and ok0: "runOK ?i ?w0" by (simp_all add: adv_def)
  from ok0 obtain r where r: "tbl_find run_id ?i (w_runs ?w0) = Some r" "run_status r \<noteq> RunStatusPaused"
    by (auto simp: runOK_def runSt_def)
  from crossBoundary_auto_adv [OF auto_policy f0, where i = ?i] obtain c w1 where
    w1: "run_state (crossBoundary env run policy cur prev s meta) ?w0 = (Inr (Inr (Some c)), w1)"
      "adv ?i ?w0 w1" "stepSt w1 = stepSt ?w0" "runSt w1 = runSt ?w0" "autoRef policy (Some c)" by blast
  have "w_projects w1 = w_projects ?w0"
    by (rule crossBoundary_auto_apart [OF auto_policy w1(1)])
  then have "apart env {} w w1" using w1(3) by (auto simp: apart_def)
  moreover have "w_faults w1 = []" using w1(2) f0 by (simp add: adv_def)
  moreover note adv_trans [OF a0 w1(2)]
  ultimately show ?thesis
    using w(3) w1(1,5) r f0 live [of ?w0]
    by (intro exI [of _ c] exI [of _ w1]) (simp add: run_simps GetRun_def)
qed

text \<open>
  The loop without gates: whatever other processes do between the steps, as long as it is
  \<open>adv\<close>, every step of the list ends up completed and the loop reaches its end.
\<close>

lemma runLoop_all_complete:
  assumes live: "\<And>v. \<not> x_ctx_done env v"
    and others: "\<And>j v. adv (run_id run) v (x_other env j v)"
  shows "w_faults w = [] \<Longrightarrow> runOK (run_id run) w \<Longrightarrow> autoRef policy cur \<Longrightarrow> \<forall>s \<in> set ss. ready env policy w s \<Longrightarrow>
    \<exists>cur' prev' m w'. run_state (runLoop env run policy ss cur prev meta) w = (Inr (cur', prev', m), w')
      \<and> adv (run_id run) w w' \<and> (\<forall>s \<in> set ss. stepSt w' (rs_id s) = Some StepStatusCompleted)
      \<and> (cur' = None \<longleftrightarrow> cur = None \<and> (\<forall>s \<in> set ss. rs_status s = StepStatusCompleted))
      \<and> apart env (rs_id ` set ss) w w' \<and> autoRef policy cur'"
proof (induction ss arbitrary: w cur prev meta)
  case Nil
  then show ?case by (simp add: run_simps)
next
  case (Cons s ss)
  let ?i = "run_id run"
  show ?case
  proof (cases "rs_status s = StepStatusCompleted")
    case True
    from Cons.prems have "\<forall>s \<in> set ss. ready env policy w s" by simp
    from Cons.IH [OF Cons.prems(1,2,3) this, of prev meta] obtain cur' prev' m w' where
      "run_state (runLoop env run policy ss cur prev meta) w = (Inr (cur', prev', m), w')"
      "adv ?i w w'" "\<forall>s \<in> set ss. stepSt w' (rs_id s) = Some StepStatusCompleted"
      "cur' = None \<longleftrightarrow> cur = None \<and> (\<forall>s \<in> set ss. rs_status s = StepStatusCompleted)"
      "apart env (rs_id ` set ss) w w'" "autoRef policy cur'"
      by blast
    with True Cons.prems(4) show ?thesis
      by (auto simp: adv_def ready_def intro: apart_mono)
  next
    case False
    have "transitionFor policy (rs_stage_id s) = TransitionAuto"
      using Cons.prems(4) False by (simp add: ready_def)
    from runLoop_to_step [OF Cons.prems(3) this live others Cons.prems(1,2) False, of ss prev meta]
    obtain c v where
      v: "run_state (runLoop env run policy (s # ss) cur prev meta) w =
          run_state (do {
             (r, meta') \<leftarrow> executeStep env run s meta;
             case r of
               Inl e \<Rightarrow>
                 if err_is e ErrStepSuspended then State_Monad.return (Inl (Inr ()))
                 else do {
                   _ \<leftarrow> handleStepFailure env run s e;
                   _ \<leftarrow> recordStepFailure env run;
                   State_Monad.return (Inl (Inl e)) }
             | Inr _ \<Rightarrow> runLoop env run policy ss (Some c) (Some s) meta' }) v"
        "adv ?i w v" "apart env {} w v" "w_faults v = []" "autoRef policy (Some c)" by blast
    have rv: "ready env policy v s" "\<forall>s \<in> set ss. ready env policy v s"
      using Cons.prems(4) ready_adv [OF _ v(2)] by auto
    have act: "stepAct v (rs_id s) = Some (rs_action s)" "succeeds env (rs_action s)"
      using rv(1) False by (simp_all add: ready_def)
    then obtain st where st: "stepSt v (rs_id s) = Some st"
      using stepAct_dom [of v "rs_id s"] by auto
    from executeStep_success [OF v(4) st act] obtain m w2 where
      w2: "run_state (executeStep env run s meta) v = ((Inr (), m), w2)" "kept v w2"
        "runSt w2 = runSt v" "stepSt w2 = (stepSt v)(rs_id s \<mapsto> StepStatusCompleted)" by blast
    have a2: "adv ?i v w2" using kept_adv [OF w2(2,3,4)] st by simp
    then have "w_faults w2 = []" "runOK ?i w2"
      using v(2,4) Cons.prems(2) by (simp_all add: adv_def)
    moreover note v(5)
    moreover have "\<forall>s \<in> set ss. ready env policy w2 s" using rv(2) ready_adv [OF _ a2] by blast
    ultimately obtain cur' prev' m' w' where
      w': "run_state (runLoop env run policy ss (Some c) (Some s) m) w2 = (Inr (cur', prev', m'), w')"
        "adv ?i w2 w'" "\<forall>s \<in> set ss. stepSt w' (rs_id s) = Some StepStatusCompleted" "cur' \<noteq> None"
        "apart env (rs_id ` set ss) w2 w'" "autoRef policy cur'"
      using Cons.IH [of w2 "Some c" "Some s" m] by blast
    have "stepSt w' (rs_id s) = Some StepStatusCompleted" using w2(4) w'(2) by (simp add: adv_def)
    moreover have "adv ?i w w'" using v(2) a2 w'(2) by (blast intro: adv_trans)
    moreover have *: "apart env {rs_id s} v w2" using w2(2,4) by (simp add: apart_def kept_def)
    have "apart env (rs_id ` set (s # ss)) w w'"
      using apart_trans [OF apart_trans [OF v(3) *] w'(5)] by simp
    ultimately show ?thesis using w' False v(1) w2(1) by (auto simp: run_simps)
  qed
qed

section \<open>Breaker updates\<close>

definition breakerOnly :: "world \<Rightarrow> world \<Rightarrow> bool" where
  "breakerOnly w w' \<longleftrightarrow>
     w_runs w' = w_runs w \<and> w_steps w' = w_steps w \<and> w_stories w' = w_stories w
     \<and> w_hitl w' = w_hitl w \<and> (w_faults w = [] \<longrightarrow> w_faults w' = [])"

interpretation breaker_only: frame breakerOnly
  by unfold_locales (auto simp: breakerOnly_def)

lemma breakerOnly_ops [frame_intros]:
  "keeps breakerOnly (GetProjectByID i)" "keeps breakerOnly (IncrementCircuitBreakerCount i)"
  "keeps breakerOnly (ResetCircuitBreaker i)" "keeps breakerOnly (publishEvent p typ ent act pl)"
  by (simp_all add: keeps_def breakerOnly_def op_defs run_simps run_db_op_faults
        split: list.splits option.splits)

lemma breakerOnly_services:
  "keeps breakerOnly (RecordSuccess p)" "keeps breakerOnly (RecordFailure p)"
  "keeps breakerOnly (CheckCircuitBreaker p)" "keeps breakerOnly (checkBreaker env run)"
  unfolding breaker_ops checkBreaker_def by (intro frame_intros)+

lemma after_breakerOnly:
  assumes "keeps breakerOnly m"
  shows "stepSt (after m w) = stepSt w" "stepAct (after m w) = stepAct w" "runSt (after m w) = runSt w" "storySt (after m w) = storySt w"
    "storyStage (after m w) = storyStage w" "w_faults w = [] \<Longrightarrow> w_faults (after m w) = []"
    "w_steps (after m w) = w_steps w" "w_runs (after m w) = w_runs w" "w_hitl (after m w) = w_hitl w"
    "w_stories (after m w) = w_stories w"
  using keeps_after [OF assms, of w] by (auto simp: breakerOnly_def intro: views_cong)

definition recordSuccess :: "exec_env \<Rightarrow> run \<Rightarrow> unit op" where
  "recordSuccess env run =
     (if x_circuit_breaker env then do { _ \<leftarrow> RecordSuccess (run_project run); skip } else skip)"

lemma record_breakerOnly:
  "keeps breakerOnly (recordSuccess env run)" "keeps breakerOnly (recordStepFailure env run)"
  unfolding recordSuccess_def recordStepFailure_def by (intro frame_intros breakerOnly_services)+

lemmas after_record [simp] = after_breakerOnly [OF record_breakerOnly(1)]
  after_breakerOnly [OF record_breakerOnly(2)]

lemmas run_recordSuccess [run_simps] = run_unit [of "recordSuccess env run" for env run]

section \<open>ExecuteRun\<close>

lemma completeRun_views:
  assumes "w_faults w = []" and "runSt w (run_id run) \<noteq> None"
  shows "\<exists>w'. run_state (completeRun env run) w = (Inr (), w')
    \<and> runSt w' = (runSt w)(run_id run \<mapsto> RunStatusCompleted) \<and> stepSt w' = stepSt w
    \<and> storyStage w' = storyStage w \<and> w_hitl w' = w_hitl w
    \<and> storySt w' = (if run_story run = uuid_nil \<or> storySt w (run_story run) = None then storySt w
                    else (storySt w)(run_story run \<mapsto> StoryStatusDone))"
proof -
  from assms(2) obtain r where r: "tbl_find run_id (run_id run) (w_runs w) = Some r"
    by (auto simp: runSt_def)
  have "run_state (completeRun env run) w =
     run_state (do {
     completedAt \<leftarrow> time_now;
     attempt (UpdateRunStatus (run_id run) RunStatusCompleted None (Some completedAt) None None) (\<lambda>_. do {
       _ \<leftarrow> publishEvent (run_project run) ''run'' (run_id run) ''completed''
         (runPayload (run_id run) run ''completed'' @ [(''completed_at'', JTime completedAt)]);
       _ \<leftarrow> updateStoryStatus env run StoryStatusDone;
       _ \<leftarrow> recordSuccess env run;
       ok () }) }) w"
    by (simp add: completeRun_def recordSuccess_def)
  with r assms show ?thesis
    by (auto simp: UpdateRunStatus_def run_simps runSt_update_status updateStoryStatus_views)
qed

lemma finishRun_auto:
  assumes "w_faults w = []" and "runSt w (run_id run) \<noteq> None"
    and "autoRef policy cur"
  shows "\<exists>w'. run_state (finishRun env run policy cur prev) w = (Inr (), w')
    \<and> runSt w' = (runSt w)(run_id run \<mapsto> RunStatusCompleted) \<and> stepSt w' = stepSt w
    \<and> storySt w' = (if run_story run = uuid_nil \<or> storySt w (run_story run) = None then storySt w
                    else (storySt w)(run_story run \<mapsto> StoryStatusDone))
    \<and> (cur \<noteq> None \<and> run_story run \<noteq> uuid_nil \<and> storyStage w (run_story run) \<noteq> None \<longrightarrow>
         storyStage w' (run_story run) = Some None)"
proof (cases cur)
  case None
  with completeRun_views [OF assms(1,2), of env] show ?thesis
    by (auto simp: finishRun_def)
next
  case (Some c)
  let ?w = "after (clearStoryCurrentStage run) (after (exitStage env run cur None) w)"
  have views: "w_faults ?w = []" "runSt ?w = runSt w" "stepSt ?w = stepSt w" "storySt ?w = storySt w"
    "run_story run \<noteq> uuid_nil \<and> storyStage w (run_story run) \<noteq> None \<Longrightarrow>
       storyStage ?w (run_story run) = Some None"
    using assms(1) by (auto simp: clearStoryCurrentStage_def setCurrentStage_views stage_views)
  have "run_state (finishRun env run policy cur prev) w = run_state (completeRun env run) ?w"
    using Some assms(3)
    by (simp add: finishRun_def enforceGateOnExit_def run_simps clearStoryCurrentStage_def autoRef_def)
  with completeRun_views [of ?w run env] views assms(2) show ?thesis by auto
qed

lemma parseTransitionPolicy_cong [simp]:
  "parseTransitionPolicy (set_run_status st sa ca pa em w r) = parseTransitionPolicy r"
  by (simp add: parseTransitionPolicy_def)

lemma steps_of_in: "s \<in> set (steps_of i w) \<longleftrightarrow> s \<in> set (w_steps w) \<and> rs_run s = i"
  by (auto simp: steps_of_def)

lemma stepSt_row:
  "distinct (map rs_id (w_steps w)) \<Longrightarrow> s \<in> set (w_steps w) \<Longrightarrow> stepSt w (rs_id s) = Some (rs_status s)"
  by (auto simp: stepSt_def tbl_find_Some_iff)

lemma storySt_stage_dom: "storySt w k = None \<longleftrightarrow> storyStage w k = None"
  by (auto simp: storySt_def storyStage_def)

lemma ready_rows:
  "distinct (map rs_id (w_steps w)) \<Longrightarrow> s \<in> set (w_steps w) \<Longrightarrow>
   stepAct w (rs_id s) = Some (rs_action s) \<and> stepSt w (rs_id s) = Some (rs_status s)"
  by (auto simp: stepSt_def stepAct_def tbl_find_Some_iff)

text \<open>Up to the loop: the run is marked running and its story is marked running.\<close>

lemma startRun_entry:
  assumes "w_faults w = []" and "tbl_find run_id i (w_runs w) = Some r"
  shows "\<exists>run v. w_faults v = [] \<and> runSt v = (runSt w)(i \<mapsto> RunStatusRunning) \<and> stepSt v = stepSt w
    \<and> w_next v = w_next w \<and> w_hitl v = w_hitl w \<and> w_steps v = w_steps w \<and> stepAct v = stepAct w
    \<and> storySt v = (if run_story r = uuid_nil \<or> storySt w (run_story r) = None then storySt w
                   else (storySt w)(run_story r \<mapsto> StoryStatusRunning))
    \<and> storyStage v = storyStage w \<and> w_projects v = w_projects w
    \<and> run_id run = i \<and> run_story run = run_story r \<and> run_project run = run_project r
    \<and> parseTransitionPolicy run = parseTransitionPolicy r \<and> run_metadata run = run_metadata r
    \<and> run_snapshot run = run_snapshot r
    \<and> run_state (startRun env i steps) w =
        (case run_state (runLoop env run (parseTransitionPolicy r) steps None None (run_metadata r)) v of
           (Inl x, u) \<Rightarrow> (x, u)
         | (Inr (cur, prev, meta), u) \<Rightarrow> run_state (finishRun env run (parseTransitionPolicy r) cur prev) u)"
proof -
  let ?t = "w\<lparr>w_clock := w_clock w + int (w_tick w)\<rparr>"
  let ?f = "set_run_status RunStatusRunning (Some (w_clock w)) None None None ?t"
  let ?run = "?f r"
  let ?w1 = "?t\<lparr>w_runs := tbl_update run_id i ?f (w_runs w)\<rparr>"
  let ?w2 = "after (publishEvent (run_project r) ''run'' i ''started''
    (runPayload i ?run ''running'' @ [(''started_at'', JTime (w_clock w))])) ?w1"
  let ?v = "after (updateStoryStatus env ?run StoryStatusRunning) ?w2"
  have "run_id r = i" using assms(2) by blast
  moreover have "runSt w i = Some (run_status r)" using assms(2) by (simp add: runSt_def)
  ultimately show ?thesis
    using assms
    by (intro exI [of _ ?run] exI [of _ ?v])
       (simp add: startRun_def UpdateRunStatus_def run_simps updateStoryStatus_views
         runSt_update_status split: prod.splits sum.splits)
qed

lemma ExecuteRun_entry:
  assumes "w_faults w = []" and "tbl_find run_id i (w_runs w) = Some r"
    and "\<not> run_terminal (run_status r)"
    and "x_circuit_breaker env \<longrightarrow> (\<exists>c m. breaker_of (run_project r) w = Some (c, False, m))"
  shows "run_state (ExecuteRun env i) w = run_state (startRun env i (steps_of i w)) w"
proof -
  have "run_state (checkBreaker env r) w = (Inr (), w)"
    using assms(1,4) by (auto simp: checkBreaker_def run_simps CheckCircuitBreaker_iff)
  with assms(1-3) show ?thesis
    by (auto simp: ExecuteRun_def GetRun_def ListRunStepsByRun_def run_simps run_terminal_def
          steps_of_def sort_key_id_if_sorted)
qed

lemma ExecuteRun_completes:
  assumes "w_faults w = []" and "tbl_find run_id i (w_runs w) = Some r"
    and "\<not> run_terminal (run_status r)"
    and "x_circuit_breaker env \<longrightarrow> (\<exists>c m. breaker_of (run_project r) w = Some (c, False, m))"
    and "distinct (map rs_id (w_steps w))"
    and "\<And>v. \<not> x_ctx_done env v" and "\<And>j v. adv i v (x_other env j v)"
    and "\<And>s. s \<in> set (w_steps w) \<Longrightarrow> rs_run s = i \<Longrightarrow> rs_status s \<noteq> StepStatusCompleted \<Longrightarrow>
           succeeds env (rs_action s)
           \<and> transitionFor (parseTransitionPolicy r) (rs_stage_id s) = TransitionAuto"
  shows "\<exists>w'. run_state (ExecuteRun env i) w = (Inr (), w') \<and> runSt w' i = Some RunStatusCompleted
    \<and> (\<forall>s \<in> set (w_steps w). rs_run s = i \<longrightarrow> stepSt w' (rs_id s) = Some StepStatusCompleted)
    \<and> (run_story r \<noteq> uuid_nil \<and> storySt w (run_story r) \<noteq> None \<longrightarrow>
         storySt w' (run_story r) = Some StoryStatusDone
         \<and> ((\<exists>s \<in> set (w_steps w). rs_run s = i \<and> rs_status s \<noteq> StepStatusCompleted) \<longrightarrow>
              storyStage w' (run_story r) = Some None))"
proof -
  from startRun_entry [OF assms(1,2), of env "steps_of i w"] obtain run v where
    v: "w_faults v = []" "runSt v = (runSt w)(i \<mapsto> RunStatusRunning)" "stepSt v = stepSt w"
      "run_id run = i" "run_story run = run_story r"
      "storySt v = (if run_story r = uuid_nil \<or> storySt w (run_story r) = None then storySt w
                   else (storySt w)(run_story r \<mapsto> StoryStatusRunning))"
      "stepAct v = stepAct w"
    and start: "run_state (startRun env i (steps_of i w)) w =
        (case run_state (runLoop env run (parseTransitionPolicy r) (steps_of i w) None None (run_metadata r)) v of
           (Inl x, u) \<Rightarrow> (x, u)
         | (Inr (cur, prev, meta), u) \<Rightarrow> run_state (finishRun env run (parseTransitionPolicy r) cur prev) u)"
    by blast
  let ?policy = "parseTransitionPolicy r"
  have rows: "\<forall>s \<in> set (steps_of i w). ready env ?policy v s"
    using ready_rows [OF assms(5)] assms(8) v(3,7) by (simp add: steps_of_in ready_def)
  have ok: "runOK (run_id run) v" using v(2,4) by (simp add: runOK_def)
  have others: "\<And>j v. adv (run_id run) v (x_other env j v)" using assms(7) v(4) by simp
  obtain cur prev m u where
    u: "run_state (runLoop env run (parseTransitionPolicy r) (steps_of i w) None None (run_metadata r)) v
        = (Inr (cur, prev, m), u)" "adv (run_id run) v u"
      "\<forall>s \<in> set (steps_of i w). stepSt u (rs_id s) = Some StepStatusCompleted"
      "cur = None \<longleftrightarrow> None = (None :: stage_ref option)
         \<and> (\<forall>s \<in> set (steps_of i w). rs_status s = StepStatusCompleted)"
      "autoRef ?policy cur"
    using runLoop_all_complete [where ?run = run and ?w = v and ?cur = None and ?prev = None
      and ?ss = "steps_of i w" and ?meta = "run_metadata r",
      OF assms(6) others v(1) ok autoRef_None rows] by blast
  have fu: "w_faults u = []" and ru: "runSt u i \<noteq> None" and su: "dom (storySt u) = dom (storySt v)"
    using u(2) v(1,4) ok by (auto simp: adv_def runOK_def)
  from finishRun_auto [of u run ?policy cur env prev] fu ru v(4) u(5)
  obtain w' where
    w': "run_state (finishRun env run (parseTransitionPolicy r) cur prev) u = (Inr (), w')"
      "runSt w' = (runSt u)(i \<mapsto> RunStatusCompleted)" "stepSt w' = stepSt u"
      "storySt w' = (if run_story run = uuid_nil \<or> storySt u (run_story run) = None then storySt u
                    else (storySt u)(run_story run \<mapsto> StoryStatusDone))"
      "cur \<noteq> None \<and> run_story run \<noteq> uuid_nil \<and> storyStage u (run_story run) \<noteq> None \<longrightarrow>
         storyStage w' (run_story run) = Some None" by auto
  have "run_state (ExecuteRun env i) w = (Inr (), w')"
    using ExecuteRun_entry [OF assms(1-4)] start u(1) w'(1) by (simp add: run_simps)
  moreover have "storySt w (run_story r) \<noteq> None \<Longrightarrow> storyStage u (run_story r) \<noteq> None"
    using su v(6) by (auto simp: storySt_stage_dom [symmetric] dom_def set_eq_iff)
  moreover have "storySt w (run_story r) \<noteq> None \<Longrightarrow> storySt u (run_story r) \<noteq> None"
    using su v(6) by (auto simp: dom_def set_eq_iff)
  ultimately show ?thesis
    using w' u(3,4) v(5) by (auto simp: steps_of_in)
qed

text \<open>
  C1: with no infrastructure failure and a closed breaker, when the steps that are not completed
  have actions that succeed and stages on automatic transition, \<open>ExecuteRun\<close> of a run that is not terminal returns without error, the run
  is completed, every step of the run is completed, its story is done, and, when a step was left
  to execute, the story is in no stage any more. Other processes may act before every step in any
  way that loses no row, reopens no completed step and does not pause the run.
\<close>

theorem execute_completes:
  assumes "w_faults w = []" and "tbl_find run_id i (w_runs w) = Some r"
    and "\<not> run_terminal (run_status r)"
    and "x_circuit_breaker env \<longrightarrow> (\<exists>c m. breaker_of (run_project r) w = Some (c, False, m))"
    and "distinct (map rs_id (w_steps w))"
    and "\<And>v. \<not> x_ctx_done env v" and "\<And>j v. adv i v (x_other env j v)"
    and "\<And>s. s \<in> set (w_steps w) \<Longrightarrow> rs_run s = i \<Longrightarrow> rs_status s \<noteq> StepStatusCompleted \<Longrightarrow>
           succeeds env (rs_action s)
           \<and> transitionFor (parseTransitionPolicy r) (rs_stage_id s) = TransitionAuto"
  shows "\<exists>w'. run_state (ExecuteRun env i) w = (Inr (), w') \<and> runSt w' i = Some RunStatusCompleted
    \<and> (\<forall>s \<in> set (w_steps w). rs_run s = i \<longrightarrow> stepSt w' (rs_id s) = Some StepStatusCompleted)
    \<and> (run_story r \<noteq> uuid_nil \<and> storySt w (run_story r) \<noteq> None \<longrightarrow>
         storySt w' (run_story r) = Some StoryStatusDone
         \<and> ((\<exists>s \<in> set (w_steps w). rs_run s = i \<and> rs_status s \<noteq> StepStatusCompleted) \<longrightarrow>
              storyStage w' (run_story r) = Some None))"
  by (rule ExecuteRun_completes [OF assms])

section \<open>Failure\<close>

lemma runLoop_append:
  "run_state (runLoop env run policy (xs @ ys) cur prev meta) w =
     (case run_state (runLoop env run policy xs cur prev meta) w of
        (Inl r, w') \<Rightarrow> (Inl r, w')
      | (Inr (c, p, m), w') \<Rightarrow> run_state (runLoop env run policy ys c p m) w')"
  by (induction xs arbitrary: cur prev meta w)
     (auto simp: run_simps split: prod.splits sum.splits option.splits)

lemma handleStepFailure_views:
  assumes "w_faults w = []" and "stepSt w (rs_id s) \<noteq> None" and "runSt w (run_id run) \<noteq> None"
  shows "stepSt (after (handleStepFailure env run s e) w) = (stepSt w)(rs_id s \<mapsto> StepStatusFailed)"
    and "runSt (after (handleStepFailure env run s e) w) = (runSt w)(run_id run \<mapsto> RunStatusFailed)"
    and "storySt (after (handleStepFailure env run s e) w) =
           (if run_story run = uuid_nil \<or> storySt w (run_story run) = None then storySt w
            else (storySt w)(run_story run \<mapsto> StoryStatusFailed))"
    and "w_projects (after (handleStepFailure env run s e) w) = w_projects w"
    and "w_faults (after (handleStepFailure env run s e) w) = []"
proof -
  from assms(2,3) obtain x r where
    x: "tbl_find rs_id (rs_id s) (w_steps w) = Some x" "tbl_find run_id (run_id run) (w_runs w) = Some r"
    by (auto simp: stepSt_def runSt_def)
  with assms have "\<exists>v. after (handleStepFailure env run s e) w = after (updateStoryStatus env run StoryStatusFailed) v
    \<and> w_faults v = [] \<and> storySt v = storySt w \<and> w_projects v = w_projects w
    \<and> stepSt v = (stepSt w)(rs_id s \<mapsto> StepStatusFailed)
    \<and> runSt v = (runSt w)(run_id run \<mapsto> RunStatusFailed)"
    by (simp add: handleStepFailure_def UpdateRunStepStatus_def UpdateRunStatus_def run_simps)
       (intro exI conjI, rule refl, auto simp: stepSt_update_status runSt_update_status)
  then obtain v where v: "after (handleStepFailure env run s e) w =
      after (updateStoryStatus env run StoryStatusFailed) v" "w_faults v = []" "storySt v = storySt w"
    "w_projects v = w_projects w" "stepSt v = (stepSt w)(rs_id s \<mapsto> StepStatusFailed)"
    "runSt v = (runSt w)(run_id run \<mapsto> RunStatusFailed)" by blast
  then show
    "stepSt (after (handleStepFailure env run s e) w) = (stepSt w)(rs_id s \<mapsto> StepStatusFailed)"
    "runSt (after (handleStepFailure env run s e) w) = (runSt w)(run_id run \<mapsto> RunStatusFailed)"
    "storySt (after (handleStepFailure env run s e) w) =
       (if run_story run = uuid_nil \<or> storySt w (run_story run) = None then storySt w
        else (storySt w)(run_story run \<mapsto> StoryStatusFailed))"
    "w_projects (after (handleStepFailure env run s e) w) = w_projects w"
    "w_faults (after (handleStepFailure env run s e) w) = []"
    by (simp_all add: updateStoryStatus_views)
qed

lemma recordStepFailure_breaker:
  assumes "w_faults w = []" and "breaker_of (run_project run) w = Some b"
  shows "breaker_of (run_project run) (after (recordStepFailure env run) w) =
    Some (if x_circuit_breaker env then trip b else b)"
  using RecordFailure_refines_trip [OF assms] assms
  by (auto simp: recordStepFailure_def)

text \<open>The loop on a prefix of ready steps followed by a step whose action fails.\<close>

lemma runLoop_fails:
  assumes live: "\<And>v. \<not> x_ctx_done env v" and others: "\<And>j v. x_other env j v = v"
    and v: "w_faults v = []" "runOK (run_id run) v" "autoRef policy cur" "\<forall>x \<in> set pre. ready env policy v x"
    and s: "stepAct v (rs_id s) = Some (rs_action s)" "rs_status s \<noteq> StepStatusCompleted"
      "failsWith env (rs_action s) e" "\<not> err_is e ErrStepSuspended"
      "transitionFor policy (rs_stage_id s) = TransitionAuto"
  shows "\<exists>y. run_state (runLoop env run policy (pre @ s # post) cur prev meta) v =
      (Inl (Inl e), after (recordStepFailure env run) (after (handleStepFailure env run s e) y))
    \<and> w_faults y = [] \<and> stepSt y (rs_id s) = Some StepStatusRunning \<and> runSt y (run_id run) \<noteq> None
    \<and> w_projects y = w_projects v \<and> dom (storySt y) = dom (storySt v)
    \<and> (\<forall>x \<in> set pre. rs_id x \<noteq> rs_id s \<longrightarrow> stepSt y (rs_id x) = Some StepStatusCompleted)
    \<and> (\<forall>j. j \<notin> rs_id ` set (pre @ [s]) \<longrightarrow> stepSt y j = stepSt v j)"
proof -
  have adv_id: "\<And>j u. adv (run_id run) u (x_other env j u)" using others by simp
  obtain c p mt u where
    u: "run_state (runLoop env run policy pre cur prev meta) v = (Inr (c, p, mt), u)"
      "adv (run_id run) v u" "\<forall>x \<in> set pre. stepSt u (rs_id x) = Some StepStatusCompleted"
      "apart env (rs_id ` set pre) v u" "autoRef policy c"
    using runLoop_all_complete [where ?cur = cur and ?prev = prev and ?meta = meta,
      OF live adv_id v] by blast
  have fu: "w_faults u = []" "runOK (run_id run) u" using u(2) v by (simp_all add: adv_def)
  from runLoop_to_step [OF u(5) s(5) live adv_id fu s(2), of post p mt] obtain c' x where
    x: "run_state (runLoop env run policy (s # post) c p mt) u =
      run_state (do {
         (q, meta') \<leftarrow> executeStep env run s mt;
         case q of
           Inl e \<Rightarrow>
             if err_is e ErrStepSuspended then State_Monad.return (Inl (Inr ()))
             else do {
               _ \<leftarrow> handleStepFailure env run s e;
               _ \<leftarrow> recordStepFailure env run;
               State_Monad.return (Inl (Inl e)) }
         | Inr _ \<Rightarrow> runLoop env run policy post (Some c') (Some s) meta' }) x"
      "adv (run_id run) u x" "apart env {} u x" "w_faults x = []" by blast
  have ax: "stepAct x (rs_id s) = Some (rs_action s)" using s(1) u(2) x(2) by (simp add: adv_def)
  then obtain st where st: "stepSt x (rs_id s) = Some st" using stepAct_dom [of x "rs_id s"] by auto
  from executeStep_fails [OF x(4) st ax s(3), of run mt] obtain mt' y where
    y: "run_state (executeStep env run s mt) x = ((Inl e, mt'), y)" "kept x y" "runSt y = runSt x"
      "stepSt y = (stepSt x)(rs_id s \<mapsto> StepStatusRunning)" by blast
  have "w_faults y = []" "runSt y (run_id run) \<noteq> None"
    using y(2,3) x(2,4) fu(2) by (auto simp: kept_def adv_def runOK_def)
  moreover have "w_projects y = w_projects v" using u(4) x(3) y(2) others by (simp add: apart_def kept_def)
  moreover have "dom (storySt y) = dom (storySt v)"
    using u(2) x(2) y(2) views_cong(4) [of y x] by (simp add: adv_def kept_def)
  moreover have "\<forall>x' \<in> set pre. stepSt x (rs_id x') = Some StepStatusCompleted"
    using u(3) x(2) by (simp add: adv_def)
  moreover have "\<And>j. j \<notin> rs_id ` set (pre @ [s]) \<Longrightarrow> stepSt x j = stepSt v j"
    using u(4) x(3) others by (simp add: apart_def)
  ultimately show ?thesis using u(1) x(1) y(1,4) s(4) by (auto simp: runLoop_append run_simps)
qed

lemma distinct_steps_of:
  "distinct (map rs_id (w_steps w)) \<Longrightarrow> distinct (map rs_id (steps_of i w))"
  by (auto simp: steps_of_def distinct_map intro: inj_on_subset)


end
