(* ===== verification/ExecutorStages.thy ===== *)
theory ExecutorStages
  imports ExecutorSpec
begin

text \<open>
  The control points of the executor: runs that are not executed at all, the pause check, the
  manual and gate policies at the stage boundaries, and the two ways in which a gate is passed or
  wedged without an approval.
\<close>

section \<open>Runs that are not executed\<close>

text \<open>
  \<open>ExecuteRun\<close> of a failed, completed or cancelled run returns without error and without any
  effect: a delivered job never restarts a terminal run.
\<close>

theorem execute_terminal_noop:
  assumes "w_faults w = []" and "tbl_find run_id i (w_runs w) = Some r"
    and "run_terminal (run_status r)"
  shows "run_state (ExecuteRun env i) w = (Inr (), w)"
  using assms by (auto simp: ExecuteRun_def GetRun_def run_simps run_terminal_def)

text \<open>
  with the breaker of its project open, \<open>ExecuteRun\<close> fails the run with the breaker's error:
  the error is returned and recorded as the message of the failed run, no step changes, and the
  story keeps its status.
\<close>

theorem execute_breaker_open:
  assumes "w_faults w = []" and "tbl_find run_id i (w_runs w) = Some r"
    and "\<not> run_terminal (run_status r)" and "x_circuit_breaker env"
    and "breaker_of (run_project r) w = Some (c, True, m)"
  shows "\<exists>w'. run_state (ExecuteRun env i) w = (Inl CircuitBreakerOpen, w')
    \<and> w_runs w' = tbl_update run_id i (\<lambda>x. x\<lparr>run_status := RunStatusFailed,
         run_completed_at := Some (w_clock w), run_error := Some (err_text CircuitBreakerOpen),
         run_updated_at := w_clock w + int (w_tick w)\<rparr>) (w_runs w)
    \<and> w_steps w' = w_steps w \<and> w_stories w' = w_stories w"
proof -
  have "run_state (checkBreaker env r) w = (Inl CircuitBreakerOpen, w)"
    using assms by (simp add: checkBreaker_def CheckCircuitBreaker_iff)
  then show ?thesis
    using assms(1-3)
    by (auto simp: ExecuteRun_def GetRun_def UpdateRunStatus_def run_simps run_terminal_def
          set_run_status_def [abs_def] coalesce_def)
qed

text \<open>
  a pause takes effect at the next step boundary. When another process has paused the run
  before a step that is not completed, the loop returns \<open>ErrRunPaused\<close> and leaves the state as
  that process left it: no later step is started.
\<close>

theorem pause_stops_loop:
  assumes "w_faults (x_other env (rs_id s) w) = []"
    and "runSt (x_other env (rs_id s) w) (run_id run) = Some RunStatusPaused"
    and "\<not> x_ctx_done env (x_other env (rs_id s) w)" and "rs_status s \<noteq> StepStatusCompleted"
  shows "run_state (runLoop env run policy (s # ss) cur prev meta) w =
    (Inl (Inl ErrRunPaused), x_other env (rs_id s) w)"
  using assms by (auto simp: run_simps GetRun_def runSt_def)

section \<open>Gates\<close>

lemma raiseGate_suspends: "fst (run_state (raiseGate run l a) w) \<noteq> Inr x"
  by (auto simp: raiseGate_def run_simps split: prod.splits sum.splits)

lemma GetHITLByRunStepID_Inr:
  "run_state (GetHITLByRunStepID j) w = (Inr h, w') \<Longrightarrow> h \<in> set (w_hitl w) \<and> hitl_step h = j"
  by (auto simp: GetHITLByRunStepID_def run_db_op_faults run_simps dest: tbl_find_eq_Some
        split: list.splits option.splits if_splits)

lemma enforceGate_passes:
  assumes "run_state (enforceGateOnExit env run (Some g) policy (Some a)) w = (Inr (), w')"
    and "transitionFor policy (sr_id g) = TransitionGate" and "x_hitl_repo env"
  shows "\<exists>h \<in> set (w_hitl w). hitl_step h = rs_id a \<and> hitl_status h = HITLStatusApproved"
proof -
  obtain q v where q: "run_state (GetHITLByRunStepID (rs_id a)) w = (q, v)" by fastforce
  with assms have "case q of Inl e \<Rightarrow> run_state (raiseGate run g a) v = (Inr (), w')
      | Inr h \<Rightarrow> hitl_status h = HITLStatusApproved"
    by (auto simp: enforceGateOnExit_def run_simps split: sum.splits if_splits)
  with raiseGate_suspends [of run g a v "()"] obtain h where
    "q = Inr h" "hitl_status h = HITLStatusApproved"
    by (auto split: sum.splits)
  with GetHITLByRunStepID_Inr [of "rs_id a" w h v] q show ?thesis by blast
qed

lemma parkOr_proceeds:
  assumes "run_state (parkOr m n) w = (Inr (Inr c), w')"
  shows "\<exists>v. run_state m w = (Inr (), v) \<and> run_state n v = (Inr (Inr c), w')"
  using assms by (auto simp: parkOr_def run_simps split: prod.splits sum.splits if_splits)


lemma enforceGate_parks:
  assumes "w_faults w = []" and "transitionFor policy (sr_id g) = TransitionGate" and "x_hitl_repo env"
    and "tbl_find hitl_step (rs_id a) (w_hitl w) = None"
    and "stepSt w (rs_id a) \<noteq> None" and "runSt w (run_id run) \<noteq> None"
  shows "\<exists>w' h. run_state (enforceGateOnExit env run (Some g) policy (Some a)) w = (Inl ErrStageSuspended, w')
    \<and> runSt w' = (runSt w)(run_id run \<mapsto> RunStatusPaused)
    \<and> stepSt w' = (stepSt w)(rs_id a \<mapsto> StepStatusWaitingApproval)
    \<and> w_hitl w' = w_hitl w @ [h] \<and> hitl_step h = rs_id a \<and> hitl_status h = HITLStatusPending
    \<and> w_stories w' = w_stories w"
proof -
  from assms(5,6) obtain x r where x: "tbl_find rs_id (rs_id a) (w_steps w) = Some x"
    "tbl_find run_id (run_id run) (w_runs w) = Some r"
    by (auto simp: stepSt_def runSt_def)
  with assms show ?thesis
    by (simp add: enforceGateOnExit_def raiseGate_def GetHITLByRunStepID_def CreateHITL_def
          UpdateRunStepStatus_def UpdateRunStatus_def run_simps Let_def)
       (auto simp: stepSt_update_status runSt_update_status gateRequest_def)
qed

text \<open>
  at the boundary out of a stage whose gate has not been raised yet, the loop parks the run:
  it returns normally, the run is paused, the last executed step waits for approval, exactly one
  pending request for that step is added, and the next step keeps its status.
\<close>

theorem gate_parks_run:
  assumes "w_faults w = []" and "transitionFor policy (sr_id g) = TransitionGate" and "x_hitl_repo env"
    and "tbl_find hitl_step (rs_id a) (w_hitl w) = None"
    and "stepSt w (rs_id a) \<noteq> None" and "runOK (run_id run) w"
    and "x_other env (rs_id s) w = w" and "\<not> x_ctx_done env w"
    and "rs_status s \<noteq> StepStatusCompleted" and "sr_id g \<noteq> rs_stage_id s"
  shows "\<exists>w' h. run_state (runLoop env run policy (s # ss) (Some g) (Some a) meta) w = (Inl (Inr ()), w')
    \<and> runSt w' (run_id run) = Some RunStatusPaused
    \<and> stepSt w' = (stepSt w)(rs_id a \<mapsto> StepStatusWaitingApproval)
    \<and> w_hitl w' = w_hitl w @ [h] \<and> hitl_step h = rs_id a \<and> hitl_status h = HITLStatusPending"
proof -
  have "runSt w (run_id run) \<noteq> None" using assms(6) by (auto simp: runOK_def)
  from enforceGate_parks [OF assms(1-5) this] obtain w' h where
    "run_state (enforceGateOnExit env run (Some g) policy (Some a)) w = (Inl ErrStageSuspended, w')"
    "runSt w' = (runSt w)(run_id run \<mapsto> RunStatusPaused)"
    "stepSt w' = (stepSt w)(rs_id a \<mapsto> StepStatusWaitingApproval)"
    "w_hitl w' = w_hitl w @ [h]" "hitl_step h = rs_id a" "hitl_status h = HITLStatusPending"
    by blast
  moreover obtain r where "tbl_find run_id (run_id run) (w_runs w) = Some r"
    "run_status r \<noteq> RunStatusPaused"
    using assms(6) by (auto simp: runOK_def runSt_def)
  ultimately show ?thesis using assms(1,7-10)
    by (simp add: run_simps GetRun_def crossBoundary_def matches_def parkOr_def)
qed

text \<open>
  a gate whose request for the anchor step is closed without approval (rejected, or resolved
  by a halt-gate action) wedges the run: the executor returns normally and changes nothing, so
  the run keeps the status running although nothing executes it, no pending request waits for a
  human and no job is queued.
\<close>

theorem gate_wedges_on_closed_request:
  assumes "w_faults w = []" and "transitionFor policy (sr_id g) = TransitionGate" and "x_hitl_repo env"
    and "tbl_find hitl_step (rs_id a) (w_hitl w) = Some h"
    and "hitl_status h = HITLStatusRejected \<or> hitl_status h = HITLStatusResolved"
    and "runOK (run_id run) w" and "x_other env (rs_id s) w = w" and "\<not> x_ctx_done env w"
    and "rs_status s \<noteq> StepStatusCompleted" and "sr_id g \<noteq> rs_stage_id s"
  shows "run_state (runLoop env run policy (s # ss) (Some g) (Some a) meta) w = (Inl (Inr ()), w)"
  using assms
  by (auto simp: run_simps GetRun_def runOK_def runSt_def crossBoundary_def matches_def parkOr_def
        enforceGateOnExit_def GetHITLByRunStepID_def)

lemma runLoop_skip:
  "\<forall>s \<in> set ss. rs_status s = StepStatusCompleted \<Longrightarrow>
   run_state (runLoop env run policy ss cur prev meta) w = (Inr (cur, prev, meta), w)"
  by (induction ss) (auto simp: run_simps)

text \<open>
  a gate is only enforced by the execution that ran a step of its stage. When a run is
  executed again after all steps of its stages have completed, for instance a run a user paused
  while the last step of a gated stage was running, \<open>ExecuteRun\<close> completes the run without
  raising the gate: no request is added, and the story's current stage is not cleared either.
\<close>

theorem gate_skipped_after_resume:
  assumes "w_faults w = []" and "tbl_find run_id i (w_runs w) = Some r"
    and "\<not> run_terminal (run_status r)"
    and "x_circuit_breaker env \<longrightarrow> (\<exists>c m. breaker_of (run_project r) w = Some (c, False, m))"
    and "\<And>s. s \<in> set (w_steps w) \<Longrightarrow> rs_run s = i \<Longrightarrow> rs_status s = StepStatusCompleted"
  shows "\<exists>w'. run_state (ExecuteRun env i) w = (Inr (), w') \<and> runSt w' i = Some RunStatusCompleted
    \<and> w_hitl w' = w_hitl w \<and> storyStage w' = storyStage w"
proof -
  from startRun_entry [OF assms(1,2), of env "steps_of i w"] obtain run v where
    v: "w_faults v = []" "runSt v = (runSt w)(i \<mapsto> RunStatusRunning)" "run_id run = i"
      "w_hitl v = w_hitl w" "storyStage v = storyStage w"
    and start: "run_state (startRun env i (steps_of i w)) w =
        (case run_state (runLoop env run (parseTransitionPolicy r) (steps_of i w) None None (run_metadata r)) v of
           (Inl x, u) \<Rightarrow> (x, u)
         | (Inr (cur, prev, meta), u) \<Rightarrow> run_state (finishRun env run (parseTransitionPolicy r) cur prev) u)"
    by blast
  have "run_state (startRun env i (steps_of i w)) w = run_state (completeRun env run) v"
    using start assms(5) runLoop_skip [of "steps_of i w"] by (simp add: steps_of_in finishRun_def)
  moreover obtain w' where "run_state (completeRun env run) v = (Inr (), w')"
    "runSt w' = (runSt v)(i \<mapsto> RunStatusCompleted)" "storyStage w' = storyStage v"
    "w_hitl w' = w_hitl v"
    using completeRun_views [of v run env] v(1,2,3) by auto
  ultimately show ?thesis
    using ExecuteRun_entry [OF assms(1-4)] v(4,5) by auto
qed

end
