(* ===== verification/ExecutorFrame.thy ===== *)
theory ExecutorFrame
  imports ExecutorStages
begin

text \<open>
  The frame of the executor: executing a run touches no other run, whatever fails in between.
\<close>

section \<open>The relation\<close>

text \<open>
  \<open>ownOnly i J\<close>: as long as the rows identified by \<open>J\<close> are steps of run \<open>i\<close>, the other runs and
  their steps are untouched, and HITL requests are only added.
\<close>

definition ownOnly :: "uuid \<Rightarrow> uuid set \<Rightarrow> world \<Rightarrow> world \<Rightarrow> bool" where
  "ownOnly i J w w' \<longleftrightarrow>
     (\<forall>x \<in> set (w_steps w). rs_id x \<in> J \<longrightarrow> rs_run x = i) \<longrightarrow>
     (\<forall>x \<in> set (w_steps w'). rs_id x \<in> J \<longrightarrow> rs_run x = i)
     \<and> filter (\<lambda>x. rs_run x \<noteq> i) (w_steps w') = filter (\<lambda>x. rs_run x \<noteq> i) (w_steps w)
     \<and> filter (\<lambda>r. run_id r \<noteq> i) (w_runs w') = filter (\<lambda>r. run_id r \<noteq> i) (w_runs w)
     \<and> (\<exists>hs. w_hitl w' = w_hitl w @ hs)"

interpretation own: frame "ownOnly i J" for i J
  by unfold_locales (fastforce simp: ownOnly_def)+

lemma filter_tbl_update:
  "(\<And>r. P r \<Longrightarrow> key r \<noteq> i) \<Longrightarrow> (\<And>r. key r = i \<Longrightarrow> \<not> P (f r)) \<Longrightarrow>
   filter P (tbl_update key i f rs) = filter P rs"
  by (induction rs) auto

text \<open>Operations that change neither runs, steps nor requests.\<close>

definition tablesSame :: "world \<Rightarrow> world \<Rightarrow> bool" where
  "tablesSame w w' \<longleftrightarrow> w_runs w' = w_runs w \<and> w_steps w' = w_steps w \<and> w_hitl w' = w_hitl w"

lemma keeps_mono: "keeps R m \<Longrightarrow> (\<And>w w'. R w w' \<Longrightarrow> S w w') \<Longrightarrow> keeps S m"
  by (simp add: keeps_def)

lemma own_tablesSame: "tablesSame w w' \<Longrightarrow> ownOnly i J w w'"
  by (simp add: ownOnly_def tablesSame_def)

lemma storyOnly_own: "keeps storyOnly m \<Longrightarrow> keeps (ownOnly i J) m"
  by (erule keeps_mono) (simp add: storyOnly_def ownOnly_def)

lemma breakerOnly_own: "keeps breakerOnly m \<Longrightarrow> keeps (ownOnly i J) m"
  by (erule keeps_mono) (simp add: breakerOnly_def ownOnly_def)

lemma own_reads [frame_intros]:
  "keeps (ownOnly i J) (GetRun j)" "keeps (ownOnly i J) (GetRunStep j)"
  "keeps (ownOnly i J) (GetHITLByRunStepID j)" "keeps (ownOnly i J) (ListRunStepsByRun j)"
  "keeps (ownOnly i J) time_now" "keeps (ownOnly i J) uuid_new"
  "keeps (ownOnly i J) (reading f)" "keeps (ownOnly i J) (publishEvent p typ ent act pl)"
  by (simp_all add: keeps_def ownOnly_def op_defs run_simps run_db_op_faults
        split: list.splits option.splits)

lemma own_updateStep [frame_intros]:
  assumes "j \<in> J"
  shows "keeps (ownOnly i J) (UpdateRunStepStatus j st sa ca em)"
proof (rule keepsI)
  fix w
  have own: "ownOnly i J w (v\<lparr>w_steps := tbl_update rs_id j (set_step_status st sa ca em u) (w_steps w)\<rparr>)"
    if "w_runs v = w_runs w" "w_hitl v = w_hitl w" for v u
  proof -
    have "filter (\<lambda>x. rs_run x \<noteq> i) (tbl_update rs_id j (set_step_status st sa ca em u) rows) =
        filter (\<lambda>x. rs_run x \<noteq> i) rows"
      if "\<forall>x \<in> set rows. rs_id x \<in> J \<longrightarrow> rs_run x = i" for rows
      using that assms by (induction rows) auto
    then show ?thesis using that by (auto simp: ownOnly_def set_tbl_update)
  qed
  show "ownOnly i J w (snd (run_state (UpdateRunStepStatus j st sa ca em) w))"
    by (auto simp: UpdateRunStepStatus_def run_db_op_faults run_simps own own_tablesSame tablesSame_def
          split: list.splits option.splits)
qed

lemma own_updateRun [frame_intros]:
  "keeps (ownOnly i J) (UpdateRunStatus i st sa ca pa em)"
  "keeps (ownOnly i J) (UpdateRunMetadata i m)"
  by (auto simp: keeps_def ownOnly_def UpdateRunStatus_def UpdateRunMetadata_def run_db_op_faults
        run_simps filter_tbl_update split: list.splits option.splits)

lemma own_createHITL [frame_intros]: "keeps (ownOnly i J) (CreateHITL h)"
  by (auto simp: keeps_def ownOnly_def CreateHITL_def run_db_op_faults run_simps Let_def
        split: list.splits)

lemmas own_story_ops [frame_intros] =
  storyOnly_own [OF updateStoryStatus_storyOnly] storyOnly_own [OF setCurrentStage_storyOnly]
  storyOnly_own [OF exitStage_storyOnly] storyOnly_own [OF enterStage_storyOnly]
  breakerOnly_own [OF record_breakerOnly(1)] breakerOnly_own [OF record_breakerOnly(2)]
  breakerOnly_own [OF breakerOnly_services(1)]

section \<open>The executor\<close>

lemma UpdateRunStepStatus_id:
  "run_state (UpdateRunStepStatus j st sa ca em) w = (Inr s, w') \<Longrightarrow> rs_id s = j"
  by (auto simp: UpdateRunStepStatus_def run_db_op_faults run_simps split: list.splits option.splits
        if_splits)

lemma UpdateRunStatus_id:
  "run_state (UpdateRunStatus j st sa ca pa em) w = (Inr r, w') \<Longrightarrow> run_id r = j"
  by (auto simp: UpdateRunStatus_def run_db_op_faults run_simps split: list.splits option.splits
        if_splits)

text \<open>Actions and other processes that respect the frame.\<close>

definition wellBehaved :: "exec_env \<Rightarrow> uuid \<Rightarrow> uuid set \<Rightarrow> bool" where
  "wellBehaved env i J \<longleftrightarrow>
     (\<forall>name a ctx. x_actions env name = Some a \<longrightarrow> keeps (ownOnly i J) (a ctx))
     \<and> (\<forall>j w. ownOnly i J w (x_other env j w))"

lemma own_gate:
  "(\<forall>a. anchor = Some a \<longrightarrow> rs_id a \<in> J) \<Longrightarrow>
   keeps (ownOnly (run_id run) J) (enforceGateOnExit env run cur policy anchor)"
  unfolding enforceGateOnExit_def raiseGate_def
  by (cases cur; cases anchor) (auto intro!: frame_intros)

lemma own_manual:
  "keeps (ownOnly (run_id run) J) (enforceManualOnEnter env run nxt policy meta)"
  unfolding enforceManualOnEnter_def by (intro frame_intros)

lemma own_parkOr [frame_intros]:
  "keeps (ownOnly i J) m \<Longrightarrow> keeps (ownOnly i J) n \<Longrightarrow> keeps (ownOnly i J) (parkOr m n)"
  unfolding parkOr_def by (intro frame_intros)

lemma own_crossBoundary:
  "(\<forall>a. prev = Some a \<longrightarrow> rs_id a \<in> J) \<Longrightarrow>
   keeps (ownOnly (run_id run) J) (crossBoundary env run policy cur prev s meta)"
  unfolding crossBoundary_def by (intro frame_intros own_gate own_manual) auto

lemma own_finishStep:
  "rs_id s \<in> J \<Longrightarrow> keeps (ownOnly (run_id run) J) (finishStep run s meta)"
  unfolding finishStep_def by (intro frame_intros)

lemma own_performStep:
  assumes "wellBehaved env (run_id run) J" and "rs_id s \<in> J"
  shows "keeps (ownOnly (run_id run) J) (performStep env run s meta)"
  using assms unfolding performStep_def getAction_def
  by (auto simp: wellBehaved_def split: option.splits
        intro!: own.return own.bind own.case_prod own.case_sum own_finishStep)

lemma own_executeStep:
  assumes "wellBehaved env (run_id run) J" and "rs_id s \<in> J"
  shows "keeps (ownOnly (run_id run) J) (executeStep env run s meta)"
  unfolding executeStep_def
proof (rule own.bind [OF own_reads(5)], rule own.bind_post [OF own_updateStep [OF assms(2)]])
  fix t w r w'
  assume "run_state (UpdateRunStepStatus (rs_id s) StepStatusRunning (Some t) None None) w = (r, w')"
  then show "\<forall>x. r = Inr x \<longrightarrow> rs_id x \<in> J" using assms(2) by (auto dest: UpdateRunStepStatus_id)
next
  fix t and r :: "run_step res"
  assume "\<forall>x. r = Inr x \<longrightarrow> rs_id x \<in> J"
  then show "keeps (ownOnly (run_id run) J)
      (case r of Inl e \<Rightarrow> State_Monad.return (Inl e, meta)
       | Inr s' \<Rightarrow> do {
           _ \<leftarrow> publishEvent (run_project run) ''step'' (rs_id s') ''started''
             (stepPayload run s' @ [(''action'', JStr (rs_action s')), statusEntry ''running'',
               (''started_at'', JTime t)]);
           performStep env run s' meta })"
    by (cases r) (auto intro!: own.return own.bind own_reads own_performStep assms(1))
qed

lemma own_failure:
  assumes "rs_id s \<in> J"
  shows "keeps (ownOnly (run_id run) J) (handleStepFailure env run s e)"
    and "keeps (ownOnly (run_id run) J) (handleCancellation env run s)"
  unfolding handleStepFailure_def handleCancellation_def
  by (intro frame_intros assms)+

lemma own_runLoop:
  assumes "wellBehaved env (run_id run) J"
  shows "rs_id ` set ss \<subseteq> J \<Longrightarrow> \<forall>a. prev = Some a \<longrightarrow> rs_id a \<in> J \<Longrightarrow>
    keeps (ownOnly (run_id run) J) (runLoop env run policy ss cur prev meta)"
proof (induction ss arbitrary: cur prev meta)
  case (Cons s ss)
  have other: "keeps (ownOnly (run_id run) J) (writing (\<lambda>w. ((), x_other env (rs_id s) w)))"
    using assms by (simp add: keeps_def run_simps wellBehaved_def)
  have s: "rs_id s \<in> J" using Cons.prems(1) by simp
  show ?case
    using Cons s assms
    by (auto split: sum.splits intro!: own.if_then own.bind own.return own.case_sum own.case_prod
          other own_reads own_failure own_crossBoundary own_executeStep own_story_ops)
qed (auto intro: own.return)

lemma own_completeRun: "keeps (ownOnly (run_id run) J) (completeRun env run)"
  unfolding completeRun_def by (intro frame_intros)

lemma own_finishRun:
  "(\<forall>a. prev = Some a \<longrightarrow> rs_id a \<in> J) \<Longrightarrow>
   keeps (ownOnly (run_id run) J) (finishRun env run policy cur prev)"
  unfolding finishRun_def clearStoryCurrentStage_def
  by (intro frame_intros own_gate own_completeRun) auto

lemma runLoop_prev:
  "run_state (runLoop env run policy ss cur prev meta) w = (Inr (c, p, m), w') \<Longrightarrow>
   \<forall>a. p = Some a \<longrightarrow> a \<in> set ss \<or> prev = Some a"
proof (induction ss arbitrary: cur prev meta w)
  case (Cons s ss)
  from Cons.prems show ?case
    by (auto simp: run_simps split: if_splits prod.splits sum.splits dest!: Cons.IH)
qed (auto simp: run_simps)

lemma own_startRun:
  assumes "wellBehaved env i J" and "rs_id ` set steps \<subseteq> J"
  shows "keeps (ownOnly i J) (startRun env i steps)"
proof -
  have body: "keeps (ownOnly i J) (do {
       _ \<leftarrow> publishEvent (run_project run) ''run'' (run_id run) ''started''
         (runPayload i run ''running'' @ [(''started_at'', JTime now)]);
       _ \<leftarrow> updateStoryStatus env run StoryStatusRunning;
       out \<leftarrow> runLoop env run (parseTransitionPolicy run) steps None None (run_metadata run);
       case out of
         Inl r \<Rightarrow> State_Monad.return r
       | Inr (cur, prev, meta) \<Rightarrow> finishRun env run (parseTransitionPolicy run) cur prev })"
    if "run_id run = i" for run now
  proof -
    have loop: "keeps (ownOnly i J) (runLoop env run (parseTransitionPolicy run) steps None None (run_metadata run))"
      using own_runLoop [of env run J steps] assms that by simp
    have rest: "keeps (ownOnly i J) (case out of
         Inl r \<Rightarrow> State_Monad.return r
       | Inr (cur, prev, meta) \<Rightarrow> finishRun env run (parseTransitionPolicy run) cur prev)"
      if "\<forall>c p m. out = Inr (c, p, m) \<longrightarrow> (\<forall>a. p = Some a \<longrightarrow> rs_id a \<in> J)" for out
      using that own_finishRun [of _ J run] \<open>run_id run = i\<close>
      by (auto split: sum.splits prod.splits intro: own.return)
    show ?thesis
      by (rule own.bind [OF own_reads(8)], rule own.bind [OF own_story_ops(1)],
          rule own.bind_post [OF loop _ rest])
         (use assms(2) in \<open>auto dest!: runLoop_prev\<close>)
  qed
  show ?thesis
    unfolding startRun_def
    by (intro own.bind [OF own_reads(5)] own.attempt_post [OF own_updateRun(1), where P = "\<lambda>r. run_id r = i"])
       (erule UpdateRunStatus_id, erule body)
qed

lemma ListRunStepsByRun_steps:
  "run_state (ListRunStepsByRun i) w = (Inr steps, w') \<Longrightarrow> steps = steps_of i w"
  by (auto simp: ListRunStepsByRun_def run_db_op_faults run_simps steps_of_def
        split: list.splits if_splits)

lemma GetRun_steps: "run_state (GetRun i) w = (r, w') \<Longrightarrow> w_steps w' = w_steps w"
  by (auto simp: GetRun_def run_db_op_faults run_simps split: list.splits option.splits if_splits)

lemma checkBreaker_steps: "run_state (checkBreaker env run) w = (r, w') \<Longrightarrow> w_steps w' = w_steps w"
  using keepsD [OF breakerOnly_services(4), of env run w r w'] by (simp add: breakerOnly_def)

lemma own_ExecuteRun:
  assumes "wellBehaved env i (rs_id ` set (steps_of i w))"
  shows "ownOnly i (rs_id ` set (steps_of i w)) w (snd (run_state (ExecuteRun env i) w))"
proof -
  let ?J = "rs_id ` set (steps_of i w)"
  obtain g u where g: "run_state (GetRun i) w = (g, u)" by fastforce
  have gu: "ownOnly i ?J w u" "steps_of i u = steps_of i w"
    using keepsD [OF own_reads(1) g] GetRun_steps [OF g] by (simp_all add: steps_of_def)
  obtain run where run: "g = Inr run \<or> (\<exists>e. g = Inl e)" by (cases g) auto
  obtain b v where b: "run_state (checkBreaker env run) u = (b, v)" by fastforce
  have bv: "ownOnly i ?J w v" "steps_of i v = steps_of i w"
    using own.frame_trans [OF gu(1) keepsD [OF breakerOnly_own [OF breakerOnly_services(4)] b]]
      checkBreaker_steps [OF b] gu(2) by (simp_all add: steps_of_def)
  have rest: "ownOnly i ?J v (snd (run_state
      (attempt (ListRunStepsByRun i) (\<lambda>steps. startRun env i (sort_key rs_order steps))) v))"
  proof -
    obtain l x where l: "run_state (ListRunStepsByRun i) v = (l, x)" by fastforce
    have lx: "ownOnly i ?J v x" using keepsD [OF own_reads(4) l] .
    have "ownOnly i ?J x (snd (run_state (startRun env i (sort_key rs_order steps)) x))"
      if "l = Inr steps" for steps
      using own_startRun [OF assms, of "sort_key rs_order steps"] ListRunStepsByRun_steps [of i v steps x]
        l that bv(2) by (simp add: keeps_def)
    with l lx show ?thesis by (cases l) (auto simp: run_simps intro: own.frame_trans)
  qed
  have failed: "keeps (ownOnly i ?J) (do {
       failedAt \<leftarrow> time_now;
       _ \<leftarrow> UpdateRunStatus i RunStatusFailed None (Some failedAt) None (Some (err_text e));
       (fail e :: unit fop) })" for e
    by (intro frame_intros)
  show ?thesis
  proof (cases g)
    case (Inr run')
    with run have "run' = run" by simp
    show ?thesis
    proof (cases b)
      case (Inl e)
      with g b \<open>g = Inr run'\<close> \<open>run' = run\<close> gu(1) bv(1) failed [of e] show ?thesis
        by (auto simp: ExecuteRun_def run_attempt run_state_bind run_if run_ok keeps_def
              intro: own.frame_trans)
    next
      case (Inr z)
      with g b \<open>g = Inr run'\<close> \<open>run' = run\<close> gu(1) bv(1) rest show ?thesis
        by (auto simp: ExecuteRun_def run_attempt run_state_bind run_if run_ok
              intro: own.frame_trans)
    qed
  qed (use g gu in \<open>simp add: ExecuteRun_def run_simps\<close>)
qed

text \<open>
  under every pattern of infrastructure failures, executing run \<open>i\<close> leaves every other run
  and every step of another run untouched and never removes or changes an existing HITL request,
  provided the actions and the processes running beside it do so too.
\<close>

theorem execute_touches_own_run_only:
  assumes "wellBehaved env i (rs_id ` set (steps_of i w))" and "distinct (map rs_id (w_steps w))"
    and "run_state (ExecuteRun env i) w = (res, w')"
  shows "filter (\<lambda>x. rs_run x \<noteq> i) (w_steps w') = filter (\<lambda>x. rs_run x \<noteq> i) (w_steps w)
    \<and> filter (\<lambda>r. run_id r \<noteq> i) (w_runs w') = filter (\<lambda>r. run_id r \<noteq> i) (w_runs w)
    \<and> (\<exists>hs. w_hitl w' = w_hitl w @ hs)"
proof -
  have "rs_run x = i" if "x \<in> set (w_steps w)" "rs_id x \<in> rs_id ` set (steps_of i w)" for x
    using that assms(2) by (auto simp: steps_of_in distinct_map dest: inj_onD)
  with own_ExecuteRun [OF assms(1)] assms(3) show ?thesis by (auto simp: ownOnly_def)
qed

end
