(* ===== verification/ExecutorWitnesses.thy ===== *)
theory ExecutorWitnesses
  imports ExecutorFrame
begin

text \<open>
  A concrete project with one run of two steps in two stages, and the executor's properties
  applied to it.
\<close>

section \<open>The sample run\<close>

definition sample_story :: story where
  "sample_story =
     \<lparr>story_id = 10, story_project = 1, story_epic = Some 5, story_key = ''S-1'', story_title = ''demo'',
      story_objective = None, story_target_files = None, story_depends_on = None, story_scope = None,
      story_status = StoryStatusBacklog, story_acceptance = None, story_current_stage = None,
      story_source = ''manual'', story_external_id = None,
      story_external_item_id = None, story_source_url = None, story_synced_at = None,
      story_import_hash = None, story_writeback_status = None, story_created_at = 0, story_updated_at = 0\<rparr>"

definition sample_pstep :: "string \<Rightarrow> string \<Rightarrow> pipeline_step" where
  "sample_pstep i act =
     \<lparr>ps_id = i, ps_name = i, ps_action_type = act, ps_description = [], ps_agent_id = [],
      ps_model = [], ps_auto_approve = False,
      ps_retry_policy = \<lparr>max_retries = 0, retry_type = ''none''\<rparr>, ps_config = None, ps_guards = []\<rparr>"

definition sample_config :: "string \<Rightarrow> string \<Rightarrow> pipeline_config_yaml" where
  "sample_config t1 t2 =
     \<lparr>groups = [\<lparr>pg_id = ''build'', pg_name = ''Build'', pg_steps = [sample_pstep ''a'' ''git_branch''],
                pg_transition = t1, pg_guards = []\<rparr>,
               \<lparr>pg_id = ''ship'', pg_name = ''Ship'', pg_steps = [sample_pstep ''b'' ''git_pr''],
                pg_transition = t2, pg_guards = []\<rparr>]\<rparr>"

definition sample_run :: "run_status \<Rightarrow> string \<Rightarrow> string \<Rightarrow> run" where
  "sample_run st t1 t2 =
     \<lparr>run_id = 20, run_project = 1, run_story = 10, run_status = st,
      run_snapshot = SnapConfig (sample_config t1 t2), run_metadata = Map.empty,
      run_started_at = None, run_completed_at = None, run_paused_at = None, run_error = None,
      run_created_at = 0, run_updated_at = 0\<rparr>"

definition sample_a :: "step_status \<Rightarrow> run_step" where
  "sample_a st = (blank_step 31 20 ''a'' 0 ''git_branch'' st 0)
     \<lparr>rs_stage_id := ''build'', rs_stage_name := ''Build''\<rparr>"

definition sample_b :: "step_status \<Rightarrow> run_step" where
  "sample_b st = (blank_step 32 20 ''b'' 1 ''git_pr'' st 0)
     \<lparr>rs_stage_id := ''ship'', rs_stage_name := ''Ship''\<rparr>"

definition sample_x :: "step_status \<Rightarrow> run_step" where
  "sample_x st = (sample_b st)\<lparr>rs_action := ''explode''\<rparr>"

definition sample_world :: "run \<Rightarrow> run_step list \<Rightarrow> world" where
  "sample_world r ss =
     empty_world\<lparr>w_projects := [sample_project], w_stories := [sample_story], w_runs := [r], w_steps := ss\<rparr>"

definition ok_action :: action where
  "ok_action ctx = State_Monad.return (Inr (), rc_metadata ctx)"

definition boom :: err where
  "boom = PlainErr [T ''boom'']"

definition bad_action :: action where
  "bad_action ctx = State_Monad.return (Inl boom, rc_metadata ctx)"

definition sample_env :: exec_env where
  "sample_env =
     \<lparr>x_circuit_breaker = True, x_hitl_repo = True, x_writeback = True,
      x_actions = (\<lambda>name. if name = ''explode'' then Some bad_action else Some ok_action),
      x_parse_uuid = (\<lambda>s. None), x_sha1 = (\<lambda>i s. i), x_ctx_done = (\<lambda>w. False),
      x_other = (\<lambda>j w. w)\<rparr>"

lemma sample_world_simps [simp]:
  "w_runs (sample_world r ss) = [r]" "w_steps (sample_world r ss) = ss"
  "w_stories (sample_world r ss) = [sample_story]" "w_projects (sample_world r ss) = [sample_project]"
  "w_hitl (sample_world r ss) = []" "w_faults (sample_world r ss) = []"
  by (simp_all add: sample_world_def empty_world_def)

lemma sample_row_simps [simp]:
  "run_id (sample_run st t1 t2) = 20" "run_project (sample_run st t1 t2) = 1"
  "run_story (sample_run st t1 t2) = 10" "run_status (sample_run st t1 t2) = st"
  "rs_id (sample_a x) = 31" "rs_run (sample_a x) = 20" "rs_status (sample_a x) = x"
  "rs_action (sample_a x) = ''git_branch''" "rs_stage_id (sample_a x) = ''build''"
  "rs_order (sample_a x) = 0"
  "rs_id (sample_b x) = 32" "rs_run (sample_b x) = 20" "rs_status (sample_b x) = x"
  "rs_action (sample_b x) = ''git_pr''" "rs_stage_id (sample_b x) = ''ship''"
  "rs_order (sample_b x) = 1"
  "rs_id (sample_x x) = 32" "rs_run (sample_x x) = 20" "rs_status (sample_x x) = x"
  "rs_action (sample_x x) = ''explode''" "rs_stage_id (sample_x x) = ''ship''"
  "rs_order (sample_x x) = 1"
  "story_id sample_story = 10" "story_status sample_story = StoryStatusBacklog"
  "project_id sample_project = 1"
  by (simp_all add: sample_run_def sample_a_def sample_b_def sample_x_def blank_step_def
        sample_story_def sample_project_def)

lemma sample_env_simps [simp]:
  "x_other sample_env j w = w" "\<not> x_ctx_done sample_env w" "x_circuit_breaker sample_env"
  "x_hitl_repo sample_env"
  by (simp_all add: sample_env_def)

lemma sample_views [simp]:
  "breaker_of 1 (sample_world r ss) = Some (0, False, 3)"
  "breaker_of (Suc 0) (sample_world r ss) = Some (0, False, 3)"
  "storySt (sample_world r ss) 10 = Some StoryStatusBacklog"
  "runSt (sample_world r ss) i = (if run_id r = i then Some (run_status r) else None)"
  by (simp_all add: breaker_of_def storySt_def runSt_def sample_project_def)

lemma sample_succeeds: "name \<noteq> ''explode'' \<Longrightarrow> succeeds sample_env name"
  by (simp add: succeeds_def sample_env_def ok_action_def run_simps)

lemma sample_fails: "failsWith sample_env ''explode'' boom"
  by (simp add: failsWith_def sample_env_def bad_action_def run_simps)

lemma sample_policy [simp]:
  "transitionFor (parseTransitionPolicy (sample_run st t1 t2)) ''build'' = (if t1 = [] then TransitionAuto else t1)"
  "transitionFor (parseTransitionPolicy (sample_run st t1 t2)) ''ship'' = (if t2 = [] then TransitionAuto else t2)"
  by (simp_all add: transitionFor_def parseTransitionPolicy_def sample_run_def sample_config_def
        TransitionForStage_def)

abbreviation pending_world :: "string \<Rightarrow> string \<Rightarrow> world" where
  "pending_world t1 t2 \<equiv> sample_world (sample_run RunStatusPending t1 t2)
     [sample_a StepStatusPending, sample_b StepStatusPending]"

section \<open>Witnesses\<close>

lemma execute_completes_witness:
  "\<exists>w'. run_state (ExecuteRun sample_env 20) (pending_world [] []) = (Inr (), w')
     \<and> runSt w' 20 = Some RunStatusCompleted \<and> stepSt w' 32 = Some StepStatusCompleted
     \<and> storySt w' 10 = Some StoryStatusDone \<and> storyStage w' 10 = Some None"
proof -
  have "succeeds sample_env (rs_action s)
      \<and> transitionFor (parseTransitionPolicy (sample_run RunStatusPending [] [])) (rs_stage_id s) = TransitionAuto"
    if "s \<in> set (w_steps (pending_world [] []))" for s
    using that by (auto simp: sample_succeeds)
  from execute_completes [of "pending_world [] []" 20 "sample_run RunStatusPending [] []" sample_env,
      OF _ _ _ _ _ _ _ this]
  show ?thesis by (auto simp: run_terminal_def uuid_nil_def)
qed


lemma execute_terminal_noop_witness:
  "run_state (ExecuteRun sample_env 20)
     (sample_world (sample_run RunStatusCancelled [] []) [sample_a StepStatusCancelled]) =
   (Inr (), sample_world (sample_run RunStatusCancelled [] []) [sample_a StepStatusCancelled])"
  using execute_terminal_noop [of "sample_world (sample_run RunStatusCancelled [] []) [sample_a StepStatusCancelled]"
      20 "sample_run RunStatusCancelled [] []" sample_env]
  by (simp add: run_terminal_def)

lemma execute_breaker_open_witness:
  "\<exists>w'. run_state (ExecuteRun sample_env 20)
      ((pending_world [] [])\<lparr>w_projects := [sample_project\<lparr>cb_active := True\<rparr>]\<rparr>) = (Inl CircuitBreakerOpen, w')"
  using execute_breaker_open [of "(pending_world [] [])\<lparr>w_projects := [sample_project\<lparr>cb_active := True\<rparr>]\<rparr>"
      20 "sample_run RunStatusPending [] []" sample_env 0 3]
  by (auto simp: run_terminal_def breaker_of_def sample_project_def)

lemma pause_stops_loop_witness:
  "run_state (runLoop sample_env (sample_run RunStatusRunning [] []) None [sample_b StepStatusPending] None None Map.empty)
     (sample_world (sample_run RunStatusPaused [] []) [sample_b StepStatusPending]) =
   (Inl (Inl ErrRunPaused), sample_world (sample_run RunStatusPaused [] []) [sample_b StepStatusPending])"
  using pause_stops_loop [of sample_env "sample_b StepStatusPending"
      "sample_world (sample_run RunStatusPaused [] []) [sample_b StepStatusPending]"
      "sample_run RunStatusRunning [] []" None "[]" None None Map.empty]
  by (simp del: runLoop.simps)

text \<open>The state after the first step of a run whose first stage has a gate.\<close>

abbreviation gate_world :: world where
  "gate_world \<equiv> sample_world (sample_run RunStatusRunning TransitionGate [])
     [sample_a StepStatusCompleted, sample_b StepStatusPending]"

abbreviation gate_policy :: "pipeline_config_yaml option" where
  "gate_policy \<equiv> parseTransitionPolicy (sample_run RunStatusRunning TransitionGate [])"

abbreviation build_stage :: stage_ref where
  "build_stage \<equiv> \<lparr>sr_id = ''build'', sr_name = ''Build''\<rparr>"

definition closed_request :: "hitl_status \<Rightarrow> hitl_request" where
  "closed_request st = (gateRequest 40 31 0)\<lparr>hitl_status := st\<rparr>"

lemma closed_request_simps [simp]:
  "hitl_step (closed_request st) = 31" "hitl_status (closed_request st) = st"
  by (simp_all add: closed_request_def gateRequest_def)

lemma gate_parks_run_witness:
  "\<exists>w' h. run_state (runLoop sample_env (sample_run RunStatusRunning TransitionGate []) gate_policy
        [sample_b StepStatusPending] (Some build_stage) (Some (sample_a StepStatusCompleted)) Map.empty) gate_world
      = (Inl (Inr ()), w')
    \<and> runSt w' 20 = Some RunStatusPaused \<and> stepSt w' 31 = Some StepStatusWaitingApproval
    \<and> w_hitl w' = [h] \<and> hitl_step h = 31"
proof -
  have "stepSt gate_world 31 \<noteq> None" by (simp add: stepSt_def)
  with gate_parks_run [of gate_world gate_policy build_stage sample_env "sample_a StepStatusCompleted"
      "sample_run RunStatusRunning TransitionGate []" "sample_b StepStatusPending" "[]" Map.empty]
  show ?thesis by (auto simp: runOK_def simp del: runLoop.simps)
qed

lemma gate_wedges_on_closed_request_witness:
  "run_state (runLoop sample_env (sample_run RunStatusRunning TransitionGate []) gate_policy
        [sample_b StepStatusPending] (Some build_stage) (Some (sample_a StepStatusCompleted)) Map.empty)
      (gate_world\<lparr>w_hitl := [closed_request HITLStatusResolved]\<rparr>)
    = (Inl (Inr ()), gate_world\<lparr>w_hitl := [closed_request HITLStatusResolved]\<rparr>)"
  using gate_wedges_on_closed_request [of "gate_world\<lparr>w_hitl := [closed_request HITLStatusResolved]\<rparr>"
      gate_policy build_stage sample_env "sample_a StepStatusCompleted" "closed_request HITLStatusResolved"
      "sample_run RunStatusRunning TransitionGate []" "sample_b StepStatusPending" "[]" Map.empty]
  by (simp add: runOK_def del: runLoop.simps)


lemma gate_skipped_after_resume_witness:
  "\<exists>w'. run_state (ExecuteRun sample_env 20)
      (sample_world (sample_run RunStatusPending TransitionGate TransitionGate)
        [sample_a StepStatusCompleted, sample_b StepStatusCompleted]) = (Inr (), w')
    \<and> runSt w' 20 = Some RunStatusCompleted \<and> w_hitl w' = []"
proof -
  let ?r = "sample_run RunStatusPending TransitionGate TransitionGate"
  let ?w = "sample_world ?r [sample_a StepStatusCompleted, sample_b StepStatusCompleted]"
  have "rs_status s = StepStatusCompleted" if "s \<in> set (w_steps ?w)" for s using that by auto
  from gate_skipped_after_resume [of ?w 20 ?r sample_env, OF _ _ _ _ this] show ?thesis
    by (auto simp: run_terminal_def)
qed

lemma execute_touches_own_run_only_witness:
  "\<exists>res w'. run_state (ExecuteRun sample_env 20) (pending_world [] []) = (res, w')
    \<and> filter (\<lambda>x. rs_run x \<noteq> 20) (w_steps w') = []"
proof -
  let ?w = "pending_world [] []"
  obtain res w' where r: "run_state (ExecuteRun sample_env 20) ?w = (res, w')" by fastforce
  have "wellBehaved sample_env 20 J" for J
    by (auto simp: wellBehaved_def sample_env_def ok_action_def [abs_def] bad_action_def [abs_def]
          own.frame_refl intro: own.return split: if_splits)
  from execute_touches_own_run_only [OF this _ r] show ?thesis using r by auto
qed

end
