(* ===== verification/RunService.thy ===== *)
theory RunService
  imports Executor
begin

text \<open>
  The run service (\<open>backend/internal/domain/service/run_service.go\<close>): creating and launching
  runs, the user's transitions of a run (pause, resume, cancel, start of a manual stage, retry of
  a failed step) and the validated status transitions. The record \<open>run_svc\<close> says which optional
  collaborators are wired; parsing a UUID and decoding YAML are its parameters.
\<close>

record run_svc =
  s_agents :: bool
  s_stacks :: bool
  s_events :: bool
  s_jobs :: bool
  s_runtime :: bool
  s_containers :: bool
  s_parse_uuid :: "string \<rightharpoonup> uuid"
  s_unmarshal :: "string \<Rightarrow> pipeline_config_raw res"

section \<open>Creating and reading runs\<close>

definition is_required :: "string \<Rightarrow> err" where
  "is_required field = NewValidation [T field] [T ''is required'']"

text \<open>\<open>json.Unmarshal\<close> of the request's configuration into the steps-only \<open>PipelineConfig\<close>.\<close>

fun decodeSteps :: "snapshot \<Rightarrow> (string \<times> string) list res" where
  "decodeSteps SnapNone = Inl (PlainErr [T ''unexpected end of JSON input''])"
| "decodeSteps (SnapConfig c) = Inr []"
| "decodeSteps (SnapSteps s) = Inr s"
| "decodeSteps (SnapBad e) = Inl e"

fun createPlainSteps :: "uuid \<Rightarrow> int \<Rightarrow> (string \<times> string) list \<Rightarrow> run_step list fop" where
  "createPlainSteps r i [] = ok []"
| "createPlainSteps r i ((name, act) # ss) =
     attempt (CreateRunStep r name i act StepStatusPending [] []) (\<lambda>s.
     attempt (createPlainSteps r (i + 1) ss) (\<lambda>rest. ok (s # rest)))"

definition RunService_CreateRun :: "uuid \<Rightarrow> uuid \<Rightarrow> snapshot \<Rightarrow> (run \<times> run_step list) fop" where
  "RunService_CreateRun pid sid config =
     (if pid = uuid_nil then fail (is_required ''project_id'')
      else if sid = uuid_nil then fail (is_required ''story_id'')
      else attempt (GetProjectByID pid) (\<lambda>_.
        if config = SnapNone then fail (is_required ''pipeline_config'')
        else case decodeSteps config of
          Inl e \<Rightarrow> fail (NewValidation [T ''pipeline_config''] ([T ''invalid JSON: ''] @ err_text e))
        | Inr steps \<Rightarrow>
            if steps = [] then
              fail (NewValidation [T ''pipeline_config''] [T ''must contain at least one step''])
            else
              attempt (CreateRun pid sid RunStatusPending config Map.empty) (\<lambda>run.
              attempt (createPlainSteps (run_id run) 0 steps) (\<lambda>created. ok (run, created)))))"

definition RunService_GetRun :: "uuid \<Rightarrow> (run \<times> run_step list \<times> nat) fop" where
  "RunService_GetRun i =
     attempt (GetRun i) (\<lambda>run.
     attempt (ListRunStepsByRun i) (\<lambda>steps. ok (run, steps, ComputeProgress steps)))"

section \<open>Validated transitions\<close>

definition TransitionRun :: "uuid \<Rightarrow> run_status \<Rightarrow> run fop" where
  "TransitionRun i newStatus =
     attempt (GetRun i) (\<lambda>run.
       case ValidateRunTransition (run_status run) newStatus of
         Inl e \<Rightarrow> fail e
       | Inr _ \<Rightarrow> do {
           now \<leftarrow> time_now;
           UpdateRunStatus i newStatus
             (if newStatus = RunStatusRunning then Some now else None)
             (if newStatus = RunStatusCompleted \<or> newStatus = RunStatusFailed
                 \<or> newStatus = RunStatusCancelled then Some now else None)
             (if newStatus = RunStatusPaused then Some now else None) None })"

definition TransitionRunStep :: "uuid \<Rightarrow> step_status \<Rightarrow> run_step fop" where
  "TransitionRunStep j newStatus =
     attempt (GetRunStep j) (\<lambda>s.
       case ValidateStepTransition (rs_status s) newStatus of
         Inl e \<Rightarrow> fail e
       | Inr _ \<Rightarrow> do {
           now \<leftarrow> time_now;
           UpdateRunStepStatus j newStatus
             (if newStatus = StepStatusRunning then Some now else None)
             (if newStatus = StepStatusCompleted \<or> newStatus = StepStatusFailed
                 \<or> newStatus = StepStatusCancelled then Some now else None) None })"

section \<open>Launching\<close>

definition storyErr :: "category \<Rightarrow> string \<Rightarrow> msg \<Rightarrow> err" where
  "storyErr cat code m = DomainError cat code m None"

definition needsAgent :: "string \<Rightarrow> bool" where
  "needsAgent act \<longleftrightarrow> act = ''agent_run'' \<or> act = ''implement'' \<or> act = ''review'' \<or> act = ''merge''"

definition agentIdField :: "int \<Rightarrow> msg" where
  "agentIdField i = [T ''step['', N i, T ''].agent_id'']"

text \<open>The effective launch image of an agent: the image of its stack when it references one.\<close>

definition effectiveImage :: "run_svc \<Rightarrow> agent \<Rightarrow> string fop" where
  "effectiveImage svc a =
     (case agent_stack_ref a of
        None \<Rightarrow> ok (agent_image a)
      | Some st \<Rightarrow>
          if \<not> s_stacks svc then ok (agent_image a)
          else attempt (GetStack st) (\<lambda>s. ok (stack_image_ref s)))"

definition agentMetadata :: "int \<Rightarrow> agent \<Rightarrow> string \<Rightarrow> metadata \<Rightarrow> metadata" where
  "agentMetadata i a img meta =
     (let m1 = meta(stepKey i ''agent_id'' \<mapsto> JUuid (agent_id a),
                    stepKey i ''model'' \<mapsto> JStr (agent_model a));
          m2 = (if agent_provider a \<noteq> [] then m1(stepKey i ''provider'' \<mapsto> JStr (agent_provider a)) else m1);
          m3 = (if img \<noteq> [] then m2(stepKey i ''agent_image'' \<mapsto> JStr img) else m2);
          kind = (if agent_runtime_kind a = [] then RuntimeKindFromProvider (agent_provider a)
                  else agent_runtime_kind a);
          m4 = m3(stepKey i ''runtime_kind'' \<mapsto> JStr kind)
      in if agent_template a \<noteq> [] then m4(stepKey i ''template_content'' \<mapsto> JStr (agent_template a))
         else m4)"

definition stepMetadata :: "run_svc \<Rightarrow> int \<Rightarrow> pipeline_step \<Rightarrow> metadata \<Rightarrow> metadata fop" where
  "stepMetadata svc i s meta =
     (if needsAgent (ps_action_type s) \<and> ps_agent_id s = []
      then fail (NewValidation (agentIdField i) [T ''agent_id is required for agent_run steps''])
      else if ps_agent_id s \<noteq> [] then
        (case s_parse_uuid svc (ps_agent_id s) of
           None \<Rightarrow> fail (NewValidation (agentIdField i) [T ''invalid UUID format''])
         | Some u \<Rightarrow>
             if \<not> s_agents svc then
               fail (NewInternal ''resolve agent'' (PlainErr [T ''agent repository not configured'']))
             else do {
               r \<leftarrow> GetAgent u;
               case r of
                 Inl e \<Rightarrow> fail (NewNotFound ''agent'' (T (ps_agent_id s)))
               | Inr a \<Rightarrow> attempt (effectiveImage svc a) (\<lambda>img. ok (agentMetadata i a img meta)) })
      else if ps_model s \<noteq> [] then ok (meta(stepKey i ''model'' \<mapsto> JStr (ps_model s)))
      else ok meta)"

fun launchMetadata :: "run_svc \<Rightarrow> int \<Rightarrow> pipeline_step list \<Rightarrow> metadata \<Rightarrow> metadata fop" where
  "launchMetadata svc i [] meta = ok meta"
| "launchMetadata svc i (s # ss) meta =
     attempt (stepMetadata svc i s meta) (\<lambda>meta'. launchMetadata svc (i + 1) ss meta')"

text \<open>Step \<open>i\<close> of the flat list, stamped with the stage of entry \<open>i\<close> of the stage-aware list.\<close>

fun createLaunchSteps ::
  "uuid \<Rightarrow> step_with_stage list \<Rightarrow> nat \<Rightarrow> pipeline_step list \<Rightarrow> run_step list fop" where
  "createLaunchSteps r sws i [] = ok []"
| "createLaunchSteps r sws i (s # ss) =
     attempt (CreateRunStep r (ps_name s) (int i) (ps_action_type s) StepStatusPending
                (sws_group_id (sws ! i)) (sws_group_name (sws ! i))) (\<lambda>c.
     attempt (createLaunchSteps r sws (Suc i) ss) (\<lambda>rest. ok (c # rest)))"

definition enqueueLaunch :: "run_svc \<Rightarrow> uuid \<Rightarrow> unit fop" where
  "enqueueLaunch svc i =
     (if \<not> s_jobs svc then
        fail (NewInternal ''enqueue execute_run job'' (PlainErr [T ''job queue unavailable'']))
      else wrap_err (NewInternal ''enqueue execute_run job'') (EnqueueExecuteRun i))"

text \<open>Steps 5 to 10 of \<open>LaunchRun\<close>, on the stored YAML.\<close>

definition launchConfigured :: "run_svc \<Rightarrow> uuid \<Rightarrow> uuid \<Rightarrow> uuid \<Rightarrow> string \<Rightarrow> (run \<times> run_step list) fop"
  where
  "launchConfigured svc pid sid uid yaml =
     (case ParsePipelineConfigYAML (s_unmarshal svc) yaml of
        Inl e \<Rightarrow> fail (NewInternal ''parse pipeline config'' e)
      | Inr parsed \<Rightarrow>
          if FlatSteps parsed = [] then
            fail (storyErr CategoryValidation ''PIPELINE_CONFIG_EMPTY'' [T ''pipeline config has no steps''])
          else
            attempt (launchMetadata svc 0 (FlatSteps parsed) [''launched_by_user_id'' \<mapsto> JUuid uid]) (\<lambda>meta.
            attempt (CreateRun pid sid RunStatusPending (SnapConfig parsed) meta) (\<lambda>run.
            attempt (createLaunchSteps (run_id run) (FlatStepsWithStage parsed) 0 (FlatSteps parsed)) (\<lambda>steps.
            attempt (enqueueLaunch svc (run_id run)) (\<lambda>_. ok (run, steps))))))"

definition LaunchRun :: "run_svc \<Rightarrow> uuid \<Rightarrow> uuid \<Rightarrow> uuid \<Rightarrow> (run \<times> run_step list) fop" where
  "LaunchRun svc pid sid uid =
     attempt (GetStoryByID sid) (\<lambda>story.
       if story_project story \<noteq> pid then fail (NewNotFound ''story'' (U sid))
       else if story_status story = StoryStatusDone then
         fail (storyErr CategoryValidation ''STORY_ALREADY_COMPLETED''
           [T ''story '', T (story_key story), T '' is already completed''])
       else attempt (GetActiveRunByStory sid) (\<lambda>active.
         case active of
           Some r \<Rightarrow>
             fail (storyErr CategoryConflict ''STORY_ALREADY_RUNNING''
               [T ''story '', T (story_key story), T '' already has an active run ('', U (run_id r), T '')''])
         | None \<Rightarrow> do {
             c \<leftarrow> GetPipelineConfig pid;
             case c of
               Inl e \<Rightarrow>
                 if isNotFound e then
                   fail (storyErr CategoryNotFound ''PIPELINE_CONFIG_NOT_FOUND''
                     [T ''no pipeline config found for project '', U pid])
                 else fail e
             | Inr cfg \<Rightarrow> launchConfigured svc pid sid uid (pc_yaml cfg) }))"

section \<open>Pause, resume, manual start\<close>

definition publishRunEvent :: "run_svc \<Rightarrow> uuid \<Rightarrow> uuid \<Rightarrow> string \<Rightarrow> (string \<times> jval) list \<Rightarrow> unit op" where
  "publishRunEvent svc pid i act payload =
     (if s_events svc then publishEvent pid ''run'' i act payload else skip)"

definition requeue :: "run_svc \<Rightarrow> string \<Rightarrow> uuid \<Rightarrow> unit fop" where
  "requeue svc what i =
     (if s_jobs svc then wrap_err (NewInternal what) (EnqueueExecuteRun i) else ok ())"

definition PauseRun :: "run_svc \<Rightarrow> uuid \<Rightarrow> uuid \<Rightarrow> run fop" where
  "PauseRun svc pid i =
     attempt (GetRun i) (\<lambda>run.
       if run_project run \<noteq> pid then fail (NewNotFound ''run'' (U i))
       else case ValidateRunTransition (run_status run) RunStatusPaused of
         Inl e \<Rightarrow> fail e
       | Inr _ \<Rightarrow> do {
           now \<leftarrow> time_now;
           attempt (UpdateRunStatus i RunStatusPaused None None (Some now) None) (\<lambda>updated. do {
             _ \<leftarrow> publishRunEvent svc (run_project updated) (run_id updated) ''paused''
               (runPayload i updated ''paused'' @ [(''paused_at'', JTime now)]);
             ok updated }) })"

definition ResumeRun :: "run_svc \<Rightarrow> uuid \<Rightarrow> uuid \<Rightarrow> run fop" where
  "ResumeRun svc pid i =
     attempt (GetRun i) (\<lambda>run.
       if run_project run \<noteq> pid then fail (NewNotFound ''run'' (U i))
       else if run_status run \<noteq> RunStatusPaused then
         fail (NewInvalidState ErrCodeInvalidStateTransition
           [T ''cannot resume run from status '', T (run_status_name (run_status run)),
            T '', must be paused''])
       else attempt (UpdateRunStatus i RunStatusRunning None None None None) (\<lambda>updated. do {
         _ \<leftarrow> publishRunEvent svc (run_project updated) (run_id updated) ''resumed''
           (runPayload i updated ''running'');
         attempt (requeue svc ''enqueue execute_run job for resume'' i) (\<lambda>_. ok updated) }))"

text \<open>The texts a metadata entry yields under \<open>.(string)\<close>.\<close>

definition metaString :: "metadata \<Rightarrow> string \<Rightarrow> string" where
  "metaString meta k = (case meta k of Some (JStr s) \<Rightarrow> s | _ \<Rightarrow> [])"

definition startedMetadata :: "metadata \<Rightarrow> metadata" where
  "startedMetadata meta =
     (let stageID = metaString meta ''paused_stage_id'';
          m1 = (if stageID \<noteq> [] then meta(stageStartedKey stageID \<mapsto> JBool True) else meta)
      in m1(''paused_reason'' := None, ''paused_stage_id'' := None, ''paused_stage_name'' := None))"

definition stageNotStartable :: "run \<Rightarrow> msg \<Rightarrow> err" where
  "stageNotStartable run m =
     storyErr CategoryConflict ''STAGE_NOT_STARTABLE'' ([T ''run '', U (run_id run)] @ m)"

definition resumeStage :: "run_svc \<Rightarrow> run \<Rightarrow> run fop" where
  "resumeStage svc run =
     attempt (wrap_err (NewInternal ''persist stage-started metadata'')
       (UpdateRunMetadata (run_id run) (startedMetadata (run_metadata run)))) (\<lambda>_.
     attempt (UpdateRunStatus (run_id run) RunStatusRunning None None None None) (\<lambda>updated. do {
       _ \<leftarrow> publishRunEvent svc (run_project updated) (run_id updated) ''resumed''
         (runPayload (run_id updated) updated ''running'' @
          [(''stage_id'', JStr (metaString (run_metadata run) ''paused_stage_id'')),
           (''trigger'', JStr ''manual_start'')]);
       attempt (requeue svc ''enqueue execute_run job for stage start'' (run_id updated)) (\<lambda>_. ok updated) }))"

definition StartStage :: "run_svc \<Rightarrow> uuid \<Rightarrow> uuid \<Rightarrow> run fop" where
  "StartStage svc pid sid =
     attempt (GetStoryByID sid) (\<lambda>story.
       if story_project story \<noteq> pid then fail (NewNotFound ''story'' (U sid))
       else attempt (GetActiveRunByStory sid) (\<lambda>active.
         case active of
           None \<Rightarrow> fail (storyErr CategoryNotFound ''NO_ACTIVE_RUN''
             [T ''story '', T (story_key story), T '' has no active run to start''])
         | Some run \<Rightarrow>
             if run_status run \<noteq> RunStatusPaused then
               fail (stageNotStartable run [T '' is '', T (run_status_name (run_status run)),
                 T '', not paused awaiting a manual stage start''])
             else if metaString (run_metadata run) ''paused_reason'' \<noteq> pausedReasonManualStart then
               fail (stageNotStartable run [T '' is paused but not awaiting a manual stage start''])
             else resumeStage svc run))"

section \<open>Cancel\<close>

text \<open>\<open>AgentRuntime.Stop\<close> or \<open>ContainerManager.Stop\<close>: the handle is recorded, the error dropped.\<close>

definition stopStepExecution :: "run_svc \<Rightarrow> string option \<Rightarrow> unit op" where
  "stopStepExecution svc c =
     (case c of
        None \<Rightarrow> skip
      | Some h \<Rightarrow>
          if h = [] then skip
          else if s_runtime svc \<or> s_containers svc
          then writing (\<lambda>w. ((), w\<lparr>w_stops := w_stops w @ [h]\<rparr>)) else skip)"

definition userCancelMsg :: msg where
  "userCancelMsg = [T ''cancelled by user'']"

fun cancelSteps :: "run_svc \<Rightarrow> time \<Rightarrow> run_step list \<Rightarrow> unit fop" where
  "cancelSteps svc now [] = ok ()"
| "cancelSteps svc now (s # ss) =
     (if rs_status s = StepStatusRunning \<or> rs_status s = StepStatusWaitingApproval then do {
        _ \<leftarrow> stopStepExecution svc (rs_container s);
        attempt (UpdateRunStepStatus (rs_id s) StepStatusCancelled None (Some now) (Some userCancelMsg))
          (\<lambda>_. cancelSteps svc now ss) }
      else if rs_status s = StepStatusPending then
        attempt (UpdateRunStepStatus (rs_id s) StepStatusCancelled None (Some now) (Some userCancelMsg))
          (\<lambda>_. cancelSteps svc now ss)
      else cancelSteps svc now ss)"

definition transitionStoryToBacklog :: "run_svc \<Rightarrow> run \<Rightarrow> unit op" where
  "transitionStoryToBacklog svc run =
     (if run_story run = uuid_nil then skip
      else do {
        r \<leftarrow> GetStoryByID (run_story run);
        case r of
          Inl e \<Rightarrow> skip
        | Inr story \<Rightarrow>
            if story_status story = StoryStatusBacklog then skip
            else do {
              u \<leftarrow> UpdateStory (story\<lparr>story_status := StoryStatusBacklog\<rparr>);
              case u of
                Inl e \<Rightarrow> skip
              | Inr _ \<Rightarrow>
                  if s_events svc then
                    publishEvent (run_project run) ''story'' (run_story run) ''status_updated''
                      [(''story_id'', JUuid (run_story run)), (''run_id'', JUuid (run_id run)),
                       (''status'', JStr StoryStatusBacklog)]
                  else skip } })"

definition CancelRun :: "run_svc \<Rightarrow> uuid \<Rightarrow> uuid \<Rightarrow> run fop" where
  "CancelRun svc pid i =
     attempt (GetRun i) (\<lambda>run.
       if run_project run \<noteq> pid then fail (NewNotFound ''run'' (U i))
       else case ValidateRunTransition (run_status run) RunStatusCancelled of
         Inl e \<Rightarrow> fail e
       | Inr _ \<Rightarrow>
           attempt (ListRunStepsByRun i) (\<lambda>steps. do {
             now \<leftarrow> time_now;
             attempt (cancelSteps svc now steps) (\<lambda>_.
             attempt (UpdateRunStatus i RunStatusCancelled None (Some now) None (Some userCancelMsg))
               (\<lambda>updated. do {
                 _ \<leftarrow> publishRunEvent svc (run_project updated) (run_id updated) ''cancelled''
                   (runPayload i updated ''cancelled'' @ [(''cancelled_at'', JTime now)]);
                 _ \<leftarrow> transitionStoryToBacklog svc updated;
                 ok updated })) }))"

section \<open>Retry\<close>

fun retryLimit :: "string \<Rightarrow> pipeline_step list \<Rightarrow> int" where
  "retryLimit name [] = 3"
| "retryLimit name (s # ss) =
     (if ps_name s = name \<and> 0 < max_retries (ps_retry_policy s)
      then max_retries (ps_retry_policy s) else retryLimit name ss)"

definition maxRetriesFor :: "snapshot \<Rightarrow> string \<Rightarrow> int" where
  "maxRetriesFor snap name =
     (if snap = SnapNone then 3
      else case decodeConfig snap of Inl e \<Rightarrow> 3 | Inr c \<Rightarrow> retryLimit name (FlatSteps c))"

definition rootStep :: "run_step \<Rightarrow> uuid" where
  "rootStep s = (case rs_parent s of None \<Rightarrow> rs_id s | Some p \<Rightarrow> p)"

definition retryOf :: "run_step \<Rightarrow> uuid \<Rightarrow> run_step" where
  "retryOf s i =
     (blank_step i (rs_run s) (rs_name s) (rs_order s) (rs_action s) StepStatusPending 0)
       \<lparr>rs_retry_count := rs_retry_count s + 1,
        rs_retry_type := Some (if rs_retry_count s + 1 > 2 then ''full'' else ''incremental''),
        rs_parent := Some (rootStep s),
        rs_stage_id := rs_stage_id s, rs_stage_name := rs_stage_name s\<rparr>"

definition createRetry :: "run_svc \<Rightarrow> run \<Rightarrow> run_step \<Rightarrow> (run \<times> run_step list \<times> nat) fop" where
  "createRetry svc run s = do {
     i \<leftarrow> uuid_new;
     attempt (CreateRetryRunStep (retryOf s i)) (\<lambda>_.
     attempt (if run_status run = RunStatusFailed
              then attempt (UpdateRunStatus (run_id run) RunStatusRunning None None None None) (\<lambda>_. ok ())
              else ok ()) (\<lambda>_.
     attempt (requeue svc ''enqueue execute_run job for retry'' (run_id run)) (\<lambda>_. do {
       _ \<leftarrow> publishRunEvent svc (run_project run) (run_id run) ''step.retry_initiated''
         [(''run_id'', JUuid (run_id run)), (''step_id'', JUuid (rs_id s)),
          (''retry_step_id'', JUuid i), (''retry_count'', JInt (rs_retry_count (retryOf s i))),
          (''retry_type'', JStr (if rs_retry_count s + 1 > 2 then ''full'' else ''incremental''))];
       RunService_GetRun (run_id run) }))) }"

definition RetryStep :: "run_svc \<Rightarrow> uuid \<Rightarrow> uuid \<Rightarrow> (run \<times> run_step list \<times> nat) fop" where
  "RetryStep svc i j =
     attempt (GetRun i) (\<lambda>run.
     attempt (GetRunStep j) (\<lambda>s.
       if rs_run s \<noteq> i then fail (NewNotFound ''step'' (U j))
       else if rs_status s \<noteq> StepStatusFailed then
         fail (storyErr CategoryConflict ''STEP_NOT_FAILED''
           [T ''step '', U j, T '' is in '', T (step_status_name (rs_status s)),
            T '' state, only failed steps can be retried''])
       else attempt (ListRetryStepsByParent (rootStep s)) (\<lambda>existing.
         if maxRetriesFor (run_snapshot run) (rs_name s) \<le> int (length existing) then
           fail (storyErr CategoryConflict ''RETRY_MAX_EXCEEDED''
             [T ''max retries ('', N (maxRetriesFor (run_snapshot run) (rs_name s)),
              T '') exceeded for step '', T (rs_name s)])
         else createRetry svc run s)))"

section \<open>The epic variants\<close>

text \<open>The placeholders of the epic endpoints: they ignore the epic and act on the run.\<close>

definition PauseEpicRun :: "run_svc \<Rightarrow> uuid \<Rightarrow> uuid \<Rightarrow> uuid \<Rightarrow> run fop" where
  "PauseEpicRun svc pid epic i = PauseRun svc pid i"

definition ResumeEpicRun :: "run_svc \<Rightarrow> uuid \<Rightarrow> uuid \<Rightarrow> uuid \<Rightarrow> run fop" where
  "ResumeEpicRun svc pid epic i = ResumeRun svc pid i"

definition CancelEpicRun :: "run_svc \<Rightarrow> uuid \<Rightarrow> uuid \<Rightarrow> uuid \<Rightarrow> run fop" where
  "CancelEpicRun svc pid epic i = CancelRun svc pid i"

end
