(* ===== verification/RunServiceSpec.thy ===== *)
theory RunServiceSpec
  imports ExecutorStages RunService
begin

text \<open>
  The correctness of the run service: its operations move a run only along the transition table,
  cancellation leaves nothing open, a launch creates exactly the steps of the configuration and
  never a second active run, a manual stage is parked and released, retries are bounded; and two
  defects: an executor that does not notice a cancellation, and a retry that executes the failed
  step again.
\<close>

section \<open>Publishing\<close>

lemmas run_publishRun [run_simps] =
  run_unit [of "publishRunEvent svc p i act pl" for svc p i act pl]

lemma publishRunEvent_logged: "logged w (after (publishRunEvent svc p i act pl) w)"
  using publishEvent_logged [of w p "''run''" i act pl] by (simp add: publishRunEvent_def)

lemma storySt_logged [simp]: "storySt (after (publishRunEvent svc p i act pl) w) = storySt w"
  using logged_views(4) [OF publishRunEvent_logged] .

lemma after_publishRun [simp]:
  "w_runs (after (publishRunEvent svc p i act pl) w) = w_runs w"
  "w_steps (after (publishRunEvent svc p i act pl) w) = w_steps w"
  "w_stories (after (publishRunEvent svc p i act pl) w) = w_stories w"
  "w_projects (after (publishRunEvent svc p i act pl) w) = w_projects w"
  "w_hitl (after (publishRunEvent svc p i act pl) w) = w_hitl w"
  "w_faults w = [] \<Longrightarrow> w_faults (after (publishRunEvent svc p i act pl) w) = []"
  "stepSt (after (publishRunEvent svc p i act pl) w) = stepSt w"
  "stepAct (after (publishRunEvent svc p i act pl) w) = stepAct w"
  "runSt (after (publishRunEvent svc p i act pl) w) = runSt w"
  using publishRunEvent_logged [of w svc p i act pl] logged_views [of w "after (publishRunEvent svc p i act pl) w"]
  by (auto simp: logged_def)

lemma publish_jobs [simp]:
  "w_jobs (after (publishEvent p ty i act pl) w) = w_jobs w"
  "w_jobs (after (publishRunEvent svc p i act pl) w) = w_jobs w"
  by (simp_all add: after_def publishRunEvent_def publishEvent_def Publish_def run_simps run_db_op_faults
        split: list.splits)

section \<open>Lawful status changes\<close>

text \<open>
  \<open>lawful status allowed w w'\<close>: every row present in both states has kept its status or moved
  along \<open>allowed\<close>.
\<close>

definition lawful ::
  "(world \<Rightarrow> uuid \<rightharpoonup> 'st) \<Rightarrow> ('st \<Rightarrow> 'st \<Rightarrow> bool) \<Rightarrow> world \<Rightarrow> world \<Rightarrow> bool" where
  "lawful status allowed w w' \<longleftrightarrow>
     (\<forall>k a b. status w k = Some a \<longrightarrow> status w' k = Some b \<longrightarrow> a = b \<or> allowed a b)"

lemma lawful_same: "status w' = status w \<Longrightarrow> lawful status allowed w w'"
  by (simp add: lawful_def)

lemma lawful_cong:
  "status v = status w \<Longrightarrow> status v' = status w' \<Longrightarrow> lawful status allowed v v' = lawful status allowed w w'"
  by (simp add: lawful_def)

text \<open>
  The contract of a repository's status update towards the services that validate a transition
  before they call it: whether or not the call succeeds, no other row changes.
\<close>

locale status_update =
  fixes status :: "world \<Rightarrow> uuid \<rightharpoonup> 'st"
    and allowed :: "'st \<Rightarrow> 'st \<Rightarrow> bool"
    and update :: "'x \<Rightarrow> uuid \<Rightarrow> 'st \<Rightarrow> 'r fop"
  assumes update_only:
    "run_state (update x i st) w = (r, w') \<Longrightarrow> status w' = status w \<or> status w' = (status w)(i \<mapsto> st)"
begin

lemma guarded_update:
  assumes "status w i = Some a" and "allowed a st" and "run_state (update x i st) w = (r, w')"
  shows "lawful status allowed w w'"
  using update_only [OF assms(3)] assms(1,2) by (auto simp: lawful_def split: if_splits)

lemma guarded_update_then:
  assumes "status w i = Some a" and "allowed a st"
    and "\<And>y. keeps (\<lambda>u v. status v = status u) (f y)"
  shows "lawful status allowed w (after (attempt (update x i st) f) w)"
proof -
  obtain r v where r: "run_state (update x i st) w = (r, v)" by fastforce
  have l: "lawful status allowed w v" by (rule guarded_update [OF assms(1,2) r])
  show ?thesis
  proof (cases r)
    case (Inl e)
    with r l show ?thesis by (simp add: after_def run_simps)
  next
    case (Inr y)
    have "status (after (f y) v) = status v" using keeps_after [OF assms(3) [of y], of v] .
    with l have "lawful status allowed w (after (f y) v)" by (simp add: lawful_def)
    with r Inr show ?thesis by (simp add: after_def run_simps)
  qed
qed

end

definition updateRun :: "time option \<times> time option \<times> time option \<times> msg option \<Rightarrow> uuid \<Rightarrow> run_status \<Rightarrow> run fop"
  where
  "updateRun x i st = (case x of (sa, ca, pa, em) \<Rightarrow> UpdateRunStatus i st sa ca pa em)"

definition updateStep :: "time option \<times> time option \<times> msg option \<Rightarrow> uuid \<Rightarrow> step_status \<Rightarrow> run_step fop"
  where
  "updateStep x i st = (case x of (sa, ca, em) \<Rightarrow> UpdateRunStepStatus i st sa ca em)"


lemma UpdateRunStatus_cases:
  assumes "run_state (UpdateRunStatus i st sa ca pa em) w = (r, w')"
  obtains e where "r = Inl e" "w_runs w' = w_runs w"
  | x v where "r = Inr x" "w_runs w' = tbl_update run_id i (set_run_status st sa ca pa em v) (w_runs w)"
proof (cases r)
  case (Inl e)
  with assms have "w_runs w' = w_runs w"
    by (auto simp: UpdateRunStatus_def run_db_op_faults run_simps split: list.splits if_splits option.splits)
  with Inl that(1) show ?thesis by blast
next
  case (Inr x)
  with assms have "\<exists>v. w_runs w' = tbl_update run_id i (set_run_status st sa ca pa em v) (w_runs w)"
    by (auto simp: UpdateRunStatus_def run_db_op_faults run_simps split: list.splits if_splits option.splits)
  with Inr that(2) show ?thesis by blast
qed

lemma UpdateRunStepStatus_cases:
  assumes "run_state (UpdateRunStepStatus i st sa ca em) w = (r, w')"
  obtains e where "r = Inl e" "w_steps w' = w_steps w"
  | x v where "r = Inr x" "w_steps w' = tbl_update rs_id i (set_step_status st sa ca em v) (w_steps w)"
proof (cases r)
  case (Inl e)
  with assms have "w_steps w' = w_steps w"
    by (auto simp: UpdateRunStepStatus_def run_db_op_faults run_simps split: list.splits if_splits option.splits)
  with Inl that(1) show ?thesis by blast
next
  case (Inr x)
  with assms have "\<exists>v. w_steps w' = tbl_update rs_id i (set_step_status st sa ca em v) (w_steps w)"
    by (auto simp: UpdateRunStepStatus_def run_db_op_faults run_simps split: list.splits if_splits option.splits)
  with Inr that(2) show ?thesis by blast
qed

lemma runSt_updated:
  "w_runs w' = tbl_update run_id i (set_run_status st sa ca pa em v) (w_runs w) \<Longrightarrow>
   runSt w' = (if runSt w i = None then runSt w else (runSt w)(i \<mapsto> st))"
  by (rule ext) (auto simp: runSt_def tbl_find_update option.map_comp comp_def)

lemma stepSt_updated:
  "w_steps w' = tbl_update rs_id i (set_step_status st sa ca em v) (w_steps w) \<Longrightarrow>
   stepSt w' = (if stepSt w i = None then stepSt w else (stepSt w)(i \<mapsto> st))"
  by (rule ext) (auto simp: stepSt_def tbl_find_update option.map_comp comp_def)

interpretation run_updates: status_update runSt run_step_ok updateRun
proof
  fix x i st w r w'
  assume a: "run_state (updateRun x i st) w = (r, w')"
  obtain sa ca pa em where "x = (sa, ca, pa, em)" by (cases x) auto
  with a have "run_state (UpdateRunStatus i st sa ca pa em) w = (r, w')" by (simp add: updateRun_def)
  then show "runSt w' = runSt w \<or> runSt w' = (runSt w)(i \<mapsto> st)"
    by (cases rule: UpdateRunStatus_cases) (auto dest: views_cong(3) runSt_updated split: if_splits)
qed

interpretation step_updates: status_update stepSt step_step_ok updateStep
proof
  fix x i st w r w'
  assume a: "run_state (updateStep x i st) w = (r, w')"
  obtain sa ca em where "x = (sa, ca, em)" by (cases x) auto
  with a have "run_state (UpdateRunStepStatus i st sa ca em) w = (r, w')" by (simp add: updateStep_def)
  then show "stepSt w' = stepSt w \<or> stepSt w' = (stepSt w)(i \<mapsto> st)"
    by (cases rule: UpdateRunStepStatus_cases) (auto dest: views_cong(1) stepSt_updated split: if_splits)
qed


section \<open>The user's operations only make lawful moves\<close>

definition runsSame :: "world \<Rightarrow> world \<Rightarrow> bool" where
  "runsSame w w' \<longleftrightarrow> w_runs w' = w_runs w"

interpretation runs_same: frame runsSame
  by unfold_locales (simp_all add: runsSame_def)

lemma runsSame_ops [frame_intros]:
  "keeps runsSame (GetRun i)" "keeps runsSame (GetStoryByID i)" "keeps runsSame (UpdateStory x)"
  "keeps runsSame (GetActiveRunByStory i)" "keeps runsSame (ListRunStepsByRun i)"
  "keeps runsSame (EnqueueExecuteRun i)" "keeps runsSame (publishEvent p ty ent act pl)"
  "keeps runsSame time_now" "keeps runsSame (UpdateRunStepStatus i st sa ca em)"
  by (simp_all add: keeps_def runsSame_def op_defs run_simps run_db_op_faults run_fault_op_faults
        split: list.splits option.splits)

lemma runsSame_stop [frame_intros]: "keeps runsSame (stopStepExecution svc c)"
  by (simp add: keeps_def runsSame_def stopStepExecution_def run_simps split: option.split)

lemma runsSame_helpers [frame_intros]:
  "keeps runsSame (publishRunEvent svc p i act pl)" "keeps runsSame (requeue svc what i)"
  "keeps runsSame (transitionStoryToBacklog svc run)"
  unfolding publishRunEvent_def requeue_def transitionStoryToBacklog_def by (intro frame_intros)+

lemma runsSame_cancelSteps [frame_intros]: "keeps runsSame (cancelSteps svc now ss)"
proof (induction ss)
  case (Cons s ss)
  then show ?case unfolding cancelSteps.simps by (intro frame_intros)
qed (simp add: runs_same.ok)

abbreviation lawfulRuns :: "world \<Rightarrow> world \<Rightarrow> bool" where
  "lawfulRuns \<equiv> lawful runSt run_step_ok"

lemma lawful_keeps: "keeps runsSame m \<Longrightarrow> lawfulRuns w (after m w)"
  using keeps_after [of runsSame m w] by (auto simp: runsSame_def intro: lawful_same views_cong(3))

lemma lawful_bind:
  assumes "keeps runsSame m" and "\<And>x v. runSt v = runSt w \<Longrightarrow> lawfulRuns v (after (f x) v)"
  shows "lawfulRuns w (after (State_Monad.bind m f) w)"
proof -
  obtain x v where x: "run_state m w = (x, v)" by fastforce
  then have "runSt v = runSt w" using keepsD [OF assms(1) x] by (auto simp: runsSame_def intro: views_cong(3))
  moreover from this have "lawfulRuns v (after (f x) v)" by (rule assms(2))
  ultimately show ?thesis using x by (simp add: lawful_def)
qed

lemma lawful_refl [simp]: "lawful status allowed w w"
  by (simp add: lawful_def)

lemma after_results [simp]: "after (fail e) w = w" "after (ok x) w = w"
  by (simp_all add: after_def run_simps)

lemma lawful_attempt:
  assumes "keeps runsSame m" and "\<And>x v. runSt v = runSt w \<Longrightarrow> lawfulRuns v (after (f x) v)"
  shows "lawfulRuns w (after (attempt m f) w)"
  unfolding attempt_def by (rule lawful_bind [OF assms(1)]) (simp add: assms(2) split: sum.split)

lemma GetRun_Inr: "run_state (GetRun i) w = (Inr r, v) \<Longrightarrow> tbl_find run_id i (w_runs w) = Some r"
  by (auto simp: GetRun_def run_db_op_faults run_simps split: list.splits option.splits if_splits)

lemma lawful_getRun:
  assumes "\<And>r v. runSt v i = Some (run_status r) \<Longrightarrow> run_id r = i \<Longrightarrow> lawfulRuns v (after (f r) v)"
  shows "lawfulRuns w (after (attempt (GetRun i) f) w)"
proof -
  obtain x v where x: "run_state (GetRun i) w = (x, v)" by fastforce
  have v: "w_runs v = w_runs w"
    using keepsD [OF _ x, of runsSame] by (simp add: runsSame_def frame_intros)
  show ?thesis
  proof (cases x)
    case (Inr r)
    with x v have "runSt v i = Some (run_status r)" "run_id r = i"
      by (auto simp: runSt_def dest: GetRun_Inr)
    then have "lawfulRuns v (after (f r) v)" by (rule assms)
    with x Inr v show ?thesis
      using views_cong(3) [OF v] by (simp add: lawful_def after_def run_simps)
  qed (use x v in \<open>auto simp: after_def run_simps intro: lawful_same views_cong(3)\<close>)
qed

lemma lawful_update:
  assumes "runSt w i = Some a" and "run_step_ok a st" and "\<And>y. keeps runsSame (f y)"
  shows "lawfulRuns w (after (attempt (UpdateRunStatus i st sa ca pa em) f) w)"
proof -
  have "keeps (\<lambda>u v. runSt v = runSt u) (f y)" for y
    using assms(3) [of y] by (auto simp: keeps_def runsSame_def intro: views_cong(3))
  from run_updates.guarded_update_then [OF assms(1,2) this, of "(sa, ca, pa, em)"] show ?thesis
    by (simp add: updateRun_def)
qed

lemma ValidateRunTransition_cases:
  assumes "run_step_ok a b \<Longrightarrow> lawfulRuns v (after m v)"
  shows "lawfulRuns v (after (case ValidateRunTransition a b of Inl e \<Rightarrow> fail e | Inr _ \<Rightarrow> m) v)"
  using assms ValidateRunTransition_iff [of a b] by (auto split: sum.split)

lemma lawful_if:
  "(c \<Longrightarrow> lawfulRuns v (after m v)) \<Longrightarrow> (\<not> c \<Longrightarrow> lawfulRuns v (after n v)) \<Longrightarrow>
   lawfulRuns v (after (if c then m else n) v)"
  by simp

lemma lawful_fail: "lawfulRuns v (after (fail e) v)"
  by simp

lemma lawful_update_only:
  assumes "runSt w i = Some a" and "run_step_ok a st"
  shows "lawfulRuns w (after (UpdateRunStatus i st sa ca pa em) w)"
proof -
  obtain r w' where r: "run_state (UpdateRunStatus i st sa ca pa em) w = (r, w')" by fastforce
  then have "run_state (updateRun (sa, ca, pa, em) i st) w = (r, w')" by (simp add: updateRun_def)
  from run_updates.guarded_update [OF assms this] r show ?thesis by (simp add: after_def)
qed

lemmas lawful_intros = lawful_getRun lawful_if lawful_fail ValidateRunTransition_cases
  lawful_attempt lawful_bind lawful_update lawful_update_only

lemma lawful_TransitionRun: "lawfulRuns w (after (TransitionRun i st) w)"
  unfolding TransitionRun_def
  by (intro lawful_getRun ValidateRunTransition_cases lawful_bind lawful_update_only)
     (simp_all add: frame_intros)

lemma lawful_PauseRun: "lawfulRuns w (after (PauseRun svc p i) w)"
  unfolding PauseRun_def
  by (intro lawful_getRun lawful_if lawful_fail ValidateRunTransition_cases lawful_bind lawful_update)
     (simp_all add: frame_intros)

lemma lawful_ResumeRun: "lawfulRuns w (after (ResumeRun svc p i) w)"
  unfolding ResumeRun_def
  by (intro lawful_getRun lawful_if lawful_fail lawful_update)
     (auto simp: frame_intros run_step_ok_def)

lemma lawful_CancelRun: "lawfulRuns w (after (CancelRun svc p i) w)"
  unfolding CancelRun_def
  by (intro lawful_getRun lawful_if lawful_fail ValidateRunTransition_cases lawful_bind lawful_attempt lawful_update)
     (simp_all add: frame_intros)

lemma find_in: "find P xs = Some x \<Longrightarrow> x \<in> set xs \<and> P x"
  by (induction xs) (auto split: if_splits)

lemma GetActiveRunByStory_Inr:
  "run_state (GetActiveRunByStory sid) w = (Inr x, v) \<Longrightarrow>
   x = find (\<lambda>r. run_story r = sid \<and> run_active (run_status r)) (rev (w_runs w))"
  by (auto simp: GetActiveRunByStory_def run_db_op_faults run_simps split: list.splits if_splits)

lemma runSt_row:
  "distinct (map run_id (w_runs w)) \<Longrightarrow> r \<in> set (w_runs w) \<Longrightarrow> runSt w (run_id r) = Some (run_status r)"
  using tbl_find_Some_iff [of run_id "w_runs w" "run_id r" r] by (simp add: runSt_def)

lemma lawful_attempt_run:
  assumes "keeps runsSame m"
    and "\<And>x v. run_state m w = (Inr x, v) \<Longrightarrow> w_runs v = w_runs w \<Longrightarrow> lawfulRuns v (after (f x) v)"
  shows "lawfulRuns w (after (attempt m f) w)"
proof -
  obtain x v where x: "run_state m w = (x, v)" by fastforce
  then have v: "w_runs v = w_runs w" using keepsD [OF assms(1) x] by (simp add: runsSame_def)
  show ?thesis
  proof (cases x)
    case (Inr y)
    with x v assms(2) have "lawfulRuns v (after (f y) v)" by blast
    with x Inr v show ?thesis
      using views_cong(3) [OF v] by (simp add: lawful_def after_def run_simps)
  qed (use x v in \<open>auto simp: after_def run_simps intro: lawful_same views_cong(3)\<close>)
qed

text \<open>Replacing a run's metadata moves no run.\<close>

lemma lawful_UpdateRunMetadata:
  assumes "\<And>v. runSt v = runSt w \<Longrightarrow> lawfulRuns v (after (f ()) v)"
  shows "lawfulRuns w (after (attempt (wrap_err g (UpdateRunMetadata i m)) f) w)"
proof -
  have "\<exists>v. runSt v = runSt w \<and> (run_state (wrap_err g (UpdateRunMetadata i m)) w = (Inr (), v)
      \<or> (\<exists>e. run_state (wrap_err g (UpdateRunMetadata i m)) w = (Inl e, v)))"
    by (cases "w_faults w")
       (auto simp: UpdateRunMetadata_def run_db_op_faults run_simps runSt_update_meta runSt_def)
  then obtain v where v: "runSt v = runSt w"
    and "run_state (wrap_err g (UpdateRunMetadata i m)) w = (Inr (), v)
      \<or> (\<exists>e. run_state (wrap_err g (UpdateRunMetadata i m)) w = (Inl e, v))" by blast
  then show ?thesis
    using assms [OF v] by (elim disjE exE) (simp_all add: after_def run_attempt lawful_def)
qed

lemma lawful_StartStage:
  assumes "distinct (map run_id (w_runs w))"
  shows "lawfulRuns w (after (StartStage svc p sid) w)"
  unfolding StartStage_def
proof (intro lawful_attempt_run lawful_if lawful_fail)
  fix story v x u
  assume v: "w_runs v = w_runs w"
    and x: "run_state (GetActiveRunByStory sid) v = (Inr x, u)" and u: "w_runs u = w_runs v"
  show "lawfulRuns u (after (case x of
          None \<Rightarrow> fail (storyErr CategoryNotFound ''NO_ACTIVE_RUN''
             [T ''story '', T (story_key story), T '' has no active run to start''])
        | Some run \<Rightarrow>
            if run_status run \<noteq> RunStatusPaused then
               fail (stageNotStartable run [T '' is '', T (run_status_name (run_status run)),
                 T '', not paused awaiting a manual stage start''])
             else if metaString (run_metadata run) ''paused_reason'' \<noteq> pausedReasonManualStart then
               fail (stageNotStartable run [T '' is paused but not awaiting a manual stage start''])
             else resumeStage svc run) u)"
  proof (cases x)
    case (Some run)
    then have "run \<in> set (w_runs u)"
      using GetActiveRunByStory_Inr [OF x] u by (auto dest: find_in)
    then have "runSt u (run_id run) = Some (run_status run)"
      using runSt_row assms v u by simp
    then have "run_status run = RunStatusPaused \<Longrightarrow> lawfulRuns u (after (resumeStage svc run) u)"
      unfolding resumeStage_def
      by (intro lawful_UpdateRunMetadata lawful_update) (auto simp: run_step_ok_def frame_intros)
    then show ?thesis using Some by simp
  qed simp
qed (simp_all add: frame_intros)

lemma runsSame_retry_ops [frame_intros]:
  "keeps runsSame (GetRunStep j)" "keeps runsSame (ListRetryStepsByParent j)" "keeps runsSame uuid_new"
  "keeps runsSame (CreateRetryRunStep s)"
  by (simp_all add: keeps_def runsSame_def op_defs run_simps run_db_op_faults
        split: list.splits option.splits)

lemma runsSame_GetRun [frame_intros]: "keeps runsSame (RunService_GetRun i)"
  unfolding RunService_GetRun_def by (intro frame_intros)

lemma lawful_attempt_then:
  assumes "lawfulRuns w (after m w)" and "\<And>x. keeps runsSame (f x)"
  shows "lawfulRuns w (after (attempt m f) w)"
proof -
  obtain r v where r: "run_state m w = (r, v)" by fastforce
  have "w_runs (snd (run_state (f x) v)) = w_runs v" for x
    using assms(2) [of x] by (simp add: keeps_def runsSame_def)
  from views_cong(3) [OF this] show ?thesis
    using assms(1) r by (cases r) (simp_all add: after_def run_attempt lawful_def)
qed

lemma lawful_createRetry:
  assumes "runSt w (run_id run) = Some (run_status run)"
  shows "lawfulRuns w (after (createRetry svc run s) w)"
  unfolding createRetry_def
proof (rule lawful_bind, intro frame_intros, rule lawful_attempt, intro frame_intros,
    rule lawful_attempt_then, rule lawful_if, rule lawful_update)
qed (use assms in \<open>auto simp: run_step_ok_def intro!: frame_intros\<close>)

lemma lawful_RetryStep: "lawfulRuns w (after (RetryStep svc i j) w)"
  unfolding RetryStep_def
  by (intro lawful_getRun lawful_attempt lawful_if lawful_fail lawful_createRetry)
     (simp_all add: frame_intros)

text \<open>
  under every pattern of infrastructure failures, no operation of the run service moves a run
  along anything but the transition table: each run present before and after has kept its status
  or has moved to a status the table allows from it.
\<close>

theorem run_service_moves_lawfully:
  assumes "distinct (map run_id (w_runs w))"
    and "w' \<in> {after (TransitionRun i st) w, after (PauseRun svc p i) w, after (ResumeRun svc p i) w,
                after (CancelRun svc p i) w, after (StartStage svc p sid) w,
                after (RetryStep svc i j) w}"
    and "runSt w k = Some a" and "runSt w' k = Some b"
  shows "a = b \<or> run_step_ok a b"
proof -
  have "lawfulRuns w w'"
    using assms(2) lawful_StartStage [OF assms(1)]
    by (auto simp: lawful_TransitionRun lawful_PauseRun lawful_ResumeRun lawful_CancelRun
          lawful_RetryStep simp del: after_bind)
  with assms(3,4) show ?thesis by (auto simp: lawful_def)
qed

end
