(* ===== verification/RunCancel.thy ===== *)
theory RunCancel
  imports RunServiceSpec
begin

text \<open>
  Cancellation of a run by a user (\<open>RunService.CancelRun\<close>): what it leaves, and what an executor
  that is still working on the run does afterwards.
\<close>

section \<open>Closing the steps\<close>

definition step_open :: "step_status \<Rightarrow> bool" where
  "step_open st \<longleftrightarrow>
     st = StepStatusRunning \<or> st = StepStatusWaitingApproval \<or> st = StepStatusPending"

text \<open>The execution handles a cancellation stops, in order.\<close>

fun handlesToStop :: "run_svc \<Rightarrow> run_step list \<Rightarrow> string list" where
  "handlesToStop svc [] = []"
| "handlesToStop svc (s # ss) =
     (case rs_container s of
        Some (c # cs) \<Rightarrow>
          if (rs_status s = StepStatusRunning \<or> rs_status s = StepStatusWaitingApproval)
             \<and> (s_runtime svc \<or> s_containers svc)
          then (c # cs) # handlesToStop svc ss else handlesToStop svc ss
      | _ \<Rightarrow> handlesToStop svc ss)"

text \<open>A run of the closing loop: the tables apart from the steps are untouched.\<close>

definition closed_steps :: "run_svc \<Rightarrow> run_step list \<Rightarrow> world \<Rightarrow> world \<Rightarrow> bool" where
  "closed_steps svc ss w w' \<longleftrightarrow>
     w_faults w' = [] \<and> w_runs w' = w_runs w \<and> w_stories w' = w_stories w
     \<and> w_projects w' = w_projects w \<and> w_hitl w' = w_hitl w
     \<and> stepAct w' = stepAct w
     \<and> stepSt w' = (\<lambda>j. if \<exists>s \<in> set ss. rs_id s = j \<and> step_open (rs_status s)
                        then Some StepStatusCancelled else stepSt w j)
     \<and> w_stops w' = w_stops w @ handlesToStop svc ss"

lemma run_stop [run_simps]:
  "run_state (stopStepExecution svc c) w =
     ((), w\<lparr>w_stops := w_stops w @
        (case c of Some (x # xs) \<Rightarrow> if s_runtime svc \<or> s_containers svc then [x # xs] else [] | _ \<Rightarrow> [])\<rparr>)"
  by (simp add: stopStepExecution_def run_simps split: option.splits list.splits)

lemma stops_views [simp]:
  "stepSt (w\<lparr>w_stops := x\<rparr>) = stepSt w" "stepAct (w\<lparr>w_stops := x\<rparr>) = stepAct w"
  "runSt (w\<lparr>w_stops := x\<rparr>) = runSt w" "storySt (w\<lparr>w_stops := x\<rparr>) = storySt w"
  "storyStage (w\<lparr>w_stops := x\<rparr>) = storyStage w"
  by (auto intro!: views_cong)

lemma cancelSteps_effect:
  assumes "w_faults w = []" and "\<forall>s \<in> set ss. stepSt w (rs_id s) \<noteq> None"
  shows "\<exists>w'. run_state (cancelSteps svc now ss) w = (Inr (), w') \<and> closed_steps svc ss w w'"
  using assms
proof (induction ss arbitrary: w)
  case Nil
  then show ?case by (auto simp: closed_steps_def run_simps)
next
  case (Cons s ss)
  let ?st = "rs_status s"
  let ?live = "?st = StepStatusRunning \<or> ?st = StepStatusWaitingApproval"
  let ?u = "if ?live then after (stopStepExecution svc (rs_container s)) w else w"
  show ?case
  proof (cases "step_open ?st")
    case True
    obtain x where x: "tbl_find rs_id (rs_id s) (w_steps w) = Some x"
      using Cons.prems(2) by (auto simp: stepSt_def)
    define v where "v = ?u\<lparr>w_steps := tbl_update rs_id (rs_id s)
        (set_step_status StepStatusCancelled None (Some now) (Some userCancelMsg) ?u) (w_steps w)\<rparr>"
    have run: "run_state (cancelSteps svc now (s # ss)) w = run_state (cancelSteps svc now ss) v"
      using True x Cons.prems(1)
      by (auto simp: v_def step_open_def UpdateRunStepStatus_def run_simps after_def)
    have v: "stepSt v = (stepSt w)(rs_id s \<mapsto> StepStatusCancelled)" "stepAct v = stepAct w"
      "w_faults v = []" "w_stops v @ handlesToStop svc ss = w_stops w @ handlesToStop svc (s # ss)"
      "w_runs v = w_runs w" "w_stories v = w_stories w" "w_projects v = w_projects w"
      "w_hitl v = w_hitl w"
      using x Cons.prems(1)
      by (auto simp: v_def stepSt_update_status stepAct_update_status after_def run_simps stepSt_def
            split: option.splits list.splits)
    have "\<forall>s \<in> set ss. stepSt v (rs_id s) \<noteq> None" using Cons.prems(2) v(1) by auto
    from Cons.IH [OF v(3) this] obtain w' where
      "run_state (cancelSteps svc now ss) v = (Inr (), w')" "closed_steps svc ss v w'" by blast
    moreover from this(2) have "closed_steps svc (s # ss) w w'"
      using v True by (auto simp: closed_steps_def simp del: handlesToStop.simps intro!: ext)
    ultimately show ?thesis using run by metis
  next
    case False
    with Cons.IH [of w] Cons.prems obtain w' where
      "run_state (cancelSteps svc now ss) w = (Inr (), w')" "closed_steps svc ss w w'" by auto
    moreover have "handlesToStop svc (s # ss) = handlesToStop svc ss"
      using False by (auto simp: step_open_def split: option.splits list.splits)
    ultimately show ?thesis using False by (auto simp: closed_steps_def step_open_def)
  qed
qed


section \<open>Cancelling a run\<close>

lemmas run_transitionStory [run_simps] =
  run_unit [of "transitionStoryToBacklog svc run" for svc run]

lemma transitionStory_storyOnly: "keeps storyOnly (transitionStoryToBacklog svc run)"
  unfolding transitionStoryToBacklog_def by (intro frame_intros)

lemmas after_transitionStory [simp] = after_storyOnly [OF transitionStory_storyOnly]

lemma transitionStory_views:
  assumes "w_faults w = []"
  shows "storySt (after (transitionStoryToBacklog svc run) w) =
      (if run_story run = uuid_nil \<or> storySt w (run_story run) = None then storySt w
       else (storySt w)(run_story run \<mapsto> StoryStatusBacklog))"
proof -
  let ?k = "run_story run"
  consider "?k = uuid_nil" | "?k \<noteq> uuid_nil" "tbl_find story_id ?k (w_stories w) = None"
    | x where "?k \<noteq> uuid_nil" "tbl_find story_id ?k (w_stories w) = Some x" by fastforce
  then show ?thesis
  proof cases
    case 3
    let ?f = "set_story (x\<lparr>story_status := StoryStatusBacklog\<rparr>) w"
    let ?w = "w\<lparr>w_stories := tbl_update story_id ?k ?f (w_stories w)\<rparr>"
    have "story_id x = ?k" using 3 by blast
    moreover from 3 have "storySt w ?k = Some (story_status x)" by (simp add: storySt_def)
    moreover have "storySt ?w = (storySt w)(?k \<mapsto> StoryStatusBacklog)"
      using 3 by (auto simp: storySt_def tbl_find_update intro!: ext)
    ultimately show ?thesis using 3 assms
      by (auto simp: transitionStoryToBacklog_def GetStoryByID_def UpdateStory_def run_simps)
  qed (use assms in \<open>auto simp: transitionStoryToBacklog_def GetStoryByID_def run_simps storySt_def\<close>)
qed

definition stopsSame :: "world \<Rightarrow> world \<Rightarrow> bool" where
  "stopsSame w w' \<longleftrightarrow> w_stops w' = w_stops w"

interpretation stops_same: frame stopsSame
  by unfold_locales (simp_all add: stopsSame_def)

lemma stopsSame_ops [frame_intros]:
  "keeps stopsSame (GetStoryByID i)" "keeps stopsSame (UpdateStory x)"
  "keeps stopsSame (publishEvent p ty ent act pl)"
  by (simp_all add: keeps_def stopsSame_def op_defs run_simps run_db_op_faults split: list.splits option.splits)

lemma stopsSame_helpers [frame_intros]:
  "keeps stopsSame (publishRunEvent svc p i act pl)" "keeps stopsSame (transitionStoryToBacklog svc run)"
  unfolding publishRunEvent_def transitionStoryToBacklog_def by (intro frame_intros)+

lemma after_stops [simp]:
  "w_stops (after (publishRunEvent svc p i act pl) w) = w_stops w"
  "w_stops (after (transitionStoryToBacklog svc run) w) = w_stops w"
  using keeps_after [OF stopsSame_helpers(1)] keeps_after [OF stopsSame_helpers(2)]
  by (simp_all add: stopsSame_def)

lemma CancelRun_effect:
  assumes "w_faults w = []" and "tbl_find run_id i (w_runs w) = Some r"
    and "run_step_ok (run_status r) RunStatusCancelled"
    and "distinct (map rs_id (w_steps w))"
  shows "\<exists>u w'. run_state (CancelRun svc (run_project r) i) w = (Inr u, w') \<and> run_status u = RunStatusCancelled
    \<and> runSt w' = (runSt w)(i \<mapsto> RunStatusCancelled)
    \<and> stepSt w' = (\<lambda>j. if \<exists>s \<in> set (w_steps w). rs_run s = i \<and> rs_id s = j \<and> step_open (rs_status s)
                        then Some StepStatusCancelled else stepSt w j)
    \<and> stepAct w' = stepAct w \<and> w_faults w' = [] \<and> w_stops w' = w_stops w @ handlesToStop svc (steps_of i w)
    \<and> storySt w' = (if run_story r = uuid_nil \<or> storySt w (run_story r) = None then storySt w
                    else (storySt w)(run_story r \<mapsto> StoryStatusBacklog))"
proof -
  let ?t = "w\<lparr>w_clock := w_clock w + int (w_tick w)\<rparr>"
  have "\<forall>s \<in> set (steps_of i w). stepSt ?t (rs_id s) \<noteq> None"
    using ready_rows [OF assms(4)] by (simp add: steps_of_in)
  with cancelSteps_effect [of ?t "steps_of i w" svc "w_clock w"] assms(1) obtain v where
    v: "run_state (cancelSteps svc (w_clock w) (steps_of i w)) ?t = (Inr (), v)"
      "closed_steps svc (steps_of i w) ?t v" by auto
  let ?f = "set_run_status RunStatusCancelled None (Some (w_clock w)) None (Some userCancelMsg) v"
  let ?v1 = "v\<lparr>w_runs := tbl_update run_id i ?f (w_runs v)\<rparr>"
  let ?v2 = "after (publishRunEvent svc (run_project r) i ''cancelled''
    (runPayload i (?f r) ''cancelled'' @ [(''cancelled_at'', JTime (w_clock w))])) ?v1"
  let ?v3 = "after (transitionStoryToBacklog svc (?f r)) ?v2"
  have id: "run_id r = i" using assms(2) by blast
  have v': "w_runs v = w_runs w" "w_faults v = []" "w_stories v = w_stories w" "stepAct v = stepAct w"
    "stepSt v = (\<lambda>j. if \<exists>s \<in> set (steps_of i w). rs_id s = j \<and> step_open (rs_status s)
       then Some StepStatusCancelled else stepSt w j)"
    "w_stops v = w_stops w @ handlesToStop svc (steps_of i w)"
    using v(2) by (simp_all add: closed_steps_def cong: if_cong)
  have "runSt w i = Some (run_status r)" using assms(2) by (simp add: runSt_def)
  then have r3: "runSt ?v3 = (runSt w)(i \<mapsto> RunStatusCancelled)" by (simp add: runSt_update_status v'(1))
  have s3: "storySt ?v3 = (if run_story r = uuid_nil \<or> storySt w (run_story r) = None then storySt w
                    else (storySt w)(run_story r \<mapsto> StoryStatusBacklog))"
    using v'(2) views_cong(4) [OF v'(3)] by (simp add: transitionStory_views)
  have "run_state (CancelRun svc (run_project r) i) w = (Inr (?f r), ?v3)"
    using assms(1-3) v(1) v'(1,2) id
    by (simp add: CancelRun_def GetRun_def ListRunStepsByRun_def UpdateRunStatus_def run_simps
          ValidateRunTransition_iff [THEN iffD2])
  moreover have "w_stops ?v3 = w_stops w @ handlesToStop svc (steps_of i w)" "w_faults ?v3 = []"
    "stepAct ?v3 = stepAct w" "stepSt ?v3 = stepSt v"
    using v'(2,4,6) by simp_all
  ultimately show ?thesis using v'(5) r3 s3
    by (intro exI [of _ "?f r"] exI [of _ ?v3]) (auto simp: steps_of_in intro!: ext)
qed

text \<open>
  C14: cancelling a pending, running or paused run succeeds and leaves nothing open: the run is
  cancelled, each of its steps that was pending, running or waiting for approval is cancelled and
  every other step is as it was, its story is back in the backlog, and exactly the recorded
  execution handles of its live steps have been stopped.
\<close>

theorem cancel_run_closes:
  assumes "w_faults w = []" and "tbl_find run_id i (w_runs w) = Some r" and "run_active (run_status r)"
    and "distinct (map rs_id (w_steps w))"
  shows "\<exists>u w'. run_state (CancelRun svc (run_project r) i) w = (Inr u, w')
    \<and> runSt w' = (runSt w)(i \<mapsto> RunStatusCancelled)
    \<and> (\<forall>s \<in> set (w_steps w). stepSt w' (rs_id s) =
         Some (if rs_run s = i \<and> step_open (rs_status s) then StepStatusCancelled else rs_status s))
    \<and> w_stops w' = w_stops w @ handlesToStop svc (steps_of i w)
    \<and> (run_story r \<noteq> uuid_nil \<and> storySt w (run_story r) \<noteq> None \<longrightarrow>
         storySt w' (run_story r) = Some StoryStatusBacklog)"
proof -
  have "run_step_ok (run_status r) RunStatusCancelled"
    using assms(3) by (auto simp: run_active_def run_step_ok_def)
  from CancelRun_effect [OF assms(1,2) this assms(4), of svc] obtain u w' where
    c: "run_state (CancelRun svc (run_project r) i) w = (Inr u, w')"
      "runSt w' = (runSt w)(i \<mapsto> RunStatusCancelled)"
      "stepSt w' = (\<lambda>j. if \<exists>s \<in> set (w_steps w). rs_run s = i \<and> rs_id s = j \<and> step_open (rs_status s)
                        then Some StepStatusCancelled else stepSt w j)"
      "w_stops w' = w_stops w @ handlesToStop svc (steps_of i w)"
      "storySt w' = (if run_story r = uuid_nil \<or> storySt w (run_story r) = None then storySt w
                    else (storySt w)(run_story r \<mapsto> StoryStatusBacklog))" by blast
  have "stepSt w' (rs_id s) =
      Some (if rs_run s = i \<and> step_open (rs_status s) then StepStatusCancelled else rs_status s)"
    if "s \<in> set (w_steps w)" for s
  proof -
    have "(\<exists>x \<in> set (w_steps w). rs_run x = i \<and> rs_id x = rs_id s \<and> step_open (rs_status x))
        \<longleftrightarrow> rs_run s = i \<and> step_open (rs_status s)"
      using assms(4) that by (auto simp: distinct_map inj_on_def)
    with c(3) ready_rows [OF assms(4) that] show ?thesis by simp
  qed
  with c show ?thesis by auto
qed

section \<open>An executor does not notice a cancellation\<close>

text \<open>
  C34: the executor looks at the run's status between the steps only to detect a pause. After a
  user has cancelled the run, a loop that still holds uncompleted steps executes them all and
  completes the run: the run a user has cancelled ends up completed, its story done.
\<close>

theorem executor_overwrites_cancellation:
  assumes "run_state (CancelRun svc (run_project r) i) w = (Inr u, v)"
    and "w_faults w = []" and "tbl_find run_id i (w_runs w) = Some r" and "run_active (run_status r)"
    and "distinct (map rs_id (w_steps w))" and "run_id run = i" and "run_story run = run_story r"
    and "\<And>x. \<not> x_ctx_done env x" and "\<And>j x. x_other env j x = x"
    and "\<And>s. s \<in> set ss \<Longrightarrow> s \<in> set (w_steps w) \<and> rs_status s = StepStatusPending
           \<and> succeeds env (rs_action s) \<and> transitionFor policy (rs_stage_id s) = TransitionAuto"
    and "autoRef policy cur" and "run_story r \<noteq> uuid_nil" and "storySt w (run_story r) \<noteq> None"
  shows "runSt v i = Some RunStatusCancelled
    \<and> (\<exists>cur' prev' m x w'. run_state (runLoop env run policy ss cur prev meta) v = (Inr (cur', prev', m), x)
         \<and> run_state (finishRun env run policy cur' prev') x = (Inr (), w')
         \<and> (\<forall>s \<in> set ss. stepSt w' (rs_id s) = Some StepStatusCompleted)
         \<and> runSt w' i = Some RunStatusCompleted \<and> storySt w' (run_story r) = Some StoryStatusDone)"
proof -
  have "run_step_ok (run_status r) RunStatusCancelled"
    using assms(4) by (auto simp: run_active_def run_step_ok_def)
  from CancelRun_effect [OF assms(2,3) this assms(5), of svc] assms(1) have
    v: "runSt v = (runSt w)(i \<mapsto> RunStatusCancelled)" "stepAct v = stepAct w" "w_faults v = []"
      "storySt v = (if run_story r = uuid_nil \<or> storySt w (run_story r) = None then storySt w
                    else (storySt w)(run_story r \<mapsto> StoryStatusBacklog))" by auto
  have ok: "runOK (run_id run) v" using v(1) assms(6) by (simp add: runOK_def)
  have ss: "\<forall>s \<in> set ss. ready env policy v s"
    using ready_rows [OF assms(5)] assms(10) v(2) by (simp add: ready_def)
  have others: "\<And>j x. adv (run_id run) x (x_other env j x)" using assms(9) by simp
  from runLoop_all_complete [where ?run = run and ?w = v and ?cur = cur and ?prev = prev and ?ss = ss
      and ?meta = meta, OF assms(8) others v(3) ok assms(11) ss]
  obtain cur' prev' m x where
    x: "run_state (runLoop env run policy ss cur prev meta) v = (Inr (cur', prev', m), x)"
      "adv (run_id run) v x" "\<forall>s \<in> set ss. stepSt x (rs_id s) = Some StepStatusCompleted"
      "autoRef policy cur'" by blast
  have fx: "w_faults x = []" "runSt x (run_id run) \<noteq> None" "dom (storySt x) = dom (storySt v)"
    using x(2) v(3) ok by (auto simp: adv_def runOK_def)
  have "run_story r \<in> dom (storySt x)" using fx(3) v(4) assms(12,13) by auto
  with finishRun_auto [OF fx(1,2) x(4), of env prev'] x(1,3) v(1) assms(6,7,12) show ?thesis by auto
qed

end
