(* ===== verification/RunLaunch.thy ===== *)
theory RunLaunch
  imports RunServiceSpec
begin

text \<open>
  Launching a run (\<open>RunService.LaunchRun\<close>): when it succeeds, what it creates, and that it never
  gives a story a second active run.
\<close>

section \<open>Reads\<close>

definition readOnly :: "world \<Rightarrow> world \<Rightarrow> bool" where
  "readOnly w w' \<longleftrightarrow> (\<exists>fs. w' = w\<lparr>w_faults := fs\<rparr> \<and> (w_faults w = [] \<longrightarrow> fs = []))"

interpretation read_only: frame readOnly
proof
  show "readOnly s s" for s by (auto simp: readOnly_def intro!: exI [of _ "w_faults s"])
qed (auto simp: readOnly_def)

lemma readOnly_db_op:
  assumes "\<And>w. snd (run_state m w) = w"
  shows "keeps readOnly (db_op what m)"
proof (rule keepsI)
  fix s :: world
  show "readOnly s (snd (run_state (db_op what m) s))"
  proof (cases "w_faults s")
    case Nil
    then show ?thesis using assms [of s] by (simp add: run_db_op read_only.frame_refl)
  next
    case (Cons b bs)
    then have "snd (run_state (db_op what m) s) = s\<lparr>w_faults := bs\<rparr>"
      using assms by (simp add: run_db_op_faults)
    with Cons show ?thesis by (simp add: readOnly_def) blast
  qed
qed

lemma readOnly_ops [frame_intros]:
  "keeps readOnly (GetStoryByID i)" "keeps readOnly (GetActiveRunByStory i)"
  "keeps readOnly (GetPipelineConfig i)" "keeps readOnly (GetAgent i)" "keeps readOnly (GetStack i)"
  unfolding op_defs
  by (rule readOnly_db_op, simp add: run_simps split: option.split)+

lemma readOnly_metadata [frame_intros]: "keeps readOnly (launchMetadata svc i ss meta)"
proof (induction ss arbitrary: i meta)
  case (Cons s ss)
  have "keeps readOnly (stepMetadata svc i s meta)"
    unfolding stepMetadata_def effectiveImage_def by (intro frame_intros)
  with Cons show ?case unfolding launchMetadata.simps by (intro frame_intros)
qed (simp add: read_only.ok)

lemma readOnly_attempt:
  assumes "run_state (attempt m f) w = (res, w')" and "keeps readOnly m"
  obtains e where "res = Inl e" "readOnly w w'"
  | x v where "run_state m w = (Inr x, v)" "readOnly w v" "run_state (f x) v = (res, w')"
proof -
  obtain q v where q: "run_state m w = (q, v)" by fastforce
  moreover from this have "readOnly w v" using keepsD [OF assms(2)] by blast
  ultimately show ?thesis using assms(1) that by (cases q) (auto simp: run_attempt)
qed

section \<open>The steps of a launch\<close>

type_synonym step_row = "uuid \<times> string \<times> int \<times> string \<times> step_status \<times> string \<times> string"

definition stepRow :: "run_step \<Rightarrow> step_row" where
  "stepRow s = (rs_run s, rs_name s, rs_order s, rs_action s, rs_status s, rs_stage_id s, rs_stage_name s)"

text \<open>The rows a configuration asks for: its steps in order, each stamped with its stage.\<close>

definition launchRows :: "uuid \<Rightarrow> pipeline_config_yaml \<Rightarrow> step_row list" where
  "launchRows r c =
     map (\<lambda>(k, x). (r, ps_name (sws_step x), int k, ps_action_type (sws_step x), StepStatusPending,
            sws_group_id x, sws_group_name x)) (enumerate 0 (FlatStepsWithStage c))"

lemma CreateRunStep_Inr:
  assumes "run_state (CreateRunStep r name ord act st sid sname) w = (Inr c, w')"
  shows "rs_id c = w_next w \<and> stepRow c = (r, name, ord, act, st, sid, sname)
    \<and> w_steps w' = w_steps w @ [c] \<and> w_runs w' = w_runs w \<and> w_jobs w' = w_jobs w
    \<and> w_next w' = Suc (w_next w) \<and> w_stories w' = w_stories w \<and> w_projects w' = w_projects w"
  using assms
  by (auto simp: CreateRunStep_def insert_step_def run_db_op_faults run_simps stepRow_def blank_step_def
        split: list.splits if_splits)

lemma createLaunchSteps_Inr:
  assumes "run_state (createLaunchSteps r sws k ss) w = (Inr cs, w')"
  shows "map rs_id cs = [w_next w ..< w_next w + length ss]
    \<and> map stepRow cs = map (\<lambda>(n, s). (r, ps_name s, int n, ps_action_type s, StepStatusPending,
          sws_group_id (sws ! n), sws_group_name (sws ! n))) (enumerate k ss)
    \<and> w_steps w' = w_steps w @ cs \<and> w_runs w' = w_runs w \<and> w_jobs w' = w_jobs w
    \<and> w_next w' = w_next w + length ss \<and> w_stories w' = w_stories w \<and> w_projects w' = w_projects w"
  using assms
proof (induction ss arbitrary: k w cs)
  case Nil
  then show ?case by (simp add: run_simps)
next
  case (Cons s ss)
  from Cons.prems obtain c v rest where
    c: "run_state (CreateRunStep r (ps_name s) (int k) (ps_action_type s) StepStatusPending
          (sws_group_id (sws ! k)) (sws_group_name (sws ! k))) w = (Inr c, v)"
      "run_state (createLaunchSteps r sws (Suc k) ss) v = (Inr rest, w')" "cs = c # rest"
    by (auto simp: run_simps split: prod.splits sum.splits)
  from CreateRunStep_Inr [OF c(1)] Cons.IH [OF c(2)] c(3) show ?case
    by (auto simp: upt_rec)
qed

lemma enumerate_map_nth:
  "map (\<lambda>(n, s). g n s (sws ! n)) (enumerate 0 (map h sws)) = map (\<lambda>(n, x). g n (h x) x) (enumerate 0 sws)"
  by (rule nth_equalityI) (auto simp: nth_enumerate_eq)

lemma launchRows_eq:
  "launchRows r c = map (\<lambda>(n, s). (r, ps_name s, int n, ps_action_type s, StepStatusPending,
      sws_group_id (FlatStepsWithStage c ! n), sws_group_name (FlatStepsWithStage c ! n)))
      (enumerate 0 (FlatSteps c))"
  unfolding launchRows_def FlatStepsWithStage_steps [symmetric]
  by (rule enumerate_map_nth [symmetric])

lemma createLaunchSteps_runs [frame_intros]: "keeps runsSame (createLaunchSteps r sws k ss)"
proof (induction ss arbitrary: k)
  case (Cons s ss)
  have "keeps runsSame (CreateRunStep r' n o' a st si sn)" for r' n o' a st si sn
    by (simp add: keeps_def runsSame_def CreateRunStep_def insert_step_def run_simps run_db_op_faults
          split: list.splits)
  with Cons show ?case unfolding createLaunchSteps.simps by (intro frame_intros)
qed (simp add: runs_same.ok)


section \<open>What a launch does\<close>

lemma readOnly_fields:
  assumes "readOnly w v"
  shows "w_runs v = w_runs w" "w_steps v = w_steps w" "w_jobs v = w_jobs w" "w_stories v = w_stories w"
    "w_projects v = w_projects w" "w_configs v = w_configs w" "w_agents v = w_agents w"
    "w_stacks v = w_stacks w" "w_next v = w_next w" "w_hitl v = w_hitl w" "w_faults w = [] \<Longrightarrow> w_faults v = []"
  using assms by (auto simp: readOnly_def)

lemma find_row_Inr:
  "run_state (db_op what (find_row tbl key name i)) w = (Inr x, v) \<Longrightarrow>
   (\<And>fs. tbl (w\<lparr>w_faults := fs\<rparr>) = tbl w) \<Longrightarrow> tbl_find key i (tbl w) = Some x"
  by (auto simp: run_db_op_faults run_simps split: list.splits option.splits if_splits)

lemma CreateRun_cases:
  assumes "run_state (CreateRun pid sid st snap meta) w = (res, w')"
  obtains e where "res = Inl e" "w_runs w' = w_runs w"
  | run where "res = Inr run" "w_runs w' = w_runs w @ [run]" "run_id run = w_next w"
    "run_project run = pid" "run_story run = sid" "run_status run = st" "run_snapshot run = snap"
    "run_metadata run = meta"
    "w_next w' = Suc (w_next w)" "w_steps w' = w_steps w" "w_jobs w' = w_jobs w"
    "w_stories w' = w_stories w" "w_projects w' = w_projects w"
proof (cases res)
  case (Inl e)
  with assms have "w_runs w' = w_runs w"
    by (auto simp: CreateRun_def run_db_op_faults run_simps Let_def split: list.splits if_splits)
  with Inl that(1) show ?thesis by blast
next
  case (Inr run)
  with assms have "w_runs w' = w_runs w @ [run]" "run_id run = w_next w" "run_project run = pid"
    "run_story run = sid" "run_status run = st" "run_snapshot run = snap" "run_metadata run = meta"
    "w_next w' = Suc (w_next w)" "w_steps w' = w_steps w" "w_jobs w' = w_jobs w"
    "w_stories w' = w_stories w" "w_projects w' = w_projects w"
    by (auto simp: CreateRun_def run_db_op_faults run_simps Let_def split: list.splits if_splits)
  with Inr that(2) show ?thesis by blast
qed

lemma enqueueLaunch_runs [frame_intros]: "keeps runsSame (enqueueLaunch svc i)"
  unfolding enqueueLaunch_def by (intro frame_intros)

lemma enqueueLaunch_Inr:
  "run_state (enqueueLaunch svc i) w = (Inr x, w') \<Longrightarrow>
   w_jobs w' = w_jobs w @ [JobExecuteRun i] \<and> w_steps w' = w_steps w \<and> w_runs w' = w_runs w
   \<and> w_stories w' = w_stories w \<and> w_projects w' = w_projects w \<and> w_next w' = w_next w"
  by (auto simp: enqueueLaunch_def EnqueueExecuteRun_def enqueue_def run_fault_op_faults run_simps
        split: list.splits if_splits sum.splits prod.splits)

text \<open>The run and the rows a successful launch has added.\<close>

definition launched :: "uuid \<Rightarrow> uuid \<Rightarrow> pipeline_config_yaml \<Rightarrow> run \<Rightarrow> run_step list \<Rightarrow> world \<Rightarrow> world \<Rightarrow> bool"
  where
  "launched pid sid c run steps w w' \<longleftrightarrow>
     w_runs w' = w_runs w @ [run] \<and> run_id run = w_next w \<and> run_project run = pid
     \<and> run_story run = sid \<and> run_status run = RunStatusPending \<and> run_snapshot run = SnapConfig c
     \<and> w_steps w' = w_steps w @ steps \<and> map stepRow steps = launchRows (run_id run) c
     \<and> map rs_id steps = [Suc (w_next w) ..< Suc (w_next w) + length steps]
     \<and> w_jobs w' = w_jobs w @ [JobExecuteRun (run_id run)] \<and> w_stories w' = w_stories w
     \<and> w_projects w' = w_projects w"

lemma launchConfigured_cases:
  assumes "run_state (launchConfigured svc pid sid uid yaml) w = (res, w')"
  obtains e where "res = Inl e" "w_runs w' = w_runs w"
  | e run where "res = Inl e" "w_runs w' = w_runs w @ [run]" "run_story run = sid"
    "run_status run = RunStatusPending"
  | c run steps where "res = Inr (run, steps)" "ParsePipelineConfigYAML (s_unmarshal svc) yaml = Inr c"
    "FlatSteps c \<noteq> []" "launched pid sid c run steps w w'"
proof (cases "ParsePipelineConfigYAML (s_unmarshal svc) yaml")
  case (Inl e)
  then show ?thesis using assms that(1) by (auto simp: launchConfigured_def run_simps)
next
  case (Inr c)
  show ?thesis
  proof (cases "FlatSteps c = []")
    case True
    then show ?thesis using assms that(1) Inr by (auto simp: launchConfigured_def run_simps)
  next
    case False
    with assms Inr have a: "run_state (attempt (launchMetadata svc 0 (FlatSteps c) [''launched_by_user_id'' \<mapsto> JUuid uid])
        (\<lambda>meta. attempt (CreateRun pid sid RunStatusPending (SnapConfig c) meta) (\<lambda>run.
            attempt (createLaunchSteps (run_id run) (FlatStepsWithStage c) 0 (FlatSteps c)) (\<lambda>steps.
            attempt (enqueueLaunch svc (run_id run)) (\<lambda>_. ok (run, steps)))))) w = (res, w')"
      by (simp add: launchConfigured_def)
    from a readOnly_metadata show ?thesis
    proof (cases rule: readOnly_attempt)
      case (1 e)
      then show ?thesis using that(1) [OF 1(1)] readOnly_fields(1) [OF 1(2)] by simp
    next
      case (2 meta v)
      let ?rest = "\<lambda>run. attempt (createLaunchSteps (run_id run) (FlatStepsWithStage c) 0 (FlatSteps c)) (\<lambda>steps.
            attempt (enqueueLaunch svc (run_id run)) (\<lambda>_. ok (run, steps)))"
      obtain q u where q: "run_state (CreateRun pid sid RunStatusPending (SnapConfig c) meta) v = (q, u)"
        by fastforce
      note fv = readOnly_fields [OF 2(2)]
      from q show ?thesis
      proof (cases rule: CreateRun_cases)
        case (1 e)
        then show ?thesis using 2(3) q that(1) fv(1) by (auto simp: run_attempt)
      next
        case r: (2 run)
        with 2(3) q have rest: "run_state (?rest run) u = (res, w')" by (simp add: run_attempt)
        have "keeps runsSame (?rest run)" by (intro frame_intros)
        from keepsD [OF this rest] have runs: "w_runs w' = w_runs w @ [run]"
          using r fv(1) by (simp add: runsSame_def)
        show ?thesis
        proof (cases res)
          case (Inl e)
          then show ?thesis using that(2) runs r by blast
        next
          case res: (Inr x)
          with rest obtain steps v1 y where
            s: "run_state (createLaunchSteps (run_id run) (FlatStepsWithStage c) 0 (FlatSteps c)) u = (Inr steps, v1)"
              "run_state (enqueueLaunch svc (run_id run)) v1 = (Inr y, w')" "x = (run, steps)"
            by (auto simp: run_attempt run_ok split: prod.splits sum.splits)
          have "length steps = length (FlatSteps c)"
            using createLaunchSteps_Inr [OF s(1)] by (metis length_map length_upt add_diff_cancel_left')
          then have "launched pid sid c run steps w w'"
            using createLaunchSteps_Inr [OF s(1)] enqueueLaunch_Inr [OF s(2)] r fv
            by (simp add: launched_def launchRows_eq)
          with that(3) res s(3) Inr False show ?thesis by blast
        qed
      qed
    qed
  qed
qed


lemma launch_reads:
  "run_state (GetStoryByID i) w = (Inr st, v) \<Longrightarrow> tbl_find story_id i (w_stories w) = Some st"
  "run_state (GetPipelineConfig j) w = (Inr cfg, v) \<Longrightarrow> tbl_find pc_project j (w_configs w) = Some cfg"
  unfolding GetStoryByID_def GetPipelineConfig_def by (auto dest: find_row_Inr)

definition activeRun :: "uuid \<Rightarrow> run \<Rightarrow> bool" where
  "activeRun k r \<longleftrightarrow> run_story r = k \<and> run_active (run_status r)"

text \<open>What a launch found before it created the run.\<close>

definition launchAllowed :: "run_svc \<Rightarrow> uuid \<Rightarrow> uuid \<Rightarrow> pipeline_config_yaml \<Rightarrow> world \<Rightarrow> bool" where
  "launchAllowed svc pid sid c w \<longleftrightarrow>
     (\<exists>st cfg. tbl_find story_id sid (w_stories w) = Some st \<and> story_project st = pid
        \<and> story_status st \<noteq> StoryStatusDone \<and> (\<forall>r \<in> set (w_runs w). \<not> activeRun sid r)
        \<and> tbl_find pc_project pid (w_configs w) = Some cfg
        \<and> ParsePipelineConfigYAML (s_unmarshal svc) (pc_yaml cfg) = Inr c \<and> FlatSteps c \<noteq> [])"

lemma launched_readOnly: "readOnly w v \<Longrightarrow> launched pid sid c run steps v w' = launched pid sid c run steps w w'"
  by (auto simp: launched_def readOnly_fields)

lemma LaunchRun_cases:
  assumes "run_state (LaunchRun svc pid sid uid) w = (res, w')"
  obtains e where "res = Inl e" "w_runs w' = w_runs w"
  | e run where "res = Inl e" "w_runs w' = w_runs w @ [run]" "run_story run = sid"
    "run_status run = RunStatusPending" "\<forall>r \<in> set (w_runs w). \<not> activeRun sid r"
  | c run steps where "res = Inr (run, steps)" "launchAllowed svc pid sid c w"
    "launched pid sid c run steps w w'"
  using assms [unfolded LaunchRun_def] readOnly_ops(1)
proof (cases rule: readOnly_attempt)
  case 1
  then show ?thesis using that(1) readOnly_fields(1) by blast
next
  case (2 st v)
  note st = launch_reads(1) [OF 2(1)]
  show ?thesis
  proof (cases "story_project st \<noteq> pid \<or> story_status st = StoryStatusDone")
    case True
    then show ?thesis using 2(3) that(1) readOnly_fields(1) [OF 2(2)]
      by (auto simp: run_simps split: if_splits)
  next
    case ok: False
    with 2(3) have a: "run_state (attempt (GetActiveRunByStory sid) (\<lambda>active.
         case active of
           Some r \<Rightarrow>
             fail (storyErr CategoryConflict ''STORY_ALREADY_RUNNING''
               [T ''story '', T (story_key st), T '' already has an active run ('', U (run_id r), T '')''])
         | None \<Rightarrow> do {
             c \<leftarrow> GetPipelineConfig pid;
             case c of
               Inl e \<Rightarrow>
                 if isNotFound e then
                   fail (storyErr CategoryNotFound ''PIPELINE_CONFIG_NOT_FOUND''
                     [T ''no pipeline config found for project '', U pid])
                 else fail e
             | Inr cfg \<Rightarrow> launchConfigured svc pid sid uid (pc_yaml cfg) })) v = (res, w')"
      by simp
    from a readOnly_ops(2) show ?thesis
    proof (cases rule: readOnly_attempt)
      case 1
      then show ?thesis using that(1) readOnly_fields(1) 2(2) by metis
    next
      case active: (2 x u)
      have wu: "readOnly w u" using 2(2) active(2) by (rule read_only.frame_trans)
      have x: "x = find (\<lambda>r. run_story r = sid \<and> run_active (run_status r)) (rev (w_runs w))"
        using GetActiveRunByStory_Inr [OF active(1)] readOnly_fields(1) [OF 2(2)] by simp
      show ?thesis
      proof (cases x)
        case (Some r)
        then show ?thesis using active(3) that(1) readOnly_fields(1) [OF wu] by (auto simp: run_simps)
      next
        case None
        then have none: "\<forall>r \<in> set (w_runs w). \<not> activeRun sid r"
          using x by (auto simp: find_None_iff activeRun_def)
        obtain q t where q1: "run_state (GetPipelineConfig pid) u = (q, t)" by fastforce
        moreover have "readOnly u t" by (rule keepsD [OF readOnly_ops(3) q1])
        ultimately have q: "run_state (GetPipelineConfig pid) u = (q, t)" "readOnly u t"
            "run_state (case q of
               Inl e \<Rightarrow>
                 if isNotFound e then
                   fail (storyErr CategoryNotFound ''PIPELINE_CONFIG_NOT_FOUND''
                     [T ''no pipeline config found for project '', U pid])
                 else fail e
             | Inr cfg \<Rightarrow> launchConfigured svc pid sid uid (pc_yaml cfg)) t = (res, w')"
          using None active(3) by simp_all
        have wt: "readOnly w t" using wu q(2) by (rule read_only.frame_trans)
        show ?thesis
        proof (cases q)
          case (Inl e)
          then show ?thesis using q(3) that(1) readOnly_fields(1) [OF wt]
            by (auto simp: run_simps split: if_splits)
        next
          case (Inr cfg)
          with q(3) have l: "run_state (launchConfigured svc pid sid uid (pc_yaml cfg)) t = (res, w')" by simp
          from l show ?thesis
          proof (cases rule: launchConfigured_cases)
            case 1
            then show ?thesis using that(1) readOnly_fields(1) [OF wt] by simp
          next
            case 2
            then show ?thesis using that(2) readOnly_fields(1) [OF wt] none by simp
          next
            case (3 c run steps)
            have "tbl_find pc_project pid (w_configs w) = Some cfg"
              using launch_reads(2) [of pid u cfg t] q(1) Inr readOnly_fields(6) [OF wu] by simp
            with 3 st ok none have "launchAllowed svc pid sid c w" by (auto simp: launchAllowed_def)
            with 3 that(3) launched_readOnly [OF wt] show ?thesis by blast
          qed
        qed
      qed
    qed
  qed
qed


text \<open>
  C3: under every pattern of infrastructure failures, when \<open>LaunchRun\<close> returns a run the launch was
  allowed (the story belongs to the project, is not done and had no active run, and the project's
  configuration parses to at least one step), and what it has added is exactly: one pending run of
  the story with the configuration as its snapshot, one pending step per configured step, in
  order and stamped with its stage, and one job to execute the run.
\<close>

theorem launch_creates_run:
  assumes "run_state (LaunchRun svc pid sid uid) w = (Inr (run, steps), w')"
  shows "\<exists>c. launchAllowed svc pid sid c w \<and> launched pid sid c run steps w w'"
  using assms by (cases rule: LaunchRun_cases) auto

text \<open>At most one pending, running or paused run per story.\<close>

definition singleActive :: "world \<Rightarrow> bool" where
  "singleActive w \<longleftrightarrow> (\<forall>k. length (filter (activeRun k) (w_runs w)) \<le> 1)"

text \<open>
  under every pattern of infrastructure failures and whatever it returns, \<open>LaunchRun\<close> keeps
  the invariant that a story has at most one pending, running or paused run.
\<close>

theorem launch_keeps_single_active:
  assumes "singleActive w" and "run_state (LaunchRun svc pid sid uid) w = (res, w')"
  shows "singleActive w'"
proof -
  have "w_runs w' = w_runs w \<or>
      (\<exists>run. w_runs w' = w_runs w @ [run] \<and> run_story run = sid \<and> (\<forall>r \<in> set (w_runs w). \<not> activeRun sid r))"
    using assms(2) by (cases rule: LaunchRun_cases) (auto simp: launched_def launchAllowed_def)
  then show ?thesis
  proof
    assume "\<exists>run. w_runs w' = w_runs w @ [run] \<and> run_story run = sid \<and> (\<forall>r \<in> set (w_runs w). \<not> activeRun sid r)"
    then obtain run where run: "w_runs w' = w_runs w @ [run]" "run_story run = sid"
      "filter (activeRun sid) (w_runs w) = []" by (auto simp: filter_empty_conv)
    have "length (filter (activeRun k) (w_runs w')) \<le> 1" for k
      using assms(1) run by (cases "k = sid") (auto simp: singleActive_def activeRun_def)
    then show ?thesis by (simp add: singleActive_def)
  qed (use assms(1) in \<open>simp add: singleActive_def\<close>)
qed


section \<open>When a launch succeeds\<close>

text \<open>The agent of a configured step can be resolved.\<close>

definition stepResolves :: "run_svc \<Rightarrow> world \<Rightarrow> pipeline_step \<Rightarrow> bool" where
  "stepResolves svc w s \<longleftrightarrow>
     (if ps_agent_id s = [] then \<not> needsAgent (ps_action_type s)
      else s_agents svc \<and> (\<exists>u a. s_parse_uuid svc (ps_agent_id s) = Some u
        \<and> tbl_find agent_id u (w_agents w) = Some a
        \<and> (\<forall>st. s_stacks svc \<and> agent_stack_ref a = Some st \<longrightarrow> tbl_find stack_id st (w_stacks w) \<noteq> None)))"

lemma stepMetadata_resolves:
  assumes "w_faults w = []" and "stepResolves svc w s"
  shows "\<exists>m. run_state (stepMetadata svc i s meta) w = (Inr m, w)"
proof (cases "ps_agent_id s = []")
  case True
  with assms show ?thesis by (auto simp: stepResolves_def stepMetadata_def run_simps)
next
  case False
  with assms(2) obtain u a where "s_agents svc" "s_parse_uuid svc (ps_agent_id s) = Some u"
    "tbl_find agent_id u (w_agents w) = Some a"
    "\<And>st. s_stacks svc \<and> agent_stack_ref a = Some st \<Longrightarrow> tbl_find stack_id st (w_stacks w) \<noteq> None"
    by (auto simp: stepResolves_def)
  with False assms(1) show ?thesis
    by (auto simp: stepMetadata_def effectiveImage_def GetAgent_def GetStack_def run_simps
          split: option.splits)
qed

lemma launchMetadata_resolves:
  assumes "w_faults w = []" and "\<forall>s \<in> set ss. stepResolves svc w s"
  shows "\<exists>m. run_state (launchMetadata svc i ss meta) w = (Inr m, w)"
  using assms(2)
proof (induction ss arbitrary: i meta)
  case (Cons s ss)
  with stepMetadata_resolves [OF assms(1), of svc s i meta] show ?case by (fastforce simp: run_simps)
qed (simp add: run_simps)

lemma createLaunchSteps_runs_ok:
  assumes "w_faults w = []" and "tbl_find run_id r (w_runs w) \<noteq> None"
  shows "\<exists>cs w'. run_state (createLaunchSteps r sws k ss) w = (Inr cs, w') \<and> w_faults w' = []"
  using assms
proof (induction ss arbitrary: k w)
  case (Cons s ss)
  obtain c v where c: "run_state (CreateRunStep r (ps_name s) (int k) (ps_action_type s) StepStatusPending
      (sws_group_id (sws ! k)) (sws_group_name (sws ! k))) w = (Inr c, v)" "w_faults v = []" "w_runs v = w_runs w"
    using Cons.prems by (auto simp: CreateRunStep_def insert_step_def run_simps blank_step_def)
  with Cons.IH [of v "Suc k"] Cons.prems show ?case by (fastforce simp: run_simps)
qed (simp add: run_simps)

lemma LaunchRun_succeeds:
  assumes "w_faults w = []" and "launchAllowed svc pid sid c w" and "s_jobs svc"
    and "tbl_find project_id pid (w_projects w) \<noteq> None"
    and "\<forall>s \<in> set (FlatSteps c). stepResolves svc w s"
  shows "\<exists>run steps w'. run_state (LaunchRun svc pid sid uid) w = (Inr (run, steps), w') \<and> w_faults w' = []"
proof -
  obtain st cfg where a: "tbl_find story_id sid (w_stories w) = Some st" "story_project st = pid"
    "story_status st \<noteq> StoryStatusDone" "\<forall>r \<in> set (w_runs w). \<not> activeRun sid r"
    "tbl_find pc_project pid (w_configs w) = Some cfg"
    "ParsePipelineConfigYAML (s_unmarshal svc) (pc_yaml cfg) = Inr c" "FlatSteps c \<noteq> []"
    using assms(2) by (auto simp: launchAllowed_def)
  have "find (\<lambda>r. run_story r = sid \<and> run_active (run_status r)) (rev (w_runs w)) = None"
    using a(4) by (simp add: find_None_iff activeRun_def)
  with a assms(1) have entry: "run_state (LaunchRun svc pid sid uid) w =
      run_state (launchConfigured svc pid sid uid (pc_yaml cfg)) w"
    by (simp add: LaunchRun_def GetStoryByID_def GetActiveRunByStory_def GetPipelineConfig_def run_simps)
  obtain meta where m: "run_state (launchMetadata svc 0 (FlatSteps c) [''launched_by_user_id'' \<mapsto> JUuid uid]) w
      = (Inr meta, w)"
    using launchMetadata_resolves [OF assms(1,5)] by blast
  obtain run v where r: "run_state (CreateRun pid sid RunStatusPending (SnapConfig c) meta) w = (Inr run, v)"
    "w_runs v = w_runs w @ [run]" "w_faults v = []"
    using assms(1,4) by (auto simp: CreateRun_def run_simps Let_def)
  have "tbl_find run_id (run_id run) (w_runs v) \<noteq> None" by (simp add: tbl_find_None_iff r(2))
  then obtain cs u where "run_state (createLaunchSteps (run_id run) (FlatStepsWithStage c) 0 (FlatSteps c)) v = (Inr cs, u)"
    "w_faults u = []"
    using createLaunchSteps_runs_ok [OF r(3)] by blast
  with a(6,7) m r assms(3) show ?thesis
    by (auto simp: entry launchConfigured_def enqueueLaunch_def EnqueueExecuteRun_def enqueue_def run_simps)
qed


text \<open>
  without infrastructure failures, with the job queue wired and the project present, a launch
  that is allowed and whose steps' agents resolve returns a run.
\<close>

theorem launch_succeeds:
  assumes "w_faults w = []" and "launchAllowed svc pid sid c w" and "s_jobs svc"
    and "tbl_find project_id pid (w_projects w) \<noteq> None"
    and "\<forall>s \<in> set (FlatSteps c). stepResolves svc w s"
  shows "\<exists>run steps w'. run_state (LaunchRun svc pid sid uid) w = (Inr (run, steps), w')"
  using LaunchRun_succeeds [OF assms] by blast

section \<open>From the launch to the end of the run\<close>

text \<open>Identifiers in use lie below the next one to be generated; step identifiers are keys.\<close>

definition idsFresh :: "world \<Rightarrow> bool" where
  "idsFresh w \<longleftrightarrow> (\<forall>r \<in> set (w_runs w). run_id r < w_next w)
     \<and> (\<forall>s \<in> set (w_steps w). rs_id s < w_next w \<and> rs_run s < w_next w)
     \<and> distinct (map rs_id (w_steps w))"

lemma launched_steps:
  assumes "launched pid sid c run steps w w'" and "idsFresh w"
  shows "tbl_find run_id (run_id run) (w_runs w') = Some run" and "distinct (map rs_id (w_steps w'))"
    and "s \<in> set (w_steps w') \<Longrightarrow> rs_run s = run_id run \<Longrightarrow> s \<in> set steps"
proof -
  have "tbl_find run_id (run_id run) (w_runs w) = None"
    using assms by (auto simp: tbl_find_None_iff idsFresh_def launched_def)
  then show "tbl_find run_id (run_id run) (w_runs w') = Some run"
    using assms(1) by (simp add: launched_def tbl_find_append)
  have "\<forall>j \<in> set (map rs_id (w_steps w)). j < w_next w" using assms(2) by (auto simp: idsFresh_def)
  moreover have "\<forall>j \<in> set (map rs_id steps). w_next w < j"
    using assms(1) unfolding launched_def by (metis atLeastLessThan_iff less_eq_Suc_le set_upt)
  ultimately have "set (map rs_id (w_steps w)) \<inter> set (map rs_id steps) = {}"
    by (meson disjoint_iff not_less_iff_gr_or_eq)
  moreover have "distinct (map rs_id steps)"
    using assms(1) unfolding launched_def by (metis distinct_upt)
  moreover have "w_steps w' = w_steps w @ steps" using assms(1) by (simp add: launched_def)
  ultimately show "distinct (map rs_id (w_steps w'))"
    using assms(2) by (simp add: idsFresh_def)
  show "s \<in> set (w_steps w') \<Longrightarrow> rs_run s = run_id run \<Longrightarrow> s \<in> set steps"
    using assms by (auto simp: idsFresh_def launched_def)
qed

lemma launched_row:
  assumes "launched pid sid c run steps w w'" and "s \<in> set steps"
  shows "\<exists>x \<in> set (FlatStepsWithStage c). rs_action s = ps_action_type (sws_step x)
    \<and> rs_stage_id s = sws_group_id x \<and> rs_status s = StepStatusPending \<and> rs_run s = run_id run"
proof -
  have "stepRow s \<in> set (launchRows (run_id run) c)"
    using assms by (metis image_eqI launched_def set_map)
  then show ?thesis
    by (auto simp: launchRows_def stepRow_def in_set_enumerate_eq intro!: bexI [OF _ nth_mem])
qed

text \<open>
  C7: a launched run executes to its end: when \<open>LaunchRun\<close> has returned a run and no failure
  occurs afterwards, with a closed breaker, succeeding actions and a configuration whose stages are
  all automatic, the job it has queued completes the run, each of its steps and the story.
\<close>

theorem launched_run_completes:
  assumes "run_state (LaunchRun svc pid sid uid) w = (Inr (run, steps), w')"
    and "idsFresh w" and "w_faults w' = []" and "sid \<noteq> uuid_nil"
    and "x_circuit_breaker env \<longrightarrow> (\<exists>n m. breaker_of pid w' = Some (n, False, m))"
    and "\<And>v. \<not> x_ctx_done env v" and "\<And>j v. x_other env j v = v"
    and "\<And>c x. launchAllowed svc pid sid c w \<Longrightarrow> x \<in> set (FlatStepsWithStage c) \<Longrightarrow>
           succeeds env (ps_action_type (sws_step x)) \<and> TransitionForStage c (sws_group_id x) = TransitionAuto"
  shows "JobExecuteRun (run_id run) \<in> set (w_jobs w')
    \<and> (\<exists>v. run_state (ExecuteRun env (run_id run)) w' = (Inr (), v)
         \<and> runSt v (run_id run) = Some RunStatusCompleted
         \<and> (\<forall>s \<in> set steps. stepSt v (rs_id s) = Some StepStatusCompleted)
         \<and> storySt v sid = Some StoryStatusDone \<and> storyStage v sid = Some None)"
proof -
  obtain c where c: "launchAllowed svc pid sid c w" "launched pid sid c run steps w w'"
    using assms(1) by (cases rule: LaunchRun_cases) auto
  note rows = launched_steps [OF c(2) assms(2)]
  have run: "run_status run = RunStatusPending" "run_story run = sid" "run_project run = pid"
    "run_snapshot run = SnapConfig c" "w_steps w' = w_steps w @ steps" "w_stories w' = w_stories w"
    using c(2) by (simp_all add: launched_def)
  have "map stepRow steps = launchRows (run_id run) c" using c(2) by (simp add: launched_def)
  then have "length (map stepRow steps) = length (launchRows (run_id run) c)" by simp
  then have "length steps = length (FlatSteps c)" by (simp add: launchRows_eq)
  then have "steps \<noteq> []" using c(1) by (auto simp: launchAllowed_def)
  then obtain s0 where s0: "s0 \<in> set steps" by (cases steps) auto
  have st: "storySt w' sid \<noteq> None" using c(1) run(6) by (auto simp: launchAllowed_def storySt_def)
  have ready: "succeeds env (rs_action s) \<and> transitionFor (parseTransitionPolicy run) (rs_stage_id s) = TransitionAuto"
    if "s \<in> set (w_steps w')" "rs_run s = run_id run" for s
    using launched_row [OF c(2) rows(3) [OF that]] assms(8) [OF c(1)] run(4)
    by (auto simp: transitionFor_def parseTransitionPolicy_def)
  have "\<not> run_terminal (run_status run)" by (simp add: run(1) run_terminal_def)
  moreover have "x_circuit_breaker env \<longrightarrow> (\<exists>n m. breaker_of (run_project run) w' = Some (n, False, m))"
    using assms(5) run(3) by simp
  moreover have "adv (run_id run) v (x_other env j v)" for j v using assms(7) by simp
  ultimately obtain v where v: "run_state (ExecuteRun env (run_id run)) w' = (Inr (), v)"
    "runSt v (run_id run) = Some RunStatusCompleted"
    "\<forall>s \<in> set (w_steps w'). rs_run s = run_id run \<longrightarrow> stepSt v (rs_id s) = Some StepStatusCompleted"
    "run_story run \<noteq> uuid_nil \<and> storySt w' (run_story run) \<noteq> None \<longrightarrow>
         storySt v (run_story run) = Some StoryStatusDone
         \<and> ((\<exists>s \<in> set (w_steps w'). rs_run s = run_id run \<and> rs_status s \<noteq> StepStatusCompleted) \<longrightarrow>
              storyStage v (run_story run) = Some None)"
    using ExecuteRun_completes [OF assms(3) rows(1) _ _ rows(2) assms(6)] ready by blast
  have "\<forall>s \<in> set steps. s \<in> set (w_steps w') \<and> rs_run s = run_id run \<and> rs_status s = StepStatusPending"
    using launched_row [OF c(2)] run(5) by auto
  moreover have "JobExecuteRun (run_id run) \<in> set (w_jobs w')" using c(2) by (simp add: launched_def)
  ultimately show ?thesis using v s0 st run(2) assms(4) by auto
qed

end
