(* ===== verification/RunControl.thy ===== *)
theory RunControl
  imports RunLaunch
begin

text \<open>
  The user's control of a run that is on its way: the start of a manual stage, and the retry of a
  failed step with its limit and its two defects.
\<close>

section \<open>Manual stages\<close>

lemma enforceManual_parks:
  assumes "w_faults w = []" and "transitionFor policy (sr_id n) = TransitionManual"
    and "\<not> stageStarted meta (sr_id n)" and "runSt w (run_id run) = Some st"
  shows "\<exists>w'. run_state (enforceManualOnEnter env run n policy meta) w = (Inl ErrStageSuspended, w')
    \<and> map_option run_metadata (tbl_find run_id (run_id run) (w_runs w')) = Some (parkedMetadata meta n)
    \<and> runSt w' = (runSt w)(run_id run \<mapsto> RunStatusPaused) \<and> w_steps w' = w_steps w
    \<and> w_hitl w' = w_hitl w
    \<and> (run_story run \<noteq> uuid_nil \<and> storyStage w (run_story run) \<noteq> None \<longrightarrow>
         storyStage w' (run_story run) = Some (Some (sr_name n)))"
proof -
  from assms(4) obtain r where r: "tbl_find run_id (run_id run) (w_runs w) = Some r"
    by (auto simp: runSt_def)
  let ?runs = "tbl_update run_id (run_id run) (\<lambda>r. r\<lparr>run_metadata := parkedMetadata meta n, run_updated_at := w_clock w\<rparr>) (w_runs w)"
  let ?t = "w\<lparr>w_runs := ?runs, w_clock := w_clock w + int (w_tick w)\<rparr>"
  let ?u = "?t\<lparr>w_runs := tbl_update run_id (run_id run)
     (set_run_status RunStatusPaused None None (Some (w_clock w)) None ?t) ?runs\<rparr>"
  let ?v = "after (setCurrentStage run (Some (sr_name n))) ?u"
  let ?w = "after (publishEvent (run_project run) ''stage'' (stageEntityID env (run_id run) (sr_id n))
     ''awaiting_start'' (stagePayload run n @ [(''transition'', JStr TransitionManual)])) ?v"
  have run: "run_state (enforceManualOnEnter env run n policy meta) w = (Inl ErrStageSuspended, ?w)"
    using assms(1-3) r
    by (simp add: enforceManualOnEnter_def UpdateRunMetadata_def UpdateRunStatus_def run_simps tbl_find_update)
  have "runSt ?u = (runSt w)(run_id run \<mapsto> RunStatusPaused)"
    using r by (auto simp: runSt_def tbl_find_update option.map_comp comp_def intro!: ext)
  moreover have "map_option run_metadata (tbl_find run_id (run_id run) (w_runs ?u)) = Some (parkedMetadata meta n)"
    using r by (simp add: tbl_find_update)
  moreover have "run_story run \<noteq> uuid_nil \<and> storyStage w (run_story run) \<noteq> None \<Longrightarrow>
      storyStage ?v (run_story run) = Some (Some (sr_name n))"
    using assms(1) by (subst setCurrentStage_views) auto
  ultimately show ?thesis using run by (intro exI [of _ ?w]) simp
qed

text \<open>
  at the entry of a stage with a manual transition that has not been started, the loop parks
  the run: it returns normally, the run is paused with the stage recorded in its metadata as
  awaiting a start, the story shows the stage, and no step changes.
\<close>

theorem manual_stage_parks:
  assumes "w_faults w = []" and "transitionFor policy (rs_stage_id s) = TransitionManual"
    and "\<not> stageStarted meta (rs_stage_id s)" and "autoRef policy cur"
    and "\<not> matches cur (rs_stage_id s)" and "runOK (run_id run) w"
    and "x_other env (rs_id s) w = w" and "\<not> x_ctx_done env w"
    and "rs_status s \<noteq> StepStatusCompleted"
  shows "\<exists>w'. run_state (runLoop env run policy (s # ss) cur prev meta) w = (Inl (Inr ()), w')
    \<and> runSt w' = (runSt w)(run_id run \<mapsto> RunStatusPaused) \<and> w_steps w' = w_steps w
    \<and> map_option run_metadata (tbl_find run_id (run_id run) (w_runs w')) = Some (parkedMetadata meta (newStageRef s))
    \<and> (run_story run \<noteq> uuid_nil \<and> storyStage w (run_story run) \<noteq> None \<longrightarrow>
         storyStage w' (run_story run) = Some (Some (rs_stage_name s)))"
proof -
  obtain st where st: "runSt w (run_id run) = Some st" "st \<noteq> RunStatusPaused"
    using assms(6) by (auto simp: runOK_def)
  then obtain r where r: "tbl_find run_id (run_id run) (w_runs w) = Some r" "run_status r \<noteq> RunStatusPaused"
    by (auto simp: runSt_def)
  have gate: "run_state (enforceGateOnExit env run cur policy prev) w = (Inr (), w)"
    using assms(4) by (auto simp: enforceGateOnExit_def autoRef_def run_simps split: option.split)
  from enforceManual_parks [where n = "newStageRef s", OF assms(1) _ _ st(1), of policy meta env] assms(2,3)
  obtain w' where
    "run_state (enforceManualOnEnter env run (newStageRef s) policy meta) w = (Inl ErrStageSuspended, w')"
    "map_option run_metadata (tbl_find run_id (run_id run) (w_runs w')) = Some (parkedMetadata meta (newStageRef s))"
    "runSt w' = (runSt w)(run_id run \<mapsto> RunStatusPaused)" "w_steps w' = w_steps w"
    "run_story run \<noteq> uuid_nil \<and> storyStage w (run_story run) \<noteq> None \<longrightarrow>
         storyStage w' (run_story run) = Some (Some (rs_stage_name s))"
    by (auto simp: newStageRef_def)
  with gate r assms(1,5,7-9) show ?thesis
    by (simp add: run_simps GetRun_def crossBoundary_def parkOr_def)
qed

lemma find_single:
  assumes "length (filter P xs) \<le> 1" and "x \<in> set xs" and "P x"
  shows "find P (rev xs) = Some x"
proof (cases "find P (rev xs)")
  case None
  with assms show ?thesis by (auto simp: find_None_iff)
next
  case (Some y)
  then have "y \<in> set (filter P xs)" "x \<in> set (filter P xs)" using assms by (auto dest: find_in)
  with assms(1) have "y = x" by (cases "filter P xs") auto
  with Some show ?thesis by simp
qed

lemma single_active_found:
  assumes "singleActive w" and "r \<in> set (w_runs w)" and "activeRun k r"
  shows "find (\<lambda>r. run_story r = k \<and> run_active (run_status r)) (rev (w_runs w)) = Some r"
proof -
  have "(\<lambda>r. run_story r = k \<and> run_active (run_status r)) = activeRun k"
    by (simp add: activeRun_def fun_eq_iff)
  with find_single [of "activeRun k" "w_runs w" r] assms show ?thesis by (simp add: singleActive_def)
qed

lemma started_parked [simp]:
  "metaString (parkedMetadata meta n) ''paused_stage_id'' = sr_id n"
  "metaString (parkedMetadata meta n) ''paused_reason'' = pausedReasonManualStart"
  "sr_id n \<noteq> [] \<Longrightarrow> stageStarted (startedMetadata (parkedMetadata meta n)) (sr_id n)"
  "startedMetadata m ''paused_reason'' = None"
  by (simp_all add: metaString_def parkedMetadata_def startedMetadata_def stageStarted_def
        stageStartedKey_def Let_def)

text \<open>
  \<open>StartStage\<close> releases the run the executor has parked at a manual stage: it returns the run,
  which is running again, with the pause reason gone from its metadata and one job queued for it;
  and with that metadata the executor passes the manual stage without parking the run again.
\<close>

theorem start_stage_releases:
  assumes "w_faults w = []" and "distinct (map run_id (w_runs w))" and "singleActive w"
    and "tbl_find story_id sid (w_stories w) = Some st"
    and "r \<in> set (w_runs w)" and "run_story r = sid" and "run_status r = RunStatusPaused"
    and "run_metadata r = parkedMetadata meta n" and "sr_id n \<noteq> []" and "s_jobs svc"
  shows "\<exists>u w' m. run_state (StartStage svc (story_project st) sid) w = (Inr u, w')
    \<and> runSt w' = (runSt w)(run_id r \<mapsto> RunStatusRunning) \<and> w_steps w' = w_steps w
    \<and> map_option run_metadata (tbl_find run_id (run_id r) (w_runs w')) = Some m
    \<and> m ''paused_reason'' = None \<and> w_jobs w' = w_jobs w @ [JobExecuteRun (run_id r)]
    \<and> run_state (enforceManualOnEnter env run n policy m) w' = (Inr (), w')"
proof -
  have "activeRun sid r" using assms(6,7) by (simp add: activeRun_def run_active_def)
  note found = single_active_found [OF assms(3,5) this]
  have row: "tbl_find run_id (run_id r) (w_runs w) = Some r" using tbl_find_Some_iff assms(2,5) by metis
  let ?m = "startedMetadata (parkedMetadata meta n)"
  let ?runs = "tbl_update run_id (run_id r) (\<lambda>r. r\<lparr>run_metadata := ?m, run_updated_at := w_clock w\<rparr>) (w_runs w)"
  let ?r = "r\<lparr>run_metadata := ?m, run_updated_at := w_clock w\<rparr>"
  let ?t = "w\<lparr>w_runs := ?runs\<rparr>"
  let ?f = "set_run_status RunStatusRunning None None None None ?t"
  let ?u = "?t\<lparr>w_runs := tbl_update run_id (run_id r) ?f ?runs\<rparr>"
  let ?p = "publishRunEvent svc (run_project r) (run_id r) ''resumed''
      (runPayload (run_id r) (?f ?r) ''running'' @
          [(''stage_id'', JStr (sr_id n)), (''trigger'', JStr ''manual_start'')])"
  let ?v = "(after ?p ?u)\<lparr>w_jobs := w_jobs w @ [JobExecuteRun (run_id r)]\<rparr>"
  have "run_state (StartStage svc (story_project st) sid) w = (Inr (?f ?r), ?v)"
    using assms(1,4,7,8,10) found row
    by (simp add: StartStage_def GetStoryByID_def GetActiveRunByStory_def resumeStage_def UpdateRunMetadata_def
          UpdateRunStatus_def requeue_def EnqueueExecuteRun_def enqueue_def run_simps tbl_find_update)
  moreover have "runSt ?v = (runSt w)(run_id r \<mapsto> RunStatusRunning)"
    using row by (auto simp: runSt_def tbl_find_update option.map_comp comp_def intro!: ext)
  moreover have "map_option run_metadata (tbl_find run_id (run_id r) (w_runs ?v)) = Some ?m"
    using row by (simp add: tbl_find_update)
  moreover have "run_state (enforceManualOnEnter env run n policy ?m) ?v = (Inr (), ?v)"
    using assms(9) by (simp add: enforceManualOnEnter_def run_simps)
  ultimately show ?thesis
    by (intro exI [of _ "?f ?r"] exI [of _ ?v] exI [of _ ?m]) simp
qed


section \<open>Retries\<close>

lemma readOnly_retry_ops [frame_intros]:
  "keeps readOnly (GetRun i)" "keeps readOnly (GetRunStep j)" "keeps readOnly (ListRetryStepsByParent p)"
  "keeps readOnly (ListRunStepsByRun i)"
  unfolding op_defs
  by (rule readOnly_db_op, simp add: run_simps split: option.split)+

lemma readOnly_GetRun [frame_intros]: "keeps readOnly (RunService_GetRun i)"
  unfolding RunService_GetRun_def by (intro frame_intros)

definition stepsSame :: "world \<Rightarrow> world \<Rightarrow> bool" where
  "stepsSame w w' \<longleftrightarrow> w_steps w' = w_steps w"

interpretation steps_same: frame stepsSame
  by unfold_locales (simp_all add: stepsSame_def)

lemma stepsSame_readOnly: "keeps readOnly m \<Longrightarrow> keeps stepsSame m"
  by (metis keeps_def stepsSame_def readOnly_fields(2))

lemma stepsSame_ops [frame_intros]:
  "keeps stepsSame (UpdateRunStatus i st sa ca pa em)" "keeps stepsSame (EnqueueExecuteRun i)"
  "keeps stepsSame (publishRunEvent svc p i act pl)" "keeps stepsSame (RunService_GetRun i)"
  by (auto simp: keeps_def stepsSame_def UpdateRunStatus_def EnqueueExecuteRun_def enqueue_def
        run_simps run_db_op_faults run_fault_op_faults
        intro!: keeps_def [THEN iffD1, OF stepsSame_readOnly [OF readOnly_GetRun], unfolded stepsSame_def, rule_format]
        split: list.splits option.splits)

lemma stepsSame_requeue [frame_intros]: "keeps stepsSame (requeue svc what i)"
  unfolding requeue_def by (intro frame_intros)

definition retriesOf :: "uuid \<Rightarrow> world \<Rightarrow> run_step list" where
  "retriesOf p w = filter (\<lambda>x. rs_parent x = Some p) (w_steps w)"

lemma retriesOf_append: "w_steps w' = w_steps w @ [x] \<Longrightarrow> retriesOf p w' = retriesOf p w @ (if rs_parent x = Some p then [x] else [])"
  by (simp add: retriesOf_def)

lemma createRetry_steps:
  "w_steps (after (createRetry svc run s) w) = w_steps w
   \<or> (\<exists>x. w_steps (after (createRetry svc run s) w) = w_steps w @ [x] \<and> rs_parent x = Some (rootStep s))"
proof -
  let ?w = "w\<lparr>w_next := Suc (w_next w)\<rparr>"
  obtain q v where q: "run_state (CreateRetryRunStep (retryOf s (w_next w))) ?w = (q, v)" by fastforce
  let ?k = "\<lambda>_. attempt (if run_status run = RunStatusFailed
              then attempt (UpdateRunStatus (run_id run) RunStatusRunning None None None None) (\<lambda>_. ok ())
              else ok ()) (\<lambda>_.
     attempt (requeue svc ''enqueue execute_run job for retry'' (run_id run)) (\<lambda>_. do {
       _ \<leftarrow> publishRunEvent svc (run_project run) (run_id run) ''step.retry_initiated''
         [(''run_id'', JUuid (run_id run)), (''step_id'', JUuid (rs_id s)),
          (''retry_step_id'', JUuid (w_next w)), (''retry_count'', JInt (rs_retry_count (retryOf s (w_next w)))),
          (''retry_type'', JStr (if rs_retry_count s + 1 > 2 then ''full'' else ''incremental''))];
       RunService_GetRun (run_id run) }))"
  have "keeps stepsSame (?k ())" by (intro frame_intros)
  then have same: "w_steps (after (?k ()) v) = w_steps v" by (simp add: keeps_def stepsSame_def after_def)
  have run: "after (createRetry svc run s) w = (case q of Inl e \<Rightarrow> v | Inr x \<Rightarrow> after (?k ()) v)"
    using q by (simp add: createRetry_def run_simps after_def split: sum.split)
  show ?thesis
  proof (cases q)
    case (Inl e)
    then have "w_steps v = w_steps w"
      using q by (auto simp: CreateRetryRunStep_def insert_step_def run_db_op_faults run_simps split: list.splits if_splits)
    then show ?thesis using run Inl by simp
  next
    case (Inr x)
    then have "w_steps v = w_steps w @ [x]" "rs_parent x = Some (rootStep s)"
      using q by (auto simp: CreateRetryRunStep_def insert_step_def run_db_op_faults run_simps retryOf_def
            blank_step_def split: list.splits if_splits)
    then show ?thesis using run Inr same by simp
  qed
qed


lemma retry_reads:
  "run_state (GetRunStep j) w = (Inr s, v) \<Longrightarrow> tbl_find rs_id j (w_steps w) = Some s"
  "run_state (ListRetryStepsByParent p) w = (Inr l, v) \<Longrightarrow> length l = length (retriesOf p w)"
  by (auto simp: GetRunStep_def ListRetryStepsByParent_def retriesOf_def run_db_op_faults run_simps
        split: list.splits option.splits if_splits)

lemma RetryStep_cases:
  assumes "run_state (RetryStep svc i j) w = (res, w')"
  obtains e where "res = Inl e" "w_steps w' = w_steps w"
  | r s v where "tbl_find run_id i (w_runs w) = Some r" "tbl_find rs_id j (w_steps w) = Some s"
    "rs_run s = i" "rs_status s = StepStatusFailed"
    "int (length (retriesOf (rootStep s) w)) < maxRetriesFor (run_snapshot r) (rs_name s)"
    "readOnly w v" "run_state (createRetry svc r s) v = (res, w')"
  using assms [unfolded RetryStep_def] readOnly_retry_ops(1)
proof (cases rule: readOnly_attempt)
  case 1
  then show ?thesis using that(1) readOnly_fields(2) by blast
next
  case (2 r w1)
  note r = GetRun_Inr [OF 2(1)]
  from 2(3) readOnly_retry_ops(2) show ?thesis
  proof (cases rule: readOnly_attempt)
    case 1
    then show ?thesis using that(1) readOnly_fields(2) 2(2) by metis
  next
    case s: (2 s w2)
    have st: "tbl_find rs_id j (w_steps w) = Some s"
      using retry_reads(1) [OF s(1)] readOnly_fields(2) [OF 2(2)] by simp
    have w2: "readOnly w w2" using 2(2) s(2) by (rule read_only.frame_trans)
    show ?thesis
    proof (cases "rs_run s \<noteq> i \<or> rs_status s \<noteq> StepStatusFailed")
      case True
      then show ?thesis using s(3) that(1) readOnly_fields(2) [OF w2]
        by (auto simp: run_simps split: if_splits)
    next
      case False
      with s(3) have a: "run_state (attempt (ListRetryStepsByParent (rootStep s)) (\<lambda>existing.
         if maxRetriesFor (run_snapshot r) (rs_name s) \<le> int (length existing) then
           fail (storyErr CategoryConflict ''RETRY_MAX_EXCEEDED''
             [T ''max retries ('', N (maxRetriesFor (run_snapshot r) (rs_name s)),
              T '') exceeded for step '', T (rs_name s)])
         else createRetry svc r s)) w2 = (res, w')" by simp
      from a readOnly_retry_ops(3) show ?thesis
      proof (cases rule: readOnly_attempt)
        case 1
        then show ?thesis using that(1) readOnly_fields(2) w2 by metis
      next
        case l: (2 l w3)
        have w3: "readOnly w w3" using w2 l(2) by (rule read_only.frame_trans)
        have len: "length l = length (retriesOf (rootStep s) w)"
          using retry_reads(2) [OF l(1)] readOnly_fields(2) [OF w2] by (simp add: retriesOf_def)
        show ?thesis
        proof (cases "maxRetriesFor (run_snapshot r) (rs_name s) \<le> int (length l)")
          case True
          then show ?thesis using l(3) that(1) readOnly_fields(2) [OF w3] by (auto simp: run_simps)
        next
          case low: False
          with l(3) have "run_state (createRetry svc r s) w3 = (res, w')" by simp
          moreover have "int (length (retriesOf (rootStep s) w)) < maxRetriesFor (run_snapshot r) (rs_name s)"
            using low len by linarith
          ultimately show ?thesis using that(2) [OF r st _ _ _ w3] False by blast
        qed
      qed
    qed
  qed
qed

text \<open>
  C30: the retries of a step are bounded. Under every pattern of infrastructure failures, a call of
  \<open>RetryStep\<close> that adds a retry to a chain does so for a failed step of the run, on a chain that had
  fewer retries than the limit of its configuration, and it adds one: afterwards the chain has at
  most that many.
\<close>

theorem retry_bounded:
  assumes "run_state (RetryStep svc i j) w = (res, w')"
    and "length (retriesOf p w') \<noteq> length (retriesOf p w)"
  shows "\<exists>r s. tbl_find run_id i (w_runs w) = Some r \<and> tbl_find rs_id j (w_steps w) = Some s
    \<and> rs_run s = i \<and> rs_status s = StepStatusFailed \<and> rootStep s = p
    \<and> length (retriesOf p w') = Suc (length (retriesOf p w))
    \<and> int (length (retriesOf p w')) \<le> maxRetriesFor (run_snapshot r) (rs_name s)"
  using assms(1)
proof (cases rule: RetryStep_cases)
  case 1
  then show ?thesis using assms(2) by (simp add: retriesOf_def)
next
  case (2 r s v)
  then have v: "w_steps v = w_steps w" and w': "w' = after (createRetry svc r s) v"
    by (simp_all add: readOnly_fields after_def)
  from createRetry_steps [of svc r s v] v w' assms(2) obtain x where
    "w_steps w' = w_steps w @ [x]" "rs_parent x = Some (rootStep s)"
    by (auto simp: retriesOf_def)
  then have "retriesOf p w' = retriesOf p w @ (if rootStep s = p then [x] else [])"
    by (simp add: retriesOf_append)
  then show ?thesis using 2(1-5) assms(2) by (auto split: if_splits)
qed


definition retryRow :: "run_step \<Rightarrow> world \<Rightarrow> run_step" where
  "retryRow s w = (retryOf s (w_next w))\<lparr>rs_created_at := w_clock w\<rparr>"

lemma retryRow_simps [simp]:
  "rs_id (retryRow s w) = w_next w" "rs_run (retryRow s w) = rs_run s" "rs_action (retryRow s w) = rs_action s"
  "rs_status (retryRow s w) = StepStatusPending" "rs_stage_id (retryRow s w) = rs_stage_id s"
  "rs_order (retryRow s w) = rs_order s" "rs_parent (retryRow s w) = Some (rootStep s)"
  "rs_retry_count (retryRow s w) = rs_retry_count s + 1" "rs_name (retryRow s w) = rs_name s"
  by (simp_all add: retryRow_def retryOf_def blank_step_def)

lemma RunService_GetRun_ok:
  assumes "w_faults w = []" and "tbl_find run_id i (w_runs w) = Some r"
  shows "\<exists>x. run_state (RunService_GetRun i) w = (Inr x, w)"
  using assms by (simp add: RunService_GetRun_def GetRun_def ListRunStepsByRun_def run_simps)

lemma RetryStep_effect:
  assumes "w_faults w = []" and "tbl_find run_id i (w_runs w) = Some r"
    and "tbl_find rs_id j (w_steps w) = Some s" and "rs_run s = i" and "rs_status s = StepStatusFailed"
    and "int (length (retriesOf (rootStep s) w)) < maxRetriesFor (run_snapshot r) (rs_name s)"
    and "tbl_find rs_id (rootStep s) (w_steps w) \<noteq> None"
  shows "\<exists>x w'. run_state (RetryStep svc i j) w = (Inr x, w') \<and> w_steps w' = w_steps w @ [retryRow s w]
    \<and> w_jobs w' = w_jobs w @ (if s_jobs svc then [JobExecuteRun i] else [])
    \<and> w_runs w' = (if run_status r = RunStatusFailed
        then tbl_update run_id i (set_run_status RunStatusRunning None None None None w) (w_runs w) else w_runs w)
    \<and> w_faults w' = [] \<and> w_projects w' = w_projects w \<and> w_stories w' = w_stories w"
proof -
  let ?n = "w_next w"
  let ?u = "w\<lparr>w_next := Suc ?n, w_steps := w_steps w @ [retryRow s w],
     w_runs := (if run_status r = RunStatusFailed
        then tbl_update run_id i (set_run_status RunStatusRunning None None None None w) (w_runs w) else w_runs w),
     w_jobs := w_jobs w @ (if s_jobs svc then [JobExecuteRun i] else [])\<rparr>"
  let ?p = "publishRunEvent svc (run_project r) i ''step.retry_initiated''
         [(''run_id'', JUuid i), (''step_id'', JUuid j),
          (''retry_step_id'', JUuid ?n), (''retry_count'', JInt (rs_retry_count (retryOf s ?n))),
          (''retry_type'', JStr (if rs_retry_count s + 1 > 2 then ''full'' else ''incremental''))]"
  have id: "run_id r = i" "rs_id s = j" using assms(2,3) by blast+
  have row: "(blank_step (rs_id (retryOf s ?n)) (rs_run (retryOf s ?n)) (rs_name (retryOf s ?n))
        (rs_order (retryOf s ?n)) (rs_action (retryOf s ?n)) (rs_status (retryOf s ?n)) (w_clock w))
      \<lparr>rs_retry_count := rs_retry_count (retryOf s ?n), rs_retry_type := rs_retry_type (retryOf s ?n),
       rs_parent := rs_parent (retryOf s ?n), rs_stage_id := rs_stage_id (retryOf s ?n),
       rs_stage_name := rs_stage_name (retryOf s ?n)\<rparr> = retryRow s w"
    by (simp add: retryRow_def retryOf_def blank_step_def)
  have clk: "set_run_status RunStatusRunning None None None None (w\<lparr>w_next := a, w_steps := b\<rparr>) =
      set_run_status RunStatusRunning None None None None w" for a b
    by (simp add: set_run_status_def fun_eq_iff)
  have create: "run_state (CreateRetryRunStep (retryOf s ?n)) (w\<lparr>w_next := Suc ?n\<rparr>) =
      (Inr (retryRow s w), w\<lparr>w_next := Suc ?n, w_steps := w_steps w @ [retryRow s w]\<rparr>)"
    using assms(1,2,4,7)
    by (simp add: CreateRetryRunStep_def insert_step_def run_simps row) (simp add: retryOf_def blank_step_def)
  have "tbl_find run_id i (w_runs (after ?p ?u)) \<noteq> None"
    using assms(2) by (simp add: tbl_find_update)
  then obtain x where x: "run_state (RunService_GetRun i) (after ?p ?u) = (Inr x, after ?p ?u)"
    using RunService_GetRun_ok [of "after ?p ?u" i] assms(1) by auto
  have "run_state (createRetry svc r s) w = (Inr x, after ?p ?u)"
    using create assms(1,2) id x
    by (cases "run_status r = RunStatusFailed"; cases "s_jobs svc")
       (simp_all add: createRetry_def UpdateRunStatus_def requeue_def EnqueueExecuteRun_def enqueue_def run_simps
          clk split del: if_split)
  moreover have "run_state (RetryStep svc i j) w = run_state (createRetry svc r s) w"
    using assms(1-6)
    by (simp add: RetryStep_def GetRun_def GetRunStep_def ListRetryStepsByParent_def run_simps retriesOf_def)
  ultimately show ?thesis using assms(1) by (intro exI [of _ x] exI [of _ "after ?p ?u"]) simp
qed


text \<open>
  without infrastructure failures a retry of a failed step below its limit returns the run and
  appends one pending step: same name, order, action and stage, the next retry count, linked to the
  first step of the chain; a failed run is running again and, with a queue wired, one job is queued.
\<close>

theorem retry_appends_step:
  assumes "w_faults w = []" and "tbl_find run_id i (w_runs w) = Some r"
    and "tbl_find rs_id j (w_steps w) = Some s" and "rs_run s = i" and "rs_status s = StepStatusFailed"
    and "int (length (retriesOf (rootStep s) w)) < maxRetriesFor (run_snapshot r) (rs_name s)"
    and "tbl_find rs_id (rootStep s) (w_steps w) \<noteq> None"
  shows "\<exists>x w' n. run_state (RetryStep svc i j) w = (Inr x, w') \<and> w_steps w' = w_steps w @ [n]
    \<and> rs_run n = i \<and> rs_name n = rs_name s \<and> rs_order n = rs_order s \<and> rs_action n = rs_action s
    \<and> rs_stage_id n = rs_stage_id s \<and> rs_status n = StepStatusPending
    \<and> rs_retry_count n = rs_retry_count s + 1 \<and> rs_parent n = Some (rootStep s)
    \<and> w_jobs w' = w_jobs w @ (if s_jobs svc then [JobExecuteRun i] else [])
    \<and> runSt w' i = Some (if run_status r = RunStatusFailed then RunStatusRunning else run_status r)"
proof -
  from RetryStep_effect [OF assms, of svc] obtain x w' where
    e: "run_state (RetryStep svc i j) w = (Inr x, w')" "w_steps w' = w_steps w @ [retryRow s w]"
      "w_jobs w' = w_jobs w @ (if s_jobs svc then [JobExecuteRun i] else [])"
      "w_runs w' = (if run_status r = RunStatusFailed
        then tbl_update run_id i (set_run_status RunStatusRunning None None None None w) (w_runs w) else w_runs w)"
    by blast
  have "runSt w' i = Some (if run_status r = RunStatusFailed then RunStatusRunning else run_status r)"
    using e(4) assms(2) by (auto simp: runSt_def tbl_find_update)
  with e(1-3) assms(4) show ?thesis
    by (intro exI [of _ x] exI [of _ w'] exI [of _ "retryRow s w"]) simp
qed

text \<open>
  a retry does not replace the step it retries. The executor skips completed steps only, so
  the job a retry has queued executes the failed step itself again as well as its retry: with
  succeeding actions both end up completed.
\<close>

theorem retry_reexecutes_failed_step:
  assumes "w_faults w = []" and "tbl_find run_id i (w_runs w) = Some r" and "run_status r = RunStatusFailed"
    and "tbl_find rs_id j (w_steps w) = Some s" and "rs_run s = i" and "rs_status s = StepStatusFailed"
    and "int (length (retriesOf (rootStep s) w)) < maxRetriesFor (run_snapshot r) (rs_name s)"
    and "tbl_find rs_id (rootStep s) (w_steps w) \<noteq> None" and "idsFresh w"
    and "x_circuit_breaker env \<longrightarrow> (\<exists>c m. breaker_of (run_project r) w = Some (c, False, m))"
    and "\<And>v. \<not> x_ctx_done env v" and "\<And>k v. x_other env k v = v"
    and "\<And>x. x \<in> set (w_steps w) \<Longrightarrow> rs_run x = i \<Longrightarrow> succeeds env (rs_action x)
           \<and> transitionFor (parseTransitionPolicy r) (rs_stage_id x) = TransitionAuto"
  shows "\<exists>x w1 w2. run_state (RetryStep svc i j) w = (Inr x, w1)
    \<and> run_state (ExecuteRun env i) w1 = (Inr (), w2)
    \<and> stepSt w1 j = Some StepStatusFailed \<and> stepSt w2 j = Some StepStatusCompleted
    \<and> stepSt w2 (w_next w) = Some StepStatusCompleted \<and> runSt w2 i = Some RunStatusCompleted"
proof -
  from RetryStep_effect [OF assms(1,2,4-8), of svc] assms(3) obtain x v where
    e: "run_state (RetryStep svc i j) w = (Inr x, v)" "w_steps v = w_steps w @ [retryRow s w]"
      "w_runs v = tbl_update run_id i (set_run_status RunStatusRunning None None None None w) (w_runs w)"
      "w_faults v = []" "w_projects v = w_projects w" by auto
  let ?r = "set_run_status RunStatusRunning None None None None w r"
  have row: "tbl_find run_id i (w_runs v) = Some ?r" using e(3) assms(2) by (simp add: tbl_find_update)
  have s: "s \<in> set (w_steps w)" "rs_id s = j" using assms(4) by (auto dest: tbl_find_eq_Some)
  have d: "distinct (map rs_id (w_steps v))" using e(2) assms(9) by (auto simp: idsFresh_def)
  have "\<not> run_terminal (run_status ?r)" by (simp add: run_terminal_def)
  moreover have "x_circuit_breaker env \<longrightarrow> (\<exists>c m. breaker_of (run_project ?r) v = Some (c, False, m))"
    using assms(10) e(5) by (simp add: breaker_of_def)
  moreover have "adv i u (x_other env k u)" for k u using assms(12) by simp
  moreover have "succeeds env (rs_action y) \<and> transitionFor (parseTransitionPolicy ?r) (rs_stage_id y) = TransitionAuto"
    if "y \<in> set (w_steps v)" "rs_run y = i" for y
    using that e(2) assms(5,13) s(1) by auto
  ultimately obtain u where
    u: "run_state (ExecuteRun env i) v = (Inr (), u)" "runSt u i = Some RunStatusCompleted"
      "\<forall>y \<in> set (w_steps v). rs_run y = i \<longrightarrow> stepSt u (rs_id y) = Some StepStatusCompleted"
    using ExecuteRun_completes [OF e(4) row _ _ d assms(11)] by blast
  have "stepSt v j = Some StepStatusFailed"
    using ready_rows [OF d, of s] s e(2) assms(6) by auto
  with e(1,2) u s assms(5) show ?thesis by (cases x) auto
qed

text \<open>
  a retry of a step of a failed run does not look at the other runs of the story: when the story
  has been launched again in the meantime, the retry gives it a second active run.
\<close>

theorem retry_breaks_single_active:
  assumes "w_faults w = []" and "tbl_find run_id i (w_runs w) = Some r" and "run_status r = RunStatusFailed"
    and "tbl_find rs_id j (w_steps w) = Some s" and "rs_run s = i" and "rs_status s = StepStatusFailed"
    and "int (length (retriesOf (rootStep s) w)) < maxRetriesFor (run_snapshot r) (rs_name s)"
    and "tbl_find rs_id (rootStep s) (w_steps w) \<noteq> None"
    and "b \<in> set (w_runs w)" and "activeRun (run_story r) b" and "run_id b \<noteq> i"
  shows "\<exists>x w'. run_state (RetryStep svc i j) w = (Inr x, w') \<and> \<not> singleActive w'"
proof -
  from RetryStep_effect [OF assms(1,2,4-8), of svc] assms(3) obtain x v where
    e: "run_state (RetryStep svc i j) w = (Inr x, v)"
      "w_runs v = tbl_update run_id i (set_run_status RunStatusRunning None None None None w) (w_runs w)" by auto
  let ?a = "set_run_status RunStatusRunning None None None None w r"
  have "r \<in> set (w_runs w)" "run_id r = i" using assms(2) by (auto dest: tbl_find_eq_Some)
  then have "?a \<in> set (w_runs v)" "b \<in> set (w_runs v)"
    using e(2) assms(9,11) by (auto simp: set_tbl_update image_iff intro: bexI [of _ r] bexI [of _ b])
  moreover have "activeRun (run_story r) ?a" by (simp add: activeRun_def run_active_def)
  ultimately have "{?a, b} \<subseteq> set (filter (activeRun (run_story r)) (w_runs v))" using assms(10) by simp
  moreover have "?a \<noteq> b" using assms(11) \<open>run_id r = i\<close> by auto
  ultimately have "2 \<le> card (set (filter (activeRun (run_story r)) (w_runs v)))"
    by (metis List.finite_set card_2_iff card_mono)
  then have "\<not> length (filter (activeRun (run_story r)) (w_runs v)) \<le> 1"
    using card_length [of "filter (activeRun (run_story r)) (w_runs v)"] by linarith
  with e(1) show ?thesis by (cases x) (auto simp: singleActive_def)
qed

end
