(* ===== verification/HITL.thy ===== *)
theory HITL
  imports RunServiceSpec
begin

text \<open>
  The human-in-the-loop service (\<open>backend/internal/domain/service/hitl_service.go\<close>): approval and
  rejection of review gates, probe halts raised by the guards and their resolution. Failures the
  code only logs are dropped values here.
\<close>

record hitl_svc =
  h_jobs :: bool
  h_events :: bool

section \<open>Operations\<close>

definition hitl_status_name :: "hitl_status \<Rightarrow> string" where
  "hitl_status_name st = (case st of HITLStatusPending \<Rightarrow> ''pending'' | HITLStatusApproved \<Rightarrow> ''approved''
     | HITLStatusRejected \<Rightarrow> ''rejected'' | HITLStatusResolved \<Rightarrow> ''resolved'')"

definition alreadyDecided :: "hitl_status \<Rightarrow> string \<Rightarrow> err" where
  "alreadyDecided st what =
     NewValidation [T ''status'']
       [T ''HITL request is already '', T (hitl_status_name st), T '', cannot '', T what]"

definition publishHITLEvent :: "hitl_svc \<Rightarrow> hitl_request \<Rightarrow> string \<Rightarrow> uuid \<Rightarrow> unit op" where
  "publishHITLEvent svc req act user =
     (if \<not> h_events svc then skip
      else do {
        s \<leftarrow> GetRunStep (hitl_step req);
        case s of
          Inl e \<Rightarrow> skip
        | Inr st \<Rightarrow> do {
            r \<leftarrow> GetRun (rs_run st);
            case r of
              Inl e \<Rightarrow> skip
            | Inr run \<Rightarrow>
                publishEvent (run_project run) ''hitl_gate'' (hitl_id req) act
                  [(''hitl_request_id'', JUuid (hitl_id req)), (''run_id'', JUuid (rs_run st)),
                   (''step_id'', JUuid (hitl_step req)), (''user_id'', JUuid user)] } })"

definition resumeRun :: "hitl_svc \<Rightarrow> uuid \<Rightarrow> unit op" where
  "resumeRun svc step_arg = do {
     s \<leftarrow> GetRunStep step_arg;
     case s of
       Inl e \<Rightarrow> skip
     | Inr st \<Rightarrow> do {
         r \<leftarrow> GetRun (rs_run st);
         case r of
           Inl e \<Rightarrow> skip
         | Inr run \<Rightarrow> do {
             _ \<leftarrow> (if run_status run = RunStatusPaused
                  then do { _ \<leftarrow> UpdateRunStatus (run_id run) RunStatusRunning None None None None; skip }
                  else skip);
             if \<not> h_jobs svc then skip
             else do { _ \<leftarrow> EnqueueExecuteRun (run_id run); skip } } } }"

definition Approve :: "hitl_svc \<Rightarrow> uuid \<Rightarrow> uuid \<Rightarrow> hitl_request fop" where
  "Approve svc i user =
     attempt (GetHITLByID i) (\<lambda>req.
       if hitl_status req \<noteq> HITLStatusPending then fail (alreadyDecided (hitl_status req) ''approve'')
       else do {
         now \<leftarrow> time_now;
         attempt (wrap_err (WrapErr [T ''update HITL status to approved''])
             (UpdateHITLStatus i HITLStatusApproved (Some user) None now)) (\<lambda>updated. do {
           _ \<leftarrow> UpdateRunStepStatus (hitl_step req) StepStatusCompleted None (Some now) None;
           _ \<leftarrow> resumeRun svc (hitl_step req);
           _ \<leftarrow> publishHITLEvent svc req ''approved'' user;
           ok updated }) })"

definition rejectMsg :: "string option \<Rightarrow> msg" where
  "rejectMsg reason =
     (case reason of
        None \<Rightarrow> [T ''rejected by reviewer'']
      | Some r \<Rightarrow> if r \<noteq> [] then [T ''rejected: '', T r] else [T ''rejected by reviewer''])"

definition Reject :: "hitl_svc \<Rightarrow> uuid \<Rightarrow> uuid \<Rightarrow> string option \<Rightarrow> hitl_request fop" where
  "Reject svc i user reason =
     attempt (GetHITLByID i) (\<lambda>req.
       if hitl_status req \<noteq> HITLStatusPending then fail (alreadyDecided (hitl_status req) ''reject'')
       else do {
         now \<leftarrow> time_now;
         attempt (wrap_err (WrapErr [T ''update HITL status to rejected''])
             (UpdateHITLStatus i HITLStatusRejected (Some user) reason now)) (\<lambda>updated. do {
           _ \<leftarrow> UpdateRunStepStatus (hitl_step req) StepStatusFailed None (Some now) (Some (rejectMsg reason));
           _ \<leftarrow> publishHITLEvent svc req ''rejected'' user;
           ok updated }) })"

text \<open>The message of a halt; \<open>%q\<close> of a guard name without characters to escape.\<close>

definition probeHaltMessage :: "halt_reason \<Rightarrow> msg" where
  "probeHaltMessage r =
     (if \<not> list_all frag_empty (hr_detail r) then hr_detail r
      else if hr_probe r = GuardLogSilence then
        [T ''No agent output for '', F 0 (hr_observed r), T ''s (limit '', F 0 (hr_threshold r), T ''s)'']
      else if hr_probe r = GuardWallclock then
        [T ''Step running '', F 0 (hr_observed r), T ''s (limit '', F 0 (hr_threshold r), T ''s)'']
      else if hr_probe r = GuardCostBatch then
        [T ''Run cost $'', F 2 (hr_observed r), T '' exceeded budget $'', F 2 (hr_threshold r)]
      else [T ''Guard '', T [CHR 0x22], T (hr_probe r), T [CHR 0x22], T '' breached''])"

definition publishProbeHaltEvent :: "hitl_svc \<Rightarrow> hitl_request \<Rightarrow> uuid \<Rightarrow> uuid \<Rightarrow> halt_reason \<Rightarrow> unit op" where
  "publishProbeHaltEvent svc req project_arg r reason =
     (if \<not> h_events svc then skip
      else publishEvent project_arg ''hitl_gate'' (hitl_id req) ''pending''
        [(''hitl_request_id'', JUuid (hitl_id req)), (''run_id'', JUuid r),
         (''step_id'', JUuid (hitl_step req)), (''gate_type'', JStr HITLGateProbeHalt),
         (''probe'', JStr (hr_probe reason)), (''observed'', JReal (hr_observed reason)),
         (''threshold'', JReal (hr_threshold reason)), (''unit'', JStr (hr_unit reason))])"

definition haltRequest :: "uuid \<Rightarrow> uuid \<Rightarrow> halt_reason \<Rightarrow> time \<Rightarrow> hitl_request" where
  "haltRequest i step_arg reason now =
     \<lparr>hitl_id = i, hitl_step = step_arg, hitl_gate_type = HITLGateProbeHalt, hitl_diff = None,
      hitl_message = Some (probeHaltMessage reason), hitl_status = HITLStatusPending,
      hitl_resolved_at = None, hitl_resolved_by = None, hitl_rejection_reason = None,
      hitl_halt_reason = Some reason, hitl_resolution_action = None, hitl_created_at = now\<rparr>"

definition raiseNewHalt :: "hitl_svc \<Rightarrow> uuid \<Rightarrow> halt_reason \<Rightarrow> hitl_request fop" where
  "raiseNewHalt svc step_arg reason =
     attempt (wrap_err (WrapErr [T ''fetch step for probe halt'']) (GetRunStep step_arg)) (\<lambda>s.
     attempt (wrap_err (WrapErr [T ''fetch run for probe halt'']) (GetRun (rs_run s))) (\<lambda>run. do {
       i \<leftarrow> uuid_new;
       created_at \<leftarrow> time_now;
       attempt (wrap_err (WrapErr [T ''create probe_halt HITL''])
           (CreateHITL (haltRequest i step_arg reason created_at))) (\<lambda>created. do {
         _ \<leftarrow> (if run_status run = RunStatusRunning
              then do {
                now \<leftarrow> time_now;
                _ \<leftarrow> UpdateRunStatus (run_id run) RunStatusPaused None None (Some now) None;
                skip }
              else skip);
         _ \<leftarrow> publishProbeHaltEvent svc created (run_project run) (run_id run) reason;
         ok created }) }))"

definition RaiseProbeHalt :: "hitl_svc \<Rightarrow> uuid \<Rightarrow> halt_reason \<Rightarrow> hitl_request fop" where
  "RaiseProbeHalt svc step_arg reason = do {
     r \<leftarrow> GetHITLByRunStepID step_arg;
     case r of
       Inr existing \<Rightarrow>
         if hitl_status existing = HITLStatusPending then ok existing else raiseNewHalt svc step_arg reason
     | Inl e \<Rightarrow> raiseNewHalt svc step_arg reason }"

definition failRun :: "uuid \<Rightarrow> msg \<Rightarrow> unit op" where
  "failRun step_arg reason = do {
     s \<leftarrow> GetRunStep step_arg;
     case s of
       Inl e \<Rightarrow> skip
     | Inr st \<Rightarrow> do {
         now \<leftarrow> time_now;
         _ \<leftarrow> UpdateRunStatus (rs_run st) RunStatusFailed None (Some now) None (Some reason);
         skip } }"

definition abortMsg :: msg where
  "abortMsg = [T ''aborted from probe halt'']"

text \<open>The effect of each resolution action on the halted step and its run.\<close>

definition applyResolution :: "hitl_svc \<Rightarrow> string \<Rightarrow> uuid \<Rightarrow> time \<Rightarrow> unit op" where
  "applyResolution svc act step_arg now =
     (if act = HITLActionResume then resumeRun svc step_arg
      else if act = HITLActionOverride \<or> act = HITLActionSkip then do {
        _ \<leftarrow> UpdateRunStepStatus step_arg StepStatusCompleted None (Some now) None;
        resumeRun svc step_arg }
      else if act = HITLActionSendBack then do {
        _ \<leftarrow> UpdateRunStepStatus step_arg StepStatusCancelled None (Some now) None;
        skip }
      else if act = HITLActionAbort then do {
        _ \<leftarrow> UpdateRunStepStatus step_arg StepStatusFailed None (Some now) (Some abortMsg);
        failRun step_arg abortMsg }
      else skip)"

definition Resolve :: "hitl_svc \<Rightarrow> uuid \<Rightarrow> uuid \<Rightarrow> string \<Rightarrow> hitl_request fop" where
  "Resolve svc i user act =
     (if \<not> ValidHITLResolutionAction act then
        fail (NewValidation [T ''action''] [T ''unknown halt-gate resolution action: '', T act])
      else attempt (GetHITLByID i) (\<lambda>req.
        if hitl_gate_type req \<noteq> HITLGateProbeHalt then
          fail (NewValidation [T ''gate_type'']
            [T ''resolution actions apply only to probe_halt gates; use approve/reject for review gates''])
        else if hitl_status req \<noteq> HITLStatusPending then fail (alreadyDecided (hitl_status req) ''resolve'')
        else do {
          now \<leftarrow> time_now;
          attempt (wrap_err (WrapErr [T ''record HITL resolution''])
              (UpdateHITLResolution i HITLStatusResolved (Some user) act now)) (\<lambda>updated. do {
            _ \<leftarrow> applyResolution svc act (hitl_step req) now;
            _ \<leftarrow> publishHITLEvent svc req ''resolved'' user;
            ok updated }) }))"

definition GetProjectIDForHITLRequest :: "uuid \<Rightarrow> uuid fop" where
  "GetProjectIDForHITLRequest i =
     attempt (GetHITLByID i) (\<lambda>req.
     attempt (wrap_err (WrapErr [T ''failed to get run step'']) (GetRunStep (hitl_step req))) (\<lambda>s.
     attempt (wrap_err (WrapErr [T ''failed to get run'']) (GetRun (rs_run s))) (\<lambda>run. ok (run_project run))))"

end
