(* ===== verification/HITLSpec.thy ===== *)
theory HITLSpec
  imports HITL RunLaunch
begin

text \<open>
  The correctness of the human-in-the-loop service: a decided request is never decided again, an
  approval resumes the run and opens the executor's gate, each resolution of a probe halt has its
  effect on the step and its run, a raised halt pauses the run once; and the run a rejection leaves
  behind.
\<close>

section \<open>Decisions are final\<close>

definition hitlSame :: "world \<Rightarrow> world \<Rightarrow> bool" where
  "hitlSame w w' \<longleftrightarrow> w_hitl w' = w_hitl w"

interpretation hitl_same: frame hitlSame
  by unfold_locales (simp_all add: hitlSame_def)

lemma hitlSame_ops [frame_intros]:
  "keeps hitlSame (GetRunStep j)" "keeps hitlSame (GetRun i)" "keeps hitlSame time_now"
  "keeps hitlSame uuid_new" "keeps hitlSame (GetHITLByRunStepID k)"
  "keeps hitlSame (UpdateRunStepStatus j st sa ca em)" "keeps hitlSame (EnqueueExecuteRun i)"
  "keeps hitlSame (UpdateRunStatus i rst sa ca pa em)" "keeps hitlSame (publishEvent p ty en act pl)"
  by (simp_all add: keeps_def hitlSame_def op_defs run_simps run_db_op_faults run_fault_op_faults
        split: list.splits option.splits)

lemma hitlSame_helpers [frame_intros]:
  "keeps hitlSame (resumeRun svc j)" "keeps hitlSame (publishHITLEvent svc req act user)"
  "keeps hitlSame (failRun j m)" "keeps hitlSame (publishProbeHaltEvent svc req p r reason)"
  unfolding resumeRun_def publishHITLEvent_def failRun_def publishProbeHaltEvent_def
  by (intro frame_intros)+

lemma hitlSame_resolution [frame_intros]: "keeps hitlSame (applyResolution svc act j now)"
  unfolding applyResolution_def by (intro frame_intros)

text \<open>
  The shape of the three decisions: the request is read, checked to be pending, and its row is
  rewritten; nothing else touches the table of requests.
\<close>

definition decidesPending :: "uuid \<Rightarrow> world \<Rightarrow> world \<Rightarrow> bool" where
  "decidesPending i w w' \<longleftrightarrow>
     w_hitl w' = w_hitl w
     \<or> (\<exists>req f. tbl_find hitl_id i (w_hitl w) = Some req \<and> hitl_status req = HITLStatusPending
          \<and> w_hitl w' = tbl_update hitl_id i f (w_hitl w))"

lemma decision_shape:
  assumes "run_state (attempt (GetHITLByID i) (\<lambda>req. if p req then fail (e req) else do {
        now \<leftarrow> time_now;
        attempt (wrap_err g (db_op what (update_row w_hitl set_hitl hitl_id name i (f now)))) (k req now) })) w
      = (res, w')"
    and "\<And>req. \<not> p req \<Longrightarrow> hitl_status req = HITLStatusPending"
    and "\<And>req now x. keeps hitlSame (k req now x)"
  shows "decidesPending i w w'"
proof -
  obtain q v where q: "run_state (GetHITLByID i) w = (q, v)" by fastforce
  have v: "w_hitl v = w_hitl w" and q': "\<And>req. q = Inr req \<Longrightarrow> tbl_find hitl_id i (w_hitl w) = Some req"
    using q by (auto simp: GetHITLByID_def run_db_op_faults run_simps split: list.splits if_splits option.splits)
  show ?thesis
  proof (cases "\<exists>req. q = Inr req \<and> \<not> p req")
    case False
    then show ?thesis using assms(1) q v
      by (auto simp: run_attempt run_fail decidesPending_def split: sum.splits if_splits)
  next
    case True
    then obtain req where req: "q = Inr req" "\<not> p req" by blast
    let ?v = "v\<lparr>w_clock := w_clock v + int (w_tick v)\<rparr>"
    obtain x u where x: "run_state (wrap_err g (db_op what (update_row w_hitl set_hitl hitl_id name i (f (w_clock v))))) ?v = (x, u)"
      by fastforce
    then have u: "w_hitl u = w_hitl w \<or> (\<exists>h. w_hitl u = tbl_update hitl_id i h (w_hitl w))"
      using v by (auto simp: run_wrap_err run_db_op_faults run_update_row split: list.splits if_splits option.splits
            prod.splits sum.splits)
    have "w_hitl w' = w_hitl u"
    proof (cases x)
      case (Inl y)
      then show ?thesis using assms(1) q req x by (simp add: run_attempt run_time_now run_state_bind)
    next
      case (Inr y)
      then have "run_state (k req (w_clock v) y) u = (res, w')"
        using assms(1) q req x by (simp add: run_attempt run_time_now run_state_bind)
      from keepsD [OF assms(3) this] show ?thesis by (simp add: hitlSame_def)
    qed
    with u q' [OF req(1)] assms(2) [OF req(2)] show ?thesis by (auto simp: decidesPending_def)
  qed
qed

lemma Approve_decides: "run_state (Approve svc i user) w = (res, w') \<Longrightarrow> decidesPending i w w'"
  unfolding Approve_def UpdateHITLStatus_def
  by (erule decision_shape) (simp, intro frame_intros)

lemma Reject_decides: "run_state (Reject svc i user reason) w = (res, w') \<Longrightarrow> decidesPending i w w'"
  unfolding Reject_def UpdateHITLStatus_def
  by (erule decision_shape) (simp, intro frame_intros)

lemma if_fail_merge:
  "(if a then fail x else if b then fail y else m) = (if a \<or> b then fail (if a then x else y) else m)"
  by simp

lemma Resolve_decides: "run_state (Resolve svc i user act) w = (res, w') \<Longrightarrow> decidesPending i w w'"
proof (cases "ValidHITLResolutionAction act")
  case True
  assume "run_state (Resolve svc i user act) w = (res, w')"
  with True show ?thesis
    unfolding Resolve_def UpdateHITLResolution_def if_fail_merge
    by (simp only: True not_True_eq_False if_False) (erule decision_shape, simp, intro frame_intros)
qed (simp add: Resolve_def run_fail decidesPending_def)


lemma CreateHITL_hitl:
  "run_state (CreateHITL h) w = (res, w') \<Longrightarrow> hitl_status h = HITLStatusPending \<Longrightarrow>
   w_hitl w' = w_hitl w \<or> (\<exists>x. w_hitl w' = w_hitl w @ [x] \<and> hitl_status x = HITLStatusPending)"
  by (auto simp: CreateHITL_def run_db_op_faults run_simps Let_def split: list.splits if_splits)

definition onlyAdds :: "world \<Rightarrow> world \<Rightarrow> bool" where
  "onlyAdds w w' \<longleftrightarrow> (\<exists>xs. w_hitl w' = w_hitl w @ xs)"

interpretation only_adds: frame onlyAdds
  by unfold_locales (auto simp: onlyAdds_def)

lemma onlyAdds_same: "keeps hitlSame m \<Longrightarrow> keeps onlyAdds m"
  by (simp add: keeps_def hitlSame_def onlyAdds_def)

lemma onlyAdds_CreateHITL [frame_intros]: "keeps onlyAdds (CreateHITL h)"
  by (auto simp: keeps_def onlyAdds_def CreateHITL_def run_db_op_faults run_simps Let_def split: list.splits)

lemmas onlyAdds_ops [frame_intros] = hitlSame_ops [THEN onlyAdds_same] hitlSame_helpers [THEN onlyAdds_same]

lemma RaiseProbeHalt_adds: "keeps onlyAdds (RaiseProbeHalt svc j reason)"
  unfolding RaiseProbeHalt_def raiseNewHalt_def by (intro frame_intros)

text \<open>
  C6: under every pattern of infrastructure failures, a request that has been approved, rejected or
  resolved stays exactly as it was decided: no approval, rejection, resolution or new halt changes
  or removes it.
\<close>

theorem hitl_decisions_final:
  assumes "distinct (map hitl_id (w_hitl w))"
    and "w' \<in> {after (Approve svc i user) w, after (Reject svc i user reason) w,
                after (Resolve svc i user act) w, after (RaiseProbeHalt svc j halt) w}"
    and "h \<in> set (w_hitl w)" and "hitl_status h \<noteq> HITLStatusPending"
  shows "h \<in> set (w_hitl w')"
proof -
  have "decidesPending i w (after (Approve svc i user) w)" "decidesPending i w (after (Reject svc i user reason) w)"
    "decidesPending i w (after (Resolve svc i user act) w)"
    unfolding after_def
    by (rule Approve_decides Reject_decides Resolve_decides, rule prod.collapse [symmetric])+
  moreover have "onlyAdds w (after (RaiseProbeHalt svc j halt) w)"
    by (rule keeps_after [OF RaiseProbeHalt_adds])
  ultimately have "decidesPending i w w' \<or> onlyAdds w w'" using assms(2) by blast
  moreover have "h \<in> set (tbl_update hitl_id i f (w_hitl w))"
    if "tbl_find hitl_id i (w_hitl w) = Some req" "hitl_status req = HITLStatusPending" for f req
  proof -
    have "hitl_id h \<noteq> i"
      using that assms(1,3,4) by (auto simp: tbl_find_Some_iff distinct_map inj_on_def)
    with assms(3) show ?thesis by (auto simp: set_tbl_update image_iff intro: bexI [of _ h])
  qed
  ultimately show ?thesis using assms(3) by (auto simp: decidesPending_def onlyAdds_def)
qed

section \<open>Approval and resolution\<close>

lemmas run_hitl_units [run_simps] =
  run_unit [of "resumeRun svc j" for svc j] run_unit [of "publishHITLEvent svc req act user" for svc req act user]
  run_unit [of "failRun j m" for j m] run_unit [of "applyResolution svc act j now" for svc act j now]
  run_unit [of "publishProbeHaltEvent svc req p r reason" for svc req p r reason]

text \<open>\<open>quiet w w'\<close>: events, clock and pending faults may differ, no fault appears.\<close>

definition quiet :: "world \<Rightarrow> world \<Rightarrow> bool" where
  "quiet w w' \<longleftrightarrow> logged w w' \<and> w_jobs w' = w_jobs w"

interpretation quiet: frame quiet
  by unfold_locales (auto simp: quiet_def logged_def)

lemma quiet_ops [frame_intros]:
  "keeps quiet (GetRunStep j)" "keeps quiet (GetRun i)" "keeps quiet (publishEvent p ty en act pl)"
  by (simp_all add: keeps_def quiet_def logged_def op_defs run_simps run_db_op_faults
        split: list.splits option.splits)

lemma quiet_helpers [frame_intros]:
  "keeps quiet (publishHITLEvent svc req act user)" "keeps quiet (publishProbeHaltEvent svc req p r reason)"
  unfolding publishHITLEvent_def publishProbeHaltEvent_def by (intro frame_intros)+

lemma quiet_after:
  assumes "keeps quiet m"
  shows "w_runs (after m w) = w_runs w" "w_steps (after m w) = w_steps w" "w_hitl (after m w) = w_hitl w"
    "w_jobs (after m w) = w_jobs w" "w_stories (after m w) = w_stories w"
    "stepSt (after m w) = stepSt w" "runSt (after m w) = runSt w"
    "w_faults w = [] \<Longrightarrow> w_faults (after m w) = []"
  using keeps_after [OF assms, of w] by (auto simp: quiet_def logged_def intro: views_cong)

lemmas after_hitl_events [simp] = quiet_after [OF quiet_helpers(1)] quiet_after [OF quiet_helpers(2)]

lemma jobs_views [simp]:
  "stepSt (w\<lparr>w_jobs := js\<rparr>) = stepSt w" "runSt (w\<lparr>w_jobs := js\<rparr>) = runSt w"
  "storySt (w\<lparr>w_jobs := js\<rparr>) = storySt w"
  by (auto intro!: views_cong)

lemma resumeRun_effect:
  assumes "w_faults w = []" and "tbl_find rs_id j (w_steps w) = Some s"
    and "tbl_find run_id (rs_run s) (w_runs w) = Some r"
  shows "w_steps (after (resumeRun svc j) w) = w_steps w" "w_hitl (after (resumeRun svc j) w) = w_hitl w"
    "stepSt (after (resumeRun svc j) w) = stepSt w"
    "w_jobs (after (resumeRun svc j) w) = w_jobs w @ (if h_jobs svc then [JobExecuteRun (rs_run s)] else [])"
    "runSt (after (resumeRun svc j) w) =
       (if run_status r = RunStatusPaused then (runSt w)(rs_run s \<mapsto> RunStatusRunning) else runSt w)"
    "w_faults (after (resumeRun svc j) w) = []"
proof -
  have "run_id r = rs_run s" using assms(3) by blast
  moreover have "runSt w (rs_run s) = Some (run_status r)" using assms(3) by (simp add: runSt_def)
  ultimately have "\<exists>v. after (resumeRun svc j) w = v \<and> w_steps v = w_steps w \<and> w_hitl v = w_hitl w
    \<and> stepSt v = stepSt w
    \<and> w_jobs v = w_jobs w @ (if h_jobs svc then [JobExecuteRun (rs_run s)] else [])
    \<and> runSt v = (if run_status r = RunStatusPaused then (runSt w)(rs_run s \<mapsto> RunStatusRunning) else runSt w)
    \<and> w_faults v = []"
    using assms
    by (auto simp: resumeRun_def after_def GetRunStep_def GetRun_def UpdateRunStatus_def EnqueueExecuteRun_def
          enqueue_def run_simps runSt_update_status intro: views_cong)
  then show "w_steps (after (resumeRun svc j) w) = w_steps w" "w_hitl (after (resumeRun svc j) w) = w_hitl w"
    "stepSt (after (resumeRun svc j) w) = stepSt w"
    "w_jobs (after (resumeRun svc j) w) = w_jobs w @ (if h_jobs svc then [JobExecuteRun (rs_run s)] else [])"
    "runSt (after (resumeRun svc j) w) =
       (if run_status r = RunStatusPaused then (runSt w)(rs_run s \<mapsto> RunStatusRunning) else runSt w)"
    "w_faults (after (resumeRun svc j) w) = []" by auto
qed


lemma step_run_rows:
  assumes "tbl_find rs_id j (w_steps w) = Some s" and "tbl_find run_id (rs_run s) (w_runs w) = Some r"
  shows "stepSt w j = Some (rs_status s)" "runSt w (rs_run s) = Some (run_status r)"
  using assms by (simp_all add: stepSt_def runSt_def)

lemma Approve_resumes:
  assumes "w_faults w = []" and "tbl_find hitl_id i (w_hitl w) = Some req"
    and "hitl_status req = HITLStatusPending"
    and "tbl_find rs_id (hitl_step req) (w_steps w) = Some s"
    and "tbl_find run_id (rs_run s) (w_runs w) = Some r" and "run_status r = RunStatusPaused"
    and "h_jobs svc"
  shows "\<exists>u w'. run_state (Approve svc i user) w = (Inr u, w')
    \<and> hitl_status u = HITLStatusApproved \<and> hitl_resolved_by u = Some user
    \<and> stepSt w' = (stepSt w)(hitl_step req \<mapsto> StepStatusCompleted)
    \<and> runSt w' = (runSt w)(rs_run s \<mapsto> RunStatusRunning)
    \<and> w_jobs w' = w_jobs w @ [JobExecuteRun (rs_run s)]
    \<and> (\<forall>a. rs_id a = hitl_step req \<longrightarrow> tbl_find hitl_step (hitl_step req) (w_hitl w) = Some req \<longrightarrow>
         run_state (enforceGateOnExit env run (Some g) policy (Some a)) w' = (Inr (), w'))"
proof -
  let ?t = "w\<lparr>w_clock := w_clock w + int (w_tick w)\<rparr>"
  let ?h = "set_hitl_status HITLStatusApproved (Some user) None None (w_clock w) ?t"
  let ?u = "?t\<lparr>w_hitl := tbl_update hitl_id i ?h (w_hitl w)\<rparr>"
  let ?f = "set_step_status StepStatusCompleted None (Some (w_clock w)) None ?u"
  let ?v = "?u\<lparr>w_steps := tbl_update rs_id (hitl_step req) ?f (w_steps w)\<rparr>"
  let ?x = "after (resumeRun svc (hitl_step req)) ?v"
  let ?y = "after (publishHITLEvent svc req ''approved'' user) ?x"
  note rows = step_run_rows [OF assms(4,5)]
  have sv: "tbl_find rs_id (hitl_step req) (w_steps ?v) = Some (?f s)"
    using assms(4) by (simp add: tbl_find_update)
  have rv: "tbl_find run_id (rs_run (?f s)) (w_runs ?v) = Some r" using assms(5) by simp
  have fv: "w_faults ?v = []" using assms(1) by simp
  note eff = resumeRun_effect [OF fv sv rv, of svc]
  have "run_state (Approve svc i user) w = (Inr (?h req), ?y)"
    using assms(1-4)
    by (simp add: Approve_def GetHITLByID_def UpdateHITLStatus_def UpdateRunStepStatus_def run_simps)
  moreover have "stepSt ?y = (stepSt w)(hitl_step req \<mapsto> StepStatusCompleted)"
    using eff(3) rows(1) by (simp add: stepSt_update_status)
  moreover have "runSt ?y = (runSt w)(rs_run s \<mapsto> RunStatusRunning)"
    using eff(5) assms(6) by simp
  moreover have "w_jobs ?y = w_jobs w @ [JobExecuteRun (rs_run s)]" using eff(4) assms(7) by simp
  moreover have "run_state (enforceGateOnExit env run (Some g) policy (Some a)) ?y = (Inr (), ?y)"
    if "rs_id a = hitl_step req" "tbl_find hitl_step (hitl_step req) (w_hitl w) = Some req" for a
  proof -
    have "hitl_id req = i" using assms(2) by blast
    moreover have "tbl_find hitl_step k (tbl_update hitl_id i ?h hs) =
        map_option (\<lambda>q. if hitl_id q = i then ?h q else q) (tbl_find hitl_step k hs)" for k hs
      by (induction hs) auto
    ultimately have "tbl_find hitl_step (rs_id a) (w_hitl ?y) = Some (?h req)"
      using eff(2) that by simp
    moreover have "w_faults ?y = []" using eff(6) by simp
    ultimately show ?thesis
      by (auto simp: enforceGateOnExit_def GetHITLByRunStepID_def run_simps)
  qed
  ultimately show ?thesis
    by (intro exI [of _ "?h req"] exI [of _ ?y]) (simp add: set_hitl_status_def)
qed

text \<open>
  without infrastructure failures the approval of a pending request succeeds: the request is
  approved by the user, its step is completed, its run, when paused, is running again, and one
  job is queued; and the executor's gate on that step is open from then on.
\<close>

theorem approve_resumes_run:
  assumes "w_faults w = []" and "tbl_find hitl_id i (w_hitl w) = Some req"
    and "hitl_status req = HITLStatusPending"
    and "tbl_find rs_id (hitl_step req) (w_steps w) = Some s"
    and "tbl_find run_id (rs_run s) (w_runs w) = Some r" and "run_status r = RunStatusPaused"
    and "h_jobs svc" and "tbl_find hitl_step (hitl_step req) (w_hitl w) = Some req"
  shows "\<exists>u w'. run_state (Approve svc i user) w = (Inr u, w')
    \<and> hitl_status u = HITLStatusApproved \<and> hitl_resolved_by u = Some user
    \<and> stepSt w' = (stepSt w)(hitl_step req \<mapsto> StepStatusCompleted)
    \<and> runSt w' = (runSt w)(rs_run s \<mapsto> RunStatusRunning)
    \<and> w_jobs w' = w_jobs w @ [JobExecuteRun (rs_run s)]
    \<and> (\<forall>a. rs_id a = hitl_step req \<longrightarrow>
         run_state (enforceGateOnExit env run (Some g) policy (Some a)) w' = (Inr (), w'))"
  using Approve_resumes [OF assms(1-7), of user env run g policy] assms(8) by blast


text \<open>What a resolution action means for the halted step and its run.\<close>

fun stepAfter :: "string \<Rightarrow> step_status \<Rightarrow> step_status" where
  "stepAfter act st =
     (if act = HITLActionOverride \<or> act = HITLActionSkip then StepStatusCompleted
      else if act = HITLActionSendBack then StepStatusCancelled
      else if act = HITLActionAbort then StepStatusFailed else st)"

fun runAfter :: "string \<Rightarrow> run_status \<Rightarrow> run_status" where
  "runAfter act st =
     (if act = HITLActionAbort then RunStatusFailed
      else if act = HITLActionSendBack then st
      else if st = RunStatusPaused then RunStatusRunning else st)"

definition requeues :: "string \<Rightarrow> bool" where
  "requeues act \<longleftrightarrow> act = HITLActionResume \<or> act = HITLActionOverride \<or> act = HITLActionSkip"

lemma failRun_effect:
  assumes "w_faults w = []" and "tbl_find rs_id j (w_steps w) = Some s"
    and "tbl_find run_id (rs_run s) (w_runs w) = Some r"
  shows "w_hitl (after (failRun j m) w) = w_hitl w" "stepSt (after (failRun j m) w) = stepSt w"
    "w_jobs (after (failRun j m) w) = w_jobs w"
    "runSt (after (failRun j m) w) = (runSt w)(rs_run s \<mapsto> RunStatusFailed)"
    "w_faults (after (failRun j m) w) = []"
  using assms step_run_rows(2) [OF assms(2,3)]
  by (simp_all add: failRun_def after_def GetRunStep_def UpdateRunStatus_def run_simps runSt_update_status)

lemma after_update_step:
  assumes "w_faults w = []" and "tbl_find rs_id j (w_steps w) = Some s"
  shows "run_state (UpdateRunStepStatus j st sa ca em) w =
      (Inr (set_step_status st sa ca em w s),
       w\<lparr>w_steps := tbl_update rs_id j (set_step_status st sa ca em w) (w_steps w)\<rparr>)"
  using assms by (simp add: UpdateRunStepStatus_def run_simps)

lemma applyResolution_effect:
  assumes "w_faults w = []" and "tbl_find rs_id j (w_steps w) = Some s"
    and "tbl_find run_id (rs_run s) (w_runs w) = Some r" and "ValidHITLResolutionAction act"
  shows "stepSt (after (applyResolution svc act j now) w) = (stepSt w)(j \<mapsto> stepAfter act (rs_status s))
    \<and> runSt (after (applyResolution svc act j now) w) = (runSt w)(rs_run s \<mapsto> runAfter act (run_status r))
    \<and> w_jobs (after (applyResolution svc act j now) w) =
        w_jobs w @ (if requeues act \<and> h_jobs svc then [JobExecuteRun (rs_run s)] else [])"
proof -
  note rows = step_run_rows [OF assms(2,3)]
  let ?v = "\<lambda>st em. w\<lparr>w_steps := tbl_update rs_id j (set_step_status st None (Some now) em w) (w_steps w)\<rparr>"
  have f: "tbl_find rs_id j (w_steps (?v st em)) = Some (set_step_status st None (Some now) em w s)" for st em
    using assms(2) by (simp add: tbl_find_update)
  have run: "tbl_find run_id (rs_run (set_step_status st None (Some now) em w s)) (w_runs (?v st em)) = Some r" for st em
    using assms(3) by simp
  have faults: "w_faults (?v st em) = []" for st em using assms(1) by simp
  note eff = resumeRun_effect [OF faults f run, of svc] failRun_effect [OF faults f run]
  have same: "(stepSt w)(j \<mapsto> rs_status s) = stepSt w" "(runSt w)(rs_run s \<mapsto> run_status r) = runSt w"
    using rows by auto
  from assms(4) consider "act = HITLActionResume" | "act = HITLActionOverride \<or> act = HITLActionSkip"
    | "act = HITLActionSendBack" | "act = HITLActionAbort" by (auto simp: ValidHITLResolutionAction_def)
  then show ?thesis
  proof cases
    case 1
    with resumeRun_effect [OF assms(1-3), of svc] same show ?thesis
      by (auto simp: applyResolution_def requeues_def hitl_consts)
  next
    case 2
    then have "after (applyResolution svc act j now) w = after (resumeRun svc j) (?v StepStatusCompleted None)"
      using after_update_step [OF assms(1,2)] by (auto simp: applyResolution_def hitl_consts)
    with 2 eff(3-5) rows same show ?thesis
      by (auto simp: requeues_def hitl_consts stepSt_update_status)
  next
    case 3
    then have "after (applyResolution svc act j now) w = ?v StepStatusCancelled None"
      using after_update_step [OF assms(1,2)] by (simp add: applyResolution_def hitl_consts)
    with 3 rows same show ?thesis by (auto simp: requeues_def hitl_consts stepSt_update_status)
  next
    case 4
    then have "after (applyResolution svc act j now) w = after (failRun j abortMsg) (?v StepStatusFailed (Some abortMsg))"
      using after_update_step [OF assms(1,2)] by (simp add: applyResolution_def hitl_consts)
    with 4 eff(8-10) rows show ?thesis
      by (auto simp: requeues_def hitl_consts stepSt_update_status)
  qed
qed

text \<open>
  without infrastructure failures the resolution of a pending probe halt succeeds and does what
  its action says: resume leaves the step, override and skip complete it, send-back cancels it,
  abort fails it and its run; the paused run goes on and is queued exactly for resume, override and
  skip, and stays paused for send-back.
\<close>

theorem resolve_applies_action:
  assumes "w_faults w = []" and "ValidHITLResolutionAction act"
    and "tbl_find hitl_id i (w_hitl w) = Some req" and "hitl_gate_type req = HITLGateProbeHalt"
    and "hitl_status req = HITLStatusPending"
    and "tbl_find rs_id (hitl_step req) (w_steps w) = Some s"
    and "tbl_find run_id (rs_run s) (w_runs w) = Some r" and "run_status r = RunStatusPaused"
  shows "\<exists>u w'. run_state (Resolve svc i user act) w = (Inr u, w') \<and> hitl_status u = HITLStatusResolved
    \<and> hitl_resolution_action u = Some act
    \<and> stepSt w' = (stepSt w)(hitl_step req \<mapsto> stepAfter act (rs_status s))
    \<and> runSt w' = (runSt w)(rs_run s \<mapsto> runAfter act RunStatusPaused)
    \<and> w_jobs w' = w_jobs w @ (if requeues act \<and> h_jobs svc then [JobExecuteRun (rs_run s)] else [])"
proof -
  let ?t = "w\<lparr>w_clock := w_clock w + int (w_tick w)\<rparr>"
  let ?h = "set_hitl_status HITLStatusResolved (Some user) None (Some act) (w_clock w) ?t"
  let ?u = "?t\<lparr>w_hitl := tbl_update hitl_id i ?h (w_hitl w)\<rparr>"
  let ?x = "after (applyResolution svc act (hitl_step req) (w_clock w)) ?u"
  let ?y = "after (publishHITLEvent svc req ''resolved'' user) ?x"
  have act: "act \<noteq> []" using assms(2) by (auto simp: ValidHITLResolutionAction_def hitl_consts)
  have "run_state (Resolve svc i user act) w = (Inr (?h req), ?y)"
    using assms(1-5) act
    by (simp add: Resolve_def GetHITLByID_def UpdateHITLResolution_def run_simps)
  moreover have "w_faults ?u = []" "tbl_find rs_id (hitl_step req) (w_steps ?u) = Some s"
    "tbl_find run_id (rs_run s) (w_runs ?u) = Some r" using assms by simp_all
  note applyResolution_effect [OF this assms(2), of svc "w_clock w"]
  ultimately show ?thesis using assms(8)
    by (intro exI [of _ "?h req"] exI [of _ ?y])
       (simp add: set_hitl_status_def del: stepAfter.simps runAfter.simps)
qed

text \<open>
  a rejection fails the step of the gate and leaves its run as it is: the run the gate had
  paused stays paused, its story keeps its status and nothing is queued, so nobody is told that
  the run cannot go on.
\<close>

theorem reject_leaves_run_paused:
  assumes "w_faults w = []" and "tbl_find hitl_id i (w_hitl w) = Some req"
    and "hitl_status req = HITLStatusPending"
    and "tbl_find rs_id (hitl_step req) (w_steps w) = Some s"
  shows "\<exists>u w'. run_state (Reject svc i user reason) w = (Inr u, w') \<and> hitl_status u = HITLStatusRejected
    \<and> stepSt w' = (stepSt w)(hitl_step req \<mapsto> StepStatusFailed)
    \<and> w_runs w' = w_runs w \<and> w_stories w' = w_stories w \<and> w_jobs w' = w_jobs w"
proof -
  let ?t = "w\<lparr>w_clock := w_clock w + int (w_tick w)\<rparr>"
  let ?h = "set_hitl_status HITLStatusRejected (Some user) reason None (w_clock w) ?t"
  let ?u = "?t\<lparr>w_hitl := tbl_update hitl_id i ?h (w_hitl w)\<rparr>"
  let ?f = "set_step_status StepStatusFailed None (Some (w_clock w)) (Some (rejectMsg reason)) ?u"
  let ?v = "?u\<lparr>w_steps := tbl_update rs_id (hitl_step req) ?f (w_steps w)\<rparr>"
  let ?y = "after (publishHITLEvent svc req ''rejected'' user) ?v"
  have "run_state (Reject svc i user reason) w = (Inr (?h req), ?y)"
    using assms
    by (simp add: Reject_def GetHITLByID_def UpdateHITLStatus_def UpdateRunStepStatus_def run_simps)
  moreover have "stepSt w (hitl_step req) = Some (rs_status s)" using assms(4) by (simp add: stepSt_def)
  ultimately show ?thesis
    by (intro exI [of _ "?h req"] exI [of _ ?y]) (simp add: stepSt_update_status)
qed


section \<open>Probe halts\<close>

lemma raiseNewHalt_effect:
  assumes "w_faults w = []" and "tbl_find rs_id j (w_steps w) = Some s"
    and "tbl_find run_id (rs_run s) (w_runs w) = Some r"
  shows "\<exists>h w'. run_state (raiseNewHalt svc j reason) w = (Inr h, w') \<and> w_hitl w' = w_hitl w @ [h]
    \<and> hitl_step h = j \<and> hitl_status h = HITLStatusPending \<and> hitl_gate_type h = HITLGateProbeHalt
    \<and> hitl_halt_reason h = Some reason \<and> w_steps w' = w_steps w \<and> w_faults w' = []
    \<and> runSt w' = (if run_status r = RunStatusRunning then (runSt w)(rs_run s \<mapsto> RunStatusPaused) else runSt w)"
proof -
  have "run_id r = rs_run s" using assms(3) by blast
  moreover have "runSt w (rs_run s) = Some (run_status r)" using assms(3) by (simp add: runSt_def)
  ultimately show ?thesis
    using assms
    by (auto simp: raiseNewHalt_def GetRunStep_def GetRun_def CreateHITL_def UpdateRunStatus_def run_simps
          Let_def haltRequest_def runSt_update_status)
qed

text \<open>
  without infrastructure failures a halt raised on a step without a request pauses its running
  run and adds one pending probe-halt request with the reason of the breach, leaving the steps as
  they are; raised again while that request is pending, it returns the same request and changes
  nothing.
\<close>

theorem probe_halt_raised_once:
  assumes "w_faults w = []" and "tbl_find rs_id j (w_steps w) = Some s"
    and "tbl_find run_id (rs_run s) (w_runs w) = Some r" and "run_status r = RunStatusRunning"
    and "tbl_find hitl_step j (w_hitl w) = None"
  shows "\<exists>h w'. run_state (RaiseProbeHalt svc j reason) w = (Inr h, w') \<and> w_hitl w' = w_hitl w @ [h]
    \<and> hitl_status h = HITLStatusPending \<and> hitl_halt_reason h = Some reason
    \<and> runSt w' = (runSt w)(rs_run s \<mapsto> RunStatusPaused) \<and> w_steps w' = w_steps w
    \<and> run_state (RaiseProbeHalt svc j reason') w' = (Inr h, w')"
proof -
  from raiseNewHalt_effect [OF assms(1-3), of svc reason] assms(4) obtain h w' where
    h: "run_state (raiseNewHalt svc j reason) w = (Inr h, w')" "w_hitl w' = w_hitl w @ [h]" "hitl_step h = j"
      "hitl_status h = HITLStatusPending" "hitl_halt_reason h = Some reason" "w_steps w' = w_steps w"
      "w_faults w' = []" "runSt w' = (runSt w)(rs_run s \<mapsto> RunStatusPaused)" by auto
  have "run_state (RaiseProbeHalt svc j reason) w = (Inr h, w')"
    using assms(1,5) h(1) by (simp add: RaiseProbeHalt_def GetHITLByRunStepID_def run_simps)
  moreover have "run_state (RaiseProbeHalt svc j reason') w' = (Inr h, w')"
    using assms(5) h(2-4,7)
    by (simp add: RaiseProbeHalt_def GetHITLByRunStepID_def run_simps tbl_find_append)
  ultimately show ?thesis using h by blast
qed

text \<open>
  a second breach of a step is not deduplicated. Once the first request of a step is decided
  and a second one is pending, the lookup by step returns the decided one, and every further halt
  adds another pending request for the same step.
\<close>

theorem probe_halt_duplicates:
  assumes "w_faults w = []" and "tbl_find rs_id j (w_steps w) = Some s"
    and "tbl_find run_id (rs_run s) (w_runs w) = Some r"
    and "tbl_find hitl_step j (w_hitl w) = Some old" and "hitl_status old \<noteq> HITLStatusPending"
    and "pending \<in> set (w_hitl w)" and "hitl_step pending = j" and "hitl_status pending = HITLStatusPending"
  shows "\<exists>h w'. run_state (RaiseProbeHalt svc j reason) w = (Inr h, w') \<and> w_hitl w' = w_hitl w @ [h]
    \<and> 2 \<le> length (filter (\<lambda>x. hitl_step x = j \<and> hitl_status x = HITLStatusPending) (w_hitl w'))"
proof -
  from raiseNewHalt_effect [OF assms(1-3), of svc reason] obtain h w' where
    h: "run_state (raiseNewHalt svc j reason) w = (Inr h, w')" "w_hitl w' = w_hitl w @ [h]" "hitl_step h = j"
      "hitl_status h = HITLStatusPending" by auto
  have "run_state (RaiseProbeHalt svc j reason) w = (Inr h, w')"
    using assms(1,4,5) h(1) by (simp add: RaiseProbeHalt_def GetHITLByRunStepID_def run_simps)
  moreover have "pending \<in> set (filter (\<lambda>x. hitl_step x = j \<and> hitl_status x = HITLStatusPending) (w_hitl w))"
    using assms(6-8) by simp
  then have "filter (\<lambda>x. hitl_step x = j \<and> hitl_status x = HITLStatusPending) (w_hitl w) \<noteq> []"
    by (metis empty_iff list.set(1))
  ultimately show ?thesis using h by (auto simp: Suc_le_eq)
qed

end
