(* ===== verification/RunWitnesses.thy ===== *)
theory RunWitnesses
  imports ExecutorWitnesses RunCancel RunControl HITLSpec
begin

text \<open>
  The properties of the run service and of the human-in-the-loop service applied to the sample
  project.
\<close>

section \<open>Services and states\<close>

definition sample_raw :: pipeline_config_raw where
  "sample_raw = \<lparr>raw_groups = groups (sample_config [] []), raw_steps = []\<rparr>"

definition sample_svc :: run_svc where
  "sample_svc =
     \<lparr>s_agents = True, s_stacks = True, s_events = True, s_jobs = True, s_runtime = True,
      s_containers = True, s_parse_uuid = (\<lambda>s. None), s_unmarshal = (\<lambda>s. Inr sample_raw)\<rparr>"

definition sample_hitl :: hitl_svc where
  "sample_hitl = \<lparr>h_jobs = True, h_events = True\<rparr>"


text \<open>Evaluation of the queries in a state without pending failures.\<close>

lemmas eval_defs = op_defs run_simps tbl_find_update

abbreviation running_world :: world where
  "running_world \<equiv> sample_world (sample_run RunStatusRunning [] []) [sample_a StepStatusRunning, sample_b StepStatusPending]"

lemma run_service_moves_lawfully_witness:
  "runSt (after (CancelRun sample_svc 1 20) running_world) 20 = Some RunStatusCancelled
   \<and> run_step_ok RunStatusRunning RunStatusCancelled"
proof -
  have p: "runSt (after (CancelRun sample_svc 1 20) running_world) 20 = Some RunStatusCancelled"
    using CancelRun_effect [of running_world 20 "sample_run RunStatusRunning [] []" sample_svc]
    by (auto simp: run_step_ok_def after_def)
  with run_service_moves_lawfully [of running_world "after (CancelRun sample_svc 1 20) running_world"
      20 RunStatusCancelled sample_svc 1 10 32 20 RunStatusRunning RunStatusCancelled]
  show ?thesis by simp
qed

lemma cancel_run_closes_witness:
  "\<exists>u w'. run_state (CancelRun sample_svc 1 20) running_world = (Inr u, w')
     \<and> runSt w' 20 = Some RunStatusCancelled \<and> stepSt w' 31 = Some StepStatusCancelled
     \<and> stepSt w' 32 = Some StepStatusCancelled \<and> storySt w' 10 = Some StoryStatusBacklog"
  using cancel_run_closes [of running_world 20 "sample_run RunStatusRunning [] []" sample_svc]
  by (auto simp: run_active_def step_open_def uuid_nil_def)

lemma executor_overwrites_cancellation_witness:
  "\<exists>u v w'. run_state (CancelRun sample_svc 1 20) running_world = (Inr u, v)
     \<and> runSt v 20 = Some RunStatusCancelled \<and> runSt w' 20 = Some RunStatusCompleted"
proof -
  let ?r = "sample_run RunStatusRunning [] []"
  obtain u v where c: "run_state (CancelRun sample_svc (run_project ?r) 20) running_world = (Inr u, v)"
    using CancelRun_effect [of running_world 20 ?r sample_svc] by (auto simp: run_step_ok_def)
  have "s \<in> set (w_steps running_world) \<and> rs_status s = StepStatusPending \<and> succeeds sample_env (rs_action s)
      \<and> transitionFor (parseTransitionPolicy ?r) (rs_stage_id s) = TransitionAuto"
    if "s \<in> set [sample_b StepStatusPending]" for s
    using that by (auto simp: sample_succeeds)
  from executor_overwrites_cancellation [OF c _ _ _ _ _ _ _ _ this,
      where run = ?r and cur = None and prev = None and meta = Map.empty
      and ss = "[sample_b StepStatusPending]"] c show ?thesis
    by (auto simp: run_active_def uuid_nil_def)
qed


section \<open>Launching\<close>

definition launch_world :: world where
  "launch_world = empty_world\<lparr>w_projects := [sample_project], w_stories := [sample_story],
     w_configs := [\<lparr>pc_id = 0, pc_project = 1, pc_yaml = ''yaml'', pc_version = 1, pc_created_at = 0, pc_updated_at = 0\<rparr>]\<rparr>"

definition launch_config :: pipeline_config_yaml where
  "launch_config = \<lparr>groups = map normalizeGroup (groups (sample_config [] []))\<rparr>"

lemma launch_world_simps [simp]:
  "w_faults launch_world = []" "w_runs launch_world = []" "w_steps launch_world = []"
  "w_projects launch_world = [sample_project]" "w_stories launch_world = [sample_story]"
  "w_configs launch_world = [\<lparr>pc_id = 0, pc_project = 1, pc_yaml = ''yaml'', pc_version = 1, pc_created_at = 0, pc_updated_at = 0\<rparr>]"
  by (simp_all add: launch_world_def empty_world_def)

lemma launch_parse: "ParsePipelineConfigYAML (s_unmarshal sample_svc) y = Inr c \<longleftrightarrow> c = launch_config"
  by (auto simp: ParsePipelineConfigYAML_groups launch_config_def sample_svc_def sample_raw_def rawGroups_def
        sample_config_def intro: pipeline_config_yaml.equality)

lemma launch_stages:
  "x \<in> set (FlatStepsWithStage launch_config) \<Longrightarrow>
     ps_agent_id (sws_step x) = [] \<and> ps_action_type (sws_step x) \<in> {''git_branch'', ''git_pr''}
     \<and> TransitionForStage launch_config (sws_group_id x) = TransitionAuto"
  by (auto simp: FlatStepsWithStage_concat stamped_def launch_config_def sample_config_def sample_pstep_def
        TransitionForStage_def transitionIn_normalize)

lemma launch_flat: "s \<in> set (FlatSteps launch_config) \<Longrightarrow> ps_agent_id s = [] \<and> ps_action_type s \<in> {''git_branch'', ''git_pr''}"
  using launch_stages by (auto simp: FlatStepsWithStage_steps [symmetric])

lemma launch_ok: "launchAllowed sample_svc 1 10 launch_config launch_world"
  "\<forall>s \<in> set (FlatSteps launch_config). stepResolves sample_svc launch_world s"
proof -
  have "FlatSteps launch_config \<noteq> []"
    by (simp add: FlatSteps_concat launch_config_def sample_config_def)
  then show "launchAllowed sample_svc 1 10 launch_config launch_world"
    by (auto simp: launchAllowed_def launch_parse sample_story_def story_status_consts)
  show "\<forall>s \<in> set (FlatSteps launch_config). stepResolves sample_svc launch_world s"
    by (auto simp: stepResolves_def needsAgent_def dest!: launch_flat)
qed

lemma launch_run:
  obtains run steps w' where "run_state (LaunchRun sample_svc 1 10 7) launch_world = (Inr (run, steps), w')"
    "w_faults w' = []"
  using LaunchRun_succeeds [OF _ launch_ok(1) _ _ launch_ok(2), of 7] by (auto simp: sample_svc_def)

lemma launch_succeeds_witness:
  "\<exists>run steps w'. run_state (LaunchRun sample_svc 1 10 7) launch_world = (Inr (run, steps), w')"
  using launch_succeeds [OF _ launch_ok(1) _ _ launch_ok(2), of 7] by (simp add: sample_svc_def)

lemma launch_creates_run_witness:
  "\<exists>run steps w'. run_state (LaunchRun sample_svc 1 10 7) launch_world = (Inr (run, steps), w')
     \<and> w_runs w' = [run] \<and> map rs_name steps = [''a'', ''b'']"
proof -
  obtain run steps w' where r: "run_state (LaunchRun sample_svc 1 10 7) launch_world = (Inr (run, steps), w')"
    by (rule launch_run)
  from launch_creates_run [OF r] have c: "launched 1 10 launch_config run steps launch_world w'"
    by (auto simp: launchAllowed_def launch_parse)
  then have "map stepRow steps = launchRows (run_id run) launch_config" by (simp add: launched_def)
  then have "map (fst \<circ> snd) (map stepRow steps) = [''a'', ''b'']"
    by (simp add: launchRows_eq FlatSteps_concat launch_config_def sample_config_def sample_pstep_def)
  then have "map rs_name steps = [''a'', ''b'']" by (simp add: stepRow_def comp_def)
  with r c show ?thesis by (auto simp: launched_def)
qed

lemma launch_keeps_single_active_witness:
  "\<exists>res w'. run_state (LaunchRun sample_svc 1 10 7) launch_world = (res, w') \<and> singleActive w'"
proof -
  obtain res w' where r: "run_state (LaunchRun sample_svc 1 10 7) launch_world = (res, w')" by fastforce
  have "singleActive launch_world" by (simp add: singleActive_def)
  from launch_keeps_single_active [OF this r] r show ?thesis by blast
qed

lemma launched_run_completes_witness:
  "\<exists>run steps w' v. run_state (LaunchRun sample_svc 1 10 7) launch_world = (Inr (run, steps), w')
     \<and> run_state (ExecuteRun sample_env (run_id run)) w' = (Inr (), v)
     \<and> runSt v (run_id run) = Some RunStatusCompleted \<and> storySt v 10 = Some StoryStatusDone"
proof -
  obtain run steps w' where r: "run_state (LaunchRun sample_svc 1 10 7) launch_world = (Inr (run, steps), w')"
    "w_faults w' = []" by (rule launch_run)
  have "w_projects w' = [sample_project]"
    using r(1) by (cases rule: LaunchRun_cases) (auto simp: launched_def)
  then have b: "x_circuit_breaker sample_env \<longrightarrow> (\<exists>n m. breaker_of 1 w' = Some (n, False, m))"
    by (auto simp: breaker_of_def sample_project_def)
  have a: "succeeds sample_env (ps_action_type (sws_step x)) \<and> TransitionForStage c (sws_group_id x) = TransitionAuto"
    if "launchAllowed sample_svc 1 10 c launch_world" "x \<in> set (FlatStepsWithStage c)" for c x
  proof -
    have "c = launch_config" using that(1) by (auto simp: launchAllowed_def launch_parse)
    with that(2) launch_stages [of x] show ?thesis by (auto simp: sample_succeeds)
  qed
  from launched_run_completes [OF r(1) _ r(2) _ b _ _ a] r(1) show ?thesis
    by (fastforce simp: idsFresh_def uuid_nil_def)
qed


section \<open>Manual stages and retries\<close>

abbreviation ship_stage :: stage_ref where
  "ship_stage \<equiv> \<lparr>sr_id = ''ship'', sr_name = ''Ship''\<rparr>"

lemma manual_stage_parks_witness:
  "\<exists>w'. run_state (runLoop sample_env (sample_run RunStatusRunning [] TransitionManual)
        (parseTransitionPolicy (sample_run RunStatusRunning [] TransitionManual))
        [sample_b StepStatusPending] (Some build_stage) None Map.empty)
      (sample_world (sample_run RunStatusRunning [] TransitionManual) [sample_b StepStatusPending])
    = (Inl (Inr ()), w') \<and> runSt w' 20 = Some RunStatusPaused"
  using manual_stage_parks [of "sample_world (sample_run RunStatusRunning [] TransitionManual) [sample_b StepStatusPending]"
      "parseTransitionPolicy (sample_run RunStatusRunning [] TransitionManual)" "sample_b StepStatusPending"
      Map.empty "Some build_stage" "sample_run RunStatusRunning [] TransitionManual" sample_env "[]" None]
  by (auto simp: stageStarted_def autoRef_def matches_def runOK_def simp del: runLoop.simps)

definition parked_run :: run where
  "parked_run = (sample_run RunStatusPaused [] TransitionManual)
     \<lparr>run_metadata := parkedMetadata Map.empty ship_stage\<rparr>"

lemma parked_run_simps [simp]:
  "run_id parked_run = 20" "run_story parked_run = 10" "run_status parked_run = RunStatusPaused"
  "run_metadata parked_run = parkedMetadata Map.empty ship_stage"
  by (simp_all add: parked_run_def)

lemma start_stage_releases_witness:
  "\<exists>u w'. run_state (StartStage sample_svc 1 10) (sample_world parked_run [sample_b StepStatusPending]) = (Inr u, w')
     \<and> runSt w' 20 = Some RunStatusRunning"
proof -
  have "singleActive (sample_world parked_run [sample_b StepStatusPending])" by (simp add: singleActive_def)
  moreover have "story_project sample_story = 1" "s_jobs sample_svc" by (simp_all add: sample_story_def sample_svc_def)
  ultimately show ?thesis
    using start_stage_releases [of "sample_world parked_run [sample_b StepStatusPending]" 10 sample_story parked_run
        Map.empty ship_stage sample_svc sample_env parked_run None] by auto
qed

definition failed_world :: world where
  "failed_world = (sample_world (sample_run RunStatusFailed [] []) [sample_a StepStatusCompleted, sample_b StepStatusFailed])"

lemma failed_world_simps [simp]:
  "w_faults failed_world = []" "w_runs failed_world = [sample_run RunStatusFailed [] []]"
  "w_steps failed_world = [sample_a StepStatusCompleted, sample_b StepStatusFailed]"
  "w_next failed_world = 100" "breaker_of (Suc 0) failed_world = Some (0, False, 3)"
  by (simp_all add: failed_world_def) (simp add: sample_world_def empty_world_def)

lemma sample_limit: "maxRetriesFor (run_snapshot (sample_run st [] [])) (rs_name (sample_b x)) = 3"
  by (simp add: maxRetriesFor_def sample_run_def FlatSteps_concat sample_config_def sample_pstep_def)

lemma sample_chain [simp]:
  "rootStep (sample_b x) = 32" "retriesOf 32 failed_world = []"
  by (simp_all add: rootStep_def retriesOf_def sample_a_def sample_b_def blank_step_def)

lemma retry_appends_step_witness:
  "\<exists>x w' n. run_state (RetryStep sample_svc 20 32) failed_world = (Inr x, w')
     \<and> w_steps w' = [sample_a StepStatusCompleted, sample_b StepStatusFailed, n] \<and> rs_action n = ''git_pr''"
  using retry_appends_step [of failed_world 20 "sample_run RunStatusFailed [] []" 32 "sample_b StepStatusFailed" sample_svc]
  by (fastforce simp: sample_limit)

lemma retry_bounded_witness:
  "\<exists>x w'. run_state (RetryStep sample_svc 20 32) failed_world = (Inr x, w') \<and> length (retriesOf 32 w') = 1"
proof -
  obtain x w' where r: "run_state (RetryStep sample_svc 20 32) failed_world = (Inr x, w')"
    "w_steps w' = w_steps failed_world @ [retryRow (sample_b StepStatusFailed) failed_world]"
    using RetryStep_effect [of failed_world 20 "sample_run RunStatusFailed [] []" 32 "sample_b StepStatusFailed" sample_svc]
    by (auto simp: sample_limit)
  have "length (retriesOf 32 w') \<noteq> length (retriesOf 32 failed_world)"
    using retriesOf_append [OF r(2), of 32] by simp
  from retry_bounded [OF r(1) this] r(1) show ?thesis by (cases x) auto
qed

lemma retry_reexecutes_failed_step_witness:
  "\<exists>x w1 w2. run_state (RetryStep sample_svc 20 32) failed_world = (Inr x, w1)
     \<and> run_state (ExecuteRun sample_env 20) w1 = (Inr (), w2)
     \<and> stepSt w1 32 = Some StepStatusFailed \<and> stepSt w2 32 = Some StepStatusCompleted
     \<and> stepSt w2 100 = Some StepStatusCompleted"
proof -
  have "succeeds sample_env (rs_action x)
      \<and> transitionFor (parseTransitionPolicy (sample_run RunStatusFailed [] [])) (rs_stage_id x) = TransitionAuto"
    if "x \<in> set (w_steps failed_world)" for x
    using that by (auto simp: sample_succeeds)
  from retry_reexecutes_failed_step [of failed_world 20 "sample_run RunStatusFailed [] []" 32
      "sample_b StepStatusFailed" sample_env, OF _ _ _ _ _ _ _ _ _ _ _ _ this, of sample_svc]
  show ?thesis by (fastforce simp: sample_limit idsFresh_def)
qed

definition rival_run :: run where
  "rival_run = (sample_run RunStatusRunning [] [])\<lparr>run_id := 21\<rparr>"

abbreviation rival_world :: world where
  "rival_world \<equiv> failed_world\<lparr>w_runs := [sample_run RunStatusFailed [] [], rival_run]\<rparr>"

lemma retry_breaks_single_active_witness:
  "\<exists>x w'. run_state (RetryStep sample_svc 20 32) rival_world = (Inr x, w') \<and> \<not> singleActive w'"
proof -
  have "activeRun 10 rival_run" "run_id rival_run \<noteq> 20"
    by (simp_all add: rival_run_def activeRun_def run_active_def)
  moreover have "retriesOf 32 rival_world = retriesOf 32 failed_world" by (simp add: retriesOf_def)
  then have "retriesOf 32 rival_world = []" by simp
  ultimately show ?thesis
    using retry_breaks_single_active [of rival_world 20 "sample_run RunStatusFailed [] []" 32
        "sample_b StepStatusFailed" rival_run sample_svc]
    by (simp add: sample_limit)
qed


section \<open>Human-in-the-loop requests\<close>

definition gated_world :: "run_status \<Rightarrow> hitl_request list \<Rightarrow> world" where
  "gated_world st hs = (sample_world (sample_run st [] []) [sample_a StepStatusWaitingApproval, sample_b StepStatusPending])
     \<lparr>w_hitl := hs\<rparr>"

lemma gated_world_simps [simp]:
  "w_faults (gated_world st hs) = []" "w_runs (gated_world st hs) = [sample_run st [] []]"
  "w_steps (gated_world st hs) = [sample_a StepStatusWaitingApproval, sample_b StepStatusPending]"
  "w_hitl (gated_world st hs) = hs" "w_jobs (gated_world st hs) = []"
  by (simp_all add: gated_world_def) (simp add: sample_world_def empty_world_def)

abbreviation pending_request :: hitl_request where
  "pending_request \<equiv> closed_request HITLStatusPending"

lemma closed_request_id [simp]: "hitl_id (closed_request st) = 40"
  by (simp add: closed_request_def gateRequest_def)

definition sample_halt :: halt_reason where
  "sample_halt = \<lparr>hr_probe = GuardWallclock, hr_on_fail = GuardOnFailHaltGate, hr_observed = 90,
     hr_threshold = 60, hr_unit = ''seconds'', hr_detail = []\<rparr>"

lemma hitl_decisions_final_witness:
  "closed_request HITLStatusApproved \<in> set (w_hitl (after (Reject sample_hitl 40 7 None)
     (gated_world RunStatusPaused [closed_request HITLStatusApproved])))"
  using hitl_decisions_final [of "gated_world RunStatusPaused [closed_request HITLStatusApproved]"
      "after (Reject sample_hitl 40 7 None) (gated_world RunStatusPaused [closed_request HITLStatusApproved])"
      sample_hitl 40 7 None HITLActionResume 31 sample_halt "closed_request HITLStatusApproved"]
  by simp

lemma approve_resumes_run_witness:
  "\<exists>u w'. run_state (Approve sample_hitl 40 7) (gated_world RunStatusPaused [pending_request]) = (Inr u, w')
     \<and> stepSt w' 31 = Some StepStatusCompleted \<and> runSt w' 20 = Some RunStatusRunning
     \<and> w_jobs w' = [JobExecuteRun 20]"
  using approve_resumes_run [of "gated_world RunStatusPaused [pending_request]" 40 pending_request
      "sample_a StepStatusWaitingApproval" "sample_run RunStatusPaused [] []" sample_hitl 7 sample_env
      "sample_run RunStatusPaused [] []" build_stage None]
  by (fastforce simp: sample_hitl_def)

lemma reject_leaves_run_paused_witness:
  "\<exists>u w'. run_state (Reject sample_hitl 40 7 None) (gated_world RunStatusPaused [pending_request]) = (Inr u, w')
     \<and> stepSt w' 31 = Some StepStatusFailed \<and> w_runs w' = [sample_run RunStatusPaused [] []] \<and> w_jobs w' = []"
  using reject_leaves_run_paused [of "gated_world RunStatusPaused [pending_request]" 40 pending_request
      "sample_a StepStatusWaitingApproval" sample_hitl 7 None]
  by fastforce

lemma halt_request_simps [simp]:
  "hitl_id (haltRequest i j h t) = i" "hitl_step (haltRequest i j h t) = j"
  "hitl_status (haltRequest i j h t) = HITLStatusPending" "hitl_gate_type (haltRequest i j h t) = HITLGateProbeHalt"
  by (simp_all add: haltRequest_def)

lemma resolve_applies_action_witness:
  "\<exists>u w'. run_state (Resolve sample_hitl 40 7 HITLActionAbort)
       (gated_world RunStatusPaused [haltRequest 40 31 sample_halt 0]) = (Inr u, w')
     \<and> stepSt w' 31 = Some StepStatusFailed \<and> runSt w' 20 = Some RunStatusFailed \<and> w_jobs w' = []"
  using resolve_applies_action [of "gated_world RunStatusPaused [haltRequest 40 31 sample_halt 0]" HITLActionAbort
      40 "haltRequest 40 31 sample_halt 0" "sample_a StepStatusWaitingApproval" "sample_run RunStatusPaused [] []"
      sample_hitl 7]
  by (auto simp: ValidHITLResolutionAction_def requeues_def hitl_consts)

lemma probe_halt_raised_once_witness:
  "\<exists>h w'. run_state (RaiseProbeHalt sample_hitl 31 sample_halt) (gated_world RunStatusRunning []) = (Inr h, w')
     \<and> runSt w' 20 = Some RunStatusPaused \<and> run_state (RaiseProbeHalt sample_hitl 31 sample_halt) w' = (Inr h, w')"
  using probe_halt_raised_once [of "gated_world RunStatusRunning []" 31 "sample_a StepStatusWaitingApproval"
      "sample_run RunStatusRunning [] []" sample_hitl sample_halt sample_halt]
  by fastforce

lemma probe_halt_duplicates_witness:
  "\<exists>h w'. run_state (RaiseProbeHalt sample_hitl 31 sample_halt)
       (gated_world RunStatusPaused [closed_request HITLStatusResolved, haltRequest 41 31 sample_halt 0]) = (Inr h, w')
     \<and> 2 \<le> length (filter (\<lambda>x. hitl_step x = 31 \<and> hitl_status x = HITLStatusPending) (w_hitl w'))"
  using probe_halt_duplicates [of "gated_world RunStatusPaused [closed_request HITLStatusResolved, haltRequest 41 31 sample_halt 0]"
      31 "sample_a StepStatusWaitingApproval" "sample_run RunStatusPaused [] []" "closed_request HITLStatusResolved"
      "haltRequest 41 31 sample_halt 0" sample_hitl sample_halt]
  by fastforce

end
