(* ===== verification/Scheduler.thy ===== *)
theory Scheduler
  imports Model "HOL-Library.List_Lexorder" "HOL-Library.Char_ord"
begin

text \<open>
  The scheduler (\<open>backend/internal/domain/service/scheduler_service.go\<close>): the execution layers of
  the stories of an epic, from their explicit dependencies and from the files they share. Strings
  are ordered bytewise. The order in which Go ranges over the map from files to stories is the
  parameter \<open>files\<close>.
\<close>

section \<open>The graph\<close>

record dag_state =
  d_adj :: "string \<Rightarrow> string list"
  d_deg :: "string \<Rightarrow> int"
  d_edges :: "(string \<times> string) list"

definition emptyDag :: dag_state where
  "emptyDag = \<lparr>d_adj = (\<lambda>k. []), d_deg = (\<lambda>k. 0), d_edges = []\<rparr>"

definition addEdge :: "string \<Rightarrow> string \<Rightarrow> dag_state \<Rightarrow> dag_state" where
  "addEdge a b st =
     (if (a, b) \<in> set (d_edges st) then st
      else st\<lparr>d_edges := d_edges st @ [(a, b)],
              d_adj := (d_adj st)(a := d_adj st a @ [b]),
              d_deg := (d_deg st)(b := d_deg st b + 1)\<rparr>)"

text \<open>\<open>byKey\<close>: the last story of a key.\<close>

definition byKey :: "story list \<Rightarrow> string \<Rightarrow> story option" where
  "byKey stories k = tbl_find story_key k (rev stories)"

definition addDependsOn :: "story list \<Rightarrow> story \<Rightarrow> dag_state \<Rightarrow> dag_state" where
  "addDependsOn stories s st =
     foldl (\<lambda>st dep. if byKey stories dep = None then st else addEdge dep (story_key s) st)
       st (elems (story_depends_on s))"

text \<open>\<open>dedup\<close> of a sorted list.\<close>

fun dedupFrom :: "string \<Rightarrow> string list \<Rightarrow> string list" where
  "dedupFrom prev [] = []"
| "dedupFrom prev (x # xs) = (if x \<noteq> prev then x # dedupFrom x xs else dedupFrom x xs)"

fun dedup :: "string list \<Rightarrow> string list" where
  "dedup [] = []"
| "dedup (x # xs) = x # dedupFrom x xs"

text \<open>\<open>fileIndex\<close>: the keys of the stories of a file, one entry per mention.\<close>

definition fileIndex :: "story list \<Rightarrow> string \<Rightarrow> string list" where
  "fileIndex stories f =
     concat (map (\<lambda>s. map (\<lambda>_. story_key s) (filter (\<lambda>x. x = f) (elems (story_target_files s)))) stories)"

fun addChain :: "story list \<Rightarrow> string list \<Rightarrow> dag_state \<Rightarrow> dag_state" where
  "addChain stories (a # b # ks) st =
     addChain stories (b # ks)
       (if byKey stories a = None \<or> byKey stories b = None then st else addEdge a b st)"
| "addChain stories ks st = st"

definition addFileConflictEdges :: "string list \<Rightarrow> story list \<Rightarrow> dag_state \<Rightarrow> dag_state" where
  "addFileConflictEdges files stories st =
     foldl (\<lambda>st f. if length (fileIndex stories f) < 2 then st
                   else addChain stories (dedup (sort (fileIndex stories f))) st) st files"

section \<open>The layers\<close>

definition takeKey :: "(string \<Rightarrow> string list) \<Rightarrow> (string \<Rightarrow> int) \<Rightarrow> string \<Rightarrow> string \<Rightarrow> int" where
  "takeKey adj deg key = foldl (\<lambda>d x. d(x := d x - 1)) (deg(key := -1)) (adj key)"

definition cycleDetected :: err where
  "cycleDetected = NewInvalidState ''DAG_CYCLE_DETECTED'' [T ''cycle detected in story dependencies'']"

function kahn ::
  "story list \<Rightarrow> (string \<Rightarrow> string list) \<Rightarrow> (string \<Rightarrow> int) \<Rightarrow> story list list \<Rightarrow> nat
     \<Rightarrow> story list list res" where
  "kahn stories adj deg layers processed =
     (if processed < length stories then
        let zeroKeys = sort (filter (\<lambda>k. deg k = 0) (map story_key stories)) in
        if zeroKeys = [] then Inl cycleDetected
        else kahn stories adj (foldl (takeKey adj) deg zeroKeys)
               (layers @ [map (\<lambda>k. the (byKey stories k)) zeroKeys]) (processed + length zeroKeys)
      else Inr layers)"
  by pat_completeness auto
termination
  by (relation "measure (\<lambda>(stories, adj, deg, layers, processed). length stories - processed)")
     (auto simp: length_greater_0_conv [symmetric] simp del: length_greater_0_conv)

declare kahn.simps [simp del]

definition dependencyGraph :: "string list \<Rightarrow> story list \<Rightarrow> dag_state" where
  "dependencyGraph files stories =
     addFileConflictEdges files stories (foldl (\<lambda>st s. addDependsOn stories s st) emptyDag stories)"

definition BuildDAG :: "string list \<Rightarrow> story list \<Rightarrow> story list list res" where
  "BuildDAG files stories =
     (if stories = [] then Inr []
      else let g = dependencyGraph files stories in kahn stories (d_adj g) (d_deg g) [] 0)"

end
