(* ===== verification/SchedulerSpec.thy ===== *)
theory SchedulerSpec
  imports Scheduler "HOL-Library.Multiset"
begin

text \<open>
  The correctness of the scheduler: its layers contain every story once, respect the dependencies
  and never put two stories of one file into the same layer; it fails exactly when the graph has a
  cycle, and it does not depend on the order in which files are visited. The graph may have a cycle
  although the dependencies have none.
\<close>

section \<open>The graph\<close>

text \<open>Adjacency and in-degrees are the ones of the edge list.\<close>

definition graphOK :: "dag_state \<Rightarrow> bool" where
  "graphOK st \<longleftrightarrow> distinct (d_edges st)
     \<and> (\<forall>a. d_adj st a = map snd (filter (\<lambda>e. fst e = a) (d_edges st)))
     \<and> (\<forall>b. d_deg st b = int (length (filter (\<lambda>e. snd e = b) (d_edges st))))"

lemma graphOK_empty [simp]: "graphOK emptyDag"
  by (simp add: graphOK_def emptyDag_def)

lemma graphOK_addEdge: "graphOK st \<Longrightarrow> graphOK (addEdge a b st)"
  by (auto simp: graphOK_def addEdge_def)

lemma edges_addEdge [simp]: "set (d_edges (addEdge a b st)) = insert (a, b) (set (d_edges st))"
  by (auto simp: addEdge_def)

lemma foldl_keeps: "P st \<Longrightarrow> (\<And>st x. P st \<Longrightarrow> P (f st x)) \<Longrightarrow> P (foldl f st xs)"
  by (induction xs arbitrary: st) auto

lemma graphOK_addChain: "graphOK st \<Longrightarrow> graphOK (addChain stories ks st)"
  by (induction stories ks st rule: addChain.induct) (auto simp: graphOK_addEdge)

lemma graphOK_addDependsOn: "graphOK st \<Longrightarrow> graphOK (addDependsOn stories s st)"
  unfolding addDependsOn_def by (erule foldl_keeps) (simp add: graphOK_addEdge)

lemma graphOK_dependencyGraph: "graphOK (dependencyGraph files stories)"
  unfolding dependencyGraph_def addFileConflictEdges_def
proof (rule foldl_keeps)
  show "graphOK (foldl (\<lambda>st s. addDependsOn stories s st) emptyDag stories)"
    by (rule foldl_keeps) (simp_all add: graphOK_addDependsOn)
qed (simp add: graphOK_addChain)

text \<open>The edges, as a set.\<close>

definition dependsEdges :: "story list \<Rightarrow> (string \<times> string) set" where
  "dependsEdges stories =
     {(dep, story_key s) |dep s. s \<in> set stories \<and> dep \<in> set (elems (story_depends_on s))
        \<and> dep \<in> story_key ` set stories}"

fun neighbours :: "string list \<Rightarrow> (string \<times> string) set" where
  "neighbours (a # b # ks) = insert (a, b) (neighbours (b # ks))"
| "neighbours ks = {}"

definition fileKeys :: "story list \<Rightarrow> string \<Rightarrow> string list" where
  "fileKeys stories f = sorted_list_of_set {story_key s |s. s \<in> set stories \<and> f \<in> set (elems (story_target_files s))}"

definition conflictEdges :: "string list \<Rightarrow> story list \<Rightarrow> (string \<times> string) set" where
  "conflictEdges files stories = (\<Union>f \<in> set files. neighbours (fileKeys stories f))"

lemma byKey_None: "byKey stories k = None \<longleftrightarrow> k \<notin> story_key ` set stories"
  by (simp add: byKey_def tbl_find_None_iff)

lemma edges_foldl_addDepends:
  "set (d_edges (foldl (\<lambda>st dep. if byKey stories dep = None then st else addEdge dep k st) st deps)) =
     set (d_edges st) \<union> {(dep, k) |dep. dep \<in> set deps \<and> dep \<in> story_key ` set stories}"
  by (induction deps arbitrary: st) (auto simp: byKey_None)

lemma edges_depends:
  "set (d_edges (foldl (\<lambda>st s. addDependsOn stories s st) st ss)) =
     set (d_edges st) \<union> {(dep, story_key s) |dep s. s \<in> set ss \<and> dep \<in> set (elems (story_depends_on s))
        \<and> dep \<in> story_key ` set stories}"
  by (induction ss arbitrary: st) (auto simp: addDependsOn_def edges_foldl_addDepends)

lemma edges_addChain:
  "set ks \<subseteq> story_key ` set stories \<Longrightarrow>
   set (d_edges (addChain stories ks st)) = set (d_edges st) \<union> neighbours ks"
  by (induction stories ks st rule: addChain.induct) (auto simp: byKey_None)

lemma dedupFrom_remdups: "dedupFrom p xs = tl (remdups_adj (p # xs))"
  by (induction p xs rule: dedupFrom.induct) (auto simp: remdups_adj_Cons split: list.splits)

lemma dedup_remdups: "dedup xs = remdups_adj xs"
  by (cases xs) (auto simp: dedupFrom_remdups remdups_adj_Cons split: list.splits)

lemma remdups_adj_strict: "sorted xs \<Longrightarrow> sorted_wrt (<) (remdups_adj (xs :: 'a :: linorder list))"
proof (induction xs rule: remdups_adj.induct)
  case (3 x y xs)
  show ?case
  proof (cases "x = y")
    case False
    with 3 have "\<forall>z \<in> set (y # xs). x < z" by fastforce
    with 3 False show ?thesis by simp
  qed (use 3 in simp)
qed simp_all

lemma dedup_sort: "dedup (sort xs) = sorted_list_of_set (set xs)"
proof -
  have "sorted_wrt (<) (dedup (sort xs))" by (simp add: dedup_remdups remdups_adj_strict)
  moreover have "set (dedup (sort xs)) = set xs" by (simp add: dedup_remdups)
  ultimately show ?thesis by (intro strict_sorted_equal) simp_all
qed


lemma set_fileIndex: "set (fileIndex stories f) = {story_key s |s. s \<in> set stories \<and> f \<in> set (elems (story_target_files s))}"
  by (auto simp: fileIndex_def)

lemma fileKeys_dedup: "dedup (sort (fileIndex stories f)) = fileKeys stories f"
  by (simp add: dedup_sort fileKeys_def set_fileIndex)

lemma neighbours_short: "length (fileIndex stories f) < 2 \<Longrightarrow> neighbours (fileKeys stories f) = {}"
  unfolding fileKeys_dedup [symmetric]
  by (cases "fileIndex stories f" rule: neighbours.cases) auto

lemma set_fileKeys: "set (fileKeys stories f) = {story_key s |s. s \<in> set stories \<and> f \<in> set (elems (story_target_files s))}"
  unfolding fileKeys_dedup [symmetric] by (simp add: dedup_remdups set_fileIndex)

lemma edges_conflicts:
  "set (d_edges (addFileConflictEdges files stories st)) = set (d_edges st) \<union> conflictEdges files stories"
proof (induction files arbitrary: st)
  case (Cons f files)
  have "set (fileKeys stories f) \<subseteq> story_key ` set stories" by (auto simp: set_fileKeys)
  with Cons show ?case
    by (auto simp: addFileConflictEdges_def conflictEdges_def fileKeys_dedup edges_addChain neighbours_short)
qed (simp add: addFileConflictEdges_def conflictEdges_def)

lemma edges_dependencyGraph:
  "set (d_edges (dependencyGraph files stories)) = dependsEdges stories \<union> conflictEdges files stories"
  by (simp add: dependencyGraph_def edges_conflicts edges_depends dependsEdges_def emptyDag_def)

section \<open>Removing a layer\<close>

lemma decrement_all: "foldl (\<lambda>d x. d(x := d x - 1)) d xs k = d k - int (count_list xs k)"
  by (induction xs arbitrary: d) auto

lemma takeKey_other: "k \<noteq> z \<Longrightarrow> takeKey adj deg z k = deg k - int (count_list (adj z) k)"
  by (simp add: takeKey_def decrement_all)

lemma takeKey_self: "takeKey adj deg z z \<le> -1"
  by (simp add: takeKey_def decrement_all)

lemma take_outside:
  "k \<notin> set zs \<Longrightarrow> foldl (takeKey adj) deg zs k = deg k - (\<Sum>z \<leftarrow> zs. int (count_list (adj z) k))"
  by (induction zs arbitrary: deg) (auto simp: takeKey_other)

lemma take_inside: "k \<in> set zs \<Longrightarrow> foldl (takeKey adj) deg zs k \<le> -1"
proof (induction zs rule: rev_induct)
  case (snoc z zs)
  then show ?case
    by (cases "k = z") (auto simp: takeKey_self takeKey_other)
qed simp

lemma take_taken: "deg k \<le> -1 \<Longrightarrow> foldl (takeKey adj) deg zs k \<le> -1"
proof (induction zs rule: rev_induct)
  case (snoc z zs)
  then show ?case
    by (cases "k = z") (auto simp: takeKey_self takeKey_other)
qed simp

lemma count_adj: "graphOK g \<Longrightarrow> count_list (d_adj g z) k = length (filter (\<lambda>e. fst e = z \<and> snd e = k) (d_edges g))"
proof -
  assume "graphOK g"
  then have "d_adj g z = map snd (filter (\<lambda>e. fst e = z) (d_edges g))" by (simp add: graphOK_def)
  then show ?thesis
    by (auto simp: count_list_eq_length_filter filter_map comp_def intro!: arg_cong [of _ _ length] filter_cong)
qed

lemma length_filter_disjoint:
  "(\<And>x. \<not> (P x \<and> Q x)) \<Longrightarrow> length (filter (\<lambda>x. P x \<or> Q x) xs) = length (filter P xs) + length (filter Q xs)"
  by (induction xs) auto

lemma sum_over_layer:
  "distinct zs \<Longrightarrow> (\<Sum>z \<leftarrow> zs. int (length (filter (\<lambda>e. fst e = z \<and> snd e = k) es))) =
     int (length (filter (\<lambda>e. fst e \<in> set zs \<and> snd e = k) es))"
proof (induction zs)
  case (Cons z zs)
  have "filter (\<lambda>e. fst e \<in> set (z # zs) \<and> snd e = k) es =
      filter (\<lambda>e. (fst e = z \<and> snd e = k) \<or> (fst e \<in> set zs \<and> snd e = k)) es"
    by (rule filter_cong) auto
  also have "length \<dots> = length (filter (\<lambda>e. fst e = z \<and> snd e = k) es)
      + length (filter (\<lambda>e. fst e \<in> set zs \<and> snd e = k) es)"
    by (rule length_filter_disjoint) (use Cons.prems in auto)
  finally show ?case using Cons by simp
qed simp

text \<open>
  The in-degrees when the keys \<open>P\<close> have been placed: those of \<open>P\<close> are negative, the others count
  the edges from the keys outside \<open>P\<close>.
\<close>

definition degOK :: "(string \<times> string) list \<Rightarrow> string set \<Rightarrow> (string \<Rightarrow> int) \<Rightarrow> bool" where
  "degOK es P deg \<longleftrightarrow> (\<forall>k \<in> P. deg k \<le> -1)
     \<and> (\<forall>k. k \<notin> P \<longrightarrow> deg k = int (length (filter (\<lambda>e. fst e \<notin> P \<and> snd e = k) es)))"

lemma degOK_start: "graphOK g \<Longrightarrow> degOK (d_edges g) {} (d_deg g)"
  by (simp add: degOK_def graphOK_def)

lemma degOK_layer:
  assumes "graphOK g" and "degOK (d_edges g) P deg" and "distinct zs" and "set zs \<inter> P = {}"
  shows "degOK (d_edges g) (P \<union> set zs) (foldl (takeKey (d_adj g)) deg zs)"
proof -
  have "foldl (takeKey (d_adj g)) deg zs k =
      int (length (filter (\<lambda>e. fst e \<notin> P \<union> set zs \<and> snd e = k) (d_edges g)))"
    if k: "k \<notin> P \<union> set zs" for k
  proof -
    have "foldl (takeKey (d_adj g)) deg zs k =
        int (length (filter (\<lambda>e. fst e \<notin> P \<and> snd e = k) (d_edges g)))
        - int (length (filter (\<lambda>e. fst e \<in> set zs \<and> snd e = k) (d_edges g)))"
      using assms(2) k
      by (simp add: take_outside count_adj [OF assms(1)] sum_over_layer [OF assms(3)] degOK_def)
    moreover have "filter (\<lambda>e. fst e \<notin> P \<and> snd e = k) (d_edges g) =
        filter (\<lambda>e. (fst e \<in> set zs \<and> snd e = k) \<or> (fst e \<notin> P \<union> set zs \<and> snd e = k)) (d_edges g)"
      using assms(4) by (intro filter_cong) auto
    ultimately show ?thesis
      using length_filter_disjoint [of "\<lambda>e. fst e \<in> set zs \<and> snd e = k" "\<lambda>e. fst e \<notin> P \<union> set zs \<and> snd e = k" "d_edges g"]
      by auto
  qed
  then show ?thesis using assms(2) by (auto simp: degOK_def take_inside take_taken)
qed

lemma degOK_zero:
  assumes "degOK es P deg"
  shows "deg k = 0 \<longleftrightarrow> k \<notin> P \<and> (\<forall>a. (a, k) \<in> set es \<longrightarrow> a \<in> P)"
proof (cases "k \<in> P")
  case True
  with assms have "deg k \<le> -1" by (simp add: degOK_def)
  with True show ?thesis by auto
next
  case False
  with assms have "deg k = int (length (filter (\<lambda>e. fst e \<notin> P \<and> snd e = k) es))" by (simp add: degOK_def)
  with False show ?thesis by (auto simp: filter_empty_conv)
qed


section \<open>The layers\<close>

definition keysOf :: "story list \<Rightarrow> string set" where
  "keysOf ss = story_key ` set ss"

text \<open>Every edge into a layer comes from an earlier layer.\<close>

definition layered :: "(string \<times> string) set \<Rightarrow> story list list \<Rightarrow> bool" where
  "layered E layers \<longleftrightarrow> (\<forall>i < length layers. \<forall>b \<in> keysOf (layers ! i). \<forall>a. (a, b) \<in> E \<longrightarrow>
     (\<exists>j < i. a \<in> keysOf (layers ! j)))"

lemma keysOf_append: "keysOf (xs @ ys) = keysOf xs \<union> keysOf ys"
  by (auto simp: keysOf_def)

lemma keysOf_concat: "a \<in> keysOf (concat layers) \<longleftrightarrow> (\<exists>j < length layers. a \<in> keysOf (layers ! j))"
proof -
  have "a \<in> keysOf (concat layers) \<longleftrightarrow> (\<exists>l \<in> set layers. a \<in> keysOf l)" by (auto simp: keysOf_def)
  also have "\<dots> \<longleftrightarrow> (\<exists>j < length layers. a \<in> keysOf (layers ! j))" by (metis in_set_conv_nth)
  finally show ?thesis .
qed

lemma layered_snoc:
  assumes "layered E layers" and "\<And>a b. b \<in> keysOf l \<Longrightarrow> (a, b) \<in> E \<Longrightarrow> a \<in> keysOf (concat layers)"
  shows "layered E (layers @ [l])"
  unfolding layered_def
proof (intro allI impI ballI)
  fix i b a
  assume i: "i < length (layers @ [l])" and b: "b \<in> keysOf ((layers @ [l]) ! i)" and e: "(a, b) \<in> E"
  have "\<exists>j < i. a \<in> keysOf (layers ! j) \<and> j < length layers"
  proof (cases "i < length layers")
    case True
    with assms(1) b e have "\<exists>j < i. a \<in> keysOf (layers ! j)" by (simp add: layered_def nth_append)
    with True show ?thesis using less_trans by blast
  next
    case False
    with i b e assms(2) have "a \<in> keysOf (concat layers)" by (simp add: nth_append)
    with False show ?thesis by (force simp: keysOf_concat)
  qed
  then show "\<exists>j < i. a \<in> keysOf ((layers @ [l]) ! j)" by (auto simp: nth_append)
qed

lemma byKey_key:
  assumes "k \<in> keysOf stories"
  shows "story_key (the (byKey stories k)) = k \<and> the (byKey stories k) \<in> set stories"
proof -
  have "byKey stories k \<noteq> None" using assms by (simp add: byKey_None keysOf_def)
  then obtain s where "byKey stories k = Some s" by blast
  then show ?thesis by (auto simp: byKey_def dest: tbl_find_eq_Some)
qed

text \<open>What holds of the layers placed so far.\<close>

definition placed :: "dag_state \<Rightarrow> story list \<Rightarrow> (string \<Rightarrow> int) \<Rightarrow> story list list \<Rightarrow> nat \<Rightarrow> bool" where
  "placed g stories deg layers n \<longleftrightarrow>
     degOK (d_edges g) (keysOf (concat layers)) deg \<and> layered (set (d_edges g)) layers
     \<and> distinct (map story_key (concat layers)) \<and> set (concat layers) \<subseteq> set stories
     \<and> n = length (concat layers)"

definition nextKeys :: "story list \<Rightarrow> (string \<Rightarrow> int) \<Rightarrow> string list" where
  "nextKeys stories deg = sort (filter (\<lambda>k. deg k = 0) (map story_key stories))"

lemma placed_next:
  assumes "graphOK g" and "distinct (map story_key stories)" and "placed g stories deg layers n"
  shows "placed g stories (foldl (takeKey (d_adj g)) deg (nextKeys stories deg))
    (layers @ [map (\<lambda>k. the (byKey stories k)) (nextKeys stories deg)]) (n + length (nextKeys stories deg))"
proof -
  let ?z = "nextKeys stories deg" and ?P = "keysOf (concat layers)"
  let ?l = "map (\<lambda>k. the (byKey stories k)) ?z"
  have z: "distinct ?z" "set ?z \<subseteq> keysOf stories"
    using assms(2) by (auto simp: nextKeys_def keysOf_def)
  have deg: "degOK (d_edges g) ?P deg" using assms(3) by (simp add: placed_def)
  have zero: "k \<in> set ?z \<Longrightarrow> k \<notin> ?P \<and> (\<forall>a. (a, k) \<in> set (d_edges g) \<longrightarrow> a \<in> ?P)" for k
    using degOK_zero [OF deg, of k] by (simp add: nextKeys_def)
  have keys: "map story_key ?l = ?z"
    using byKey_key z(2) by (simp add: subset_iff list_eq_iff_nth_eq)
  then have kl: "keysOf ?l = set ?z" by (metis keysOf_def set_map)
  then have kc: "keysOf (concat (layers @ [?l])) = ?P \<union> set ?z" by (simp add: keysOf_append)
  have "degOK (d_edges g) (?P \<union> set ?z) (foldl (takeKey (d_adj g)) deg ?z)"
    using zero by (intro degOK_layer [OF assms(1) deg z(1)]) auto
  moreover have "layered (set (d_edges g)) (layers @ [?l])"
    using assms(3) zero kl by (intro layered_snoc) (auto simp: placed_def)
  moreover have "distinct (map story_key (concat (layers @ [?l])))"
    using assms(3) keys z(1) zero by (auto simp: placed_def keysOf_def simp del: map_map)
  moreover have "set (concat (layers @ [?l])) \<subseteq> set stories"
    using assms(3) byKey_key z(2) by (auto simp: placed_def)
  ultimately show ?thesis using assms(3) kc by (simp add: placed_def)
qed

lemma kahn_unfold:
  "kahn stories adj deg layers n =
     (if n < length stories then
        if nextKeys stories deg = [] then Inl cycleDetected
        else kahn stories adj (foldl (takeKey adj) deg (nextKeys stories deg))
               (layers @ [map (\<lambda>k. the (byKey stories k)) (nextKeys stories deg)]) (n + length (nextKeys stories deg))
      else Inr layers)"
  by (subst kahn.simps) (simp add: nextKeys_def Let_def)

text \<open>The loop ends with every story placed, or with a set of stories none of which can be placed.\<close>

lemma kahn_result:
  assumes "graphOK g" and "distinct (map story_key stories)" and "placed g stories deg layers n"
    and "set (d_edges g) \<subseteq> keysOf stories \<times> keysOf stories"
  shows "case kahn stories (d_adj g) deg layers n of
      Inr res \<Rightarrow> layered (set (d_edges g)) res \<and> mset (concat res) = mset stories
    | Inl e \<Rightarrow> e = cycleDetected \<and> (\<exists>U. U \<noteq> {} \<and> (\<forall>k \<in> U. \<exists>a \<in> U. (a, k) \<in> set (d_edges g)))"
  using assms(3)
proof (induction "length stories - n" arbitrary: deg layers n rule: less_induct)
  case less
  let ?z = "nextKeys stories deg" and ?P = "keysOf (concat layers)"
  show ?case
  proof (cases "n < length stories")
    case False
    have d: "distinct (concat layers)" "distinct stories" "set (concat layers) \<subseteq> set stories" "n = length (concat layers)"
      using less.prems assms(2) by (auto simp: placed_def distinct_map)
    then have "set (concat layers) = set stories"
      using False by (metis card_subset_eq distinct_card List.finite_set card_mono le_antisym not_less)
    with d(1,2) have "mset (concat layers) = mset stories"
      using set_eq_iff_mset_eq_distinct by blast
    with False less.prems show ?thesis by (simp add: kahn_unfold placed_def)
  next
    case True
    show ?thesis
    proof (cases "?z = []")
      case stuck: True
      let ?U = "keysOf stories - ?P"
      have "?U \<noteq> {}"
      proof
        assume "?U = {}"
        then have "keysOf stories \<subseteq> ?P" by blast
        then have "card (keysOf stories) \<le> card ?P" by (intro card_mono) (simp_all add: keysOf_def)
        moreover have "card (keysOf stories) = length stories"
          using assms(2) distinct_card [of "map story_key stories"] by (simp add: keysOf_def)
        moreover have "card ?P \<le> length (concat layers)"
          using card_length [of "map story_key (concat layers)"] by (simp add: keysOf_def)
        ultimately show False using True less.prems by (simp add: placed_def)
      qed
      moreover have "\<exists>a \<in> ?U. (a, k) \<in> set (d_edges g)" if kU: "k \<in> ?U" for k
      proof -
        have "set ?z = {x \<in> keysOf stories. deg x = 0}" by (auto simp: nextKeys_def keysOf_def)
        then have "deg k \<noteq> 0" using stuck kU by auto
        then obtain a where "(a, k) \<in> set (d_edges g)" "a \<notin> ?P"
          using less.prems kU degOK_zero [of "d_edges g" ?P deg k] by (auto simp: placed_def)
        then show ?thesis using assms(4) by auto
      qed
      ultimately have "\<exists>U. U \<noteq> {} \<and> (\<forall>k \<in> U. \<exists>a \<in> U. (a, k) \<in> set (d_edges g))"
        by (intro exI [of _ ?U]) blast
      then show ?thesis using True stuck by (simp add: kahn_unfold)
    next
      case False
      have "length stories - (n + length ?z) < length stories - n"
        using True False by (cases ?z) auto
      from less.hyps [OF this placed_next [OF assms(1,2) less.prems]] show ?thesis
        using True False by (simp add: kahn_unfold [of stories _ deg])
    qed
  qed
qed


abbreviation graphEdges :: "string list \<Rightarrow> story list \<Rightarrow> (string \<times> string) set" where
  "graphEdges files stories \<equiv> dependsEdges stories \<union> conflictEdges files stories"

lemma neighbours_keys: "neighbours ks \<subseteq> set ks \<times> set ks"
  by (induction ks rule: neighbours.induct) auto

lemma graphEdges_keys: "graphEdges files stories \<subseteq> keysOf stories \<times> keysOf stories"
proof -
  have "set (fileKeys stories f) \<subseteq> keysOf stories" for f by (auto simp: set_fileKeys keysOf_def)
  then show ?thesis using neighbours_keys by (fastforce simp: dependsEdges_def conflictEdges_def keysOf_def)
qed

lemma BuildDAG_result:
  assumes "distinct (map story_key stories)"
  shows "case BuildDAG files stories of
      Inr res \<Rightarrow> layered (graphEdges files stories) res \<and> mset (concat res) = mset stories
    | Inl e \<Rightarrow> e = cycleDetected \<and> (\<exists>U. U \<noteq> {} \<and> (\<forall>k \<in> U. \<exists>a \<in> U. (a, k) \<in> graphEdges files stories))"
proof (cases "stories = []")
  case False
  let ?g = "dependencyGraph files stories"
  have "placed ?g stories (d_deg ?g) [] 0"
    using degOK_start [OF graphOK_dependencyGraph] by (simp add: placed_def layered_def keysOf_def)
  from kahn_result [OF graphOK_dependencyGraph assms this, unfolded edges_dependencyGraph]
  show ?thesis using graphEdges_keys False by (simp add: BuildDAG_def Let_def)
qed (simp add: BuildDAG_def layered_def)

text \<open>The layer of a key.\<close>

definition layerOf :: "story list list \<Rightarrow> string \<Rightarrow> nat" where
  "layerOf layers k = length (takeWhile (\<lambda>l. k \<notin> keysOf l) layers)"

lemma layerOf_first:
  "i < length layers \<Longrightarrow> k \<in> keysOf (layers ! i) \<Longrightarrow> layerOf layers k \<le> i"
  unfolding layerOf_def by (metis (mono_tags, lifting) linorder_not_le nth_length_takeWhile set_takeWhileD takeWhile_nth nth_mem)

lemma takeWhile_short: "\<exists>x \<in> set xs. \<not> P x \<Longrightarrow> length (takeWhile P xs) < length xs"
  by (induction xs) auto

lemma layerOf_edge:
  assumes "layered E layers" and "(a, b) \<in> E" and "b \<in> keysOf (concat layers)"
  shows "layerOf layers a < layerOf layers b"
proof -
  have "\<exists>l \<in> set layers. b \<in> keysOf l" using assms(3) by (auto simp: keysOf_def)
  then have i: "layerOf layers b < length layers" "b \<in> keysOf (layers ! layerOf layers b)"
    using takeWhile_short [of layers "\<lambda>l. b \<notin> keysOf l"]
      nth_length_takeWhile [of "\<lambda>l. b \<notin> keysOf l" layers]
    by (auto simp: layerOf_def)
  obtain j where "j < layerOf layers b" "a \<in> keysOf (layers ! j)"
    using assms(1,2) i unfolding layered_def by blast
  with layerOf_first [of j layers a] i(1) show ?thesis by simp
qed

lemma layered_acyclic:
  assumes "layered E layers" and "E \<subseteq> keysOf (concat layers) \<times> keysOf (concat layers)"
  shows "acyclic E"
proof -
  have "E \<subseteq> measure (layerOf layers)" using layerOf_edge [OF assms(1)] assms(2) by auto
  then show ?thesis by (meson wf_acyclic wf_measure wf_subset)
qed

lemma BuildDAG_cycles:
  assumes "distinct (map story_key stories)"
  shows "if acyclic (graphEdges files stories) then \<exists>layers. BuildDAG files stories = Inr layers
    else BuildDAG files stories = Inl cycleDetected"
proof (cases "BuildDAG files stories")
  case (Inr res)
  then have "layered (graphEdges files stories) res" "mset (concat res) = mset stories"
    using BuildDAG_result [OF assms, of files] by simp_all
  moreover from this(2) have "keysOf (concat res) = keysOf stories" by (metis keysOf_def mset_eq_setD)
  ultimately have "acyclic (graphEdges files stories)"
    using layered_acyclic graphEdges_keys by metis
  with Inr show ?thesis by simp
next
  case (Inl e)
  then obtain U where U: "e = cycleDetected" "U \<noteq> {}"
    "\<forall>k \<in> U. \<exists>a \<in> U. (a, k) \<in> graphEdges files stories"
    using BuildDAG_result [OF assms, of files] by auto
  have "finite (graphEdges files stories)"
    by (rule finite_subset [OF graphEdges_keys]) (simp add: keysOf_def)
  moreover have "\<not> wf (graphEdges files stories)"
  proof
    assume "wf (graphEdges files stories)"
    moreover obtain k where "k \<in> U" using U(2) by blast
    ultimately obtain z where "z \<in> U" "\<And>y. (y, z) \<in> graphEdges files stories \<Longrightarrow> y \<notin> U"
      by (rule wfE_min) blast
    with U(3) show False by blast
  qed
  ultimately have "\<not> acyclic (graphEdges files stories)" using finite_acyclic_wf by blast
  with Inl U(1) show ?thesis by simp
qed

text \<open>
  C29: \<open>BuildDAG\<close> decides cycles: for stories with distinct keys it returns layers exactly when the
  graph of the dependencies and of the file conflicts is acyclic, and \<open>DAG_CYCLE_DETECTED\<close>
  otherwise.
\<close>

theorem build_dag_decides_cycles:
  assumes "distinct (map story_key stories)"
  shows "if acyclic (graphEdges files stories) then \<exists>layers. BuildDAG files stories = Inr layers
    else BuildDAG files stories = Inl cycleDetected"
  using assms by (rule BuildDAG_cycles)

lemma neighbours_less: "sorted_wrt (<) ks \<Longrightarrow> (a, b) \<in> neighbours ks \<Longrightarrow> a < b"
  by (induction ks rule: neighbours.induct) auto

lemma neighbours_increasing:
  fixes f :: "string \<Rightarrow> nat"
  assumes "\<And>a b. (a, b) \<in> neighbours ks \<Longrightarrow> f a < f b"
  shows "sorted_wrt (\<lambda>a b. f a < f b) ks"
  using assms
proof (induction ks rule: neighbours.induct)
  case (1 a b ks)
  then have "sorted_wrt (\<lambda>a b. f a < f b) (b # ks)" "f a < f b" by simp_all
  then show ?case by (auto intro: less_trans)
qed simp_all

lemma increasing_distinct:
  fixes f :: "'a \<Rightarrow> nat"
  assumes "sorted_wrt (\<lambda>a b. f a < f b) ks" and "x \<in> set ks" and "y \<in> set ks" and "x \<noteq> y"
  shows "f x \<noteq> f y"
  using assms by (induction ks) auto

text \<open>
  C21: the layers \<open>BuildDAG\<close> returns are an execution order. For stories with distinct keys they
  contain every story exactly once; a story lies in a later layer than every story of the epic it
  depends on; and two different stories that share one of the files are never in the same layer.
\<close>

theorem build_dag_sound:
  assumes "BuildDAG files stories = Inr layers" and "distinct (map story_key stories)"
  shows "mset (concat layers) = mset stories
    \<and> (\<forall>s \<in> set stories. \<forall>dep \<in> set (elems (story_depends_on s)). dep \<in> story_key ` set stories \<longrightarrow>
         layerOf layers dep < layerOf layers (story_key s))
    \<and> (\<forall>s \<in> set stories. \<forall>t \<in> set stories. \<forall>f \<in> set files. s \<noteq> t
         \<and> f \<in> set (elems (story_target_files s)) \<and> f \<in> set (elems (story_target_files t)) \<longrightarrow>
         layerOf layers (story_key s) \<noteq> layerOf layers (story_key t))"
proof -
  have r: "layered (graphEdges files stories) layers" "mset (concat layers) = mset stories"
    using BuildDAG_result [OF assms(2), of files] assms(1) by simp_all
  have keys: "keysOf (concat layers) = keysOf stories" using r(2) by (metis keysOf_def mset_eq_setD)
  have edge: "layerOf layers a < layerOf layers b" if "(a, b) \<in> graphEdges files stories" for a b
    using layerOf_edge [OF r(1) that] graphEdges_keys that keys by blast
  have "layerOf layers dep < layerOf layers (story_key s)"
    if "s \<in> set stories" "dep \<in> set (elems (story_depends_on s))" "dep \<in> story_key ` set stories" for s dep
    using that by (intro edge) (auto simp: dependsEdges_def)
  moreover have "layerOf layers (story_key s) \<noteq> layerOf layers (story_key t)"
    if st: "s \<in> set stories" "t \<in> set stories" "s \<noteq> t" "f \<in> set files"
      and f: "f \<in> set (elems (story_target_files s))" "f \<in> set (elems (story_target_files t))" for s t f
  proof -
    have "sorted_wrt (\<lambda>a b. layerOf layers a < layerOf layers b) (fileKeys stories f)"
      using st(4) by (intro neighbours_increasing edge) (auto simp: conflictEdges_def)
    moreover have "story_key s \<in> set (fileKeys stories f)" "story_key t \<in> set (fileKeys stories f)"
      using st(1,2) f unfolding set_fileKeys by blast+
    moreover have "story_key s \<noteq> story_key t"
      using assms(2) st(1-3) by (auto simp: distinct_map inj_on_def)
    ultimately show ?thesis by (rule increasing_distinct)
  qed
  ultimately show ?thesis using r(2) by blast
qed

lemma graph_filter:
  assumes "graphOK g" and "graphOK h" and "set (d_edges g) = set (d_edges h)"
  shows "length (filter P (d_edges g)) = length (filter P (d_edges h))"
proof -
  have "distinct (d_edges g)" "distinct (d_edges h)" using assms(1,2) unfolding graphOK_def by blast+
  with assms(3) have "mset (d_edges g) = mset (d_edges h)" using set_eq_iff_mset_eq_distinct by blast
  then show ?thesis by (metis mset_filter size_mset)
qed

lemma foldl_take_graph:
  assumes "graphOK g" and "graphOK h" and "set (d_edges g) = set (d_edges h)"
  shows "foldl (takeKey (d_adj g)) deg zs = foldl (takeKey (d_adj h)) deg zs"
proof -
  have "count_list (d_adj g z) k = count_list (d_adj h z) k" for z k
    unfolding count_adj [OF assms(1)] count_adj [OF assms(2)] by (rule graph_filter [OF assms])
  then have "takeKey (d_adj g) d z = takeKey (d_adj h) d z" for d z
    unfolding takeKey_def fun_eq_iff decrement_all by simp
  then have "takeKey (d_adj g) = takeKey (d_adj h)" by blast
  then show ?thesis by simp
qed

lemma deg_graph:
  assumes "graphOK g" and "graphOK h" and "set (d_edges g) = set (d_edges h)"
  shows "d_deg g = d_deg h"
proof
  fix b
  have "d_deg g b = int (length (filter (\<lambda>e. snd e = b) (d_edges g)))"
    "d_deg h b = int (length (filter (\<lambda>e. snd e = b) (d_edges h)))"
    using assms(1,2) unfolding graphOK_def by blast+
  then show "d_deg g b = d_deg h b" using graph_filter [OF assms] by metis
qed

lemma kahn_graph:
  assumes "graphOK g" and "graphOK h" and "set (d_edges g) = set (d_edges h)"
  shows "kahn stories (d_adj g) deg layers n = kahn stories (d_adj h) deg layers n"
proof (induction "length stories - n" arbitrary: deg layers n rule: less_induct)
  case less
  show ?case
  proof (cases "n < length stories \<and> nextKeys stories deg \<noteq> []")
    case True
    then have "length stories - (n + length (nextKeys stories deg)) < length stories - n"
      by (cases "nextKeys stories deg") auto
    from less [OF this] True show ?thesis
      by (simp add: kahn_unfold [of stories _ deg] foldl_take_graph [OF assms])
  qed (auto simp: kahn_unfold [of stories _ deg])
qed

text \<open>
  the order in which Go visits the files does not matter: two visits of the same files give
  the same layers, or both the cycle error.
\<close>

theorem build_dag_file_order_irrelevant:
  assumes "set files' = set files"
  shows "BuildDAG files' stories = BuildDAG files stories"
proof -
  let ?g = "dependencyGraph files' stories" and ?h = "dependencyGraph files stories"
  have e: "set (d_edges ?g) = set (d_edges ?h)"
    using assms by (simp add: edges_dependencyGraph conflictEdges_def)
  note ok = graphOK_dependencyGraph graphOK_dependencyGraph
  show ?thesis
    by (simp add: BuildDAG_def Let_def kahn_graph [OF ok e] deg_graph [OF ok e])
qed


text \<open>Two stories of one file, the first depending on the second.\<close>

lemma conflicting_pair:
  assumes "story_key a < story_key b" and "f \<in> set (elems (story_target_files a))"
    and "f \<in> set (elems (story_target_files b))"
  shows "neighbours (fileKeys [a, b] f) = {(story_key a, story_key b)}"
proof -
  have "{story_key s |s. s \<in> set [a, b] \<and> f \<in> set (elems (story_target_files s))} =
      set [story_key a, story_key b]"
    using assms(2,3) by auto
  then have "fileKeys [a, b] f = sorted_list_of_set (set [story_key a, story_key b])"
    by (simp only: fileKeys_def)
  also have "\<dots> = [story_key a, story_key b]"
    using assms(1) by (intro strict_sorted_equal) auto
  finally show ?thesis by simp
qed

text \<open>
  \<open>BuildDAG\<close> rejects stories whose dependencies have no cycle: if one story depends on another
  with a greater key and both name a common file, the edge added for the file closes a cycle with
  the dependency, and the epic cannot be launched (\<open>addFileConflictEdges\<close> skips an edge only
  if the same edge exists, not the reverse one).
\<close>

theorem build_dag_spurious_cycle:
  assumes "story_key a < story_key b" and "elems (story_depends_on a) = [story_key b]"
    and "elems (story_depends_on b) = []" and "f \<in> set (elems (story_target_files a))"
    and "f \<in> set (elems (story_target_files b))" and "f \<in> set files"
  shows "acyclic (dependsEdges [a, b]) \<and> BuildDAG files [a, b] = Inl cycleDetected"
proof
  have d: "dependsEdges [a, b] = {(story_key b, story_key a)}"
  proof -
    have "\<exists>s. story_key a = story_key s \<and> (s = a \<or> s = b) \<and> story_key b \<in> set (elems (story_depends_on s))"
      using assms(2) by (intro exI [of _ a]) simp
    then show ?thesis using assms(2,3) by (auto simp: dependsEdges_def)
  qed
  show "acyclic (dependsEdges [a, b])"
    using assms(1) unfolding d by (subst acyclic_insert) (auto simp: acyclic_def)
  have "(story_key a, story_key b) \<in> graphEdges files [a, b]" "(story_key b, story_key a) \<in> graphEdges files [a, b]"
    using conflicting_pair [OF assms(1,4,5)] assms(6) by (auto simp: d conflictEdges_def)
  then have "(story_key a, story_key a) \<in> (graphEdges files [a, b])\<^sup>+" by (meson r_into_trancl trancl_into_trancl)
  then have "\<not> acyclic (graphEdges files [a, b])" unfolding acyclic_def by blast
  with BuildDAG_cycles [of "[a, b]" files] assms(1) show "BuildDAG files [a, b] = Inl cycleDetected" by auto
qed

end
