(* ===== verification/SchedulerWitnesses.thy ===== *)
theory SchedulerWitnesses
  imports SchedulerSpec
begin

text \<open>
  The properties of the scheduler applied to a sample epic.
\<close>

definition epic_story :: "uuid \<Rightarrow> string \<Rightarrow> string list \<Rightarrow> string list \<Rightarrow> story" where
  "epic_story i key deps fs =
     \<lparr>story_id = i, story_project = 1, story_epic = Some 5, story_key = key, story_title = key,
      story_objective = None, story_target_files = Some fs, story_depends_on = Some deps, story_scope = None,
      story_status = StoryStatusBacklog, story_acceptance = None, story_current_stage = None,
      story_source = ''manual'', story_external_id = None,
      story_external_item_id = None, story_source_url = None, story_synced_at = None,
      story_import_hash = None, story_writeback_status = None, story_created_at = 0, story_updated_at = 0\<rparr>"

lemma epic_story_simps [simp]:
  "story_key (epic_story i key deps fs) = key" "story_id (epic_story i key deps fs) = i"
  "elems (story_depends_on (epic_story i key deps fs)) = deps"
  "elems (story_target_files (epic_story i key deps fs)) = fs"
  by (simp_all add: epic_story_def elems_def)

abbreviation story_a :: story where "story_a \<equiv> epic_story 11 ''a'' [] [''x.go'']"
abbreviation story_b :: story where "story_b \<equiv> epic_story 12 ''b'' [] [''x.go'', ''y.go'']"
abbreviation story_c :: story where "story_c \<equiv> epic_story 13 ''c'' [''a''] [''z.go'']"

lemma sample_layers:
  "BuildDAG [''x.go'', ''y.go'', ''z.go''] [story_c, story_b, story_a] = Inr [[story_a], [story_b, story_c]]"
  by code_simp

lemma sample_distinct: "distinct (map story_key [story_c, story_b, story_a])"
  by simp

lemma build_dag_sound_witness:
  "layerOf [[story_a], [story_b, story_c]] ''a'' < layerOf [[story_a], [story_b, story_c]] ''c''"
  using build_dag_sound [OF sample_layers sample_distinct] by simp

lemma build_dag_decides_cycles_witness:
  "acyclic (graphEdges [''x.go'', ''y.go'', ''z.go''] [story_c, story_b, story_a])"
proof (rule ccontr)
  assume "\<not> ?thesis"
  with build_dag_decides_cycles [OF sample_distinct, of "[''x.go'', ''y.go'', ''z.go'']"] show False
    by (simp add: sample_layers)
qed

lemma build_dag_file_order_irrelevant_witness:
  "BuildDAG [''z.go'', ''x.go'', ''y.go''] [story_c, story_b, story_a] = Inr [[story_a], [story_b, story_c]]"
  using build_dag_file_order_irrelevant [of "[''z.go'', ''x.go'', ''y.go'']" "[''x.go'', ''y.go'', ''z.go'']"
      "[story_c, story_b, story_a]"] sample_layers
  by auto

lemma build_dag_spurious_cycle_witness:
  "BuildDAG [''x.go''] [epic_story 11 ''a'' [''b''] [''x.go''], epic_story 12 ''b'' [] [''x.go'']] = Inl cycleDetected"
  using build_dag_spurious_cycle [of "epic_story 11 ''a'' [''b''] [''x.go'']" "epic_story 12 ''b'' [] [''x.go'']"
      "''x.go''" "[''x.go'']"]
  by simp

end
