(* ===== verification/EpicRun.thy ===== *)
theory EpicRun
  imports RunService Scheduler
begin

text \<open>
  Epic runs: \<open>epic_run_service.go\<close> and \<open>parallel_group_executor.go\<close> of
  \<open>backend/internal/domain/service\<close>, with the repositories they use
  (\<open>epic_run_repository.go\<close>, \<open>epic_repo.go\<close>). The stories of a layer run in goroutines of an
  \<open>errgroup\<close>: they take their turns in the order the parameter \<open>ep_turns\<close> gives; what happens
  between two steps of a run is the executor's parameter \<open>x_other\<close>; and from the first error on,
  the remaining stories run under the cancelled context of the group, in which their calls fail as
  the parameter \<open>ep_cancel\<close> says.
\<close>

section \<open>The repositories\<close>

abbreviation set_epic_runs :: "epic_run list \<Rightarrow> world \<Rightarrow> world" where
  "set_epic_runs rs w \<equiv> w\<lparr>w_epic_runs := rs\<rparr>"

definition GetEpicByID :: "uuid \<Rightarrow> epic fop" where
  "GetEpicByID i = db_op ''failed to get epic'' (find_row w_epics epic_id ''epic'' i)"

definition CreateEpicRun :: "uuid \<Rightarrow> uuid \<Rightarrow> epic_run_status \<Rightarrow> epic_run fop" where
  "CreateEpicRun p e st =
     db_op ''failed to create epic run''
       (writing (\<lambda>w.
          if tbl_find project_id p (w_projects w) = None \<or> tbl_find epic_id e (w_epics w) = None
          then (Inl (NewNotFound ''project or epic'' (U p)), w)
          else
            let r = \<lparr>er_id = w_next w, er_project = p, er_epic = e, er_status = st,
                     er_created_at = w_clock w, er_completed_at = None\<rparr>
            in (Inr r, w\<lparr>w_epic_runs := w_epic_runs w @ [r], w_next := Suc (w_next w)\<rparr>)))"

definition GetEpicRunRow :: "uuid \<Rightarrow> epic_run fop" where
  "GetEpicRunRow i = db_op ''failed to get epic run'' (find_row w_epic_runs er_id ''epic_run'' i)"

text \<open>The completion time is written as it is given, \<open>NULL\<close> included.\<close>

definition set_epic_run_status ::
  "epic_run_status \<Rightarrow> time option \<Rightarrow> world \<Rightarrow> epic_run \<Rightarrow> epic_run" where
  "set_epic_run_status st ca w r = r\<lparr>er_status := st, er_completed_at := ca\<rparr>"

definition UpdateEpicRunStatus :: "uuid \<Rightarrow> epic_run_status \<Rightarrow> time option \<Rightarrow> epic_run fop" where
  "UpdateEpicRunStatus i st ca =
     db_op ''failed to update epic run status''
       (update_row w_epic_runs set_epic_runs er_id ''epic_run'' i (set_epic_run_status st ca))"

text \<open>\<open>epic_run_stories\<close> has the key \<open>(epic_run_id, story_id)\<close> and foreign keys on both and on the run.\<close>

definition same_ers :: "uuid \<Rightarrow> uuid \<Rightarrow> epic_run_story \<Rightarrow> bool" where
  "same_ers e s x \<longleftrightarrow> ers_epic_run x = e \<and> ers_story x = s"

definition run_ref_ok :: "uuid option \<Rightarrow> world \<Rightarrow> bool" where
  "run_ref_ok r w = (case r of None \<Rightarrow> True | Some i \<Rightarrow> tbl_find run_id i (w_runs w) \<noteq> None)"

definition InsertEpicRunStory :: "epic_run_story \<Rightarrow> unit fop" where
  "InsertEpicRunStory x =
     db_op ''failed to insert epic run story''
       (writing (\<lambda>w.
          if tbl_find er_id (ers_epic_run x) (w_epic_runs w) = None
             \<or> tbl_find story_id (ers_story x) (w_stories w) = None
             \<or> \<not> run_ref_ok (ers_run x) w
             \<or> (\<exists>y \<in> set (w_epic_run_stories w). same_ers (ers_epic_run x) (ers_story x) y)
          then (Inl (NewInternal ''failed to insert epic run story'' db_failure), w)
          else (Inr (), w\<lparr>w_epic_run_stories := w_epic_run_stories w @ [x]\<rparr>)))"

definition set_ers :: "uuid \<Rightarrow> uuid \<Rightarrow> string \<Rightarrow> uuid option \<Rightarrow> epic_run_story \<Rightarrow> epic_run_story" where
  "set_ers e s st r x = (if same_ers e s x then x\<lparr>ers_status := st, ers_run := r\<rparr> else x)"

definition UpdateEpicRunStoryStatus :: "uuid \<Rightarrow> uuid \<Rightarrow> string \<Rightarrow> uuid option \<Rightarrow> unit fop" where
  "UpdateEpicRunStoryStatus e s st r =
     db_op ''failed to update epic run story status''
       (writing (\<lambda>w.
          if \<not> run_ref_ok r w \<and> (\<exists>y \<in> set (w_epic_run_stories w). same_ers e s y)
          then (Inl (NewInternal ''failed to update epic run story status'' db_failure), w)
          else (Inr (), w\<lparr>w_epic_run_stories := map (set_ers e s st r) (w_epic_run_stories w)\<rparr>)))"

definition ListEpicRunStories :: "uuid \<Rightarrow> epic_run_story list fop" where
  "ListEpicRunStories e =
     db_op ''failed to list epic run stories''
       (reading (\<lambda>w. Inr (sort_key ers_group (sort_key ers_story
          (filter (\<lambda>x. ers_epic_run x = e) (w_epic_run_stories w))))))"

lemmas epic_ops [op_defs] =
  GetEpicByID_def CreateEpicRun_def GetEpicRunRow_def UpdateEpicRunStatus_def
  InsertEpicRunStory_def UpdateEpicRunStoryStatus_def ListEpicRunStories_def

section \<open>Running one story\<close>

record epic_env =
  ep_svc :: run_svc
  ep_exec :: exec_env
  ep_turns :: "story list \<Rightarrow> story list"
  ep_files :: "story list \<Rightarrow> string list"
  ep_cancel :: "bool list"

definition publishStoryCompleted :: "epic_run \<Rightarrow> uuid \<Rightarrow> uuid \<Rightarrow> string \<Rightarrow> unit op" where
  "publishStoryCompleted er sid rid st =
     publishEvent (er_project er) ''epic_run'' (er_id er) ''story.completed''
       [(''story_id'', JUuid sid), (''run_id'', JUuid rid), (''status'', JStr st)]"

definition reportStory :: "epic_run \<Rightarrow> uuid \<Rightarrow> uuid option \<Rightarrow> string \<Rightarrow> unit op" where
  "reportStory er sid rid st = do {
     _ \<leftarrow> UpdateEpicRunStoryStatus (er_id er) sid st rid;
     publishStoryCompleted er sid (case rid of None \<Rightarrow> uuid_nil | Some i \<Rightarrow> i) st }"

definition launchFailedMsg :: "story \<Rightarrow> msg" where
  "launchFailedMsg s = [T ''story '', T (story_key s), T '': failed to create run'']"

definition runFailedMsg :: "story \<Rightarrow> uuid \<Rightarrow> msg" where
  "runFailedMsg s i = [T ''story '', T (story_key s), T '': run '', U i, T '' failed'']"

definition runStory :: "epic_env \<Rightarrow> exec_env \<Rightarrow> epic_run \<Rightarrow> story \<Rightarrow> unit fop" where
  "runStory ee env er s = do {
     l \<leftarrow> LaunchRun (ep_svc ee) (er_project er) (story_id s) uuid_nil;
     case l of
       Inl e \<Rightarrow> do {
         _ \<leftarrow> reportStory er (story_id s) None ''failed'';
         fail (WrapErr (launchFailedMsg s) e) }
     | Inr rs \<Rightarrow> do {
         _ \<leftarrow> UpdateEpicRunStoryStatus (er_id er) (story_id s) ''running'' (Some (run_id (fst rs)));
         x \<leftarrow> ExecuteRun env (run_id (fst rs));
         case x of
           Inl e \<Rightarrow> do {
             _ \<leftarrow> reportStory er (story_id s) (Some (run_id (fst rs))) ''failed'';
             fail (WrapErr (runFailedMsg s (run_id (fst rs))) e) }
         | Inr _ \<Rightarrow> do {
             _ \<leftarrow> reportStory er (story_id s) (Some (run_id (fst rs))) ''completed'';
             ok () } } }"

section \<open>Running the layers\<close>

definition cancelled :: "exec_env \<Rightarrow> exec_env" where
  "cancelled env = env\<lparr>x_ctx_done := (\<lambda>_. True)\<rparr>"

text \<open>The calls made under the group's context after its cancellation have failures of their own;
  the caller's context is not cancelled.\<close>

definition underCancel :: "bool list \<Rightarrow> 'a op \<Rightarrow> 'a op" where
  "underCancel fs m = writing (\<lambda>w.
     case run_state m (w\<lparr>w_faults := fs\<rparr>) of (a, w') \<Rightarrow> (a, w'\<lparr>w_faults := w_faults w\<rparr>))"

text \<open>\<open>eg.Wait\<close>: every story has its turn, the first error is the result.\<close>

fun runGroup :: "epic_env \<Rightarrow> exec_env \<Rightarrow> epic_run \<Rightarrow> story list \<Rightarrow> unit fop" where
  "runGroup ee env er [] = ok ()"
| "runGroup ee env er (s # ss) = do {
     r \<leftarrow> runStory ee env er s;
     case r of
       Inl e \<Rightarrow> do { _ \<leftarrow> underCancel (ep_cancel ee) (runGroup ee (cancelled env) er ss); fail e }
     | Inr _ \<Rightarrow> runGroup ee env er ss }"

definition publishEpic :: "epic_run \<Rightarrow> string \<Rightarrow> unit op" where
  "publishEpic er act = publishEvent (er_project er) ''epic_run'' (er_id er) act []"

definition failEpic :: "epic_run \<Rightarrow> unit op" where
  "failEpic er = do {
     now \<leftarrow> time_now;
     _ \<leftarrow> UpdateEpicRunStatus (er_id er) EpicRunStatusFailed (Some now);
     publishEpic er ''failed'' }"

fun runLayers :: "epic_env \<Rightarrow> epic_run \<Rightarrow> nat \<Rightarrow> story list list \<Rightarrow> unit fop" where
  "runLayers ee er k [] = ok ()"
| "runLayers ee er k (g # gs) = do {
     _ \<leftarrow> publishEvent (er_project er) ''epic_run_group'' (er_id er) ''started''
       [(''group_index'', JInt (int k)), (''story_count'', JInt (int (length g)))];
     r \<leftarrow> runGroup ee (ep_exec ee) er (ep_turns ee g);
     case r of
       Inl e \<Rightarrow> do { _ \<leftarrow> failEpic er; fail e }
     | Inr _ \<Rightarrow> runLayers ee er (Suc k) gs }"

definition completeEpic :: "epic_run \<Rightarrow> unit fop" where
  "completeEpic er = do {
     now \<leftarrow> time_now;
     attempt (UpdateEpicRunStatus (er_id er) EpicRunStatusCompleted (Some now)) (\<lambda>_. do {
       _ \<leftarrow> publishEpic er ''completed'';
       ok () }) }"

definition Execute :: "epic_env \<Rightarrow> epic_run \<Rightarrow> story list list \<Rightarrow> unit fop" where
  "Execute ee er dag =
     attempt (wrap_err (WrapErr [T ''failed to transition epic run to running''])
       (UpdateEpicRunStatus (er_id er) EpicRunStatusRunning None)) (\<lambda>_. do {
     _ \<leftarrow> publishEpic er ''started'';
     attempt (runLayers ee er 0 dag) (\<lambda>_. completeEpic er) })"

section \<open>Launching an epic run\<close>

fun insertLayer :: "uuid \<Rightarrow> nat \<Rightarrow> story list \<Rightarrow> epic_run_story list fop" where
  "insertLayer e k [] = ok []"
| "insertLayer e k (s # ss) =
     (let x = \<lparr>ers_epic_run = e, ers_story = story_id s, ers_run = None, ers_group = int k,
               ers_status = ''pending''\<rparr> in
      attempt (InsertEpicRunStory x) (\<lambda>_.
      attempt (insertLayer e k ss) (\<lambda>xs. ok (x # xs))))"

fun insertLayers :: "uuid \<Rightarrow> nat \<Rightarrow> story list list \<Rightarrow> epic_run_story list fop" where
  "insertLayers e k [] = ok []"
| "insertLayers e k (g # gs) =
     attempt (insertLayer e k g) (\<lambda>xs. attempt (insertLayers e (Suc k) gs) (\<lambda>ys. ok (xs @ ys)))"

definition noStories :: err where
  "noStories = storyErr CategoryValidation ''EPIC_HAS_NO_STORIES'' [T ''epic has no stories to run'']"

text \<open>The last component of the result is what the spawned goroutine passes to \<open>Execute\<close>.\<close>

definition LaunchEpicRun ::
  "epic_env \<Rightarrow> uuid \<Rightarrow> uuid \<Rightarrow> (epic_run \<times> epic_run_story list \<times> story list list) fop" where
  "LaunchEpicRun ee pid eid =
     attempt (GetEpicByID eid) (\<lambda>e.
       if epic_project e \<noteq> pid then fail (NewNotFound ''epic'' (U eid))
       else attempt (ListStoriesByEpic eid 10000 0) (\<lambda>stories.
         if stories = [] then fail noStories
         else case BuildDAG (ep_files ee stories) stories of
           Inl err \<Rightarrow> fail err
         | Inr dag \<Rightarrow>
             attempt (CreateEpicRun pid eid EpicRunStatusPending) (\<lambda>er.
             attempt (insertLayers (er_id er) 0 dag) (\<lambda>rows. ok (er, rows, dag)))))"

definition GetEpicRun :: "uuid \<Rightarrow> (epic_run \<times> epic_run_story list) fop" where
  "GetEpicRun i =
     attempt (GetEpicRunRow i) (\<lambda>er. attempt (ListEpicRunStories i) (\<lambda>rows. ok (er, rows)))"

end
