(* ===== verification/StoreFrame.thy ===== *)
theory StoreFrame
  imports HITL EpicRun
begin

text \<open>
  The frame rule of the services. A reflexive and transitive relation between states that the
  writes of the store respect is respected by every operation of the services that use these
  writes, under every pattern of infrastructure failures. The locale \<open>exec_frame\<close> has the writes of
  the executor as assumptions and proves the rule of each of its operations once; \<open>run_frame\<close> adds
  those of the run service and of the human-in-the-loop service, \<open>store_frame\<close> those of epic runs.
\<close>

section \<open>The executor\<close>

locale exec_frame = frame R for R :: "world \<Rightarrow> world \<Rightarrow> bool" +
  assumes idle: "\<And>w fs t. (w_faults w = [] \<Longrightarrow> fs = []) \<Longrightarrow> R w (w\<lparr>w_faults := fs, w_clock := t\<rparr>)"
    and new_id: "\<And>w. R w (w\<lparr>w_next := Suc (w_next w)\<rparr>)"
    and run_status: "\<And>i st sa ca pa em. keeps R (UpdateRunStatus i st sa ca pa em)"
    and run_meta: "\<And>i m. keeps R (UpdateRunMetadata i m)"
    and step_status: "\<And>i st sa ca em. keeps R (UpdateRunStepStatus i st sa ca em)"
    and story: "\<And>s. keeps R (UpdateStory s)"
    and stage: "\<And>i st. keeps R (UpdateStoryCurrentStage i st)"
    and writeback: "\<And>i st. keeps R (SetWritebackStatus i st)"
    and breaker: "\<And>i. keeps R (IncrementCircuitBreakerCount i)"
    and breaker_reset: "\<And>i. keeps R (ResetCircuitBreaker i)"
    and create_hitl: "\<And>h. keeps R (CreateHITL h)"
    and event: "\<And>p ty e a pl. keeps R (Publish p ty e a pl)"
    and job: "\<And>what j. keeps R (enqueue what j)"
begin

lemmas writes [frame_intros] = run_status run_meta step_status story stage writeback breaker
  breaker_reset create_hitl event job

lemma faults_tail: "w_faults w = b # bs \<Longrightarrow> R w (w\<lparr>w_faults := bs\<rparr>)"
  using idle [of w bs "w_clock w"] by simp

lemma db_op_keeps: "keeps R m \<Longrightarrow> keeps R (db_op what m)"
  unfolding keeps_def
  by (auto simp: run_db_op_faults faults_tail split: list.split intro: frame_trans [OF faults_tail])

lemma reading_keeps [frame_intros]: "keeps R (reading f)"
  by (simp add: keeps_def run_simps frame_refl)

lemma clock [frame_intros]: "keeps R time_now"
  using idle [of w "w_faults w" for w] by (simp add: keeps_def run_simps)

lemma fresh [frame_intros]: "keeps R uuid_new"
  by (simp add: keeps_def run_simps new_id)

lemma find_row_keeps [frame_intros]: "keeps R (find_row tbl key what i)"
  unfolding find_row_def by (rule reading_keeps)

lemma reads [frame_intros]:
  "keeps R (GetRun i)" "keeps R (GetActiveRunByStory i)" "keeps R (ListRunsByStatus st)"
  "keeps R (GetRunStep i)" "keeps R (ListRunStepsByRun i)" "keeps R (ListRetryStepsByParent i)"
  "keeps R (GetStoryByID i)" "keeps R (ListStoriesByEpic i m n)" "keeps R (GetProjectByID i)"
  "keeps R (GetPipelineConfig i)" "keeps R (GetAgent i)" "keeps R (GetStack i)"
  "keeps R (GetHITLByID i)" "keeps R (GetHITLByRunStepID i)" "keeps R (GetEpicByID i)"
  "keeps R (GetEpicRunRow i)" "keeps R (ListEpicRunStories i)"
  unfolding op_defs by (intro db_op_keeps reading_keeps find_row_keeps)+

lemma publishing [frame_intros]: "keeps R (publishEvent p ty e a pl)"
  unfolding publishEvent_def by (intro frame_intros)

lemma enqueuing [frame_intros]: "keeps R (EnqueueExecuteRun i)" "keeps R (EnqueueWriteBack p s r st)"
  unfolding EnqueueExecuteRun_def EnqueueWriteBack_def by (intro frame_intros)+

lemma breaker_services [frame_intros]:
  "keeps R (RecordSuccess p)" "keeps R (RecordFailure p)" "keeps R (CheckCircuitBreaker p)"
  "keeps R (checkBreaker env run)" "keeps R (recordStepFailure env run)" "keeps R (Reset p)"
  unfolding breaker_ops checkBreaker_def recordStepFailure_def Reset_def by (intro frame_intros)+

lemma executor_parts [frame_intros]:
  "keeps R (enqueueWriteBack env run st)" "keeps R (updateStoryStatus env run st)"
  "keeps R (setCurrentStage run sg)" "keeps R (clearStoryCurrentStage run)"
  "keeps R (enterStage env run ref)" "keeps R (exitStage env run old new)"
  "keeps R (enforceManualOnEnter env run ref policy meta)" "keeps R (enforceGateOnExit env run old policy anchor)"
  "keeps R (handleStepFailure env run s e)" "keeps R (handleCancellation env run s)"
  "keeps R (finishStep run s meta)"
  unfolding enqueueWriteBack_def updateStoryStatus_def setCurrentStage_def clearStoryCurrentStage_def
    enterStage_def exitStage_def enforceManualOnEnter_def enforceGateOnExit_def raiseGate_def
    handleStepFailure_def handleCancellation_def finishStep_def
  by (intro frame_intros)+

lemma boundary [frame_intros]: "keeps R (crossBoundary env run policy cur prev s meta)"
  unfolding crossBoundary_def parkOr_def by (intro frame_intros)

text \<open>The actions and the other processes respect the relation.\<close>

definition env_keeps :: "exec_env \<Rightarrow> bool" where
  "env_keeps env \<longleftrightarrow> (\<forall>name a ctx. x_actions env name = Some a \<longrightarrow> keeps R (a ctx))
     \<and> (\<forall>j w. R w (x_other env j w))"

lemma env_keeps_cancelled: "env_keeps env \<Longrightarrow> env_keeps (cancelled env)"
  by (simp add: env_keeps_def cancelled_def)

lemma step_keeps [frame_intros]: "env_keeps env \<Longrightarrow> keeps R (executeStep env run s meta)"
proof -
  assume env: "env_keeps env"
  have "keeps R (performStep env run s' meta)" for s'
  proof (cases "x_actions env (rs_action s')")
    case None
    then show ?thesis by (simp add: performStep_def getAction_def return)
  next
    case (Some act)
    with env have "keeps R (act (runContext env run s' meta))" unfolding env_keeps_def by blast
    with Some show ?thesis unfolding performStep_def getAction_def by (auto intro!: frame_intros)
  qed
  then show ?thesis unfolding executeStep_def by (intro frame_intros)
qed

lemma loop_keeps [frame_intros]: "env_keeps env \<Longrightarrow> keeps R (runLoop env run policy ss cur prev meta)"
proof (induction ss arbitrary: cur prev meta)
  case (Cons s ss)
  then have "keeps R (writing (\<lambda>w. ((), x_other env (rs_id s) w)))"
    by (simp add: keeps_def run_simps env_keeps_def)
  with Cons show ?case unfolding runLoop.simps by (intro frame_intros) auto
qed (simp add: return)

lemma finish_keeps [frame_intros]: "keeps R (finishRun env run policy cur prev)"
  unfolding finishRun_def completeRun_def by (intro frame_intros)

lemma execute_keeps [frame_intros]: "env_keeps env \<Longrightarrow> keeps R (ExecuteRun env i)"
  unfolding ExecuteRun_def startRun_def by (intro frame_intros)

end

section \<open>The run service and the human-in-the-loop service\<close>

locale run_frame = exec_frame +
  assumes stopped: "\<And>w h. R w (w\<lparr>w_stops := w_stops w @ [h]\<rparr>)"
    and create_run: "\<And>p s st sn m. keeps R (CreateRun p s st sn m)"
    and run_orphaned: "\<And>i t m. keeps R (MarkRunOrphanedIfRunning i t m)"
    and create_step: "\<And>r n k a st si sn. keeps R (CreateRunStep r n k a st si sn)"
    and create_retry: "\<And>s. keeps R (CreateRetryRunStep s)"
    and hitl_update: "\<And>i st who why t. keeps R (UpdateHITLStatus i st who why t)"
    and hitl_resolution: "\<And>i st who act t. keeps R (UpdateHITLResolution i st who act t)"
begin

lemmas run_writes [frame_intros] = create_run run_orphaned create_step create_retry hitl_update
  hitl_resolution

lemma metadata_keeps [frame_intros]: "keeps R (launchMetadata svc i ss meta)"
proof (induction ss arbitrary: i meta)
  case (Cons s ss)
  then show ?case unfolding launchMetadata.simps stepMetadata_def effectiveImage_def by (intro frame_intros)
qed (simp add: ok)

lemma launch_steps_keeps [frame_intros]: "keeps R (createLaunchSteps r sws i ss)"
proof (induction ss arbitrary: i)
  case (Cons s ss)
  then show ?case unfolding createLaunchSteps.simps by (intro frame_intros)
qed (simp add: ok)

lemma plain_steps_keeps [frame_intros]: "keeps R (createPlainSteps r i ss)"
proof (induction ss arbitrary: i)
  case (Cons s ss)
  obtain n a where "s = (n, a)" by fastforce
  with Cons show ?case unfolding \<open>s = (n, a)\<close> createPlainSteps.simps by (intro frame_intros)
qed (simp add: ok)

lemma stop_keeps [frame_intros]: "keeps R (stopStepExecution svc c)"
proof -
  have "keeps R (writing (\<lambda>w. ((), w\<lparr>w_stops := w_stops w @ [h]\<rparr>)))" for h
    by (simp add: keeps_def run_simps stopped)
  then show ?thesis unfolding stopStepExecution_def by (intro frame_intros)
qed

lemma cancel_steps_keeps [frame_intros]: "keeps R (cancelSteps svc now ss)"
proof (induction ss)
  case (Cons s ss)
  then show ?case unfolding cancelSteps.simps by (intro frame_intros)
qed (simp add: ok)

lemma run_events_keeps [frame_intros]:
  "keeps R (publishRunEvent svc p i a pl)" "keeps R (requeue svc what i)" "keeps R (enqueueLaunch svc i)"
  "keeps R (RunService_GetRun i)" "keeps R (transitionStoryToBacklog svc run)"
  unfolding publishRunEvent_def requeue_def enqueueLaunch_def RunService_GetRun_def transitionStoryToBacklog_def
  by (intro frame_intros)+

lemma run_service_keeps [frame_intros]:
  "keeps R (RunService_CreateRun p s c)" "keeps R (TransitionRun i st)" "keeps R (TransitionRunStep j sst)"
  "keeps R (LaunchRun svc p s u)" "keeps R (PauseRun svc p i)" "keeps R (ResumeRun svc p i)"
  "keeps R (StartStage svc p s)" "keeps R (CancelRun svc p i)" "keeps R (RetryStep svc i j)"
  unfolding RunService_CreateRun_def TransitionRun_def TransitionRunStep_def LaunchRun_def
    launchConfigured_def PauseRun_def ResumeRun_def StartStage_def resumeStage_def CancelRun_def
    RetryStep_def createRetry_def
  by (intro frame_intros)+

lemma hitl_parts [frame_intros]:
  "keeps R (publishHITLEvent hs req a u)" "keeps R (resumeRun hs j)" "keeps R (failRun j m)"
  "keeps R (publishProbeHaltEvent hs req p r reason)"
  unfolding publishHITLEvent_def resumeRun_def failRun_def publishProbeHaltEvent_def by (intro frame_intros)+

lemma hitl_service_keeps [frame_intros]:
  "keeps R (Approve hs i u)" "keeps R (Reject hs i u why)" "keeps R (RaiseProbeHalt hs j reason)"
  "keeps R (Resolve hs i u act)"
  unfolding Approve_def Reject_def RaiseProbeHalt_def raiseNewHalt_def Resolve_def applyResolution_def
  by (intro frame_intros)+

end

section \<open>Epic runs\<close>

lemma underCancel_keeps:
  assumes "keeps R m" and "\<And>w w'. R (w\<lparr>w_faults := fs\<rparr>) w' \<Longrightarrow> R w (w'\<lparr>w_faults := w_faults w\<rparr>)"
  shows "keeps R (underCancel fs m)"
  unfolding keeps_def
proof
  fix w
  obtain a v where m: "run_state m (w\<lparr>w_faults := fs\<rparr>) = (a, v)" by fastforce
  have "R w (v\<lparr>w_faults := w_faults w\<rparr>)" by (rule assms(2) [OF keepsD [OF assms(1) m]])
  with m show "R w (snd (run_state (underCancel fs m) w))" by (simp add: underCancel_def run_simps)
qed

locale store_frame = run_frame +
  assumes create_epic_run: "\<And>p e st. keeps R (CreateEpicRun p e st)"
    and epic_run_status: "\<And>i st ca. keeps R (UpdateEpicRunStatus i st ca)"
    and create_ers: "\<And>x. keeps R (InsertEpicRunStory x)"
    and ers_status: "\<And>e s st r. keeps R (UpdateEpicRunStoryStatus e s st r)"
    and masked: "\<And>w fs w'. R (w\<lparr>w_faults := fs\<rparr>) w' \<Longrightarrow> R w (w'\<lparr>w_faults := w_faults w\<rparr>)"
begin

lemmas epic_writes [frame_intros] = create_epic_run epic_run_status create_ers ers_status

lemma under_cancel_keeps [frame_intros]: "keeps R m \<Longrightarrow> keeps R (underCancel fs m)"
  by (erule underCancel_keeps) (rule masked)

lemma story_run_keeps [frame_intros]: "env_keeps env \<Longrightarrow> keeps R (runStory ee env er s)"
  unfolding runStory_def reportStory_def publishStoryCompleted_def by (intro frame_intros)

lemma group_keeps [frame_intros]: "env_keeps env \<Longrightarrow> keeps R (runGroup ee env er ss)"
proof (induction ss arbitrary: env)
  case (Cons s ss)
  then show ?case unfolding runGroup.simps by (intro frame_intros) (auto intro: env_keeps_cancelled)
qed (simp add: ok)

lemma layers_keeps [frame_intros]: "env_keeps (ep_exec ee) \<Longrightarrow> keeps R (runLayers ee er k gs)"
proof (induction gs arbitrary: k)
  case (Cons g gs)
  then show ?case unfolding runLayers.simps failEpic_def publishEpic_def by (intro frame_intros)
qed (simp add: ok)

lemma insert_layers_keeps [frame_intros]: "keeps R (insertLayer e k ss)" "keeps R (insertLayers e k gs)"
proof -
  show layer: "keeps R (insertLayer e k ss)" for k ss
    by (induction ss) (auto simp: Let_def intro!: frame_intros)
  show "keeps R (insertLayers e k gs)"
    by (induction gs arbitrary: k) (auto intro!: frame_intros layer)
qed

lemma epic_run_keeps [frame_intros]: "env_keeps (ep_exec ee) \<Longrightarrow> keeps R (Execute ee er dag)"
  unfolding Execute_def completeEpic_def publishEpic_def by (intro frame_intros)

lemma launch_epic_keeps [frame_intros]: "keeps R (LaunchEpicRun ee p e)"
  unfolding LaunchEpicRun_def by (intro frame_intros)

end

end
