(* ===== verification/EpicSpec.thy ===== *)
theory EpicSpec
  imports StoreFrame RunLaunch SchedulerSpec
begin

text \<open>
  What an epic run promises: its layers run one after the other, it stops at the first layer with a
  failed story, and its tables say what happened.
\<close>

section \<open>The views of an epic run\<close>

definition epicSt :: "world \<Rightarrow> uuid \<rightharpoonup> epic_run_status" where
  "epicSt w e = map_option er_status (tbl_find er_id e (w_epic_runs w))"

definition ersSt :: "world \<Rightarrow> uuid \<Rightarrow> uuid \<rightharpoonup> string" where
  "ersSt w e s = map_option ers_status (find (same_ers e s) (w_epic_run_stories w))"

text \<open>The runs of the store, with their stories.\<close>

definition owners :: "world \<Rightarrow> (uuid \<times> uuid) list" where
  "owners w = map (\<lambda>r. (run_id r, run_story r)) (w_runs w)"

text \<open>What executing a run leaves alone: the set of the runs and the epic tables.\<close>

definition ownersSame :: "world \<Rightarrow> world \<Rightarrow> bool" where
  "ownersSame w w' \<longleftrightarrow> owners w' = owners w \<and> w_epic_runs w' = w_epic_runs w
     \<and> w_epic_run_stories w' = w_epic_run_stories w \<and> (w_faults w = [] \<longrightarrow> w_faults w' = [])"

lemma owners_update:
  "(\<And>r. run_id (f r) = run_id r \<and> run_story (f r) = run_story r) \<Longrightarrow>
   map (\<lambda>r. (run_id r, run_story r)) (tbl_update run_id i f rs) = map (\<lambda>r. (run_id r, run_story r)) rs"
  by (induction rs) auto

interpretation owners_same: exec_frame ownersSame
  by unfold_locales
     (simp_all add: ownersSame_def owners_def keeps_def op_defs run_simps run_db_op_faults
        run_fault_op_faults Let_def owners_update split: list.split option.split)

text \<open>What launching a run leaves alone.\<close>

definition epicTables :: "world \<Rightarrow> world \<Rightarrow> bool" where
  "epicTables w w' \<longleftrightarrow> w_epic_runs w' = w_epic_runs w \<and> w_epic_run_stories w' = w_epic_run_stories w
     \<and> (w_faults w = [] \<longrightarrow> w_faults w' = [])"

interpretation epic_tables: run_frame epicTables
  by unfold_locales
     (simp_all add: epicTables_def keeps_def op_defs run_simps run_db_op_faults run_fault_op_faults
        Let_def split: list.split option.split)


section \<open>One story\<close>

lemma LaunchRun_owners:
  assumes "run_state (LaunchRun svc p sid u) w = (r, w')"
  shows "\<exists>new. owners w' = owners w @ new \<and> snd ` set new \<subseteq> {sid}
    \<and> (\<forall>x. r = Inr x \<longrightarrow> (run_id (fst x), sid) \<in> set new)"
  using assms by (cases rule: LaunchRun_cases) (auto simp: owners_def launched_def)

lemma set_ers_fields [simp]:
  "same_ers e k (set_ers e' s st r x) = same_ers e k x"
  "ers_status (set_ers e s st r x) = (if same_ers e s x then st else ers_status x)"
  by (auto simp: set_ers_def same_ers_def)

lemma same_ers_other: "same_ers e k x \<Longrightarrow> same_ers e s x \<longleftrightarrow> k = s"
  by (auto simp: same_ers_def)

lemma ersSt_set:
  "map_option ers_status (find (same_ers e k) (map (set_ers e s st r) xs)) =
     (if k = s \<and> find (same_ers e s) xs \<noteq> None then Some st
      else map_option ers_status (find (same_ers e k) xs))"
  by (induction xs) (auto simp: same_ers_other)

lemma UpdateEpicRunStoryStatus_effect:
  assumes "w_faults w = []" and "run_ref_ok r w" and "ersSt w e s \<noteq> None"
  shows "\<exists>w'. run_state (UpdateEpicRunStoryStatus e s st r) w = (Inr (), w') \<and> w_faults w' = []
    \<and> owners w' = owners w \<and> w_epic_runs w' = w_epic_runs w \<and> ersSt w' e = (ersSt w e)(s \<mapsto> st)
    \<and> w_runs w' = w_runs w"
  using assms
  by (auto simp: UpdateEpicRunStoryStatus_def run_simps owners_def ersSt_def ersSt_set fun_eq_iff)

lemma run_ref_owner: "run_ref_ok (Some i) w \<longleftrightarrow> i \<in> fst ` set (owners w)"
  by (force simp: run_ref_ok_def owners_def tbl_find_None_iff)

lemma ownersSame_views:
  assumes "ownersSame w w'"
  shows "owners w' = owners w" "epicSt w' = epicSt w" "ersSt w' = ersSt w"
    "w_faults w = [] \<Longrightarrow> w_faults w' = []" "w_epic_runs w' = w_epic_runs w"
    "w_epic_run_stories w' = w_epic_run_stories w"
  using assms by (auto simp: ownersSame_def epicSt_def ersSt_def fun_eq_iff)

lemma reportStory_effect:
  assumes "w_faults w = []" and "run_ref_ok r w" and "ersSt w (er_id er) s \<noteq> None"
  shows "\<exists>w'. run_state (reportStory er s r st) w = ((), w') \<and> w_faults w' = []
    \<and> owners w' = owners w \<and> w_epic_runs w' = w_epic_runs w \<and> ersSt w' (er_id er) = (ersSt w (er_id er))(s \<mapsto> st)"
proof -
  obtain v where v: "run_state (UpdateEpicRunStoryStatus (er_id er) s st r) w = (Inr (), v)" "w_faults v = []"
    "owners v = owners w" "w_epic_runs v = w_epic_runs w" "ersSt v (er_id er) = (ersSt w (er_id er))(s \<mapsto> st)"
    using UpdateEpicRunStoryStatus_effect [OF assms] by blast
  let ?p = "publishStoryCompleted er s (case r of None \<Rightarrow> uuid_nil | Some i \<Rightarrow> i) st"
  have "ownersSame v (after ?p v)"
    unfolding publishStoryCompleted_def by (rule keeps_after [OF owners_same.publishing])
  with v ownersSame_views [OF this] show ?thesis
    by (intro exI [of _ "after ?p v"]) (simp add: reportStory_def run_simps run_unit [of ?p])
qed

text \<open>What running a story has done, given its result.\<close>

definition storyRan :: "uuid \<Rightarrow> uuid \<Rightarrow> unit res \<Rightarrow> world \<Rightarrow> world \<Rightarrow> bool" where
  "storyRan e s r w w' \<longleftrightarrow> w_faults w' = [] \<and> w_epic_runs w' = w_epic_runs w
     \<and> ersSt w' e = (ersSt w e)(s \<mapsto> (if isl r then ''failed'' else ''completed''))
     \<and> (\<exists>new. owners w' = owners w @ new \<and> snd ` set new \<subseteq> {s} \<and> (\<not> isl r \<longrightarrow> s \<in> snd ` set new))"

lemma runStory_effect:
  assumes "run_state (runStory ee env er s) w = (r, w')" and "owners_same.env_keeps env"
    and "w_faults w = []" and "ersSt w (er_id er) (story_id s) \<noteq> None"
  shows "storyRan (er_id er) (story_id s) r w w'"
proof -
  let ?e = "er_id er" and ?s = "story_id s"
  obtain l v where l: "run_state (LaunchRun (ep_svc ee) (er_project er) ?s uuid_nil) w = (l, v)" by fastforce
  obtain new where new: "owners v = owners w @ new" "snd ` set new \<subseteq> {?s}"
    "\<And>x. l = Inr x \<Longrightarrow> (run_id (fst x), ?s) \<in> set new"
    using LaunchRun_owners [OF l] by blast
  have "epicTables w v" by (rule keepsD [OF epic_tables.run_service_keeps(4) l])
  then have v: "w_faults v = []" "w_epic_runs v = w_epic_runs w" "ersSt v = ersSt w"
    using assms(3) by (auto simp: epicTables_def ersSt_def fun_eq_iff)
  show ?thesis
  proof (cases l)
    case (Inl err)
    obtain u where u: "run_state (reportStory er ?s None ''failed'') v = ((), u)" "w_faults u = []"
      "owners u = owners v" "w_epic_runs u = w_epic_runs v" "ersSt u ?e = (ersSt v ?e)(?s \<mapsto> ''failed'')"
      using reportStory_effect [of v None er ?s "''failed''"] v assms(4) by (auto simp: run_ref_ok_def)
    have "r = Inl (WrapErr (launchFailedMsg s) err)" "w' = u"
      using assms(1) l Inl u(1) by (simp_all add: runStory_def run_simps)
    with u v new(1,2) show ?thesis by (auto simp: storyRan_def)
  next
    case (Inr rs)
    let ?i = "run_id (fst rs)"
    have i: "(?i, ?s) \<in> set (owners v)" using new(1,3) Inr by simp
    obtain a where a: "run_state (UpdateEpicRunStoryStatus ?e ?s ''running'' (Some ?i)) v = (Inr (), a)"
      "w_faults a = []" "owners a = owners v" "w_epic_runs a = w_epic_runs v"
      "ersSt a ?e = (ersSt v ?e)(?s \<mapsto> ''running'')"
      using UpdateEpicRunStoryStatus_effect [of v "Some ?i" ?e ?s "''running''"] v i assms(4)
      by (force simp: run_ref_owner)
    obtain x b where x: "run_state (ExecuteRun env ?i) a = (x, b)" by fastforce
    have "ownersSame a b" by (rule keepsD [OF owners_same.execute_keeps [OF assms(2)] x])
    note b = ownersSame_views [OF this]
    let ?st = "if isl x then ''failed'' else ''completed''"
    obtain c where c: "run_state (reportStory er ?s (Some ?i) ?st) b = ((), c)" "w_faults c = []"
      "owners c = owners b" "w_epic_runs c = w_epic_runs b" "ersSt c ?e = (ersSt b ?e)(?s \<mapsto> ?st)"
      using reportStory_effect [of b "Some ?i" er ?s ?st] a b i by (force simp: run_ref_owner)
    have "isl r = isl x" "w' = c"
      using assms(1) l Inr a(1) x c(1) by (auto simp: runStory_def run_simps split: sum.splits)
    moreover have "?s \<in> snd ` set new" using image_eqI [OF _ new(3) [OF Inr], of ?s snd] by simp
    moreover have "owners c = owners w @ new" "w_epic_runs c = w_epic_runs w"
      using a(3,4) b(1,5) c(3,4) v(2) new(1) by simp_all
    moreover have "ersSt c ?e = (ersSt w ?e)(?s \<mapsto> ?st)" using a(5) b(3) c(5) v(3) by simp
    ultimately show ?thesis using c(2) new(2) unfolding storyRan_def by auto
  qed
qed


section \<open>A story whatever its calls meet\<close>

text \<open>What stories of a set can change, also when their calls fail.\<close>

definition storyMay :: "uuid \<Rightarrow> uuid set \<Rightarrow> world \<Rightarrow> world \<Rightarrow> bool" where
  "storyMay e K w w' \<longleftrightarrow> w_epic_runs w' = w_epic_runs w \<and> (\<forall>k. k \<notin> K \<longrightarrow> ersSt w' e k = ersSt w e k)
     \<and> (\<exists>new. owners w' = owners w @ new \<and> snd ` set new \<subseteq> K)"

interpretation story_may: frame "storyMay e K" for e K
proof
  show "storyMay e K w w" for w by (simp add: storyMay_def)
  show "storyMay e K u w" if "storyMay e K u v" "storyMay e K v w" for u v w
  proof -
    from that obtain a b where "owners v = owners u @ a" "snd ` set a \<subseteq> K" "owners w = owners v @ b" "snd ` set b \<subseteq> K"
      unfolding storyMay_def by blast
    then have "\<exists>new. owners w = owners u @ new \<and> snd ` set new \<subseteq> K" by (intro exI [of _ "a @ b"]) auto
    with that show ?thesis by (simp add: storyMay_def)
  qed
qed

lemma storyMay_mono: "keeps (storyMay e K) m \<Longrightarrow> K \<subseteq> L \<Longrightarrow> keeps (storyMay e L) m"
  unfolding keeps_def storyMay_def by (meson subsetD subset_trans)

lemma ownersSame_may: "keeps ownersSame m \<Longrightarrow> keeps (storyMay e K) m"
  unfolding keeps_def storyMay_def by (metis append_Nil2 empty_set image_empty empty_subsetI ownersSame_views(1,3,5))

lemma UpdateEpicRunStoryStatus_may: "keeps (storyMay e {s}) (UpdateEpicRunStoryStatus e s st r)"
  by (auto simp: keeps_def storyMay_def UpdateEpicRunStoryStatus_def run_db_op_faults run_simps owners_def
    ersSt_def ersSt_set split: list.split)

lemma LaunchRun_may: "keeps (storyMay e {s}) (LaunchRun svc p s u)"
  unfolding keeps_def
proof
  fix w
  obtain r v where l: "run_state (LaunchRun svc p s u) w = (r, v)" by fastforce
  have "epicTables w v" by (rule keepsD [OF epic_tables.run_service_keeps(4) l])
  with LaunchRun_owners [OF l] show "storyMay e {s} w (snd (run_state (LaunchRun svc p s u) w))"
    by (auto simp: l storyMay_def epicTables_def ersSt_def)
qed

lemma runStory_may:
  assumes "owners_same.env_keeps env"
  shows "keeps (storyMay (er_id er) {story_id s}) (runStory ee env er s)"
  unfolding runStory_def reportStory_def publishStoryCompleted_def
  by (intro frame_intros LaunchRun_may UpdateEpicRunStoryStatus_may
    ownersSame_may [OF owners_same.execute_keeps [OF assms]] ownersSame_may [OF owners_same.publishing])


section \<open>Layers\<close>

definition idsOf :: "story list \<Rightarrow> uuid set" where
  "idsOf ss = story_id ` set ss"

definition groupRan :: "uuid \<Rightarrow> story list \<Rightarrow> unit res \<Rightarrow> world \<Rightarrow> world \<Rightarrow> bool" where
  "groupRan e ss r w w' \<longleftrightarrow> w_faults w' = [] \<and> w_epic_runs w' = w_epic_runs w
     \<and> (\<forall>k. k \<notin> idsOf ss \<longrightarrow> ersSt w' e k = ersSt w e k)
     \<and> (\<exists>new. owners w' = owners w @ new \<and> snd ` set new \<subseteq> idsOf ss \<and> (\<not> isl r \<longrightarrow> idsOf ss \<subseteq> snd ` set new))
     \<and> (if isl r then \<exists>k \<in> idsOf ss. ersSt w' e k = Some ''failed''
        else \<forall>k \<in> idsOf ss. ersSt w' e k = Some ''completed'')"

lemma storyRan_other: "storyRan e s r w w' \<Longrightarrow> ersSt w e k \<noteq> None \<Longrightarrow> ersSt w' e k \<noteq> None"
  by (auto simp: storyRan_def)

lemma groupRan_Cons:
  assumes "storyRan e (story_id s) q w v" and "groupRan e ss r v w'" and "story_id s \<notin> idsOf ss"
  shows "groupRan e (s # ss) (case q of Inl err \<Rightarrow> Inl err | Inr _ \<Rightarrow> r) w w'"
proof -
  obtain a b where a: "owners v = owners w @ a" "snd ` set a \<subseteq> {story_id s}" "\<not> isl q \<longrightarrow> story_id s \<in> snd ` set a"
    and b: "owners w' = owners v @ b" "snd ` set b \<subseteq> idsOf ss" "\<not> isl r \<longrightarrow> idsOf ss \<subseteq> snd ` set b"
    using assms(1,2) unfolding storyRan_def groupRan_def by blast
  have "\<exists>new. owners w' = owners w @ new \<and> snd ` set new \<subseteq> idsOf (s # ss)
      \<and> (\<not> isl (case q of Inl err \<Rightarrow> Inl err | Inr _ \<Rightarrow> r) \<longrightarrow> idsOf (s # ss) \<subseteq> snd ` set new)"
    using a b by (intro exI [of _ "a @ b"]) (auto simp: idsOf_def split: sum.splits)
  moreover have "ersSt w' e (story_id s) = Some (if isl q then ''failed'' else ''completed'')"
    using assms unfolding storyRan_def groupRan_def by simp
  moreover have "ersSt w' e k = ersSt w e k" if "k \<notin> idsOf (s # ss)" for k
    using assms(1,2) that unfolding storyRan_def groupRan_def by (auto simp: idsOf_def)
  ultimately show ?thesis
    using assms(1,2) unfolding storyRan_def groupRan_def
    by (cases q) (auto simp: idsOf_def)
qed

lemma underCancel_may: "keeps (storyMay e K) m \<Longrightarrow> keeps (storyMay e K) (underCancel fs m)"
  by (erule underCancel_keeps) (simp add: storyMay_def ersSt_def owners_def)

lemma runGroup_may: "owners_same.env_keeps env \<Longrightarrow> keeps (storyMay (er_id er) (idsOf ss)) (runGroup ee env er ss)"
proof (induction ss arbitrary: env)
  case (Cons s ss)
  have rest: "keeps (storyMay (er_id er) (idsOf (s # ss))) (runGroup ee env' er ss)"
    if "owners_same.env_keeps env'" for env'
    using storyMay_mono [OF Cons.IH [OF that]] by (auto simp: idsOf_def)
  have "keeps (storyMay (er_id er) (idsOf (s # ss))) (runStory ee env er s)"
    using storyMay_mono [OF runStory_may [OF Cons.prems]] by (auto simp: idsOf_def)
  with rest [OF Cons.prems] rest [OF owners_same.env_keeps_cancelled [OF Cons.prems]] show ?case
    unfolding runGroup.simps by (intro frame_intros underCancel_may)
qed (simp add: story_may.ok)

text \<open>After the first failure the rest of the group may do anything to its own stories.\<close>

lemma groupRan_fails:
  assumes "storyRan e (story_id s) (Inl err) w v" and "storyMay e (idsOf ss) v w'" and "w_faults w' = []"
    and "story_id s \<notin> idsOf ss"
  shows "groupRan e (s # ss) (Inl err) w w'"
proof -
  obtain a b where a: "owners v = owners w @ a" "snd ` set a \<subseteq> {story_id s}"
    and b: "owners w' = owners v @ b" "snd ` set b \<subseteq> idsOf ss"
    using assms(1,2) unfolding storyRan_def storyMay_def by blast
  then have "\<exists>new. owners w' = owners w @ new \<and> snd ` set new \<subseteq> idsOf (s # ss)"
    by (intro exI [of _ "a @ b"]) (auto simp: idsOf_def)
  with assms show ?thesis unfolding groupRan_def storyRan_def storyMay_def by (auto simp: idsOf_def)
qed

lemma runGroup_effect:
  assumes "run_state (runGroup ee env er ss) w = (r, w')" and "owners_same.env_keeps env"
    and "w_faults w = []" and "distinct (map story_id ss)"
    and "\<forall>k \<in> idsOf ss. ersSt w (er_id er) k \<noteq> None"
  shows "groupRan (er_id er) ss r w w'"
  using assms
proof (induction ss arbitrary: env w r)
  case Nil
  then show ?case by (auto simp: groupRan_def idsOf_def run_simps)
next
  case (Cons s ss)
  obtain q v where q: "run_state (runStory ee env er s) w = (q, v)" by fastforce
  have st: "storyRan (er_id er) (story_id s) q w v"
    using runStory_effect [OF q Cons.prems(2,3)] Cons.prems(5) by (simp add: idsOf_def)
  then have v: "w_faults v = []" "\<forall>k \<in> idsOf ss. ersSt v (er_id er) k \<noteq> None"
    using Cons.prems(5) storyRan_other [OF st] by (auto simp: storyRan_def idsOf_def)
  have new: "story_id s \<notin> idsOf ss" using Cons.prems(4) by (simp add: idsOf_def)
  show ?case
  proof (cases q)
    case (Inl err)
    let ?m = "underCancel (ep_cancel ee) (runGroup ee (cancelled env) er ss)"
    obtain x z where x: "run_state ?m v = (x, z)" by fastforce
    have "storyMay (er_id er) (idsOf ss) v z"
      by (rule keepsD [OF underCancel_may [OF runGroup_may [OF owners_same.env_keeps_cancelled [OF Cons.prems(2)]]] x])
    moreover have "w_faults z = []" using x v(1) by (auto simp: underCancel_def run_simps split: prod.splits)
    moreover have "r = Inl err" "w' = z" using Cons.prems(1) q x Inl by (simp_all add: run_simps)
    ultimately show ?thesis using groupRan_fails [OF st [unfolded Inl] _ _ new] by simp
  next
    case (Inr u)
    then have "run_state (runGroup ee env er ss) v = (r, w')" using Cons.prems(1) q by (simp add: run_simps)
    then have "groupRan (er_id er) ss r v w'" using Cons.IH [OF _ Cons.prems(2) v(1) _ v(2)] Cons.prems(4) by simp
    from groupRan_Cons [OF st this new] Inr show ?thesis by simp
  qed
qed

text \<open>The outcome of the layers from some point on.\<close>

definition runsOf :: "uuid \<Rightarrow> world \<Rightarrow> (uuid \<times> uuid) list" where
  "runsOf k w = filter (\<lambda>x. snd x = k) (owners w)"

definition untouched :: "uuid \<Rightarrow> uuid set \<Rightarrow> world \<Rightarrow> world \<Rightarrow> bool" where
  "untouched e K w w' \<longleftrightarrow> (\<forall>k \<in> K. ersSt w' e k = ersSt w e k \<and> runsOf k w' = runsOf k w)"

definition allDone :: "uuid \<Rightarrow> uuid set \<Rightarrow> world \<Rightarrow> world \<Rightarrow> bool" where
  "allDone e K w w' \<longleftrightarrow> (\<forall>k \<in> K. ersSt w' e k = Some ''completed'' \<and> runsOf k w' \<noteq> runsOf k w)"

lemma runsOf_append: "owners w' = owners w @ new \<Longrightarrow> runsOf k w' = runsOf k w @ filter (\<lambda>x. snd x = k) new"
  by (simp add: runsOf_def)

lemma groupRan_untouched:
  assumes "groupRan e ss r w w'" and "K \<inter> idsOf ss = {}"
  shows "untouched e K w w'"
proof -
  obtain new where "owners w' = owners w @ new" "snd ` set new \<subseteq> idsOf ss"
    using assms(1) unfolding groupRan_def by blast
  then have "runsOf k w' = runsOf k w" if "k \<in> K" for k
    using that assms(2) by (auto simp: runsOf_append filter_empty_conv)
  then show ?thesis using assms by (auto simp: untouched_def groupRan_def)
qed

lemma groupRan_done:
  assumes "groupRan e ss (Inr u) w w'"
  shows "allDone e (idsOf ss) w w'"
proof -
  obtain new where "owners w' = owners w @ new" "idsOf ss \<subseteq> snd ` set new"
    using assms unfolding groupRan_def by auto
  then show ?thesis using assms by (auto simp: allDone_def groupRan_def runsOf_append filter_empty_conv)
qed


lemma idsOf_simps [simp]:
  "idsOf [] = {}" "idsOf (xs @ ys) = idsOf xs \<union> idsOf ys"
  by (auto simp: idsOf_def)

lemma idsOf_mset: "mset xs = mset ys \<Longrightarrow> idsOf xs = idsOf ys"
  unfolding idsOf_def by (metis mset_eq_setD)

definition layersRan :: "uuid \<Rightarrow> story list list \<Rightarrow> unit res \<Rightarrow> world \<Rightarrow> world \<Rightarrow> bool" where
  "layersRan e gs r w w' \<longleftrightarrow> w_faults w' = []
     \<and> (\<forall>K. K \<inter> idsOf (concat gs) = {} \<longrightarrow> untouched e K w w')
     \<and> (if isl r then epicSt w' e = Some EpicRunStatusFailed
          \<and> (\<exists>before g rest. gs = before @ g # rest \<and> allDone e (idsOf (concat before)) w w'
               \<and> (\<exists>k \<in> idsOf g. ersSt w' e k = Some ''failed'')
               \<and> untouched e (idsOf (concat rest)) w w')
        else epicSt w' e = epicSt w e \<and> allDone e (idsOf (concat gs)) w w')"

lemma untouched_trans: "untouched e K w v \<Longrightarrow> untouched e K v w' \<Longrightarrow> untouched e K w w'"
  by (auto simp: untouched_def)

lemma allDone_untouched: "allDone e K w v \<Longrightarrow> untouched e K v w' \<Longrightarrow> allDone e K w w'"
  by (auto simp: untouched_def allDone_def)

lemma untouched_allDone: "untouched e K w v \<Longrightarrow> allDone e K v w' \<Longrightarrow> allDone e K w w'"
  by (auto simp: untouched_def allDone_def)

lemma allDone_Un: "allDone e (A \<union> B) w w' \<longleftrightarrow> allDone e A w w' \<and> allDone e B w w'"
  by (auto simp: allDone_def)

lemma ownersSame_untouched: "ownersSame w w' \<Longrightarrow> untouched e K w w'"
  by (auto simp: untouched_def runsOf_def dest: ownersSame_views)

lemma publish_same:
  "ownersSame w (after (publishEvent p ty e a pl) w)"
  by (rule keeps_after [OF owners_same.publishing])

lemma untouched_refl: "untouched e K w w"
  by (simp add: untouched_def)

lemma layersRan_Cons:
  assumes g: "groupRan e g' (Inr u) w v" and ids: "idsOf g' = idsOf g" and l: "layersRan e gs r v w'"
    and disj: "idsOf g \<inter> idsOf (concat gs) = {}" and ep: "epicSt v = epicSt w"
  shows "layersRan e (g # gs) r w w'"
proof -
  have new: "allDone e (idsOf g) w v" using groupRan_done [OF g] ids by simp
  have old: "untouched e K w v" if "K \<inter> idsOf g = {}" for K
    using groupRan_untouched [OF g] that ids by simp
  have later: "untouched e K v w'" if "K \<inter> idsOf (concat gs) = {}" for K
    using l that unfolding layersRan_def by blast
  have g': "allDone e (idsOf g) w w'" by (rule allDone_untouched [OF new later [OF disj]])
  have frame: "untouched e K w w'" if "K \<inter> idsOf (concat (g # gs)) = {}" for K
    using that by (intro untouched_trans [OF old later]) auto
  show ?thesis
  proof (cases r)
    case (Inr x)
    have "allDone e (idsOf (concat gs)) w w'"
      using l Inr disj by (intro untouched_allDone [OF old]) (auto simp: layersRan_def)
    with Inr l g' frame ep show ?thesis by (simp add: layersRan_def allDone_Un)
  next
    case (Inl err)
    then obtain before b rest where s: "gs = before @ b # rest" "allDone e (idsOf (concat before)) v w'"
      "\<exists>k \<in> idsOf b. ersSt w' e k = Some ''failed''" "untouched e (idsOf (concat rest)) v w'"
      and f: "epicSt w' e = Some EpicRunStatusFailed" "w_faults w' = []"
      using l by (auto simp: layersRan_def)
    have "allDone e (idsOf (concat before)) w w'" "untouched e (idsOf (concat rest)) w w'"
      using disj s by (auto intro!: untouched_allDone [OF old] untouched_trans [OF old])
    with g' s(1,3) f frame Inl show ?thesis unfolding layersRan_def
      by (auto simp: allDone_Un intro!: exI [of _ "g # before"])
  qed
qed

lemma UpdateEpicRunStatus_effect:
  assumes "w_faults w = []" and "epicSt w e \<noteq> None"
  shows "\<exists>x w'. run_state (UpdateEpicRunStatus e st ca) w = (Inr x, w') \<and> w_faults w' = []
    \<and> epicSt w' e = Some st \<and> ersSt w' = ersSt w \<and> owners w' = owners w"
proof -
  obtain x where x: "tbl_find er_id e (w_epic_runs w) = Some x"
    using assms(2) by (auto simp: epicSt_def)
  then show ?thesis using assms(1)
    by (auto simp: UpdateEpicRunStatus_def run_simps epicSt_def ersSt_def owners_def set_epic_run_status_def
      tbl_find_update fun_eq_iff)
qed

lemma publishEpic_same: "ownersSame w (after (publishEpic er a) w)"
  unfolding publishEpic_def by (rule publish_same)

text \<open>A status stamped with the time and announced, as \<open>failEpic\<close> and \<open>completeEpic\<close> do.\<close>

lemma stamp_effect:
  assumes "w_faults w = []" and "epicSt w (er_id er) \<noteq> None"
  shows "\<exists>x v. run_state (UpdateEpicRunStatus (er_id er) st (Some (w_clock w)))
      (w\<lparr>w_clock := w_clock w + int (w_tick w)\<rparr>) = (Inr x, v)
    \<and> w_faults (after (publishEpic er a) v) = [] \<and> epicSt (after (publishEpic er a) v) (er_id er) = Some st
    \<and> ersSt (after (publishEpic er a) v) = ersSt w \<and> owners (after (publishEpic er a) v) = owners w"
proof -
  let ?c = "w\<lparr>w_clock := w_clock w + int (w_tick w)\<rparr>"
  have c: "ownersSame w ?c" by (simp add: ownersSame_def owners_def)
  obtain x v where "run_state (UpdateEpicRunStatus (er_id er) st (Some (w_clock w))) ?c = (Inr x, v)"
    "w_faults v = []" "epicSt v (er_id er) = Some st" "ersSt v = ersSt ?c" "owners v = owners ?c"
    using UpdateEpicRunStatus_effect [of ?c "er_id er"] ownersSame_views [OF c] assms by metis
  then show ?thesis using ownersSame_views [OF publishEpic_same [of v er a]] ownersSame_views [OF c] by auto
qed

lemma failEpic_effect:
  assumes "w_faults w = []" and "epicSt w (er_id er) \<noteq> None"
  shows "\<exists>w'. run_state (failEpic er) w = ((), w') \<and> w_faults w' = []
    \<and> epicSt w' (er_id er) = Some EpicRunStatusFailed \<and> ersSt w' = ersSt w \<and> owners w' = owners w"
  using stamp_effect [OF assms, of EpicRunStatusFailed "''failed''"]
  by (auto simp: failEpic_def time_now_def run_simps run_unit [of "publishEpic er ''failed''"])

lemma completeEpic_effect:
  assumes "w_faults w = []" and "epicSt w (er_id er) \<noteq> None"
  shows "\<exists>w'. run_state (completeEpic er) w = (Inr (), w') \<and> w_faults w' = []
    \<and> epicSt w' (er_id er) = Some EpicRunStatusCompleted \<and> ersSt w' = ersSt w \<and> owners w' = owners w"
  using stamp_effect [OF assms, of EpicRunStatusCompleted "''completed''"]
  by (auto simp: completeEpic_def time_now_def run_simps run_unit [of "publishEpic er ''completed''"])

lemma layersRan_start:
  assumes "epicSt v = epicSt w" and "ersSt v = ersSt w" and "owners v = owners w"
  shows "layersRan e gs r v w' = layersRan e gs r w w'"
proof -
  have "untouched e K v w' = untouched e K w w'" "allDone e K v w' = allDone e K w w'" for K
    using assms by (simp_all add: untouched_def allDone_def runsOf_def)
  with assms(1) show ?thesis by (simp only: layersRan_def)
qed

lemma runLayers_effect:
  assumes "run_state (runLayers ee er n gs) w = (r, w')" and "owners_same.env_keeps (ep_exec ee)"
    and "\<And>g. mset (ep_turns ee g) = mset g" and "w_faults w = []" and "epicSt w (er_id er) \<noteq> None"
    and "distinct (map story_id (concat gs))" and "\<forall>k \<in> idsOf (concat gs). ersSt w (er_id er) k \<noteq> None"
  shows "layersRan (er_id er) gs r w w'"
  using assms(1,4-7)
proof (induction gs arbitrary: n w)
  case Nil
  then show ?case by (auto simp: layersRan_def allDone_def untouched_def run_simps)
next
  case (Cons g gs)
  let ?p = "publishEvent (er_project er) ''epic_run_group'' (er_id er) ''started''
       [(''group_index'', JInt (int n)), (''story_count'', JInt (int (length g)))]"
  let ?v = "after ?p w" and ?e = "er_id er" and ?g = "ep_turns ee g"
  note v = ownersSame_views [OF publish_same [of w], of "er_project er" "''epic_run_group''" ?e "''started''"
    "[(''group_index'', JInt (int n)), (''story_count'', JInt (int (length g)))]"]
  have ids: "idsOf ?g = idsOf g" by (rule idsOf_mset [OF assms(3)])
  have "distinct (map story_id ?g)"
    using Cons.prems(4) assms(3) [of g] by (metis distinct_append list.simps(9) concat.simps(2) map_append mset_eq_imp_distinct_iff mset_map)
  moreover obtain q u where q: "run_state (runGroup ee (ep_exec ee) er ?g) ?v = (q, u)" by fastforce
  ultimately have G: "groupRan ?e ?g q ?v u"
    using Cons.prems(2,5) v ids by (intro runGroup_effect [OF q assms(2)]) auto
  have disj: "idsOf g \<inter> idsOf (concat gs) = {}" using Cons.prems(4) by (auto simp: idsOf_def)
  have ep: "epicSt u = epicSt ?v" using G by (simp add: groupRan_def epicSt_def fun_eq_iff)
  have "layersRan ?e (g # gs) r ?v w'"
  proof (cases q)
    case (Inr x)
    then have "run_state (runLayers ee er (Suc n) gs) u = (r, w')"
      using Cons.prems(1) q by (simp add: run_simps run_unit [of ?p])
    moreover have "\<forall>k \<in> idsOf (concat gs). ersSt u ?e k = ersSt w ?e k"
      using G v disj ids unfolding groupRan_def by auto
    moreover have "w_faults u = []" using G by (simp add: groupRan_def)
    ultimately have "layersRan ?e gs r u w'" using ep v Cons.prems(3-5) by (intro Cons.IH) auto
    from layersRan_Cons [OF G [unfolded Inr] ids this disj ep] show ?thesis .
  next
    case (Inl err)
    have "w_faults u = []" "epicSt u ?e \<noteq> None" using G ep v Cons.prems(3) by (simp_all add: groupRan_def)
    then obtain z where z: "run_state (failEpic er) u = ((), z)" "w_faults z = []"
      "epicSt z ?e = Some EpicRunStatusFailed" "ersSt z = ersSt u" "owners z = owners u"
      using failEpic_effect by blast
    have r: "r = Inl err" "w' = z" using Cons.prems(1) q Inl z(1) by (simp_all add: run_simps run_unit [of ?p])
    have old: "untouched ?e K ?v z" if "K \<inter> idsOf g = {}" for K
      using groupRan_untouched [OF G] that ids z by (simp add: untouched_def runsOf_def)
    have "\<exists>k \<in> idsOf g. ersSt z ?e k = Some ''failed''" using G Inl z ids by (simp add: groupRan_def)
    moreover have "untouched ?e (idsOf (concat gs)) ?v z" using disj by (intro old) auto
    ultimately have "\<exists>before b rest. g # gs = before @ b # rest \<and> allDone ?e (idsOf (concat before)) ?v z
        \<and> (\<exists>k \<in> idsOf b. ersSt z ?e k = Some ''failed'') \<and> untouched ?e (idsOf (concat rest)) ?v z"
      by (intro exI [of _ "[]"] exI [of _ g] exI [of _ gs]) (simp add: allDone_def)
    then show ?thesis using r z old unfolding layersRan_def by auto
  qed
  with layersRan_start [OF v(2,3,1)] show ?case by simp
qed


section \<open>The whole run\<close>


end
