(* ===== verification/EpicWitnesses.thy ===== *)
theory EpicWitnesses
  imports EpicSpec RunWitnesses SchedulerWitnesses
begin

text \<open>
  The properties of epic runs applied to a sample epic run of two layers.
\<close>

definition sample_epic_run :: epic_run where
  "sample_epic_run = \<lparr>er_id = 50, er_project = 1, er_epic = 5, er_status = EpicRunStatusPending,
     er_created_at = 0, er_completed_at = None\<rparr>"

definition sample_ers :: "uuid \<Rightarrow> int \<Rightarrow> epic_run_story" where
  "sample_ers s g = \<lparr>ers_epic_run = 50, ers_story = s, ers_run = None, ers_group = g, ers_status = ''pending''\<rparr>"

text \<open>A project without a pipeline configuration: its stories cannot be launched.\<close>

definition epic_world :: world where
  "epic_world = empty_world\<lparr>w_projects := [sample_project], w_stories := [story_a, story_b],
     w_epic_runs := [sample_epic_run], w_epic_run_stories := [sample_ers 11 0, sample_ers 12 1]\<rparr>"

definition sample_epic_env :: epic_env where
  "sample_epic_env = \<lparr>ep_svc = sample_svc, ep_exec = sample_env, ep_turns = (\<lambda>g. g), ep_files = (\<lambda>g. []), ep_cancel = [False, True]\<rparr>"

lemma epic_world_views:
  "w_faults epic_world = []" "epicSt epic_world 50 = Some EpicRunStatusPending"
  "ersSt epic_world 50 11 = Some ''pending''" "ersSt epic_world 50 12 = Some ''pending''"
  by (simp_all add: epic_world_def empty_world_def epicSt_def ersSt_def same_ers_def sample_epic_run_def sample_ers_def)

lemma sample_env_leaves: "x_actions sample_env name = Some a \<Longrightarrow> snd (run_state (a ctx) v) = v"
  by (auto simp: sample_env_def ok_action_def bad_action_def run_simps split: if_splits)

lemma epic_story_fields:
  "story_project (epic_story i key deps fs) = 1" "story_status (epic_story i key deps fs) = StoryStatusBacklog"
  by (simp_all add: epic_story_def)

lemma unconfigured_fails:
  assumes "w_faults w = []" and "w_configs w = []"
  shows "\<exists>e w'. run_state (runStory ee env er s) w = (Inl e, w')"
proof -
  obtain l v where l: "run_state (LaunchRun (ep_svc ee) (er_project er) (story_id s) uuid_nil) w = (l, v)"
    by fastforce
  from l obtain e where "l = Inl e" using assms(2) by (cases rule: LaunchRun_cases) (auto simp: launchAllowed_def)
  with l show ?thesis by (simp add: runStory_def run_simps run_unit)
qed

lemma publish_configs:
  "w_faults w = [] \<Longrightarrow> w_faults (after (publishEvent p ty e a pl) w) = []
     \<and> w_configs (after (publishEvent p ty e a pl) w) = w_configs w"
  by (simp add: after_def publishEvent_def Publish_def run_simps)

lemma unconfigured_layers_fail:
  assumes "w_faults w = []" and "w_configs w = []" and "ep_turns ee g = s # ss"
  shows "\<exists>e w'. run_state (runLayers ee er n (g # gs)) w = (Inl e, w')"
proof -
  let ?p = "publishEvent (er_project er) ''epic_run_group'' (er_id er) ''started''
       [(''group_index'', JInt (int n)), (''story_count'', JInt (int (length g)))]"
  obtain e v where "run_state (runStory ee (ep_exec ee) er s) (after ?p w) = (Inl e, v)"
    using unconfigured_fails publish_configs assms(1,2) by metis
  then show ?thesis using assms(3) by (simp add: run_simps run_unit split: prod.splits)
qed


end
