(* ===== verification/Watchdog.thy ===== *)
theory Watchdog
  imports HITL
begin

text \<open>
  The guard watchdog (\<open>backend/internal/domain/service/watchdog.go\<close>) with its read model
  (\<open>watchdog_repo.go\<close>, \<open>backend/queries/watchdog.sql\<close>) and the sum of a run's costs
  (\<open>cost_repo.go\<close>). A tick of the loop of \<open>Start\<close> is \<open>Check\<close>. Times are nanoseconds; Go's
  \<open>float64\<close> seconds and costs are real numbers.
\<close>

section \<open>The read models\<close>

record running_step =
  rn_step :: uuid
  rn_run :: uuid
  rn_name :: string
  rn_stage_id :: string
  rn_stage_name :: string
  rn_project :: uuid
  rn_story :: uuid
  rn_started_at :: "time option"
  rn_last_log_at :: "time option"

definition isLogOf :: "uuid \<Rightarrow> event \<Rightarrow> bool" where
  "isLogOf j e \<longleftrightarrow> ev_entity_type e = ''log'' \<and> ev_entity e = j \<and> ev_action e = ''emitted''"

fun latest :: "time list \<Rightarrow> time option" where
  "latest [] = None"
| "latest (t # ts) = Some (fold max ts t)"

definition lastLogAt :: "uuid \<Rightarrow> world \<Rightarrow> time option" where
  "lastLogAt j w = latest (map ev_created_at (filter (isLogOf j) (w_events w)))"

definition runningRow :: "world \<Rightarrow> run_step \<Rightarrow> run \<Rightarrow> running_step" where
  "runningRow w s r =
     \<lparr>rn_step = rs_id s, rn_run = rs_run s, rn_name = rs_name s, rn_stage_id = rs_stage_id s,
      rn_stage_name = rs_stage_name s, rn_project = run_project r, rn_story = run_story r,
      rn_started_at = rs_started_at s, rn_last_log_at = lastLogAt (rs_id s) w\<rparr>"

text \<open>The join of the running steps with their running runs.\<close>

definition runningRows :: "world \<Rightarrow> running_step list" where
  "runningRows w = List.map_filter (\<lambda>s.
     if rs_status s \<noteq> StepStatusRunning then None
     else case tbl_find run_id (rs_run s) (w_runs w) of
         None \<Rightarrow> None
       | Some r \<Rightarrow> if run_status r = RunStatusRunning then Some (runningRow w s r) else None) (w_steps w)"

definition ListRunningSteps :: "running_step list fop" where
  "ListRunningSteps =
     db_op ''failed to list running steps for watchdog'' (reading (\<lambda>w. Inr (runningRows w)))"

text \<open>The result type \<open>DECIMAL(10,6)\<close> of the sum overflows from ten thousand on.\<close>

definition costOfRun :: "uuid \<Rightarrow> world \<Rightarrow> real" where
  "costOfRun i w = sum_list (map cr_cost (filter
     (\<lambda>c. map_option rs_run (tbl_find rs_id (cr_step c) (w_steps w)) = Some i) (w_costs w)))"

definition SumCostByRun :: "uuid \<Rightarrow> real fop" where
  "SumCostByRun i =
     db_op ''failed to sum cost by run''
       (reading (\<lambda>w. if \<bar>costOfRun i w\<bar> < 10000 then Inr (costOfRun i w)
          else Inl (NewInternal ''failed to sum cost by run'' db_failure)))"

lemmas watchdog_reads [op_defs] = ListRunningSteps_def SumCostByRun_def

section \<open>Evaluating a guard\<close>

record watchdog =
  wd_hitl :: hitl_svc
  wd_unmarshal :: "string \<Rightarrow> pipeline_config_raw res"

definition seconds :: "time \<Rightarrow> time \<Rightarrow> real" where
  "seconds now since = real_of_int (now - since) / 1000000000"

definition breachOf :: "string \<Rightarrow> guard \<Rightarrow> real \<Rightarrow> real \<Rightarrow> string \<Rightarrow> halt_reason" where
  "breachOf probe g observed threshold unit_arg =
     \<lparr>hr_probe = probe, hr_on_fail = guard_on_fail g, hr_observed = observed,
      hr_threshold = threshold, hr_unit = unit_arg, hr_detail = []\<rparr>"

definition exceeds :: "string \<Rightarrow> guard \<Rightarrow> real \<Rightarrow> real \<Rightarrow> string \<Rightarrow> halt_reason option" where
  "exceeds probe g observed threshold unit_arg =
     (if threshold < observed then Some (breachOf probe g observed threshold unit_arg) else None)"

definition silenceBreach :: "running_step \<Rightarrow> guard \<Rightarrow> time \<Rightarrow> halt_reason option" where
  "silenceBreach s g now =
     (if guard_threshold g \<le> 0 then None
      else case (case rn_last_log_at s of Some t \<Rightarrow> Some t | None \<Rightarrow> rn_started_at s) of
          None \<Rightarrow> None
        | Some t \<Rightarrow> exceeds GuardLogSilence g (seconds now t) (real_of_int (guard_threshold g)) ''seconds'')"

definition wallclockBreach :: "running_step \<Rightarrow> guard \<Rightarrow> time \<Rightarrow> halt_reason option" where
  "wallclockBreach s g now =
     (if guard_max g \<le> 0 then None
      else case rn_started_at s of
          None \<Rightarrow> None
        | Some t \<Rightarrow> exceeds GuardWallclock g (seconds now t) (guard_max g) ''seconds'')"

definition evaluate :: "running_step \<Rightarrow> guard \<Rightarrow> time \<Rightarrow> halt_reason option op" where
  "evaluate s g now =
     (if guard_kind g = GuardLogSilence then State_Monad.return (silenceBreach s g now)
      else if guard_kind g = GuardWallclock then State_Monad.return (wallclockBreach s g now)
      else if guard_kind g = GuardCostBatch then
        (if guard_max g \<le> 0 then State_Monad.return None
         else do {
           c \<leftarrow> SumCostByRun (rn_run s);
           case c of
             Inl e \<Rightarrow> State_Monad.return None
           | Inr cost \<Rightarrow> State_Monad.return (exceeds GuardCostBatch g cost (guard_max g) ''usd'') })
      else State_Monad.return None)"

section \<open>The guards of a step\<close>

definition stepGuards :: "running_step \<Rightarrow> pipeline_step \<Rightarrow> guard list" where
  "stepGuards s p = (if ps_id p = rn_name s \<or> ps_name p = rn_name s then ps_guards p else [])"

definition groupMatches :: "running_step \<Rightarrow> pipeline_group \<Rightarrow> bool" where
  "groupMatches s g \<longleftrightarrow> pg_id g = rn_stage_id s \<or> pg_name g = rn_stage_name s"

definition guardsFromConfig :: "pipeline_config_yaml \<Rightarrow> running_step \<Rightarrow> guard list" where
  "guardsFromConfig c s =
     (case find (groupMatches s) (groups c) of
        None \<Rightarrow> []
      | Some g \<Rightarrow> concat (map (stepGuards s) (pg_steps g)) @ pg_guards g)"

text \<open>The parsed configurations of a tick; a failure is remembered as well.\<close>

type_synonym config_cache = "uuid \<rightharpoonup> pipeline_config_yaml option"

definition pipelineConfig ::
  "watchdog \<Rightarrow> config_cache \<Rightarrow> uuid \<Rightarrow> (pipeline_config_yaml option \<times> config_cache) op" where
  "pipelineConfig wd cache p =
     (case cache p of
        Some c \<Rightarrow> State_Monad.return (c, cache)
      | None \<Rightarrow> do {
          raw \<leftarrow> GetPipelineConfig p;
          let c = (case raw of
              Inl e \<Rightarrow> None
            | Inr row \<Rightarrow> (case ParsePipelineConfigYAML (wd_unmarshal wd) (pc_yaml row) of
                  Inl e \<Rightarrow> None | Inr y \<Rightarrow> Some y));
          State_Monad.return (c, cache(p \<mapsto> c)) })"

definition guardsForStep ::
  "watchdog \<Rightarrow> config_cache \<Rightarrow> running_step \<Rightarrow> (guard list \<times> config_cache) op" where
  "guardsForStep wd cache s = do {
     x \<leftarrow> pipelineConfig wd cache (rn_project s);
     State_Monad.return (case fst x of None \<Rightarrow> [] | Some c \<Rightarrow> guardsFromConfig c s, snd x) }"

section \<open>A tick\<close>

definition applyOnFail :: "watchdog \<Rightarrow> running_step \<Rightarrow> guard \<Rightarrow> halt_reason \<Rightarrow> unit op" where
  "applyOnFail wd s g reason =
     (if guard_on_fail g = GuardOnFailFail \<or> guard_on_fail g = GuardOnFailRetry then do {
        now \<leftarrow> time_now;
        _ \<leftarrow> UpdateRunStepStatus (rn_step s) StepStatusFailed None (Some now) (Some (probeHaltMessage reason));
        _ \<leftarrow> UpdateRunStatus (rn_run s) RunStatusFailed None (Some now) None (Some (probeHaltMessage reason));
        skip }
      else do {
        _ \<leftarrow> RaiseProbeHalt (wd_hitl wd) (rn_step s) reason;
        skip })"

text \<open>The first breach of a step ends its turn.\<close>

fun checkGuards :: "watchdog \<Rightarrow> running_step \<Rightarrow> time \<Rightarrow> guard list \<Rightarrow> unit op" where
  "checkGuards wd s now [] = skip"
| "checkGuards wd s now (g # gs) = do {
     b \<leftarrow> evaluate s g now;
     case b of
       None \<Rightarrow> checkGuards wd s now gs
     | Some reason \<Rightarrow> applyOnFail wd s g reason }"

fun checkSteps :: "watchdog \<Rightarrow> config_cache \<Rightarrow> time \<Rightarrow> running_step list \<Rightarrow> unit op" where
  "checkSteps wd cache now [] = skip"
| "checkSteps wd cache now (s # ss) = do {
     x \<leftarrow> guardsForStep wd cache s;
     _ \<leftarrow> checkGuards wd s now (fst x);
     checkSteps wd (snd x) now ss }"

definition Check :: "watchdog \<Rightarrow> unit fop" where
  "Check wd =
     attempt ListRunningSteps (\<lambda>steps. do {
       now \<leftarrow> time_now;
       _ \<leftarrow> checkSteps wd Map.empty now steps;
       ok () })"

end
