(* ===== verification/WatchdogSpec.thy ===== *)
theory WatchdogSpec
  imports Watchdog HITLSpec StoreFrame
begin

text \<open>
  What one tick of the watchdog does to the runs, the steps and the human-in-the-loop requests:
  exactly what the first breached guard of each running step demands.
\<close>

section \<open>The verdict on a step\<close>

definition breachNow :: "world \<Rightarrow> time \<Rightarrow> running_step \<Rightarrow> guard \<Rightarrow> halt_reason option" where
  "breachNow w now s g =
     (if guard_kind g = GuardLogSilence then silenceBreach s g now
      else if guard_kind g = GuardWallclock then wallclockBreach s g now
      else if guard_kind g = GuardCostBatch \<and> 0 < guard_max g \<and> \<bar>costOfRun (rn_run s) w\<bar> < 10000
      then exceeds GuardCostBatch g (costOfRun (rn_run s) w) (guard_max g) ''usd'' else None)"

fun firstBreach :: "world \<Rightarrow> time \<Rightarrow> running_step \<Rightarrow> guard list \<Rightarrow> (guard \<times> halt_reason) option" where
  "firstBreach w now s [] = None"
| "firstBreach w now s (g # gs) =
     (case breachNow w now s g of None \<Rightarrow> firstBreach w now s gs | Some r \<Rightarrow> Some (g, r))"

definition configOf :: "watchdog \<Rightarrow> world \<Rightarrow> uuid \<Rightarrow> pipeline_config_yaml option" where
  "configOf wd w p =
     (case tbl_find pc_project p (w_configs w) of
        None \<Rightarrow> None
      | Some row \<Rightarrow> (case ParsePipelineConfigYAML (wd_unmarshal wd) (pc_yaml row) of
            Inl e \<Rightarrow> None | Inr y \<Rightarrow> Some y))"

definition guardsNow :: "watchdog \<Rightarrow> world \<Rightarrow> running_step \<Rightarrow> guard list" where
  "guardsNow wd w s = (case configOf wd w (rn_project s) of None \<Rightarrow> [] | Some c \<Rightarrow> guardsFromConfig c s)"

definition verdict :: "watchdog \<Rightarrow> world \<Rightarrow> time \<Rightarrow> running_step \<Rightarrow> (guard \<times> halt_reason) option" where
  "verdict wd w now s = firstBreach w now s (guardsNow wd w s)"

definition hardFail :: "guard \<Rightarrow> bool" where
  "hardFail g \<longleftrightarrow> guard_on_fail g = GuardOnFailFail \<or> guard_on_fail g = GuardOnFailRetry"

definition failing :: "watchdog \<Rightarrow> world \<Rightarrow> time \<Rightarrow> running_step \<Rightarrow> bool" where
  "failing wd w now s \<longleftrightarrow> (\<exists>g r. verdict wd w now s = Some (g, r) \<and> hardFail g)"

text \<open>A step whose oldest request is still pending is not halted again.\<close>

definition asked :: "world \<Rightarrow> uuid \<Rightarrow> bool" where
  "asked w j \<longleftrightarrow> (\<exists>h. tbl_find hitl_step j (w_hitl w) = Some h \<and> hitl_status h = HITLStatusPending)"

definition halting :: "watchdog \<Rightarrow> world \<Rightarrow> time \<Rightarrow> running_step \<Rightarrow> halt_reason \<Rightarrow> bool" where
  "halting wd w now s r \<longleftrightarrow>
     (\<exists>g. verdict wd w now s = Some (g, r) \<and> \<not> hardFail g) \<and> \<not> asked w (rn_step s)"

section \<open>What the verdict depends on\<close>

definition stepOwners :: "world \<Rightarrow> (uuid \<times> uuid) list" where
  "stepOwners w = map (\<lambda>s. (rs_id s, rs_run s)) (w_steps w)"

definition guardInputs :: "world \<Rightarrow> world \<Rightarrow> bool" where
  "guardInputs w w' \<longleftrightarrow> w_configs w' = w_configs w \<and> w_costs w' = w_costs w
     \<and> stepOwners w' = stepOwners w \<and> (w_faults w = [] \<longrightarrow> w_faults w' = [])"

lemma stepOwners_update:
  "(\<And>s. rs_id (f s) = rs_id s \<and> rs_run (f s) = rs_run s) \<Longrightarrow>
   map (\<lambda>s. (rs_id s, rs_run s)) (tbl_update rs_id i f ss) = map (\<lambda>s. (rs_id s, rs_run s)) ss"
  by (induction ss) auto

interpretation guard_inputs: exec_frame guardInputs
  by unfold_locales
     (simp_all add: guardInputs_def stepOwners_def keeps_def op_defs run_simps run_db_op_faults
        run_fault_op_faults Let_def stepOwners_update split: list.split option.split)

lemma step_owner: "map_option rs_run (tbl_find rs_id j ss) = map_of (map (\<lambda>s. (rs_id s, rs_run s)) ss) j"
  by (induction ss) auto

lemma guardInputs_verdict:
  assumes "guardInputs w w'"
  shows "verdict wd w' now s = verdict wd w now s" and "configOf wd w' p = configOf wd w p"
proof -
  have c: "costOfRun i w' = costOfRun i w" for i
    using assms unfolding costOfRun_def step_owner guardInputs_def stepOwners_def by simp
  have "breachNow w' now s g = breachNow w now s g" for g by (simp add: breachNow_def c)
  then have "firstBreach w' now s gs = firstBreach w now s gs" for gs
    by (induction gs) (simp_all split: option.split)
  moreover show p: "configOf wd w' p = configOf wd w p" for p
    using assms by (simp add: configOf_def guardInputs_def)
  ultimately show "verdict wd w' now s = verdict wd w now s" by (simp add: verdict_def guardsNow_def)
qed

lemma evaluate_now: "w_faults w = [] \<Longrightarrow> run_state (evaluate s g now) w = (breachNow w now s g, w)"
  by (auto simp: evaluate_def breachNow_def SumCostByRun_def run_simps)

lemma checkGuards_first:
  "w_faults w = [] \<Longrightarrow> run_state (checkGuards wd s now gs) w =
     (case firstBreach w now s gs of None \<Rightarrow> ((), w) | Some (g, r) \<Rightarrow> run_state (applyOnFail wd s g r) w)"
  by (induction gs) (simp_all add: run_simps evaluate_now split: option.split)

lemma guardsForStep_now:
  assumes "w_faults w = []" and "\<forall>p c. cache p = Some c \<longrightarrow> c = configOf wd w p"
  shows "\<exists>cache'. run_state (guardsForStep wd cache s) w = ((guardsNow wd w s, cache'), w)
    \<and> (\<forall>p c. cache' p = Some c \<longrightarrow> c = configOf wd w p)"
  using assms
  by (auto simp: guardsForStep_def pipelineConfig_def guardsNow_def configOf_def GetPipelineConfig_def run_simps
    Let_def split: option.split sum.split)


section \<open>One step\<close>

text \<open>The effect of a step's turn on the views, given the state before it.\<close>

definition haltRow :: "running_step \<Rightarrow> halt_reason \<Rightarrow> hitl_request \<Rightarrow> bool" where
  "haltRow s r h \<longleftrightarrow> hitl_step h = rn_step s \<and> hitl_status h = HITLStatusPending
     \<and> hitl_gate_type h = HITLGateProbeHalt \<and> hitl_halt_reason h = Some r"

definition turn :: "watchdog \<Rightarrow> time \<Rightarrow> running_step \<Rightarrow> world \<Rightarrow> world \<Rightarrow> bool" where
  "turn wd now s w w' \<longleftrightarrow> guardInputs w w'
     \<and> stepSt w' = (if failing wd w now s then (stepSt w)(rn_step s \<mapsto> StepStatusFailed) else stepSt w)
     \<and> runSt w' = (if failing wd w now s then (runSt w)(rn_run s \<mapsto> RunStatusFailed)
          else if (\<exists>r. halting wd w now s r) \<and> runSt w (rn_run s) = Some RunStatusRunning
          then (runSt w)(rn_run s \<mapsto> RunStatusPaused) else runSt w)
     \<and> (\<exists>new. w_hitl w' = w_hitl w @ new \<and> (\<forall>h \<in> set new. \<exists>r. halting wd w now s r \<and> haltRow s r h)
          \<and> (\<forall>r. halting wd w now s r \<longrightarrow> new \<noteq> []))"

definition rowOk :: "world \<Rightarrow> running_step \<Rightarrow> bool" where
  "rowOk w s \<longleftrightarrow> (\<exists>st r. tbl_find rs_id (rn_step s) (w_steps w) = Some st \<and> rs_run st = rn_run s
     \<and> tbl_find run_id (rn_run s) (w_runs w) = Some r)"

lemma rowOk_views:
  "rowOk w s \<longleftrightarrow> map_of (stepOwners w) (rn_step s) = Some (rn_run s) \<and> runSt w (rn_run s) \<noteq> None"
  by (auto simp: rowOk_def stepOwners_def step_owner [symmetric] runSt_def)

lemma RaiseProbeHalt_inputs: "keeps guardInputs (RaiseProbeHalt svc j r)"
  unfolding RaiseProbeHalt_def raiseNewHalt_def publishProbeHaltEvent_def by (intro frame_intros)

lemma RaiseProbeHalt_turn:
  assumes "w_faults w = []" and "rowOk w s" and "verdict wd w now s = Some (g, r)" and "\<not> hardFail g"
    and x: "run_state (RaiseProbeHalt svc (rn_step s) r) w = (x, w')"
  shows "turn wd now s w w'"
proof -
  obtain st run where st: "tbl_find rs_id (rn_step s) (w_steps w) = Some st" "rs_run st = rn_run s"
    "tbl_find run_id (rs_run st) (w_runs w) = Some run"
    using assms(2) unfolding rowOk_def by metis
  have inputs: "guardInputs w w'" by (rule keepsD [OF RaiseProbeHalt_inputs x])
  have nf: "\<not> failing wd w now s" using assms(3,4) by (simp add: failing_def)
  have h: "halting wd w now s r' \<longleftrightarrow> \<not> asked w (rn_step s) \<and> r' = r" for r'
    using assms(3,4) by (auto simp: halting_def)
  show ?thesis
  proof (cases "asked w (rn_step s)")
    case True
    then have "w' = w" using x assms(1)
      by (auto simp: asked_def RaiseProbeHalt_def GetHITLByRunStepID_def run_simps)
    with True nf h inputs show ?thesis by (auto simp: turn_def)
  next
    case False
    then have "run_state (raiseNewHalt svc (rn_step s) r) w = (x, w')" using x assms(1)
      by (auto simp: asked_def RaiseProbeHalt_def GetHITLByRunStepID_def run_simps split: option.splits)
    with raiseNewHalt_effect [OF assms(1) st(1,3), of svc r] obtain q where
      "w_hitl w' = w_hitl w @ [q]" "haltRow s r q" "w_steps w' = w_steps w"
      "runSt w' = (if run_status run = RunStatusRunning then (runSt w)(rs_run st \<mapsto> RunStatusPaused) else runSt w)"
      unfolding haltRow_def by auto
    with nf h False inputs st show ?thesis by (auto simp: turn_def stepSt_def runSt_def)
  qed
qed

lemma hardFail_turn:
  assumes "w_faults w = []" and "rowOk w s" and "verdict wd w now s = Some (g, r)" and "hardFail g"
    and "run_state (applyOnFail wd s g r) w = ((), w')"
  shows "turn wd now s w w'"
proof -
  have inputs: "guardInputs w w'"
    by (rule keepsD [OF _ assms(5)])
      (use assms(4) in \<open>simp add: applyOnFail_def hardFail_def [symmetric]\<close>, intro frame_intros)
  obtain st run where st: "tbl_find rs_id (rn_step s) (w_steps w) = Some st"
    "tbl_find run_id (rn_run s) (w_runs w) = Some run"
    using assms(2) by (auto simp: rowOk_def)
  have "stepSt w' = (stepSt w)(rn_step s \<mapsto> StepStatusFailed)" "runSt w' = (runSt w)(rn_run s \<mapsto> RunStatusFailed)"
    "w_hitl w' = w_hitl w"
    using assms(1,4,5) st
    by (auto simp: applyOnFail_def hardFail_def UpdateRunStepStatus_def UpdateRunStatus_def run_simps
      stepSt_update_status runSt_update_status stepSt_def runSt_def)
  moreover have "failing wd w now s" "\<not> halting wd w now s r'" for r'
    using assms(3,4) by (auto simp: failing_def halting_def)
  ultimately show ?thesis using inputs by (simp add: turn_def)
qed

lemma checkGuards_turn:
  assumes "w_faults w = []" and "rowOk w s" and "run_state (checkGuards wd s now (guardsNow wd w s)) w = ((), w')"
  shows "turn wd now s w w'"
proof (cases "verdict wd w now s")
  case None
  then have "w' = w" using assms(3) checkGuards_first [OF assms(1)] by (simp add: verdict_def)
  moreover have "guardInputs w w" by (simp add: guardInputs_def)
  ultimately show ?thesis using None by (auto simp: turn_def failing_def halting_def)
next
  case (Some v)
  obtain g r where v: "verdict wd w now s = Some (g, r)" using Some by (cases v) simp
  then have a: "run_state (applyOnFail wd s g r) w = ((), w')"
    using assms(3) checkGuards_first [OF assms(1)] by (simp add: verdict_def)
  show ?thesis
  proof (cases "hardFail g")
    case True
    with hardFail_turn [OF assms(1,2) v _ a] show ?thesis .
  next
    case False
    then obtain x where "run_state (RaiseProbeHalt (wd_hitl wd) (rn_step s) r) w = (x, w')"
      using a by (auto simp: applyOnFail_def hardFail_def run_simps split: prod.splits)
    from RaiseProbeHalt_turn [OF assms(1,2) v False this] show ?thesis .
  qed
qed


section \<open>All steps\<close>

definition ticked :: "watchdog \<Rightarrow> time \<Rightarrow> running_step list \<Rightarrow> world \<Rightarrow> world \<Rightarrow> bool" where
  "ticked wd now ss w w' \<longleftrightarrow>
     (\<forall>j. stepSt w' j = (if \<exists>s \<in> set ss. rn_step s = j \<and> failing wd w now s
        then Some StepStatusFailed else stepSt w j))
     \<and> (\<forall>i. runSt w' i = (if \<exists>s \<in> set ss. rn_run s = i \<and> failing wd w now s then Some RunStatusFailed
          else if runSt w i = Some RunStatusRunning \<and> (\<exists>s \<in> set ss. rn_run s = i \<and> (\<exists>r. halting wd w now s r))
          then Some RunStatusPaused else runSt w i))
     \<and> (\<exists>new. w_hitl w' = w_hitl w @ new
          \<and> (\<forall>h \<in> set new. \<exists>s \<in> set ss. \<exists>r. halting wd w now s r \<and> haltRow s r h)
          \<and> (\<forall>s \<in> set ss. \<forall>r. halting wd w now s r \<longrightarrow> (\<exists>h \<in> set new. haltRow s r h)))"

lemma halting_unique: "halting wd w now s r \<Longrightarrow> halting wd w now s r' \<Longrightarrow> r = r'"
  by (auto simp: halting_def)

lemma turn_others:
  assumes "turn wd now s w u" and "rn_step s' \<noteq> rn_step s"
  shows "failing wd u now s' = failing wd w now s'" "halting wd u now s' = halting wd w now s'"
proof -
  obtain new where new: "w_hitl u = w_hitl w @ new" "\<forall>h \<in> set new. hitl_step h = rn_step s"
    using assms(1) unfolding turn_def haltRow_def by blast
  have "tbl_find hitl_step (rn_step s') new = None" using new(2) assms(2) by (auto simp: tbl_find_None_iff)
  then have "asked u (rn_step s') = asked w (rn_step s')"
    using new(1) by (auto simp: asked_def tbl_find_append split: option.split)
  moreover have "verdict wd u now s' = verdict wd w now s'"
    using assms(1) guardInputs_verdict by (simp add: turn_def)
  ultimately show "failing wd u now s' = failing wd w now s'" "halting wd u now s' = halting wd w now s'"
    by (simp_all add: failing_def halting_def fun_eq_iff)
qed

lemma status_merge:
  "(if P then f else if (if A then f else if i \<and> G \<and> v = r then p else v) = r \<and> Q then p
      else if A then f else if i \<and> G \<and> v = r then p else v) =
   (if A \<or> P then f else if v = r \<and> (i \<and> G \<or> Q) then p else v)"
  if "f \<noteq> r" and "p \<noteq> r"
  using that by (simp split: if_split) blast

lemma ticked_Cons:
  assumes t: "turn wd now s w u" and k: "ticked wd now ss u w'" and d: "rn_step s \<notin> rn_step ` set ss"
  shows "ticked wd now (s # ss) w w'"
proof -
  have o: "failing wd u now s' = failing wd w now s'" "halting wd u now s' = halting wd w now s'" if "s' \<in> set ss" for s'
  proof -
    have "rn_step s' \<noteq> rn_step s" using d that by (metis image_eqI)
    from turn_others [OF t this] show "failing wd u now s' = failing wd w now s'"
      "halting wd u now s' = halting wd w now s'" .
  qed
  have step: "stepSt w' j = (if \<exists>s \<in> set (s # ss). rn_step s = j \<and> failing wd w now s
      then Some StepStatusFailed else stepSt w j)" for j
    using k t o d by (auto simp: ticked_def turn_def)
  have run: "runSt w' i = (if \<exists>s \<in> set (s # ss). rn_run s = i \<and> failing wd w now s then Some RunStatusFailed
      else if runSt w i = Some RunStatusRunning \<and> (\<exists>s \<in> set (s # ss). rn_run s = i \<and> (\<exists>r. halting wd w now s r))
      then Some RunStatusPaused else runSt w i)" for i
  proof -
    have a: "runSt w' i = (if \<exists>s \<in> set ss. rn_run s = i \<and> failing wd w now s then Some RunStatusFailed
        else if runSt u i = Some RunStatusRunning \<and> (\<exists>s \<in> set ss. rn_run s = i \<and> (\<exists>r. halting wd w now s r))
        then Some RunStatusPaused else runSt u i)"
      using k o by (auto simp: ticked_def)
    have b: "runSt u i = (if rn_run s = i \<and> failing wd w now s then Some RunStatusFailed
        else if rn_run s = i \<and> (\<exists>r. halting wd w now s r) \<and> runSt w i = Some RunStatusRunning
        then Some RunStatusPaused else runSt w i)"
    proof -
      have "runSt u = (if failing wd w now s then (runSt w)(rn_run s \<mapsto> RunStatusFailed)
          else if (\<exists>r. halting wd w now s r) \<and> runSt w (rn_run s) = Some RunStatusRunning
          then (runSt w)(rn_run s \<mapsto> RunStatusPaused) else runSt w)"
        using t unfolding turn_def by blast
      then show ?thesis by (cases "rn_run s = i") auto
    qed
    have P: "(\<exists>s \<in> set (s # ss). rn_run s = i \<and> failing wd w now s)
        \<longleftrightarrow> rn_run s = i \<and> failing wd w now s \<or> (\<exists>s \<in> set ss. rn_run s = i \<and> failing wd w now s)" by simp
    have Q: "(\<exists>s \<in> set (s # ss). rn_run s = i \<and> (\<exists>r. halting wd w now s r))
        \<longleftrightarrow> rn_run s = i \<and> (\<exists>r. halting wd w now s r) \<or> (\<exists>s \<in> set ss. rn_run s = i \<and> (\<exists>r. halting wd w now s r))"
      by simp
    show ?thesis unfolding a b P Q by (rule status_merge) simp_all
  qed
  obtain x y where x: "w_hitl u = w_hitl w @ x" "\<forall>h \<in> set x. \<exists>r. halting wd w now s r \<and> haltRow s r h"
      "\<forall>r. halting wd w now s r \<longrightarrow> x \<noteq> []"
    and y: "w_hitl w' = w_hitl u @ y" "\<forall>h \<in> set y. \<exists>s \<in> set ss. \<exists>r. halting wd u now s r \<and> haltRow s r h"
      "\<forall>s \<in> set ss. \<forall>r. halting wd u now s r \<longrightarrow> (\<exists>h \<in> set y. haltRow s r h)"
    using t k unfolding turn_def ticked_def by blast
  have "\<exists>h \<in> set x. haltRow s r h" if "halting wd w now s r" for r
    using x(2,3) that halting_unique [OF that] by (metis last_in_set)
  with x y o have "\<exists>new. w_hitl w' = w_hitl w @ new
      \<and> (\<forall>h \<in> set new. \<exists>s \<in> set (s # ss). \<exists>r. halting wd w now s r \<and> haltRow s r h)
      \<and> (\<forall>s \<in> set (s # ss). \<forall>r. halting wd w now s r \<longrightarrow> (\<exists>h \<in> set new. haltRow s r h))"
    by (intro exI [of _ "x @ y"]) (simp add: bex_Un ball_Un)
  with step run show ?thesis unfolding ticked_def by blast
qed

lemma turn_rowOk: "turn wd now s w u \<Longrightarrow> rowOk w s' \<Longrightarrow> rowOk u s'"
  by (auto simp: rowOk_views turn_def guardInputs_def)

lemma checkSteps_ticked:
  assumes "run_state (checkSteps wd cache now ss) w = ((), w')" and "w_faults w = []"
    and "\<forall>p c. cache p = Some c \<longrightarrow> c = configOf wd w p" and "\<forall>s \<in> set ss. rowOk w s"
    and "distinct (map rn_step ss)"
  shows "ticked wd now ss w w'"
  using assms
proof (induction ss arbitrary: cache w)
  case Nil
  then show ?case by (simp add: ticked_def run_simps)
next
  case (Cons s ss)
  obtain cache' where c: "run_state (guardsForStep wd cache s) w = ((guardsNow wd w s, cache'), w)"
    "\<forall>p c. cache' p = Some c \<longrightarrow> c = configOf wd w p"
    using guardsForStep_now [OF Cons.prems(2,3)] by blast
  obtain u where u: "run_state (checkGuards wd s now (guardsNow wd w s)) w = ((), u)"
    by (cases "run_state (checkGuards wd s now (guardsNow wd w s)) w") auto
  have t: "turn wd now s w u" using Cons.prems(4) by (intro checkGuards_turn [OF Cons.prems(2) _ u]) simp
  then have gi: "guardInputs w u" by (simp add: turn_def)
  have "run_state (checkSteps wd cache' now ss) u = ((), w')" using Cons.prems(1) c(1) u by (simp add: run_simps)
  moreover have "w_faults u = []" using gi Cons.prems(2) by (simp add: guardInputs_def)
  moreover have "\<forall>p c. cache' p = Some c \<longrightarrow> c = configOf wd u p" using c(2) guardInputs_verdict(2) [OF gi] by simp
  moreover have "\<forall>s \<in> set ss. rowOk u s" using Cons.prems(4) turn_rowOk [OF t] by simp
  ultimately have "ticked wd now ss u w'" using Cons.prems(5) by (intro Cons.IH) auto
  with t Cons.prems(5) show ?case by (intro ticked_Cons) auto
qed

section \<open>The tick\<close>

lemma runningRows_in:
  assumes "s \<in> set (runningRows w)" and "distinct (map rs_id (w_steps w))"
  shows "rowOk w s \<and> runSt w (rn_run s) = Some RunStatusRunning"
proof -
  obtain st r where st: "st \<in> set (w_steps w)" "tbl_find run_id (rs_run st) (w_runs w) = Some r"
    "run_status r = RunStatusRunning" "s = runningRow w st r"
    using assms(1) by (auto simp: runningRows_def List.map_filter_def split: if_splits option.splits)
  then have "tbl_find rs_id (rs_id st) (w_steps w) = Some st" using assms(2) by (simp add: tbl_find_Some_iff)
  with st show ?thesis by (auto simp: rowOk_def runningRow_def runSt_def)
qed

lemma runningRows_distinct:
  assumes "distinct (map rs_id (w_steps w))"
  shows "distinct (map rn_step (runningRows w))"
proof -
  have "map rn_step (List.map_filter (\<lambda>s. if rs_status s \<noteq> StepStatusRunning then None
      else case tbl_find run_id (rs_run s) (w_runs w) of None \<Rightarrow> None
         | Some r \<Rightarrow> if run_status r = RunStatusRunning then Some (runningRow w s r) else None) ss)
    = map rs_id (filter (\<lambda>s. rs_status s = StepStatusRunning \<and> runSt w (rs_run s) = Some RunStatusRunning) ss)" for ss
    by (induction ss) (auto simp: List.map_filter_simps runSt_def runningRow_def split: option.split)
  then show ?thesis using assms unfolding runningRows_def by (simp add: distinct_map_filter)
qed

lemma ticked_clock: "ticked wd now ss (w\<lparr>w_clock := t\<rparr>) w' = ticked wd now ss w w'"
proof -
  let ?v = "w\<lparr>w_clock := t\<rparr>"
  have "guardInputs w ?v" by (simp add: guardInputs_def stepOwners_def)
  then have "verdict wd ?v now s = verdict wd w now s" for s by (rule guardInputs_verdict)
  then have "failing wd ?v now s = failing wd w now s" "halting wd ?v now s = halting wd w now s" for s
    by (simp_all add: failing_def halting_def asked_def fun_eq_iff)
  then show ?thesis by (simp add: ticked_def)
qed


end
