(* ===== verification/Reapers.thy ===== *)
theory Reapers
  imports RunService
begin

text \<open>
  The processes that compare containers with runs: the timeout enforcer
  (\<open>timeout_enforcer.go\<close>), the orphan reconciler (\<open>orphan_reconciler.go\<close>) and the orphan cleaner
  (\<open>orphan_cleaner.go\<close>), in \<open>backend/internal/domain/service\<close>. The container manager is an
  interface: what it lists and whether stopping or removing a container works are parameters.
\<close>

section \<open>The container manager\<close>

record container =
  ct_id :: string
  ct_labels :: "string \<rightharpoonup> string"

definition label :: "string \<Rightarrow> container \<Rightarrow> string" where
  "label k c = (case ct_labels c k of None \<Rightarrow> [] | Some v \<Rightarrow> v)"

record container_mgr =
  cm_all :: "world \<Rightarrow> container list res"
  cm_running :: "world \<Rightarrow> container list res"
  cm_stops :: "string \<Rightarrow> world \<Rightarrow> bool"
  cm_removes :: "string \<Rightarrow> world \<Rightarrow> bool"
  cm_parse_uuid :: "string \<rightharpoonup> uuid"

definition ListContainers :: "container_mgr \<Rightarrow> container list fop" where
  "ListContainers cm = reading (cm_all cm)"

definition ListRunningContainers :: "container_mgr \<Rightarrow> container list fop" where
  "ListRunningContainers cm = reading (cm_running cm)"

text \<open>\<open>w_stops\<close> records the containers stopped or removed.\<close>

definition StopContainer :: "container_mgr \<Rightarrow> string \<Rightarrow> unit fop" where
  "StopContainer cm c =
     writing (\<lambda>w. if cm_stops cm c w then (Inr (), w\<lparr>w_stops := w_stops w @ [c]\<rparr>)
       else (Inl (PlainErr [T ''stop container'']), w))"

definition RemoveContainer :: "container_mgr \<Rightarrow> string \<Rightarrow> unit fop" where
  "RemoveContainer cm c =
     writing (\<lambda>w. if cm_removes cm c w then (Inr (), w\<lparr>w_stops := w_stops w @ [c]\<rparr>)
       else (Inl (PlainErr [T ''remove container'']), w))"

section \<open>Timeouts\<close>

definition containerTimeoutReason :: msg where
  "containerTimeoutReason = [T ''container_timeout'']"

definition getTimeout :: "time \<Rightarrow> uuid \<Rightarrow> time op" where
  "getTimeout default_timeout i = do {
     r \<leftarrow> GetRun i;
     case r of
       Inl e \<Rightarrow> State_Monad.return default_timeout
     | Inr run \<Rightarrow> do {
         p \<leftarrow> GetProjectByID (run_project run);
         State_Monad.return (case p of
             Inl e \<Rightarrow> default_timeout
           | Inr pr \<Rightarrow> (case project_max_container_timeout pr of
               None \<Rightarrow> default_timeout | Some t \<Rightarrow> if 0 < t then t else default_timeout)) } }"

definition failTimedOut :: "uuid \<Rightarrow> uuid \<Rightarrow> unit op" where
  "failTimedOut i j = do {
     now \<leftarrow> time_now;
     _ \<leftarrow> UpdateRunStepStatus j StepStatusFailed None (Some now) (Some containerTimeoutReason);
     _ \<leftarrow> UpdateRunStatus i RunStatusFailed None (Some now) None (Some containerTimeoutReason);
     skip }"

definition checkStarted :: "container_mgr \<Rightarrow> time \<Rightarrow> container \<Rightarrow> uuid \<Rightarrow> uuid \<Rightarrow> time \<Rightarrow> unit op" where
  "checkStarted cm default_timeout c i j started = do {
     limit \<leftarrow> getTimeout default_timeout i;
     now \<leftarrow> time_now;
     if now - started \<le> limit then skip
     else do {
       r \<leftarrow> StopContainer cm (ct_id c);
       case r of Inl e \<Rightarrow> skip | Inr _ \<Rightarrow> failTimedOut i j } }"

definition checkContainer :: "container_mgr \<Rightarrow> time \<Rightarrow> container \<Rightarrow> unit op" where
  "checkContainer cm default_timeout c =
     (if label ''run_id'' c = [] \<or> label ''step_id'' c = [] then skip
      else case cm_parse_uuid cm (label ''run_id'' c) of
          None \<Rightarrow> skip
        | Some i \<Rightarrow> (case cm_parse_uuid cm (label ''step_id'' c) of
              None \<Rightarrow> skip
            | Some j \<Rightarrow> do {
                s \<leftarrow> GetRunStep j;
                case s of
                  Inl e \<Rightarrow> skip
                | Inr st \<Rightarrow> (case rs_started_at st of
                      None \<Rightarrow> skip
                    | Some t \<Rightarrow> checkStarted cm default_timeout c i j t) }))"

definition CheckTimeouts :: "container_mgr \<Rightarrow> time \<Rightarrow> unit fop" where
  "CheckTimeouts cm default_timeout =
     attempt (ListContainers cm) (\<lambda>cs. do {
       _ \<leftarrow> for_each cs (checkContainer cm default_timeout);
       ok () })"

section \<open>Orphaned runs\<close>

definition orphanedNoContainerReason :: msg where
  "orphanedNoContainerReason = [T ''orphaned_no_container'']"

definition DefaultOrphanGraceWindow :: time where
  "DefaultOrphanGraceWindow = 60 * 1000000000"

text \<open>A running step whose container was launched, is past the grace window and is not alive.\<close>

definition lostContainer :: "time \<Rightarrow> string list \<Rightarrow> time \<Rightarrow> run_step \<Rightarrow> bool" where
  "lostContainer grace alive now s \<longleftrightarrow> rs_status s = StepStatusRunning
     \<and> (case rs_container s of None \<Rightarrow> False | Some c \<Rightarrow> c \<noteq> [] \<and> c \<notin> set alive)
     \<and> (case rs_started_at s of None \<Rightarrow> False | Some t \<Rightarrow> \<not> now - t < grace)"

definition isOrphaned :: "time \<Rightarrow> string list \<Rightarrow> time \<Rightarrow> run \<Rightarrow> bool fop" where
  "isOrphaned grace alive now run =
     attempt (ListRunStepsByRun (run_id run)) (\<lambda>steps. ok (list_ex (lostContainer grace alive now) steps))"

definition reconcileRun :: "time \<Rightarrow> string list \<Rightarrow> time \<Rightarrow> run \<Rightarrow> unit op" where
  "reconcileRun grace alive now run = do {
     o' \<leftarrow> isOrphaned grace alive now run;
     case o' of
       Inl e \<Rightarrow> skip
     | Inr orphaned \<Rightarrow>
         if orphaned then do {
           _ \<leftarrow> MarkRunOrphanedIfRunning (run_id run) now orphanedNoContainerReason;
           skip }
         else skip }"

definition ReconcileOrphanedRuns :: "container_mgr \<Rightarrow> time \<Rightarrow> unit fop" where
  "ReconcileOrphanedRuns cm grace =
     attempt (ListRunningContainers cm) (\<lambda>cs.
     attempt (ListRunsByStatus RunStatusRunning) (\<lambda>runs. do {
       now \<leftarrow> time_now;
       _ \<leftarrow> for_each runs (reconcileRun grace (filter (\<lambda>c. c \<noteq> []) (map ct_id cs)) now);
       ok () }))"

section \<open>Orphaned containers\<close>

definition removeOrphan :: "container_mgr \<Rightarrow> string \<Rightarrow> unit op" where
  "removeOrphan cm c = do { _ \<leftarrow> RemoveContainer cm c; skip }"

definition cleanContainer :: "container_mgr \<Rightarrow> container \<Rightarrow> unit op" where
  "cleanContainer cm c =
     (if label ''run_id'' c = [] then removeOrphan cm (ct_id c)
      else case cm_parse_uuid cm (label ''run_id'' c) of
          None \<Rightarrow> removeOrphan cm (ct_id c)
        | Some i \<Rightarrow> do {
            r \<leftarrow> GetRun i;
            case r of
              Inl e \<Rightarrow> removeOrphan cm (ct_id c)
            | Inr run \<Rightarrow>
                if run_status run \<noteq> RunStatusRunning \<and> run_status run \<noteq> RunStatusPending
                then removeOrphan cm (ct_id c) else skip })"

definition CleanupOrphans :: "container_mgr \<Rightarrow> unit fop" where
  "CleanupOrphans cm =
     attempt (ListContainers cm) (\<lambda>cs. do {
       _ \<leftarrow> for_each cs (cleanContainer cm);
       ok () })"

end
