(* ===== verification/ReapersSpec.thy ===== *)
theory ReapersSpec
  imports Reapers RunServiceSpec
begin

text \<open>
  The safety of the processes that compare containers with runs: the reconciler fails a run only on
  proof of absence, the timeout enforcer stops a container before it fails the run, and what is
  expired is failed.
\<close>

section \<open>The reconciler\<close>

definition hasLost :: "time \<Rightarrow> string list \<Rightarrow> time \<Rightarrow> world \<Rightarrow> uuid \<Rightarrow> bool" where
  "hasLost grace alive now w i \<longleftrightarrow> (\<exists>s \<in> set (w_steps w). rs_run s = i \<and> lostContainer grace alive now s)"

lemma isOrphaned_result:
  assumes "run_state (isOrphaned grace alive now run) w = (r, v)"
  shows "w_steps v = w_steps w \<and> w_runs v = w_runs w \<and> (w_faults w = [] \<longrightarrow> w_faults v = [] \<and> isl r = False)
    \<and> (\<forall>b. r = Inr b \<longrightarrow> b = hasLost grace alive now w (run_id run))"
  using assms
  by (auto simp: isOrphaned_def ListRunStepsByRun_def run_simps run_db_op_faults hasLost_def steps_of_def list_ex_iff
    split: list.splits if_splits)

lemma runSt_orphan:
  "runSt (u\<lparr>w_runs := tbl_update run_id i (orphan_run t m v) (w_runs w)\<rparr>) =
     (if runSt w i = Some RunStatusRunning then (runSt w)(i \<mapsto> RunStatusFailed) else runSt w)"
  by (rule ext, cases "tbl_find run_id i (w_runs w)") (auto simp: runSt_def tbl_find_update orphan_run_def)

lemma MarkRunOrphaned_effect:
  assumes "run_state (MarkRunOrphanedIfRunning i t m) w = (r, v)"
  shows "w_steps v = w_steps w \<and> (w_faults w = [] \<longrightarrow> w_faults v = [])
    \<and> (runSt v = runSt w \<and> (w_faults w = [] \<longrightarrow> runSt w i \<noteq> Some RunStatusRunning)
       \<or> runSt w i = Some RunStatusRunning \<and> runSt v = (runSt w)(i \<mapsto> RunStatusFailed))"
  using assms
  by (auto simp: MarkRunOrphanedIfRunning_def run_simps run_db_op_faults runSt_orphan views_cong(3) [of "w\<lparr>w_faults := fs\<rparr>" w for fs]
    split: list.splits if_splits)

definition reconciled :: "time \<Rightarrow> string list \<Rightarrow> time \<Rightarrow> run list \<Rightarrow> world \<Rightarrow> world \<Rightarrow> bool" where
  "reconciled grace alive now rs w w' \<longleftrightarrow> w_steps w' = w_steps w
     \<and> (\<forall>i. runSt w' i = runSt w i \<or> hasLost grace alive now w i \<and> runSt w i = Some RunStatusRunning
          \<and> runSt w' i = Some RunStatusFailed)
     \<and> (w_faults w = [] \<longrightarrow> w_faults w' = [] \<and> (\<forall>r \<in> set rs. hasLost grace alive now w (run_id r)
          \<longrightarrow> runSt w (run_id r) = Some RunStatusRunning \<longrightarrow> runSt w' (run_id r) = Some RunStatusFailed))"

lemma reconcileRun_effect:
  assumes "run_state (reconcileRun grace alive now run) w = ((), w')"
  shows "reconciled grace alive now [run] w w'"
proof -
  obtain r v where r: "run_state (isOrphaned grace alive now run) w = (r, v)" by fastforce
  note f = isOrphaned_result [OF r]
  show ?thesis
  proof (cases "r = Inr True")
    case True
    obtain q z where q: "run_state (MarkRunOrphanedIfRunning (run_id run) now orphanedNoContainerReason) v = (q, z)"
      by fastforce
    have "w' = z" using assms r True q by (simp add: reconcileRun_def run_simps)
    moreover have "runSt v = runSt w" using f by (simp add: runSt_def fun_eq_iff)
    ultimately show ?thesis using MarkRunOrphaned_effect [OF q] f True
      by (auto simp: reconciled_def split: if_splits)
  next
    case False
    then have "w' = v" using assms r by (auto simp: reconcileRun_def run_simps split: sum.splits if_splits)
    moreover have "runSt v = runSt w" using f by (simp add: runSt_def fun_eq_iff)
    ultimately show ?thesis using f False by (cases r) (auto simp: reconciled_def)
  qed
qed

lemma reconciled_Cons:
  assumes "reconciled grace alive now [r] w v" and "reconciled grace alive now rs v w'"
  shows "reconciled grace alive now (r # rs) w w'"
proof -
  have h: "hasLost grace alive now v i = hasLost grace alive now w i" for i
    using assms(1) by (simp add: hasLost_def reconciled_def)
  have a: "runSt v i = runSt w i \<or> hasLost grace alive now w i \<and> runSt w i = Some RunStatusRunning
      \<and> runSt v i = Some RunStatusFailed" for i
    using assms(1) by (simp add: reconciled_def)
  have b: "runSt w' i = runSt v i \<or> hasLost grace alive now w i \<and> runSt v i = Some RunStatusRunning
      \<and> runSt w' i = Some RunStatusFailed" for i
    using assms(2) h by (simp add: reconciled_def)
  have "runSt w' i = runSt w i \<or> hasLost grace alive now w i \<and> runSt w i = Some RunStatusRunning
      \<and> runSt w' i = Some RunStatusFailed" for i
    using a [of i] b [of i] by auto
  moreover have "runSt w' (run_id x) = Some RunStatusFailed"
    if x: "w_faults w = []" "x \<in> set (r # rs)" "hasLost grace alive now w (run_id x)"
      "runSt w (run_id x) = Some RunStatusRunning" for x
  proof -
    have "x = r \<longrightarrow> runSt v (run_id x) = Some RunStatusFailed" "w_faults v = []"
      using x assms(1) by (auto simp: reconciled_def)
    moreover from this have "x \<in> set rs \<longrightarrow> runSt v (run_id x) = Some RunStatusRunning
        \<longrightarrow> runSt w' (run_id x) = Some RunStatusFailed"
      using x assms(2) h by (auto simp: reconciled_def)
    ultimately show ?thesis using x(2,4) a [of "run_id x"] b [of "run_id x"] by auto
  qed
  ultimately show ?thesis using assms by (simp add: reconciled_def)
qed

lemma reconcile_all:
  "run_state (for_each rs (reconcileRun grace alive now)) w = ((), w') \<Longrightarrow> reconciled grace alive now rs w w'"
proof (induction rs arbitrary: w)
  case Nil
  then show ?case by (simp add: reconciled_def run_simps)
next
  case (Cons r rs)
  obtain v where v: "run_state (reconcileRun grace alive now r) w = ((), v)"
    by (cases "run_state (reconcileRun grace alive now r) w") auto
  with Cons.prems have "run_state (for_each rs (reconcileRun grace alive now)) v = ((), w')" by (simp add: run_simps)
  from reconciled_Cons [OF reconcileRun_effect [OF v] Cons.IH [OF this]] show ?case .
qed


text \<open>C18: the reconciler acts on proof of absence only. Under every pattern of infrastructure failures
  a tick either leaves a run's status alone or fails a run that was running, and then the
  listing of running containers had succeeded and the run has a running step whose container was
  launched, is not in the listing, and whose start lies at least the grace window back. Without
  infrastructure failures every such run is failed; if the containers cannot be listed nothing at all is
  changed.\<close>
theorem reconcile_proof_of_absence:
  fixes grace :: time and cm :: container_mgr and w :: world
  defines "lost \<equiv> \<lambda>cs i. \<exists>s \<in> set (w_steps w). rs_run s = i \<and> rs_status s = StepStatusRunning
      \<and> (\<exists>c. rs_container s = Some c \<and> c \<noteq> [] \<and> c \<notin> ct_id ` set cs)
      \<and> (\<exists>t. rs_started_at s = Some t \<and> grace \<le> w_clock w - t)"
  assumes "run_state (ReconcileOrphanedRuns cm grace) w = (res, w')"
  shows "case cm_running cm w of
      Inl e \<Rightarrow> res = Inl e \<and> w' = w
    | Inr cs \<Rightarrow> w_steps w' = w_steps w
        \<and> (\<forall>i. runSt w' i = runSt w i
             \<or> lost cs i \<and> runSt w i = Some RunStatusRunning \<and> runSt w' i = Some RunStatusFailed)
        \<and> (w_faults w = [] \<longrightarrow> (\<forall>i. lost cs i \<longrightarrow> runSt w i = Some RunStatusRunning
             \<longrightarrow> runSt w' i = Some RunStatusFailed))"
proof (cases "cm_running cm w")
  case (Inl e)
  then show ?thesis using assms(2) by (simp add: ReconcileOrphanedRuns_def ListRunningContainers_def run_simps)
next
  case (Inr cs)
  let ?alive = "filter (\<lambda>c. c \<noteq> []) (map ct_id cs)"
  have lost: "lost cs i = hasLost grace ?alive (w_clock w) w i" for i
  proof -
    have "(rs_run s = i \<and> rs_status s = StepStatusRunning \<and> (\<exists>c. rs_container s = Some c \<and> c \<noteq> [] \<and> c \<notin> ct_id ` set cs)
        \<and> (\<exists>t. rs_started_at s = Some t \<and> grace \<le> w_clock w - t))
      = (rs_run s = i \<and> lostContainer grace ?alive (w_clock w) s)" for s
      by (auto simp: lostContainer_def split: option.splits)
    then show ?thesis by (simp add: lost_def hasLost_def)
  qed
  obtain q v where q: "run_state (ListRunsByStatus RunStatusRunning) w = (q, v)" by fastforce
  have v: "w_runs v = w_runs w" "w_steps v = w_steps w" "w_clock v = w_clock w"
    "w_faults w = [] \<Longrightarrow> w_faults v = [] \<and> q = Inr (filter (\<lambda>r. run_status r = RunStatusRunning) (w_runs w))"
    "\<And>rs. q = Inr rs \<Longrightarrow> rs = filter (\<lambda>r. run_status r = RunStatusRunning) (w_runs w)"
    using q by (auto simp: ListRunsByStatus_def run_db_op_faults run_simps split: list.splits if_splits)
  show ?thesis
  proof (cases q)
    case (Inl e)
    then have "w' = v" "w_faults w \<noteq> []"
      using assms(2) Inr q v(4) by (auto simp: ReconcileOrphanedRuns_def ListRunningContainers_def run_simps)
    with v Inr show ?thesis by (simp add: runSt_def)
  next
    case (Inr rs)
    let ?u = "v\<lparr>w_clock := w_clock v + int (w_tick v)\<rparr>"
    obtain z where z: "run_state (for_each rs (reconcileRun grace ?alive (w_clock w))) ?u = ((), z)"
      by (cases "run_state (for_each rs (reconcileRun grace ?alive (w_clock w))) ?u") auto
    have w': "w' = z"
      using assms(2) \<open>cm_running cm w = Inr cs\<close> q Inr z v(3)
      by (simp add: ReconcileOrphanedRuns_def ListRunningContainers_def run_simps)
    have u: "runSt ?u = runSt w" "hasLost grace ?alive t ?u = hasLost grace ?alive t w" for t
      using v by (simp_all add: runSt_def hasLost_def fun_eq_iff)
    have rec: "reconciled grace ?alive (w_clock w) rs ?u z" by (rule reconcile_all [OF z])
    have "runSt z i = Some RunStatusFailed"
      if p: "w_faults w = []" "hasLost grace ?alive (w_clock w) w i" "runSt w i = Some RunStatusRunning" for i
    proof -
      obtain r where "r \<in> set rs" "run_id r = i"
        using p(3) v(5) [OF Inr] by (force simp: runSt_def dest: tbl_find_eq_Some)
      with rec p u v(4) show ?thesis unfolding reconciled_def by auto
    qed
    with rec show ?thesis using \<open>cm_running cm w = Inr cs\<close> v(1,2,4) u
      unfolding reconciled_def w' by (auto 0 3 simp: lost)
  qed
qed

section \<open>The timeout enforcer\<close>

text \<open>The project's own timeout is never mapped from its row: the default always applies.\<close>

lemma getTimeout_default:
  "\<exists>fs. run_state (getTimeout d i) w = (d, w\<lparr>w_faults := fs\<rparr>) \<and> (w_faults w = [] \<longrightarrow> fs = [])"
  by (auto simp: getTimeout_def GetRun_def GetProjectByID_def run_db_op_faults run_simps
    intro: exI [of _ "w_faults w"] split: list.splits option.splits sum.splits if_splits)


text \<open>What a tick can do: the clock advances, statuses change to failed only, starts stay, containers are stopped.\<close>

definition startOf :: "world \<Rightarrow> uuid \<rightharpoonup> time option" where
  "startOf w j = map_option rs_started_at (tbl_find rs_id j (w_steps w))"

definition reaped :: "world \<Rightarrow> world \<Rightarrow> bool" where
  "reaped w w' \<longleftrightarrow> w_clock w \<le> w_clock w' \<and> startOf w' = startOf w
     \<and> (\<forall>j. stepSt w' j = stepSt w j \<or> stepSt w j \<noteq> None \<and> stepSt w' j = Some StepStatusFailed)
     \<and> (\<forall>i. runSt w' i = runSt w i \<or> runSt w i \<noteq> None \<and> runSt w' i = Some RunStatusFailed)
     \<and> set (w_stops w) \<subseteq> set (w_stops w') \<and> (w_faults w = [] \<longrightarrow> w_faults w' = [])"

interpretation reaping: frame reaped
proof
  show "reaped w w" for w by (simp add: reaped_def)
  show "reaped u w" if "reaped u v" "reaped v w" for u v w
  proof -
    have "runSt w i = runSt u i \<or> runSt u i \<noteq> None \<and> runSt w i = Some RunStatusFailed" for i
      using that unfolding reaped_def by metis
    moreover have "stepSt w j = stepSt u j \<or> stepSt u j \<noteq> None \<and> stepSt w j = Some StepStatusFailed" for j
      using that unfolding reaped_def by metis
    ultimately show ?thesis using that unfolding reaped_def by auto
  qed
qed

lemma startOf_update:
  "startOf (u\<lparr>w_steps := tbl_update rs_id j (set_step_status st None ca em v) (w_steps w)\<rparr>) = startOf w"
  by (rule ext) (auto simp: startOf_def tbl_find_update option.map_comp comp_def set_step_status_def coalesce_def)

lemma reaped_views [simp]:
  "startOf (w\<lparr>w_runs := a\<rparr>) = startOf w" "startOf (w\<lparr>w_faults := b\<rparr>) = startOf w"
  "startOf (w\<lparr>w_clock := c\<rparr>) = startOf w" "startOf (w\<lparr>w_stops := d\<rparr>) = startOf w"
  "runSt (w\<lparr>w_stops := d\<rparr>) = runSt w" "stepSt (w\<lparr>w_stops := d\<rparr>) = stepSt w"
  "runSt (w\<lparr>w_faults := b\<rparr>) = runSt w" "stepSt (w\<lparr>w_faults := b\<rparr>) = stepSt w"
  "runSt (w\<lparr>w_steps := e\<rparr>) = runSt w"
  by (simp_all add: startOf_def runSt_def stepSt_def fun_eq_iff)

lemma reaped_ops [frame_intros]:
  "keeps reaped time_now" "keeps reaped (GetRunStep j)" "keeps reaped (getTimeout d i)"
  "keeps reaped (StopContainer cm c)"
  "keeps reaped (UpdateRunStepStatus j StepStatusFailed None ca em)"
  "keeps reaped (UpdateRunStatus i RunStatusFailed sa ca pa em)"
proof -
  show "keeps reaped time_now" by (simp add: keeps_def reaped_def run_simps)
  show "keeps reaped (GetRunStep j)" "keeps reaped (StopContainer cm c)"
    by (auto simp: keeps_def reaped_def GetRunStep_def StopContainer_def run_db_op_faults run_simps
      split: list.split option.split)
  show "keeps reaped (getTimeout d i)"
  proof (unfold keeps_def, rule allI)
    fix w
    from getTimeout_default [of d i w] obtain fs where "run_state (getTimeout d i) w = (d, w\<lparr>w_faults := fs\<rparr>)"
      "w_faults w = [] \<longrightarrow> fs = []" by blast
    then show "reaped w (snd (run_state (getTimeout d i) w))" by (simp add: reaped_def)
  qed
  show "keeps reaped (UpdateRunStepStatus j StepStatusFailed None ca em)"
    by (auto simp: keeps_def reaped_def UpdateRunStepStatus_def run_db_op_faults run_simps startOf_update
      stepSt_update_status split: list.split option.split)
  show "keeps reaped (UpdateRunStatus i RunStatusFailed sa ca pa em)"
    by (auto simp: keeps_def reaped_def UpdateRunStatus_def run_db_op_faults run_simps
      runSt_update_status split: list.split option.split)
qed

lemma checkContainer_reaped [frame_intros]: "keeps reaped (checkContainer cm d c)"
  unfolding checkContainer_def checkStarted_def failTimedOut_def by (intro frame_intros)

lemma checkContainer_expired:
  assumes "w_faults w = []" and "label ''run_id'' c \<noteq> []" and "label ''step_id'' c \<noteq> []"
    and "cm_parse_uuid cm (label ''run_id'' c) = Some i" and "cm_parse_uuid cm (label ''step_id'' c) = Some j"
    and "startOf w j = Some (Some t)" and "d < w_clock w - t" and "runSt w i \<noteq> None"
    and "\<And>v. cm_stops cm (ct_id c) v" and "run_state (checkContainer cm d c) w = ((), w')"
  shows "stepSt w' j = Some StepStatusFailed \<and> runSt w' i = Some RunStatusFailed \<and> ct_id c \<in> set (w_stops w')"
proof -
  obtain s where s: "tbl_find rs_id j (w_steps w) = Some s" "rs_started_at s = Some t"
    using assms(6) by (auto simp: startOf_def)
  obtain r where r: "tbl_find run_id i (w_runs w) = Some r" using assms(8) by (auto simp: runSt_def)
  have g: "run_state (getTimeout d i) w = (d, w)" using getTimeout_default [of d i w] assms(1) by auto
  have "run_state (checkContainer cm d c) w = run_state (failTimedOut i j)
      (w\<lparr>w_clock := w_clock w + int (w_tick w), w_stops := w_stops w @ [ct_id c]\<rparr>)"
    using assms(1-5,7,9) s g
    by (simp add: checkContainer_def checkStarted_def GetRunStep_def StopContainer_def run_simps)
  then show ?thesis using assms(1,10) s r
    by (auto simp: failTimedOut_def UpdateRunStepStatus_def UpdateRunStatus_def run_simps stepSt_update_status
      runSt_update_status runSt_def stepSt_def)
qed


text \<open>without infrastructure failures, a managed container whose step started longer ago than the
  default timeout is stopped, and its step and its run are failed, whatever other containers are
  checked before and after it. The project's own timeout plays no part, and neither does the status of
  the run: a run that had already completed or been cancelled becomes failed as well.\<close>
theorem timeout_enforced:
  assumes "w_faults w = []" and "cm_all cm w = Inr cs" and "c \<in> set cs"
    and "label ''run_id'' c \<noteq> []" and "label ''step_id'' c \<noteq> []"
    and "cm_parse_uuid cm (label ''run_id'' c) = Some i" and "cm_parse_uuid cm (label ''step_id'' c) = Some j"
    and "tbl_find rs_id j (w_steps w) = Some s" and "rs_started_at s = Some t"
    and "default_timeout < w_clock w - t" and "runSt w i \<noteq> None"
    and "\<And>v. cm_stops cm (ct_id c) v"
    and "run_state (CheckTimeouts cm default_timeout) w = (res, w')"
  shows "res = Inr () \<and> ct_id c \<in> set (w_stops w')
    \<and> stepSt w' j = Some StepStatusFailed \<and> runSt w' i = Some RunStatusFailed"
proof -
  let ?m = "\<lambda>cs. for_each cs (checkContainer cm default_timeout)"
  obtain a b where cs: "cs = a @ c # b" using assms(3) by (meson split_list)
  have run: "run_state (?m cs) w = ((), w')" "res = Inr ()"
    using assms(2,13) by (auto simp: CheckTimeouts_def ListContainers_def run_simps split: prod.splits)
  define v where "v = after (?m a) w"
  define u where "u = after (checkContainer cm default_timeout c) v"
  have "reaped w v" unfolding v_def by (rule keeps_after) (intro frame_intros)
  then have v: "w_faults v = []" "startOf v j = Some (Some t)" "default_timeout < w_clock v - t" "runSt v i \<noteq> None"
    using assms(1,8-11) unfolding reaped_def by (auto simp: startOf_def) (metis option.distinct(1))
  have u: "stepSt u j = Some StepStatusFailed \<and> runSt u i = Some RunStatusFailed \<and> ct_id c \<in> set (w_stops u)"
    by (rule checkContainer_expired [OF v(1) assms(4-7) v(2-4) assms(12)])
      (simp add: u_def run_unit)
  have "run_state (?m (xs @ ys)) w = run_state (?m ys) (after (?m xs) w)" for xs ys and w :: world
    by (induction xs arbitrary: w) (simp_all add: run_simps after_def split: prod.splits)
  then have "run_state (?m cs) w = run_state (?m (c # b)) v" by (simp add: cs v_def)
  also have "\<dots> = run_state (?m b) u" by (simp add: u_def run_simps after_def split: prod.splits)
  finally have "w' = after (?m b) u" using run(1) unfolding after_def by (metis snd_conv)
  moreover have "reaped u (after (?m b) u)" by (rule keeps_after) (intro frame_intros)
  ultimately have "reaped u w'" by simp
  then have "stepSt w' j = Some StepStatusFailed" "runSt w' i = Some RunStatusFailed" "ct_id c \<in> set (w_stops w')"
    using u unfolding reaped_def by (metis, metis, blast)
  with run(2) show ?thesis by simp
qed

end
