(* ===== verification/ProcessWitnesses.thy ===== *)
theory ProcessWitnesses
  imports WatchdogSpec ReapersSpec RunWitnesses
begin

text \<open>
  The properties of the watchdog and of the reapers applied to a run whose first step has been
  running for ten thousand seconds.
\<close>

definition slow_step :: run_step where
  "slow_step = (sample_a StepStatusRunning)\<lparr>rs_started_at := Some 0, rs_container := Some ''c1''\<rparr>"

definition slow_world :: world where
  "slow_world = (sample_world (sample_run RunStatusRunning [] []) [slow_step, sample_b StepStatusPending])
     \<lparr>w_configs := [\<lparr>pc_id = 0, pc_project = 1, pc_yaml = ''yaml'', pc_version = 1, pc_created_at = 0, pc_updated_at = 0\<rparr>], w_clock := 10000000000000\<rparr>"

definition sample_guard :: guard where
  "sample_guard = \<lparr>guard_kind = ''wallclock'', guard_threshold = 0, guard_max = 600, guard_on_fail = []\<rparr>"

definition sample_watchdog :: watchdog where
  "sample_watchdog = \<lparr>wd_hitl = sample_hitl, wd_unmarshal = (\<lambda>y. Inr
     \<lparr>raw_groups = [\<lparr>pg_id = ''build'', pg_name = ''Build'', pg_steps = [], pg_transition = [],
        pg_guards = [sample_guard]\<rparr>], raw_steps = []\<rparr>)\<rparr>"

lemma slow_step_fields [simp]:
  "rs_id slow_step = 31" "rs_run slow_step = 20" "rs_status slow_step = StepStatusRunning"
  "rs_started_at slow_step = Some 0" "rs_container slow_step = Some ''c1''" "rs_name slow_step = ''a''"
  "rs_stage_id slow_step = ''build''" "rs_stage_name slow_step = ''Build''"
  by (simp_all add: slow_step_def sample_a_def blank_step_def)

lemma slow_world_fields [simp]:
  "w_runs slow_world = [sample_run RunStatusRunning [] []]"
  "w_steps slow_world = [slow_step, sample_b StepStatusPending]" "w_faults slow_world = []"
  "w_configs slow_world = [\<lparr>pc_id = 0, pc_project = 1, pc_yaml = ''yaml'', pc_version = 1, pc_created_at = 0, pc_updated_at = 0\<rparr>]" "w_clock slow_world = 10000000000000"
  "w_hitl slow_world = []"
  by (simp_all add: slow_world_def)

definition slow_row :: running_step where
  "slow_row = runningRow slow_world slow_step (sample_run RunStatusRunning [] [])"

lemma slow_rows: "runningRows slow_world = [slow_row]"
  by (simp add: runningRows_def List.map_filter_simps slow_row_def)

lemma slow_row_fields [simp]:
  "rn_step slow_row = 31" "rn_run slow_row = 20" "rn_project slow_row = 1" "rn_started_at slow_row = Some 0"
  "rn_stage_id slow_row = ''build''" "rn_name slow_row = ''a''"
  by (simp_all add: slow_row_def runningRow_def)

lemma slow_guards: "guardsNow sample_watchdog slow_world slow_row = [sample_guard\<lparr>guard_on_fail := ''halt-gate''\<rparr>]"
  by (simp add: guardsNow_def configOf_def sample_watchdog_def ParsePipelineConfigYAML_def rawGroups_def
    guardsFromConfig_def groupMatches_def normalizeGroup_def normalizeGuards_def normalizeGuard_def sample_guard_def
    GuardOnFailHaltGate_def)

lemma slow_verdict:
  "\<exists>r. halting sample_watchdog slow_world (w_clock slow_world) slow_row r"
  "\<not> failing sample_watchdog slow_world (w_clock slow_world) slow_row"
  by (auto simp: halting_def failing_def verdict_def slow_guards breachNow_def wallclockBreach_def exceeds_def
    sample_guard_def GuardWallclock_def GuardLogSilence_def seconds_def hardFail_def GuardOnFailFail_def
    GuardOnFailRetry_def asked_def)



definition sample_container :: container where
  "sample_container = \<lparr>ct_id = ''c1'', ct_labels = [''run_id'' \<mapsto> ''run-20'', ''step_id'' \<mapsto> ''step-31'']\<rparr>"

definition sample_cm :: container_mgr where
  "sample_cm = \<lparr>cm_all = (\<lambda>w. Inr [sample_container]), cm_running = (\<lambda>w. Inr []), cm_stops = (\<lambda>c w. True),
     cm_removes = (\<lambda>c w. True),
     cm_parse_uuid = (\<lambda>s. if s = ''run-20'' then Some 20 else if s = ''step-31'' then Some 31 else None)\<rparr>"

lemma reconcile_proof_of_absence_witness:
  "\<exists>w' res. run_state (ReconcileOrphanedRuns sample_cm DefaultOrphanGraceWindow) slow_world = (res, w')
     \<and> runSt w' 20 = Some RunStatusFailed"
proof -
  obtain res w' where r: "run_state (ReconcileOrphanedRuns sample_cm DefaultOrphanGraceWindow) slow_world = (res, w')"
    by fastforce
  have st: "runSt slow_world 20 = Some RunStatusRunning" by (simp add: runSt_def)
  from reconcile_proof_of_absence [OF r] st r show ?thesis
    by (auto simp: sample_cm_def DefaultOrphanGraceWindow_def)
qed

lemma timeout_enforced_witness:
  "\<exists>w'. run_state (CheckTimeouts sample_cm 1800000000000) slow_world = (Inr (), w')
     \<and> ''c1'' \<in> set (w_stops w') \<and> stepSt w' 31 = Some StepStatusFailed \<and> runSt w' 20 = Some RunStatusFailed"
proof -
  obtain res w' where r: "run_state (CheckTimeouts sample_cm 1800000000000) slow_world = (res, w')" by fastforce
  have "res = Inr () \<and> ct_id sample_container \<in> set (w_stops w') \<and> stepSt w' 31 = Some StepStatusFailed
      \<and> runSt w' 20 = Some RunStatusFailed"
    by (rule timeout_enforced [where cm = sample_cm and c = sample_container and s = slow_step and t = 0
        and cs = "[sample_container]" and i = 20 and j = 31, OF _ _ _ _ _ _ _ _ _ _ _ _ r])
      (simp_all add: sample_cm_def sample_container_def label_def runSt_def)
  with r show ?thesis by (simp add: sample_container_def)
qed

end
