(* ===== verification/Actions.thy ===== *)
theory Actions
  imports Executor
begin

text \<open>
  The pipeline actions that drive only the board's own state, in
  \<open>backend/internal/adapter/action\<close>: the approval gate (\<open>hitl_gate.go\<close>), the human step
  (\<open>human.go\<close>) and the incremental retry (\<open>incremental_retry.go\<close>). The pull request's diff, the
  parser of identifiers and the agent run the retry delegates to are parameters, and so is the order
  in which Go ranges over the template variables.
\<close>

record action_env =
  a_diff :: "uuid \<Rightarrow> string \<Rightarrow> world \<Rightarrow> string option"
  a_var_order :: "(string \<times> string) list \<Rightarrow> (string \<times> string) list"
  a_parse_uuid :: "string \<rightharpoonup> uuid"
  a_agent_run :: action

text \<open>A metadata value the code takes for a string is a \<open>JStr\<close> here, or a \<open>JUuid\<close> where it is parsed.\<close>

section \<open>Suspension for an approval\<close>

text \<open>A fallible operation as the result of an action that leaves the metadata as they are.\<close>

definition keepMetadata :: "run_context \<Rightarrow> unit fop \<Rightarrow> (unit res \<times> metadata) op" where
  "keepMetadata ctx m = do { r \<leftarrow> m; State_Monad.return (r, rc_metadata ctx) }"

definition approvalRequest :: "uuid \<Rightarrow> uuid \<Rightarrow> string \<Rightarrow> string option \<Rightarrow> msg option \<Rightarrow> time \<Rightarrow> hitl_request" where
  "approvalRequest i j gate diff message now =
     \<lparr>hitl_id = i, hitl_step = j, hitl_gate_type = gate, hitl_diff = diff, hitl_message = message,
      hitl_status = HITLStatusPending, hitl_resolved_at = None, hitl_resolved_by = None,
      hitl_rejection_reason = None, hitl_halt_reason = None, hitl_resolution_action = None,
      hitl_created_at = now\<rparr>"

text \<open>The request, the step waiting for it and the run paused on it.\<close>

definition suspendForApproval ::
  "run_context \<Rightarrow> string \<Rightarrow> string option \<Rightarrow> msg option \<Rightarrow> (hitl_request \<Rightarrow> unit op) \<Rightarrow> unit fop" where
  "suspendForApproval ctx gate diff message publish = do {
     i \<leftarrow> uuid_new;
     created_at \<leftarrow> time_now;
     attempt (wrap_err (WrapErr [T ''create HITL request''])
         (CreateHITL (approvalRequest i (rs_id (rc_step ctx)) gate diff message created_at))) (\<lambda>created. do {
       now \<leftarrow> time_now;
       attempt (wrap_err (WrapErr [T ''update step to waiting_approval''])
           (UpdateRunStepStatus (rs_id (rc_step ctx)) StepStatusWaitingApproval (Some now) None None)) (\<lambda>_.
       attempt (wrap_err (WrapErr [T ''update run to paused''])
           (UpdateRunStatus (run_id (rc_run ctx)) RunStatusPaused None None (Some now) None)) (\<lambda>_. do {
         _ \<leftarrow> publish created;
         ok () })) }) }"

definition pendingPayload :: "run_context \<Rightarrow> story \<Rightarrow> hitl_request \<Rightarrow> (string \<times> jval) list" where
  "pendingPayload ctx s h =
     [(''run_id'', JUuid (run_id (rc_run ctx))), (''step_id'', JUuid (rs_id (rc_step ctx))),
      (''story_key'', JStr (story_key s)), (''hitl_request_id'', JUuid (hitl_id h))]"

definition prDiff :: "action_env \<Rightarrow> run_context \<Rightarrow> string option op" where
  "prDiff ae ctx =
     (case rc_metadata ctx ''pr_url'' of
        Some (JStr url) \<Rightarrow> if url = [] then State_Monad.return None else reading (a_diff ae (rc_project ctx) url)
      | _ \<Rightarrow> State_Monad.return None)"

definition HITLGateAction :: "action_env \<Rightarrow> action" where
  "HITLGateAction ae ctx = keepMetadata ctx
     (attempt (wrap_err (WrapErr [T ''fetch story'']) (GetStoryByID (rc_story ctx))) (\<lambda>story. do {
        diff \<leftarrow> prDiff ae ctx;
        suspendForApproval ctx HITLGateApproval diff None (\<lambda>h.
          publishEvent (rc_project ctx) ''hitl_gate'' (rs_id (rc_step ctx)) ''pending''
            (pendingPayload ctx story h)) }))"

section \<open>The human step\<close>

text \<open>\<open>strings.ReplaceAll\<close> for a non-empty pattern.\<close>

fun replaceAll :: "string \<Rightarrow> string \<Rightarrow> string \<Rightarrow> string" where
  "replaceAll pat new [] = []"
| "replaceAll pat new (c # cs) =
     (if take (length pat) (c # cs) = pat
      then new @ replaceAll pat new (drop (length pat - 1) cs)
      else c # replaceAll pat new cs)"

definition placeholder :: "string \<Rightarrow> string" where
  "placeholder k = ''{'' @ k @ ''}''"

definition renderHumanTemplate :: "action_env \<Rightarrow> string \<Rightarrow> (string \<times> string) list \<Rightarrow> string" where
  "renderHumanTemplate ae tmpl vars =
     fold (\<lambda>(k, v) s. replaceAll (placeholder k) v s) (a_var_order ae vars) tmpl"

definition stringMeta :: "run_context \<Rightarrow> string \<Rightarrow> (string \<times> string) list" where
  "stringMeta ctx k = (case rc_metadata ctx k of Some (JStr v) \<Rightarrow> [(k, v)] | _ \<Rightarrow> [])"

definition humanVars :: "run_context \<Rightarrow> story \<Rightarrow> (string \<times> string) list" where
  "humanVars ctx s =
     [(''story_key'', story_key s), (''step_name'', rs_name (rc_step ctx))]
     @ stringMeta ctx ''branch_name'' @ stringMeta ctx ''pr_url''"

definition configValue :: "run_context \<Rightarrow> string \<Rightarrow> string" where
  "configValue ctx k =
     (case rs_config (rc_step ctx) of None \<Rightarrow> []
      | Some c \<Rightarrow> (case c k of None \<Rightarrow> [] | Some v \<Rightarrow> v))"

definition humanTemplate :: "run_context \<Rightarrow> string" where
  "humanTemplate ctx =
     (if configValue ctx ''message'' = [] then ''Human approval required for step {step_name}''
      else configValue ctx ''message'')"

definition HumanAction :: "action_env \<Rightarrow> action" where
  "HumanAction ae ctx = keepMetadata ctx
     (attempt (wrap_err (WrapErr [T ''fetch story'']) (GetStoryByID (rc_story ctx))) (\<lambda>story.
        let message = renderHumanTemplate ae (humanTemplate ctx) (humanVars ctx story);
            instructions = renderHumanTemplate ae (configValue ctx ''instructions'') (humanVars ctx story)
        in suspendForApproval ctx HITLGateHuman None (Some [T message]) (\<lambda>h.
          publishEvent (rc_project ctx) ''human'' (rs_id (rc_step ctx)) ''pending''
            (pendingPayload ctx story h @ [(''message'', JStr message), (''instructions'', JStr instructions)]))))"

section \<open>The incremental retry\<close>

definition intFromMetadata :: "metadata \<Rightarrow> string \<Rightarrow> int \<Rightarrow> int" where
  "intFromMetadata meta k d = (case meta k of
       Some (JInt v) \<Rightarrow> v
     | Some (JReal x) \<Rightarrow> if 0 \<le> x then \<lfloor>x\<rfloor> else \<lceil>x\<rceil>
     | _ \<Rightarrow> d)"

definition incrementalType :: "int \<Rightarrow> int \<Rightarrow> string" where
  "incrementalType retries maxIncremental = (if maxIncremental \<le> retries then ''full'' else ''incremental'')"

definition incrementalStep :: "uuid \<Rightarrow> run_step \<Rightarrow> string \<Rightarrow> run_step" where
  "incrementalStep i parent typ =
     (blank_step i (rs_run parent) (rs_name parent) (rs_order parent) (rs_action parent) StepStatusPending 0)
       \<lparr>rs_retry_count := rs_retry_count parent + 1, rs_retry_type := Some typ, rs_parent := Some (rs_id parent),
        rs_stage_id := rs_stage_id parent, rs_stage_name := rs_stage_name parent\<rparr>"

definition retryContextMeta :: "metadata \<Rightarrow> run_step \<Rightarrow> string \<Rightarrow> metadata" where
  "retryContextMeta meta parent typ =
     (if typ = ''incremental''
      then meta(''error_context'' \<mapsto> JText (case rs_error parent of None \<Rightarrow> [] | Some m \<Rightarrow> m),
                ''log_tail'' \<mapsto> JStr (case rs_log_tail parent of None \<Rightarrow> [] | Some t \<Rightarrow> t))
      else meta(''error_context'' := None, ''log_tail'' := None))"

text \<open>The new context has a copy of the metadata and no user; the caller's metadata stay.\<close>

definition retryAgent :: "action_env \<Rightarrow> run_context \<Rightarrow> run_step \<Rightarrow> unit fop" where
  "retryAgent ae ctx parent =
     (let typ = incrementalType (rs_retry_count parent)
            (intFromMetadata (rc_metadata ctx) ''retry_policy.max_incremental'' 2) in do {
        i \<leftarrow> uuid_new;
        attempt (wrap_err (WrapErr [T ''create retry step'']) (CreateRetryRunStep (incrementalStep i parent typ)))
          (\<lambda>created. do {
            r \<leftarrow> a_agent_run ae
              \<lparr>rc_run = rc_run ctx, rc_step = created, rc_project = rc_project ctx, rc_story = rc_story ctx,
               rc_user = uuid_nil, rc_metadata = retryContextMeta (rc_metadata ctx) parent typ\<rparr>;
            State_Monad.return (fst r) }) })"

definition retryMaxExceeded :: "int \<Rightarrow> run_step \<Rightarrow> err" where
  "retryMaxExceeded limit parent =
     NewValidation [T ''retry_count''] [T ''RETRY_MAX_EXCEEDED: max '', N limit, T '' retries reached for step '',
       U (rs_id parent)]"

definition missingParent :: err where
  "missingParent = NewValidation [T ''parent_step_id'']
     [T ''RETRY_MISSING_PARENT: missing required metadata key parent_step_id'']"

definition parentStepID :: "action_env \<Rightarrow> metadata \<Rightarrow> uuid res" where
  "parentStepID ae meta =
     (case meta ''parent_step_id'' of
        Some (JUuid i) \<Rightarrow> Inr i
      | Some (JStr p) \<Rightarrow>
          if p = [] then Inl missingParent
          else (case a_parse_uuid ae p of
              None \<Rightarrow> Inl (NewValidation [T ''parent_step_id''] [T ''invalid UUID format for parent_step_id''])
            | Some i \<Rightarrow> Inr i)
      | _ \<Rightarrow> Inl missingParent)"

definition IncrementalRetryAction :: "action_env \<Rightarrow> action" where
  "IncrementalRetryAction ae ctx = keepMetadata ctx
     (case parentStepID ae (rc_metadata ctx) of
        Inl e \<Rightarrow> fail e
      | Inr i \<Rightarrow>
          attempt (wrap_err (WrapErr [T ''fetch parent step'']) (GetRunStep i)) (\<lambda>parent.
            let limit = intFromMetadata (rc_metadata ctx) ''retry_policy.max_retries'' 3 in
            if limit \<le> rs_retry_count parent then fail (retryMaxExceeded limit parent)
            else retryAgent ae ctx parent))"

end
