(* ===== verification/ActionsSpec.thy ===== *)
theory ActionsSpec
  imports Actions HITLSpec StoreFrame
begin

text \<open>
  The actions that wait for a person: what they leave behind, and the whole cycle of a run through
  such a step, from the executor to the approval and back.
\<close>

section \<open>Suspending\<close>

definition suspended :: "run_context \<Rightarrow> string \<Rightarrow> hitl_request \<Rightarrow> world \<Rightarrow> world \<Rightarrow> bool" where
  "suspended ctx gate h w w' \<longleftrightarrow> w_hitl w' = w_hitl w @ [h] \<and> hitl_id h = w_next w
     \<and> hitl_step h = rs_id (rc_step ctx) \<and> hitl_status h = HITLStatusPending \<and> hitl_gate_type h = gate
     \<and> stepSt w' = (stepSt w)(rs_id (rc_step ctx) \<mapsto> StepStatusWaitingApproval)
     \<and> runSt w' = (runSt w)(run_id (rc_run ctx) \<mapsto> RunStatusPaused)
     \<and> w_projects w' = w_projects w \<and> w_faults w' = []"

lemma suspendForApproval_effect:
  assumes "w_faults w = []" and "stepSt w (rs_id (rc_step ctx)) \<noteq> None" and "runSt w (run_id (rc_run ctx)) \<noteq> None"
  shows "\<exists>h w'. run_state (suspendForApproval ctx gate diff message
      (\<lambda>h. publishEvent p typ ent act (pl h))) w = (Inr (), w') \<and> suspended ctx gate h w w'"
proof -
  let ?j = "rs_id (rc_step ctx)" and ?i = "run_id (rc_run ctx)"
  obtain s r where s: "tbl_find rs_id ?j (w_steps w) = Some s" and r: "tbl_find run_id ?i (w_runs w) = Some r"
    using assms(2,3) by (auto simp: stepSt_def runSt_def)
  then have "runSt w ?i \<noteq> None" "stepSt w ?j \<noteq> None" using assms by simp_all
  with s r assms(1) show ?thesis
    by (auto simp: suspendForApproval_def CreateHITL_def UpdateRunStepStatus_def UpdateRunStatus_def run_simps
      Let_def approvalRequest_def suspended_def stepSt_update_status runSt_update_status
      run_unit [of "publishEvent p typ ent act x" for x])
qed


text \<open>Both actions suspend when the story and the rows of the step and the run are there.\<close>

definition suspends :: "exec_env \<Rightarrow> string \<Rightarrow> string \<Rightarrow> bool" where
  "suspends env name gate \<longleftrightarrow> (\<exists>a. x_actions env name = Some a
     \<and> (\<forall>ctx w. w_faults w = [] \<longrightarrow> tbl_find story_id (rc_story ctx) (w_stories w) \<noteq> None
          \<longrightarrow> stepSt w (rs_id (rc_step ctx)) \<noteq> None \<longrightarrow> runSt w (run_id (rc_run ctx)) \<noteq> None
          \<longrightarrow> (\<exists>h w'. run_state (a ctx) w = ((Inr (), rc_metadata ctx), w') \<and> suspended ctx gate h w w')))"

lemma prDiff_reads: "\<exists>d. run_state (prDiff ae ctx) w = (d, w)"
  by (auto simp: prDiff_def run_simps split: option.split jval.split)

lemma HITLGateAction_suspends:
  assumes "x_actions env name = Some (HITLGateAction ae)"
  shows "suspends env name HITLGateApproval"
  unfolding suspends_def
proof (rule exI [of _ "HITLGateAction ae"], intro conjI allI impI)
  show "x_actions env name = Some (HITLGateAction ae)" by (rule assms)
next
  fix ctx :: run_context and w :: world
  assume w: "w_faults w = []" "tbl_find story_id (rc_story ctx) (w_stories w) \<noteq> None"
    "stepSt w (rs_id (rc_step ctx)) \<noteq> None" "runSt w (run_id (rc_run ctx)) \<noteq> None"
  obtain s where s: "tbl_find story_id (rc_story ctx) (w_stories w) = Some s" using w(2) by blast
  obtain d where d: "run_state (prDiff ae ctx) w = (d, w)" using prDiff_reads by blast
  obtain h w' where "run_state (suspendForApproval ctx HITLGateApproval d None (\<lambda>h. publishEvent (rc_project ctx)
      ''hitl_gate'' (rs_id (rc_step ctx)) ''pending'' (pendingPayload ctx s h))) w = (Inr (), w')"
    "suspended ctx HITLGateApproval h w w'"
    using suspendForApproval_effect [OF w(1,3,4)] by blast
  then show "\<exists>h w'. run_state (HITLGateAction ae ctx) w = ((Inr (), rc_metadata ctx), w')
      \<and> suspended ctx HITLGateApproval h w w'"
    using w(1) s d by (auto simp: HITLGateAction_def keepMetadata_def GetStoryByID_def run_simps)
qed

lemma HumanAction_suspends:
  assumes "x_actions env name = Some (HumanAction ae)"
  shows "suspends env name HITLGateHuman"
  unfolding suspends_def
proof (rule exI [of _ "HumanAction ae"], intro conjI allI impI)
  show "x_actions env name = Some (HumanAction ae)" by (rule assms)
next
  fix ctx :: run_context and w :: world
  assume w: "w_faults w = []" "tbl_find story_id (rc_story ctx) (w_stories w) \<noteq> None"
    "stepSt w (rs_id (rc_step ctx)) \<noteq> None" "runSt w (run_id (rc_run ctx)) \<noteq> None"
  obtain s where s: "tbl_find story_id (rc_story ctx) (w_stories w) = Some s" using w(2) by blast
  show "\<exists>h w'. run_state (HumanAction ae ctx) w = ((Inr (), rc_metadata ctx), w') \<and> suspended ctx HITLGateHuman h w w'"
    using w(1) s suspendForApproval_effect [OF w(1,3,4), of HITLGateHuman None
        "Some [T (renderHumanTemplate ae (humanTemplate ctx) (humanVars ctx s))]" "rc_project ctx" "''human''"
        "rs_id (rc_step ctx)" "''pending''" "\<lambda>h. pendingPayload ctx s h @
          [(''message'', JStr (renderHumanTemplate ae (humanTemplate ctx) (humanVars ctx s))),
           (''instructions'', JStr (renderHumanTemplate ae (configValue ctx ''instructions'') (humanVars ctx s)))]"]
    by (auto simp: HumanAction_def keepMetadata_def GetStoryByID_def run_simps Let_def)
qed

section \<open>The executor parks the run\<close>

definition parked :: "uuid \<Rightarrow> uuid \<Rightarrow> string \<Rightarrow> hitl_request \<Rightarrow> world \<Rightarrow> world \<Rightarrow> bool" where
  "parked i j gate h w w' \<longleftrightarrow> w_hitl w' = w_hitl w @ [h] \<and> w_next w \<le> hitl_id h \<and> hitl_step h = j
     \<and> hitl_status h = HITLStatusPending \<and> hitl_gate_type h = gate
     \<and> stepSt w' = (stepSt w)(j \<mapsto> StepStatusWaitingApproval) \<and> runSt w' = (runSt w)(i \<mapsto> RunStatusPaused)
     \<and> w_projects w' = w_projects w \<and> w_faults w' = []"

lemma executeStep_suspends:
  assumes "w_faults w = []" and "suspends env (rs_action s) gate" and "stepAct w (rs_id s) = Some (rs_action s)"
    and "runSt w (run_id run) \<noteq> None" and "tbl_find story_id (run_story run) (w_stories w) \<noteq> None"
  shows "\<exists>m h w'. run_state (executeStep env run s meta) w = ((Inl ErrStepSuspended, m), w')
    \<and> parked (run_id run) (rs_id s) gate h w w'"
proof -
  obtain st where st: "stepSt w (rs_id s) = Some st" using assms(3) by (auto simp: stepAct_def stepSt_def)
  from executeStep_begin [OF assms(1) st assms(3)] obtain row v where
    v: "run_state (executeStep env run s meta) w = run_state (performStep env run row meta) v"
      "rs_id row = rs_id s" "rs_action row = rs_action s" "w_faults v = []" "kept w v" "w_next v = w_next w"
      "runSt v = runSt w" "stepSt v = (stepSt w)(rs_id s \<mapsto> StepStatusRunning)" by blast
  let ?ctx = "runContext env run row meta"
  obtain a where a: "x_actions env (rs_action row) = Some a" "\<And>ctx w. w_faults w = [] \<Longrightarrow>
      tbl_find story_id (rc_story ctx) (w_stories w) \<noteq> None \<Longrightarrow> stepSt w (rs_id (rc_step ctx)) \<noteq> None \<Longrightarrow>
      runSt w (run_id (rc_run ctx)) \<noteq> None \<Longrightarrow>
      \<exists>h w'. run_state (a ctx) w = ((Inr (), rc_metadata ctx), w') \<and> suspended ctx gate h w w'"
    using assms(2) v(3) unfolding suspends_def by metis
  have ctx: "rs_id (rc_step ?ctx) = rs_id s" "rc_run ?ctx = run" "rc_story ?ctx = run_story run"
    using v(2) by (simp_all add: runContext_def)
  obtain h z where z: "run_state (a ?ctx) v = ((Inr (), rc_metadata ?ctx), z)" "suspended ?ctx gate h v z"
    using a(2) [of v ?ctx] assms(4,5) v ctx by (auto simp: kept_def)
  have "stepSt z (rs_id s) = Some StepStatusWaitingApproval" using z(2) ctx by (simp add: suspended_def)
  then obtain rr where rr: "tbl_find rs_id (rs_id s) (w_steps z) = Some rr" "rs_status rr = StepStatusWaitingApproval"
    unfolding stepSt_Some by blast
  let ?u = "z\<lparr>w_runs := tbl_update run_id (run_id run)
    (\<lambda>r. r\<lparr>run_metadata := rc_metadata ?ctx, run_updated_at := w_clock z\<rparr>) (w_runs z)\<rparr>"
  have "run_state (finishStep run row (rc_metadata ?ctx)) z = (Inl ErrStepSuspended, ?u)"
    using z(2) rr v(2) by (simp add: finishStep_def UpdateRunMetadata_def GetRunStep_def run_simps suspended_def)
  then have "run_state (executeStep env run s meta) w = ((Inl ErrStepSuspended, rc_metadata ?ctx), ?u)"
    using v(1,3) a(1) z(1) by (simp add: performStep_def getAction_def run_simps)
  moreover have "parked (run_id run) (rs_id s) gate h w ?u"
    using z(2) v ctx by (simp add: parked_def suspended_def kept_def runSt_update_meta)
  ultimately show ?thesis by blast
qed


lemma runLoop_passes_completed:
  "\<forall>s \<in> set xs. rs_status s = StepStatusCompleted \<Longrightarrow>
   runLoop env run policy (xs @ ys) cur prev meta = runLoop env run policy ys cur prev meta"
  by (induction xs) simp_all

lemma ExecuteRun_parks:
  assumes "w_faults w = []" and "tbl_find run_id i (w_runs w) = Some r" and "\<not> run_terminal (run_status r)"
    and "x_circuit_breaker env \<longrightarrow> (\<exists>c m. breaker_of (run_project r) w = Some (c, False, m))"
    and "distinct (map rs_id (w_steps w))"
    and "\<And>v. \<not> x_ctx_done env v" and "\<And>j v. x_other env j v = v"
    and "steps_of i w = done @ g # rest" and "\<forall>s \<in> set done. rs_status s = StepStatusCompleted"
    and "rs_status g \<noteq> StepStatusCompleted" and "suspends env (rs_action g) gate"
    and "transitionFor (parseTransitionPolicy r) (rs_stage_id g) = TransitionAuto"
    and "tbl_find story_id (run_story r) (w_stories w) \<noteq> None"
  shows "\<exists>h w'. run_state (ExecuteRun env i) w = (Inr (), w') \<and> parked i (rs_id g) gate h w w'"
proof -
  let ?policy = "parseTransitionPolicy r"
  from startRun_entry [OF assms(1,2), of env "steps_of i w"] obtain run v where
    v: "w_faults v = []" "runSt v = (runSt w)(i \<mapsto> RunStatusRunning)" "stepSt v = stepSt w" "w_next v = w_next w"
      "w_hitl v = w_hitl w" "stepAct v = stepAct w" "w_projects v = w_projects w" "run_id run = i"
      "run_story run = run_story r"
      "storySt v = (if run_story r = uuid_nil \<or> storySt w (run_story r) = None then storySt w
                   else (storySt w)(run_story r \<mapsto> StoryStatusRunning))"
    and start: "run_state (startRun env i (steps_of i w)) w =
        (case run_state (runLoop env run ?policy (steps_of i w) None None (run_metadata r)) v of
           (Inl x, u) \<Rightarrow> (x, u)
         | (Inr (cur, prev, meta), u) \<Rightarrow> run_state (finishRun env run ?policy cur prev) u)" by blast
  let ?u = "after (enterStage env run (newStageRef g)) v"
  have g: "g \<in> set (w_steps w)" using assms(8) by (metis steps_of_in in_set_conv_decomp)
  have ga: "stepAct w (rs_id g) = Some (rs_action g)" using ready_rows [OF assms(5) g] by simp
  have "storySt ?u = storySt v" using v(1) by (simp add: stage_views)
  moreover have "storySt w (run_story r) \<noteq> None" using assms(13) by (simp add: storySt_def)
  ultimately have "storySt ?u (run_story r) \<noteq> None" using v(10) by auto
  then have story: "tbl_find story_id (run_story run) (w_stories ?u) \<noteq> None" using v(9) by (auto simp: storySt_def)
  obtain x where x: "tbl_find run_id i (w_runs v) = Some x" "run_status x = RunStatusRunning"
    using v(2) by (metis (no_types, lifting) fun_upd_same map_option_eq_Some runSt_def)
  obtain m h w' where e: "run_state (executeStep env run g (run_metadata r)) ?u = ((Inl ErrStepSuspended, m), w')"
    "parked (run_id run) (rs_id g) gate h ?u w'"
    using executeStep_suspends [OF _ assms(11) _ _ story, of "run_metadata r"] v ga by auto
  have "run_state (runLoop env run ?policy (steps_of i w) None None (run_metadata r)) v = (Inl (Inr ()), w')"
    using assms(6,7,8,10,12) v(1,8) x e(1) runLoop_passes_completed [OF assms(9)]
    by (simp add: run_simps GetRun_def crossBoundary_auto matches_def exitStage_def)
  then have "run_state (ExecuteRun env i) w = (Inr (), w')" using ExecuteRun_entry [OF assms(1-4)] start by simp
  moreover have "parked i (rs_id g) gate h w w'" using e(2) v by (simp add: parked_def)
  ultimately show ?thesis by blast
qed

section \<open>The cycle\<close>

text \<open>What no operation of the cycle rewrites: which run, step and stage a row is about.\<close>

definition runKey :: "run \<Rightarrow> uuid \<times> uuid \<times> uuid \<times> snapshot" where
  "runKey r = (run_id r, run_project r, run_story r, run_snapshot r)"

definition stepKeyOf :: "run_step \<Rightarrow> uuid \<times> uuid \<times> int \<times> string \<times> string" where
  "stepKeyOf s = (rs_id s, rs_run s, rs_order s, rs_action s, rs_stage_id s)"

definition rowsFixed :: "world \<Rightarrow> world \<Rightarrow> bool" where
  "rowsFixed w w' \<longleftrightarrow> map runKey (w_runs w') = map runKey (w_runs w)
     \<and> map stepKeyOf (w_steps w') = map stepKeyOf (w_steps w) \<and> map story_id (w_stories w') = map story_id (w_stories w)"

lemma keys_update:
  "(\<And>r. runKey (f r) = runKey r) \<Longrightarrow> map runKey (tbl_update run_id i f rs) = map runKey rs"
  "(\<And>s. stepKeyOf (g s) = stepKeyOf s) \<Longrightarrow> map stepKeyOf (tbl_update rs_id i g ss) = map stepKeyOf ss"
  by (induction rs, auto) (induction ss, auto)

lemma keys_set [simp]:
  "runKey (set_run_status st sa ca pa em w r) = runKey r" "stepKeyOf (set_step_status sst sa ca em w s) = stepKeyOf s"
  "runKey (r\<lparr>run_metadata := m, run_updated_at := t\<rparr>) = runKey r"
  by (simp_all add: runKey_def stepKeyOf_def)

lemma story_ids_update:
  "(\<And>s. story_id (f s) = story_id s) \<Longrightarrow> map story_id (tbl_update story_id k f ss) = map story_id ss"
  by (induction ss) auto

interpretation rows_fixed: exec_frame rowsFixed
  by unfold_locales
     (simp_all add: rowsFixed_def keeps_def op_defs run_simps run_db_op_faults run_fault_op_faults Let_def keys_update
        story_ids_update split: list.split option.split)


text \<open>The suspending actions keep the rows' identities as well.\<close>

lemma HITLGateAction_fixed: "rowsFixed w (snd (run_state (HITLGateAction ae ctx) w))"
proof -
  have "keeps rowsFixed (prDiff ae ctx)"
    unfolding keeps_def using prDiff_reads by (metis rows_fixed.frame_refl snd_conv)
  then have "keeps rowsFixed (HITLGateAction ae ctx)"
    unfolding HITLGateAction_def keepMetadata_def suspendForApproval_def by (intro frame_intros)
  then show ?thesis by (simp add: keeps_def)
qed

definition decisionKeeps :: "world \<Rightarrow> world \<Rightarrow> bool" where
  "decisionKeeps w w' \<longleftrightarrow> rowsFixed w w' \<and> w_projects w' = w_projects w \<and> (w_faults w = [] \<longrightarrow> w_faults w' = [])"

interpretation decision_keeps: frame decisionKeeps
  by unfold_locales (auto simp: decisionKeeps_def rowsFixed_def)

lemma Approve_keeps: "keeps decisionKeeps (Approve svc i user)"
proof -
  have "keeps decisionKeeps (GetHITLByID i)" "keeps decisionKeeps time_now" "keeps decisionKeeps (GetRunStep j)"
    "keeps decisionKeeps (GetRun k)" "keeps decisionKeeps (UpdateHITLStatus i st who why t)"
    "keeps decisionKeeps (UpdateRunStepStatus j sst sa ca em)" "keeps decisionKeeps (UpdateRunStatus k rst sa ca pa em)"
    "keeps decisionKeeps (EnqueueExecuteRun k)" "keeps decisionKeeps (publishEvent p ty en ac pl)"
    for i j k st who why t sst sa ca pa em rst p ty en ac pl
    by (simp_all add: keeps_def decisionKeeps_def rowsFixed_def op_defs run_simps run_db_op_faults
      run_fault_op_faults keys_update split: list.split option.split)
  note ops = this
  show ?thesis unfolding Approve_def publishHITLEvent_def resumeRun_def by (intro frame_intros ops)
qed

lemma keyed_run:
  "map runKey rs' = map runKey rs \<Longrightarrow> tbl_find run_id i rs = Some r \<Longrightarrow>
   \<exists>r'. tbl_find run_id i rs' = Some r' \<and> runKey r' = runKey r"
proof (induction rs arbitrary: rs')
  case (Cons x rs)
  then obtain y ys where "rs' = y # ys" "runKey y = runKey x" "map runKey ys = map runKey rs" by (cases rs') auto
  with Cons show ?case by (auto simp: runKey_def split: if_splits)
qed simp

lemma keyed_step: "map stepKeyOf ss' = map stepKeyOf ss \<Longrightarrow> s' \<in> set ss' \<Longrightarrow> \<exists>s \<in> set ss. stepKeyOf s = stepKeyOf s'"
  by (metis (no_types, lifting) image_iff image_set)

lemma keyed_story:
  assumes "map story_id ys = map story_id xs"
  shows "tbl_find story_id k ys = None \<longleftrightarrow> tbl_find story_id k xs = None"
proof -
  have "set (map story_id ys) = set (map story_id xs)" using assms by simp
  then show ?thesis unfolding tbl_find_None_iff by simp
qed

text \<open>The second execution of a run whose gate step has been completed.\<close>

lemma ExecuteRun_after_gate:
  assumes "rowsFixed w v" and "w_faults v = []" and "runSt v i = Some RunStatusRunning"
    and "tbl_find run_id i (w_runs w) = Some r"
    and "x_circuit_breaker env \<longrightarrow> (\<exists>c m. breaker_of (run_project r) v = Some (c, False, m))"
    and d: "distinct (map rs_id (w_steps w))"
    and "\<And>v. \<not> x_ctx_done env v" and "\<And>j v. adv i v (x_other env j v)"
    and "stepSt v = (stepSt w)(j \<mapsto> StepStatusCompleted)"
    and "\<And>s. s \<in> set (w_steps w) \<Longrightarrow> rs_run s = i \<Longrightarrow> rs_id s \<noteq> j \<Longrightarrow> rs_status s \<noteq> StepStatusCompleted \<Longrightarrow>
           succeeds env (rs_action s) \<and> transitionFor (parseTransitionPolicy r) (rs_stage_id s) = TransitionAuto"
    and "run_story r \<noteq> uuid_nil" and "storySt v (run_story r) \<noteq> None"
  shows "\<exists>z. run_state (ExecuteRun env i) v = (Inr (), z) \<and> runSt z i = Some RunStatusCompleted
    \<and> (\<forall>s \<in> set (w_steps w). rs_run s = i \<longrightarrow> stepSt z (rs_id s) = Some StepStatusCompleted)
    \<and> storySt z (run_story r) = Some StoryStatusDone"
proof -
  have keys: "map runKey (w_runs v) = map runKey (w_runs w)" "map stepKeyOf (w_steps v) = map stepKeyOf (w_steps w)"
    using assms(1) by (simp_all add: rowsFixed_def)
  obtain q where q: "tbl_find run_id i (w_runs v) = Some q" "runKey q = runKey r"
    using keyed_run [OF keys(1) assms(4)] by blast
  have rq: "run_project q = run_project r" "run_story q = run_story r"
    "parseTransitionPolicy q = parseTransitionPolicy r"
    using q(2) by (auto simp: runKey_def parseTransitionPolicy_def)
  have "map rs_id ss = map fst (map stepKeyOf ss)" for ss by (simp add: stepKeyOf_def)
  then have dv: "distinct (map rs_id (w_steps v))" using d keys(2) by metis
  have nt: "\<not> run_terminal (run_status q)" using assms(3) q(1) by (auto simp: runSt_def run_terminal_def)
  have todo: "succeeds env (rs_action s) \<and> transitionFor (parseTransitionPolicy q) (rs_stage_id s) = TransitionAuto"
    if s: "s \<in> set (w_steps v)" "rs_run s = i" "rs_status s \<noteq> StepStatusCompleted" for s
  proof -
    obtain t where t: "t \<in> set (w_steps w)" "stepKeyOf t = stepKeyOf s" using keyed_step [OF keys(2) s(1)] by blast
    then have k: "rs_id t = rs_id s" "rs_run t = rs_run s" "rs_action t = rs_action s" "rs_stage_id t = rs_stage_id s"
      by (simp_all add: stepKeyOf_def)
    have "stepSt v (rs_id s) = Some (rs_status s)" by (rule stepSt_row [OF dv s(1)])
    moreover have "stepSt w (rs_id s) = Some (rs_status t)" using stepSt_row [OF d t(1)] k(1) by simp
    ultimately have "rs_id s \<noteq> j" "rs_status t = rs_status s" using assms(9) s(3) by (auto split: if_splits)
    then show ?thesis using assms(10) [OF t(1)] s k rq(3) by simp
  qed
  have cb: "x_circuit_breaker env \<longrightarrow> (\<exists>c m. breaker_of (run_project q) v = Some (c, False, m))"
    using assms(5) rq(1) by simp
  from ExecuteRun_completes [OF assms(2) q(1) nt cb dv assms(7,8) todo] obtain z where
    z: "run_state (ExecuteRun env i) v = (Inr (), z)" "runSt z i = Some RunStatusCompleted"
      "\<forall>s \<in> set (w_steps v). rs_run s = i \<longrightarrow> stepSt z (rs_id s) = Some StepStatusCompleted"
      "storySt z (run_story q) = Some StoryStatusDone"
    using rq(2) assms(11,12) by auto
  have "stepSt z (rs_id s) = Some StepStatusCompleted" if s: "s \<in> set (w_steps w)" "rs_run s = i" for s
  proof -
    obtain t where "t \<in> set (w_steps v)" "stepKeyOf t = stepKeyOf s" using keyed_step [OF keys(2) [symmetric] s(1)] by blast
    with z(3) s(2) show ?thesis by (auto simp: stepKeyOf_def)
  qed
  with z rq(2) show ?thesis by auto
qed



end
