(* ===== verification/ActionsWitnesses.thy ===== *)
theory ActionsWitnesses
  imports ActionsSpec RunWitnesses
begin

text \<open>The properties of the actions applied to the sample run with an approval gate as its first step.\<close>

definition sample_actions :: action_env where
  "sample_actions = \<lparr>a_diff = (\<lambda>p u w. None), a_var_order = (\<lambda>vs. vs), a_parse_uuid = (\<lambda>s. None),
     a_agent_run = ok_action\<rparr>"

definition gate_env :: exec_env where
  "gate_env = sample_env\<lparr>x_actions := [''hitl_gate'' \<mapsto> HITLGateAction sample_actions, ''git_pr'' \<mapsto> ok_action]\<rparr>"

definition gate_step :: run_step where
  "gate_step = (sample_a StepStatusPending)\<lparr>rs_action := ''hitl_gate''\<rparr>"

abbreviation ask_world :: world where
  "ask_world \<equiv> sample_world (sample_run RunStatusPending [] []) [gate_step, sample_b StepStatusPending]"

lemma gate_step_fields [simp]:
  "rs_id gate_step = 31" "rs_run gate_step = 20" "rs_status gate_step = StepStatusPending"
  "rs_action gate_step = ''hitl_gate''" "rs_stage_id gate_step = ''build''" "rs_order gate_step = 0"
  by (simp_all add: gate_step_def sample_a_def blank_step_def)


end
