(* ===== verification/PlanningStore.thy ===== *)
theory PlanningStore
  imports Store
begin

text \<open>
  The repository operations of the board and of the planning import: stories and epics looked up
  by key, name or provenance, and inserted or updated with the columns of the import
  (\<open>story_repo.go\<close>, \<open>epic_repo.go\<close>), under the unique constraints of the schema: a story key and an
  epic name are unique in a project, and so is a pair of source and external identifier when the
  identifier is not \<open>NULL\<close>. A unique violation is the repository's conflict error, a missing
  foreign row its internal error.
\<close>

definition SourceManual :: string where "SourceManual = ''manual''"
definition SourceMarkdown :: string where "SourceMarkdown = ''markdown''"
definition SourceGitHub :: string where "SourceGitHub = ''github_projects''"

lemmas source_consts = SourceManual_def SourceMarkdown_def SourceGitHub_def

definition EpicStatusBacklog :: string where "EpicStatusBacklog = ''backlog''"
definition EpicStatusInProgress :: string where "EpicStatusInProgress = ''in_progress''"
definition EpicStatusDone :: string where "EpicStatusDone = ''done''"

lemmas epic_status_consts = EpicStatusBacklog_def EpicStatusInProgress_def EpicStatusDone_def

section \<open>Stories\<close>

text \<open>The two identities of a row: its key, and its provenance when it has one.\<close>

definition story_keyed :: "uuid \<Rightarrow> string \<Rightarrow> story \<Rightarrow> bool" where
  "story_keyed p k s \<longleftrightarrow> story_project s = p \<and> story_key s = k"

definition story_from :: "uuid \<Rightarrow> string \<Rightarrow> string \<Rightarrow> story \<Rightarrow> bool" where
  "story_from p src ext s \<longleftrightarrow>
     story_project s = p \<and> story_source s = src \<and> story_external_id s = Some ext"

definition GetStoryByKey :: "uuid \<Rightarrow> string \<Rightarrow> story fop" where
  "GetStoryByKey p k =
     db_op ''failed to get story by key''
       (reading (\<lambda>w. case find (story_keyed p k) (w_stories w) of
           None \<Rightarrow> Inl (NewNotFound ''story'' (T k)) | Some s \<Rightarrow> Inr s))"

definition GetStoryBySourceRef :: "uuid \<Rightarrow> string \<Rightarrow> string \<Rightarrow> story fop" where
  "GetStoryBySourceRef p src ext =
     db_op ''failed to get story by source ref''
       (reading (\<lambda>w. case find (story_from p src ext) (w_stories w) of
           None \<Rightarrow> Inl (NewNotFound ''story'' (T ext)) | Some s \<Rightarrow> Inr s))"

text \<open>Another row of the project with the provenance of the one to write.\<close>

definition story_ref_taken :: "uuid \<Rightarrow> string \<Rightarrow> string option \<Rightarrow> uuid option \<Rightarrow> story list \<Rightarrow> bool" where
  "story_ref_taken p src ext me rs =
     (case ext of None \<Rightarrow> False
      | Some x \<Rightarrow> list_ex (\<lambda>s. story_from p src x s \<and> Some (story_id s) \<noteq> me) rs)"

definition epic_ref_ok :: "uuid option \<Rightarrow> world \<Rightarrow> bool" where
  "epic_ref_ok e w = (case e of None \<Rightarrow> True | Some i \<Rightarrow> tbl_find epic_id i (w_epics w) \<noteq> None)"

text \<open>The row of an insert: the columns of the statement, \<open>NULL\<close> or the default elsewhere.\<close>

definition imported_row :: "story \<Rightarrow> world \<Rightarrow> story" where
  "imported_row x w =
     x\<lparr>story_id := w_next w, story_target_files := None, story_current_stage := None,
       story_synced_at := Some (w_clock w), story_writeback_status := None,
       story_created_at := w_clock w, story_updated_at := w_clock w\<rparr>"

definition CreateStoryFromImport :: "story \<Rightarrow> story fop" where
  "CreateStoryFromImport x =
     db_op ''failed to create story from import''
       (writing (\<lambda>w.
          if list_ex (story_keyed (story_project x) (story_key x)) (w_stories w)
             \<or> story_ref_taken (story_project x) (story_source x) (story_external_id x) None (w_stories w)
          then (Inl (NewConflict ''story'' (story_key x)), w)
          else if tbl_find project_id (story_project x) (w_projects w) = None
                  \<or> \<not> epic_ref_ok (story_epic x) w
          then (Inl (NewInternal ''failed to create story from import'' db_failure), w)
          else (Inr (imported_row x w),
                w\<lparr>w_stories := w_stories w @ [imported_row x w], w_next := Suc (w_next w)\<rparr>)))"

definition set_story_import :: "story \<Rightarrow> world \<Rightarrow> story \<Rightarrow> story" where
  "set_story_import x w s =
     s\<lparr>story_title := story_title x, story_objective := story_objective x,
       story_acceptance := story_acceptance x, story_scope := story_scope x,
       story_depends_on := story_depends_on x, story_status := story_status x,
       story_epic := story_epic x, story_source := story_source x,
       story_external_id := story_external_id x,
       story_external_item_id := story_external_item_id x,
       story_source_url := story_source_url x, story_synced_at := Some (w_clock w),
       story_import_hash := story_import_hash x, story_updated_at := w_clock w\<rparr>"

definition UpdateStoryFromImport :: "story \<Rightarrow> story fop" where
  "UpdateStoryFromImport x =
     db_op ''failed to update story from import''
       (writing (\<lambda>w.
          case tbl_find story_id (story_id x) (w_stories w) of
            None \<Rightarrow> (Inl (NewNotFound ''story'' (U (story_id x))), w)
          | Some s \<Rightarrow>
              if story_ref_taken (story_project s) (story_source x) (story_external_id x)
                   (Some (story_id x)) (w_stories w)
              then (Inl (NewConflict ''story'' (story_key x)), w)
              else if \<not> epic_ref_ok (story_epic x) w
              then (Inl (NewInternal ''failed to update story from import'' db_failure), w)
              else (Inr (set_story_import x w s),
                    w\<lparr>w_stories := tbl_update story_id (story_id x) (set_story_import x w) (w_stories w)\<rparr>)))"

definition set_story_provenance :: "story \<Rightarrow> world \<Rightarrow> story \<Rightarrow> story" where
  "set_story_provenance x w s =
     s\<lparr>story_title := story_title x, story_source := story_source x,
       story_external_id := story_external_id x,
       story_external_item_id := story_external_item_id x,
       story_source_url := story_source_url x, story_synced_at := Some (w_clock w),
       story_updated_at := w_clock w\<rparr>"

text \<open>The provenance update has no case of its own for a unique violation: it is an internal error.\<close>

definition UpdateStoryProvenanceOnly :: "story \<Rightarrow> story fop" where
  "UpdateStoryProvenanceOnly x =
     db_op ''failed to update story provenance''
       (writing (\<lambda>w.
          case tbl_find story_id (story_id x) (w_stories w) of
            None \<Rightarrow> (Inl (NewNotFound ''story'' (U (story_id x))), w)
          | Some s \<Rightarrow>
              if story_ref_taken (story_project s) (story_source x) (story_external_id x)
                   (Some (story_id x)) (w_stories w)
              then (Inl (NewInternal ''failed to update story provenance'' db_failure), w)
              else (Inr (set_story_provenance x w s),
                    w\<lparr>w_stories := tbl_update story_id (story_id x) (set_story_provenance x w) (w_stories w)\<rparr>)))"

section \<open>Epics\<close>

definition epic_named :: "uuid \<Rightarrow> string \<Rightarrow> epic \<Rightarrow> bool" where
  "epic_named p n e \<longleftrightarrow> epic_project e = p \<and> epic_name e = n"

definition epic_from :: "uuid \<Rightarrow> string \<Rightarrow> string \<Rightarrow> epic \<Rightarrow> bool" where
  "epic_from p src ext e \<longleftrightarrow>
     epic_project e = p \<and> epic_source e = src \<and> epic_external_id e = Some ext"

definition GetEpicBySourceRef :: "uuid \<Rightarrow> string \<Rightarrow> string \<Rightarrow> epic fop" where
  "GetEpicBySourceRef p src ext =
     db_op ''failed to get epic by source ref''
       (reading (\<lambda>w. case find (epic_from p src ext) (w_epics w) of
           None \<Rightarrow> Inl (NewNotFound ''epic'' (T ext)) | Some e \<Rightarrow> Inr e))"

definition GetEpicByName :: "uuid \<Rightarrow> string \<Rightarrow> epic fop" where
  "GetEpicByName p n =
     db_op ''failed to get epic by name''
       (reading (\<lambda>w. case find (epic_named p n) (w_epics w) of
           None \<Rightarrow> Inl (NewNotFound ''epic'' (T n)) | Some e \<Rightarrow> Inr e))"

definition epic_taken :: "uuid \<Rightarrow> epic \<Rightarrow> uuid option \<Rightarrow> epic list \<Rightarrow> bool" where
  "epic_taken p x me rs =
     list_ex (\<lambda>e. Some (epic_id e) \<noteq> me \<and>
       (epic_named p (epic_name x) e \<or>
        (case epic_external_id x of None \<Rightarrow> False | Some ext \<Rightarrow> epic_from p (epic_source x) ext e))) rs"

definition imported_epic_row :: "epic \<Rightarrow> world \<Rightarrow> epic" where
  "imported_epic_row x w =
     x\<lparr>epic_id := w_next w, epic_synced_at := Some (w_clock w), epic_created_at := w_clock w,
       epic_updated_at := w_clock w\<rparr>"

definition CreateEpicFromImport :: "epic \<Rightarrow> epic fop" where
  "CreateEpicFromImport x =
     db_op ''failed to create epic from import''
       (writing (\<lambda>w.
          if epic_taken (epic_project x) x None (w_epics w)
          then (Inl (NewConflict ''epic'' (epic_name x)), w)
          else if tbl_find project_id (epic_project x) (w_projects w) = None
          then (Inl (NewInternal ''failed to create epic from import'' db_failure), w)
          else (Inr (imported_epic_row x w),
                w\<lparr>w_epics := w_epics w @ [imported_epic_row x w], w_next := Suc (w_next w)\<rparr>)))"

definition set_epic_import :: "epic \<Rightarrow> world \<Rightarrow> epic \<Rightarrow> epic" where
  "set_epic_import x w e =
     e\<lparr>epic_name := epic_name x, epic_description := epic_description x, epic_status := epic_status x,
       epic_source := epic_source x, epic_external_id := epic_external_id x,
       epic_source_url := epic_source_url x, epic_synced_at := Some (w_clock w),
       epic_updated_at := w_clock w\<rparr>"

definition UpdateEpicFromImport :: "epic \<Rightarrow> epic fop" where
  "UpdateEpicFromImport x =
     db_op ''failed to update epic from import''
       (writing (\<lambda>w.
          case tbl_find epic_id (epic_id x) (w_epics w) of
            None \<Rightarrow> (Inl (NewNotFound ''epic'' (U (epic_id x))), w)
          | Some e \<Rightarrow>
              if epic_taken (epic_project e) x (Some (epic_id x)) (w_epics w)
              then (Inl (NewConflict ''epic'' (epic_name x)), w)
              else (Inr (set_epic_import x w e),
                    w\<lparr>w_epics := tbl_update epic_id (epic_id x) (set_epic_import x w) (w_epics w)\<rparr>)))"

lemmas planning_ops =
  GetStoryByKey_def GetStoryBySourceRef_def CreateStoryFromImport_def UpdateStoryFromImport_def
  UpdateStoryProvenanceOnly_def GetEpicBySourceRef_def GetEpicByName_def CreateEpicFromImport_def
  UpdateEpicFromImport_def

end
