(* ===== verification/PlanningImport.thy ===== *)
theory PlanningImport
  imports PlanningStore "HOL-Library.Word" "HOL-Library.List_Lexorder" "HOL-Library.Char_ord"
begin

text \<open>
  \<open>PlanningImportService\<close> (\<open>backend/internal/domain/service/planning_import.go\<close>): the idempotent
  import of an external plan. The adapter that reads the plan and the SHA-256 digest are parameters
  of \<open>import_env\<close>. A string is the list of its bytes; trimming and lower-casing are those of the
  ASCII characters. The accumulators the Go code passes by reference (the map of resolved epics and
  the summary) are the state \<open>progress\<close> every step returns updated.
\<close>

unbundle bit_operations_syntax

section \<open>The plan, its configuration and the summary\<close>

record imported_epic =
  ie_external_id :: string
  ie_url :: string
  ie_key :: string
  ie_name :: string
  ie_description :: "string option"
  ie_raw_status :: string

record imported_story =
  is_external_id :: string
  is_url :: string
  is_item_id :: string
  is_key :: string
  is_title :: string
  is_objective :: "string option"
  is_acceptance :: "string option"
  is_scope :: "string option"
  is_depends_on :: "string list option"
  is_epic_ref :: "string option"
  is_raw_status :: string
  is_parse_error :: "err option"

text \<open>\<open>cfg_done_options\<close> is \<open>None\<close> when the GitHub section of the configuration is absent.\<close>

record import_config =
  cfg_source :: string
  cfg_dry_run :: bool
  cfg_done_options :: "string list option"

record import_warning =
  iw_key :: string
  iw_code :: string
  iw_message :: msg

record fetch_result =
  fr_url :: string
  fr_epics :: "imported_epic list"
  fr_stories :: "imported_story list"
  fr_warnings :: "import_warning list"

datatype item_kind = KindEpic | KindStory

datatype item_action = ActionCreate | ActionUpdate | ActionSkip | ActionLock | ActionFail

record item_decision =
  id_key :: string
  id_kind :: item_kind
  id_action :: item_action
  id_url :: string
  id_mapped :: string
  id_reason :: msg

datatype item_code = KEY_FORMAT | KEY_CONFLICT | NAME_CONFLICT | PARSE_ERROR | UPSERT_ERROR

record item_error =
  ier_key :: string
  ier_external_id :: string
  ier_code :: item_code
  ier_message :: msg

record import_summary =
  sm_source :: string
  sm_dry_run :: bool
  sm_url :: string
  sm_epics_created :: nat
  sm_epics_updated :: nat
  sm_stories_created :: nat
  sm_stories_updated :: nat
  sm_skipped :: nat
  sm_locked :: nat
  sm_failed :: nat
  sm_errors :: "item_error list"
  sm_warnings :: "import_warning list"
  sm_items :: "item_decision list"

record progress =
  pr_epics :: "string \<rightharpoonup> uuid"
  pr_summary :: import_summary

record import_env =
  pi_fetch :: "uuid \<Rightarrow> import_config \<Rightarrow> fetch_result res"
  pi_sha256 :: "string \<Rightarrow> string"

section \<open>Pure helpers\<close>

definition is_space :: "char \<Rightarrow> bool" where
  "is_space c \<longleftrightarrow> (let n = of_char c :: nat in n = 32 \<or> (9 \<le> n \<and> n \<le> 13))"

definition TrimSpace :: "string \<Rightarrow> string" where
  "TrimSpace s = rev (dropWhile is_space (rev (dropWhile is_space s)))"

definition lower_char :: "char \<Rightarrow> char" where
  "lower_char c =
     (let n = of_char c :: nat in if 65 \<le> n \<and> n \<le> 90 then char_of (n + 32) else c)"

definition upper_char :: "char \<Rightarrow> char" where
  "upper_char c =
     (let n = of_char c :: nat in if 97 \<le> n \<and> n \<le> 122 then char_of (n - 32) else c)"

definition ToLower :: "string \<Rightarrow> string" where
  "ToLower s = map lower_char s"

definition ToUpper :: "string \<Rightarrow> string" where
  "ToUpper s = map upper_char s"

text \<open>\<open>storyKeyPattern\<close>: \<open>^[A-Z0-9]+-\d+$\<close>. The first dash ends the prefix.\<close>

definition is_digit :: "char \<Rightarrow> bool" where
  "is_digit c \<longleftrightarrow> (let n = of_char c :: nat in 48 \<le> n \<and> n \<le> 57)"

definition is_key_char :: "char \<Rightarrow> bool" where
  "is_key_char c \<longleftrightarrow> is_digit c \<or> (let n = of_char c :: nat in 65 \<le> n \<and> n \<le> 90)"

definition storyKeyPattern :: "string \<Rightarrow> bool" where
  "storyKeyPattern s \<longleftrightarrow>
     takeWhile is_key_char s \<noteq> [] \<and>
     (case dropWhile is_key_char s of
        [] \<Rightarrow> False
      | d # ns \<Rightarrow> d = CHR ''-'' \<and> ns \<noteq> [] \<and> list_all is_digit ns)"

definition derefStr :: "string option \<Rightarrow> string" where
  "derefStr s = (case s of None \<Rightarrow> [] | Some x \<Rightarrow> x)"

definition ptrIfNonEmpty :: "string \<Rightarrow> string option" where
  "ptrIfNonEmpty s = (if s = [] then None else Some s)"

definition mergeStrPtr :: "string option \<Rightarrow> string option \<Rightarrow> string option" where
  "mergeStrPtr incoming existing = (if incoming \<noteq> None then incoming else existing)"

fun isConflict :: "err \<Rightarrow> bool" where
  "isConflict (DomainError cat code msg c) = (cat = CategoryConflict)"
| "isConflict e = False"

definition sourceError :: "err \<Rightarrow> err" where
  "sourceError e = NewInvalidState ''SOURCE_ERROR'' (err_text e)"

text \<open>\<open>%q\<close>, its escapes left out, and the dash of the reasons.\<close>

definition quoted :: "string \<Rightarrow> frag" where
  "quoted s = T ([CHR 0x22] @ s @ [CHR 0x22])"

definition em_dash :: frag where
  "em_dash = T [CHR 0x20, CHR 0xE2, CHR 0x80, CHR 0x94, CHR 0x20]"

definition caseInsensitiveIn :: "string \<Rightarrow> string list \<Rightarrow> bool" where
  "caseInsensitiveIn v set_arg =
     (let vl = ToLower (TrimSpace v) in
      if vl = [] then False else list_ex (\<lambda>s. ToLower (TrimSpace s) = vl) set_arg)"

definition projectStoryStatus :: "import_config \<Rightarrow> string \<Rightarrow> string" where
  "projectStoryStatus cfg raw =
     (if cfg_source cfg = SourceGitHub
      then if caseInsensitiveIn raw (elems (cfg_done_options cfg)) then StoryStatusDone else StoryStatusBacklog
      else if cfg_source cfg = SourceMarkdown
      then if ToLower (TrimSpace raw) = StoryStatusDone then StoryStatusDone else StoryStatusBacklog
      else StoryStatusBacklog)"

definition projectEpicStatus :: "import_config \<Rightarrow> string \<Rightarrow> string" where
  "projectEpicStatus cfg raw =
     (if cfg_source cfg = SourceGitHub
      then if caseInsensitiveIn raw (elems (cfg_done_options cfg)) then EpicStatusDone else EpicStatusBacklog
      else if cfg_source cfg = SourceMarkdown
      then if ToLower (TrimSpace raw) = EpicStatusDone then EpicStatusDone else EpicStatusBacklog
      else EpicStatusBacklog)"

definition resolveStoryStatus :: "story \<Rightarrow> string \<Rightarrow> string" where
  "resolveStoryStatus existing mapped =
     (if story_status existing = StoryStatusBacklog \<and> story_current_stage existing = None
         \<and> mapped = StoryStatusDone
      then StoryStatusDone else story_status existing)"

definition resolveEpicStatus :: "epic \<Rightarrow> string \<Rightarrow> string" where
  "resolveEpicStatus existing mapped =
     (if epic_status existing = EpicStatusBacklog \<and> mapped = EpicStatusDone
      then EpicStatusDone else epic_status existing)"

definition epicChanged ::
  "epic \<Rightarrow> string \<Rightarrow> string option \<Rightarrow> string \<Rightarrow> string \<Rightarrow> string \<Rightarrow> string \<Rightarrow> bool" where
  "epicChanged existing name desc status src ext url \<longleftrightarrow>
     epic_name existing \<noteq> name
     \<or> derefStr (epic_description existing) \<noteq> derefStr desc
     \<or> epic_status existing \<noteq> status
     \<or> epic_source existing \<noteq> src
     \<or> derefStr (epic_external_id existing) \<noteq> ext
     \<or> derefStr (epic_source_url existing) \<noteq> url"

text \<open>\<open>strings.Join\<close>.\<close>

fun join_strings :: "string \<Rightarrow> string list \<Rightarrow> string" where
  "join_strings sep [] = []"
| "join_strings sep [s] = s"
| "join_strings sep (s # t # ss) = s @ sep @ join_strings sep (t # ss)"

definition canonicalParts :: "imported_story \<Rightarrow> string \<Rightarrow> string list" where
  "canonicalParts x mapped =
     [is_title x, derefStr (is_objective x), derefStr (is_acceptance x), derefStr (is_scope x),
      join_strings '','' (sort (elems (is_depends_on x))), derefStr (is_epic_ref x), mapped]"

definition canonicalStoryHash :: "import_env \<Rightarrow> imported_story \<Rightarrow> string \<Rightarrow> string" where
  "canonicalStoryHash env x mapped = pi_sha256 env (join_strings [CHR 0x1F] (canonicalParts x mapped))"

section \<open>Keys for remote items\<close>

text \<open>FNV-1a on 64 bits, and \<open>strconv.FormatUint(n, 36)\<close>.\<close>

definition fnv1a :: "string \<Rightarrow> 64 word" where
  "fnv1a s = foldl (\<lambda>h c. (h XOR word_of_nat (of_char c)) * 1099511628211) 14695981039346656037 s"

definition digit36 :: "nat \<Rightarrow> char" where
  "digit36 n = char_of (if n < 10 then 48 + n else 87 + n)"

fun base36 :: "nat \<Rightarrow> string" where
  "base36 n = (if n < 36 then [digit36 n] else base36 (n div 36) @ [digit36 (n mod 36)])"

declare base36.simps [simp del]

definition splitStoryKey :: "string \<Rightarrow> string \<times> string" where
  "splitStoryKey k =
     (case dropWhile (\<lambda>c. c \<noteq> CHR ''-'') (rev k) of
        [] \<Rightarrow> (k, ''1'')
      | d # b \<Rightarrow> (rev b, rev (takeWhile (\<lambda>c. c \<noteq> CHR ''-'') (rev k))))"

definition disambiguateKey :: "string \<Rightarrow> string \<Rightarrow> nat \<Rightarrow> string" where
  "disambiguateKey baseKey externalID attempt_no =
     (let (b, number) = splitStoryKey baseKey;
          base = (if b = [] then ''GH'' else b);
          suffix = ToUpper (base36 (unat (fnv1a externalID)));
          n = min (4 + attempt_no) (length suffix)
      in base @ take n suffix @ ''-'' @ number)"

fun tryKeys :: "uuid \<Rightarrow> string \<Rightarrow> string \<Rightarrow> string \<Rightarrow> string \<Rightarrow> nat list \<Rightarrow> string fop" where
  "tryKeys p baseKey src ext candidate [] = ok candidate"
| "tryKeys p baseKey src ext candidate (n # ns) =
     do { r \<leftarrow> GetStoryByKey p candidate;
          case r of
            Inl e \<Rightarrow> if isNotFound e then ok candidate else fail e
          | Inr s \<Rightarrow>
              if story_source s = src \<and> derefStr (story_external_id s) = ext then ok candidate
              else tryKeys p baseKey src ext (disambiguateKey baseKey ext n) ns }"

definition resolveRemoteCreateKey :: "uuid \<Rightarrow> string \<Rightarrow> string \<Rightarrow> string \<Rightarrow> string fop" where
  "resolveRemoteCreateKey p baseKey src ext = tryKeys p baseKey src ext baseKey [0..<8]"

section \<open>Summary mutators\<close>

type_synonym step = "progress \<Rightarrow> progress"

abbreviation onSummary :: "(import_summary \<Rightarrow> import_summary) \<Rightarrow> step" where
  "onSummary f pr \<equiv> pr\<lparr>pr_summary := f (pr_summary pr)\<rparr>"

definition decide :: "string \<Rightarrow> item_kind \<Rightarrow> item_action \<Rightarrow> string \<Rightarrow> string \<Rightarrow> msg \<Rightarrow> step" where
  "decide key kind action url mapped reason =
     onSummary (\<lambda>s. s\<lparr>sm_items := sm_items s @
       [\<lparr>id_key = key, id_kind = kind, id_action = action, id_url = url, id_mapped = mapped,
         id_reason = reason\<rparr>]\<rparr>)"

definition recordFailure :: "string \<Rightarrow> string \<Rightarrow> item_code \<Rightarrow> msg \<Rightarrow> step" where
  "recordFailure key ext code message =
     onSummary (\<lambda>s. s\<lparr>sm_failed := sm_failed s + 1,
       sm_errors := sm_errors s @
         [\<lparr>ier_key = key, ier_external_id = ext, ier_code = code, ier_message = message\<rparr>]\<rparr>)"

definition failStory :: "imported_story \<Rightarrow> item_code \<Rightarrow> msg \<Rightarrow> step" where
  "failStory x code message pr =
     decide (is_key x) KindStory ActionFail (is_url x) [] message
       (recordFailure (is_key x) (is_external_id x) code message pr)"

definition failEpic :: "string \<Rightarrow> string \<Rightarrow> string \<Rightarrow> item_code \<Rightarrow> msg \<Rightarrow> step" where
  "failEpic key ext url code message pr =
     decide key KindEpic ActionFail url [] message (recordFailure key ext code message pr)"

definition warnName :: "string \<Rightarrow> msg \<Rightarrow> step" where
  "warnName key message =
     onSummary (\<lambda>s. s\<lparr>sm_warnings := sm_warnings s @
       [\<lparr>iw_key = key, iw_code = ''NAME_CONFLICT'', iw_message = message\<rparr>]\<rparr>)"

definition linkEpic :: "string \<Rightarrow> uuid \<Rightarrow> step" where
  "linkEpic ext i pr = pr\<lparr>pr_epics := (pr_epics pr)(ext \<mapsto> i)\<rparr>"

text \<open>The counters of the summary.\<close>

definition epicCreated :: step where
  "epicCreated = onSummary (\<lambda>s. s\<lparr>sm_epics_created := sm_epics_created s + 1\<rparr>)"

definition epicUpdated :: step where
  "epicUpdated = onSummary (\<lambda>s. s\<lparr>sm_epics_updated := sm_epics_updated s + 1\<rparr>)"

definition storyCreated :: step where
  "storyCreated = onSummary (\<lambda>s. s\<lparr>sm_stories_created := sm_stories_created s + 1\<rparr>)"

definition storyUpdated :: step where
  "storyUpdated = onSummary (\<lambda>s. s\<lparr>sm_stories_updated := sm_stories_updated s + 1\<rparr>)"

definition storySkipped :: step where
  "storySkipped = onSummary (\<lambda>s. s\<lparr>sm_skipped := sm_skipped s + 1\<rparr>)"

definition storyLocked :: step where
  "storyLocked = onSummary (\<lambda>s. s\<lparr>sm_locked := sm_locked s + 1\<rparr>)"

section \<open>Epics\<close>

definition newEpic :: "uuid \<Rightarrow> uuid \<Rightarrow> imported_epic \<Rightarrow> string option \<Rightarrow> string \<Rightarrow> string \<Rightarrow> epic" where
  "newEpic i p ie desc status src =
     \<lparr>epic_id = i, epic_project = p, epic_name = ie_name ie, epic_description = desc,
      epic_status = status, epic_source = src, epic_external_id = Some (ie_external_id ie),
      epic_source_url = ptrIfNonEmpty (ie_url ie), epic_synced_at = None, epic_created_at = 0,
      epic_updated_at = 0\<rparr>"

definition conflictCode :: "err \<Rightarrow> item_code \<Rightarrow> item_code" where
  "conflictCode e code = (if isConflict e then code else UPSERT_ERROR)"

definition createEpic :: "uuid \<Rightarrow> import_config \<Rightarrow> imported_epic \<Rightarrow> string \<Rightarrow> progress \<Rightarrow> progress op" where
  "createEpic p cfg ie mapped pr =
     (if cfg_dry_run cfg
      then State_Monad.return (decide (ie_key ie) KindEpic ActionCreate (ie_url ie) mapped
             [T ''new epic''] (epicCreated pr))
      else do {
        r \<leftarrow> CreateEpicFromImport (newEpic uuid_nil p ie (ie_description ie) mapped (cfg_source cfg));
        State_Monad.return (case r of
          Inl e \<Rightarrow> failEpic (ie_key ie) (ie_external_id ie) (ie_url ie) (conflictCode e NAME_CONFLICT)
                     ([T ''create epic: ''] @ err_text e) pr
        | Inr c \<Rightarrow> decide (ie_key ie) KindEpic ActionCreate (ie_url ie) (epic_status c)
                     [T ''new epic''] (epicCreated (linkEpic (ie_external_id ie) (epic_id c) pr))) })"

definition writeEpicUpdate ::
  "import_config \<Rightarrow> epic \<Rightarrow> imported_epic \<Rightarrow> string option \<Rightarrow> string \<Rightarrow> progress \<Rightarrow> progress op" where
  "writeEpicUpdate cfg existing ie desc status pr =
     (let pr1 = linkEpic (ie_external_id ie) (epic_id existing) pr in
      if cfg_dry_run cfg
      then State_Monad.return (decide (ie_name ie) KindEpic ActionUpdate (ie_url ie) status
             [T ''updated''] (epicUpdated pr1))
      else do {
        r \<leftarrow> UpdateEpicFromImport
               (newEpic (epic_id existing) (epic_project existing) ie desc status (cfg_source cfg));
        State_Monad.return (case r of
          Inl e \<Rightarrow> failEpic (ie_name ie) (ie_external_id ie) [] (conflictCode e NAME_CONFLICT)
                     ([T ''update epic: ''] @ err_text e) pr1
        | Inr u \<Rightarrow> decide (ie_name ie) KindEpic ActionUpdate (ie_url ie) (epic_status u)
                     [T ''updated''] (epicUpdated (linkEpic (ie_external_id ie) (epic_id u) pr1))) })"

text \<open>The row with the item's own identity: skipped when nothing changes, else updated.\<close>

definition refreshEpic :: "import_config \<Rightarrow> imported_epic \<Rightarrow> epic \<Rightarrow> string \<Rightarrow> progress \<Rightarrow> progress op" where
  "refreshEpic cfg ie existing mapped pr =
     (let desc = mergeStrPtr (ie_description ie) (epic_description existing);
          status = resolveEpicStatus existing mapped
      in if \<not> epicChanged existing (ie_name ie) desc status (cfg_source cfg) (ie_external_id ie) (ie_url ie)
         then State_Monad.return (decide (ie_key ie) KindEpic ActionSkip (ie_url ie) status
                [T ''unchanged''] (linkEpic (ie_external_id ie) (epic_id existing) pr))
         else writeEpicUpdate cfg existing ie desc status pr)"

text \<open>A row of the same name: adopted when it is manual, only linked to otherwise.\<close>

definition adoptEpic :: "import_config \<Rightarrow> imported_epic \<Rightarrow> epic \<Rightarrow> string \<Rightarrow> progress \<Rightarrow> progress op" where
  "adoptEpic cfg ie byName mapped pr =
     (if epic_source byName = SourceManual
      then writeEpicUpdate cfg byName ie (mergeStrPtr (ie_description ie) (epic_description byName))
             (resolveEpicStatus byName mapped) pr
      else if epic_source byName = cfg_source cfg \<and> derefStr (epic_external_id byName) \<noteq> ie_external_id ie
      then State_Monad.return
        (decide (ie_key ie) KindEpic ActionSkip (ie_url ie) (epic_status byName)
           [T ''name conflict'', em_dash, T ''linked'']
           (warnName (ie_key ie)
              [T ''epic name '', quoted (ie_name ie), T '' already exists for source '',
               quoted (cfg_source cfg), T '' under a different id; linked, not overwritten'']
              (linkEpic (ie_external_id ie) (epic_id byName) pr)))
      else State_Monad.return
        (decide (ie_key ie) KindEpic ActionSkip (ie_url ie) (epic_status byName)
           [T ''name shared across sources'', em_dash, T ''linked'']
           (warnName (ie_key ie)
              [T ''epic name '', quoted (ie_name ie), T '' shared across sources (existing source '',
               quoted (epic_source byName), T ''); linked only'']
              (linkEpic (ie_external_id ie) (epic_id byName) pr))))"

definition importEpic :: "uuid \<Rightarrow> import_config \<Rightarrow> imported_epic \<Rightarrow> progress \<Rightarrow> progress op" where
  "importEpic p cfg ie pr =
     (let mapped = projectEpicStatus cfg (ie_raw_status ie) in
      do {
        r \<leftarrow> GetEpicBySourceRef p (cfg_source cfg) (ie_external_id ie);
        case r of
          Inr existing \<Rightarrow> refreshEpic cfg ie existing mapped pr
        | Inl e \<Rightarrow>
            if \<not> isNotFound e
            then State_Monad.return (failEpic (ie_key ie) (ie_external_id ie) (ie_url ie) UPSERT_ERROR
                   ([T ''resolve epic by source ref: ''] @ err_text e) pr)
            else do {
              q \<leftarrow> GetEpicByName p (ie_name ie);
              case q of
                Inr byName \<Rightarrow> adoptEpic cfg ie byName mapped pr
              | Inl e2 \<Rightarrow>
                  if \<not> isNotFound e2
                  then State_Monad.return (failEpic (ie_key ie) (ie_external_id ie) (ie_url ie) UPSERT_ERROR
                         ([T ''resolve epic by name: ''] @ err_text e2) pr)
                  else createEpic p cfg ie mapped pr } })"

section \<open>Stories\<close>

text \<open>The existing row and the key to create under, or the failure of the item.\<close>

type_synonym resolved = "(item_code \<times> msg) + (story option \<times> string)"

definition resolveByKey :: "uuid \<Rightarrow> imported_story \<Rightarrow> resolved op" where
  "resolveByKey p x = do {
     r \<leftarrow> GetStoryByKey p (is_key x);
     State_Monad.return (case r of
       Inl e \<Rightarrow> if isNotFound e then Inr (None, is_key x)
                else Inl (UPSERT_ERROR, [T ''resolve story by key: ''] @ err_text e)
     | Inr s \<Rightarrow> if story_source s \<noteq> SourceManual \<and> story_source s \<noteq> SourceMarkdown
                then Inl (KEY_CONFLICT, [T ''markdown key '', quoted (is_key x), T '' already owned by a '',
                            T (story_source s), T '' story''])
                else Inr (Some s, is_key x)) }"

definition resolveByRef :: "uuid \<Rightarrow> imported_story \<Rightarrow> string \<Rightarrow> resolved op" where
  "resolveByRef p x src = do {
     r \<leftarrow> GetStoryBySourceRef p src (is_external_id x);
     case r of
       Inr s \<Rightarrow> State_Monad.return (Inr (Some s, story_key s))
     | Inl e \<Rightarrow>
         if \<not> isNotFound e
         then State_Monad.return (Inl (UPSERT_ERROR, [T ''resolve story by source ref: ''] @ err_text e))
         else do {
           k \<leftarrow> resolveRemoteCreateKey p (is_key x) src (is_external_id x);
           State_Monad.return (case k of
             Inl e2 \<Rightarrow> Inl (UPSERT_ERROR, [T ''resolve create key: ''] @ err_text e2)
           | Inr key \<Rightarrow> Inr (None, key)) } }"

definition resolveStoryIdentity :: "uuid \<Rightarrow> import_config \<Rightarrow> imported_story \<Rightarrow> resolved op" where
  "resolveStoryIdentity p cfg x =
     (if cfg_source cfg = SourceMarkdown then resolveByKey p x else resolveByRef p x (cfg_source cfg))"

definition newStory ::
  "uuid \<Rightarrow> imported_story \<Rightarrow> string \<Rightarrow> string \<Rightarrow> string \<Rightarrow> string \<Rightarrow> uuid option \<Rightarrow> story" where
  "newStory p x key mapped src hash epic =
     \<lparr>story_id = uuid_nil, story_project = p, story_epic = epic, story_key = key,
      story_title = is_title x, story_objective = is_objective x, story_target_files = None,
      story_depends_on = is_depends_on x, story_scope = is_scope x, story_status = mapped,
      story_acceptance = is_acceptance x, story_current_stage = None, story_source = src,
      story_external_id = Some (is_external_id x),
      story_external_item_id = ptrIfNonEmpty (is_item_id x),
      story_source_url = ptrIfNonEmpty (is_url x), story_synced_at = None,
      story_import_hash = Some hash, story_writeback_status = None, story_created_at = 0,
      story_updated_at = 0\<rparr>"

definition createStory ::
  "import_env \<Rightarrow> uuid \<Rightarrow> import_config \<Rightarrow> imported_story \<Rightarrow> string \<Rightarrow> string \<Rightarrow> uuid option
     \<Rightarrow> progress \<Rightarrow> progress op" where
  "createStory env p cfg x key mapped epic pr =
     (let created = decide key KindStory ActionCreate (is_url x) mapped [T ''new story''] (storyCreated pr) in
      if cfg_dry_run cfg then State_Monad.return created
      else do {
        r \<leftarrow> CreateStoryFromImport
               (newStory p x key mapped (cfg_source cfg) (canonicalStoryHash env x mapped) epic);
        State_Monad.return (case r of
          Inl e \<Rightarrow> failStory x (conflictCode e KEY_CONFLICT) ([T ''create story: ''] @ err_text e) pr
        | Inr _ \<Rightarrow> created) })"

definition locked :: "story \<Rightarrow> bool" where
  "locked s \<longleftrightarrow> story_status s = StoryStatusRunning \<or> story_status s = StoryStatusFailed
     \<or> story_current_stage s \<noteq> None"

text \<open>A tracker item identifier the row does not have yet.\<close>

definition newItemId :: "imported_story \<Rightarrow> story \<Rightarrow> bool" where
  "newItemId x s \<longleftrightarrow> is_item_id x \<noteq> [] \<and> derefStr (story_external_item_id s) \<noteq> is_item_id x"

definition skipUnchanged ::
  "import_config \<Rightarrow> imported_story \<Rightarrow> story \<Rightarrow> progress \<Rightarrow> progress op" where
  "skipUnchanged cfg x s pr =
     (let skipped = decide (story_key s) KindStory ActionSkip (is_url x) (story_status s)
                      [T ''unchanged (hash match)''] (storySkipped pr) in
      if \<not> cfg_dry_run cfg \<and> newItemId x s
      then do {
        r \<leftarrow> UpdateStoryProvenanceOnly (s\<lparr>story_external_item_id := Some (is_item_id x)\<rparr>);
        State_Monad.return (case r of
          Inl e \<Rightarrow> failStory x UPSERT_ERROR ([T ''backfill external_item_id: ''] @ err_text e) pr
        | Inr _ \<Rightarrow> skipped) }
      else State_Monad.return skipped)"

definition refreshedRow :: "import_config \<Rightarrow> imported_story \<Rightarrow> story \<Rightarrow> story" where
  "refreshedRow cfg x s =
     s\<lparr>story_title := is_title x, story_source := cfg_source cfg,
       story_external_id := Some (is_external_id x),
       story_external_item_id := mergeStrPtr (ptrIfNonEmpty (is_item_id x)) (story_external_item_id s),
       story_source_url := ptrIfNonEmpty (is_url x)\<rparr>"

definition provChanged :: "import_config \<Rightarrow> imported_story \<Rightarrow> story \<Rightarrow> bool" where
  "provChanged cfg x s \<longleftrightarrow>
     story_title s \<noteq> is_title x \<or> story_source s \<noteq> cfg_source cfg
     \<or> derefStr (story_external_id s) \<noteq> is_external_id x \<or> derefStr (story_source_url s) \<noteq> is_url x
     \<or> newItemId x s"

definition refreshLocked ::
  "import_config \<Rightarrow> imported_story \<Rightarrow> story \<Rightarrow> progress \<Rightarrow> progress op" where
  "refreshLocked cfg x s pr =
     (let frozen = decide (story_key s) KindStory ActionLock (is_url x) (story_status s)
                     [T ''running'', em_dash, T ''status & spec frozen''] (storyLocked pr) in
      if provChanged cfg x s \<and> \<not> cfg_dry_run cfg
      then do {
        r \<leftarrow> UpdateStoryProvenanceOnly (refreshedRow cfg x s);
        State_Monad.return (case r of
          Inl e \<Rightarrow> failStory x UPSERT_ERROR ([T ''update story provenance: ''] @ err_text e) pr
        | Inr _ \<Rightarrow> frozen) }
      else State_Monad.return frozen)"

definition mergedRow ::
  "import_config \<Rightarrow> imported_story \<Rightarrow> story \<Rightarrow> string \<Rightarrow> string \<Rightarrow> uuid option \<Rightarrow> story" where
  "mergedRow cfg x s mapped hash epic =
     (refreshedRow cfg x s)
       \<lparr>story_objective := mergeStrPtr (is_objective x) (story_objective s),
        story_acceptance := mergeStrPtr (is_acceptance x) (story_acceptance s),
        story_scope := mergeStrPtr (is_scope x) (story_scope s),
        story_depends_on := (if is_depends_on x \<noteq> None then is_depends_on x else story_depends_on s),
        story_epic := (if story_epic s = None then epic else story_epic s),
        story_status := resolveStoryStatus s mapped,
        story_import_hash := Some hash\<rparr>"

definition mergeStory ::
  "import_config \<Rightarrow> imported_story \<Rightarrow> story \<Rightarrow> string \<Rightarrow> string \<Rightarrow> uuid option \<Rightarrow> progress \<Rightarrow> progress op" where
  "mergeStory cfg x s mapped hash epic pr =
     (let merged = mergedRow cfg x s mapped hash epic;
          updated = decide (story_key s) KindStory ActionUpdate (is_url x) (story_status merged)
                      [T ''updated''] (storyUpdated pr)
      in if cfg_dry_run cfg then State_Monad.return updated
         else do {
           r \<leftarrow> UpdateStoryFromImport merged;
           State_Monad.return (case r of
             Inl e \<Rightarrow> failStory x (conflictCode e KEY_CONFLICT) ([T ''update story: ''] @ err_text e) pr
           | Inr _ \<Rightarrow> updated) })"

definition updateStory ::
  "import_env \<Rightarrow> import_config \<Rightarrow> imported_story \<Rightarrow> story \<Rightarrow> string \<Rightarrow> uuid option
     \<Rightarrow> progress \<Rightarrow> progress op" where
  "updateStory env cfg x s mapped epic pr =
     (let hash = canonicalStoryHash env x mapped in
      if \<not> locked s \<and> story_import_hash s = Some hash then skipUnchanged cfg x s pr
      else if locked s then refreshLocked cfg x s pr
      else mergeStory cfg x s mapped hash epic pr)"

text \<open>The parent of a story: the resolved row of its epic, if there is one.\<close>

definition resolvedEpic :: "imported_story \<Rightarrow> progress \<Rightarrow> uuid option" where
  "resolvedEpic x pr =
     (case is_epic_ref x of None \<Rightarrow> None
      | Some ext \<Rightarrow> (case pr_epics pr ext of None \<Rightarrow> None
                    | Some i \<Rightarrow> if i \<noteq> uuid_nil then Some i else None))"

definition importStory ::
  "import_env \<Rightarrow> uuid \<Rightarrow> import_config \<Rightarrow> imported_story \<Rightarrow> progress \<Rightarrow> progress op" where
  "importStory env p cfg x pr =
     (case is_parse_error x of
        Some e \<Rightarrow> State_Monad.return (failStory x PARSE_ERROR
                     ([T ''invalid markdown frontmatter: ''] @ err_text e) pr)
      | None \<Rightarrow>
          if \<not> storyKeyPattern (is_key x)
          then State_Monad.return (failStory x KEY_FORMAT
                 [T ''key must match format [A-Z0-9]+-N (e.g. S-14)''] pr)
          else if TrimSpace (is_title x) = []
          then State_Monad.return (failStory x PARSE_ERROR [T ''title is required (no H1 heading found)''] pr)
          else
            let mapped = projectStoryStatus cfg (is_raw_status x) in
            do {
              r \<leftarrow> resolveStoryIdentity p cfg x;
              case r of
                Inl (code, message) \<Rightarrow> State_Monad.return (failStory x code message pr)
              | Inr (None, key) \<Rightarrow> createStory env p cfg x key mapped (resolvedEpic x pr) pr
              | Inr (Some s, key) \<Rightarrow> updateStory env cfg x s mapped (resolvedEpic x pr) pr })"

section \<open>The import\<close>

fun import_all :: "('x \<Rightarrow> progress \<Rightarrow> progress op) \<Rightarrow> 'x list \<Rightarrow> progress \<Rightarrow> progress op" where
  "import_all f [] pr = State_Monad.return pr"
| "import_all f (x # xs) pr = do { pr1 \<leftarrow> f x pr; import_all f xs pr1 }"

definition emptySummary :: "import_config \<Rightarrow> fetch_result \<Rightarrow> import_summary" where
  "emptySummary cfg res =
     \<lparr>sm_source = cfg_source cfg, sm_dry_run = cfg_dry_run cfg, sm_url = fr_url res,
      sm_epics_created = 0, sm_epics_updated = 0, sm_stories_created = 0, sm_stories_updated = 0,
      sm_skipped = 0, sm_locked = 0, sm_failed = 0, sm_errors = [], sm_warnings = fr_warnings res,
      sm_items = []\<rparr>"

definition importPlan ::
  "import_env \<Rightarrow> uuid \<Rightarrow> import_config \<Rightarrow> fetch_result \<Rightarrow> progress op" where
  "importPlan env p cfg res = do {
     pr \<leftarrow> import_all (importEpic p cfg) (fr_epics res)
             \<lparr>pr_epics = Map.empty, pr_summary = emptySummary cfg res\<rparr>;
     import_all (importStory env p cfg) (fr_stories res) pr }"

definition Import :: "import_env \<Rightarrow> uuid \<Rightarrow> import_config \<Rightarrow> import_summary fop" where
  "Import env p cfg =
     (case pi_fetch env p cfg of
        Inl e \<Rightarrow> fail (sourceError e)
      | Inr res \<Rightarrow> do { pr \<leftarrow> importPlan env p cfg res; ok (pr_summary pr) })"

lemmas import_defs = Import_def importPlan_def

end
