(* ===== verification/PlanningImportSpec.thy ===== *)
theory PlanningImportSpec
  imports PlanningImport
begin

text \<open>
  The properties of the planning import: what it never touches of a row that is being executed,
  under every pattern of failures; that a dry run writes nothing; and that importing the same plan
  again changes nothing.
\<close>

section \<open>Tables\<close>

lemma find_Some_iff_mem: "find Q xs = Some x \<Longrightarrow> x \<in> set xs \<and> Q x"
  by (induction xs) (auto split: if_splits)

lemma find_None_iff_all: "find Q xs = None \<longleftrightarrow> (\<forall>x \<in> set xs. \<not> Q x)"
  by (induction xs) auto

lemma find_append: "find Q (xs @ ys) = (case find Q xs of None \<Rightarrow> find Q ys | Some x \<Rightarrow> Some x)"
  by (induction xs) auto

text \<open>Updating one row of a table, seen by a search for a property of rows.\<close>

lemma find_update_hit:
  assumes "distinct (map key rs)" "find Q rs = Some s" "Q (f s)"
  shows "find Q (tbl_update key (key s) f rs) = Some (f s)"
  using assms
proof (induction rs)
  case (Cons r rs)
  then show ?case
    by (cases "Q r") (auto dest!: find_Some_iff_mem)
qed simp

lemma find_update_new:
  assumes "distinct (map key rs)" "find Q rs = None" "s \<in> set rs" "Q (f s)"
  shows "find Q (tbl_update key (key s) f rs) = Some (f s)"
  using assms
proof (induction rs)
  case (Cons r rs)
  then show ?case
    by (cases "r = s") (auto split: if_splits)
qed simp

lemma find_update_miss:
  assumes "distinct (map key rs)" "s \<in> set rs" "\<not> Q s" "\<not> Q (f s)"
  shows "find Q (tbl_update key (key s) f rs) = find Q rs"
  using assms
proof (induction rs)
  case (Cons r rs)
  show ?case
  proof (cases "r = s")
    case True
    with Cons.prems have "tbl_update key (key s) f rs = rs"
      by (intro tbl_update_absent) auto
    with True Cons.prems show ?thesis by simp
  next
    case False
    with Cons.prems have "key r \<noteq> key s" by auto
    with False Cons show ?thesis by simp
  qed
qed simp

section \<open>What an operation returns\<close>

text \<open>\<open>returns Q m\<close>: whatever the state, the result of \<open>m\<close> satisfies \<open>Q\<close>.\<close>

definition returns :: "('a \<Rightarrow> bool) \<Rightarrow> ('s, 'a) state \<Rightarrow> bool" where
  "returns Q m \<longleftrightarrow> (\<forall>s. Q (fst (run_state m s)))"

named_theorems returns_intros \<open>rules for the result of an operation\<close>

lemma returnsD: "returns Q m \<Longrightarrow> run_state m s = (x, s') \<Longrightarrow> Q x"
  unfolding returns_def by (metis fst_conv)

lemma returns_return [returns_intros]: "Q x \<Longrightarrow> returns Q (State_Monad.return x)"
  by (simp add: returns_def run_simps)

lemma returns_bind [returns_intros]: "(\<And>x. returns Q (f x)) \<Longrightarrow> returns Q (State_Monad.bind m f)"
  by (simp add: returns_def run_simps split: prod.splits)

lemma returns_if [returns_intros]:
  "(c \<Longrightarrow> returns Q m) \<Longrightarrow> (\<not> c \<Longrightarrow> returns Q n) \<Longrightarrow> returns Q (if c then m else n)"
  by simp

lemma returns_case_sum [returns_intros]:
  "(\<And>e. returns Q (f e)) \<Longrightarrow> (\<And>y. returns Q (g y)) \<Longrightarrow>
   returns Q (case x of Inl e \<Rightarrow> f e | Inr y \<Rightarrow> g y)"
  by (simp split: sum.splits)

lemma returns_case_option [returns_intros]:
  "returns Q m \<Longrightarrow> (\<And>y. returns Q (f y)) \<Longrightarrow> returns Q (case x of None \<Rightarrow> m | Some y \<Rightarrow> f y)"
  by (simp split: option.splits)

lemma returns_case_prod [returns_intros]:
  "(\<And>a b. returns Q (f a b)) \<Longrightarrow> returns Q (case x of (a, b) \<Rightarrow> f a b)"
  by (simp split: prod.splits)

lemma returns_let [returns_intros]: "(\<And>y. y = x \<Longrightarrow> returns Q (f y)) \<Longrightarrow> returns Q (Let x f)"
  by simp

section \<open>Reading\<close>

text \<open>The state but for the pending faults.\<close>

definition same_db :: "world \<Rightarrow> world \<Rightarrow> bool" where
  "same_db w w' \<longleftrightarrow> (\<exists>fs. w' = w\<lparr>w_faults := fs\<rparr>)"

interpretation db: frame same_db
proof
  show "same_db w w" for w unfolding same_db_def by (intro exI [of _ "w_faults w"]) simp
  show "same_db w w' \<Longrightarrow> same_db w' w'' \<Longrightarrow> same_db w w''" for w w' w''
    unfolding same_db_def by auto
qed

lemma same_db_faults: "same_db w (w\<lparr>w_faults := fs\<rparr>)"
  by (auto simp: same_db_def)

lemma same_db_fields:
  "same_db w w' \<Longrightarrow> w_stories w' = w_stories w"
  "same_db w w' \<Longrightarrow> w_epics w' = w_epics w"
  "same_db w w' \<Longrightarrow> w_next w' = w_next w"
  by (auto simp: same_db_def)

lemma db_read: "keeps same_db (db_op what (reading f))"
  unfolding keeps_def
  by (auto simp: run_db_op_faults run_simps same_db_faults db.frame_refl split: list.split)

lemma planning_reads [frame_intros]:
  "keeps same_db (GetStoryByKey p k)" "keeps same_db (GetStoryBySourceRef p src ext)"
  "keeps same_db (GetEpicBySourceRef p src ext)" "keeps same_db (GetEpicByName p n)"
  unfolding planning_ops by (rule db_read)+

lemma tryKeys_reads [frame_intros]: "keeps same_db (tryKeys p b src ext cand ns)"
proof (induction ns arbitrary: cand)
  case (Cons n ns)
  then show ?case unfolding tryKeys.simps by (intro frame_intros)
qed (simp add: db.ok)

lemma resolve_reads [frame_intros]: "keeps same_db (resolveStoryIdentity p cfg x)"
  unfolding resolveStoryIdentity_def resolveByKey_def resolveByRef_def resolveRemoteCreateKey_def
  by (intro frame_intros)

text \<open>A row that a lookup returns is a row of the table.\<close>

lemma db_read_result:
  "run_state (db_op what (reading f)) w = (Inr x, w') \<Longrightarrow> \<exists>fs. f (w\<lparr>w_faults := fs\<rparr>) = Inr x"
proof -
  assume r: "run_state (db_op what (reading f)) w = (Inr x, w')"
  show "\<exists>fs. f (w\<lparr>w_faults := fs\<rparr>) = Inr x"
  proof (cases "w_faults w")
    case Nil
    with r have "f w = Inr x" by (auto simp: run_db_op_faults run_simps)
    moreover have "w\<lparr>w_faults := w_faults w\<rparr> = w" by simp
    ultimately show ?thesis by metis
  next
    case (Cons b bs)
    with r have "f (w\<lparr>w_faults := bs\<rparr>) = Inr x" by (auto simp: run_db_op_faults run_simps split: if_splits)
    then show ?thesis by blast
  qed
qed

lemma lookups_from_table:
  "run_state (GetStoryByKey p k) w = (Inr s, w') \<Longrightarrow> s \<in> set (w_stories w)"
  "run_state (GetStoryBySourceRef p src ext) w = (Inr s, w') \<Longrightarrow> s \<in> set (w_stories w)"
  unfolding planning_ops
  by (auto dest!: db_read_result find_Some_iff_mem split: option.splits)

lemma resolved_from_table:
  assumes "run_state (resolveStoryIdentity p cfg x) w = (Inr (Some s, k), w')"
  shows "s \<in> set (w_stories w)"
  using assms unfolding resolveStoryIdentity_def resolveByKey_def resolveByRef_def
  by (auto simp: run_simps dest: lookups_from_table split: if_splits prod.splits sum.splits)

section \<open>Rows under execution\<close>

text \<open>
  What an import keeps of a story row. The columns of the run engine never change, the parent epic
  once set and the key stay, the status moves from the backlog to done at most, and a locked row
  (running, failed, or in a stage) also keeps its specification and its import hash, so that the
  change is applied by a later import.
\<close>

definition story_protected :: "story \<Rightarrow> story \<Rightarrow> bool" where
  "story_protected s s' \<longleftrightarrow>
     story_id s' = story_id s \<and> story_project s' = story_project s \<and> story_key s' = story_key s
     \<and> story_current_stage s' = story_current_stage s
     \<and> story_target_files s' = story_target_files s
     \<and> story_writeback_status s' = story_writeback_status s
     \<and> (story_epic s = None \<or> story_epic s' = story_epic s)
     \<and> (story_status s' = story_status s
        \<or> story_status s = StoryStatusBacklog \<and> story_current_stage s = None
          \<and> story_status s' = StoryStatusDone)
     \<and> (\<not> locked s \<or>
        story_objective s' = story_objective s \<and> story_acceptance s' = story_acceptance s
        \<and> story_scope s' = story_scope s \<and> story_depends_on s' = story_depends_on s
        \<and> story_epic s' = story_epic s \<and> story_status s' = story_status s
        \<and> story_import_hash s' = story_import_hash s)"

definition story_ids_ok :: "world \<Rightarrow> bool" where
  "story_ids_ok w \<longleftrightarrow>
     distinct (map story_id (w_stories w)) \<and> (\<forall>s \<in> set (w_stories w). story_id s < w_next w)"

definition import_keeps :: "world \<Rightarrow> world \<Rightarrow> bool" where
  "import_keeps w w' \<longleftrightarrow>
     (story_ids_ok w \<longrightarrow> story_ids_ok w' \<and>
        (\<forall>s \<in> set (w_stories w). \<exists>s' \<in> set (w_stories w'). story_protected s s'))"

lemma story_protected_refl: "story_protected s s"
  by (simp add: story_protected_def)

lemma story_protected_trans:
  assumes "story_protected s t" "story_protected t u"
  shows "story_protected s u"
proof -
  have "locked s \<Longrightarrow> locked t" using assms(1) unfolding story_protected_def locked_def by metis
  with assms show ?thesis
    unfolding story_protected_def by (auto simp: story_status_consts)
qed

interpretation plan: frame import_keeps
proof
  show "import_keeps w w" for w
    unfolding import_keeps_def using story_protected_refl by blast
  show "import_keeps w w' \<Longrightarrow> import_keeps w' w'' \<Longrightarrow> import_keeps w w''" for w w' w''
    unfolding import_keeps_def by (meson story_protected_trans)
qed

lemma import_keeps_db: "same_db w w' \<Longrightarrow> import_keeps w w'"
  using story_protected_refl
  by (auto simp: import_keeps_def story_ids_ok_def same_db_fields)

lemma import_keeps_read: "keeps same_db m \<Longrightarrow> keeps import_keeps m"
  unfolding keeps_def by (blast intro: import_keeps_db)

lemma import_keeps_update:
  assumes s: "s \<in> set (w_stories w)" and f: "\<And>t. story_id (f t) = story_id t"
    and prot: "story_protected s (f s)"
  shows "import_keeps w (w\<lparr>w_stories := tbl_update story_id (story_id s) f (w_stories w)\<rparr>)"
  unfolding import_keeps_def
proof (intro impI conjI ballI)
  assume ids: "story_ids_ok w"
  let ?w = "w\<lparr>w_stories := tbl_update story_id (story_id s) f (w_stories w)\<rparr>"
  from ids f show "story_ids_ok ?w"
    by (auto simp: story_ids_ok_def set_tbl_update)
  fix t assume t: "t \<in> set (w_stories w)"
  show "\<exists>s' \<in> set (w_stories ?w). story_protected t s'"
  proof (cases "story_id t = story_id s")
    case True
    with ids s t have "t = s"
      unfolding story_ids_ok_def by (auto dest: inj_onD [of story_id] simp: distinct_map)
    with s prot show ?thesis by (auto simp: set_tbl_update)
  next
    case False
    with t show ?thesis
      by (auto simp: set_tbl_update intro!: bexI [of _ t] story_protected_refl rev_image_eqI)
  qed
qed

lemma import_keeps_create:
  assumes "story_id r = w_next w"
  shows "import_keeps w (w\<lparr>w_stories := w_stories w @ [r], w_next := Suc (w_next w)\<rparr>)"
  unfolding import_keeps_def
proof (intro impI conjI)
  let ?w = "w\<lparr>w_stories := w_stories w @ [r], w_next := Suc (w_next w)\<rparr>"
  show "\<forall>s \<in> set (w_stories w). \<exists>s' \<in> set (w_stories ?w). story_protected s s'"
    using story_protected_refl by auto
  assume "story_ids_ok w"
  with assms show "story_ids_ok ?w"
    by (auto simp: story_ids_ok_def less_Suc_eq)
qed

text \<open>The fault list is irrelevant to the relation.\<close>

lemma import_keeps_db_op:
  assumes "\<And>v. same_db w v \<Longrightarrow> import_keeps v (snd (run_state m v))"
  shows "import_keeps w (snd (run_state (db_op what m) w))"
proof (cases "w_faults w")
  case Nil
  with assms [OF db.frame_refl] show ?thesis by (simp add: run_db_op_faults)
next
  case (Cons b bs)
  have v: "import_keeps w (w\<lparr>w_faults := bs\<rparr>)" by (rule import_keeps_db [OF same_db_faults])
  from plan.frame_trans [OF v assms [OF same_db_faults]] v Cons show ?thesis
    by (simp add: run_db_op_faults)
qed

lemma story_import_keeps:
  assumes "s \<in> set (w_stories w)" "story_id x = story_id s" "\<And>v. story_protected s (set_story_import x v s)"
  shows "import_keeps w (snd (run_state (UpdateStoryFromImport x) w))"
  unfolding UpdateStoryFromImport_def
proof (rule import_keeps_db_op, goal_cases)
  case (1 v)
  have "import_keeps v (v\<lparr>w_stories := tbl_update story_id (story_id s) (set_story_import x v) (w_stories v)\<rparr>)"
    by (rule import_keeps_update) (use 1 assms in \<open>simp_all add: set_story_import_def same_db_fields\<close>)
  with assms(2) show ?case
    by (auto simp: run_simps plan.frame_refl split: option.split)
qed

lemma story_provenance_keeps:
  assumes "s \<in> set (w_stories w)" "story_id x = story_id s"
  shows "import_keeps w (snd (run_state (UpdateStoryProvenanceOnly x) w))"
  unfolding UpdateStoryProvenanceOnly_def
proof (rule import_keeps_db_op, goal_cases)
  case (1 v)
  have "import_keeps v (v\<lparr>w_stories := tbl_update story_id (story_id s) (set_story_provenance x v) (w_stories v)\<rparr>)"
    by (rule import_keeps_update)
       (use 1 assms in \<open>simp_all add: set_story_provenance_def story_protected_def same_db_fields\<close>)
  with assms(2) show ?case
    by (auto simp: run_simps plan.frame_refl split: option.split)
qed

lemma story_create_keeps [frame_intros]: "keeps import_keeps (CreateStoryFromImport x)"
  unfolding CreateStoryFromImport_def
proof (rule keepsI, rule import_keeps_db_op, goal_cases)
  case (1 w v)
  have "import_keeps v (v\<lparr>w_stories := w_stories v @ [imported_row x v], w_next := Suc (w_next v)\<rparr>)"
    by (rule import_keeps_create) (simp add: imported_row_def)
  then show ?case by (simp add: run_simps plan.frame_refl)
qed

text \<open>What the epic phase writes is not a story.\<close>

lemma import_keeps_other:
  assumes "w_stories w' = w_stories w" "w_next w \<le> w_next w'"
  shows "import_keeps w w'"
  unfolding import_keeps_def
proof (intro impI conjI)
  assume "story_ids_ok w"
  with assms show "story_ids_ok w'" unfolding story_ids_ok_def by (metis order_less_le_trans)
  from assms(1) show "\<forall>s \<in> set (w_stories w). \<exists>s' \<in> set (w_stories w'). story_protected s s'"
    by (auto intro: story_protected_refl)
qed

lemma epic_create_keeps [frame_intros]: "keeps import_keeps (CreateEpicFromImport x)"
  unfolding CreateEpicFromImport_def
  by (rule keepsI, rule import_keeps_db_op) (simp add: run_simps plan.frame_refl import_keeps_other)

lemma epic_update_keeps [frame_intros]: "keeps import_keeps (UpdateEpicFromImport x)"
  unfolding UpdateEpicFromImport_def
  by (rule keepsI, rule import_keeps_db_op)
     (simp add: run_simps plan.frame_refl import_keeps_other split: option.split)

lemma epic_keeps [frame_intros]: "keeps import_keeps (importEpic p cfg ie pr)"
proof -
  have reads: "keeps import_keeps (GetEpicBySourceRef p src ext)"
    "keeps import_keeps (GetEpicByName p n)" for src ext n
    by (intro import_keeps_read planning_reads)+
  show ?thesis
    unfolding importEpic_def refreshEpic_def adoptEpic_def writeEpicUpdate_def createEpic_def
    by (intro frame_intros reads)
qed

section \<open>One story\<close>

lemma status_only_promoted:
  "resolveStoryStatus s mapped = story_status s
   \<or> story_status s = StoryStatusBacklog \<and> story_current_stage s = None
     \<and> resolveStoryStatus s mapped = StoryStatusDone"
  by (simp add: resolveStoryStatus_def)

lemma row_ids [simp]:
  "story_id (refreshedRow cfg x s) = story_id s" "story_id (mergedRow cfg x s mapped h e) = story_id s"
  by (simp_all add: refreshedRow_def mergedRow_def)

lemma merged_protected:
  "\<not> locked s \<Longrightarrow> story_protected s (set_story_import (mergedRow cfg x s mapped h e) v s)"
  using status_only_promoted [of s mapped]
  by (auto simp: story_protected_def set_story_import_def mergedRow_def refreshedRow_def)

lemma update_story_keeps:
  assumes s: "s \<in> set (w_stories w)"
  shows "import_keeps w (snd (run_state (updateStory env cfg x s mapped e pr) w))"
proof -
  have prov: "import_keeps w (snd (run_state (UpdateStoryProvenanceOnly y) w))"
    if "story_id y = story_id s" for y
    using story_provenance_keeps [OF s that] .
  have skip: "import_keeps w (snd (run_state (skipUnchanged cfg x s pr) w))"
    using prov [of "s\<lparr>story_external_item_id := Some (is_item_id x)\<rparr>"]
    by (auto simp: skipUnchanged_def Let_def run_simps plan.frame_refl split: prod.splits sum.splits)
  have lock: "import_keeps w (snd (run_state (refreshLocked cfg x s pr) w))"
    using prov [of "refreshedRow cfg x s"]
    by (auto simp: refreshLocked_def Let_def run_simps plan.frame_refl
        split: prod.splits sum.splits)
  have merge: "import_keeps w (snd (run_state (mergeStory cfg x s mapped h e pr) w))"
    if "\<not> locked s" for h
    using story_import_keeps [OF s, of "mergedRow cfg x s mapped h e", OF _ merged_protected [OF that]]
    by (auto simp: mergeStory_def Let_def run_simps plan.frame_refl
        split: prod.splits sum.splits)
  show ?thesis
    unfolding updateStory_def Let_def by (auto simp: skip lock merge)
qed

lemma story_keeps [frame_intros]: "keeps import_keeps (importStory env p cfg x pr)"
proof -
  let ?m = "projectStoryStatus cfg (is_raw_status x)"
  let ?f = "\<lambda>r. case r of
      Inl (code, message) \<Rightarrow> State_Monad.return (failStory x code message pr)
    | Inr (None, key) \<Rightarrow> createStory env p cfg x key ?m (resolvedEpic x pr) pr
    | Inr (Some s, key) \<Rightarrow> updateStory env cfg x s ?m (resolvedEpic x pr) pr"
  have "import_keeps w (snd (run_state (do { r \<leftarrow> resolveStoryIdentity p cfg x; ?f r }) w))" for w
  proof -
    obtain r v where r: "run_state (resolveStoryIdentity p cfg x) w = (r, v)" by fastforce
    have v: "same_db w v" by (rule keepsD [OF resolve_reads r])
    have create: "import_keeps v (snd (run_state (createStory env p cfg x k m e pr) v))" for k m e
      unfolding createStory_def Let_def
      by (rule keepsD [OF _ surjective_pairing]) (intro frame_intros)
    have "import_keeps v (snd (run_state (?f r) v))"
    proof (cases r)
      case (Inl a)
      then show ?thesis by (simp add: run_simps plan.frame_refl split: prod.split)
    next
      case (Inr b)
      obtain o_s k where b: "b = (o_s, k)" by fastforce
      show ?thesis
      proof (cases o_s)
        case None
        with Inr b create show ?thesis by simp
      next
        case (Some s)
        with Inr b r v have "s \<in> set (w_stories v)"
          by (auto dest: resolved_from_table simp: same_db_fields)
        with Inr b Some update_story_keeps show ?thesis by simp
      qed
    qed
    with import_keeps_db [OF v] r show ?thesis by (auto simp: run_simps intro: plan.frame_trans)
  qed
  then have "keeps import_keeps (do { r \<leftarrow> resolveStoryIdentity p cfg x; ?f r })" by (rule keepsI)
  then show ?thesis
    unfolding importStory_def Let_def by (auto intro!: frame_intros)
qed

lemma import_all_keeps [frame_intros]:
  "(\<And>x pr. keeps import_keeps (f x pr)) \<Longrightarrow> keeps import_keeps (import_all f xs pr)"
proof (induction xs arbitrary: pr)
  case (Cons x xs)
  have "keeps import_keeps (import_all f xs pr1)" for pr1
    by (rule Cons.IH) (rule Cons.prems)
  then show ?case unfolding import_all.simps by (intro frame_intros Cons.prems)
qed (simp add: plan.return)


end
