(* ===== verification/PlanningReimport.thy ===== *)
theory PlanningReimport
  imports PlanningImportSpec
begin

text \<open>
  Importing the same plan twice: a row that an import has brought to the state of its item is
  \<open>settled\<close>, an item with a settled row is skipped without a write, and the import of one item
  leaves the rows of the other items settled.
\<close>

section \<open>The row of an item\<close>

definition own_story :: "uuid \<Rightarrow> import_config \<Rightarrow> imported_story \<Rightarrow> story \<Rightarrow> bool" where
  "own_story p cfg x s \<longleftrightarrow>
     (if cfg_source cfg = SourceMarkdown then story_keyed p (is_key x) s
      else story_from p (cfg_source cfg) (is_external_id x) s)"

definition story_ident :: "import_config \<Rightarrow> imported_story \<Rightarrow> string" where
  "story_ident cfg x = (if cfg_source cfg = SourceMarkdown then is_key x else is_external_id x)"

definition well_formed :: "imported_story \<Rightarrow> bool" where
  "well_formed x \<longleftrightarrow> is_parse_error x = None \<and> storyKeyPattern (is_key x) \<and> TrimSpace (is_title x) \<noteq> []"

definition story_settled :: "import_env \<Rightarrow> import_config \<Rightarrow> imported_story \<Rightarrow> story \<Rightarrow> bool" where
  "story_settled env cfg x s \<longleftrightarrow>
     \<not> locked s \<and> \<not> newItemId x s
     \<and> story_import_hash s = Some (canonicalStoryHash env x (projectStoryStatus cfg (is_raw_status x)))
     \<and> (cfg_source cfg = SourceMarkdown \<longrightarrow> story_source s = SourceManual \<or> story_source s = SourceMarkdown)"

definition settled :: "import_env \<Rightarrow> uuid \<Rightarrow> import_config \<Rightarrow> imported_story \<Rightarrow> story list \<Rightarrow> bool" where
  "settled env p cfg x rs \<longleftrightarrow>
     well_formed x \<and> (\<exists>s. find (own_story p cfg x) rs = Some s \<and> story_settled env cfg x s)"

lemma own_story_cases:
  "cfg_source cfg = SourceMarkdown \<Longrightarrow> own_story p cfg x = story_keyed p (is_key x)"
  "cfg_source cfg \<noteq> SourceMarkdown \<Longrightarrow> own_story p cfg x = story_from p (cfg_source cfg) (is_external_id x)"
  by (auto simp: own_story_def)

lemma other_story:
  "story_ident cfg x \<noteq> story_ident cfg y \<Longrightarrow> own_story p cfg x s \<Longrightarrow> \<not> own_story p cfg y s"
  by (auto simp: own_story_def story_ident_def story_keyed_def story_from_def split: if_splits)

section \<open>Looking up the row, without failures\<close>

lemma run_lookups:
  assumes "w_faults w = []"
  shows "run_state (GetStoryByKey p k) w =
           ((case find (story_keyed p k) (w_stories w) of
               None \<Rightarrow> Inl (NewNotFound ''story'' (T k)) | Some s \<Rightarrow> Inr s), w)"
    and "run_state (GetStoryBySourceRef p src ext) w =
           ((case find (story_from p src ext) (w_stories w) of
               None \<Rightarrow> Inl (NewNotFound ''story'' (T ext)) | Some s \<Rightarrow> Inr s), w)"
    and "run_state (GetEpicBySourceRef p src ext) w =
           ((case find (epic_from p src ext) (w_epics w) of
               None \<Rightarrow> Inl (NewNotFound ''epic'' (T ext)) | Some e \<Rightarrow> Inr e), w)"
    and "run_state (GetEpicByName p n) w =
           ((case find (epic_named p n) (w_epics w) of
               None \<Rightarrow> Inl (NewNotFound ''epic'' (T n)) | Some e \<Rightarrow> Inr e), w)"
  using assms by (simp_all add: planning_ops run_simps)

lemma run_tryKeys: "w_faults w = [] \<Longrightarrow> \<exists>k. run_state (tryKeys p b src ext cand ns) w = (Inr k, w)"
proof (induction ns arbitrary: cand)
  case (Cons n ns)
  then show ?case by (simp add: run_simps run_lookups split: option.split)
qed (simp add: run_simps)

text \<open>The resolved identity: the own row, or a key to create under.\<close>

lemma run_resolve_found:
  assumes "w_faults w = []" "find (own_story p cfg x) (w_stories w) = Some s"
  shows "run_state (resolveStoryIdentity p cfg x) w =
    ((if cfg_source cfg = SourceMarkdown \<and> story_source s \<noteq> SourceManual \<and> story_source s \<noteq> SourceMarkdown
      then Inl (KEY_CONFLICT, [T ''markdown key '', quoted (is_key x), T '' already owned by a '',
                   T (story_source s), T '' story''])
      else Inr (Some s, story_key s)), w)"
proof (cases "cfg_source cfg = SourceMarkdown")
  case True
  with assms(2) have "find (story_keyed p (is_key x)) (w_stories w) = Some s" by (simp add: own_story_cases)
  with True assms(1) show ?thesis
    by (auto simp: resolveStoryIdentity_def resolveByKey_def run_simps run_lookups story_keyed_def
        dest!: find_Some_iff_mem)
next
  case False
  with assms(2) have "find (story_from p (cfg_source cfg) (is_external_id x)) (w_stories w) = Some s"
    by (simp add: own_story_cases)
  with False assms(1) show ?thesis
    by (simp add: resolveStoryIdentity_def resolveByRef_def run_simps run_lookups)
qed

lemma run_resolve_new:
  assumes "w_faults w = []" "find (own_story p cfg x) (w_stories w) = None"
  obtains k where "run_state (resolveStoryIdentity p cfg x) w = (Inr (None, k), w)"
    and "cfg_source cfg = SourceMarkdown \<longrightarrow> k = is_key x"
proof (cases "cfg_source cfg = SourceMarkdown")
  case True
  with assms that show ?thesis
    by (simp add: resolveStoryIdentity_def resolveByKey_def run_simps run_lookups own_story_cases)
next
  case False
  obtain k where k: "run_state (resolveRemoteCreateKey p (is_key x) (cfg_source cfg) (is_external_id x)) w = (Inr k, w)"
    using run_tryKeys [OF assms(1)] unfolding resolveRemoteCreateKey_def by blast
  with False assms have "run_state (resolveStoryIdentity p cfg x) w = (Inr (None, k), w)"
    by (simp add: resolveStoryIdentity_def resolveByRef_def run_simps run_lookups own_story_cases)
  with False that show ?thesis by blast
qed

section \<open>A settled item is skipped\<close>

definition skip_story :: "imported_story \<Rightarrow> story \<Rightarrow> progress \<Rightarrow> progress" where
  "skip_story x s pr =
     decide (story_key s) KindStory ActionSkip (is_url x) (story_status s) [T ''unchanged (hash match)'']
       (storySkipped pr)"

lemma run_import_settled_row:
  assumes "w_faults w = []" "settled env p cfg x (w_stories w)"
  shows "\<exists>s. find (own_story p cfg x) (w_stories w) = Some s
           \<and> run_state (importStory env p cfg x pr) w = (skip_story x s pr, w)"
proof -
  from assms(2) obtain s where x: "well_formed x" and f: "find (own_story p cfg x) (w_stories w) = Some s"
    and s: "story_settled env cfg x s"
    by (auto simp: settled_def)
  from s have r: "run_state (resolveStoryIdentity p cfg x) w = (Inr (Some s, story_key s), w)"
    using run_resolve_found [OF assms(1) f] by (auto simp: story_settled_def)
  from x s have "run_state (importStory env p cfg x pr) w = (skip_story x s pr, w)"
    by (simp add: importStory_def well_formed_def run_simps r updateStory_def story_settled_def Let_def
        skipUnchanged_def skip_story_def)
  with f show ?thesis by blast
qed

section \<open>The counters\<close>

lemma progress_simps [simp]:
  "pr_epics (decide k kd a u m r pr) = pr_epics pr"
  "sm_failed (pr_summary (decide k kd a u m r pr)) = sm_failed (pr_summary pr)"
  "sm_locked (pr_summary (decide k kd a u m r pr)) = sm_locked (pr_summary pr)"
  "sm_warnings (pr_summary (decide k kd a u m r pr)) = sm_warnings (pr_summary pr)"
  "sm_failed (pr_summary (recordFailure k u c r pr)) = Suc (sm_failed (pr_summary pr))"
  "sm_locked (pr_summary (recordFailure k u c r pr)) = sm_locked (pr_summary pr)"
  "sm_warnings (pr_summary (recordFailure k u c r pr)) = sm_warnings (pr_summary pr)"
  "sm_failed (pr_summary (warnName k r pr)) = sm_failed (pr_summary pr)"
  "sm_locked (pr_summary (warnName k r pr)) = sm_locked (pr_summary pr)"
  "length (sm_warnings (pr_summary (warnName k r pr))) = Suc (length (sm_warnings (pr_summary pr)))"
  "pr_summary (linkEpic u i pr) = pr_summary pr"
  "sm_locked (pr_summary (storyLocked pr)) = Suc (sm_locked (pr_summary pr))"
  "sm_failed (pr_summary (storyLocked pr)) = sm_failed (pr_summary pr)"
  "sm_warnings (pr_summary (storyLocked pr)) = sm_warnings (pr_summary pr)"
  by (simp_all add: decide_def recordFailure_def warnName_def linkEpic_def storyLocked_def)

lemma counter_simps [simp]:
  assumes "f = epicCreated \<or> f = epicUpdated \<or> f = storyCreated \<or> f = storyUpdated \<or> f = storySkipped"
  shows "sm_failed (pr_summary (f pr)) = sm_failed (pr_summary pr)"
    "sm_locked (pr_summary (f pr)) = sm_locked (pr_summary pr)"
    "sm_warnings (pr_summary (f pr)) = sm_warnings (pr_summary pr)"
  using assms
  by (auto simp: epicCreated_def epicUpdated_def storyCreated_def storyUpdated_def storySkipped_def)

lemma failure_simps [simp]:
  "sm_failed (pr_summary (failStory x c m pr)) = Suc (sm_failed (pr_summary pr))"
  "sm_locked (pr_summary (failStory x c m pr)) = sm_locked (pr_summary pr)"
  "sm_warnings (pr_summary (failStory x c m pr)) = sm_warnings (pr_summary pr)"
  "sm_failed (pr_summary (failEpic k u v c m pr)) = Suc (sm_failed (pr_summary pr))"
  "sm_locked (pr_summary (failEpic k u v c m pr)) = sm_locked (pr_summary pr)"
  "sm_warnings (pr_summary (failEpic k u v c m pr)) = sm_warnings (pr_summary pr)"
  by (simp_all add: failStory_def failEpic_def)

text \<open>An import only counts up; it is clean when no item failed, was locked or clashed by name.\<close>

definition counts_up :: "progress \<Rightarrow> progress \<Rightarrow> bool" where
  "counts_up pr pr' \<longleftrightarrow>
     sm_failed (pr_summary pr) \<le> sm_failed (pr_summary pr')
     \<and> sm_locked (pr_summary pr) \<le> sm_locked (pr_summary pr')
     \<and> length (sm_warnings (pr_summary pr)) \<le> length (sm_warnings (pr_summary pr'))"

definition clean :: "progress \<Rightarrow> progress \<Rightarrow> bool" where
  "clean pr pr' \<longleftrightarrow>
     sm_failed (pr_summary pr') = sm_failed (pr_summary pr)
     \<and> sm_locked (pr_summary pr') = sm_locked (pr_summary pr)
     \<and> length (sm_warnings (pr_summary pr')) = length (sm_warnings (pr_summary pr))"

lemma story_counts_up: "returns (counts_up pr) (importStory env p cfg x pr)"
  unfolding importStory_def createStory_def updateStory_def skipUnchanged_def refreshLocked_def mergeStory_def
  by (intro returns_intros) (auto simp: counts_up_def Let_def split: sum.splits)

lemma epic_counts_up: "returns (counts_up pr) (importEpic p cfg ie pr)"
  unfolding importEpic_def createEpic_def refreshEpic_def adoptEpic_def writeEpicUpdate_def
  by (intro returns_intros) (auto simp: counts_up_def Let_def split: sum.splits)

lemma counts_up_all:
  assumes "\<And>x pr. returns (counts_up pr) (f x pr)"
  shows "returns (counts_up pr) (import_all f xs pr)"
  unfolding returns_def
proof
  show "counts_up pr (fst (run_state (import_all f xs pr) w))" for w
  proof (induction xs arbitrary: pr w)
    case (Cons x xs)
    obtain pr1 w1 where f: "run_state (f x pr) w = (pr1, w1)" by fastforce
    have "counts_up pr pr1" by (rule returnsD [OF assms f])
    moreover have "counts_up pr1 (fst (run_state (import_all f xs pr1) w1))" by (rule Cons.IH)
    ultimately show ?case using f by (simp add: run_simps counts_up_def)
  qed (simp add: run_simps counts_up_def)
qed

lemma clean_split: "counts_up pr pr1 \<Longrightarrow> counts_up pr1 pr2 \<Longrightarrow> clean pr pr2 \<Longrightarrow> clean pr pr1 \<and> clean pr1 pr2"
  by (auto simp: counts_up_def clean_def)

section \<open>The import of an item settles its row\<close>

lemma run_story_writes:
  assumes "w_faults w = []"
  shows "run_state (UpdateStoryFromImport y) w = (r, w') \<Longrightarrow> (\<exists>e. r = Inl e)
      \<or> w' = w\<lparr>w_stories := tbl_update story_id (story_id y) (set_story_import y w) (w_stories w)\<rparr>"
    and "run_state (UpdateStoryProvenanceOnly y) w = (r, w') \<Longrightarrow> (\<exists>e. r = Inl e)
      \<or> w' = w\<lparr>w_stories := tbl_update story_id (story_id y) (set_story_provenance y w) (w_stories w)\<rparr>"
    and "run_state (CreateStoryFromImport y) w = (r, w') \<Longrightarrow> (\<exists>e. r = Inl e)
      \<or> w' = w\<lparr>w_stories := w_stories w @ [imported_row y w], w_next := Suc (w_next w)\<rparr>"
  using assms by (auto simp: planning_ops run_simps split: option.splits if_splits)

definition settles :: "import_env \<Rightarrow> uuid \<Rightarrow> import_config \<Rightarrow> imported_story \<Rightarrow> world \<Rightarrow> world \<Rightarrow> bool" where
  "settles env p cfg x w w' \<longleftrightarrow>
     w_faults w' = [] \<and> w_epics w' = w_epics w \<and> settled env p cfg x (w_stories w')
     \<and> (\<forall>y. story_ident cfg y \<noteq> story_ident cfg x \<longrightarrow>
          find (own_story p cfg y) (w_stories w') = find (own_story p cfg y) (w_stories w))"

lemma settles_update:
  assumes "w_faults w = []" "story_ids_ok w" "well_formed x"
    and "find (own_story p cfg x) (w_stories w) = Some s"
    and "own_story p cfg x (f s)" "story_settled env cfg x (f s)"
  shows "settles env p cfg x w (w\<lparr>w_stories := tbl_update story_id (story_id s) f (w_stories w)\<rparr>)"
proof -
  have d: "distinct (map story_id (w_stories w))" using assms(2) by (simp add: story_ids_ok_def)
  have s: "s \<in> set (w_stories w)" "own_story p cfg x s" using find_Some_iff_mem [OF assms(4)] by auto
  have "find (own_story p cfg x) (tbl_update story_id (story_id s) f (w_stories w)) = Some (f s)"
    by (rule find_update_hit) (use d assms in auto)
  moreover have "find (own_story p cfg y) (tbl_update story_id (story_id s) f (w_stories w)) =
      find (own_story p cfg y) (w_stories w)" if "story_ident cfg y \<noteq> story_ident cfg x" for y
    by (rule find_update_miss) (use d s assms(5) that other_story [of cfg x y] in auto)
  ultimately show ?thesis using assms(1,3,6) by (simp add: settles_def settled_def)
qed

lemma settles_create:
  assumes "w_faults w = []" "well_formed x" "find (own_story p cfg x) (w_stories w) = None"
    and "own_story p cfg x r" "story_settled env cfg x r"
  shows "settles env p cfg x w (w\<lparr>w_stories := w_stories w @ [r], w_next := k\<rparr>)"
  using assms other_story [of cfg x] by (auto simp: settles_def settled_def find_append split: option.split)

lemma settles_refl:
  "w_faults w = [] \<Longrightarrow> settled env p cfg x (w_stories w) \<Longrightarrow> settles env p cfg x w w"
  by (simp add: settles_def)

text \<open>The three rows an import writes to an unlocked story.\<close>

lemma projected_status: "projectStoryStatus cfg raw = StoryStatusDone \<or> projectStoryStatus cfg raw = StoryStatusBacklog"
  by (simp add: projectStoryStatus_def)

lemma item_id_known:
  "\<not> newItemId x (s\<lparr>story_external_item_id := mergeStrPtr (ptrIfNonEmpty (is_item_id x)) i\<rparr>)"
  by (simp add: newItemId_def mergeStrPtr_def ptrIfNonEmpty_def derefStr_def)

lemma created_settled:
  assumes "cfg_source cfg = SourceMarkdown \<longrightarrow> k = is_key x"
  shows "own_story p cfg x (imported_row (newStory p x k (projectStoryStatus cfg (is_raw_status x)) (cfg_source cfg)
           (canonicalStoryHash env x (projectStoryStatus cfg (is_raw_status x))) e) w)"
    and "story_settled env cfg x (imported_row (newStory p x k (projectStoryStatus cfg (is_raw_status x)) (cfg_source cfg)
           (canonicalStoryHash env x (projectStoryStatus cfg (is_raw_status x))) e) w)"
  using assms projected_status [of cfg "is_raw_status x"]
  by (auto simp: own_story_def story_keyed_def story_from_def story_settled_def imported_row_def newStory_def
      newItemId_def ptrIfNonEmpty_def derefStr_def locked_def story_status_consts)

lemma merged_settled:
  assumes "own_story p cfg x s" "\<not> locked s"
    and "m = mergedRow cfg x s (projectStoryStatus cfg (is_raw_status x))
               (canonicalStoryHash env x (projectStoryStatus cfg (is_raw_status x))) e"
  shows "own_story p cfg x (set_story_import m w s)" "story_settled env cfg x (set_story_import m w s)"
proof -
  show "own_story p cfg x (set_story_import m w s)"
    using assms(1) by (auto simp: assms(3) own_story_def story_keyed_def story_from_def set_story_import_def
        mergedRow_def refreshedRow_def)
  have "\<not> locked (set_story_import m w s)"
    using assms(2) by (auto simp: assms(3) locked_def set_story_import_def mergedRow_def refreshedRow_def
        resolveStoryStatus_def story_status_consts)
  then show "story_settled env cfg x (set_story_import m w s)"
    using item_id_known [of x "story_external_item_id s" s]
    by (auto simp: assms(3) story_settled_def set_story_import_def mergedRow_def refreshedRow_def newItemId_def)
qed

lemma clean_well_formed:
  assumes "run_state (importStory env p cfg x pr) w = (pr', w')" "clean pr pr'"
  shows "well_formed x"
  using assms by (auto simp: well_formed_def importStory_def run_simps clean_def split: option.splits if_splits)

lemma story_created:
  assumes w: "w_faults w = []" "\<not> cfg_dry_run cfg" and new: "find (own_story p cfg x) (w_stories w) = None"
    and run: "run_state (importStory env p cfg x pr) w = (pr', w')" and clean: "clean pr pr'"
    and m: "m = projectStoryStatus cfg (is_raw_status x)"
  obtains k where "cfg_source cfg = SourceMarkdown \<longrightarrow> k = is_key x"
    and "w' = w\<lparr>w_stories := w_stories w @ [imported_row (newStory p x k m (cfg_source cfg)
                  (canonicalStoryHash env x m) (resolvedEpic x pr)) w], w_next := Suc (w_next w)\<rparr>"
proof -
  have x: "well_formed x" by (rule clean_well_formed [OF run clean])
  obtain k where k: "run_state (resolveStoryIdentity p cfg x) w = (Inr (None, k), w)"
    and key: "cfg_source cfg = SourceMarkdown \<longrightarrow> k = is_key x"
    by (rule run_resolve_new [OF w(1) new])
  let ?y = "newStory p x k m (cfg_source cfg) (canonicalStoryHash env x m) (resolvedEpic x pr)"
  obtain r v where c: "run_state (CreateStoryFromImport ?y) w = (r, v)" by fastforce
  with x run clean k w(2) m have "(\<exists>z. r = Inr z) \<and> w' = v"
    by (auto simp: importStory_def well_formed_def createStory_def Let_def run_simps clean_def split: sum.splits)
  with run_story_writes(3) [OF w(1) c]
  have "w' = w\<lparr>w_stories := w_stories w @ [imported_row ?y w], w_next := Suc (w_next w)\<rparr>" by auto
  with key that show ?thesis by blast
qed

lemma story_settles:
  assumes w: "w_faults w = []" "story_ids_ok w" "\<not> cfg_dry_run cfg"
    and run: "run_state (importStory env p cfg x pr) w = (pr', w')" and clean: "clean pr pr'"
  shows "settles env p cfg x w w'"
proof -
  let ?m = "projectStoryStatus cfg (is_raw_status x)"
  let ?h = "canonicalStoryHash env x ?m"
  have x: "well_formed x" by (rule clean_well_formed [OF run clean])
  show ?thesis
  proof (cases "find (own_story p cfg x) (w_stories w)")
    case None
    show ?thesis
    proof (rule story_created [OF w(1,3) None run clean refl])
      fix k
      assume "cfg_source cfg = SourceMarkdown \<longrightarrow> k = is_key x"
      note r = settles_create [OF w(1) x None created_settled [OF this]]
      assume "w' = w\<lparr>w_stories := w_stories w @ [imported_row (newStory p x k ?m (cfg_source cfg) ?h
        (resolvedEpic x pr)) w], w_next := Suc (w_next w)\<rparr>"
      then show ?thesis by (simp add: r)
    qed
  next
    case (Some s)
    have own: "own_story p cfg x s" using find_Some_iff_mem [OF Some] by simp
    have md: "cfg_source cfg = SourceMarkdown \<longrightarrow> story_source s = SourceManual \<or> story_source s = SourceMarkdown"
      using x run clean run_resolve_found [OF w(1) Some]
      by (auto simp: importStory_def well_formed_def run_simps clean_def split: if_splits)
    with x run run_resolve_found [OF w(1) Some]
    have upd: "run_state (updateStory env cfg x s ?m (resolvedEpic x pr) pr) w = (pr', w')"
      by (auto simp: importStory_def well_formed_def run_simps)
    have unlocked: "\<not> locked s"
    proof
      assume "locked s"
      with upd clean show False
        by (auto simp: updateStory_def refreshLocked_def Let_def run_simps clean_def
            split: if_splits prod.splits sum.splits)
    qed
    show ?thesis
    proof (cases "story_import_hash s = Some ?h")
      case hash: True
      show ?thesis
      proof (cases "newItemId x s")
        case True
        let ?y = "s\<lparr>story_external_item_id := Some (is_item_id x)\<rparr>"
        obtain r v where c: "run_state (UpdateStoryProvenanceOnly ?y) w = (r, v)" by fastforce
        with upd unlocked hash True clean w(3) have "(\<exists>z. r = Inr z) \<and> w' = v"
          by (auto simp: updateStory_def skipUnchanged_def Let_def run_simps clean_def split: sum.splits)
        with run_story_writes(2) [OF w(1) c]
        have "w' = w\<lparr>w_stories := tbl_update story_id (story_id s) (set_story_provenance ?y w) (w_stories w)\<rparr>"
          by auto
        moreover have "own_story p cfg x (set_story_provenance ?y w s)"
          using own by (auto simp: own_story_def story_keyed_def story_from_def set_story_provenance_def)
        moreover have "story_settled env cfg x (set_story_provenance ?y w s)"
          using unlocked hash md
          by (auto simp: story_settled_def locked_def set_story_provenance_def newItemId_def derefStr_def)
        ultimately show ?thesis using settles_update [OF w(1,2) x Some] by simp
      next
        case False
        with upd unlocked hash have "w' = w"
          by (auto simp: updateStory_def skipUnchanged_def Let_def run_simps)
        with x Some unlocked hash md False w(1) show ?thesis
          by (auto intro!: settles_refl simp: settled_def story_settled_def)
      qed
    next
      case False
      define m where "m = mergedRow cfg x s ?m ?h (resolvedEpic x pr)"
      obtain r v where c: "run_state (UpdateStoryFromImport m) w = (r, v)" by fastforce
      with upd unlocked False clean w(3) have "(\<exists>z. r = Inr z) \<and> w' = v"
        by (auto simp: updateStory_def mergeStory_def m_def Let_def run_simps clean_def split: sum.splits)
      with run_story_writes(1) [OF w(1) c]
      have "w' = w\<lparr>w_stories := tbl_update story_id (story_id s) (set_story_import m w) (w_stories w)\<rparr>"
        by (auto simp: m_def)
      with settles_update [where f = "set_story_import m w", OF w(1,2) x Some merged_settled [OF own unlocked m_def]]
      show ?thesis by simp
    qed
  qed
qed

section \<open>A batch of stories\<close>

lemma settled_other:
  "settles env p cfg x w w' \<Longrightarrow> story_ident cfg y \<noteq> story_ident cfg x \<Longrightarrow>
   settled env p cfg y (w_stories w) \<Longrightarrow> settled env p cfg y (w_stories w')"
  by (auto simp: settles_def settled_def)

lemma stories_settle:
  assumes "w_faults w = []" "story_ids_ok w" "\<not> cfg_dry_run cfg"
    and "distinct (map (story_ident cfg) xs)"
    and "run_state (import_all (importStory env p cfg) xs pr) w = (pr', w')" "clean pr pr'"
  shows "w_faults w' = [] \<and> w_epics w' = w_epics w \<and> (\<forall>x \<in> set xs. settled env p cfg x (w_stories w'))
    \<and> (\<forall>y. story_ident cfg y \<notin> story_ident cfg ` set xs \<longrightarrow> settled env p cfg y (w_stories w)
         \<longrightarrow> settled env p cfg y (w_stories w'))"
  using assms
proof (induction xs arbitrary: pr w)
  case (Cons x xs)
  obtain pr1 w1 where f: "run_state (importStory env p cfg x pr) w = (pr1, w1)" by fastforce
  with Cons.prems(5) have g: "run_state (import_all (importStory env p cfg) xs pr1) w1 = (pr', w')"
    by (simp add: run_simps)
  have c: "clean pr pr1" "clean pr1 pr'"
    using clean_split [OF returnsD [OF story_counts_up f] returnsD [OF counts_up_all [OF story_counts_up] g] Cons.prems(6)]
    by auto
  have s: "settles env p cfg x w w1" by (rule story_settles [OF Cons.prems(1-3) f c(1)])
  have ids: "story_ids_ok w1"
    using keepsD [OF story_keeps f] Cons.prems(2) by (simp add: import_keeps_def)
  have rest: "w_faults w' = [] \<and> w_epics w' = w_epics w1 \<and> (\<forall>x \<in> set xs. settled env p cfg x (w_stories w'))
    \<and> (\<forall>y. story_ident cfg y \<notin> story_ident cfg ` set xs \<longrightarrow> settled env p cfg y (w_stories w1)
         \<longrightarrow> settled env p cfg y (w_stories w'))"
    by (rule Cons.IH [OF _ ids Cons.prems(3) _ g c(2)]) (use s Cons.prems(4) in \<open>auto simp: settles_def\<close>)
  have "story_ident cfg x \<notin> story_ident cfg ` set xs" using Cons.prems(4) by simp
  with rest s have "settled env p cfg x (w_stories w')" by (simp add: settles_def)
  with rest s settled_other [OF s] show ?case by (auto simp: settles_def)
qed (auto simp: run_simps)

section \<open>Epics\<close>

definition epic_ids_ok :: "world \<Rightarrow> bool" where
  "epic_ids_ok w \<longleftrightarrow>
     distinct (map epic_id (w_epics w)) \<and> (\<forall>e \<in> set (w_epics w). epic_id e < w_next w)"

definition own_epic :: "uuid \<Rightarrow> import_config \<Rightarrow> imported_epic \<Rightarrow> epic \<Rightarrow> bool" where
  "own_epic p cfg ie = epic_from p (cfg_source cfg) (ie_external_id ie)"

definition epic_settled :: "import_config \<Rightarrow> imported_epic \<Rightarrow> epic \<Rightarrow> bool" where
  "epic_settled cfg ie e \<longleftrightarrow>
     \<not> epicChanged e (ie_name ie) (mergeStrPtr (ie_description ie) (epic_description e))
         (resolveEpicStatus e (projectEpicStatus cfg (ie_raw_status ie))) (cfg_source cfg)
         (ie_external_id ie) (ie_url ie)"

definition settled_epic :: "uuid \<Rightarrow> import_config \<Rightarrow> imported_epic \<Rightarrow> epic list \<Rightarrow> bool" where
  "settled_epic p cfg ie rs \<longleftrightarrow>
     (\<exists>e. find (own_epic p cfg ie) rs = Some e \<and> epic_settled cfg ie e)"

definition skip_epic :: "import_config \<Rightarrow> imported_epic \<Rightarrow> epic \<Rightarrow> progress \<Rightarrow> progress" where
  "skip_epic cfg ie e pr =
     decide (ie_key ie) KindEpic ActionSkip (ie_url ie)
       (resolveEpicStatus e (projectEpicStatus cfg (ie_raw_status ie))) [T ''unchanged'']
       (linkEpic (ie_external_id ie) (epic_id e) pr)"

lemma run_epic_settled:
  assumes "w_faults w = []" "settled_epic p cfg ie (w_epics w)"
  shows "\<exists>e. run_state (importEpic p cfg ie pr) w = (skip_epic cfg ie e pr, w)"
  using assms
  by (auto simp: settled_epic_def epic_settled_def own_epic_def importEpic_def refreshEpic_def run_simps
      run_lookups skip_epic_def Let_def)

lemma run_epic_writes:
  assumes "w_faults w = []"
  shows "run_state (UpdateEpicFromImport y) w = (r, w') \<Longrightarrow> (\<exists>e. r = Inl e)
      \<or> w' = w\<lparr>w_epics := tbl_update epic_id (epic_id y) (set_epic_import y w) (w_epics w)\<rparr>"
    and "run_state (CreateEpicFromImport y) w = (r, w') \<Longrightarrow> (\<exists>e. r = Inl e)
      \<or> w' = w\<lparr>w_epics := w_epics w @ [imported_epic_row y w], w_next := Suc (w_next w)\<rparr>"
  using assms by (auto simp: planning_ops run_simps split: option.splits if_splits)

lemma resolveEpicStatus_idem:
  "epic_status e' = resolveEpicStatus e m \<Longrightarrow> resolveEpicStatus e' m = epic_status e'"
  by (auto simp: resolveEpicStatus_def epic_status_consts split: if_splits)

text \<open>The rows an import writes for an epic.\<close>

lemma updated_epic_settled:
  assumes "y = newEpic (epic_id e) (epic_project e) ie (mergeStrPtr (ie_description ie) (epic_description e))
             (resolveEpicStatus e (projectEpicStatus cfg (ie_raw_status ie))) (cfg_source cfg)"
    and "epic_project e = p"
  shows "own_epic p cfg ie (set_epic_import y w e)" "epic_settled cfg ie (set_epic_import y w e)"
proof -
  show "own_epic p cfg ie (set_epic_import y w e)"
    using assms by (simp add: own_epic_def epic_from_def set_epic_import_def newEpic_def)
  have "resolveEpicStatus (set_epic_import y w e) (projectEpicStatus cfg (ie_raw_status ie)) =
      epic_status (set_epic_import y w e)"
    by (rule resolveEpicStatus_idem [of _ e]) (simp add: assms(1) set_epic_import_def newEpic_def)
  then show "epic_settled cfg ie (set_epic_import y w e)"
    by (simp add: epic_settled_def epicChanged_def assms(1) set_epic_import_def newEpic_def mergeStrPtr_def
        derefStr_def ptrIfNonEmpty_def)
qed

lemma created_epic_settled:
  assumes "y = newEpic i p ie (ie_description ie) (projectEpicStatus cfg (ie_raw_status ie)) (cfg_source cfg)"
  shows "own_epic p cfg ie (imported_epic_row y w)" "epic_settled cfg ie (imported_epic_row y w)"
  by (auto simp: own_epic_def epic_from_def assms imported_epic_row_def newEpic_def epic_settled_def
      epicChanged_def mergeStrPtr_def derefStr_def ptrIfNonEmpty_def resolveEpicStatus_def)

definition epic_settles :: "uuid \<Rightarrow> import_config \<Rightarrow> imported_epic \<Rightarrow> world \<Rightarrow> world \<Rightarrow> bool" where
  "epic_settles p cfg ie w w' \<longleftrightarrow>
     w_faults w' = [] \<and> w_stories w' = w_stories w \<and> w_next w \<le> w_next w' \<and> epic_ids_ok w'
     \<and> settled_epic p cfg ie (w_epics w')
     \<and> (\<forall>y. ie_external_id y \<noteq> ie_external_id ie \<longrightarrow>
          find (own_epic p cfg y) (w_epics w') = find (own_epic p cfg y) (w_epics w))"

lemma epic_settles_update:
  assumes w: "w_faults w = []" "epic_ids_ok w" and e: "e \<in> set (w_epics w)"
    and f: "own_epic p cfg ie (f e)" "epic_settled cfg ie (f e)" "\<And>t. epic_id (f t) = epic_id t"
    and old: "find (own_epic p cfg ie) (w_epics w) = None \<or> find (own_epic p cfg ie) (w_epics w) = Some e"
    and mine: "own_epic p cfg ie e \<or> epic_source e \<noteq> cfg_source cfg"
  shows "epic_settles p cfg ie w (w\<lparr>w_epics := tbl_update epic_id (epic_id e) f (w_epics w)\<rparr>)"
proof -
  have d: "distinct (map epic_id (w_epics w))" using w(2) by (simp add: epic_ids_ok_def)
  have "find (own_epic p cfg ie) (tbl_update epic_id (epic_id e) f (w_epics w)) = Some (f e)"
    using old find_update_hit [where f = f and s = e, OF d] find_update_new [where f = f and s = e, OF d _ e] f(1)
    by blast
  moreover have "find (own_epic p cfg y) (tbl_update epic_id (epic_id e) f (w_epics w)) =
      find (own_epic p cfg y) (w_epics w)" if "ie_external_id y \<noteq> ie_external_id ie" for y
    by (rule find_update_miss) (use d e f(1) mine that in \<open>auto simp: own_epic_def epic_from_def\<close>)
  ultimately show ?thesis
    using w f(2,3) by (auto simp: epic_settles_def settled_epic_def epic_ids_ok_def set_tbl_update)
qed

lemma write_epic_settles:
  assumes w: "w_faults w = []" "epic_ids_ok w" "\<not> cfg_dry_run cfg" and e: "e \<in> set (w_epics w)" "epic_project e = p"
    and old: "find (own_epic p cfg ie) (w_epics w) = None \<or> find (own_epic p cfg ie) (w_epics w) = Some e"
    and mine: "own_epic p cfg ie e \<or> epic_source e \<noteq> cfg_source cfg"
    and run: "run_state (writeEpicUpdate cfg e ie (mergeStrPtr (ie_description ie) (epic_description e))
                (resolveEpicStatus e (projectEpicStatus cfg (ie_raw_status ie))) pr) w = (pr', w')"
    and clean: "clean pr pr'"
  shows "epic_settles p cfg ie w w'"
proof -
  define y where "y = newEpic (epic_id e) (epic_project e) ie (mergeStrPtr (ie_description ie) (epic_description e))
    (resolveEpicStatus e (projectEpicStatus cfg (ie_raw_status ie))) (cfg_source cfg)"
  obtain r v where c: "run_state (UpdateEpicFromImport y) w = (r, v)" by fastforce
  with run w(3) clean have "(\<exists>z. r = Inr z) \<and> w' = v"
    by (auto simp: writeEpicUpdate_def Let_def run_simps clean_def y_def [symmetric] split: sum.splits)
  with run_epic_writes(1) [OF w(1) c]
  have "w' = w\<lparr>w_epics := tbl_update epic_id (epic_id e) (set_epic_import y w) (w_epics w)\<rparr>"
    by (auto simp: y_def newEpic_def)
  with epic_settles_update [where f = "set_epic_import y w", OF w(1,2) e(1) updated_epic_settled [OF y_def e(2)] _ old mine]
  show ?thesis by (simp add: set_epic_import_def)
qed

lemma epic_settles:
  assumes w: "w_faults w = []" "epic_ids_ok w" "\<not> cfg_dry_run cfg" "cfg_source cfg \<noteq> SourceManual"
    and run: "run_state (importEpic p cfg ie pr) w = (pr', w')" and clean: "clean pr pr'"
  shows "epic_settles p cfg ie w w'"
proof (cases "find (own_epic p cfg ie) (w_epics w)")
  case (Some e)
  have e: "e \<in> set (w_epics w)" "own_epic p cfg ie e" using find_Some_iff_mem [OF Some] by auto
  have r: "run_state (refreshEpic cfg ie e (projectEpicStatus cfg (ie_raw_status ie)) pr) w = (pr', w')"
    using run w(1) Some by (simp add: importEpic_def own_epic_def run_simps run_lookups)
  show ?thesis
  proof (cases "epic_settled cfg ie e")
    case True
    with r have "w' = w" by (simp add: refreshEpic_def epic_settled_def Let_def run_simps)
    with True Some w show ?thesis by (auto simp: epic_settles_def settled_epic_def)
  next
    case False
    with r e show ?thesis
      by (intro write_epic_settles [OF w(1-3) e(1) _ _ _ _ clean])
         (auto simp: refreshEpic_def epic_settled_def Let_def own_epic_def epic_from_def Some [unfolded own_epic_def])
  qed
next
  case None
  show ?thesis
  proof (cases "find (epic_named p (ie_name ie)) (w_epics w)")
    case new: None
    define y where "y = newEpic uuid_nil p ie (ie_description ie) (projectEpicStatus cfg (ie_raw_status ie)) (cfg_source cfg)"
    obtain r v where c: "run_state (CreateEpicFromImport y) w = (r, v)" by fastforce
    with run w(1,3) None new clean have "(\<exists>z. r = Inr z) \<and> w' = v"
      by (auto simp: importEpic_def own_epic_def run_lookups createEpic_def Let_def run_simps clean_def
          y_def [symmetric] split: sum.splits)
    with run_epic_writes(2) [OF w(1) c]
    have w': "w' = w\<lparr>w_epics := w_epics w @ [imported_epic_row y w], w_next := Suc (w_next w)\<rparr>" by auto
    have "find (own_epic p cfg z) [imported_epic_row y w] = None" if "ie_external_id z \<noteq> ie_external_id ie" for z
      using that by (simp add: own_epic_def epic_from_def imported_epic_row_def y_def newEpic_def)
    with w(1,2) None created_epic_settled [OF y_def] show ?thesis
      by (auto simp: epic_settles_def settled_epic_def find_append w' epic_ids_ok_def imported_epic_row_def
          less_Suc_eq split: option.split)
  next
    case (Some e)
    have e: "e \<in> set (w_epics w)" "epic_project e = p"
      using find_Some_iff_mem [OF Some] by (auto simp: epic_named_def)
    have r: "run_state (adoptEpic cfg ie e (projectEpicStatus cfg (ie_raw_status ie)) pr) w = (pr', w')"
      using run w(1) None Some by (simp add: importEpic_def own_epic_def run_simps run_lookups)
    with clean have manual: "epic_source e = SourceManual"
      by (auto simp: adoptEpic_def run_simps clean_def split: if_splits)
    with r have "run_state (writeEpicUpdate cfg e ie (mergeStrPtr (ie_description ie) (epic_description e))
        (resolveEpicStatus e (projectEpicStatus cfg (ie_raw_status ie))) pr) w = (pr', w')"
      by (simp add: adoptEpic_def)
    moreover have "epic_source e \<noteq> cfg_source cfg" using manual w(4) by simp
    ultimately show ?thesis using write_epic_settles [OF w(1-3) e _ _ _ clean] None by blast
  qed
qed

lemma epics_settle:
  assumes "w_faults w = []" "epic_ids_ok w" "\<not> cfg_dry_run cfg" "cfg_source cfg \<noteq> SourceManual"
    and "distinct (map ie_external_id es)"
    and "run_state (import_all (importEpic p cfg) es pr) w = (pr', w')" "clean pr pr'"
  shows "w_faults w' = [] \<and> w_stories w' = w_stories w \<and> w_next w \<le> w_next w'
    \<and> (\<forall>x \<in> set es. settled_epic p cfg x (w_epics w'))
    \<and> (\<forall>y. ie_external_id y \<notin> ie_external_id ` set es \<longrightarrow> settled_epic p cfg y (w_epics w)
         \<longrightarrow> settled_epic p cfg y (w_epics w'))"
  using assms
proof (induction es arbitrary: pr w)
  case (Cons x es)
  obtain pr1 w1 where f: "run_state (importEpic p cfg x pr) w = (pr1, w1)" by fastforce
  with Cons.prems(6) have g: "run_state (import_all (importEpic p cfg) es pr1) w1 = (pr', w')"
    by (simp add: run_simps)
  have c: "clean pr pr1" "clean pr1 pr'"
    using clean_split [OF returnsD [OF epic_counts_up f] returnsD [OF counts_up_all [OF epic_counts_up] g] Cons.prems(7)]
    by auto
  have s: "epic_settles p cfg x w w1" by (rule epic_settles [OF Cons.prems(1-4) f c(1)])
  have rest: "w_faults w' = [] \<and> w_stories w' = w_stories w1 \<and> w_next w1 \<le> w_next w'
    \<and> (\<forall>x \<in> set es. settled_epic p cfg x (w_epics w'))
    \<and> (\<forall>y. ie_external_id y \<notin> ie_external_id ` set es \<longrightarrow> settled_epic p cfg y (w_epics w1)
         \<longrightarrow> settled_epic p cfg y (w_epics w'))"
    by (rule Cons.IH [OF _ _ Cons.prems(3,4) _ g c(2)]) (use s Cons.prems(5) in \<open>auto simp: epic_settles_def\<close>)
  have "ie_external_id x \<notin> ie_external_id ` set es" using Cons.prems(5) by simp
  with rest s have "settled_epic p cfg x (w_epics w')" by (simp add: epic_settles_def)
  with rest s show ?case by (auto simp: epic_settles_def settled_epic_def)
qed (auto simp: run_simps)

section \<open>The second import\<close>

text \<open>\<open>k\<close> stories have been skipped and nothing else has been counted or decided.\<close>

definition only_skips :: "nat \<Rightarrow> import_summary \<Rightarrow> import_summary \<Rightarrow> bool" where
  "only_skips k a b \<longleftrightarrow>
     sm_epics_created b = sm_epics_created a \<and> sm_epics_updated b = sm_epics_updated a
     \<and> sm_stories_created b = sm_stories_created a \<and> sm_stories_updated b = sm_stories_updated a
     \<and> sm_skipped b = sm_skipped a + k \<and> sm_locked b = sm_locked a \<and> sm_failed b = sm_failed a
     \<and> sm_errors b = sm_errors a \<and> sm_warnings b = sm_warnings a
     \<and> filter (\<lambda>d. id_action d \<noteq> ActionSkip) (sm_items b) =
        filter (\<lambda>d. id_action d \<noteq> ActionSkip) (sm_items a)"

lemma only_skips_trans: "only_skips j a b \<Longrightarrow> only_skips k b c \<Longrightarrow> only_skips (j + k) a c"
  by (simp add: only_skips_def)

lemma skip_story_skips: "only_skips 1 (pr_summary pr) (pr_summary (skip_story x s pr))"
  by (simp add: only_skips_def skip_story_def decide_def storySkipped_def)

lemma skip_epic_skips: "only_skips 0 (pr_summary pr) (pr_summary (skip_epic cfg ie e pr))"
  by (simp add: only_skips_def skip_epic_def decide_def linkEpic_def)

lemma rerun_stories:
  assumes "w_faults w = []" "\<forall>x \<in> set xs. settled env p cfg x (w_stories w)"
  shows "\<exists>pr'. run_state (import_all (importStory env p cfg) xs pr) w = (pr', w)
           \<and> only_skips (length xs) (pr_summary pr) (pr_summary pr')"
  using assms(2)
proof (induction xs arbitrary: pr)
  case Nil
  then show ?case by (simp add: run_simps only_skips_def)
next
  case (Cons x xs)
  obtain s where x: "run_state (importStory env p cfg x pr) w = (skip_story x s pr, w)"
    using run_import_settled_row [OF assms(1)] Cons.prems by fastforce
  obtain pr' where rest: "run_state (import_all (importStory env p cfg) xs (skip_story x s pr)) w = (pr', w)"
    and skips: "only_skips (length xs) (pr_summary (skip_story x s pr)) (pr_summary pr')"
    using Cons by fastforce
  from only_skips_trans [OF skip_story_skips skips] x rest show ?case by (simp add: run_simps)
qed

lemma rerun_epics:
  assumes "w_faults w = []" "\<forall>x \<in> set xs. settled_epic p cfg x (w_epics w)"
  shows "\<exists>pr'. run_state (import_all (importEpic p cfg) xs pr) w = (pr', w)
           \<and> only_skips 0 (pr_summary pr) (pr_summary pr')"
  using assms(2)
proof (induction xs arbitrary: pr)
  case Nil
  then show ?case by (simp add: run_simps only_skips_def)
next
  case (Cons x xs)
  obtain e where x: "run_state (importEpic p cfg x pr) w = (skip_epic cfg x e pr, w)"
    using run_epic_settled [OF assms(1)] Cons.prems by fastforce
  obtain pr' where rest: "run_state (import_all (importEpic p cfg) xs (skip_epic cfg x e pr)) w = (pr', w)"
    and skips: "only_skips 0 (pr_summary (skip_epic cfg x e pr)) (pr_summary pr')"
    using Cons by fastforce
  from only_skips_trans [OF skip_epic_skips skips] x rest show ?case by (simp add: run_simps)
qed

lemma rerun_plan:
  assumes "w_faults w = []" "\<forall>x \<in> set (fr_epics res). settled_epic p cfg x (w_epics w)"
    and "\<forall>x \<in> set (fr_stories res). settled env p cfg x (w_stories w)"
  shows "\<exists>pr. run_state (importPlan env p cfg res) w = (pr, w)
           \<and> only_skips (length (fr_stories res)) (emptySummary cfg res) (pr_summary pr)"
proof -
  let ?pr = "\<lparr>pr_epics = Map.empty, pr_summary = emptySummary cfg res\<rparr>"
  obtain pr1 where e: "run_state (import_all (importEpic p cfg) (fr_epics res) ?pr) w = (pr1, w)"
    "only_skips 0 (emptySummary cfg res) (pr_summary pr1)"
    using rerun_epics [OF assms(1,2), of ?pr] by auto
  obtain pr2 where s: "run_state (import_all (importStory env p cfg) (fr_stories res) pr1) w = (pr2, w)"
    "only_skips (length (fr_stories res)) (pr_summary pr1) (pr_summary pr2)"
    using rerun_stories [OF assms(1,3), of pr1] by auto
  from only_skips_trans [OF e(2) s(2)] e(1) s(1) show ?thesis by (simp add: importPlan_def run_simps)
qed

lemma plan_settles:
  assumes w: "w_faults w = []" "story_ids_ok w" "epic_ids_ok w"
    and cfg: "\<not> cfg_dry_run cfg" "cfg_source cfg \<noteq> SourceManual"
    and d: "distinct (map ie_external_id (fr_epics res))" "distinct (map (story_ident cfg) (fr_stories res))"
    and run: "run_state (importPlan env p cfg res) w = (pr, w')"
    and clean: "clean \<lparr>pr_epics = Map.empty, pr_summary = emptySummary cfg res\<rparr> pr"
  shows "w_faults w' = [] \<and> (\<forall>x \<in> set (fr_epics res). settled_epic p cfg x (w_epics w'))
    \<and> (\<forall>x \<in> set (fr_stories res). settled env p cfg x (w_stories w'))"
proof -
  let ?pr = "\<lparr>pr_epics = Map.empty, pr_summary = emptySummary cfg res\<rparr>"
  obtain pr1 w1 where e: "run_state (import_all (importEpic p cfg) (fr_epics res) ?pr) w = (pr1, w1)" by fastforce
  with run have s: "run_state (import_all (importStory env p cfg) (fr_stories res) pr1) w1 = (pr, w')"
    by (simp add: importPlan_def run_simps)
  have c: "clean ?pr pr1" "clean pr1 pr"
    using clean_split [OF returnsD [OF counts_up_all [OF epic_counts_up] e]
        returnsD [OF counts_up_all [OF story_counts_up] s] clean] by auto
  from epics_settle [OF w(1,3) cfg d(1) e c(1)]
  have one: "w_faults w1 = []" "w_stories w1 = w_stories w" "w_next w \<le> w_next w1"
    "\<forall>x \<in> set (fr_epics res). settled_epic p cfg x (w_epics w1)" by auto
  have ids: "story_ids_ok w1"
    using w(2) import_keeps_other [OF one(2,3)] by (simp add: import_keeps_def)
  from stories_settle [OF one(1) ids cfg(1) d(2) s c(2)] one(4) show ?thesis by simp
qed


section \<open>A dry run\<close>

lemma dry_run_parts:
  assumes "cfg_dry_run cfg"
  shows "keeps same_db (createEpic p cfg ie m pr)" "keeps same_db (writeEpicUpdate cfg e ie desc st pr)"
    "keeps same_db (createStory env p cfg x k m ep pr)" "keeps same_db (updateStory env cfg x s m ep pr)"
  using assms
  by (auto simp: createEpic_def writeEpicUpdate_def createStory_def updateStory_def skipUnchanged_def
      refreshLocked_def mergeStory_def Let_def)

text \<open>A dry run writes nothing: under every pattern of failures it only reads the database.\<close>

theorem import_dry_run_pure:
  assumes dry: "cfg_dry_run cfg"
  shows "\<exists>fs. snd (run_state (Import env p cfg) w) = w\<lparr>w_faults := fs\<rparr>"
proof -
  note parts = dry_run_parts [OF dry]
  have all: "keeps same_db (import_all f xs pr)" if "\<And>x pr. keeps same_db (f x pr)"
    for f :: "'x \<Rightarrow> progress \<Rightarrow> progress op" and xs pr
  proof (induction xs arbitrary: pr)
    case (Cons x xs)
    then show ?case unfolding import_all.simps by (intro frame_intros that)
  qed (simp add: db.return)
  have e: "keeps same_db (importEpic p cfg ie pr)" for ie pr
    unfolding importEpic_def refreshEpic_def adoptEpic_def by (intro frame_intros parts)
  have s: "keeps same_db (importStory env p cfg x pr)" for x pr
    unfolding importStory_def by (intro frame_intros parts)
  have "keeps same_db (Import env p cfg)"
    unfolding import_defs by (intro frame_intros all e s)
  then show ?thesis unfolding keeps_def same_db_def by blast
qed

section \<open>A story whose epic failed\<close>

text \<open>
  A story imported while its epic could not be resolved stays an orphan: the next import of
  the same plan finds the hash unchanged and skips it, although its epic is resolved now.
\<close>

theorem orphan_never_linked:
  assumes w: "w_faults w = []" "story_ids_ok w" "\<not> cfg_dry_run cfg"
    and new: "find (own_story p cfg x) (w_stories w) = None" and orphan: "resolvedEpic x pr = None"
    and first: "run_state (importStory env p cfg x pr) w = (pr1, w1)" "clean pr pr1"
    and later: "resolvedEpic x pr2 = Some e"
  shows "\<exists>s. find (own_story p cfg x) (w_stories w1) = Some s \<and> story_epic s = None
           \<and> run_state (importStory env p cfg x pr2) w1 = (skip_story x s pr2, w1)"
proof -
  from story_settles [OF w first] have s: "w_faults w1 = []" "settled env p cfg x (w_stories w1)"
    by (auto simp: settles_def)
  then obtain t where t: "run_state (importStory env p cfg x pr2) w1 = (skip_story x t pr2, w1)"
    "find (own_story p cfg x) (w_stories w1) = Some t"
    using run_import_settled_row [OF s] by blast
  have "story_epic t = None"
  proof (rule story_created [OF w(1,3) new first refl])
    fix k
    let ?r = "imported_row (newStory p x k (projectStoryStatus cfg (is_raw_status x)) (cfg_source cfg)
      (canonicalStoryHash env x (projectStoryStatus cfg (is_raw_status x))) (resolvedEpic x pr)) w"
    assume "cfg_source cfg = SourceMarkdown \<longrightarrow> k = is_key x"
      and w1: "w1 = w\<lparr>w_stories := w_stories w @ [?r], w_next := Suc (w_next w)\<rparr>"
    then have "own_story p cfg x ?r" by (intro created_settled)
    with new t(2) w1 have "t = ?r" by (simp add: find_append)
    with orphan show "story_epic t = None" by (simp add: imported_row_def newStory_def)
  qed
  with t show ?thesis by blast
qed

end
