(* ===== verification/PlanningWitnesses.thy ===== *)
theory PlanningWitnesses
  imports PlanningReimport
begin

text \<open>Concrete plans and boards at which the properties of the planning import apply.\<close>

definition demo_epic :: imported_epic where
  "demo_epic =
     \<lparr>ie_external_id = ''E1'', ie_url = ''u/e1'', ie_key = ''WEB-1'', ie_name = ''Checkout'',
      ie_description = None, ie_raw_status = ''Todo''\<rparr>"

definition demo_item :: "string \<Rightarrow> string \<Rightarrow> string \<Rightarrow> imported_story" where
  "demo_item ext key raw =
     \<lparr>is_external_id = ext, is_url = ''u'', is_item_id = ''I'' @ ext, is_key = key, is_title = ''Pay'',
      is_objective = None, is_acceptance = Some ''paid'', is_scope = None, is_depends_on = None,
      is_epic_ref = Some ''E1'', is_raw_status = raw, is_parse_error = None\<rparr>"

definition demo_plan :: fetch_result where
  "demo_plan =
     \<lparr>fr_url = ''board'', fr_epics = [demo_epic],
      fr_stories = [demo_item ''N1'' ''WEB-2'' ''Todo'', demo_item ''N2'' ''WEB-3'' ''Shipped''],
      fr_warnings = []\<rparr>"

definition demo_import :: import_env where
  "demo_import = \<lparr>pi_fetch = (\<lambda>p cfg. Inr demo_plan), pi_sha256 = (\<lambda>s. s)\<rparr>"

definition demo_cfg :: "bool \<Rightarrow> import_config" where
  "demo_cfg dry = \<lparr>cfg_source = SourceGitHub, cfg_dry_run = dry, cfg_done_options = Some [''shipped '']\<rparr>"

text \<open>
  The board: a manual epic the import adopts, and a manual story that is running.
\<close>

definition board_story :: story where
  "board_story =
     \<lparr>story_id = 7, story_project = 1, story_epic = None, story_key = ''OLD-1'', story_title = ''Old'',
      story_objective = None, story_target_files = None, story_depends_on = None, story_scope = None,
      story_status = StoryStatusRunning, story_acceptance = None, story_current_stage = None,
      story_source = SourceManual, story_external_id = None, story_external_item_id = None,
      story_source_url = None, story_synced_at = None, story_import_hash = None,
      story_writeback_status = None, story_created_at = 0, story_updated_at = 0\<rparr>"

definition board_epic :: epic where
  "board_epic =
     \<lparr>epic_id = 5, epic_project = 1, epic_name = ''Checkout'', epic_description = Some ''d'',
      epic_status = EpicStatusInProgress, epic_source = SourceManual, epic_external_id = None,
      epic_source_url = None, epic_synced_at = None, epic_created_at = 0, epic_updated_at = 0\<rparr>"

definition demo_board :: world where
  "demo_board = empty_world\<lparr>w_projects := [sample_project], w_epics := [board_epic], w_stories := [board_story]\<rparr>"

definition imported_board :: world where
  "imported_board = snd (run_state (Import demo_import 1 (demo_cfg False)) demo_board)"

lemma demo_board_ok:
  "w_faults demo_board = []" "story_ids_ok demo_board" "epic_ids_ok demo_board"
  by (simp_all add: demo_board_def empty_world_def story_ids_ok_def epic_ids_ok_def board_story_def board_epic_def)


lemma demo_import_result:
  "\<not> isl (fst (run_state (Import demo_import 1 (demo_cfg False)) demo_board))"
  by code_simp

lemma demo_import_clean:
  "sm_failed (projr (fst (run_state (Import demo_import 1 (demo_cfg False)) demo_board))) = 0"
  "sm_locked (projr (fst (run_state (Import demo_import 1 (demo_cfg False)) demo_board))) = 0"
  "sm_warnings (projr (fst (run_state (Import demo_import 1 (demo_cfg False)) demo_board))) = []"
  by code_simp+


lemma import_dry_run_pure_witness:
  "\<exists>fs. snd (run_state (Import demo_import 1 (demo_cfg True)) demo_board) = demo_board\<lparr>w_faults := fs\<rparr>"
  using import_dry_run_pure [of "demo_cfg True"] by (simp add: demo_cfg_def)

text \<open>A story whose epic is resolved only by a later import.\<close>

definition progress_with :: "(string \<rightharpoonup> uuid) \<Rightarrow> progress" where
  "progress_with m = \<lparr>pr_epics = m, pr_summary = emptySummary (demo_cfg False) demo_plan\<rparr>"

definition orphan_item :: imported_story where
  "orphan_item = demo_item ''N1'' ''WEB-2'' ''Todo''"

definition orphan_board :: world where
  "orphan_board = snd (run_state (importStory demo_import 1 (demo_cfg False) orphan_item (progress_with Map.empty)) demo_board)"

lemma orphan_import_clean:
  "clean (progress_with Map.empty)
     (fst (run_state (importStory demo_import 1 (demo_cfg False) orphan_item (progress_with Map.empty)) demo_board))"
  unfolding clean_def by (intro conjI; code_simp)

lemma orphan_never_linked_witness:
  "\<exists>s. find (own_story 1 (demo_cfg False) orphan_item) (w_stories orphan_board) = Some s \<and> story_epic s = None
     \<and> run_state (importStory demo_import 1 (demo_cfg False) orphan_item (progress_with [''E1'' \<mapsto> 5])) orphan_board =
         (skip_story orphan_item s (progress_with [''E1'' \<mapsto> 5]), orphan_board)"
proof -
  obtain pr1 where r: "run_state (importStory demo_import 1 (demo_cfg False) orphan_item (progress_with Map.empty))
      demo_board = (pr1, orphan_board)"
    unfolding orphan_board_def by (metis surjective_pairing)
  with orphan_import_clean have c: "clean (progress_with Map.empty) pr1" by simp
  have "\<not> cfg_dry_run (demo_cfg False)"
    "find (own_story 1 (demo_cfg False) orphan_item) (w_stories demo_board) = None"
    "resolvedEpic orphan_item (progress_with Map.empty) = None"
    "resolvedEpic orphan_item (progress_with [''E1'' \<mapsto> 5]) = Some 5"
    by (simp_all add: demo_cfg_def own_story_def source_consts story_from_def demo_board_def board_story_def
        resolvedEpic_def orphan_item_def demo_item_def progress_with_def uuid_nil_def)
  from orphan_never_linked [OF demo_board_ok(1,2) this(1-3) r c this(4)] show ?thesis .
qed

end
