(* ===== verification/Lifecycle.thy ===== *)
theory Lifecycle
  imports RunCancel HITLSpec
begin

text \<open>
  An abstract specification of what a user can do with runs, and the refinement proof that
  \<open>run_service.go\<close> implements it. The abstract state has, for each run, its owner and a status, for
  each step its run and a status, the status of each story and the queue of execution jobs; no
  timestamps, texts, events or metadata. The specification spells the permitted moves out itself and
  does not use the transition tables of the code.
\<close>

section \<open>The specification\<close>

record lifecycle =
  lc_owner :: "uuid \<rightharpoonup> uuid \<times> uuid"
  lc_run :: "uuid \<rightharpoonup> run_status"
  lc_step_run :: "uuid \<rightharpoonup> uuid"
  lc_step :: "uuid \<rightharpoonup> step_status"
  lc_story :: "uuid \<rightharpoonup> string"
  lc_queue :: "job list"

datatype run_command =
    CmdPause uuid uuid
  | CmdResume uuid uuid
  | CmdCancel uuid uuid
  | CmdMoveRun uuid run_status
  | CmdMoveStep uuid step_status

datatype verdict = Accepted | Missing | Refused

text \<open>The moves a run and a step can make.\<close>

fun may_move :: "run_status \<Rightarrow> run_status \<Rightarrow> bool" where
  "may_move RunStatusPending st = (st = RunStatusRunning \<or> st = RunStatusCancelled)"
| "may_move RunStatusRunning st = (st \<noteq> RunStatusPending \<and> st \<noteq> RunStatusRunning)"
| "may_move RunStatusPaused st = (st = RunStatusRunning \<or> st = RunStatusCancelled)"
| "may_move RunStatusFailed st = (st = RunStatusRunning)"
| "may_move RunStatusCompleted st = False"
| "may_move RunStatusCancelled st = False"

fun may_step :: "step_status \<Rightarrow> step_status \<Rightarrow> bool" where
  "may_step StepStatusPending st = (st = StepStatusRunning \<or> st = StepStatusCancelled)"
| "may_step StepStatusRunning st = (st \<noteq> StepStatusPending \<and> st \<noteq> StepStatusRunning)"
| "may_step StepStatusWaitingApproval st = (st \<noteq> StepStatusPending \<and> st \<noteq> StepStatusWaitingApproval)"
| "may_step StepStatusCompleted st = False"
| "may_step StepStatusFailed st = False"
| "may_step StepStatusCancelled st = False"

definition move_run :: "uuid \<Rightarrow> run_status \<Rightarrow> lifecycle \<Rightarrow> lifecycle" where
  "move_run i st l = l\<lparr>lc_run := (lc_run l)(i \<mapsto> st)\<rparr>"

text \<open>A command on a run of a project, with the statuses it accepts and its effect.\<close>

definition on_run ::
  "uuid \<Rightarrow> uuid \<Rightarrow> (run_status \<Rightarrow> bool) \<Rightarrow> (lifecycle \<Rightarrow> lifecycle) \<Rightarrow> lifecycle \<Rightarrow> verdict \<times> lifecycle" where
  "on_run p i accepts effect l =
     (case (lc_owner l i, lc_run l i) of
        (Some (q, sid), Some st) \<Rightarrow>
          if q \<noteq> p then (Missing, l)
          else if accepts st then (Accepted, effect l) else (Refused, l)
      | _ \<Rightarrow> (Missing, l))"

text \<open>Cancelling closes the open steps of the run and puts its story back into the backlog.\<close>

definition close_run :: "uuid \<Rightarrow> lifecycle \<Rightarrow> lifecycle" where
  "close_run i l =
     l\<lparr>lc_run := (lc_run l)(i \<mapsto> RunStatusCancelled),
       lc_step := (\<lambda>j. case lc_step l j of
          Some st \<Rightarrow> Some (if lc_step_run l j = Some i \<and> step_open st then StepStatusCancelled else st)
        | None \<Rightarrow> None),
       lc_story := (case lc_owner l i of
          Some (p, sid) \<Rightarrow>
            if sid = uuid_nil \<or> lc_story l sid = None then lc_story l
            else (lc_story l)(sid \<mapsto> StoryStatusBacklog)
        | None \<Rightarrow> lc_story l)\<rparr>"

fun spec :: "run_command \<Rightarrow> lifecycle \<Rightarrow> verdict \<times> lifecycle" where
  "spec (CmdPause p i) l = on_run p i (\<lambda>st. st = RunStatusRunning) (move_run i RunStatusPaused) l"
| "spec (CmdResume p i) l =
     on_run p i (\<lambda>st. st = RunStatusPaused)
       (\<lambda>l. (move_run i RunStatusRunning l)\<lparr>lc_queue := lc_queue l @ [JobExecuteRun i]\<rparr>) l"
| "spec (CmdCancel p i) l =
     on_run p i (\<lambda>st. st = RunStatusPending \<or> st = RunStatusRunning \<or> st = RunStatusPaused) (close_run i) l"
| "spec (CmdMoveRun i st) l =
     (case lc_run l i of
        None \<Rightarrow> (Missing, l)
      | Some old \<Rightarrow> if may_move old st then (Accepted, move_run i st l) else (Refused, l))"
| "spec (CmdMoveStep j st) l =
     (case lc_step l j of
        None \<Rightarrow> (Missing, l)
      | Some old \<Rightarrow> if may_step old st then (Accepted, l\<lparr>lc_step := (lc_step l)(j \<mapsto> st)\<rparr>) else (Refused, l))"

fun spec_all :: "run_command list \<Rightarrow> lifecycle \<Rightarrow> verdict list \<times> lifecycle" where
  "spec_all [] l = ([], l)"
| "spec_all (c # cs) l =
     (let (v, l1) = spec c l; (vs, l2) = spec_all cs l1 in (v # vs, l2))"

section \<open>The implementation\<close>

definition verdict_of :: "'a res \<Rightarrow> verdict" where
  "verdict_of r = (case r of Inr x \<Rightarrow> Accepted | Inl e \<Rightarrow> if isNotFound e then Missing else Refused)"

fun perform :: "run_svc \<Rightarrow> run_command \<Rightarrow> verdict op" where
  "perform svc (CmdPause p i) = do { r \<leftarrow> PauseRun svc p i; State_Monad.return (verdict_of r) }"
| "perform svc (CmdResume p i) = do { r \<leftarrow> ResumeRun svc p i; State_Monad.return (verdict_of r) }"
| "perform svc (CmdCancel p i) = do { r \<leftarrow> CancelRun svc p i; State_Monad.return (verdict_of r) }"
| "perform svc (CmdMoveRun i st) = do { r \<leftarrow> TransitionRun i st; State_Monad.return (verdict_of r) }"
| "perform svc (CmdMoveStep j st) = do { r \<leftarrow> TransitionRunStep j st; State_Monad.return (verdict_of r) }"

fun perform_all :: "run_svc \<Rightarrow> run_command list \<Rightarrow> verdict list op" where
  "perform_all svc [] = State_Monad.return []"
| "perform_all svc (c # cs) = do { v \<leftarrow> perform svc c; vs \<leftarrow> perform_all svc cs; State_Monad.return (v # vs) }"

definition runOwner :: "world \<Rightarrow> uuid \<rightharpoonup> uuid \<times> uuid" where
  "runOwner w i = map_option (\<lambda>r. (run_project r, run_story r)) (tbl_find run_id i (w_runs w))"

definition stepRun :: "world \<Rightarrow> uuid \<rightharpoonup> uuid" where
  "stepRun w j = map_option rs_run (tbl_find rs_id j (w_steps w))"

definition lifecycle_of :: "world \<Rightarrow> lifecycle" where
  "lifecycle_of w =
     \<lparr>lc_owner = runOwner w, lc_run = runSt w, lc_step_run = stepRun w, lc_step = stepSt w,
      lc_story = storySt w, lc_queue = w_jobs w\<rparr>"

section \<open>What the commands leave alone\<close>

text \<open>
  No command changes the owner of a run or the run of a step, and only a resumption touches the
  queue.
\<close>

definition rowsSame :: "world \<Rightarrow> world \<Rightarrow> bool" where
  "rowsSame w w' \<longleftrightarrow>
     map (\<lambda>r. (run_id r, run_project r, run_story r)) (w_runs w')
       = map (\<lambda>r. (run_id r, run_project r, run_story r)) (w_runs w)
     \<and> map (\<lambda>s. (rs_id s, rs_run s)) (w_steps w') = map (\<lambda>s. (rs_id s, rs_run s)) (w_steps w)"

interpretation rows_same: frame rowsSame
  by unfold_locales (simp_all add: rowsSame_def)

definition jobsSame :: "world \<Rightarrow> world \<Rightarrow> bool" where
  "jobsSame w w' \<longleftrightarrow> w_jobs w' = w_jobs w"

interpretation jobs_same: frame jobsSame
  by unfold_locales (simp_all add: jobsSame_def)

lemma rowsSame_ops [frame_intros]:
  "keeps rowsSame (GetRun i)" "keeps rowsSame (GetRunStep j)" "keeps rowsSame (ListRunStepsByRun i)"
  "keeps rowsSame (GetStoryByID k)" "keeps rowsSame (UpdateStory x)" "keeps rowsSame time_now"
  "keeps rowsSame (publishEvent p ty ent act pl)" "keeps rowsSame (EnqueueExecuteRun i)"
  by (simp_all add: keeps_def rowsSame_def op_defs run_simps run_db_op_faults run_fault_op_faults
        split: list.splits option.splits)

lemma rowsSame_updates [frame_intros]:
  "keeps rowsSame (UpdateRunStatus i st sa ca pa em)"
  "keeps rowsSame (UpdateRunStepStatus j st' sa ca em)"
  by (auto simp: keeps_def rowsSame_def op_defs run_simps run_db_op_faults tbl_update_def
        split: list.splits option.splits)

lemma jobsSame_ops [frame_intros]:
  "keeps jobsSame (GetRun i)" "keeps jobsSame (GetRunStep j)" "keeps jobsSame (ListRunStepsByRun i)"
  "keeps jobsSame (GetStoryByID k)" "keeps jobsSame (UpdateStory x)" "keeps jobsSame time_now"
  "keeps jobsSame (publishEvent p ty ent act pl)"
  "keeps jobsSame (UpdateRunStatus i st sa ca pa em)"
  "keeps jobsSame (UpdateRunStepStatus j st' sa ca em)"
  by (simp_all add: keeps_def jobsSame_def op_defs run_simps run_db_op_faults
        split: list.splits option.splits)

lemma stop_frames [frame_intros]:
  "keeps rowsSame (stopStepExecution svc c)" "keeps jobsSame (stopStepExecution svc c)"
  by (simp_all add: keeps_def rowsSame_def jobsSame_def stopStepExecution_def run_simps split: option.split)

lemma rowsSame_helpers [frame_intros]:
  "keeps rowsSame (publishRunEvent svc p i act pl)" "keeps rowsSame (transitionStoryToBacklog svc run)"
  "keeps rowsSame (requeue svc what i)"
  unfolding publishRunEvent_def transitionStoryToBacklog_def requeue_def by (intro frame_intros)+

lemma jobsSame_helpers [frame_intros]:
  "keeps jobsSame (publishRunEvent svc p i act pl)" "keeps jobsSame (transitionStoryToBacklog svc run)"
  unfolding publishRunEvent_def transitionStoryToBacklog_def by (intro frame_intros)+

lemma cancelSteps_frames [frame_intros]:
  "keeps rowsSame (cancelSteps svc now ss)" "keeps jobsSame (cancelSteps svc now ss)"
proof (induction ss)
  case (Cons s ss)
  { case 1 show ?case unfolding cancelSteps.simps using Cons.IH(1) by (intro frame_intros) }
  { case 2 show ?case unfolding cancelSteps.simps using Cons.IH(2) by (intro frame_intros) }
qed (auto simp: rows_same.ok jobs_same.ok)

lemma rowsSame_perform [frame_intros]: "keeps rowsSame (perform svc c)"
  by (cases c)
     (simp_all only: perform.simps PauseRun_def ResumeRun_def CancelRun_def TransitionRun_def
        TransitionRunStep_def; intro frame_intros)+

lemma jobsSame_CancelRun: "keeps jobsSame (CancelRun svc p i)"
  unfolding CancelRun_def by (intro frame_intros)

section \<open>The refinement\<close>

lemma map_option_tbl_find:
  "map_option f (tbl_find key i rs) = map_of (map (\<lambda>r. (key r, f r)) rs) i"
  by (induction rs) auto

lemma rowsSame_owners:
  assumes "rowsSame w w'"
  shows "runOwner w' = runOwner w" and "stepRun w' = stepRun w"
    and "map rs_id (w_steps w') = map rs_id (w_steps w)"
proof -
  from assms have r: "map (\<lambda>r. (run_id r, run_project r, run_story r)) (w_runs w')
      = map (\<lambda>r. (run_id r, run_project r, run_story r)) (w_runs w)"
    and s: "map (\<lambda>s. (rs_id s, rs_run s)) (w_steps w') = map (\<lambda>s. (rs_id s, rs_run s)) (w_steps w)"
    by (simp_all add: rowsSame_def)
  show "runOwner w' = runOwner w" by (rule ext) (simp add: runOwner_def map_option_tbl_find r)
  show "stepRun w' = stepRun w" by (rule ext) (simp add: stepRun_def map_option_tbl_find s)
  have "map fst (map (\<lambda>s. (rs_id s, rs_run s)) (w_steps w'))
      = map fst (map (\<lambda>s. (rs_id s, rs_run s)) (w_steps w))" by (simp only: s)
  then show "map rs_id (w_steps w') = map rs_id (w_steps w)" by (simp add: comp_def)
qed

text \<open>The tables of the code allow exactly the moves of the specification.\<close>

lemma may_move_iff: "may_move a b = run_step_ok a b"
  by (cases a; cases b) (auto simp: run_step_ok_def)

lemma may_step_iff: "may_step a b = step_step_ok a b"
  by (cases a; cases b) (auto simp: step_step_ok_def)

text \<open>
  \<open>refines\<close>: on a healthy store with distinct step identifiers the command's verdict and effect are
  the specified ones.
\<close>

definition healthy :: "world \<Rightarrow> bool" where
  "healthy w \<longleftrightarrow> w_faults w = [] \<and> distinct (map rs_id (w_steps w))"

definition refines :: "run_svc \<Rightarrow> run_command \<Rightarrow> bool" where
  "refines svc c \<longleftrightarrow>
     (\<forall>w v w'. healthy w \<longrightarrow> run_state (perform svc c) w = (v, w') \<longrightarrow>
        w_faults w' = [] \<and> spec c (lifecycle_of w) = (v, lifecycle_of w'))"

lemma lifecycle_eqI:
  assumes "rowsSame w w'" and "lc_run l = runSt w'" and "lc_step l = stepSt w'"
    and "lc_story l = storySt w'" and "lc_queue l = w_jobs w'"
    and "lc_owner l = runOwner w" and "lc_step_run l = stepRun w"
  shows "l = lifecycle_of w'"
  using assms rowsSame_owners [OF assms(1)] by (simp add: lifecycle_of_def)

lemma refinesI:
  assumes "\<And>w v w'. w_faults w = [] \<Longrightarrow> distinct (map rs_id (w_steps w)) \<Longrightarrow> rowsSame w w' \<Longrightarrow>
      run_state (perform svc c) w = (v, w') \<Longrightarrow>
      w_faults w' = [] \<and> spec c (lifecycle_of w) = (v, lifecycle_of w')"
  shows "refines svc c"
  unfolding refines_def healthy_def
  using assms keepsD [OF rowsSame_perform] by blast

lemma lifecycle_of_sel [simp]:
  "lc_owner (lifecycle_of w) = runOwner w" "lc_run (lifecycle_of w) = runSt w"
  "lc_step_run (lifecycle_of w) = stepRun w" "lc_step (lifecycle_of w) = stepSt w"
  "lc_story (lifecycle_of w) = storySt w" "lc_queue (lifecycle_of w) = w_jobs w"
  by (simp_all add: lifecycle_of_def)

lemma verdict_of_simps [simp]:
  "verdict_of (Inr x) = Accepted" "verdict_of (Inl e) = (if isNotFound e then Missing else Refused)"
  by (simp_all add: verdict_of_def)

lemma isNotFound_refusals [simp]:
  "\<not> isNotFound (NewInvalidState code m)"
  by (simp add: NewInvalidState_def)

lemma validate_run:
  obtains e where
    "ValidateRunTransition a b = (if may_move a b then Inr () else Inl e)" and "\<not> isNotFound e"
proof (cases "may_move a b")
  case True
  then show ?thesis
    using that [of ErrRunPaused] by (simp add: ValidateRunTransition_iff may_move_iff)
next
  case False
  then have "\<exists>e. ValidateRunTransition a b = Inl e \<and> \<not> isNotFound e"
    by (auto simp: ValidateRunTransition_def may_move_iff run_step_ok_def split: option.splits)
  with False that show ?thesis by auto
qed

lemma validate_step:
  obtains e where
    "ValidateStepTransition a b = (if may_step a b then Inr () else Inl e)" and "\<not> isNotFound e"
proof (cases "may_step a b")
  case True
  then show ?thesis
    using that [of ErrRunPaused] by (simp add: ValidateStepTransition_iff may_step_iff)
next
  case False
  then have "\<exists>e. ValidateStepTransition a b = Inl e \<and> \<not> isNotFound e"
    by (auto simp: ValidateStepTransition_def may_step_iff step_step_ok_def split: option.splits)
  with False that show ?thesis by auto
qed

text \<open>The commands that only look a row up and move it.\<close>

lemma refines_move_run: "refines svc (CmdMoveRun i st)"
proof (rule refinesI)
  fix w v w'
  assume f: "w_faults w = []" and rows: "rowsSame w w'"
    and run: "run_state (perform svc (CmdMoveRun i st)) w = (v, w')"
  show "w_faults w' = [] \<and> spec (CmdMoveRun i st) (lifecycle_of w) = (v, lifecycle_of w')"
  proof (cases "tbl_find run_id i (w_runs w)")
    case None
    with run f have "v = Missing" "w' = w"
      by (auto simp: TransitionRun_def GetRun_def run_simps)
    with None f show ?thesis by (simp add: runSt_def)
  next
    case (Some r)
    obtain e where e: "ValidateRunTransition (run_status r) st
        = (if may_move (run_status r) st then Inr () else Inl e)" "\<not> isNotFound e"
      using validate_run by blast
    have old: "runSt w i = Some (run_status r)" using Some by (simp add: runSt_def)
    show ?thesis
    proof (cases "may_move (run_status r) st")
      case True
      with run f Some e have "v = Accepted" "w_faults w' = []" "runSt w' = (runSt w)(i \<mapsto> st)"
        "stepSt w' = stepSt w" "storySt w' = storySt w" "w_jobs w' = w_jobs w"
        using old
        by (auto simp: TransitionRun_def GetRun_def UpdateRunStatus_def run_simps runSt_update_status)
      with True old rows show ?thesis
        by (auto intro!: lifecycle_eqI [OF rows] simp: move_run_def)
    next
      case False
      with run f Some e have "v = Refused" "w' = w"
        by (auto simp: TransitionRun_def GetRun_def run_simps)
      with False old f show ?thesis by simp
    qed
  qed
qed

lemma refines_move_step: "refines svc (CmdMoveStep j st)"
proof (rule refinesI)
  fix w v w'
  assume f: "w_faults w = []" and rows: "rowsSame w w'"
    and run: "run_state (perform svc (CmdMoveStep j st)) w = (v, w')"
  show "w_faults w' = [] \<and> spec (CmdMoveStep j st) (lifecycle_of w) = (v, lifecycle_of w')"
  proof (cases "tbl_find rs_id j (w_steps w)")
    case None
    with run f have "v = Missing" "w' = w"
      by (auto simp: TransitionRunStep_def GetRunStep_def run_simps)
    with None f show ?thesis by (simp add: stepSt_def)
  next
    case (Some s)
    obtain e where e: "ValidateStepTransition (rs_status s) st
        = (if may_step (rs_status s) st then Inr () else Inl e)" "\<not> isNotFound e"
      using validate_step by blast
    have old: "stepSt w j = Some (rs_status s)" using Some by (simp add: stepSt_def)
    show ?thesis
    proof (cases "may_step (rs_status s) st")
      case True
      with run f Some e have "v = Accepted" "w_faults w' = []" "stepSt w' = (stepSt w)(j \<mapsto> st)"
        "runSt w' = runSt w" "storySt w' = storySt w" "w_jobs w' = w_jobs w"
        using old
        by (auto simp: TransitionRunStep_def GetRunStep_def UpdateRunStepStatus_def run_simps
              stepSt_update_status)
      with True old rows show ?thesis by (auto intro!: lifecycle_eqI [OF rows])
    next
      case False
      with run f Some e have "v = Refused" "w' = w"
        by (auto simp: TransitionRunStep_def GetRunStep_def run_simps)
      with False old f show ?thesis by simp
    qed
  qed
qed

text \<open>The commands on a run of a project: looked up, checked against the project, then judged.\<close>

lemma on_run_refines:
  assumes "w_faults w = []" and "rowsSame w w'"
    and "tbl_find run_id i (w_runs w) = None \<Longrightarrow> v = Missing \<and> w' = w"
    and "\<And>r. tbl_find run_id i (w_runs w) = Some r \<Longrightarrow> run_project r \<noteq> p \<Longrightarrow> v = Missing \<and> w' = w"
    and "\<And>r. tbl_find run_id i (w_runs w) = Some r \<Longrightarrow> run_project r = p \<Longrightarrow> \<not> accepts (run_status r) \<Longrightarrow>
           v = Refused \<and> w' = w"
    and "\<And>r. tbl_find run_id i (w_runs w) = Some r \<Longrightarrow> run_project r = p \<Longrightarrow> accepts (run_status r) \<Longrightarrow>
           v = Accepted \<and> w_faults w' = [] \<and> effect (lifecycle_of w) = lifecycle_of w'"
  shows "w_faults w' = [] \<and> on_run p i accepts effect (lifecycle_of w) = (v, lifecycle_of w')"
proof (cases "tbl_find run_id i (w_runs w)")
  case None
  then show ?thesis using assms(1,3) by (simp add: on_run_def runOwner_def)
next
  case (Some r)
  then show ?thesis
    using assms(1) assms(4-6) [OF Some] by (auto simp: on_run_def runOwner_def runSt_def)
qed

lemma pausable: "may_move a RunStatusPaused \<longleftrightarrow> a = RunStatusRunning"
  by (cases a) auto

lemma cancellable: "may_move a RunStatusCancelled
    \<longleftrightarrow> a = RunStatusPending \<or> a = RunStatusRunning \<or> a = RunStatusPaused"
  by (cases a) auto

lemma refines_pause: "refines svc (CmdPause p i)"
proof (rule refinesI)
  fix w v w'
  assume f: "w_faults w = []" and rows: "rowsSame w w'"
    and run: "run_state (perform svc (CmdPause p i)) w = (v, w')"
  show "w_faults w' = [] \<and> spec (CmdPause p i) (lifecycle_of w) = (v, lifecycle_of w')"
    unfolding spec.simps pausable [symmetric]
  proof (rule on_run_refines [OF f rows], goal_cases)
    case (3 r)
    from validate_run [where a = "run_status r" and b = RunStatusPaused] 3 obtain e where
      "ValidateRunTransition (run_status r) RunStatusPaused = Inl e" "\<not> isNotFound e" by auto
    with 3 run f show ?case by (auto simp: PauseRun_def GetRun_def run_simps)
  next
    case (4 r)
    have "runSt w i = Some (run_status r)" using 4 by (simp add: runSt_def)
    moreover have "ValidateRunTransition (run_status r) RunStatusPaused = Inr ()"
      using 4 by (simp add: ValidateRunTransition_iff may_move_iff)
    ultimately have "v = Accepted" "w_faults w' = []" "runSt w' = (runSt w)(i \<mapsto> RunStatusPaused)"
      "stepSt w' = stepSt w" "storySt w' = storySt w" "w_jobs w' = w_jobs w"
      using 4 run f by (auto simp: PauseRun_def GetRun_def UpdateRunStatus_def run_simps runSt_update_status)
    then show ?case by (auto intro!: lifecycle_eqI [OF rows] simp: move_run_def)
  qed (use run f in \<open>auto simp: PauseRun_def GetRun_def run_simps\<close>)
qed

lemma refines_resume:
  assumes "s_jobs svc"
  shows "refines svc (CmdResume p i)"
proof (rule refinesI)
  fix w v w'
  assume f: "w_faults w = []" and rows: "rowsSame w w'"
    and run: "run_state (perform svc (CmdResume p i)) w = (v, w')"
  show "w_faults w' = [] \<and> spec (CmdResume p i) (lifecycle_of w) = (v, lifecycle_of w')"
    unfolding spec.simps
  proof (rule on_run_refines [OF f rows], goal_cases)
    case (4 r)
    have "runSt w i = Some (run_status r)" using 4 by (simp add: runSt_def)
    then have "v = Accepted" "w_faults w' = []" "runSt w' = (runSt w)(i \<mapsto> RunStatusRunning)"
      "stepSt w' = stepSt w" "storySt w' = storySt w" "w_jobs w' = w_jobs w @ [JobExecuteRun i]"
      using 4 run f assms
      by (auto simp: ResumeRun_def GetRun_def UpdateRunStatus_def requeue_def EnqueueExecuteRun_def
            enqueue_def run_simps runSt_update_status)
    then show ?case by (auto intro!: lifecycle_eqI [OF rows] simp: move_run_def)
  qed (use run f in \<open>auto simp: ResumeRun_def GetRun_def run_simps\<close>)
qed

lemma step_views_row:
  "distinct (map rs_id (w_steps w)) \<Longrightarrow> s \<in> set (w_steps w) \<Longrightarrow>
   stepSt w (rs_id s) = Some (rs_status s) \<and> stepRun w (rs_id s) = Some (rs_run s)"
  using tbl_find_Some_iff [of rs_id "w_steps w" "rs_id s" s] by (simp add: stepSt_def stepRun_def)

lemma closed_in_spec:
  assumes "distinct (map rs_id (w_steps w))"
  shows "(\<lambda>j. case stepSt w j of
       Some st \<Rightarrow> Some (if stepRun w j = Some i \<and> step_open st then StepStatusCancelled else st)
     | None \<Rightarrow> None) =
    (\<lambda>j. if \<exists>s \<in> set (w_steps w). rs_run s = i \<and> rs_id s = j \<and> step_open (rs_status s)
         then Some StepStatusCancelled else stepSt w j)"
proof
  fix j
  show "(case stepSt w j of
       Some st \<Rightarrow> Some (if stepRun w j = Some i \<and> step_open st then StepStatusCancelled else st)
     | None \<Rightarrow> None) =
    (if \<exists>s \<in> set (w_steps w). rs_run s = i \<and> rs_id s = j \<and> step_open (rs_status s)
         then Some StepStatusCancelled else stepSt w j)"
  proof (cases "tbl_find rs_id j (w_steps w)")
    case None
    then have "stepSt w j = None" by (simp add: stepSt_def)
    moreover have "j \<notin> rs_id ` set (w_steps w)" using None by (simp add: tbl_find_None_iff)
    ultimately show ?thesis by auto
  next
    case (Some x)
    with assms have x: "x \<in> set (w_steps w)" "rs_id x = j" by (simp_all add: tbl_find_Some_iff)
    then have "(\<exists>s \<in> set (w_steps w). rs_run s = i \<and> rs_id s = j \<and> step_open (rs_status s))
        \<longleftrightarrow> rs_run x = i \<and> step_open (rs_status x)"
      using assms by (auto simp: distinct_map inj_on_def)
    then show ?thesis using step_views_row [OF assms x(1)] x(2) by simp
  qed
qed

lemma refines_cancel: "refines svc (CmdCancel p i)"
proof (rule refinesI)
  fix w v w'
  assume f: "w_faults w = []" and d: "distinct (map rs_id (w_steps w))" and rows: "rowsSame w w'"
    and run: "run_state (perform svc (CmdCancel p i)) w = (v, w')"
  show "w_faults w' = [] \<and> spec (CmdCancel p i) (lifecycle_of w) = (v, lifecycle_of w')"
    unfolding spec.simps cancellable [symmetric]
  proof (rule on_run_refines [OF f rows], goal_cases)
    case (3 r)
    from validate_run [where a = "run_status r" and b = RunStatusCancelled] 3 obtain e where
      "ValidateRunTransition (run_status r) RunStatusCancelled = Inl e" "\<not> isNotFound e" by auto
    with 3 run f show ?case by (auto simp: CancelRun_def GetRun_def run_simps)
  next
    case (4 r)
    then have "run_step_ok (run_status r) RunStatusCancelled" by (simp add: may_move_iff)
    from CancelRun_effect [OF f 4(1) this d, of svc] 4(2) obtain u x where
      c: "run_state (CancelRun svc p i) w = (Inr u, x)" and fx: "w_faults x = []"
      and views: "runSt x = (runSt w)(i \<mapsto> RunStatusCancelled)"
        "stepSt x = (\<lambda>j. if \<exists>s \<in> set (w_steps w). rs_run s = i \<and> rs_id s = j \<and> step_open (rs_status s)
                        then Some StepStatusCancelled else stepSt w j)"
        "storySt x = (if run_story r = uuid_nil \<or> storySt w (run_story r) = None then storySt w
                    else (storySt w)(run_story r \<mapsto> StoryStatusBacklog))" by blast
    have "v = Accepted" "w' = x" using run c by (simp_all add: run_simps)
    have jobs: "w_jobs x = w_jobs w"
      using keepsD [OF jobsSame_CancelRun c] by (simp add: jobsSame_def)
    have owner: "runOwner w i = Some (p, run_story r)" using 4 by (simp add: runOwner_def)
    have "close_run i (lifecycle_of w) = lifecycle_of x"
    proof (rule lifecycle_eqI)
      show "lc_step (close_run i (lifecycle_of w)) = stepSt x"
        using views(2) closed_in_spec [OF d, of i] by (simp add: close_run_def cong: option.case_cong)
      show "lc_story (close_run i (lifecycle_of w)) = storySt x"
        using views(3) owner by (simp add: close_run_def cong: if_cong)
    qed (use views(1) jobs rows \<open>w' = x\<close> in \<open>simp_all add: close_run_def\<close>)
    with \<open>v = Accepted\<close> \<open>w' = x\<close> fx show ?case by simp
  qed (use run f in \<open>auto simp: CancelRun_def GetRun_def run_simps\<close>)
qed

lemma refines_all:
  assumes "s_jobs svc"
  shows "refines svc c"
  using assms refines_pause refines_resume refines_cancel refines_move_run refines_move_step
  by (cases c) auto

text \<open>
  C5: the user's operations on runs implement the abstract specification: on a healthy store with a
  job queue, any sequence of pauses, resumptions, cancellations and status changes gives exactly
  the verdicts the specification gives, one by one, and leaves exactly the specified run, step and
  story statuses and job queue, whatever else the operations write on the way.
\<close>

theorem run_control_refines:
  assumes "w_faults w = []" and "distinct (map rs_id (w_steps w))" and "s_jobs svc"
    and "run_state (perform_all svc cmds) w = (vs, w')"
  shows "spec_all cmds (lifecycle_of w) = (vs, lifecycle_of w')"
  using assms
proof (induction cmds arbitrary: w vs)
  case Nil
  then show ?case by (simp add: run_simps)
next
  case (Cons c cs)
  obtain v u where c: "run_state (perform svc c) w = (v, u)" by fastforce
  obtain vs1 u1 where cs: "run_state (perform_all svc cs) u = (vs1, u1)" by fastforce
  from Cons.prems(4) c cs have r: "vs = v # vs1" "u1 = w'" by (simp_all add: run_simps)
  have u: "w_faults u = []" "spec c (lifecycle_of w) = (v, lifecycle_of u)"
    using refines_all [OF Cons.prems(3)] Cons.prems(1,2) c by (auto simp: refines_def healthy_def)
  moreover have "distinct (map rs_id (w_steps u))"
    using Cons.prems(2) rowsSame_owners(3) [OF keepsD [OF rowsSame_perform c]] by simp
  ultimately have "spec_all cs (lifecycle_of u) = (vs1, lifecycle_of w')"
    using Cons.IH [OF _ _ Cons.prems(3), of u vs1] cs r(2) by simp
  with u(2) r show ?case by simp
qed

end
