(* ===== verification/Costs.thy ===== *)
theory Costs
  imports Watchdog
begin

text \<open>
  Cost tracking: the price list (\<open>model/cost_record.go\<close>), the repository of cost records
  (\<open>cost_repo.go\<close> over the queries of \<open>cost_records.sql.go\<close>), the paging helper (\<open>pagination.go\<close>)
  and \<open>cost_service.go\<close>. Amounts are reals where the code has \<open>float64\<close>; the database rounds them
  to millionths. The order in which Go ranges over the price list and what the driver scans an
  untyped \<open>SUM\<close> into are parameters.
\<close>

section \<open>Machine integers and pages\<close>

definition int32 :: "int \<Rightarrow> int" where
  "int32 x = (x + 2 ^ 31) mod 2 ^ 32 - 2 ^ 31"

definition int64 :: "int \<Rightarrow> int" where
  "int64 x = (x + 2 ^ 63) mod 2 ^ 64 - 2 ^ 63"

definition clampPagination :: "int \<Rightarrow> int \<Rightarrow> int \<times> int" where
  "clampPagination page perPage =
     (if page < 1 then 1 else page,
      let n = (if perPage < 1 then 20 else perPage) in if 100 < n then 100 else n)"

definition paginationToLimitOffset :: "int \<Rightarrow> int \<Rightarrow> int \<times> int" where
  "paginationToLimitOffset page perPage =
     (case clampPagination page perPage of (p, n) \<Rightarrow> (int32 n, int32 (int64 ((p - 1) * n))))"

text \<open>\<open>LIMIT\<close> and \<open>OFFSET\<close>: a negative value is an error of the query.\<close>

definition paged :: "int \<Rightarrow> int \<Rightarrow> 'a list \<Rightarrow> 'a list option" where
  "paged limit offset rows =
     (if limit < 0 \<or> offset < 0 then None else Some (take (nat limit) (drop (nat offset) rows)))"

section \<open>The price list\<close>

record cost_event =
  ce_input :: int
  ce_output :: int
  ce_model :: string
  ce_cost :: real

record pricing =
  input_per_mtok :: real
  output_per_mtok :: real

definition price :: "real \<Rightarrow> real \<Rightarrow> pricing" where
  "price i out = \<lparr>input_per_mtok = i, output_per_mtok = out\<rparr>"

definition modelPricing :: "(string \<times> pricing) list" where
  "modelPricing =
     [(''claude-opus-4-6'', price 15 75), (''claude-sonnet-4-6'', price 3 15),
      (''claude-haiku-4-5'', price (25 / 100) (125 / 100)), (''gpt-4o'', price (25 / 10) 10),
      (''gpt-4o-mini'', price (15 / 100) (6 / 10)), (''gemini-2.0-flash'', price (1 / 10) (4 / 10)),
      (''gemini-2.5-pro'', price (125 / 100) 10), (''deepseek-chat'', price (14 / 100) (28 / 100))]"

definition hasPrefix :: "string \<Rightarrow> string \<Rightarrow> bool" where
  "hasPrefix s p \<longleftrightarrow> take (length p) s = p"

text \<open>The first entry of the range over the map whose key is a prefix of the model.\<close>

definition lookupPricing :: "(string \<times> pricing) list \<Rightarrow> string \<Rightarrow> pricing option" where
  "lookupPricing order m =
     (case map_of modelPricing m of
        Some p \<Rightarrow> Some p
      | None \<Rightarrow> map_option snd (find (\<lambda>kp. hasPrefix m (fst kp)) order))"

definition ComputeCostUSD :: "(string \<times> pricing) list \<Rightarrow> string \<Rightarrow> int \<Rightarrow> int \<Rightarrow> real \<times> bool" where
  "ComputeCostUSD order m inputTokens outputTokens =
     (case lookupPricing order m of
        None \<Rightarrow> (0, False)
      | Some p \<Rightarrow>
          (real_of_int inputTokens / 1000000 * input_per_mtok p
             + real_of_int outputTokens / 1000000 * output_per_mtok p, True))"

section \<open>The table of cost records\<close>

text \<open>\<open>math.Round\<close>, away from zero at halves; \<open>DECIMAL(10,6)\<close> holds less than ten thousand.\<close>

definition roundAway :: "real \<Rightarrow> int" where
  "roundAway x = (if 0 \<le> x then \<lfloor>x + 1 / 2\<rfloor> else \<lceil>x - 1 / 2\<rceil>)"

definition micros :: "real \<Rightarrow> int" where
  "micros x = roundAway (x * 1000000)"

definition decimal :: "real \<Rightarrow> bool" where
  "decimal x \<longleftrightarrow> \<bar>x\<bar> < 10000"

definition bigint :: "int \<Rightarrow> bool" where
  "bigint n \<longleftrightarrow> - (2 ^ 63) \<le> n \<and> n < 2 ^ 63"

definition agent_ref_ok :: "uuid option \<Rightarrow> world \<Rightarrow> bool" where
  "agent_ref_ok a w = (case a of None \<Rightarrow> True | Some i \<Rightarrow> tbl_find agent_id i (w_agents w) \<noteq> None)"

definition InsertCostRecord :: "cost_record \<Rightarrow> cost_record fop" where
  "InsertCostRecord c =
     db_op ''failed to insert cost record''
       (writing (\<lambda>w.
          let r = c\<lparr>cr_id := w_next w, cr_cost := real_of_int (micros (cr_cost c)) / 1000000,
                    cr_created_at := w_clock w\<rparr>
          in if \<not> decimal (cr_cost r)
             then (Inl (NewInternal ''failed to insert cost record'' db_failure), w)
             else if tbl_find rs_id (cr_step c) (w_steps w) = None
                     \<or> tbl_find project_id (cr_project c) (w_projects w) = None
                     \<or> \<not> agent_ref_ok (cr_agent c) w
             then (Inl (NewNotFound ''run_step'' (U (cr_step c))), w)
             else (Inr r, w\<lparr>w_costs := w_costs w @ [r], w_next := Suc (w_next w)\<rparr>)))"

definition GetCostByRunStep :: "uuid \<Rightarrow> cost_record fop" where
  "GetCostByRunStep j = db_op ''failed to get cost by run step'' (find_row w_costs cr_step ''cost_record'' j)"

section \<open>The aggregations\<close>

text \<open>
  \<open>GROUP BY\<close>: the keys with their rows. An \<open>ORDER BY\<close> sorts the groups; ties stay in the order of
  the groups. A cast to \<open>DECIMAL(10,6)\<close> or \<open>BIGINT\<close> that overflows fails the whole query.
\<close>

definition groupBy :: "('a \<Rightarrow> 'k) \<Rightarrow> 'a list \<Rightarrow> ('k \<times> 'a list) list" where
  "groupBy key xs = map (\<lambda>k. (k, filter (\<lambda>x. key x = k) xs)) (remdups (map key xs))"

definition costOf :: "cost_record list \<Rightarrow> real" where
  "costOf cs = sum_list (map cr_cost cs)"

definition inputOf :: "cost_record list \<Rightarrow> int" where
  "inputOf cs = sum_list (map cr_tokens_in cs)"

definition outputOf :: "cost_record list \<Rightarrow> int" where
  "outputOf cs = sum_list (map cr_tokens_out cs)"

definition castable :: "cost_record list \<Rightarrow> bool" where
  "castable cs \<longleftrightarrow> decimal (costOf cs) \<and> bigint (inputOf cs) \<and> bigint (outputOf cs)"

definition query :: "string \<Rightarrow> (world \<Rightarrow> bool) \<Rightarrow> (world \<Rightarrow> 'a) \<Rightarrow> 'a fop" where
  "query what fine rows =
     db_op what (reading (\<lambda>w. if fine w then Inr (rows w) else Inl (NewInternal what db_failure)))"

text \<open>The joins of a cost record.\<close>

definition costStep :: "world \<Rightarrow> cost_record \<Rightarrow> run_step option" where
  "costStep w c = tbl_find rs_id (cr_step c) (w_steps w)"

definition costRun :: "world \<Rightarrow> cost_record \<Rightarrow> run option" where
  "costRun w c = (case costStep w c of None \<Rightarrow> None | Some s \<Rightarrow> tbl_find run_id (rs_run s) (w_runs w))"

definition costStory :: "world \<Rightarrow> cost_record \<Rightarrow> story option" where
  "costStory w c = (case costRun w c of None \<Rightarrow> None | Some r \<Rightarrow> tbl_find story_id (run_story r) (w_stories w))"

definition costRole :: "world \<Rightarrow> cost_record \<Rightarrow> string" where
  "costRole w c =
     (case cr_agent c of None \<Rightarrow> ''unknown''
      | Some a \<Rightarrow> (case tbl_find agent_id a (w_agents w) of None \<Rightarrow> ''unknown'' | Some x \<Rightarrow> agent_type x))"

definition costsSince :: "uuid \<Rightarrow> time \<Rightarrow> world \<Rightarrow> cost_record list" where
  "costsSince p since w = filter (\<lambda>c. cr_project c = p \<and> since \<le> cr_created_at c) (w_costs w)"

definition costsOfRun :: "uuid \<Rightarrow> world \<Rightarrow> cost_record list" where
  "costsOfRun i w = filter (\<lambda>c. map_option rs_run (costStep w c) = Some i) (w_costs w)"

definition costsOfStory :: "uuid \<Rightarrow> world \<Rightarrow> cost_record list" where
  "costsOfStory k w = filter (\<lambda>c. map_option run_story (costRun w c) = Some k) (w_costs w)"

definition costsOfProjectRuns :: "uuid \<Rightarrow> world \<Rightarrow> cost_record list" where
  "costsOfProjectRuns p w = filter (\<lambda>c. map_option run_project (costRun w c) = Some p) (w_costs w)"

text \<open>\<open>COUNT(DISTINCT rs.run_id)\<close>.\<close>

definition runCount :: "world \<Rightarrow> cost_record list \<Rightarrow> nat" where
  "runCount w cs = card (set (map (\<lambda>c. map_option rs_run (costStep w c)) cs))"

section \<open>Totals\<close>

definition sumCostByProject :: "uuid \<Rightarrow> time \<Rightarrow> world \<Rightarrow> real \<times> int \<times> int" where
  "sumCostByProject p since w =
     (let cs = costsSince p since w in (costOf cs, inputOf cs, outputOf cs))"

definition SumCostByProject :: "uuid \<Rightarrow> time \<Rightarrow> (real \<times> int \<times> int) fop" where
  "SumCostByProject p since =
     query ''failed to sum cost by project'' (\<lambda>w. castable (costsSince p since w)) (sumCostByProject p since)"

definition sumTokensByRun :: "uuid \<Rightarrow> world \<Rightarrow> int \<times> int" where
  "sumTokensByRun i w = (inputOf (costsOfRun i w), outputOf (costsOfRun i w))"

definition SumTokensByRun :: "uuid \<Rightarrow> (int \<times> int) fop" where
  "SumTokensByRun i =
     query ''failed to sum tokens by run''
       (\<lambda>w. bigint (inputOf (costsOfRun i w)) \<and> bigint (outputOf (costsOfRun i w))) (sumTokensByRun i)"

text \<open>
  The token sums of a story and of a model have no cast, so they are \<open>numeric\<close> values that the
  driver scans into an \<open>interface{}\<close>; \<open>toInt64\<close> reads what it finds there.
\<close>

datatype scanned = ScanNull | ScanInt64 int | ScanInt32 int | ScanInt int | ScanFloat64 real | ScanOther

fun toInt64 :: "scanned \<Rightarrow> int" where
  "toInt64 ScanNull = 0"
| "toInt64 (ScanInt64 n) = n"
| "toInt64 (ScanInt32 n) = n"
| "toInt64 (ScanInt n) = n"
| "toInt64 (ScanFloat64 x) = (if 0 \<le> x then \<lfloor>x\<rfloor> else \<lceil>x\<rceil>)"
| "toInt64 ScanOther = 0"

definition sumCostByStory :: "uuid \<Rightarrow> world \<Rightarrow> real \<times> int \<times> int \<times> nat" where
  "sumCostByStory k w =
     (let cs = costsOfStory k w in (costOf cs, inputOf cs, outputOf cs, runCount w cs))"

definition SumCostByStory :: "(int \<Rightarrow> scanned) \<Rightarrow> uuid \<Rightarrow> (real \<times> int \<times> int \<times> nat) fop" where
  "SumCostByStory scan k =
     query ''failed to sum cost by story'' (\<lambda>w. decimal (costOf (costsOfStory k w)))
       (\<lambda>w. case sumCostByStory k w of (c, i, out, n) \<Rightarrow> (c, toInt64 (scan i), toInt64 (scan out), n))"

section \<open>Breakdowns\<close>

record story_cost =
  sc_story :: uuid
  sc_key :: string
  sc_total :: real

record run_cost =
  rcb_run :: uuid
  rcb_key :: string
  rcb_status :: run_status
  rcb_total :: real
  rcb_created_at :: time
  rcb_input :: int
  rcb_output :: int

record model_cost =
  mc_model :: string
  mc_total :: real
  mc_input :: int
  mc_output :: int

record step_cost =
  stc_step :: uuid
  stc_name :: string
  stc_model :: string
  stc_input :: int
  stc_output :: int
  stc_cost :: real

record role_cost =
  rl_role :: string
  rl_input :: int
  rl_output :: int
  rl_cost :: real

record agent_cost =
  ac_agent :: uuid
  ac_name :: string
  ac_input :: int
  ac_output :: int
  ac_cost :: real
  ac_runs :: nat

text \<open>The groups of a query are castable when each one's sums are.\<close>

definition groupsCastable :: "('k \<times> cost_record list) list \<Rightarrow> bool" where
  "groupsCastable gs = list_all (\<lambda>g. castable (snd g)) gs"

definition storyGroups :: "uuid \<Rightarrow> time \<Rightarrow> world \<Rightarrow> (story \<times> cost_record list) list" where
  "storyGroups p since w =
     groupBy (\<lambda>c. the (costStory w c)) (filter (\<lambda>c. costStory w c \<noteq> None) (costsSince p since w))"

definition listCostsByProjectByStory :: "uuid \<Rightarrow> time \<Rightarrow> world \<Rightarrow> story_cost list" where
  "listCostsByProjectByStory p since w =
     sort_key (\<lambda>x. - sc_total x)
       (map (\<lambda>g. \<lparr>sc_story = story_id (fst g), sc_key = story_key (fst g), sc_total = costOf (snd g)\<rparr>)
          (storyGroups p since w))"

definition ListCostsByProjectByStory :: "uuid \<Rightarrow> time \<Rightarrow> story_cost list fop" where
  "ListCostsByProjectByStory p since =
     query ''failed to list costs by project by story''
       (\<lambda>w. list_all (\<lambda>g. decimal (costOf (snd g))) (storyGroups p since w)) (listCostsByProjectByStory p since)"

text \<open>The runs of the project's records, with their stories: a run whose story is gone is not listed.\<close>

definition runGroups :: "uuid \<Rightarrow> time \<Rightarrow> world \<Rightarrow> ((run \<times> story) \<times> cost_record list) list" where
  "runGroups p since w =
     groupBy (\<lambda>c. (the (costRun w c), the (costStory w c)))
       (filter (\<lambda>c. costStory w c \<noteq> None) (costsSince p since w))"

definition runCostRow :: "(run \<times> story) \<times> cost_record list \<Rightarrow> run_cost" where
  "runCostRow g =
     \<lparr>rcb_run = run_id (fst (fst g)), rcb_key = story_key (snd (fst g)), rcb_status = run_status (fst (fst g)),
      rcb_total = costOf (snd g), rcb_created_at = run_created_at (fst (fst g)), rcb_input = inputOf (snd g),
      rcb_output = outputOf (snd g)\<rparr>"

definition listCostsByProjectByRun :: "uuid \<Rightarrow> time \<Rightarrow> world \<Rightarrow> run_cost list" where
  "listCostsByProjectByRun p since w =
     sort_key (\<lambda>x. - rcb_created_at x) (map runCostRow (runGroups p since w))"

definition ListCostsByProjectByRun :: "uuid \<Rightarrow> time \<Rightarrow> run_cost list fop" where
  "ListCostsByProjectByRun p since =
     query ''failed to list costs by project by run''
       (\<lambda>w. list_all (\<lambda>g. decimal (costOf (snd g))) (runGroups p since w)) (listCostsByProjectByRun p since)"

definition ListCostsByProjectByRunPaginated :: "uuid \<Rightarrow> time \<Rightarrow> int \<Rightarrow> int \<Rightarrow> run_cost list fop" where
  "ListCostsByProjectByRunPaginated p since limit offset =
     query ''failed to list costs by project by run paginated''
       (\<lambda>w. groupsCastable (runGroups p since w)
          \<and> paged limit offset (listCostsByProjectByRun p since w) \<noteq> None)
       (\<lambda>w. the (paged limit offset (listCostsByProjectByRun p since w)))"

definition CountCostsByProjectByRun :: "uuid \<Rightarrow> time \<Rightarrow> nat fop" where
  "CountCostsByProjectByRun p since =
     query ''failed to count costs by project by run'' (\<lambda>w. True)
       (\<lambda>w. runCount w (filter (\<lambda>c. costStep w c \<noteq> None) (costsSince p since w)))"

definition modelGroups :: "uuid \<Rightarrow> time \<Rightarrow> world \<Rightarrow> (string \<times> cost_record list) list" where
  "modelGroups p since w = groupBy cr_model (costsSince p since w)"

definition listCostsByProjectByModel :: "(int \<Rightarrow> scanned) \<Rightarrow> uuid \<Rightarrow> time \<Rightarrow> world \<Rightarrow> model_cost list" where
  "listCostsByProjectByModel scan p since w =
     sort_key (\<lambda>x. - mc_total x)
       (map (\<lambda>g. \<lparr>mc_model = fst g, mc_total = costOf (snd g), mc_input = toInt64 (scan (inputOf (snd g))),
                  mc_output = toInt64 (scan (outputOf (snd g)))\<rparr>) (modelGroups p since w))"

definition ListCostsByProjectByModel :: "(int \<Rightarrow> scanned) \<Rightarrow> uuid \<Rightarrow> time \<Rightarrow> model_cost list fop" where
  "ListCostsByProjectByModel scan p since =
     query ''failed to list costs by project by model''
       (\<lambda>w. list_all (\<lambda>g. decimal (costOf (snd g))) (modelGroups p since w)) (listCostsByProjectByModel scan p since)"

definition listStepCostsByRun :: "uuid \<Rightarrow> world \<Rightarrow> step_cost list" where
  "listStepCostsByRun i w =
     map (\<lambda>c. \<lparr>stc_step = cr_step c, stc_name = rs_name (the (costStep w c)), stc_model = cr_model c,
                stc_input = cr_tokens_in c, stc_output = cr_tokens_out c, stc_cost = cr_cost c\<rparr>)
       (sort_key (\<lambda>c. rs_order (the (costStep w c))) (costsOfRun i w))"

definition ListStepCostsByRun :: "uuid \<Rightarrow> step_cost list fop" where
  "ListStepCostsByRun i = query ''failed to list step costs by run'' (\<lambda>w. True) (listStepCostsByRun i)"

text \<open>\<open>DATE(created_at)\<close> as the number of the day.\<close>

definition dayLength :: time where
  "dayLength = 86400 * 1000000000"

definition dayOf :: "time \<Rightarrow> int" where
  "dayOf t = t div dayLength"

definition listDailyCostsByProject :: "uuid \<Rightarrow> time \<Rightarrow> world \<Rightarrow> (int \<times> real) list" where
  "listDailyCostsByProject p since w =
     sort_key fst (map (\<lambda>g. (fst g, costOf (snd g))) (groupBy (\<lambda>c. dayOf (cr_created_at c)) (costsSince p since w)))"

definition ListDailyCostsByProject :: "uuid \<Rightarrow> time \<Rightarrow> (int \<times> real) list fop" where
  "ListDailyCostsByProject p since =
     query ''failed to list daily costs by project''
       (\<lambda>w. list_all (\<lambda>x. decimal (snd x)) (listDailyCostsByProject p since w)) (listDailyCostsByProject p since)"

definition roleRow :: "string \<times> cost_record list \<Rightarrow> role_cost" where
  "roleRow g = \<lparr>rl_role = fst g, rl_input = inputOf (snd g), rl_output = outputOf (snd g), rl_cost = costOf (snd g)\<rparr>"

definition listCostsByRunByRole :: "uuid \<Rightarrow> world \<Rightarrow> role_cost list" where
  "listCostsByRunByRole i w =
     sort_key (\<lambda>x. - rl_cost x) (map roleRow (groupBy (costRole w) (costsOfRun i w)))"

definition ListCostsByRunByRole :: "uuid \<Rightarrow> role_cost list fop" where
  "ListCostsByRunByRole i =
     query ''failed to list costs by run by role''
       (\<lambda>w. groupsCastable (groupBy (costRole w) (costsOfRun i w))) (listCostsByRunByRole i)"

text \<open>The project's rows by role carry the number of their runs as well.\<close>

definition listCostsByProjectByRole :: "uuid \<Rightarrow> world \<Rightarrow> (role_cost \<times> nat) list" where
  "listCostsByProjectByRole p w =
     sort_key (\<lambda>x. - rl_cost (fst x))
       (map (\<lambda>g. (roleRow g, runCount w (snd g))) (groupBy (costRole w) (costsOfProjectRuns p w)))"

definition ListByProjectByRole :: "uuid \<Rightarrow> (role_cost \<times> nat) list fop" where
  "ListByProjectByRole p =
     query ''failed to list costs by project by role''
       (\<lambda>w. groupsCastable (groupBy (costRole w) (costsOfProjectRuns p w))) (listCostsByProjectByRole p)"

definition agentName :: "world \<Rightarrow> uuid \<Rightarrow> string" where
  "agentName w a = (case tbl_find agent_id a (w_agents w) of None \<Rightarrow> ''Unknown'' | Some x \<Rightarrow> agent_name x)"

definition agentGroups :: "uuid \<Rightarrow> world \<Rightarrow> (uuid \<times> cost_record list) list" where
  "agentGroups p w =
     groupBy (\<lambda>c. the (cr_agent c)) (filter (\<lambda>c. cr_agent c \<noteq> None) (costsOfProjectRuns p w))"

definition listCostsByProjectByAgent :: "uuid \<Rightarrow> world \<Rightarrow> agent_cost list" where
  "listCostsByProjectByAgent p w =
     sort_key (\<lambda>x. - ac_cost x)
       (map (\<lambda>g. \<lparr>ac_agent = fst g, ac_name = agentName w (fst g), ac_input = inputOf (snd g),
                  ac_output = outputOf (snd g), ac_cost = costOf (snd g), ac_runs = runCount w (snd g)\<rparr>)
          (agentGroups p w))"

definition ListByProjectByAgent :: "uuid \<Rightarrow> agent_cost list fop" where
  "ListByProjectByAgent p =
     query ''failed to list costs by project by agent''
       (\<lambda>w. groupsCastable (agentGroups p w)) (listCostsByProjectByAgent p)"

section \<open>The cost service\<close>

record cost_svc =
  cs_order :: "(string \<times> pricing) list"
  cs_scan :: "int \<Rightarrow> scanned"

text \<open>The accumulation over the events of a step.\<close>

record cost_sum =
  sum_input :: int
  sum_output :: int
  sum_reported :: real
  sum_any :: bool
  sum_model :: string

definition addEvent :: "cost_sum \<Rightarrow> cost_event \<Rightarrow> cost_sum" where
  "addEvent acc e =
     \<lparr>sum_input = int64 (sum_input acc + ce_input e), sum_output = int64 (sum_output acc + ce_output e),
      sum_reported = sum_reported acc + ce_cost e, sum_any = (sum_any acc \<or> 0 < ce_cost e),
      sum_model = (if ce_model e \<noteq> [] then ce_model e else sum_model acc)\<rparr>"

definition sumEvents :: "cost_event list \<Rightarrow> cost_sum" where
  "sumEvents es =
     foldl addEvent \<lparr>sum_input = 0, sum_output = 0, sum_reported = 0, sum_any = False,
       sum_model = ce_model (hd es)\<rparr> es"

definition stepCost :: "cost_svc \<Rightarrow> cost_sum \<Rightarrow> real" where
  "stepCost svc acc =
     (if sum_any acc then sum_reported acc
      else fst (ComputeCostUSD (cs_order svc) (sum_model acc) (sum_input acc) (sum_output acc)))"

definition stepRecord :: "cost_svc \<Rightarrow> uuid \<Rightarrow> uuid \<Rightarrow> uuid option \<Rightarrow> cost_sum \<Rightarrow> cost_record" where
  "stepRecord svc j p a acc =
     \<lparr>cr_id = uuid_nil, cr_step = j, cr_project = p, cr_agent = a, cr_tokens_in = sum_input acc,
      cr_tokens_out = sum_output acc, cr_cost = stepCost svc acc, cr_model = sum_model acc, cr_created_at = 0\<rparr>"

definition RecordStepCost :: "cost_svc \<Rightarrow> uuid \<Rightarrow> uuid \<Rightarrow> cost_event list \<Rightarrow> uuid option \<Rightarrow> unit fop" where
  "RecordStepCost svc j p es a =
     (if es = [] then ok ()
      else attempt (InsertCostRecord (stepRecord svc j p a (sumEvents es))) (\<lambda>_. ok ()))"

definition parsePeriod :: "string \<Rightarrow> time fop" where
  "parsePeriod period = do {
     now \<leftarrow> time_now;
     if period = ''7d'' then ok (now - 7 * dayLength)
     else if period = ''30d'' then ok (now - 30 * dayLength)
     else if period = ''90d'' then ok (now - 90 * dayLength)
     else fail (NewValidation [T ''period'']
       [T ''invalid period: '', T period, T '', must be one of: 7d, 30d, 90d'']) }"

text \<open>The project must exist, and an absent period is a week.\<close>

definition projectPeriod :: "uuid \<Rightarrow> string \<Rightarrow> (project \<times> time) fop" where
  "projectPeriod p period =
     attempt (GetProjectByID p) (\<lambda>pr.
     attempt (parsePeriod (if period = [] then ''7d'' else period)) (\<lambda>since. ok (pr, since)))"

section \<open>Reports\<close>

record project_costs =
  pjc_total :: real
  pjc_input :: int
  pjc_output :: int
  pjc_budget :: "real option"
  pjc_by_story :: "story_cost list"
  pjc_by_run :: "run_cost list"
  pjc_by_model :: "model_cost list"

definition GetProjectCosts :: "cost_svc \<Rightarrow> uuid \<Rightarrow> string \<Rightarrow> project_costs fop" where
  "GetProjectCosts svc p period =
     attempt (projectPeriod p period) (\<lambda>(pr, since).
     attempt (SumCostByProject p since) (\<lambda>(total, i, out).
     attempt (ListCostsByProjectByStory p since) (\<lambda>byStory.
     attempt (ListCostsByProjectByRun p since) (\<lambda>byRun.
     attempt (ListCostsByProjectByModel (cs_scan svc) p since) (\<lambda>byModel.
       ok \<lparr>pjc_total = total, pjc_input = i, pjc_output = out, pjc_budget = project_max_budget pr,
           pjc_by_story = byStory, pjc_by_run = byRun, pjc_by_model = byModel\<rparr>)))))"

record cost_summary =
  csm_total :: real
  csm_week :: real
  csm_month :: real
  csm_average :: real
  csm_budget :: "real option"
  csm_start :: time
  csm_end :: time

definition averageCost :: "story_cost list \<Rightarrow> real" where
  "averageCost rows =
     (if rows = [] then 0 else sum_list (map sc_total rows) / real (length rows))"

definition GetProjectCostSummary :: "uuid \<Rightarrow> string \<Rightarrow> cost_summary fop" where
  "GetProjectCostSummary p period =
     attempt (projectPeriod p period) (\<lambda>(pr, since). do {
       now \<leftarrow> time_now;
       attempt (SumCostByProject p since) (\<lambda>(total, i1, o1).
       attempt (SumCostByProject p (now - 7 * dayLength)) (\<lambda>(week, i2, o2).
       attempt (SumCostByProject p (now - 30 * dayLength)) (\<lambda>(month, i3, o3).
       attempt (ListCostsByProjectByStory p since) (\<lambda>byStory.
         ok \<lparr>csm_total = total, csm_week = week, csm_month = month, csm_average = averageCost byStory,
             csm_budget = project_max_budget pr, csm_start = since, csm_end = now\<rparr>)))) })"

definition GetProjectCostChart :: "uuid \<Rightarrow> string \<Rightarrow> (int \<times> real) list fop" where
  "GetProjectCostChart p period =
     attempt (projectPeriod p period) (\<lambda>(pr, since). ListDailyCostsByProject p since)"

definition GetProjectCostRuns :: "uuid \<Rightarrow> string \<Rightarrow> int \<Rightarrow> int \<Rightarrow> (run_cost list \<times> nat) fop" where
  "GetProjectCostRuns p period page perPage =
     attempt (projectPeriod p period) (\<lambda>(pr, since).
       case paginationToLimitOffset page perPage of (limit, offset) \<Rightarrow>
         attempt (ListCostsByProjectByRunPaginated p since limit offset) (\<lambda>rows.
         attempt (CountCostsByProjectByRun p since) (\<lambda>total. ok (rows, total))))"

definition GetProjectCostsByAgent :: "uuid \<Rightarrow> agent_cost list fop" where
  "GetProjectCostsByAgent p = attempt (GetProjectByID p) (\<lambda>_. ListByProjectByAgent p)"

record roles_report =
  rr_total :: real
  rr_input :: int
  rr_output :: int
  rr_roles :: "(role_cost \<times> nat) list"

definition GetProjectCostsByRole :: "uuid \<Rightarrow> roles_report fop" where
  "GetProjectCostsByRole p =
     attempt (GetProjectByID p) (\<lambda>_.
     attempt (ListByProjectByRole p) (\<lambda>roles.
       ok \<lparr>rr_total = foldl (\<lambda>t x. t + rl_cost (fst x)) 0 roles,
           rr_input = foldl (\<lambda>t x. int64 (t + rl_input (fst x))) 0 roles,
           rr_output = foldl (\<lambda>t x. int64 (t + rl_output (fst x))) 0 roles, rr_roles = roles\<rparr>))"

record story_costs =
  stcs_story :: uuid
  stcs_total :: real
  stcs_input :: int
  stcs_output :: int
  stcs_runs :: nat

definition GetStoryCosts :: "cost_svc \<Rightarrow> uuid \<Rightarrow> uuid \<Rightarrow> story_costs fop" where
  "GetStoryCosts svc p k =
     attempt (GetStoryByID k) (\<lambda>story.
       if story_project story \<noteq> p then fail (NewNotFound ''story'' (U k))
       else attempt (SumCostByStory (cs_scan svc) k) (\<lambda>(total, i, out, n).
         ok \<lparr>stcs_story = k, stcs_total = total, stcs_input = i, stcs_output = out, stcs_runs = n\<rparr>))"

text \<open>A run of another project is not found.\<close>

definition projectRun :: "uuid \<Rightarrow> uuid \<Rightarrow> run fop" where
  "projectRun p i =
     attempt (GetRun i) (\<lambda>run. if run_project run \<noteq> p then fail (NewNotFound ''run'' (U i)) else ok run)"

definition GetRunCosts :: "uuid \<Rightarrow> uuid \<Rightarrow> (real \<times> step_cost list) fop" where
  "GetRunCosts p i =
     attempt (projectRun p i) (\<lambda>_.
     attempt (SumCostByRun i) (\<lambda>total.
     attempt (ListStepCostsByRun i) (\<lambda>steps. ok (total, steps))))"

definition GetRunCostsByRole :: "uuid \<Rightarrow> uuid \<Rightarrow> (real \<times> int \<times> int \<times> role_cost list) fop" where
  "GetRunCostsByRole p i =
     attempt (projectRun p i) (\<lambda>_.
     attempt (SumCostByRun i) (\<lambda>total.
     attempt (SumTokensByRun i) (\<lambda>(tin, tout).
     attempt (ListCostsByRunByRole i) (\<lambda>roles. ok (total, tin, tout, roles)))))"

end
