(* ===== verification/Callbacks.thy ===== *)
theory Callbacks
  imports Costs PlanningImport
begin

text \<open>
  The channel on which an agent container reports back: the bearer tokens
  (\<open>adapter/memory/container_token_store.go\<close>), the status channels
  (\<open>callback_status_store.go\<close>), the middleware that authenticates a callback (\<open>internal_auth.go\<close>),
  the three endpoints (\<open>agent_callback_handler.go\<close>) and, on the other side, the client in the
  container (\<open>agent-runtime/internal/callback/client.go\<close>).
\<close>

section \<open>Container tokens\<close>

text \<open>A token is a fresh identifier; a text that is not a known identifier is \<open>None\<close> or unknown.\<close>

definition tokenTTL :: time where
  "tokenTTL = 2 * 3600 * 1000000000"

definition CreateToken :: "uuid \<Rightarrow> uuid \<Rightarrow> uuid \<Rightarrow> string \<Rightarrow> time \<Rightarrow> uuid op" where
  "CreateToken i j a role ttl = do {
     token \<leftarrow> uuid_new;
     now \<leftarrow> time_now;
     writing (\<lambda>w. (token, w\<lparr>w_tokens := filter (\<lambda>t. tok_token t \<noteq> token) (w_tokens w)
       @ [\<lparr>tok_token = token, tok_run = i, tok_step = j, tok_agent = a, tok_role = role,
            tok_expires = now + ttl\<rparr>]\<rparr>)) }"

definition RevokeToken :: "uuid \<Rightarrow> unit op" where
  "RevokeToken token = writing (\<lambda>w. ((), w\<lparr>w_tokens := filter (\<lambda>t. tok_token t \<noteq> token) (w_tokens w)\<rparr>))"

definition ValidateToken :: "uuid option \<Rightarrow> container_token fop" where
  "ValidateToken token = do {
     found \<leftarrow> reading (\<lambda>w. case token of None \<Rightarrow> None | Some i \<Rightarrow> tbl_find tok_token i (w_tokens w));
     case found of
       None \<Rightarrow> fail (PlainErr [T ''token not found''])
     | Some ct \<Rightarrow> do {
         now \<leftarrow> time_now;
         if tok_expires ct < now
         then do { _ \<leftarrow> RevokeToken (tok_token ct); fail (PlainErr [T ''token expired'']) }
         else ok ct } }"

text \<open>A tick of the clean-up loop.\<close>

definition cleanupTokens :: "unit op" where
  "cleanupTokens = do {
     now \<leftarrow> time_now;
     writing (\<lambda>w. ((), w\<lparr>w_tokens := filter (\<lambda>t. \<not> tok_expires t < now) (w_tokens w)\<rparr>)) }"

section \<open>Status channels\<close>

text \<open>
  One channel of capacity one for each step: absent, empty or holding the first status sent. A
  second status is dropped while the first is waiting to be received.
\<close>

definition SetStatus :: "uuid \<Rightarrow> int \<Rightarrow> string \<Rightarrow> unit op" where
  "SetStatus j code msg =
     writing (\<lambda>w. ((), w\<lparr>w_channels :=
       (case w_channels w j of
          Some (Some r) \<Rightarrow> w_channels w
        | _ \<Rightarrow> (w_channels w)(j \<mapsto> Some (code, msg)))\<rparr>))"

definition getOrCreateChannel :: "uuid \<Rightarrow> unit op" where
  "getOrCreateChannel j =
     writing (\<lambda>w. ((), case w_channels w j of
       None \<Rightarrow> w\<lparr>w_channels := (w_channels w)(j \<mapsto> None)\<rparr> | Some c \<Rightarrow> w))"

definition removeChannel :: "uuid \<Rightarrow> unit op" where
  "removeChannel j = writing (\<lambda>w. ((), w\<lparr>w_channels := (w_channels w)(j := None)\<rparr>))"

text \<open>
  What ends the wait for a status is decided outside: which case of the \<open>select\<close> fires. A case
  that says a status was received when the channel holds none is the timer's.
\<close>

datatype wake = WakeStatus | WakeCancelled | WakeTimeout

definition statusTimeout :: "uuid \<Rightarrow> err" where
  "statusTimeout j = PlainErr [T ''timeout waiting for status callback for step '', U j]"

definition receiveStatus :: "wake \<Rightarrow> uuid \<Rightarrow> (int \<times> string) fop" where
  "receiveStatus wake j = do {
     buffered \<leftarrow> reading (\<lambda>w. case w_channels w j of Some (Some r) \<Rightarrow> Some r | _ \<Rightarrow> None);
     _ \<leftarrow> removeChannel j;
     case wake of
       WakeCancelled \<Rightarrow> fail ErrCtxCancelled
     | WakeTimeout \<Rightarrow> fail (statusTimeout j)
     | WakeStatus \<Rightarrow> (case buffered of Some r \<Rightarrow> ok r | None \<Rightarrow> fail (statusTimeout j)) }"

text \<open>\<open>meanwhile\<close> is what the other processes do until the wait ends.\<close>

definition WaitForStatus :: "unit op \<Rightarrow> (world \<Rightarrow> wake) \<Rightarrow> uuid \<Rightarrow> (int \<times> string) fop" where
  "WaitForStatus meanwhile wake j = do {
     _ \<leftarrow> getOrCreateChannel j;
     _ \<leftarrow> meanwhile;
     k \<leftarrow> reading wake;
     receiveStatus k j }"

section \<open>Authentication\<close>

text \<open>A response: its status code and the code of its error, empty for a success.\<close>

type_synonym response = "int \<times> string"

definition respond :: "int \<Rightarrow> string \<Rightarrow> response op" where
  "respond n code = State_Monad.return (n, code)"

text \<open>The authorization header: absent or not a bearer, or the token it carries.\<close>

definition InternalAuth :: "uuid option option \<Rightarrow> (container_token \<Rightarrow> response op) \<Rightarrow> response op" where
  "InternalAuth header next =
     (case header of
        None \<Rightarrow> respond 401 ''UNAUTHORIZED''
      | Some token \<Rightarrow> do {
          r \<leftarrow> ValidateToken token;
          case r of Inl e \<Rightarrow> respond 401 ''INVALID_TOKEN'' | Inr ct \<Rightarrow> next ct })"

section \<open>The endpoints\<close>

definition parseRunStepIDs :: "uuid option \<Rightarrow> uuid option \<Rightarrow> (uuid \<Rightarrow> uuid \<Rightarrow> response op) \<Rightarrow> response op" where
  "parseRunStepIDs run step next =
     (case run of None \<Rightarrow> respond 400 ''INVALID_RUN_ID''
      | Some i \<Rightarrow> (case step of None \<Rightarrow> respond 400 ''INVALID_STEP_ID'' | Some j \<Rightarrow> next i j))"

text \<open>A log event as the payload of an event; the empty optional fields are left out.\<close>

definition zeroTime :: jval where
  "zeroTime = JStr ''0001-01-01T00:00:00Z''"

definition logPayload :: "jval \<Rightarrow> jval \<Rightarrow> jval \<Rightarrow> string \<Rightarrow> (string \<times> jval) list" where
  "logPayload run step message typ =
     [(''run_id'', run), (''step_id'', step), (''timestamp'', zeroTime), (''level'', JStr []),
      (''message'', message), (''raw_line'', JStr []), (''is_json'', JBool False), (''type'', JStr typ)]"

definition HandleLogs :: "uuid option \<Rightarrow> uuid option \<Rightarrow> string list option \<Rightarrow> response op" where
  "HandleLogs run step body = parseRunStepIDs run step (\<lambda>i j.
     case body of None \<Rightarrow> respond 400 ''INVALID_BODY''
     | Some ls \<Rightarrow> do {
         r \<leftarrow> GetRun i;
         case r of Inl e \<Rightarrow> respond 404 ''RUN_NOT_FOUND''
         | Inr run \<Rightarrow> do {
             _ \<leftarrow> for_each ls (\<lambda>l. publishEvent (run_project run) ''log'' j ''emitted''
                    (logPayload (JStr []) (JStr []) (JStr l) ''stdout''));
             _ \<leftarrow> (if ls = [] then ok () else AppendStepLogTail j (join_strings [CHR 0x0A] ls @ [CHR 0x0A]));
             respond 200 [] } })"

definition HandleCost :: "cost_svc \<Rightarrow> uuid option \<Rightarrow> uuid option \<Rightarrow> cost_event option \<Rightarrow> response op" where
  "HandleCost svc run step body = parseRunStepIDs run step (\<lambda>_ j.
     case body of None \<Rightarrow> respond 400 ''INVALID_BODY''
     | Some e \<Rightarrow> do {
         s \<leftarrow> GetRunStep j;
         case s of Inl err \<Rightarrow> respond 404 ''STEP_NOT_FOUND''
         | Inr s \<Rightarrow> do {
             r \<leftarrow> GetRun (rs_run s);
             case r of Inl err \<Rightarrow> respond 404 ''RUN_NOT_FOUND''
             | Inr r \<Rightarrow> do {
                 _ \<leftarrow> RecordStepCost svc j (run_project r) [e] None;
                 respond 200 [] } } })"

definition HandleStatus :: "uuid option \<Rightarrow> uuid option \<Rightarrow> (int \<times> string) option \<Rightarrow> response op" where
  "HandleStatus run step body = parseRunStepIDs run step (\<lambda>_ j.
     case body of None \<Rightarrow> respond 400 ''INVALID_BODY''
     | Some (code, msg) \<Rightarrow> do { _ \<leftarrow> SetStatus j code msg; respond 204 [] })"

text \<open>The routes, all behind the same authentication; the endpoints do not look at the token.\<close>

datatype callback =
    PostLogs "string list option"
  | PostCost "cost_event option"
  | PostStatus "(int \<times> string) option"

record request =
  rq_bearer :: "uuid option option"
  rq_run :: "uuid option"
  rq_step :: "uuid option"
  rq_body :: callback

definition serveCallback :: "cost_svc \<Rightarrow> request \<Rightarrow> response op" where
  "serveCallback svc rq = InternalAuth (rq_bearer rq) (\<lambda>_.
     case rq_body rq of
       PostLogs b \<Rightarrow> HandleLogs (rq_run rq) (rq_step rq) b
     | PostCost b \<Rightarrow> HandleCost svc (rq_run rq) (rq_step rq) b
     | PostStatus b \<Rightarrow> HandleStatus (rq_run rq) (rq_step rq) b)"

section \<open>The client in the container\<close>

text \<open>
  A post is tried three times. A request can be lost before it reaches the server, or its response
  can be lost, and the context can end before an attempt; \<open>deliveries\<close> says for each attempt which of
  these happens. The client retries on a lost request or response, a server error and a 429; another
  client error ends it.
\<close>

record client =
  cl_base :: string
  cl_run :: uuid
  cl_step :: uuid
  cl_token :: uuid

datatype delivery = Delivered | RequestLost | ResponseLost | ContextEnded

definition clientRequest :: "client \<Rightarrow> callback \<Rightarrow> request" where
  "clientRequest c b =
     \<lparr>rq_bearer = Some (Some (cl_token c)), rq_run = Some (cl_run c), rq_step = Some (cl_step c), rq_body = b\<rparr>"

definition requestFailed :: err where
  "requestFailed = WrapErr [T ''callback request failed''] (PlainErr [T ''connection lost''])"

definition badStatus :: "string \<Rightarrow> int \<Rightarrow> msg \<Rightarrow> err" where
  "badStatus what n url = PlainErr ([T ''callback returned '', T what, T '' status '', N n, T '' for ''] @ url)"

fun postAttempts :: "(request \<Rightarrow> response op) \<Rightarrow> msg \<Rightarrow> request \<Rightarrow> delivery list \<Rightarrow> nat \<Rightarrow> err \<Rightarrow> unit fop" where
  "postAttempts serve url rq ds 0 lastErr =
     fail (WrapErr [T ''callback failed after '', N 3, T '' attempts''] lastErr)"
| "postAttempts serve url rq ds (Suc n) lastErr =
     (case ds of
        ContextEnded # ds' \<Rightarrow> fail ErrCtxCancelled
      | RequestLost # ds' \<Rightarrow> postAttempts serve url rq ds' n requestFailed
      | ResponseLost # ds' \<Rightarrow> do { _ \<leftarrow> serve rq; postAttempts serve url rq ds' n requestFailed }
      | _ \<Rightarrow> do {
          (status, code) \<leftarrow> serve rq;
          if 200 \<le> status \<and> status < 300 then ok ()
          else if 400 \<le> status \<and> status < 500 \<and> status \<noteq> 429
          then fail (badStatus ''non-retryable'' status url)
          else postAttempts serve url rq (tl ds) n (badStatus ''retryable'' status url) })"

definition maxRetries :: nat where
  "maxRetries = 3"

definition callbackURL :: "client \<Rightarrow> string \<Rightarrow> msg" where
  "callbackURL c what =
     [T (cl_base c), T ''/internal/agent/callback/runs/'', U (cl_run c), T ''/steps/'', U (cl_step c), T what]"

definition postJSON :: "(request \<Rightarrow> response op) \<Rightarrow> client \<Rightarrow> delivery list \<Rightarrow> msg \<Rightarrow> callback \<Rightarrow> unit fop" where
  "postJSON serve c ds url b = postAttempts serve url (clientRequest c b) ds maxRetries (PlainErr [])"

definition SendLog :: "(request \<Rightarrow> response op) \<Rightarrow> client \<Rightarrow> delivery list \<Rightarrow> string \<Rightarrow> unit fop" where
  "SendLog serve c ds message = postJSON serve c ds (callbackURL c ''/logs'') (PostLogs (Some [message]))"

definition SendCost :: "(request \<Rightarrow> response op) \<Rightarrow> client \<Rightarrow> delivery list \<Rightarrow> cost_event \<Rightarrow> unit fop" where
  "SendCost serve c ds e = postJSON serve c ds (callbackURL c ''/cost'') (PostCost (Some e))"

definition SendStatus :: "(request \<Rightarrow> response op) \<Rightarrow> client \<Rightarrow> delivery list \<Rightarrow> int \<Rightarrow> string \<Rightarrow> unit fop" where
  "SendStatus serve c ds code msg = postJSON serve c ds (callbackURL c ''/status'') (PostStatus (Some (code, msg)))"

end
