(* ===== verification/AgentEnv.thy ===== *)
theory AgentEnv
  imports Callbacks
begin

text \<open>
  What an agent is told: the connection strings of its sidecar services
  (\<open>adapter/action/agent_run_environment.go\<close> with \<open>model/service_type.go\<close> and the parts of
  \<open>net/url\<close> it uses), the project context and the story section (\<open>buildClaudeMD\<close>,
  \<open>buildStorySection\<close> of \<open>agent_run.go\<close>) and the memory of the last failed run
  (\<open>priorFailureContext\<close>).
\<close>

section \<open>Texts\<close>

definition nl :: string where
  "nl = [CHR 0x0A]"

text \<open>The dash between spaces, in UTF-8.\<close>

definition emDash :: string where
  "emDash = '' '' @ [CHR 0xE2, CHR 0x80, CHR 0x94] @ '' ''"

definition derefString :: "string option \<Rightarrow> string" where
  "derefString s = (case s of None \<Rightarrow> [] | Some x \<Rightarrow> x)"

section \<open>Percent-encoding\<close>

text \<open>\<open>url.escape\<close> of a user name or password, of a path and of a host, and \<open>unescape\<close>.\<close>

datatype encoding = EncodeUserPassword | EncodePath | EncodeHost

definition alnum :: "char \<Rightarrow> bool" where
  "alnum c \<longleftrightarrow> (let n = of_char c :: nat in (97 \<le> n \<and> n \<le> 122) \<or> (65 \<le> n \<and> n \<le> 90) \<or> (48 \<le> n \<and> n \<le> 57))"

definition shouldEscape :: "encoding \<Rightarrow> char \<Rightarrow> bool" where
  "shouldEscape mode c =
     (if alnum c then False
      else if mode = EncodeHost \<and> c \<in> set (''!$&()*+,;=:[]<>'' @ [CHR 0x27, CHR 0x22]) then False
      else if c \<in> set ''-_.~'' then False
      else if c \<in> set ''$&+,/:;=?@'' then
        (case mode of
           EncodePath \<Rightarrow> c = CHR ''?''
         | EncodeUserPassword \<Rightarrow> c \<in> set ''@/?:''
         | EncodeHost \<Rightarrow> True)
      else True)"

definition upperHex :: "nat \<Rightarrow> char" where
  "upperHex n = (if n < 10 then char_of (48 + n) else char_of (55 + n))"

definition escapeChar :: "encoding \<Rightarrow> char \<Rightarrow> string" where
  "escapeChar mode c =
     (if shouldEscape mode c
      then [CHR 0x25, upperHex (of_char c div 16), upperHex (of_char c mod 16)] else [c])"

definition escape :: "encoding \<Rightarrow> string \<Rightarrow> string" where
  "escape mode s = concat (map (escapeChar mode) s)"

definition unhex :: "char \<Rightarrow> nat option" where
  "unhex c = (let n = of_char c :: nat in
     if 48 \<le> n \<and> n \<le> 57 then Some (n - 48)
     else if 97 \<le> n \<and> n \<le> 102 then Some (n - 87)
     else if 65 \<le> n \<and> n \<le> 70 then Some (n - 55) else None)"

fun unescape :: "string \<Rightarrow> string option" where
  "unescape [] = Some []"
| "unescape (c # s) =
     (if c = CHR 0x25 then
        (case s of
           a # b # r \<Rightarrow> (case (unhex a, unhex b) of
               (Some x, Some y) \<Rightarrow> map_option (Cons (char_of (16 * x + y))) (unescape r)
             | _ \<Rightarrow> None)
         | _ \<Rightarrow> None)
      else map_option (Cons c) (unescape s))"

text \<open>The user information of a URL and the URL, as \<open>url.URL.String\<close> writes them.\<close>

type_synonym userinfo = "(string \<times> string option) option"

definition userinfoText :: "string \<times> string option \<Rightarrow> string" where
  "userinfoText u = escape EncodeUserPassword (fst u) @
     (case snd u of None \<Rightarrow> [] | Some p \<Rightarrow> CHR '':'' # escape EncodeUserPassword p)"

definition urlText :: "string \<Rightarrow> userinfo \<Rightarrow> string \<Rightarrow> string \<Rightarrow> string" where
  "urlText scheme user host path =
     scheme @ ''://'' @ (case user of None \<Rightarrow> [] | Some u \<Rightarrow> userinfoText u @ ''@'')
     @ escape EncodeHost host @ escape EncodePath path"

section \<open>Service types\<close>

definition servicePorts :: "(string \<times> int) list" where
  "servicePorts = [(''postgres'', 5432), (''redis'', 6379), (''mysql'', 3306), (''mariadb'', 3306),
     (''mongo'', 27017), (''elasticsearch'', 9200), (''mailhog'', 1025)]"

text \<open>The part after the last slash, up to the first colon or at sign, in lower case (ASCII).\<close>

definition afterLast :: "char \<Rightarrow> string \<Rightarrow> string" where
  "afterLast c s = rev (takeWhile (\<lambda>x. x \<noteq> c) (rev s))"

definition DetectServiceType :: "string \<Rightarrow> string" where
  "DetectServiceType img =
     (let ref = ToLower (takeWhile (\<lambda>c. c \<noteq> CHR '':'' \<and> c \<noteq> CHR ''@'') (afterLast (CHR ''/'') img))
      in if map_of servicePorts ref \<noteq> None then ref else [])"

definition ServicePort :: "string \<Rightarrow> int" where
  "ServicePort typ = (case map_of servicePorts typ of None \<Rightarrow> 0 | Some p \<Rightarrow> p)"

section \<open>Connection strings\<close>

definition envOr :: "(string \<rightharpoonup> string) \<Rightarrow> string \<Rightarrow> string \<Rightarrow> string" where
  "envOr env key d = (case env key of None \<Rightarrow> d | Some v \<Rightarrow> if v = [] then d else v)"

definition userInfo :: "string \<Rightarrow> string \<Rightarrow> userinfo" where
  "userInfo user pass =
     (if user = [] then None else if pass = [] then Some (user, None) else Some (user, Some pass))"

definition connStringsForService :: "env_service \<Rightarrow> string list" where
  "connStringsForService svc =
     (let typ = DetectServiceType (svc_image svc);
          hostport = svc_name svc @ '':'' @ show_int (ServicePort typ);
          env = svc_env svc
      in
      if typ = ''postgres'' then
        (let user = envOr env ''POSTGRES_USER'' ''postgres'';
             pass = envOr env ''POSTGRES_PASSWORD'' ''postgres'';
             db = envOr env ''POSTGRES_DB'' user
         in [''DATABASE_URL='' @ urlText ''postgres'' (Some (user, Some pass)) hostport (''/'' @ db)])
      else if typ = ''mysql'' \<or> typ = ''mariadb'' then
        (let user = envOr env ''MYSQL_USER'' ''root'';
             pass = envOr env ''MYSQL_PASSWORD'' (envOr env ''MYSQL_ROOT_PASSWORD'' []);
             db = envOr env ''MYSQL_DATABASE'' []
         in [''DATABASE_URL='' @ urlText ''mysql'' (userInfo user pass) hostport (''/'' @ db)])
      else if typ = ''redis'' then
        (let pass = envOr env ''REDIS_PASSWORD'' []
         in [''REDIS_URL='' @ urlText ''redis'' (if pass = [] then None else Some ([], Some pass)) hostport ''/0''])
      else if typ = ''mongo'' then
        (let user = envOr env ''MONGO_INITDB_ROOT_USERNAME'' [];
             pass = envOr env ''MONGO_INITDB_ROOT_PASSWORD'' []
         in [''MONGODB_URL='' @ urlText ''mongodb'' (userInfo user pass) hostport []])
      else if typ = ''elasticsearch'' then [''ELASTICSEARCH_URL='' @ urlText ''http'' None hostport []]
      else if typ = ''mailhog'' then
        [''SMTP_HOST='' @ svc_name svc, ''SMTP_PORT='' @ show_int (ServicePort typ)]
      else [])"

definition buildConnStrings :: "environment option \<Rightarrow> string list" where
  "buildConnStrings env = (case env of None \<Rightarrow> [] | Some e \<Rightarrow> concat (map connStringsForService (env_services e)))"

section \<open>The context of the project and the story\<close>

definition storyRef :: "story \<Rightarrow> string" where
  "storyRef s = (if story_title s = [] then story_key s else story_key s @ emDash @ story_title s)"

definition optionalBlock :: "string \<Rightarrow> string option \<Rightarrow> string" where
  "optionalBlock label x = (if derefString x = [] then [] else nl @ label @ derefString x @ nl)"

definition provenanceLine :: "story \<Rightarrow> string" where
  "provenanceLine s =
     (if story_source s = ''github_projects'' \<and> story_source_url s \<noteq> None
      then ''Source: github'' @ emDash @ derefString (story_source_url s) @ nl
      else if story_source s = ''markdown'' then ''Source: markdown:'' @ story_key s @ nl
      else ''Source: manual:'' @ story_key s @ nl)"

definition buildStorySection :: "story \<Rightarrow> string" where
  "buildStorySection s =
     ''## Story'' @ nl @ storyRef s @ nl @ provenanceLine s
     @ optionalBlock ''Objective: '' (story_objective s) @ optionalBlock ''Scope: '' (story_scope s)
     @ (if elems (story_target_files s) = [] then []
        else nl @ ''Target files: '' @ join_strings '', '' (elems (story_target_files s)) @ nl)
     @ optionalBlock (''Acceptance criteria:'' @ nl) (story_acceptance s)"

definition reviewerMD :: "project \<Rightarrow> story \<Rightarrow> string" where
  "reviewerMD p s =
     ''# Agent context'' @ emDash @ project_name p @ nl @ nl
     @ ''You are the **reviewer** agent. Review the changes made for story '' @ story_key s
     @ '' against the acceptance criteria.'' @ nl @ nl
     @ ''## Project'' @ nl @ derefString (project_description p) @ nl
     @ ''Repository: '' @ derefString (project_repo_url p) @ nl @ nl
     @ buildStorySection s @ nl
     @ ''## The changes to review'' @ nl
     @ ''Inspect the diff for this story yourself with `git diff origin/main...HEAD` and `git log -p origin/main..HEAD`. Review only those changes.'' @ nl @ nl
     @ ''## Review checklist'' @ nl @ ''- Acceptance criteria are met.'' @ nl
     @ ''- The project builds and tests pass (verify or note if you cannot).'' @ nl
     @ ''- No secrets, tokens, or credentials are committed.'' @ nl
     @ ''- No unrelated changes are included.'' @ nl
     @ ''- Code follows existing style and conventions.'' @ nl @ nl
     @ ''Be concise and specific. Flag blockers clearly.'' @ nl"

definition implementerMD :: "project \<Rightarrow> story \<Rightarrow> string" where
  "implementerMD p s =
     ''# Agent context'' @ emDash @ project_name p @ nl @ nl
     @ ''You are the **implementer** agent. Implement the task described in your prompt, scoped to story ''
     @ storyRef s @ ''.'' @ nl @ nl
     @ ''## Project'' @ nl @ derefString (project_description p) @ nl
     @ ''Repository: '' @ derefString (project_repo_url p) @ nl @ nl
     @ buildStorySection s @ nl
     @ ''## Conventions'' @ nl
     @ ''- Follow the existing structure, style, and conventions of the repository.'' @ nl
     @ ''- Keep your changes scoped to the story. Do not refactor unrelated code.'' @ nl
     @ ''- Never commit secrets, tokens, or credentials.'' @ nl @ nl
     @ ''## Definition of done'' @ emDash @ ''MANDATORY before you finish'' @ nl
     @ ''1. The project BUILDS. Run the build and make it succeed.'' @ nl
     @ ''2. The TESTS pass. Run the test suite; everything must be green.'' @ nl
     @ ''3. If the build or tests fail, FIX the code and re-run until they pass. Do NOT finish with a broken build or failing tests.'' @ nl"

definition buildClaudeMD :: "project \<Rightarrow> string \<Rightarrow> story \<Rightarrow> string" where
  "buildClaudeMD p role s =
     (if role = ''review'' \<or> role = ''reviewer'' then reviewerMD p s else implementerMD p s)"

section \<open>The memory of the last failure\<close>

text \<open>\<open>ListRunsByStory\<close>: the newest runs of a story.\<close>

definition ListRunsByStory :: "uuid \<Rightarrow> nat \<Rightarrow> nat \<Rightarrow> run list fop" where
  "ListRunsByStory k limit offset =
     db_op ''failed to list runs by story''
       (reading (\<lambda>w. Inr (take limit (drop offset (rev (filter (\<lambda>r. run_story r = k) (w_runs w)))))))"

text \<open>The first failed step, else the last step.\<close>

definition failedStep :: "run_step list \<Rightarrow> run_step option" where
  "failedStep ss =
     (case find (\<lambda>s. rs_status s = StepStatusFailed) ss of
        Some s \<Rightarrow> Some s | None \<Rightarrow> if ss = [] then None else Some (last ss))"

definition msgEmpty :: "msg option \<Rightarrow> bool" where
  "msgEmpty m = (case m of None \<Rightarrow> True | Some x \<Rightarrow> list_all frag_empty x)"

definition failureReason :: "run \<Rightarrow> run_step option \<Rightarrow> msg" where
  "failureReason r target =
     (if \<not> msgEmpty (run_error r) then the (run_error r)
      else (case target of
          None \<Rightarrow> [T ''(no error message recorded)'']
        | Some s \<Rightarrow> if \<not> msgEmpty (rs_error s) then the (rs_error s) else [T ''(no error message recorded)'']))"

definition logSnippet :: "run_step option \<Rightarrow> string" where
  "logSnippet target =
     (case target of None \<Rightarrow> []
      | Some s \<Rightarrow> (let t = derefString (rs_log_tail s) in drop (length t - 1500) t))"

definition failureBlock :: "run \<Rightarrow> run_step list \<Rightarrow> msg" where
  "failureBlock r ss =
     [T (nl @ nl @ ''## Previous attempt for this story FAILED'' @ emDash @ ''learn from it'' @ nl @ ''Reason: '')]
     @ failureReason r (failedStep ss) @ [T nl]
     @ (if logSnippet (failedStep ss) = [] then []
        else [T (''Recent log output from the failed attempt:'' @ nl @ logSnippet (failedStep ss) @ nl)])
     @ [T (''Do not repeat the mistake that caused this failure.'' @ nl)]"

definition priorFailureContext :: "uuid \<Rightarrow> uuid \<Rightarrow> msg op" where
  "priorFailureContext k current = do {
     rs \<leftarrow> ListRunsByStory k 10 0;
     case rs of
       Inl e \<Rightarrow> State_Monad.return []
     | Inr rs \<Rightarrow>
         (case find (\<lambda>r. run_id r \<noteq> current \<and> run_status r = RunStatusFailed) rs of
            None \<Rightarrow> State_Monad.return []
          | Some r \<Rightarrow> do {
              ss \<leftarrow> ListRunStepsByRun (run_id r);
              State_Monad.return (case ss of Inl e \<Rightarrow> [] | Inr ss \<Rightarrow> failureBlock r ss) }) }"

end
