(* ===== verification/AgentRun.thy ===== *)
theory AgentRun
  imports AgentEnv Actions
begin

text \<open>
  The action that runs a coding agent in a container: \<open>agent_run.go\<close>, \<open>agent_run_commands.go\<close> and
  \<open>agent_run_environment.go\<close> of \<open>backend/internal/adapter/action\<close>. What the container manager, the
  sidecar manager and the execution substrate answer is a parameter, their effects are the trace
  \<open>w_calls\<close>; so are what other processes do while the action waits, and which of the events it waits
  for comes first.
\<close>

section \<open>The action's surroundings\<close>

record template_context =
  tc_story_key :: string
  tc_story_title :: string
  tc_objective :: string
  tc_target_files :: "string list option"
  tc_criteria :: string
  tc_error_context :: msg
  tc_log_tail :: msg
  tc_diff :: string
  tc_branch :: string
  tc_repo :: string

record log_event =
  le_type :: string
  le_message :: string
  le_input :: int
  le_output :: int
  le_model :: string
  le_payload :: "(string \<times> jval) list"

text \<open>A followed container: its log, its exit code, and whether the context was cancelled before.\<close>

record stream =
  st_events :: "log_event list"
  st_exit :: int
  st_cancelled :: bool

record agent_env =
  ae_memory :: int
  ae_cpus :: real
  ae_network :: string
  ae_isolate :: bool
  ae_tail_lines :: int
  ae_status_store :: bool
  ae_token_store :: bool
  ae_runtime :: bool
  ae_callback_url :: string
  ae_getenv :: "string \<Rightarrow> string"
  ae_raymond :: "string \<Rightarrow> (string \<times> jval) list \<Rightarrow> msg res"
  ae_auth_url :: "string \<Rightarrow> string \<times> string option \<Rightarrow> string res"
  ae_api_key :: "(uuid \<Rightarrow> string \<Rightarrow> world \<Rightarrow> string res) option"
  ae_parse_uuid :: "string \<rightharpoonup> uuid"
  ae_costs :: cost_svc
  ae_create :: "container_opts \<Rightarrow> world \<Rightarrow> string res"
  ae_start :: "string \<Rightarrow> world \<Rightarrow> unit res"
  ae_exit_code :: "string \<Rightarrow> world \<Rightarrow> int res"
  ae_sidecars :: "uuid \<Rightarrow> environment option \<Rightarrow> world \<Rightarrow> string option res"
  ae_launch :: "run_spec \<Rightarrow> world \<Rightarrow> string res"
  ae_exited :: "string \<Rightarrow> world \<Rightarrow> int res option"
  ae_arrived :: "world \<Rightarrow> bool"
  ae_stream :: "string \<Rightarrow> world \<Rightarrow> stream res"
  ae_meanwhile :: "nat \<Rightarrow> unit op"
  ae_wake :: "world \<Rightarrow> wake"

section \<open>Calls to the outside\<close>

definition outside :: "(world \<Rightarrow> 'a res) \<Rightarrow> ('a \<Rightarrow> call) \<Rightarrow> 'a fop" where
  "outside answer entry = writing (\<lambda>w. case answer w of
       Inl e \<Rightarrow> (Inl e, w) | Inr x \<Rightarrow> (Inr x, w\<lparr>w_calls := w_calls w @ [entry x]\<rparr>))"

definition noteCall :: "call \<Rightarrow> unit op" where
  "noteCall c = writing (\<lambda>w. ((), w\<lparr>w_calls := w_calls w @ [c]\<rparr>))"

text \<open>A stop or a removal is best effort: what it returns is only logged.\<close>

definition stopBestEffort :: "call \<Rightarrow> string \<Rightarrow> unit op" where
  "stopBestEffort c i = do { _ \<leftarrow> noteCall c; writing (\<lambda>w. ((), w\<lparr>w_stops := w_stops w @ [i]\<rparr>)) }"

definition cleanupContainer :: "string \<Rightarrow> unit op" where
  "cleanupContainer i = do { _ \<leftarrow> stopBestEffort (CallStop i) i; stopBestEffort (CallRemove i) i }"

text \<open>\<open>defer\<close>: the clean-up runs whatever the body returns.\<close>

definition deferred :: "unit op \<Rightarrow> 'a fop \<Rightarrow> 'a fop" where
  "deferred cleanup m = do { r \<leftarrow> m; _ \<leftarrow> cleanup; State_Monad.return r }"

text \<open>\<open>%q\<close> of a text without special characters.\<close>

definition quoted :: "string \<Rightarrow> string" where
  "quoted s = [CHR 0x22] @ s @ [CHR 0x22]"

section \<open>Reading the run context\<close>

definition metaStr :: "metadata \<Rightarrow> string \<Rightarrow> string" where
  "metaStr meta k = (case meta k of Some (JStr s) \<Rightarrow> s | _ \<Rightarrow> [])"

definition metaMsg :: "metadata \<Rightarrow> string \<Rightarrow> msg" where
  "metaMsg meta k = (case meta k of Some (JStr s) \<Rightarrow> [T s] | Some (JText m) \<Rightarrow> m | _ \<Rightarrow> [])"

definition resolveRole :: "run_context \<Rightarrow> string" where
  "resolveRole ctx = configValue ctx ''role''"

definition resolveProvider :: "run_context \<Rightarrow> string" where
  "resolveProvider ctx =
     (let p = metaStr (rc_metadata ctx) (stepKey (rs_order (rc_step ctx)) ''provider'')
      in if p = [] then ''claude'' else p)"

definition extractAgentID :: "agent_env \<Rightarrow> run_context \<Rightarrow> uuid option" where
  "extractAgentID ae ctx =
     (let c = configValue ctx ''agent_id'' in
      case (if c = [] then None else ae_parse_uuid ae c) of
        Some i \<Rightarrow> Some i
      | None \<Rightarrow> (case rc_metadata ctx ''agent_id'' of
            Some (JUuid i) \<Rightarrow> Some i
          | Some (JStr s) \<Rightarrow> if s = [] then None else ae_parse_uuid ae s
          | _ \<Rightarrow> None))"

fun containsText :: "string \<Rightarrow> string \<Rightarrow> bool" where
  "containsText pat [] = (pat = [])"
| "containsText pat (c # cs) = (take (length pat) (c # cs) = pat \<or> containsText pat cs)"

definition isCallbackMode :: "agent_env \<Rightarrow> string \<Rightarrow> string \<Rightarrow> bool" where
  "isCallbackMode ae kind img =
     (if \<not> ae_status_store ae then False
      else if kind \<in> {''claude_code'', ''opencode'', ''cma''} then True
      else if kind = [] then containsText ''hopeitworks/agent-'' img
      else False)"

section \<open>The prompt\<close>

text \<open>The data handed to the template library: the log tail of the context is not among them.\<close>

definition templateData :: "template_context \<Rightarrow> (string \<times> jval) list" where
  "templateData tc =
     [(''story_key'', JStr (tc_story_key tc)), (''story_title'', JStr (tc_story_title tc)),
      (''story_objective'', JStr (tc_objective tc)),
      (''target_files'', JText (map T (elems (tc_target_files tc)))),
      (''acceptance_criteria'', JStr (tc_criteria tc)), (''error_context'', JText (tc_error_context tc)),
      (''diff_content'', JStr (tc_diff tc)), (''branch_name'', JStr (tc_branch tc)),
      (''repo_url'', JStr (tc_repo tc))]"

definition Render :: "agent_env \<Rightarrow> string \<Rightarrow> template_context \<Rightarrow> msg res" where
  "Render ae tmpl tc =
     (case ae_raymond ae tmpl (templateData tc) of
        Inl e \<Rightarrow> Inl (DomainError CategoryValidation ''TEMPLATE_RENDER_FAILED''
          ([T ''failed to render template: ''] @ err_text e) (Some e))
      | Inr text \<Rightarrow> Inr text)"

definition templateContext :: "run_context \<Rightarrow> project \<Rightarrow> story \<Rightarrow> template_context" where
  "templateContext ctx p s =
     \<lparr>tc_story_key = story_key s, tc_story_title = story_title s, tc_objective = derefString (story_objective s),
      tc_target_files = story_target_files s, tc_criteria = derefString (story_acceptance s),
      tc_error_context = metaMsg (rc_metadata ctx) ''error_context'',
      tc_log_tail = metaMsg (rc_metadata ctx) ''log_tail'', tc_diff = [],
      tc_branch = metaStr (rc_metadata ctx) ''branch_name'', tc_repo = derefString (project_repo_url p)\<rparr>"

definition renderPrompt :: "agent_env \<Rightarrow> run_context \<Rightarrow> project \<Rightarrow> story \<Rightarrow> msg fop" where
  "renderPrompt ae ctx p s =
     (let tmpl = metaStr (rc_metadata ctx) ''template_content'' in
      if tmpl = [] then ok []
      else case Render ae tmpl (templateContext ctx p s) of
          Inl e \<Rightarrow> fail (WrapErr [T ''render prompt template''] e) | Inr prompt \<Rightarrow> ok prompt)"

section \<open>The environment of the project\<close>

definition GetEnvironment :: "uuid \<Rightarrow> environment fop" where
  "GetEnvironment p =
     db_op ''failed to get environment by project id'' (find_row w_environments env_project ''environment'' p)"

definition resolveEnvironment :: "uuid \<Rightarrow> environment option fop" where
  "resolveEnvironment p = do {
     r \<leftarrow> GetEnvironment p;
     case r of
       Inl e \<Rightarrow> if isNotFound e then ok None else fail e
     | Inr env \<Rightarrow> ok (Some env) }"

definition GetStackByKey :: "string \<Rightarrow> stack fop" where
  "GetStackByKey key =
     db_op ''failed to get stack by key''
       (reading (\<lambda>w. case find (\<lambda>s. stack_key s = key) (w_stacks w) of
           None \<Rightarrow> Inl (NewNotFound ''stack'' (T key)) | Some s \<Rightarrow> Inr s))"

definition fallbackImage :: "string \<Rightarrow> string fop" where
  "fallbackImage img =
     (if img \<noteq> [] then ok img
      else fail (PlainErr [T ''no stack declared and no fallback agent image available'']))"

definition resolveCommandImage :: "environment \<Rightarrow> string \<Rightarrow> string fop" where
  "resolveCommandImage env img =
     (case env_stacks env of
        [] \<Rightarrow> fallbackImage img
      | key # _ \<Rightarrow> do {
          r \<leftarrow> GetStackByKey key;
          case r of
            Inr s \<Rightarrow> if stack_image_ref s \<noteq> [] then ok (stack_image_ref s) else fallbackImage img
          | Inl e \<Rightarrow> if isNotFound e then fallbackImage img
              else fail (WrapErr [T ''lookup stack '', T (quoted key)] e) })"

section \<open>The git credentials\<close>

definition gitTokenEnvName :: "project \<Rightarrow> string" where
  "gitTokenEnvName p = (let e = derefString (project_git_token_env p) in if e = [] then ''GITHUB_TOKEN'' else e)"

definition gitEnv :: "agent_env \<Rightarrow> project \<Rightarrow> msg list" where
  "gitEnv ae p =
     (let token = ae_getenv ae (gitTokenEnvName p) in
      [[T ''REPO_URL='', T (derefString (project_repo_url p))], [T ''GIT_TOKEN='', T token],
       [T ''GIT_PROVIDER='', T (project_git_provider p)], [T ''GITHUB_TOKEN='', T token]])"

definition authenticatedRepoURL :: "agent_env \<Rightarrow> project \<Rightarrow> string res" where
  "authenticatedRepoURL ae p =
     (let url = derefString (project_repo_url p); token = ae_getenv ae (gitTokenEnvName p) in
      if url = [] then Inl (PlainErr [T ''project has no repo URL''])
      else case ae_auth_url ae url (if project_git_provider p = ''gitea'' then (''oauth2'', Some token) else (token, None)) of
          Inl e \<Rightarrow> Inl (WrapErr [T ''parse repo URL''] e) | Inr u \<Rightarrow> Inr u)"

section \<open>Setup commands\<close>

definition commandOrder :: "string list" where
  "commandOrder = [''build'', ''migrate'', ''seed'', ''test'']"

definition cloneURLEnv :: string where
  "cloneURLEnv = ''HOPEITWORKS_CLONE_URL''"

definition commandScript :: "string \<Rightarrow> string" where
  "commandScript command =
     ''set -e; git clone --depth 1 --branch '' @ [CHR 0x22] @ ''$BRANCH_NAME'' @ [CHR 0x22] @ '' '' @ [CHR 0x22]
     @ ''$'' @ cloneURLEnv @ [CHR 0x22] @ '' /workspace/repo; cd /workspace/repo; '' @ command"

record command_spec =
  cms_image :: string
  cms_clone_url :: string
  cms_branch :: string
  cms_git_env :: "msg list"
  cms_extra_env :: "string list"
  cms_run :: uuid
  cms_network :: "string option"

definition commandLabels :: "uuid \<Rightarrow> string \<Rightarrow> (string \<times> msg) list" where
  "commandLabels i key =
     [(''managed_by'', [T ''hopeitworks'']), (''role'', [T ''env_command'']), (''command_key'', [T key]),
      (''run_id'', [U i])]"

definition commandOpts :: "agent_env \<Rightarrow> string \<Rightarrow> string \<Rightarrow> command_spec \<Rightarrow> container_opts" where
  "commandOpts ae key command spec =
     \<lparr>co_image = cms_image spec, co_network = derefString (cms_network spec), co_memory = ae_memory ae,
      co_cpus = ae_cpus ae,
      co_env = cms_git_env spec @ map (\<lambda>e. [T e]) (cms_extra_env spec)
        @ [[T ''BRANCH_NAME='', T (cms_branch spec)], [T cloneURLEnv, T ''='', T (cms_clone_url spec)]],
      co_labels = commandLabels (cms_run spec) key, co_extra_networks = [],
      co_entrypoint = [''sh'', ''-lc''], co_cmd = [commandScript command]\<rparr>"

text \<open>The error carries the key and the exit code only, never the output of the command.\<close>

definition commandFailed :: "string \<Rightarrow> int \<Rightarrow> err" where
  "commandFailed key code =
     PlainErr [T ''environment command '', T (quoted key), T '' failed with exit code '', N code]"

definition runOneCommand :: "agent_env \<Rightarrow> string \<Rightarrow> string \<Rightarrow> command_spec \<Rightarrow> unit fop" where
  "runOneCommand ae key command spec =
     attempt (wrap_err (WrapErr [T ''create '', T key, T '' command container''])
         (outside (ae_create ae (commandOpts ae key command spec)) (CallCreate (commandOpts ae key command spec)))) (\<lambda>i.
       deferred (cleanupContainer i)
         (attempt (wrap_err (WrapErr [T ''start '', T key, T '' command container''])
             (outside (ae_start ae i) (\<lambda>_. CallStart i))) (\<lambda>_.
          attempt (wrap_err (WrapErr [T ''wait '', T key, T '' command container'']) (reading (ae_exit_code ae i)))
            (\<lambda>code. if code \<noteq> 0 then fail (commandFailed key code) else ok ()))))"

fun runCommands :: "agent_env \<Rightarrow> environment \<Rightarrow> command_spec \<Rightarrow> string list \<Rightarrow> unit fop" where
  "runCommands ae env spec [] = ok ()"
| "runCommands ae env spec (key # keys) =
     (case map_of (env_commands env) key of
        None \<Rightarrow> runCommands ae env spec keys
      | Some command \<Rightarrow>
          if TrimSpace command = [] then runCommands ae env spec keys
          else attempt (runOneCommand ae key command spec) (\<lambda>_. runCommands ae env spec keys))"

definition runEnvironmentCommands ::
  "agent_env \<Rightarrow> environment option \<Rightarrow> string option \<Rightarrow> project \<Rightarrow> uuid \<Rightarrow> string \<Rightarrow> string \<Rightarrow> string list \<Rightarrow> unit fop" where
  "runEnvironmentCommands ae env network p i branch img extra =
     (case env of
        None \<Rightarrow> ok ()
      | Some env \<Rightarrow>
          if env_commands env = [] then ok ()
          else attempt (wrap_err (WrapErr [T ''resolve command image'']) (resolveCommandImage env img)) (\<lambda>cimg.
            case authenticatedRepoURL ae p of
              Inl e \<Rightarrow> fail (WrapErr [T ''build authenticated repo url''] e)
            | Inr url \<Rightarrow>
                runCommands ae env
                  \<lparr>cms_image = cimg, cms_clone_url = url, cms_branch = branch, cms_git_env = gitEnv ae p,
                   cms_extra_env = extra, cms_run = i, cms_network = network\<rparr> commandOrder))"

section \<open>The callback channel of a run\<close>

definition prepareCallback :: "agent_env \<Rightarrow> run_context \<Rightarrow> string \<Rightarrow> callback_spec option op" where
  "prepareCallback ae ctx role =
     (if \<not> isCallbackMode ae (metaStr (rc_metadata ctx) ''runtime_kind'') (metaStr (rc_metadata ctx) ''agent_image'')
      then State_Monad.return None
      else do {
        token \<leftarrow> (if ae_token_store ae
          then do {
            t \<leftarrow> CreateToken (run_id (rc_run ctx)) (rs_id (rc_step ctx))
                   (case extractAgentID ae ctx of None \<Rightarrow> uuid_nil | Some a \<Rightarrow> a) role tokenTTL;
            State_Monad.return (Some t) }
          else State_Monad.return None);
        State_Monad.return (Some \<lparr>cs_url = ae_callback_url ae, cs_token = token, cs_run = run_id (rc_run ctx),
          cs_step = rs_id (rc_step ctx)\<rparr>) })"

definition callbackToken :: "callback_spec option \<Rightarrow> uuid option" where
  "callbackToken cb = (case cb of None \<Rightarrow> None | Some c \<Rightarrow> cs_token c)"

definition revokeCallbackToken :: "agent_env \<Rightarrow> callback_spec option \<Rightarrow> unit op" where
  "revokeCallbackToken ae cb =
     (case callbackToken cb of
        None \<Rightarrow> skip
      | Some t \<Rightarrow> if ae_token_store ae then RevokeToken t else skip)"

definition auditPrompt :: "run_context \<Rightarrow> msg \<Rightarrow> unit op" where
  "auditPrompt ctx prompt =
     (if list_all frag_empty prompt then skip
      else publishEvent (rc_project ctx) ''log'' (rs_id (rc_step ctx)) ''emitted''
        (logPayload (JUuid (run_id (rc_run ctx))) (JUuid (rs_id (rc_step ctx))) (JText prompt) ''prompt''))"

section \<open>The environment of the container\<close>

definition agentLabels :: "run_context \<Rightarrow> story \<Rightarrow> (string \<times> msg) list" where
  "agentLabels ctx s =
     [(''managed_by'', [T ''hopeitworks'']), (''run_id'', [U (run_id (rc_run ctx))]),
      (''step_id'', [U (rs_id (rc_step ctx))]), (''story_key'', [T (story_key s)])]"

definition baseEnv :: "agent_env \<Rightarrow> run_context \<Rightarrow> project \<Rightarrow> story \<Rightarrow> msg \<Rightarrow> string \<Rightarrow> msg \<Rightarrow> msg list" where
  "baseEnv ae ctx p s prompt branch memory =
     (let token = ae_getenv ae (gitTokenEnvName p) in
      [[T ''REPO_URL='', T (derefString (project_repo_url p))], [T ''BRANCH_NAME='', T branch],
       [T ''STORY_KEY='', T (story_key s)], [T ''PROMPT_CONTENT=''] @ prompt, [T ''PROMPT=''] @ prompt,
       [T ''GIT_TOKEN='', T token], [T ''GIT_PROVIDER='', T (project_git_provider p)], [T ''GITHUB_TOKEN='', T token],
       [T ''CLAUDE_MD_CONTENT='', T (buildClaudeMD p (resolveRole ctx) s)] @ memory])"

definition modelEnv :: "run_context \<Rightarrow> msg list" where
  "modelEnv ctx =
     (let m = metaStr (rc_metadata ctx) ''model'' in if m = [] then [] else [[T ''MODEL='', T m]])"

text \<open>A key that cannot be resolved is left out.\<close>

definition apiKeyEnv :: "agent_env \<Rightarrow> run_context \<Rightarrow> world \<Rightarrow> msg list" where
  "apiKeyEnv ae ctx w =
     (case ae_api_key ae of
        None \<Rightarrow> []
      | Some decrypt \<Rightarrow>
          if rc_user ctx = uuid_nil then []
          else case decrypt (rc_user ctx) (resolveProvider ctx) w of
              Inl e \<Rightarrow> [] | Inr key \<Rightarrow> [[T ''API_KEY='', T key]])"

definition buildAgentEnv ::
  "agent_env \<Rightarrow> run_context \<Rightarrow> project \<Rightarrow> story \<Rightarrow> string \<Rightarrow> msg \<Rightarrow> string \<Rightarrow> string list \<Rightarrow> uuid option \<Rightarrow> msg list op" where
  "buildAgentEnv ae ctx p s img prompt branch extra token = do {
     memory \<leftarrow> priorFailureContext (story_id s) (run_id (rc_run ctx));
     keys \<leftarrow> reading (apiKeyEnv ae ctx);
     State_Monad.return (baseEnv ae ctx p s prompt branch memory
       @ (if isCallbackMode ae (metaStr (rc_metadata ctx) ''runtime_kind'') img
          then keys @ (case token of None \<Rightarrow> [] | Some t \<Rightarrow> [[T ''AUTH_TOKEN='', U t]])
            @ [[T ''CALLBACK_URL='', T (ae_callback_url ae)], [T ''PROVIDER='', T (resolveProvider ctx)],
               [T ''RUN_ID='', U (run_id (rc_run ctx))], [T ''STEP_ID='', U (rs_id (rc_step ctx))]]
            @ modelEnv ctx
          else [[T ''CLAUDE_CODE_OAUTH_TOKEN='', T (ae_getenv ae ''CLAUDE_CODE_OAUTH_TOKEN'')]] @ modelEnv ctx)
       @ map (\<lambda>e. [T e]) extra) }"

section \<open>Waiting for the agent\<close>

definition persistContainerID :: "uuid \<Rightarrow> string \<Rightarrow> unit op" where
  "persistContainerID j c = do { _ \<leftarrow> UpdateRunStepContainerInfo j (Some c) None; skip }"

definition persistLogTail :: "uuid \<Rightarrow> string \<Rightarrow> unit op" where
  "persistLogTail j t = do { _ \<leftarrow> UpdateRunStepContainerInfo j None (Some t); skip }"

definition finishCallbackStatus :: "(int \<times> string) res \<Rightarrow> int fop" where
  "finishCallbackStatus r = (case r of Inl e \<Rightarrow> fail e | Inr (code, msg) \<Rightarrow> ok code)"

definition waitForCallback :: "agent_env \<Rightarrow> run_context \<Rightarrow> callback_spec option \<Rightarrow> int fop" where
  "waitForCallback ae ctx cb =
     deferred (revokeCallbackToken ae cb) (do {
       r \<leftarrow> WaitForStatus (ae_meanwhile ae 0) (ae_wake ae) (rs_id (rc_step ctx));
       finishCallbackStatus r })"

definition crashed :: "int \<Rightarrow> err" where
  "crashed code = PlainErr [T ''agent process exited (code '', N code,
     T '') on the substrate without reporting a callback status'']"

text \<open>
  \<open>ae_exited\<close>: whether the process is seen to exit before the status comes, and its exit code (an
  error of the wait gives 0). After an exit with 0 only the status counts; after another one
  \<open>ae_arrived\<close> says whether the status comes within the grace period. A crash ends the wait for the
  status, which removes the channel.
\<close>

definition awaitCallbackOrCrash :: "agent_env \<Rightarrow> run_context \<Rightarrow> string \<Rightarrow> callback_spec option \<Rightarrow> int fop" where
  "awaitCallbackOrCrash ae ctx h cb =
     (let j = rs_id (rc_step ctx);
          receive = do {
            k \<leftarrow> reading (ae_wake ae);
            r \<leftarrow> receiveStatus k j;
            finishCallbackStatus r }
      in deferred (revokeCallbackToken ae cb) (do {
        _ \<leftarrow> getOrCreateChannel j;
        _ \<leftarrow> ae_meanwhile ae 0;
        exited \<leftarrow> reading (ae_exited ae h);
        case exited of
          None \<Rightarrow> receive
        | Some res \<Rightarrow>
            let code = (case res of Inl e \<Rightarrow> 0 | Inr c \<Rightarrow> c) in do {
              _ \<leftarrow> ae_meanwhile ae 1;
              arrived \<leftarrow> reading (ae_arrived ae);
              if code = 0 \<or> arrived then receive
              else do { _ \<leftarrow> removeChannel j; fail (crashed code) } } }))"

text \<open>The last lines of the log, kept in a buffer of fixed size.\<close>

definition pushTail :: "nat \<Rightarrow> string list \<Rightarrow> string \<Rightarrow> string list" where
  "pushTail n tail line = (if n \<le> length tail then tl tail else tail) @ [line]"

definition tailSize :: "agent_env \<Rightarrow> nat" where
  "tailSize ae = (if ae_tail_lines ae \<le> 0 then 50 else nat (ae_tail_lines ae))"

definition costEvents :: "log_event list \<Rightarrow> cost_event list" where
  "costEvents es =
     map (\<lambda>e. \<lparr>ce_input = le_input e, ce_output = le_output e, ce_model = le_model e, ce_cost = 0\<rparr>)
       (filter (\<lambda>e. le_type e = ''cost'') es)"

definition streamAndWait :: "agent_env \<Rightarrow> run_context \<Rightarrow> string \<Rightarrow> int fop" where
  "streamAndWait ae ctx c =
     (let j = rs_id (rc_step ctx) in
      attempt (wrap_err (WrapErr [T ''start log streaming'']) (reading (ae_stream ae c))) (\<lambda>st. do {
        _ \<leftarrow> ae_meanwhile ae 0;
        _ \<leftarrow> for_each (filter (\<lambda>e. le_type e \<noteq> ''cost'') (st_events st)) (\<lambda>e.
               publishEvent (rc_project ctx) ''log'' j ''emitted'' (le_payload e));
        if st_cancelled st then fail ErrCtxCancelled
        else do {
          _ \<leftarrow> persistLogTail j (join_strings nl (foldl (pushTail (tailSize ae)) [] (map le_message (st_events st))));
          _ \<leftarrow> (if costEvents (st_events st) = [] then ok ()
               else RecordStepCost (ae_costs ae) j (rc_project ctx) (costEvents (st_events st)) (extractAgentID ae ctx));
          ok (st_exit st) } }))"

section \<open>Execution\<close>

definition exitCodeError :: "int \<Rightarrow> unit fop" where
  "exitCodeError code =
     (if code \<noteq> 0 then fail (PlainErr [T ''agent exited with code '', N code]) else ok ())"

definition awaitAgent :: "agent_env \<Rightarrow> run_context \<Rightarrow> string \<Rightarrow> string \<Rightarrow> callback_spec option \<Rightarrow> unit fop" where
  "awaitAgent ae ctx c img cb =
     attempt (wrap_err (WrapErr [T ''stream/wait''])
       (if isCallbackMode ae (metaStr (rc_metadata ctx) ''runtime_kind'') img
        then (if ae_runtime ae then awaitCallbackOrCrash ae ctx c cb else waitForCallback ae ctx cb)
        else streamAndWait ae ctx c)) exitCodeError"

definition runSpec :: "agent_env \<Rightarrow> run_context \<Rightarrow> story \<Rightarrow> string \<Rightarrow> msg \<Rightarrow> msg list \<Rightarrow> string option
    \<Rightarrow> callback_spec option \<Rightarrow> run_spec" where
  "runSpec ae ctx s img prompt env network cb =
     \<lparr>sp_runtime_kind = metaStr (rc_metadata ctx) ''runtime_kind'', sp_model = metaStr (rc_metadata ctx) ''model'',
      sp_provider = resolveProvider ctx, sp_image = img, sp_prompt = prompt, sp_env = env,
      sp_labels = agentLabels ctx s, sp_memory = ae_memory ae, sp_cpus = ae_cpus ae,
      sp_network = derefString network, sp_callback = cb\<rparr>"

definition executeViaRuntime ::
  "agent_env \<Rightarrow> run_context \<Rightarrow> project \<Rightarrow> story \<Rightarrow> string \<Rightarrow> msg \<Rightarrow> string \<Rightarrow> string list \<Rightarrow> string option
     \<Rightarrow> callback_spec option \<Rightarrow> unit fop" where
  "executeViaRuntime ae ctx p s img prompt branch extra network cb = do {
     env \<leftarrow> buildAgentEnv ae ctx p s img prompt branch extra (callbackToken cb);
     let spec = runSpec ae ctx s img prompt env network cb;
     attempt (wrap_err (WrapErr [T ''launch agent on substrate'']) (outside (ae_launch ae spec) (CallLaunch spec)))
       (\<lambda>h. deferred (stopBestEffort (CallStopRun h) h) (do {
          _ \<leftarrow> persistContainerID (rs_id (rc_step ctx)) h;
          awaitAgent ae ctx h img cb })) }"

text \<open>Isolated runs have only the run's network; others keep the shared one and join the run's.\<close>

definition agentOpts :: "agent_env \<Rightarrow> run_context \<Rightarrow> story \<Rightarrow> string \<Rightarrow> msg list \<Rightarrow> string option \<Rightarrow> container_opts" where
  "agentOpts ae ctx s img env network =
     (let net = derefString network; isolated = (ae_isolate ae \<and> net \<noteq> []) in
      \<lparr>co_image = img, co_network = (if isolated then net else ae_network ae), co_memory = ae_memory ae,
       co_cpus = ae_cpus ae, co_env = env, co_labels = agentLabels ctx s,
       co_extra_networks = (if isolated \<or> net = [] then [] else [net]), co_entrypoint = [], co_cmd = []\<rparr>)"

definition executeDirectly ::
  "agent_env \<Rightarrow> run_context \<Rightarrow> project \<Rightarrow> story \<Rightarrow> string \<Rightarrow> msg \<Rightarrow> string \<Rightarrow> string list \<Rightarrow> string option
     \<Rightarrow> callback_spec option \<Rightarrow> unit fop" where
  "executeDirectly ae ctx p s img prompt branch extra network cb = do {
     env \<leftarrow> buildAgentEnv ae ctx p s img prompt branch extra (callbackToken cb);
     let opts = agentOpts ae ctx s img env network;
     attempt (wrap_err (WrapErr [T ''create container'']) (outside (ae_create ae opts) (CallCreate opts)))
       (\<lambda>c. deferred (cleanupContainer c)
          (attempt (wrap_err (WrapErr [T ''start container'']) (outside (ae_start ae c) (\<lambda>_. CallStart c))) (\<lambda>_. do {
             _ \<leftarrow> persistContainerID (rs_id (rc_step ctx)) c;
             awaitAgent ae ctx c img cb }))) }"

text \<open>The part of \<open>Execute\<close> after the sidecars are up.\<close>

definition executeAgent ::
  "agent_env \<Rightarrow> run_context \<Rightarrow> project \<Rightarrow> story \<Rightarrow> string \<Rightarrow> msg \<Rightarrow> environment option \<Rightarrow> string option \<Rightarrow> unit fop" where
  "executeAgent ae ctx p s img prompt env network =
     (let branch = metaStr (rc_metadata ctx) ''branch_name''; extra = buildConnStrings env in
      attempt (wrap_err (WrapErr [T ''run environment commands''])
          (runEnvironmentCommands ae env network p (run_id (rc_run ctx)) branch img extra)) (\<lambda>_. do {
        cb \<leftarrow> prepareCallback ae ctx (resolveRole ctx);
        _ \<leftarrow> auditPrompt ctx prompt;
        if ae_runtime ae then executeViaRuntime ae ctx p s img prompt branch extra network cb
        else executeDirectly ae ctx p s img prompt branch extra network cb }))"

definition needsSidecars :: "agent_env \<Rightarrow> environment option \<Rightarrow> bool" where
  "needsSidecars ae env \<longleftrightarrow> (\<exists>e. env = Some e \<and> env_services e \<noteq> []) \<or> ae_isolate ae"

definition withSidecars ::
  "agent_env \<Rightarrow> uuid \<Rightarrow> environment option \<Rightarrow> (string option \<Rightarrow> unit fop) \<Rightarrow> unit fop" where
  "withSidecars ae i env body =
     (if needsSidecars ae env
      then attempt (wrap_err (WrapErr [T ''launch sidecars''])
          (outside (ae_sidecars ae i env) (\<lambda>net. CallSidecars i (derefString net)))) (\<lambda>net.
        deferred (noteCall (CallCleanup i (derefString net))) (body net))
      else body None)"

definition AgentRunExecute :: "agent_env \<Rightarrow> run_context \<Rightarrow> unit fop" where
  "AgentRunExecute ae ctx =
     attempt (wrap_err (WrapErr [T ''fetch story'']) (GetStoryByID (rc_story ctx))) (\<lambda>s.
     attempt (wrap_err (WrapErr [T ''fetch project'']) (GetProjectByID (rc_project ctx))) (\<lambda>p.
     attempt (renderPrompt ae ctx p s) (\<lambda>prompt.
       let img = metaStr (rc_metadata ctx) ''agent_image'' in
       if img = [] then fail (PlainErr [T ''agent_image is required in run metadata but was not set''])
       else attempt (wrap_err (WrapErr [T ''resolve environment'']) (resolveEnvironment (rc_project ctx))) (\<lambda>env.
         withSidecars ae (run_id (rc_run ctx)) env (executeAgent ae ctx p s img prompt env)))))"

definition AgentRunAction :: "agent_env \<Rightarrow> action" where
  "AgentRunAction ae ctx = keepMetadata ctx (AgentRunExecute ae ctx)"

end
