(* ===== verification/AgentFrame.thy ===== *)
theory AgentFrame
  imports AgentRun StoreFrame
begin

text \<open>
  The frame rule of the agent's run and of its callback channel: a relation that respects the writes
  of the store, the tokens, the channels and the calls to the outside respects the whole action. A
  call that opens something outside is only made together with the call that closes it, so the
  relation has to respect the two with what happens between them.
\<close>

fun opens :: "call \<Rightarrow> bool" where
  "opens (CallCreate opts i) = True"
| "opens (CallLaunch spec h) = True"
| "opens (CallSidecars i n) = True"
| "opens c = False"

text \<open>A body between the call that opens something and the clean-up.\<close>

definition bracketed :: "call \<Rightarrow> unit op \<Rightarrow> unit fop \<Rightarrow> unit fop" where
  "bracketed c cleanup m = do { _ \<leftarrow> noteCall c; deferred cleanup m }"

lemma run_outside [run_simps]:
  "run_state (outside answer entry) w =
     (case answer w of Inl e \<Rightarrow> (Inl e, w) | Inr x \<Rightarrow> (Inr x, w\<lparr>w_calls := w_calls w @ [entry x]\<rparr>))"
  by (simp add: outside_def run_simps)

lemma run_noteCall [run_simps]: "run_state (noteCall c) w = ((), w\<lparr>w_calls := w_calls w @ [c]\<rparr>)"
  by (simp add: noteCall_def run_simps)

lemma run_deferred [run_simps]:
  "run_state (deferred cleanup m) w =
     (case run_state m w of (r, v) \<Rightarrow> (r, snd (run_state cleanup v)))"
  by (simp add: deferred_def run_simps split: prod.splits)

text \<open>Opening something and running the body with its clean-up is a bracketed body.\<close>

lemma run_opened:
  "run_state (attempt (wrap_err f (outside answer entry)) (\<lambda>x. deferred (cleanup x) (body x))) w =
     (case answer w of
        Inl e \<Rightarrow> (Inl (f e), w)
      | Inr x \<Rightarrow> run_state (bracketed (entry x) (cleanup x) (body x)) w)"
  by (simp add: bracketed_def run_simps split: sum.splits)

text \<open>A relation that does not look at the calls and the stops respects a bracketed body.\<close>

lemma bracketed_keeps:
  assumes refl: "\<And>w. R w w" and trans: "\<And>u v w. R u v \<Longrightarrow> R v w \<Longrightarrow> R u w"
    and calls: "\<And>w cs. R w (w\<lparr>w_calls := cs\<rparr>)" and stops: "\<And>w h. R w (w\<lparr>w_stops := w_stops w @ [h]\<rparr>)"
    and m: "keeps R m"
  shows "keeps R (bracketed c (cleanupContainer i) m)" "keeps R (bracketed c (stopBestEffort c' i) m)"
    "keeps R (bracketed c (noteCall c') m)"
proof -
  have stop: "R w (snd (run_state (stopBestEffort c i) w))" for w c i
  proof -
    let ?v = "w\<lparr>w_calls := w_calls w @ [c]\<rparr>"
    have "R w (?v\<lparr>w_stops := w_stops ?v @ [i]\<rparr>)" by (rule trans [OF calls stops])
    then show ?thesis by (simp add: stopBestEffort_def run_simps)
  qed
  have clean: "R w (snd (run_state (cleanupContainer i) w))" for w
    using trans [OF stop [where w = w and c = "CallStop i" and i = i] stop [where c = "CallRemove i" and i = i]]
    by (auto simp: cleanupContainer_def run_simps split: prod.split)
  have body: "R w (snd (run_state m (w\<lparr>w_calls := w_calls w @ [c]\<rparr>)))" for w
    by (rule trans [OF calls keepsD [OF m prod.collapse [symmetric]]])
  have whole: "keeps R (bracketed c d m)" if d: "\<And>v. R v (snd (run_state d v))" for d
    using trans [OF body d] by (simp add: keeps_def bracketed_def run_simps split: prod.split) (metis snd_conv)
  show "keeps R (bracketed c (cleanupContainer i) m)" "keeps R (bracketed c (stopBestEffort c' i) m)"
    by (rule whole, rule clean stop)+
  show "keeps R (bracketed c (noteCall c') m)"
    by (rule whole) (simp add: run_simps calls)
qed

locale agent_frame = store_frame +
  assumes container_info: "\<And>j c l. keeps R (UpdateRunStepContainerInfo j c l)"
    and log_tail: "\<And>j t. keeps R (AppendStepLogTail j t)"
    and cost_insert: "\<And>c. keeps R (InsertCostRecord c)"
    and tokens: "\<And>w ts. R w (w\<lparr>w_tokens := ts\<rparr>)"
    and channels: "\<And>w cs. R w (w\<lparr>w_channels := cs\<rparr>)"
    and closing: "\<And>w c. \<not> opens c \<Longrightarrow> R w (w\<lparr>w_calls := w_calls w @ [c]\<rparr>)"
    and container: "\<And>opts i m. keeps R m \<Longrightarrow> keeps R (bracketed (CallCreate opts i) (cleanupContainer i) m)"
    and launched: "\<And>spec h m. keeps R m \<Longrightarrow>
      keeps R (bracketed (CallLaunch spec h) (stopBestEffort (CallStopRun h) h) m)"
    and sidecars: "\<And>i n m. keeps R m \<Longrightarrow> keeps R (bracketed (CallSidecars i n) (noteCall (CallCleanup i n)) m)"
begin

lemmas agent_writes [frame_intros] = container_info log_tail cost_insert

lemma deferred_keeps [frame_intros]: "keeps R c \<Longrightarrow> keeps R m \<Longrightarrow> keeps R (deferred c m)"
  unfolding deferred_def by (intro frame_intros)

lemma note_keeps [frame_intros]: "\<not> opens c \<Longrightarrow> keeps R (noteCall c)"
  by (simp add: keeps_def run_simps closing)

lemma stop_call_keeps [frame_intros]: "\<not> opens c \<Longrightarrow> keeps R (stopBestEffort c i)"
  unfolding stopBestEffort_def
  by (intro frame_intros) (simp_all add: keeps_def run_simps stopped)

lemma start_keeps [frame_intros]:
  "(\<And>x. \<not> opens (entry x)) \<Longrightarrow> keeps R (outside answer entry)"
  by (simp add: keeps_def run_simps closing frame_refl split: sum.split)

lemma opened_keeps:
  assumes "\<And>x. answer w = Inr x \<Longrightarrow> keeps R (bracketed (entry x) (cleanup x) (body x))"
  shows "R w (snd (run_state (attempt (wrap_err f (outside answer entry)) (\<lambda>x. deferred (cleanup x) (body x))) w))"
  using assms by (auto simp: run_opened keeps_def frame_refl split: sum.split)

lemma container_keeps [frame_intros]:
  fixes body :: "string \<Rightarrow> unit fop"
  shows "(\<And>i. keeps R (body i)) \<Longrightarrow>
   keeps R (attempt (wrap_err f (outside answer (CallCreate opts))) (\<lambda>i. deferred (cleanupContainer i) (body i)))"
  by (rule keepsI, rule opened_keeps) (rule container)

lemma launched_keeps [frame_intros]:
  fixes body :: "string \<Rightarrow> unit fop"
  shows "(\<And>h. keeps R (body h)) \<Longrightarrow>
   keeps R (attempt (wrap_err f (outside answer (CallLaunch spec)))
     (\<lambda>h. deferred (stopBestEffort (CallStopRun h) h) (body h)))"
  by (rule keepsI, rule opened_keeps) (rule launched)

lemma sidecars_keeps [frame_intros]:
  fixes body :: "string option \<Rightarrow> unit fop"
  shows "(\<And>n. keeps R (body n)) \<Longrightarrow>
   keeps R (attempt (wrap_err f (outside answer (\<lambda>n. CallSidecars i (derefString n))))
     (\<lambda>n. deferred (noteCall (CallCleanup i (derefString n))) (body n)))"
  by (rule keepsI, rule opened_keeps) (rule sidecars)

lemma token_keeps [frame_intros]:
  "keeps R (CreateToken i j a role ttl)" "keeps R (RevokeToken t)" "keeps R (ValidateToken tok)"
proof -
  show revoke: "keeps R (RevokeToken t)" for t
    by (simp add: RevokeToken_def keeps_def run_simps tokens)
  have "keeps R (writing (\<lambda>w. (x, w\<lparr>w_tokens := f w\<rparr>)))" for x :: uuid and f
    by (simp add: keeps_def run_simps tokens)
  then show "keeps R (CreateToken i j a role ttl)"
    unfolding CreateToken_def by (intro frame_intros)
  show "keeps R (ValidateToken tok)"
    unfolding ValidateToken_def by (intro frame_intros revoke)
qed

lemma cleanup_tokens_keeps [frame_intros]: "keeps R cleanupTokens"
proof -
  have "keeps R (writing (\<lambda>w. ((), w\<lparr>w_tokens := f w\<rparr>)))" for f
    by (simp add: keeps_def run_simps tokens)
  then show ?thesis unfolding cleanupTokens_def by (intro frame_intros)
qed

lemma channel_keeps [frame_intros]:
  "keeps R (SetStatus j c m)" "keeps R (getOrCreateChannel j)" "keeps R (removeChannel j)"
  by (auto simp: SetStatus_def getOrCreateChannel_def removeChannel_def keeps_def run_simps channels frame_refl
      split: option.split)

lemma receive_keeps [frame_intros]: "keeps R (receiveStatus k j)"
  unfolding receiveStatus_def by (auto split: wake.split option.split intro!: frame_intros)

lemma wait_keeps [frame_intros]: "keeps R m \<Longrightarrow> keeps R (WaitForStatus m wake j)"
  unfolding WaitForStatus_def by (intro frame_intros)

lemma record_cost_keeps [frame_intros]: "keeps R (RecordStepCost svc j p es a)"
  unfolding RecordStepCost_def by (intro frame_intros)

lemma lines_keep [frame_intros]: "(\<And>x. keeps R (f x)) \<Longrightarrow> keeps R (for_each xs f)"
  by (induction xs) (auto intro!: frame_intros)

lemma callback_keeps [frame_intros]: "keeps R (serveCallback svc rq)"
  unfolding serveCallback_def InternalAuth_def HandleLogs_def HandleCost_def HandleStatus_def
    parseRunStepIDs_def respond_def
  by (auto split: callback.split intro!: frame_intros)

lemma attempts_keep [frame_intros]:
  assumes "\<And>q. keeps R (serve q)"
  shows "keeps R (postAttempts serve url rq ds n e)"
proof (induction n arbitrary: ds e)
  case (Suc n)
  have "keeps R (postAttempts serve url rq (d # ds) (Suc n) e)" for d ds
    by (cases d) (auto intro!: frame_intros assms Suc.IH)
  moreover have "keeps R (postAttempts serve url rq [] (Suc n) e)"
    by (auto intro!: frame_intros assms Suc.IH)
  ultimately show ?case by (cases ds) auto
qed (simp add: fail)

lemma client_keeps [frame_intros]:
  "(\<And>q. keeps R (serve q)) \<Longrightarrow> keeps R (SendLog serve c ds l)"
  "(\<And>q. keeps R (serve q)) \<Longrightarrow> keeps R (SendCost serve c ds e)"
  "(\<And>q. keeps R (serve q)) \<Longrightarrow> keeps R (SendStatus serve c ds n m)"
  unfolding SendLog_def SendCost_def SendStatus_def postJSON_def by (rule attempts_keep, simp)+

section \<open>The action\<close>

lemma environment_keeps [frame_intros]:
  "keeps R (GetEnvironment q)" "keeps R (GetStackByKey key)" "keeps R (resolveEnvironment q)"
  "keeps R (fallbackImage img)" "keeps R (resolveCommandImage env img)" "keeps R (renderPrompt ae ctx p s)"
  "keeps R (ListRunsByStory k n m)" "keeps R (priorFailureContext k i)"
  unfolding GetEnvironment_def GetStackByKey_def resolveEnvironment_def fallbackImage_def
    resolveCommandImage_def renderPrompt_def Let_def ListRunsByStory_def priorFailureContext_def
  by (auto intro!: frame_intros db_op_keeps split: list.split)

lemma commands_keep [frame_intros]:
  "keeps R (runOneCommand ae key command spec)" "keeps R (runCommands ae env spec keys)"
  "keeps R (runEnvironmentCommands ae env' network p i branch img extra)"
proof -
  show one: "keeps R (runOneCommand ae key command spec)" for key command spec
    unfolding runOneCommand_def by (intro frame_intros) simp
  show many: "keeps R (runCommands ae env spec keys)" for env spec keys
    by (induction keys) (auto intro!: frame_intros one)
  show "keeps R (runEnvironmentCommands ae env' network p i branch img extra)"
    unfolding runEnvironmentCommands_def by (intro frame_intros many)
qed

lemma callback_parts_keep [frame_intros]:
  "keeps R (prepareCallback ae ctx role)" "keeps R (revokeCallbackToken ae cb)" "keeps R (auditPrompt ctx prompt)"
  "keeps R (buildAgentEnv ae ctx p s img prompt branch extra token)"
  "keeps R (persistContainerID j c)" "keeps R (persistLogTail j t)" "keeps R (finishCallbackStatus r)"
  "keeps R (exitCodeError n)"
  unfolding prepareCallback_def revokeCallbackToken_def auditPrompt_def buildAgentEnv_def
    persistContainerID_def persistLogTail_def finishCallbackStatus_def exitCodeError_def
  by (intro frame_intros)+

definition agent_keeps :: "agent_env \<Rightarrow> bool" where
  "agent_keeps ae \<longleftrightarrow> (\<forall>n. keeps R (ae_meanwhile ae n))"

lemma meanwhile_keeps [frame_intros]: "agent_keeps ae \<Longrightarrow> keeps R (ae_meanwhile ae n)"
  by (simp add: agent_keeps_def)

lemma await_keeps [frame_intros]:
  "agent_keeps ae \<Longrightarrow> keeps R (waitForCallback ae ctx cb)"
  "agent_keeps ae \<Longrightarrow> keeps R (awaitCallbackOrCrash ae ctx h cb)"
  "agent_keeps ae \<Longrightarrow> keeps R (streamAndWait ae ctx c)"
  "agent_keeps ae \<Longrightarrow> keeps R (awaitAgent ae ctx c img cb)"
  unfolding waitForCallback_def awaitCallbackOrCrash_def streamAndWait_def awaitAgent_def Let_def
  by (intro frame_intros; simp)+

lemma execute_ways_keep [frame_intros]:
  "agent_keeps ae \<Longrightarrow> keeps R (executeViaRuntime ae ctx p s img prompt branch extra network cb)"
  "agent_keeps ae \<Longrightarrow> keeps R (executeDirectly ae ctx p s img prompt branch extra network cb)"
  unfolding executeViaRuntime_def executeDirectly_def Let_def
  by (intro frame_intros; simp)+

lemma agent_run_keeps [frame_intros]:
  assumes "agent_keeps ae"
  shows "keeps R (AgentRunAction ae ctx)"
  unfolding AgentRunAction_def keepMetadata_def AgentRunExecute_def withSidecars_def executeAgent_def Let_def
  using assms by (intro frame_intros)

end

end
