(* ===== verification/ExternalActions.thy ===== *)
theory ExternalActions
  imports AgentRun
begin

text \<open>
  The actions that work on the git host: \<open>git_branch.go\<close>, \<open>git_pr.go\<close> and \<open>ci_poll.go\<close>, and the
  notification (\<open>notification.go\<close>), all in \<open>backend/internal/adapter/action\<close>. The git host behind the
  provider is a parameter, its errors are their texts; so are the order in which Go ranges over
  template variables, how many ticks of the poll come before its deadline, what other processes do
  between two ticks, and whether it is the run that was cancelled when the poll ends. A setting that
  is a \<open>float64\<close> in the code is a \<open>JReal\<close>; a duration is assumed to fit into 64 bits.
\<close>

record git_host =
  g_provider :: "uuid \<Rightarrow> world \<Rightarrow> string option"
  g_create_branch :: "string \<Rightarrow> string \<Rightarrow> string \<Rightarrow> world \<Rightarrow> string option"
  g_create_pr :: "string \<Rightarrow> string \<Rightarrow> msg \<Rightarrow> string \<Rightarrow> string \<Rightarrow> world \<Rightarrow> string + string"
  g_ci_status :: "string \<Rightarrow> world \<Rightarrow> string + string"
  g_var_order :: "(string \<times> string) list \<Rightarrow> (string \<times> string) list"
  g_uuid_text :: "uuid \<Rightarrow> string"
  g_poll_interval :: time
  g_poll_timeout :: time
  g_ticks :: "time \<Rightarrow> time \<Rightarrow> world \<Rightarrow> nat"
  g_meanwhile :: "nat \<Rightarrow> unit op"
  g_cancelled :: "world \<Rightarrow> bool"

definition renderTemplate :: "git_host \<Rightarrow> string \<Rightarrow> (string \<times> string) list \<Rightarrow> string" where
  "renderTemplate g tpl vars = fold (\<lambda>(k, v) s. replaceAll (placeholder k) v s) (g_var_order g vars) tpl"

definition metadataString :: "metadata \<Rightarrow> string \<Rightarrow> string" where
  "metadataString meta k = (case meta k of Some (JStr v) \<Rightarrow> v | _ \<Rightarrow> [])"

definition withDefault :: "string \<Rightarrow> string \<Rightarrow> string" where
  "withDefault d x = (if x = [] then d else x)"

text \<open>An action that leaves new metadata when it succeeds.\<close>

definition changingMetadata :: "run_context \<Rightarrow> metadata fop \<Rightarrow> (unit res \<times> metadata) op" where
  "changingMetadata ctx m = do {
     r \<leftarrow> m;
     State_Monad.return (case r of Inl e \<Rightarrow> (Inl e, rc_metadata ctx) | Inr meta \<Rightarrow> (Inr (), meta)) }"

definition providerFor :: "git_host \<Rightarrow> uuid \<Rightarrow> unit fop" where
  "providerFor g p = do {
     e \<leftarrow> reading (g_provider g p);
     case e of None \<Rightarrow> ok () | Some x \<Rightarrow> fail (WrapErr [T ''resolve git provider''] (PlainErr [T x])) }"

text \<open>The project's repository, which the actions on branches and pull requests need.\<close>

definition repoOf :: "git_host \<Rightarrow> string \<Rightarrow> uuid \<Rightarrow> string fop" where
  "repoOf g name p =
     attempt (providerFor g p) (\<lambda>_.
     attempt (wrap_err (WrapErr [T ''fetch project'']) (GetProjectByID p)) (\<lambda>project.
       if derefString (project_repo_url project) = []
       then fail (PlainErr [T name, T '': project has no repo_url configured''])
       else ok (derefString (project_repo_url project))))"

section \<open>Branches\<close>

definition isSlugChar :: "char \<Rightarrow> bool" where
  "isSlugChar c \<longleftrightarrow> (let n = of_char c :: nat in 97 \<le> n \<and> n \<le> 122 \<or> 48 \<le> n \<and> n \<le> 57)"

text \<open>Every maximal run of other characters becomes one dash; then the dashes at both ends go.\<close>

function dashed :: "string \<Rightarrow> string" where
  "dashed [] = []"
| "dashed (c # cs) =
     (if isSlugChar c then c # dashed cs else CHR ''-'' # dashed (dropWhile (\<lambda>x. \<not> isSlugChar x) cs))"
  by pat_completeness auto
termination
  by (relation "measure length") (auto simp: less_Suc_eq_le length_dropWhile_le)

definition isDash :: "char \<Rightarrow> bool" where
  "isDash c \<longleftrightarrow> c = CHR ''-''"

definition trimDashes :: "string \<Rightarrow> string" where
  "trimDashes s = rev (dropWhile isDash (rev (dropWhile isDash s)))"

definition slugify :: "string \<Rightarrow> string" where
  "slugify title = trimDashes (dashed (ToLower title))"

definition branchName :: "run_context \<Rightarrow> story \<Rightarrow> string" where
  "branchName ctx s =
     replaceAll ''{slug}'' (slugify (story_title s))
       (replaceAll ''{story_key}'' (story_key s)
         (withDefault ''feat/{story_key}-{slug}'' (configValue ctx ''branch_pattern'')))"

definition baseBranch :: "run_context \<Rightarrow> string" where
  "baseBranch ctx = withDefault ''main'' (configValue ctx ''base_branch'')"

definition alreadyExists :: "string \<Rightarrow> bool" where
  "alreadyExists e \<longleftrightarrow>
     containsText ''409'' e \<or> containsText ''already exists'' e \<or> containsText ''reference already exists'' e"

definition createBranch :: "git_host \<Rightarrow> string \<Rightarrow> string \<Rightarrow> string \<Rightarrow> unit fop" where
  "createBranch g repo branch base =
     writing (\<lambda>w. case g_create_branch g repo branch base w of
       None \<Rightarrow> (Inr (), w\<lparr>w_calls := w_calls w @ [CallBranch repo branch base]\<rparr>)
     | Some e \<Rightarrow>
         if alreadyExists e then (Inr (), w)
         else (Inl (WrapErr [T ''create branch '', T branch] (PlainErr [T e])), w))"

definition GitBranchAction :: "git_host \<Rightarrow> action" where
  "GitBranchAction g ctx = changingMetadata ctx
     (attempt (repoOf g ''git_branch'' (rc_project ctx)) (\<lambda>repo.
      attempt (wrap_err (WrapErr [T ''fetch story'']) (GetStoryByID (rc_story ctx))) (\<lambda>s.
      attempt (createBranch g repo (branchName ctx s) (baseBranch ctx)) (\<lambda>_.
        ok ((rc_metadata ctx)(''branch_name'' \<mapsto> JStr (branchName ctx s)))))))"

section \<open>Pull requests\<close>

text \<open>
  The ellipsis and the long dash are the three bytes of their encodings; the objective is cut after
  500 bytes.
\<close>

definition ellipsis :: string where
  "ellipsis = [CHR 0xE2, CHR 0x80, CHR 0xA6]"

definition dashSign :: string where
  "dashSign = [CHR 0xE2, CHR 0x80, CHR 0x94]"

definition shortened :: "string \<Rightarrow> string" where
  "shortened s = (if 500 < length s then take 500 s @ ellipsis else s)"

definition buildPRBody :: "story \<Rightarrow> msg" where
  "buildPRBody s =
     [T ''## '', T (story_key s), T '': '', T (story_title s), T nl, T nl] @
     (if derefString (story_objective s) = [] then []
      else [T ''### Objective'', T nl, T nl, T (shortened (derefString (story_objective s))), T nl, T nl]) @
     [T ''---'', T nl, T ''> Generated by hopeitworks pipeline'']"

definition prVars :: "story \<Rightarrow> string \<Rightarrow> (string \<times> string) list" where
  "prVars s branch =
     [(''story_key'', story_key s), (''story_title'', story_title s),
      (''scope'', derefString (story_scope s)), (''branch_name'', branch)]"

definition prTitle :: "git_host \<Rightarrow> run_context \<Rightarrow> story \<Rightarrow> string \<Rightarrow> string" where
  "prTitle g ctx s branch =
     (let title = renderTemplate g (withDefault ''{story_key}: {story_title}''
          (metadataString (rc_metadata ctx) ''title_template'')) (prVars s branch)
      in if metadataString (rc_metadata ctx) ''draft'' = ''true'' then ''[Draft] '' @ title else title)"

definition targetBranch :: "run_context \<Rightarrow> string" where
  "targetBranch ctx = withDefault ''main'' (metadataString (rc_metadata ctx) ''target_branch'')"

definition createPR :: "git_host \<Rightarrow> run_context \<Rightarrow> string \<Rightarrow> story \<Rightarrow> string \<Rightarrow> string fop" where
  "createPR g ctx repo s branch =
     writing (\<lambda>w. case g_create_pr g repo (prTitle g ctx s branch) (buildPRBody s) branch (targetBranch ctx) w of
       Inl e \<Rightarrow> (Inl (WrapErr [T ''create PR''] (PlainErr [T e])), w)
     | Inr url \<Rightarrow> (Inr url, w\<lparr>w_calls := w_calls w @ [CallPullRequest repo branch (targetBranch ctx)]\<rparr>))"

definition GitPRAction :: "git_host \<Rightarrow> action" where
  "GitPRAction g ctx = changingMetadata ctx
     (attempt (repoOf g ''git_pr'' (rc_project ctx)) (\<lambda>repo.
        let branch = metadataString (rc_metadata ctx) ''branch_name'' in
        if branch = [] then fail (PlainErr [T ''git_pr: branch_name not found in run context metadata '', T dashSign,
          T '' ensure git_branch step ran first''])
        else attempt (wrap_err (WrapErr [T ''fetch story'']) (GetStoryByID (rc_story ctx))) (\<lambda>s.
          attempt (createPR g ctx repo s branch) (\<lambda>url.
            ok ((rc_metadata ctx)(''pr_url'' \<mapsto> JStr url))))))"

section \<open>The result of the checks\<close>

definition durationOf :: "metadata \<Rightarrow> string \<Rightarrow> time \<Rightarrow> time" where
  "durationOf meta k d =
     (case meta k of Some (JReal x) \<Rightarrow> if 0 < x then \<lfloor>x\<rfloor> * 1000000000 else d | _ \<Rightarrow> d)"

definition publishPolling :: "run_context \<Rightarrow> string \<Rightarrow> string \<Rightarrow> unit op" where
  "publishPolling ctx url status =
     publishEvent (rc_project ctx) ''ci_poll'' (rs_id (rc_step ctx)) ''checking''
       [(''pr_url'', JStr url), (''status'', JStr status)]"

fun pollCI :: "git_host \<Rightarrow> run_context \<Rightarrow> string \<Rightarrow> time \<Rightarrow> nat \<Rightarrow> unit fop" where
  "pollCI g ctx url timeout 0 = do {
     stop \<leftarrow> reading (g_cancelled g);
     fail (if stop then ErrCtxCancelled
           else PlainErr [T ''CI_POLL_TIMEOUT: timed out after '', N timeout, T '' waiting for CI on '', T url]) }"
| "pollCI g ctx url timeout (Suc n) = do {
     _ \<leftarrow> g_meanwhile g n;
     status \<leftarrow> reading (g_ci_status g url);
     case status of
       Inl e \<Rightarrow> do { _ \<leftarrow> publishPolling ctx url ''error''; pollCI g ctx url timeout n }
     | Inr st \<Rightarrow> do {
         _ \<leftarrow> publishPolling ctx url st;
         if st = ''pass'' then ok ()
         else if st = ''fail'' then fail (PlainErr [T ''CI_POLL_FAILED: CI checks failed for PR '', T url])
         else pollCI g ctx url timeout n } }"

text \<open>
  \<open>time.NewTicker\<close> panics for an interval that is not positive, as a fraction of a second truncates
  to; the panic is the error \<open>tickerPanic\<close> here.
\<close>

definition tickerPanic :: err where
  "tickerPanic = PlainErr [T ''non-positive interval for NewTicker'']"

definition CIPollAction :: "git_host \<Rightarrow> action" where
  "CIPollAction g ctx = keepMetadata ctx
     (let url = metadataString (rc_metadata ctx) ''pr_url'';
          interval = durationOf (rc_metadata ctx) ''poll_interval_seconds'' (g_poll_interval g);
          timeout = durationOf (rc_metadata ctx) ''timeout_seconds'' (g_poll_timeout g)
      in if url = [] then fail (PlainErr [T ''CI_POLL_MISSING_PR_URL: missing required metadata key pr_url''])
         else attempt (providerFor g (rc_project ctx)) (\<lambda>_.
           if interval \<le> 0 then fail tickerPanic
           else do { n \<leftarrow> reading (g_ticks g interval timeout); pollCI g ctx url timeout n }))"

section \<open>The notification\<close>

text \<open>Best effort throughout: without the story its key is empty, and the event may get lost.\<close>

definition storyKeyOf :: "uuid \<Rightarrow> string op" where
  "storyKeyOf i = do {
     r \<leftarrow> GetStoryByID i;
     State_Monad.return (case r of Inl e \<Rightarrow> [] | Inr s \<Rightarrow> story_key s) }"

definition notificationVars :: "git_host \<Rightarrow> run_context \<Rightarrow> string \<Rightarrow> (string \<times> string) list" where
  "notificationVars g ctx key =
     [(''story_key'', key), (''step_name'', rs_name (rc_step ctx)), (''run_id'', g_uuid_text g (run_id (rc_run ctx))),
      (''branch_name'', metadataString (rc_metadata ctx) ''branch_name''),
      (''pr_url'', metadataString (rc_metadata ctx) ''pr_url'')]"

definition notificationMessage :: "git_host \<Rightarrow> run_context \<Rightarrow> string \<Rightarrow> string" where
  "notificationMessage g ctx key =
     renderTemplate g (withDefault ''Pipeline step {step_name} completed''
       (metadataString (rc_metadata ctx) ''message'')) (notificationVars g ctx key)"

definition NotificationAction :: "git_host \<Rightarrow> action" where
  "NotificationAction g ctx = keepMetadata ctx (do {
     key \<leftarrow> storyKeyOf (rc_story ctx);
     _ \<leftarrow> publishEvent (rc_project ctx) ''notification'' (rs_id (rc_step ctx)) ''sent''
       [(''message'', JStr (notificationMessage g ctx key)), (''step_id'', JUuid (rs_id (rc_step ctx))),
        (''run_id'', JUuid (run_id (rc_run ctx))), (''story_key'', JStr key)];
     ok () })"

end
