(* ===== verification/System.thy ===== *)
theory System
  imports Watchdog Reapers PlanningImport Actions EpicSpec Lifecycle AgentFrame ExternalActions
begin

text \<open>
  The whole system: every public operation of the services, in any order, by any caller, under any
  pattern of infrastructure failures. \<open>reaches\<close> relates a state of the store to the states the
  operations can bring it to; the locale \<open>system_frame\<close> extends the frame rule of the services to
  the guards, the reapers, the actions and the planning import and shows that a relation the writes of the store
  respect is respected by all of them. Two interpretations follow: the references between the
  tables stay intact, and the history is append-only.
\<close>

section \<open>The frame rule of the remaining services\<close>

locale system_frame = agent_frame +
  assumes import_story: "\<And>x. keeps R (CreateStoryFromImport x)"
    and import_update: "\<And>x. keeps R (UpdateStoryFromImport x)"
    and import_provenance: "\<And>x. keeps R (UpdateStoryProvenanceOnly x)"
    and import_epic: "\<And>x. keeps R (CreateEpicFromImport x)"
    and import_epic_update: "\<And>x. keeps R (UpdateEpicFromImport x)"
    and branch_call: "\<And>w repo b base. R w (w\<lparr>w_calls := w_calls w @ [CallBranch repo b base]\<rparr>)"
    and pull_call: "\<And>w repo b base. R w (w\<lparr>w_calls := w_calls w @ [CallPullRequest repo b base]\<rparr>)"
    and surroundings: "\<And>w fs t k. R w (w\<lparr>w_faults := fs, w_clock := t, w_tick := k\<rparr>)"
begin

lemmas import_writes [frame_intros] = import_story import_update import_provenance import_epic
  import_epic_update

lemma import_reads [frame_intros]:
  "keeps R (GetStoryByKey p k)" "keeps R (GetStoryBySourceRef p src ext)"
  "keeps R (GetEpicBySourceRef p src ext)" "keeps R (GetEpicByName p n)"
  "keeps R ListRunningSteps" "keeps R (SumCostByRun i)"
  unfolding planning_ops watchdog_reads by (intro db_op_keeps reading_keeps)+

lemma each_keeps [frame_intros]: "(\<And>x. keeps R (f x)) \<Longrightarrow> keeps R (for_each xs f)"
  by (induction xs) (auto intro!: frame_intros)

lemma suspend_keeps [frame_intros]:
  assumes "\<And>h. keeps R (publish h)"
  shows "keeps R (suspendForApproval ctx gate diff message publish)"
  unfolding suspendForApproval_def using assms by (intro frame_intros)

lemma diff_keeps [frame_intros]: "keeps R (prDiff ae ctx)"
  unfolding prDiff_def by (auto split: option.split jval.split intro!: frame_intros)

lemma actions_keep [frame_intros]:
  "keeps R (HITLGateAction ae ctx)" "keeps R (HumanAction ae ctx)"
  unfolding HITLGateAction_def HumanAction_def keepMetadata_def Let_def by (intro frame_intros)+

lemma retry_keeps [frame_intros]:
  assumes "\<And>c. keeps R (a_agent_run ae c)"
  shows "keeps R (IncrementalRetryAction ae ctx)"
  unfolding IncrementalRetryAction_def keepMetadata_def retryAgent_def Let_def using assms by (intro frame_intros)

lemma host_calls [frame_intros]:
  "keeps R (providerFor g p)" "keeps R (createBranch g repo branch base)" "keeps R (createPR g ctx repo s branch)"
  by (auto simp: providerFor_def createBranch_def createPR_def keeps_def run_simps frame_refl branch_call pull_call
      split: option.split sum.split)

lemma repo_keeps [frame_intros]: "keeps R (repoOf g name p)"
  unfolding repoOf_def by (intro frame_intros)

lemma changing_keeps [frame_intros]: "keeps R m \<Longrightarrow> keeps R (changingMetadata ctx m)"
  unfolding changingMetadata_def by (intro frame_intros)

lemma git_actions_keep [frame_intros]:
  "keeps R (GitBranchAction g ctx)" "keeps R (GitPRAction g ctx)" "keeps R (NotificationAction g ctx)"
  unfolding GitBranchAction_def GitPRAction_def NotificationAction_def storyKeyOf_def keepMetadata_def Let_def
  by (intro frame_intros)+

lemma poll_keeps [frame_intros]:
  assumes "\<And>k. keeps R (g_meanwhile g k)"
  shows "keeps R (pollCI g ctx url timeout n)"
  using assms by (induction n) (auto simp: publishPolling_def intro!: frame_intros)

lemma poll_action_keeps [frame_intros]:
  assumes "\<And>k. keeps R (g_meanwhile g k)"
  shows "keeps R (CIPollAction g ctx)"
  unfolding CIPollAction_def keepMetadata_def Let_def using assms by (intro frame_intros)

lemma evaluate_keeps [frame_intros]: "keeps R (evaluate s g now)"
  unfolding evaluate_def by (intro frame_intros)

lemma guards_keeps [frame_intros]:
  "keeps R (guardsForStep wd cache s)" "keeps R (applyOnFail wd s g reason)"
  unfolding guardsForStep_def pipelineConfig_def applyOnFail_def by (intro frame_intros)+

lemma check_guards_keeps [frame_intros]: "keeps R (checkGuards wd s now gs)"
  by (induction gs) (auto intro!: frame_intros)

lemma check_steps_keeps [frame_intros]: "keeps R (checkSteps wd cache now ss)"
  by (induction ss arbitrary: cache) (auto intro!: frame_intros)

lemma watchdog_keeps [frame_intros]: "keeps R (Check wd)"
  unfolding Check_def by (intro frame_intros)

lemma containers_keep [frame_intros]:
  "keeps R (ListContainers cm)" "keeps R (ListRunningContainers cm)" "keeps R (StopContainer cm c)"
  "keeps R (RemoveContainer cm c)"
  unfolding ListContainers_def ListRunningContainers_def
  by (intro reading_keeps)+ (simp_all add: keeps_def StopContainer_def RemoveContainer_def run_simps stopped frame_refl)

lemma reapers_keep [frame_intros]:
  "keeps R (CheckTimeouts cm t)" "keeps R (ReconcileOrphanedRuns cm t)" "keeps R (CleanupOrphans cm)"
  unfolding CheckTimeouts_def checkContainer_def checkStarted_def getTimeout_def failTimedOut_def
    ReconcileOrphanedRuns_def reconcileRun_def isOrphaned_def CleanupOrphans_def cleanContainer_def
    removeOrphan_def
  by (intro frame_intros)+

lemma try_keys_keeps [frame_intros]: "keeps R (tryKeys p b src ext cand ns)"
  by (induction ns arbitrary: cand) (auto intro!: frame_intros)

lemma import_parts [frame_intros]:
  "keeps R (resolveRemoteCreateKey p k src ext)" "keeps R (createEpic p cfg ie mapped pr)"
  "keeps R (writeEpicUpdate cfg old ie desc status pr)" "keeps R (createStory env p cfg x k mapped e pr)"
  "keeps R (skipUnchanged cfg x s pr)" "keeps R (refreshLocked cfg x s pr)"
  "keeps R (mergeStory cfg x s mapped h e pr)"
  unfolding resolveRemoteCreateKey_def createEpic_def writeEpicUpdate_def createStory_def
    skipUnchanged_def refreshLocked_def mergeStory_def Let_def
  by (intro frame_intros)+

lemma import_items [frame_intros]:
  "keeps R (importEpic p cfg ie pr)" "keeps R (importStory env p cfg x pr)"
proof -
  show "keeps R (importEpic p cfg ie pr)"
    unfolding importEpic_def refreshEpic_def adoptEpic_def Let_def by (intro frame_intros)
  have "keeps R (resolveStoryIdentity p cfg x)"
    unfolding resolveStoryIdentity_def resolveByKey_def resolveByRef_def by (intro frame_intros)
  then show "keeps R (importStory env p cfg x pr)"
    unfolding importStory_def updateStory_def Let_def
    by (auto intro!: frame_intros split: sum.split prod.split option.split)
qed

lemma import_list_keeps [frame_intros]:
  "(\<And>x pr. keeps R (f x pr)) \<Longrightarrow> keeps R (import_all f xs pr)"
  by (induction xs arbitrary: pr) (auto intro!: frame_intros)

lemma import_run_keeps [frame_intros]: "keeps R (Import env p cfg)"
  unfolding import_defs by (intro frame_intros)

end

section \<open>What the system can do\<close>

text \<open>
  \<open>reaches w w'\<close>: from the state \<open>w\<close> the operations of the services, in any order, lead to \<open>w'\<close>. The
  database and the clock do what they want in between. An executor may only be given actions
  that do themselves nothing but operations of the system, and what the other processes do
  between two of its steps is again anything the system can do.
\<close>

inductive reaches :: "world \<Rightarrow> world \<Rightarrow> bool" where
  stay: "reaches w w"
| further: "reaches u v \<Longrightarrow> reaches v w \<Longrightarrow> reaches u w"
| surroundings: "reaches w (w\<lparr>w_faults := fs, w_clock := t, w_tick := k\<rparr>)"
| create_run: "reaches w (after (RunService_CreateRun p s c) w)"
| launch: "reaches w (after (LaunchRun svc p s u) w)"
| pause: "reaches w (after (PauseRun svc p i) w)"
| resume: "reaches w (after (ResumeRun svc p i) w)"
| cancel: "reaches w (after (CancelRun svc p i) w)"
| start_stage: "reaches w (after (StartStage svc p s) w)"
| retry: "reaches w (after (RetryStep svc i j) w)"
| transition_run: "reaches w (after (TransitionRun i st) w)"
| transition_step: "reaches w (after (TransitionRunStep j sst) w)"
| approve: "reaches w (after (Approve hs h u) w)"
| reject: "reaches w (after (Reject hs h u why) w)"
| probe_halt: "reaches w (after (RaiseProbeHalt hs j reason) w)"
| resolve: "reaches w (after (Resolve hs h u act) w)"
| reset_breaker: "reaches w (after (Reset p) w)"
| launch_epic: "reaches w (after (LaunchEpicRun ee p e) w)"
| watchdog: "reaches w (after (Check wd) w)"
| timeouts: "reaches w (after (CheckTimeouts cm limit) w)"
| reconcile: "reaches w (after (ReconcileOrphanedRuns cm grace) w)"
| clean_up: "reaches w (after (CleanupOrphans cm) w)"
| planning: "reaches w (after (Import ie p cfg) w)"
| gate_action: "reaches w (after (HITLGateAction ae ctx) w)"
| human_action: "reaches w (after (HumanAction ae ctx) w)"
| retry_action: "(\<And>c v. reaches v (after (a_agent_run ae c) v)) \<Longrightarrow>
    reaches w (after (IncrementalRetryAction ae ctx) w)"
| branch_action: "reaches w (after (GitBranchAction g ctx) w)"
| pr_action: "reaches w (after (GitPRAction g ctx) w)"
| poll_action: "(\<And>k v. reaches v (after (g_meanwhile g k) v)) \<Longrightarrow>
    reaches w (after (CIPollAction g ctx) w)"
| notify_action: "reaches w (after (NotificationAction g ctx) w)"
| container_started: "reaches w (after (UpdateRunStepContainerInfo j ct l) w)"
| container_logs: "reaches w (after (AppendStepLogTail j line) w)"
| publish: "reaches w (after (publishEvent p ty ent act pl) w)"
| agent_callback: "reaches w (after (serveCallback cost_svc rq) w)"
| record_cost: "reaches w (after (RecordStepCost cost_svc j p es a) w)"
| token_cleanup: "reaches w (after cleanupTokens w)"
| agent_action: "(\<And>n v. reaches v (after (ae_meanwhile agent n) v)) \<Longrightarrow>
    reaches w (after (AgentRunAction agent ctx) w)"
| execute: "(\<And>name a ctx v. x_actions env name = Some a \<Longrightarrow> reaches v (after (a ctx) v)) \<Longrightarrow>
    (\<And>j v. reaches v (x_other env j v)) \<Longrightarrow>
    reaches w (after (ExecuteRun env i) w)"
| execute_epic:
    "(\<And>name a ctx v. x_actions (ep_exec ee) name = Some a \<Longrightarrow> reaches v (after (a ctx) v)) \<Longrightarrow>
    (\<And>j v. reaches v (x_other (ep_exec ee) j v)) \<Longrightarrow>
    reaches w (after (Execute ee er dag) w)"

context system_frame
begin

lemma keeps_iff: "keeps R m \<longleftrightarrow> (\<forall>w. R w (after m w))"
  by (simp add: keeps_def after_def)

theorem reaches_respects: "reaches w w' \<Longrightarrow> R w w'"
proof (induction rule: reaches.induct)
  case (retry_action ae w ctx)
  then have "keeps R (IncrementalRetryAction ae ctx)"
    by (intro retry_keeps) (simp add: keeps_iff)
  then show ?case by (simp add: keeps_iff)
next
  case (poll_action g w ctx)
  then have "keeps R (CIPollAction g ctx)"
    by (intro poll_action_keeps) (simp add: keeps_iff)
  then show ?case by (simp add: keeps_iff)
next
  case (agent_action agent w ctx)
  then have "keeps R (AgentRunAction agent ctx)"
    by (intro agent_run_keeps) (simp add: agent_keeps_def keeps_iff)
  then show ?case by (simp add: keeps_iff)
next
  case (execute env w i)
  then have "env_keeps env" by (simp add: env_keeps_def keeps_iff)
  then have "keeps R (ExecuteRun env i)" by (rule execute_keeps)
  then show ?case by (simp add: keeps_iff)
next
  case (execute_epic ee w er dag)
  then have "env_keeps (ep_exec ee)" by (simp add: env_keeps_def keeps_iff)
  then have "keeps R (Execute ee er dag)" by (rule epic_run_keeps)
  then show ?case by (simp add: keeps_iff)
next
  case further
  then show ?case by (blast intro: frame_trans)
qed (auto simp: frame_refl surroundings simp flip: after_def intro!: keeps_after frame_intros)

end

end
