(* ===== verification/Integrity.thy ===== *)
theory Integrity
  imports System "HOL-Library.Sublist"
begin

text \<open>
  Two invariants of everything the system can do: the references between the tables stay intact
  (the typing discipline of the store), and the history is append-only.
\<close>

section \<open>References\<close>

text \<open>A foreign key: every value of the column is the identifier of a row of the other table.\<close>

definition references :: "('a \<Rightarrow> 'k) \<Rightarrow> 'a list \<Rightarrow> ('b \<Rightarrow> 'k) \<Rightarrow> 'b list \<Rightarrow> bool" where
  "references col rows key others \<longleftrightarrow> (\<forall>x \<in> set rows. col x \<in> key ` set others)"

definition may_reference :: "('a \<Rightarrow> 'k option) \<Rightarrow> 'a list \<Rightarrow> ('b \<Rightarrow> 'k) \<Rightarrow> 'b list \<Rightarrow> bool" where
  "may_reference col rows key others \<longleftrightarrow> (\<forall>x \<in> set rows. \<forall>k. col x = Some k \<longrightarrow> k \<in> key ` set others)"

text \<open>A primary key the database hands out from the counter.\<close>

definition primary :: "('a \<Rightarrow> uuid) \<Rightarrow> 'a list \<Rightarrow> uuid \<Rightarrow> bool" where
  "primary key rows nxt \<longleftrightarrow> distinct (map key rows) \<and> (\<forall>x \<in> set rows. key x < nxt)"

definition db_ok :: "world \<Rightarrow> bool" where
  "db_ok w \<longleftrightarrow>
     primary run_id (w_runs w) (w_next w) \<and> primary story_id (w_stories w) (w_next w)
     \<and> primary epic_id (w_epics w) (w_next w) \<and> primary er_id (w_epic_runs w) (w_next w)
     \<and> distinct (map (\<lambda>x. (ers_epic_run x, ers_story x)) (w_epic_run_stories w))
     \<and> references run_project (w_runs w) project_id (w_projects w)
     \<and> references rs_run (w_steps w) run_id (w_runs w)
     \<and> may_reference rs_parent (w_steps w) rs_id (w_steps w)
     \<and> references hitl_step (w_hitl w) rs_id (w_steps w)
     \<and> references story_project (w_stories w) project_id (w_projects w)
     \<and> references epic_project (w_epics w) project_id (w_projects w)
     \<and> references er_project (w_epic_runs w) project_id (w_projects w)
     \<and> references er_epic (w_epic_runs w) epic_id (w_epics w)
     \<and> references ers_epic_run (w_epic_run_stories w) er_id (w_epic_runs w)
     \<and> references ers_story (w_epic_run_stories w) story_id (w_stories w)
     \<and> may_reference ers_run (w_epic_run_stories w) run_id (w_runs w)
     \<and> references ev_project (w_events w) project_id (w_projects w)
     \<and> primary cr_id (w_costs w) (w_next w) \<and> references cr_step (w_costs w) rs_id (w_steps w)
     \<and> references cr_project (w_costs w) project_id (w_projects w)
     \<and> may_reference cr_agent (w_costs w) agent_id (w_agents w)"

lemma map_tbl_update:
  "(\<And>r. g (f r) = g r) \<Longrightarrow> map g (tbl_update key i f rs) = map g rs"
  by (induction rs) auto

lemma image_tbl_update:
  "(\<And>r. g (f r) = g r) \<Longrightarrow> g ` set (tbl_update key i f rs) = g ` set rs"
  using map_tbl_update [of g f key i rs] by (metis image_set)

lemma references_image: "references col rs key os \<longleftrightarrow> col ` set rs \<subseteq> key ` set os"
  by (auto simp: references_def)

lemma may_reference_image: "may_reference col rs key os \<longleftrightarrow> col ` set rs \<subseteq> insert None (Some ` (key ` set os))"
proof -
  have "(\<forall>k. col x = Some k \<longrightarrow> k \<in> A) \<longleftrightarrow> col x \<in> insert None (Some ` A)" for x and A
    by (cases "col x") auto
  then show ?thesis by (simp only: may_reference_def image_subset_iff)
qed

lemma primary_image: "primary key rs nxt \<longleftrightarrow> distinct (map key rs) \<and> (\<forall>i \<in> key ` set rs. i < nxt)"
  by (auto simp: primary_def)

lemma references_update [simp]:
  "(\<And>r. col (f r) = col r) \<Longrightarrow> references col (tbl_update k i f rs) key os = references col rs key os"
  "(\<And>r. key (g r) = key r) \<Longrightarrow> references col rs key (tbl_update k' i' g os) = references col rs key os"
  by (simp_all add: references_image image_tbl_update)

lemma may_reference_update [simp]:
  "(\<And>r. ocol (f r) = ocol r) \<Longrightarrow> may_reference ocol (tbl_update k i f rs) key os = may_reference ocol rs key os"
  "(\<And>r. key (g r) = key r) \<Longrightarrow> may_reference ocol rs key (tbl_update k' i' g os) = may_reference ocol rs key os"
  by (simp_all add: may_reference_image image_tbl_update)

lemma primary_update [simp]:
  "(\<And>r. key (f r) = key r) \<Longrightarrow> primary key (tbl_update k i f rs) nxt = primary key rs nxt"
  by (simp add: primary_image image_tbl_update map_tbl_update)

lemma references_add [simp]:
  "references col (rs @ [x]) key os \<longleftrightarrow> references col rs key os \<and> col x \<in> key ` set os"
  "may_reference ocol (rs @ [x]) key os
     \<longleftrightarrow> may_reference ocol rs key os \<and> (\<forall>k. ocol x = Some k \<longrightarrow> k \<in> key ` set os)"
  by (auto simp: references_def may_reference_def)

lemma references_other [intro]:
  "references col rs key os \<Longrightarrow> references col rs key (os @ [y])"
  "may_reference ocol rs key os \<Longrightarrow> may_reference ocol rs key (os @ [y])"
  by (auto simp: references_def may_reference_def)

lemma primary_next [intro]: "primary key rs n \<Longrightarrow> primary key rs (Suc n)"
  by (auto simp: primary_def)

lemma primary_add [intro]: "primary key rs n \<Longrightarrow> key x = n \<Longrightarrow> primary key (rs @ [x]) (Suc n)"
  by (auto simp: primary_def)

lemma found_in [simp]: "tbl_find key i rs \<noteq> None \<Longrightarrow> i \<in> key ` set rs"
  by (simp add: tbl_find_None_iff)

section \<open>The references stay intact\<close>

definition integral :: "world \<Rightarrow> world \<Rightarrow> bool" where
  "integral w w' \<longleftrightarrow> (db_ok w \<longrightarrow> db_ok w')"

lemma db_ok_idle [simp]:
  "db_ok (w\<lparr>w_faults := fs\<rparr>) = db_ok w" "db_ok (w\<lparr>w_clock := t\<rparr>) = db_ok w" "db_ok (w\<lparr>w_tick := k\<rparr>) = db_ok w"
  "db_ok (w\<lparr>w_stops := ss\<rparr>) = db_ok w" "db_ok (w\<lparr>w_jobs := js\<rparr>) = db_ok w"
  "db_ok (w\<lparr>w_tokens := ts\<rparr>) = db_ok w" "db_ok (w\<lparr>w_channels := ch\<rparr>) = db_ok w"
  "db_ok (w\<lparr>w_calls := cs\<rparr>) = db_ok w"
  by (simp_all add: db_ok_def)

lemma db_ok_next [simp, intro]: "db_ok w \<Longrightarrow> db_ok (w\<lparr>w_next := Suc (w_next w)\<rparr>)"
  by (auto simp: db_ok_def)

text \<open>A write that only changes columns that are neither keys nor references.\<close>

lemma db_ok_updates [simp]:
  "(\<And>r. run_id (f r) = run_id r \<and> run_project (f r) = run_project r) \<Longrightarrow>
     db_ok (w\<lparr>w_runs := tbl_update run_id i f (w_runs w)\<rparr>) = db_ok w"
  "(\<And>s. rs_id (g s) = rs_id s \<and> rs_run (g s) = rs_run s \<and> rs_parent (g s) = rs_parent s) \<Longrightarrow>
     db_ok (w\<lparr>w_steps := tbl_update rs_id i g (w_steps w)\<rparr>) = db_ok w"
  "(\<And>s. story_id (h s) = story_id s \<and> story_project (h s) = story_project s) \<Longrightarrow>
     db_ok (w\<lparr>w_stories := tbl_update story_id i h (w_stories w)\<rparr>) = db_ok w"
  "(\<And>p. project_id (pj p) = project_id p) \<Longrightarrow>
     db_ok (w\<lparr>w_projects := tbl_update project_id i pj (w_projects w)\<rparr>) = db_ok w"
  "(\<And>x. hitl_step (hu x) = hitl_step x) \<Longrightarrow>
     db_ok (w\<lparr>w_hitl := tbl_update hitl_id i hu (w_hitl w)\<rparr>) = db_ok w"
  "(\<And>e. epic_id (ep e) = epic_id e \<and> epic_project (ep e) = epic_project e) \<Longrightarrow>
     db_ok (w\<lparr>w_epics := tbl_update epic_id i ep (w_epics w)\<rparr>) = db_ok w"
  "(\<And>e. er_id (eu e) = er_id e \<and> er_project (eu e) = er_project e \<and> er_epic (eu e) = er_epic e) \<Longrightarrow>
     db_ok (w\<lparr>w_epic_runs := tbl_update er_id i eu (w_epic_runs w)\<rparr>) = db_ok w"
  by (simp_all add: db_ok_def)

lemma db_ok_adds [intro]:
  "db_ok w \<Longrightarrow> run_id r = w_next w \<Longrightarrow> run_project r \<in> project_id ` set (w_projects w) \<Longrightarrow>
     db_ok (w\<lparr>w_runs := w_runs w @ [r], w_next := Suc (w_next w)\<rparr>)"
  "db_ok w \<Longrightarrow> rs_run s \<in> run_id ` set (w_runs w) \<Longrightarrow>
     (\<And>k. rs_parent s = Some k \<Longrightarrow> k \<in> rs_id ` set (w_steps w)) \<Longrightarrow>
     db_ok (w\<lparr>w_steps := w_steps w @ [s]\<rparr>)"
  "db_ok w \<Longrightarrow> hitl_step h \<in> rs_id ` set (w_steps w) \<Longrightarrow> db_ok (w\<lparr>w_hitl := w_hitl w @ [h]\<rparr>)"
  "db_ok w \<Longrightarrow> ev_project e \<in> project_id ` set (w_projects w) \<Longrightarrow> db_ok (w\<lparr>w_events := w_events w @ [e]\<rparr>)"
  "db_ok w \<Longrightarrow> story_id s' = w_next w \<Longrightarrow> story_project s' \<in> project_id ` set (w_projects w) \<Longrightarrow>
     db_ok (w\<lparr>w_stories := w_stories w @ [s'], w_next := Suc (w_next w)\<rparr>)"
  "db_ok w \<Longrightarrow> epic_id e' = w_next w \<Longrightarrow> epic_project e' \<in> project_id ` set (w_projects w) \<Longrightarrow>
     db_ok (w\<lparr>w_epics := w_epics w @ [e'], w_next := Suc (w_next w)\<rparr>)"
  "db_ok w \<Longrightarrow> er_id x = w_next w \<Longrightarrow> er_project x \<in> project_id ` set (w_projects w) \<Longrightarrow>
     er_epic x \<in> epic_id ` set (w_epics w) \<Longrightarrow>
     db_ok (w\<lparr>w_epic_runs := w_epic_runs w @ [x], w_next := Suc (w_next w)\<rparr>)"
  "db_ok w \<Longrightarrow> cr_id c = w_next w \<Longrightarrow> cr_step c \<in> rs_id ` set (w_steps w) \<Longrightarrow>
     cr_project c \<in> project_id ` set (w_projects w) \<Longrightarrow>
     (\<And>k. cr_agent c = Some k \<Longrightarrow> k \<in> agent_id ` set (w_agents w)) \<Longrightarrow>
     db_ok (w\<lparr>w_costs := w_costs w @ [c], w_next := Suc (w_next w)\<rparr>)"
  unfolding db_ok_def by (auto simp: references_def may_reference_def primary_def)

interpretation integral: frame integral
  by unfold_locales (simp_all add: integral_def)

lemma integral_fault_op:
  assumes "\<And>w. db_ok w \<Longrightarrow> db_ok (snd (run_state m w))"
  shows "keeps integral (fault_op e m)"
  using assms by (auto simp: keeps_def integral_def run_fault_op_faults split: list.split)

lemma integral_db_op:
  "(\<And>w. db_ok w \<Longrightarrow> db_ok (snd (run_state m w))) \<Longrightarrow> keeps integral (db_op what m)"
  unfolding db_op_def by (rule integral_fault_op)

lemma primary_bound: "tbl_find key i rs = Some r \<Longrightarrow> i \<in> key ` set rs"
  by (auto dest: tbl_find_eq_Some)

lemma integral_run_writes:
  "keeps integral (UpdateRunStatus i st sa ca pa em)" "keeps integral (UpdateRunMetadata i m)"
  "keeps integral (UpdateRunStepStatus i sst sa ca em)" "keeps integral (UpdateRunStepContainerInfo j ct l)"
  "keeps integral (AppendStepLogTail j line)" "keeps integral (MarkRunOrphanedIfRunning i t msg)"
  unfolding run_ops
  by (intro integral_db_op; simp add: run_simps orphan_run_def set_run_status_def set_step_status_def split: option.split)+

lemma integral_other_writes:
  "keeps integral (UpdateStory s)" "keeps integral (UpdateStoryCurrentStage k sg)"
  "keeps integral (SetWritebackStatus k ws)" "keeps integral (IncrementCircuitBreakerCount p)"
  "keeps integral (ResetCircuitBreaker p)" "keeps integral (UpdateHITLStatus h hst who why t)"
  "keeps integral (UpdateHITLResolution h hst who act t)" "keeps integral (UpdateEpicRunStatus i est ca)"
  unfolding other_ops epic_ops
  by (intro integral_db_op; simp add: run_simps set_story_def increment_breaker_def reset_breaker_def
      set_hitl_status_def set_epic_run_status_def split: option.split)+

lemma integral_import_updates:
  "keeps integral (UpdateStoryFromImport x)" "keeps integral (UpdateStoryProvenanceOnly x)"
  "keeps integral (UpdateEpicFromImport y)"
  unfolding planning_ops
  by (intro integral_db_op; simp add: run_simps set_story_import_def set_story_provenance_def set_epic_import_def
      split: option.split)+

lemma integral_creates:
  "keeps integral (CreateRun p k st sn m)" "keeps integral (CreateEpicRun p e est)"
  "keeps integral (CreateHITL h)" "keeps integral (CreateStoryFromImport x)" "keeps integral (CreateEpicFromImport y)"
  unfolding run_ops other_ops epic_ops planning_ops
  by (intro integral_db_op; auto simp: run_simps Let_def imported_row_def imported_epic_row_def
      dest: primary_bound intro!: db_ok_adds)+

lemma integral_insert_step:
  assumes "db_ok w"
  shows "db_ok (snd (run_state (insert_step what mk) w))"
  using assms by (auto simp: insert_step_def run_simps intro!: db_ok_adds dest: primary_bound)

lemma integral_step_creates:
  "keeps integral (CreateRunStep r n k a st si sn)" "keeps integral (CreateRetryRunStep s)"
  unfolding CreateRunStep_def CreateRetryRunStep_def
  by (intro integral_db_op; auto simp: run_simps split: prod.split dest: integral_insert_step
      intro: integral_insert_step)+

lemma set_ers_refs [simp]:
  "ers_epic_run (set_ers e k st r x) = ers_epic_run x" "ers_story (set_ers e k st r x) = ers_story x"
  by (simp_all add: set_ers_def)

lemma set_ers_keys:
  "map (\<lambda>x. (ers_epic_run x, ers_story x)) (map (set_ers e k st r) xs)
     = map (\<lambda>x. (ers_epic_run x, ers_story x)) xs"
  "references ers_epic_run (map (set_ers e k st r) xs) er_id ys = references ers_epic_run xs er_id ys"
  "references ers_story (map (set_ers e k st r) xs) story_id zs = references ers_story xs story_id zs"
  by (simp_all add: references_def)

lemma set_ers_runs:
  assumes "may_reference ers_run xs run_id (w_runs w)"
    and "run_ref_ok r w \<or> \<not> (\<exists>y \<in> set xs. same_ers e k y)"
  shows "may_reference ers_run (map (set_ers e k st r) xs) run_id (w_runs w)"
  using assms by (auto simp: may_reference_def set_ers_def run_ref_ok_def dest: primary_bound split: option.splits)

lemma integral_insert_ers: "keeps integral (InsertEpicRunStory x)"
  unfolding epic_ops
  by (intro integral_db_op)
     (auto simp: run_simps db_ok_def same_ers_def run_ref_ok_def dest: primary_bound split: option.splits)

lemma integral_update_ers: "keeps integral (UpdateEpicRunStoryStatus e k st r)"
  unfolding epic_ops
  by (intro integral_db_op)
     (auto simp: run_simps db_ok_def set_ers_keys simp del: map_map intro: set_ers_runs)

lemma integral_publish: "keeps integral (Publish p ty e a pl)"
proof -
  have "keeps integral time_now" by (simp add: keeps_def integral_def run_simps)
  then show ?thesis
    unfolding Publish_def
    by (intro integral.bind integral_db_op) (auto simp: run_simps dest: primary_bound intro!: db_ok_adds)
qed

lemma integral_idle:
  "integral w (w\<lparr>w_faults := fs, w_clock := t\<rparr>)" "integral w (w\<lparr>w_next := Suc (w_next w)\<rparr>)"
  "integral w (w\<lparr>w_stops := ss\<rparr>)" "integral w (w\<lparr>w_faults := fs, w_clock := t, w_tick := k\<rparr>)"
  "integral (w\<lparr>w_faults := fs\<rparr>) w' \<Longrightarrow> integral w (w'\<lparr>w_faults := gs\<rparr>)"
  by (auto simp: integral_def)

lemma integral_enqueue: "keeps integral (enqueue what j)"
  unfolding enqueue_def by (rule integral_fault_op) (simp add: run_simps)

lemma integral_cost: "keeps integral (InsertCostRecord c)"
  unfolding InsertCostRecord_def
  by (intro integral_db_op)
     (auto simp: run_simps Let_def agent_ref_ok_def dest: primary_bound intro!: db_ok_adds split: option.splits)

lemma integral_outside:
  "integral w (w\<lparr>w_tokens := ts\<rparr>)" "integral w (w\<lparr>w_channels := ch\<rparr>)" "integral w (w\<lparr>w_calls := cs\<rparr>)"
  by (simp_all add: integral_def)

lemmas integral_brackets = bracketed_keeps [of integral, OF integral.frame_refl integral.frame_trans
    integral_outside(3) integral_idle(3)]

interpretation integral: system_frame integral
  by unfold_locales
     (simp_all add: integral_cost integral_outside integral_brackets add: integral_run_writes integral_other_writes integral_import_updates integral_creates
        integral_step_creates integral_insert_ers integral_update_ers integral_publish integral_idle
        integral_enqueue)

text \<open>
  the references between the tables stay intact. Whatever operations of the services run, in
  whatever order and interleaving and under whatever infrastructure failures, a store in which the
  primary keys are unique and every run, step, request, story, epic, epic run and event refers to
  rows that exist is led to such a store again.
\<close>

theorem references_stay_intact:
  assumes "reaches w w'" and "db_ok w"
  shows "db_ok w'"
  using integral.reaches_respects [OF assms(1)] assms(2) by (simp add: integral_def)

section \<open>The history is append-only\<close>

text \<open>What never changes of a row.\<close>

definition runFixed :: "run \<Rightarrow> uuid \<times> uuid \<times> uuid \<times> snapshot \<times> time" where
  "runFixed r = (run_id r, run_project r, run_story r, run_snapshot r, run_created_at r)"

definition stepFixed :: "run_step \<Rightarrow> (uuid \<times> uuid \<times> string \<times> int \<times> string) \<times> string \<times> int \<times> uuid option" where
  "stepFixed s = ((rs_id s, rs_run s, rs_name s, rs_order s, rs_action s), rs_stage_id s, rs_retry_count s, rs_parent s)"

definition hitlFixed :: "hitl_request \<Rightarrow> uuid \<times> uuid \<times> string \<times> msg option \<times> halt_reason option" where
  "hitlFixed h = (hitl_id h, hitl_step h, hitl_gate_type h, hitl_message h, hitl_halt_reason h)"

definition storyFixed :: "story \<Rightarrow> uuid \<times> uuid \<times> string" where
  "storyFixed s = (story_id s, story_project s, story_key s)"

definition history :: "world \<Rightarrow> world \<Rightarrow> bool" where
  "history w w' \<longleftrightarrow>
     prefix (map runFixed (w_runs w)) (map runFixed (w_runs w'))
     \<and> prefix (map stepFixed (w_steps w)) (map stepFixed (w_steps w'))
     \<and> prefix (map hitlFixed (w_hitl w)) (map hitlFixed (w_hitl w'))
     \<and> prefix (map storyFixed (w_stories w)) (map storyFixed (w_stories w'))
     \<and> prefix (map epic_id (w_epics w)) (map epic_id (w_epics w'))
     \<and> prefix (w_events w) (w_events w') \<and> prefix (w_costs w) (w_costs w')
     \<and> prefix (w_stops w) (w_stops w')
     \<and> w_next w \<le> w_next w'"

lemmas fixed_defs = runFixed_def stepFixed_def hitlFixed_def storyFixed_def

lemma prefix_snoc_map [simp]: "prefix (map f xs) (map f xs @ ys)"
  by simp

lemma history_trans: "history u v \<Longrightarrow> history v w \<Longrightarrow> history u w"
  unfolding history_def by (meson le_trans prefix_order.trans)

lemma history_brackets:
  assumes "keeps history m"
  shows "keeps history (bracketed c (cleanupContainer i) m)" "keeps history (bracketed c (stopBestEffort c' i) m)"
    "keeps history (bracketed c (noteCall c') m)"
  by (rule bracketed_keeps [of history, OF _ history_trans _ _ assms]; simp add: history_def)+

interpretation history: system_frame history
proof
  show "history w w" for w by (simp add: history_def)
  show "history u v \<Longrightarrow> history v w \<Longrightarrow> history u w" for u v w by (rule history_trans)
  show "keeps history m \<Longrightarrow> keeps history (bracketed (CallCreate opts i) (cleanupContainer i) m)" for opts i m
    by (rule history_brackets)
  show "keeps history m \<Longrightarrow> keeps history (bracketed (CallLaunch spec h) (stopBestEffort (CallStopRun h) h) m)" for spec h m
    by (rule history_brackets)
  show "keeps history m \<Longrightarrow> keeps history (bracketed (CallSidecars i n) (noteCall (CallCleanup i n)) m)" for i n m
    by (rule history_brackets)
qed (simp_all add: InsertCostRecord_def history_def keeps_def run_ops other_ops epic_ops planning_ops run_simps run_db_op_faults
  run_fault_op_faults Let_def map_tbl_update fixed_defs set_run_status_def orphan_run_def set_step_status_def
  set_story_def increment_breaker_def reset_breaker_def set_hitl_status_def set_epic_run_status_def
  set_story_import_def set_story_provenance_def set_epic_import_def split: list.split option.split)


end
