(* ===== verification/SystemWitnesses.thy ===== *)
theory SystemWitnesses
  imports Integrity RunWitnesses
begin

text \<open>The properties of the whole system and the refinement applied to the sample project.\<close>

lemma running_world_ok: "db_ok running_world"
  by (simp add: db_ok_def primary_def references_def may_reference_def sample_world_def empty_world_def
      sample_run_def sample_a_def sample_b_def blank_step_def sample_story_def sample_project_def)

text \<open>A cancellation, then a launch for the same story.\<close>

definition relaunched :: world where
  "relaunched = after (LaunchRun sample_svc 1 10 7) (after (CancelRun sample_svc 1 20) running_world)"

lemma reaches_relaunched: "reaches running_world relaunched"
  unfolding relaunched_def by (rule reaches.further [OF reaches.cancel reaches.launch])

lemma references_stay_intact_witness: "db_ok relaunched \<and> w_runs running_world \<noteq> []"
  using references_stay_intact [OF reaches_relaunched running_world_ok] by simp


definition control_session :: "run_command list" where
  "control_session = [CmdPause 1 20, CmdPause 1 20, CmdResume 1 20, CmdMoveStep 31 StepStatusCompleted,
     CmdCancel 2 20, CmdCancel 1 20]"

lemma control_verdicts:
  "fst (spec_all control_session (lifecycle_of running_world))
     = [Accepted, Refused, Accepted, Accepted, Missing, Accepted]"
  by (simp add: control_session_def lifecycle_of_def on_run_def runOwner_def runSt_def stepSt_def stepRun_def
      storySt_def move_run_def close_run_def sample_world_def empty_world_def sample_run_def sample_a_def
      sample_b_def blank_step_def Let_def)

lemma run_control_refines_witness:
  "fst (run_state (perform_all sample_svc control_session) running_world)
     = [Accepted, Refused, Accepted, Accepted, Missing, Accepted]"
proof -
  let ?w = "snd (run_state (perform_all sample_svc control_session) running_world)"
  have "spec_all control_session (lifecycle_of running_world)
      = (fst (run_state (perform_all sample_svc control_session) running_world), lifecycle_of ?w)"
    using run_control_refines [OF _ _ _ surjective_pairing, of running_world sample_svc control_session]
    by (simp add: sample_world_def empty_world_def sample_svc_def sample_a_def sample_b_def blank_step_def)
  then show ?thesis using control_verdicts by simp
qed

end
