(* ===== verification/CostsSpec.thy ===== *)
theory CostsSpec
  imports Costs PlanningImportSpec "HOL-Library.Multiset"
begin

text \<open>
  What the cost reports promise: the breakdowns add up to the totals, a recorded step adds exactly
  its amount, pages partition the rows; and three defects: the price of a versioned model can depend
  on the order of a map, the token totals of a story are always zero, and far pages fail.
\<close>

section \<open>Groups\<close>

lemma sum_list_single:
  fixes a :: "'b :: comm_monoid_add"
  shows "distinct ks \<Longrightarrow> sum_list (map (\<lambda>k. if c = k then a else 0) ks) = (if c \<in> set ks then a else 0)"
  by (induction ks) auto

lemma sum_list_parts:
  fixes f :: "'a \<Rightarrow> 'b :: comm_monoid_add"
  assumes "distinct ks"
  shows "set (map key xs) \<subseteq> set ks \<Longrightarrow>
    sum_list (map (\<lambda>k. sum_list (map f (filter (\<lambda>x. key x = k) xs))) ks) = sum_list (map f xs)"
proof (induction xs)
  case (Cons x xs)
  have "sum_list (map (\<lambda>k. sum_list (map f (filter (\<lambda>y. key y = k) (x # xs)))) ks)
      = sum_list (map (\<lambda>k. (if key x = k then f x else 0) + sum_list (map f (filter (\<lambda>y. key y = k) xs))) ks)"
    by (rule arg_cong [where f = sum_list], rule map_cong) auto
  also have "\<dots> = f x + sum_list (map f xs)"
    using Cons assms by (simp add: sum_list_addf sum_list_single)
  finally show ?case by simp
qed simp

lemma sum_list_groups:
  fixes f :: "'a \<Rightarrow> 'b :: comm_monoid_add"
  shows "sum_list (map (\<lambda>g. sum_list (map f (snd g))) (groupBy key xs)) = sum_list (map f xs)"
  using sum_list_parts [of "remdups (map key xs)" key xs f] by (simp add: groupBy_def comp_def)

lemma sum_list_sort_key:
  fixes f :: "'a \<Rightarrow> 'b :: comm_monoid_add"
  shows "sum_list (map f (sort_key h xs)) = sum_list (map f xs)"
proof -
  have "mset (map f (sort_key h xs)) = mset (map f xs)" by simp
  then show ?thesis by (metis sum_mset_sum_list)
qed

lemma groups_keys: "map fst (groupBy key xs) = remdups (map key xs)"
  by (simp add: groupBy_def comp_def)

lemma groups_rows: "g \<in> set (groupBy key xs) \<Longrightarrow> snd g = filter (\<lambda>x. key x = fst g) xs"
  by (auto simp: groupBy_def)

lemma castable_groups:
  "groupsCastable (groupBy key xs) \<Longrightarrow> g \<in> set (groupBy key xs) \<Longrightarrow> castable (snd g)"
  by (auto simp: groupsCastable_def list_all_iff)

section \<open>Reading\<close>

text \<open>A query that answers, answers from the tables, and changes none.\<close>

lemma query_Inr:
  assumes "run_state (query what fine rows) w = (Inr x, w')"
  shows "same_db w w'" "fine w'" "x = rows w'"
  using assms
  by (auto simp: query_def run_db_op_faults run_simps same_db_faults db.frame_refl
      split: list.splits if_splits)

lemma same_db_costs:
  assumes "same_db w w'"
  shows "costsOfRun i w' = costsOfRun i w" "costRole w' = costRole w" "costsOfProjectRuns p w' = costsOfProjectRuns p w"
    "costsOfStory k w' = costsOfStory k w" "costsSince p t w' = costsSince p t w"
    "w_costs w' = w_costs w" "costOfRun i w' = costOfRun i w" "costStep w' = costStep w"
  using assms
  by (auto simp: same_db_def costsOfRun_def costStep_def costRole_def costsOfProjectRuns_def costRun_def
      costsOfStory_def costsSince_def costOfRun_def fun_eq_iff split: option.splits)

text \<open>An operation answers with a value of the tables: what it returns is that value, and it changes no table.\<close>

definition answers :: "'a fop \<Rightarrow> (world \<Rightarrow> 'a) \<Rightarrow> bool" where
  "answers m g \<longleftrightarrow> (\<forall>w x w'. run_state m w = (Inr x, w') \<longrightarrow> same_db w w' \<and> x = g w)"

lemma answersD: "answers m g \<Longrightarrow> run_state m w = (Inr x, w') \<Longrightarrow> same_db w w' \<and> x = g w"
  by (simp add: answers_def)

lemma answers_query:
  assumes "\<And>w w'. same_db w w' \<Longrightarrow> rows w' = rows w"
  shows "answers (query what fine rows) rows"
  unfolding answers_def using query_Inr assms by metis

text \<open>One step of a report: it continues with the value of the tables before.\<close>

lemma attempt_answers:
  assumes "run_state (attempt m f) u = (Inr y, w')" and "answers m g" and "same_db w u" and "g u = g w"
  obtains v where "same_db w v" "run_state (f (g w)) v = (Inr y, w')"
  using assms attempt_Inr [OF assms(1)] answersD [OF assms(2)] db.frame_trans [OF assms(3)] by metis

lemma answers_SumCostByRun: "answers (SumCostByRun i) (\<lambda>w. costOf (costsOfRun i w))"
proof -
  have "same_db w w' \<and> x = costOfRun i w'" if "run_state (SumCostByRun i) w = (Inr x, w')" for w w' x
    using that by (auto simp: SumCostByRun_def run_db_op_faults run_simps same_db_faults db.frame_refl
        split: list.splits if_splits)
  moreover have "costOfRun i w = costOf (costsOfRun i w)" for w
    by (simp add: costOfRun_def costOf_def costsOfRun_def costStep_def)
  ultimately show ?thesis using same_db_costs(7) unfolding answers_def by metis
qed

lemma answers_cost_queries:
  "answers (SumTokensByRun i) (sumTokensByRun i)"
  "answers (ListCostsByRunByRole i) (listCostsByRunByRole i)"
  unfolding SumTokensByRun_def ListCostsByRunByRole_def
  by (rule answers_query; simp add: sumTokensByRun_def listCostsByRunByRole_def same_db_costs)+

lemma cost_reads [frame_intros]:
  "keeps same_db (GetRun i)" "keeps same_db (GetProjectByID p)" "keeps same_db (GetStoryByID k)"
  unfolding GetRun_def GetProjectByID_def GetStoryByID_def find_row_def by (rule db_read)+

lemma projectRun_reads [frame_intros]: "keeps same_db (projectRun p i)"
  unfolding projectRun_def by (intro frame_intros)

section \<open>Breakdowns add up\<close>

lemma role_rows:
  "map rl_role (map roleRow gs) = map fst gs" "map rl_cost (map roleRow gs) = map (\<lambda>g. costOf (snd g)) gs"
  "map rl_input (map roleRow gs) = map (\<lambda>g. inputOf (snd g)) gs"
  "map rl_output (map roleRow gs) = map (\<lambda>g. outputOf (snd g)) gs"
  by (simp_all add: roleRow_def)

lemma listCostsByRunByRole_sums:
  "sum_list (map rl_cost (listCostsByRunByRole i w)) = costOf (costsOfRun i w)"
  "sum_list (map rl_input (listCostsByRunByRole i w)) = inputOf (costsOfRun i w)"
  "sum_list (map rl_output (listCostsByRunByRole i w)) = outputOf (costsOfRun i w)"
  unfolding listCostsByRunByRole_def sum_list_sort_key role_rows costOf_def inputOf_def outputOf_def
  by (rule sum_list_groups)+

lemma listCostsByRunByRole_rows:
  "distinct (map rl_role (listCostsByRunByRole i w))"
  "x \<in> set (listCostsByRunByRole i w) \<Longrightarrow>
     rl_cost x = costOf (filter (\<lambda>c. costRole w c = rl_role x) (costsOfRun i w))"
proof -
  let ?gs = "groupBy (costRole w) (costsOfRun i w)"
  have "mset (map rl_role (listCostsByRunByRole i w)) = mset (map rl_role (map roleRow ?gs))"
    by (simp add: listCostsByRunByRole_def multiset.map_comp)
  then have "distinct (map rl_role (listCostsByRunByRole i w)) = distinct (map rl_role (map roleRow ?gs))"
    by (rule mset_eq_imp_distinct_iff)
  then show "distinct (map rl_role (listCostsByRunByRole i w))"
    by (simp add: role_rows groups_keys del: map_map)
  show "x \<in> set (listCostsByRunByRole i w) \<Longrightarrow>
     rl_cost x = costOf (filter (\<lambda>c. costRole w c = rl_role x) (costsOfRun i w))"
    by (auto simp: listCostsByRunByRole_def roleRow_def dest: groups_rows)
qed


text \<open>
  the tokens of a story are never reported. The sums of tokens in the query of a story have no cast,
  so the driver returns an arbitrary-precision number, which \<open>toInt64\<close> does not know: with such a driver
  every report on a story that is returned says that no token was used, whatever was recorded, while the
  amount of money is the right one.
\<close>

theorem story_tokens_always_zero:
  assumes "\<And>n. cs_scan svc n = ScanOther"
    and "run_state (GetStoryCosts svc p k) w = (Inr r, w')"
  shows "stcs_input r = 0 \<and> stcs_output r = 0 \<and> stcs_total r = costOf (costsOfStory k w)"
proof -
  from assms(2) obtain s u where u: "run_state (GetStoryByID k) w = (Inr s, u)"
    and rest: "run_state (if story_project s \<noteq> p then fail (NewNotFound ''story'' (U k))
      else attempt (SumCostByStory (cs_scan svc) k) (\<lambda>(amount, i, out, n).
        ok \<lparr>stcs_story = k, stcs_total = amount, stcs_input = i, stcs_output = out, stcs_runs = n\<rparr>)) u = (Inr r, w')"
    unfolding GetStoryCosts_def by (rule attempt_Inr)
  have wu: "same_db w u" using keepsD [OF cost_reads(3) u] .
  have same: "story_project s = p" using rest by (auto simp: run_simps split: if_splits)
  have "run_state (attempt (SumCostByStory (cs_scan svc) k) (\<lambda>(amount, i, out, n).
        ok \<lparr>stcs_story = k, stcs_total = amount, stcs_input = i, stcs_output = out, stcs_runs = n\<rparr>)) u = (Inr r, w')"
    using rest by (simp only: same) simp
  then obtain x v where x: "run_state (SumCostByStory (cs_scan svc) k) u = (Inr x, v)"
    and r: "run_state ((\<lambda>(amount, i, out, n).
        ok \<lparr>stcs_story = k, stcs_total = amount, stcs_input = i, stcs_output = out, stcs_runs = n\<rparr> :: _ fop) x) v = (Inr r, w')"
    by (rule attempt_Inr)
  note q = query_Inr [OF x [unfolded SumCostByStory_def]]
  show ?thesis
    using q(3) r same_db_costs(4) [OF db.frame_trans [OF wu q(1)]] assms(1)
    by (auto simp: sumCostByStory_def Let_def run_simps)
qed

section \<open>Recording the cost of a step\<close>

lemma int64_id: "0 \<le> x \<Longrightarrow> x < 2 ^ 63 \<Longrightarrow> int64 x = x"
  by (simp add: int64_def)

lemma int32_id: "- (2 ^ 31) \<le> x \<Longrightarrow> x < 2 ^ 31 \<Longrightarrow> int32 x = x"
  by (simp add: int32_def)

lemma int32_overflow:
  assumes "2 ^ 31 \<le> x" and "x < 2 ^ 32"
  shows "int32 x = x - 2 ^ 32"
proof -
  have "(x + 2 ^ 31) mod 2 ^ 32 = (x + 2 ^ 31 - 2 ^ 32) mod 2 ^ 32" by (simp only: minus_mod_self2)
  also have "\<dots> = x + 2 ^ 31 - 2 ^ 32" by (rule mod_pos_pos_trivial) (use assms in simp_all)
  finally show ?thesis by (simp add: int32_def)
qed

definition sumInput :: "cost_event list \<Rightarrow> int" where
  "sumInput es = sum_list (map ce_input es)"

definition sumOutput :: "cost_event list \<Rightarrow> int" where
  "sumOutput es = sum_list (map ce_output es)"

text \<open>Token counts as an agent can report them: not negative, and no sum of them overflows.\<close>

definition countable_tokens :: "cost_event list \<Rightarrow> bool" where
  "countable_tokens es \<longleftrightarrow> (\<forall>e \<in> set es. 0 \<le> ce_input e \<and> 0 \<le> ce_output e)
     \<and> sumInput es < 2 ^ 63 \<and> sumOutput es < 2 ^ 63"

lemma sum_list_nonneg_int: "(\<forall>e \<in> set es. 0 \<le> (f e :: int)) \<Longrightarrow> 0 \<le> sum_list (map f es)"
  by (induction es) auto

lemma foldl_addEvent:
  assumes "countable_tokens es" and "0 \<le> sum_input a" and "0 \<le> sum_output a"
    and "sum_input a + sumInput es < 2 ^ 63" and "sum_output a + sumOutput es < 2 ^ 63"
  shows "sum_input (foldl addEvent a es) = sum_input a + sumInput es"
    and "sum_output (foldl addEvent a es) = sum_output a + sumOutput es"
    and "sum_reported (foldl addEvent a es) = sum_reported a + sum_list (map ce_cost es)"
    and "sum_any (foldl addEvent a es) = (sum_any a \<or> (\<exists>e \<in> set es. 0 < ce_cost e))"
proof -
  have "sum_input (foldl addEvent a es) = sum_input a + sumInput es
    \<and> sum_output (foldl addEvent a es) = sum_output a + sumOutput es
    \<and> sum_reported (foldl addEvent a es) = sum_reported a + sum_list (map ce_cost es)
    \<and> sum_any (foldl addEvent a es) = (sum_any a \<or> (\<exists>e \<in> set es. 0 < ce_cost e))"
    using assms
  proof (induction es arbitrary: a)
    case (Cons e es)
    have n: "0 \<le> ce_input e" "0 \<le> ce_output e" "0 \<le> sumInput es" "0 \<le> sumOutput es"
      "countable_tokens es"
      using Cons.prems(1) sum_list_nonneg_int [of es ce_input] sum_list_nonneg_int [of es ce_output]
      by (auto simp: countable_tokens_def sumInput_def sumOutput_def)
    have b: "sum_input (addEvent a e) = sum_input a + ce_input e"
      "sum_output (addEvent a e) = sum_output a + ce_output e"
      using Cons.prems n by (simp_all add: addEvent_def sumInput_def sumOutput_def int64_id)
    have "0 \<le> sum_input (addEvent a e)" "0 \<le> sum_output (addEvent a e)"
      "sum_input (addEvent a e) + sumInput es < 2 ^ 63" "sum_output (addEvent a e) + sumOutput es < 2 ^ 63"
      using b n Cons.prems by (simp_all add: sumInput_def sumOutput_def)
    from Cons.IH [OF n(5) this] b show ?case
      by (auto simp: sumInput_def sumOutput_def addEvent_def)
  qed (simp add: sumInput_def sumOutput_def)
  then show "sum_input (foldl addEvent a es) = sum_input a + sumInput es"
    and "sum_output (foldl addEvent a es) = sum_output a + sumOutput es"
    and "sum_reported (foldl addEvent a es) = sum_reported a + sum_list (map ce_cost es)"
    and "sum_any (foldl addEvent a es) = (sum_any a \<or> (\<exists>e \<in> set es. 0 < ce_cost e))"
    by simp_all
qed

lemma sumEvents_totals:
  assumes "countable_tokens es"
  shows "sum_input (sumEvents es) = sumInput es" "sum_output (sumEvents es) = sumOutput es"
    "sum_reported (sumEvents es) = sum_list (map ce_cost es)"
    "sum_any (sumEvents es) \<longleftrightarrow> (\<exists>e \<in> set es. 0 < ce_cost e)"
  using assms foldl_addEvent [OF assms, of "\<lparr>sum_input = 0, sum_output = 0, sum_reported = 0, sum_any = False,
       sum_model = ce_model (hd es)\<rparr>"]
  by (simp_all add: sumEvents_def countable_tokens_def)

text \<open>The amount of a batch: what was reported, or the price of all its tokens when nothing was.\<close>

definition batchCost :: "cost_svc \<Rightarrow> cost_event list \<Rightarrow> real" where
  "batchCost svc es =
     (if \<exists>e \<in> set es. 0 < ce_cost e then sum_list (map ce_cost es)
      else fst (ComputeCostUSD (cs_order svc) (sum_model (sumEvents es)) (sumInput es) (sumOutput es)))"

lemma stepCost_batch: "countable_tokens es \<Longrightarrow> stepCost svc (sumEvents es) = batchCost svc es"
  by (simp add: stepCost_def batchCost_def sumEvents_totals)

definition stored :: "real \<Rightarrow> real" where
  "stored x = real_of_int (micros x) / 1000000"

text \<open>The record a report leaves, and what a run's records become.\<close>

definition reportRecord :: "cost_svc \<Rightarrow> uuid \<Rightarrow> uuid \<Rightarrow> uuid option \<Rightarrow> cost_event list \<Rightarrow> world \<Rightarrow> cost_record" where
  "reportRecord svc j p a es w = (stepRecord svc j p a (sumEvents es))
     \<lparr>cr_id := w_next w, cr_cost := stored (batchCost svc es), cr_created_at := w_clock w\<rparr>"

lemma run_RecordStepCost:
  assumes "w_faults w = []" and "es \<noteq> []" and "countable_tokens es"
    and "tbl_find rs_id j (w_steps w) = Some s" and "tbl_find project_id p (w_projects w) \<noteq> None"
    and "agent_ref_ok a w" and "decimal (stored (batchCost svc es))"
  shows "run_state (RecordStepCost svc j p es a) w =
    (Inr (), w\<lparr>w_costs := w_costs w @ [reportRecord svc j p a es w], w_next := Suc (w_next w)\<rparr>)"
  using assms stepCost_batch [OF assms(3), of svc]
  by (auto simp: RecordStepCost_def InsertCostRecord_def run_simps stepRecord_def Let_def stored_def
      reportRecord_def)

lemma costsOfRun_add:
  assumes "tbl_find rs_id (cr_step c) (w_steps w) = Some s"
  shows "costsOfRun k (w\<lparr>w_costs := w_costs w @ [c], w_next := n\<rparr>) =
    costsOfRun k w @ (if k = rs_run s then [c] else [])"
  using assms by (simp add: costsOfRun_def costStep_def)

lemma costOfRun_sum: "costOfRun k w = costOf (costsOfRun k w)"
  by (simp add: costOfRun_def costOf_def costsOfRun_def costStep_def)

text \<open>
  recording the cost of a step. A batch of events with sensible token counts adds exactly one
  record to the run of the step, with the token counts of all events and the amount rounded to
  millionths, so the run's total grows by exactly that amount and no other run's records change. The
  amount is the sum of the reported costs as soon as one event reports one, the price of all tokens
  otherwise.
\<close>

theorem step_cost_recorded:
  assumes "w_faults w = []" and "es \<noteq> []" and "countable_tokens es"
    and "tbl_find rs_id j (w_steps w) = Some s" and "tbl_find project_id p (w_projects w) \<noteq> None"
    and "agent_ref_ok a w" and "decimal (stored (batchCost svc es))"
  shows "\<exists>w' c. run_state (RecordStepCost svc j p es a) w = (Inr (), w')
    \<and> costsOfRun (rs_run s) w' = costsOfRun (rs_run s) w @ [c] \<and> cr_step c = j
    \<and> cr_tokens_in c = sumInput es \<and> cr_tokens_out c = sumOutput es
    \<and> cr_cost c = stored (batchCost svc es)
    \<and> costOfRun (rs_run s) w' = costOfRun (rs_run s) w + stored (batchCost svc es)
    \<and> (\<forall>k. k \<noteq> rs_run s \<longrightarrow> costsOfRun k w' = costsOfRun k w)"
proof -
  let ?c = "reportRecord svc j p a es w"
  have "cr_step ?c = j" by (simp add: reportRecord_def stepRecord_def)
  then show ?thesis
    using run_RecordStepCost [OF assms] costsOfRun_add [of ?c w s] assms(3,4)
    by (intro exI [of _ "w\<lparr>w_costs := w_costs w @ [?c], w_next := Suc (w_next w)\<rparr>"] exI [of _ ?c])
       (simp add: costOfRun_sum costOf_def reportRecord_def stepRecord_def sumEvents_totals)
qed

section \<open>The price of a model\<close>

definition mini :: string where
  "mini = ''gpt-4o-mini''"

text \<open>Two texts of which one can be a prefix of a model that the other is a prefix of, too.\<close>

definition compatible :: "string \<Rightarrow> string \<Rightarrow> bool" where
  "compatible p q \<longleftrightarrow> take (min (length p) (length q)) p = take (min (length p) (length q)) q"

lemma hasPrefix_take:
  assumes "hasPrefix m p" and "n \<le> length p"
  shows "take n p = take n m"
proof -
  have "take n p = take n (take (length p) m)" using assms(1) by (simp add: hasPrefix_def)
  also have "\<dots> = take n m" using assms(2) by (simp add: min_absorb1)
  finally show ?thesis .
qed

lemma prefixes_compatible: "hasPrefix m p \<Longrightarrow> hasPrefix m q \<Longrightarrow> compatible p q"
  by (simp add: compatible_def hasPrefix_take)

lemma compatible_keys:
  "\<forall>p \<in> set (map fst modelPricing). \<forall>q \<in> set (map fst modelPricing).
     compatible p q \<longrightarrow> p = q \<or> p = mini \<or> q = mini"
  by code_simp

lemma pricing_keys: "distinct (map fst modelPricing)"
  by code_simp

lemma find_filter: "find P xs = (case filter P xs of [] \<Rightarrow> None | x # _ \<Rightarrow> Some x)"
  by (induction xs) auto

lemma filter_unique:
  assumes "distinct xs" and "\<And>x y. x \<in> set xs \<Longrightarrow> y \<in> set xs \<Longrightarrow> P x \<Longrightarrow> P y \<Longrightarrow> x = y"
  shows "length (filter P xs) \<le> 1"
proof (rule ccontr)
  assume "\<not> length (filter P xs) \<le> 1"
  then obtain x y zs where f: "filter P xs = x # y # zs"
    by (metis One_nat_def Suc_le_eq length_0_conv length_Suc_conv less_Suc0 linorder_not_le neq_Nil_conv)
  have "x \<in> {v \<in> set xs. P v}" "y \<in> {v \<in> set xs. P v}"
    using f by (metis list.set_intros set_filter)+
  with assms(2) have "x = y" by simp
  moreover have "distinct (x # y # zs)" using assms(1) f by (metis distinct_filter)
  ultimately show False by simp
qed

lemma find_permuted:
  assumes "mset ys = mset xs" and "length (filter P xs) \<le> 1"
  shows "find P ys = find P xs"
proof -
  have m: "mset (filter P ys) = mset (filter P xs)" using assms(1) by simp
  have "filter P ys = filter P xs"
  proof (cases "filter P xs")
    case Nil
    with m show ?thesis by simp
  next
    case (Cons a as)
    with assms(2) have a: "filter P xs = [a]" by simp
    with m have "mset (filter P ys) = {#a#}" by (simp del: mset_filter)
    with a show ?thesis by (simp only: mset_single_iff)
  qed
  then show ?thesis by (simp add: find_filter)
qed

lemma mini_first:
  assumes "hasPrefix m mini"
  shows "find (\<lambda>kp. hasPrefix m (fst kp)) modelPricing = Some (''gpt-4o'', price (25 / 10) 10)"
proof -
  have "take (length ''gpt-4o'') mini = take (length ''gpt-4o'') m"
    by (rule hasPrefix_take [OF assms]) (simp add: mini_def)
  moreover have "take (length ''gpt-4o'') mini = ''gpt-4o''" by (simp add: mini_def)
  ultimately have "hasPrefix m ''gpt-4o''" by (simp only: hasPrefix_def)
  moreover have "\<not> hasPrefix m p" if "p \<in> {''claude-opus-4-6'', ''claude-sonnet-4-6'', ''claude-haiku-4-5''}" for p
    using prefixes_compatible [OF assms, of p] that by (auto simp: compatible_def mini_def)
  ultimately show ?thesis by (simp add: modelPricing_def)
qed

text \<open>
  the price of a model is not a function of the model. Where no key is the model itself, the code takes
  the first key it meets that is a prefix, in the order in which Go ranges over the map, although
  its comment promises the longest. Two orders give two prices exactly for the versioned names of
  \<open>gpt-4o-mini\<close>, which can be charged as \<open>gpt-4o\<close>, at more than sixteen times the price.
\<close>

theorem price_depends_on_map_order:
  "(\<exists>o1 o2. mset o1 = mset modelPricing \<and> mset o2 = mset modelPricing
      \<and> lookupPricing o1 m \<noteq> lookupPricing o2 m)
   \<longleftrightarrow> hasPrefix m ''gpt-4o-mini'' \<and> map_of modelPricing m = None"
proof
  assume "\<exists>o1 o2. mset o1 = mset modelPricing \<and> mset o2 = mset modelPricing
      \<and> lookupPricing o1 m \<noteq> lookupPricing o2 m"
  then obtain o1 o2 where o12: "mset o1 = mset modelPricing" "mset o2 = mset modelPricing"
    and d: "lookupPricing o1 m \<noteq> lookupPricing o2 m" by blast
  from d have none: "map_of modelPricing m = None" by (auto simp: lookupPricing_def split: option.splits)
  have "hasPrefix m mini"
  proof (rule ccontr)
    assume n: "\<not> hasPrefix m mini"
    let ?P = "\<lambda>kp. hasPrefix m (fst kp)"
    have "length (filter ?P modelPricing) \<le> 1"
    proof (rule filter_unique)
      show "distinct modelPricing" using pricing_keys by (simp add: distinct_map)
      fix x y assume x: "x \<in> set modelPricing" "y \<in> set modelPricing" "?P x" "?P y"
      then have "compatible (fst x) (fst y)" by (simp add: prefixes_compatible)
      moreover have "fst x \<noteq> mini" "fst y \<noteq> mini" using x(3,4) n by auto
      ultimately have "fst x = fst y" using compatible_keys x(1,2) by (metis image_eqI set_map)
      with pricing_keys x(1,2) show "x = y" by (metis eq_key_imp_eq_value prod.collapse)
    qed
    with find_permuted [OF o12(1)] find_permuted [OF o12(2)] none d show False
      by (simp add: lookupPricing_def)
  qed
  with none show "hasPrefix m ''gpt-4o-mini'' \<and> map_of modelPricing m = None" by (simp add: mini_def)
next
  assume m: "hasPrefix m ''gpt-4o-mini'' \<and> map_of modelPricing m = None"
  let ?o = "(''gpt-4o-mini'', price (15 / 100) (6 / 10)) # remove1 (''gpt-4o-mini'', price (15 / 100) (6 / 10)) modelPricing"
  have "mset ?o = mset modelPricing" by (simp add: modelPricing_def)
  moreover have "lookupPricing ?o m = Some (price (15 / 100) (6 / 10))"
    using m by (simp add: lookupPricing_def)
  moreover have "lookupPricing modelPricing m = Some (price (25 / 10) 10)"
    using m mini_first [of m] by (simp add: lookupPricing_def mini_def)
  moreover have "price (15 / 100) (6 / 10) \<noteq> price (25 / 10) 10" by (simp add: price_def)
  ultimately have "mset ?o = mset modelPricing \<and> mset modelPricing = mset modelPricing
      \<and> lookupPricing ?o m \<noteq> lookupPricing modelPricing m" by (simp only: option.inject) simp
  then show "\<exists>o1 o2. mset o1 = mset modelPricing \<and> mset o2 = mset modelPricing
      \<and> lookupPricing o1 m \<noteq> lookupPricing o2 m" by (intro exI) assumption
qed

section \<open>Pages\<close>

lemma page_offset:
  assumes "1 \<le> n" and "n \<le> 100" and "1 \<le> page"
  shows "paginationToLimitOffset page n = (n, int32 ((page - 1) * n))"
proof -
  have "int32 (int64 x) = int32 x" for x
  proof -
    have "(int64 x + 2 ^ 31) mod 2 ^ 32 = ((x + 2 ^ 63) mod 2 ^ 64 mod 2 ^ 32 - 2 ^ 63 + 2 ^ 31) mod 2 ^ 32"
      unfolding int64_def by (metis (no_types, opaque_lifting) diff_add_eq mod_add_left_eq mod_diff_left_eq)
    also have "(x + 2 ^ 63) mod 2 ^ 64 mod 2 ^ 32 = (x + 2 ^ 63) mod 2 ^ (32 :: nat)"
      by (rule mod_mod_cancel) simp
    finally show ?thesis unfolding int32_def by (simp add: mod_simps add.commute)
  qed
  with assms show ?thesis
    by (simp add: paginationToLimitOffset_def clampPagination_def int32_id)
qed

definition pageOf :: "int \<Rightarrow> int \<Rightarrow> 'a list \<Rightarrow> 'a list option" where
  "pageOf page n rows = (case paginationToLimitOffset page n of (limit, offset) \<Rightarrow> paged limit offset rows)"

lemma pages_append:
  "concat (map (\<lambda>k. take n (drop (k * n) rows)) [0..<m]) = take (m * n) rows"
proof (induction m)
  case (Suc m)
  have "take (m * n) rows @ take n (drop (m * n) rows) = take (m * n + n) rows" by (simp add: take_add)
  with Suc show ?case by (simp add: add.commute)
qed simp

text \<open>
  The pages of a list partition it, up to the overflow of the offset. For a page size from 1 to 100
  the first \<open>m\<close> pages, put together, are the first \<open>m * n\<close> rows, each row on one page, as long as
  the offset is below \<open>2 ^ 31\<close>; from there on the conversion to 32 bits makes the offset negative
  and the query of the page fails. A page or page size out of range is replaced by the nearest or
  the default one.
\<close>

theorem pages_partition_rows:
  fixes n :: int
  assumes "1 \<le> n" and "n \<le> 100"
  shows "(int m * n \<le> 2 ^ 31 \<longrightarrow>
      (\<forall>k \<in> {1..m}. pageOf (int k) n rows \<noteq> None)
      \<and> concat (map (\<lambda>k. the (pageOf (int k) n rows)) [1..<Suc m]) = take (m * nat n) rows)
    \<and> (1 \<le> page \<and> 2 ^ 31 \<le> (page - 1) * n \<and> (page - 1) * n < 2 ^ 32 \<longrightarrow> pageOf page n rows = None)
    \<and> (page < 1 \<longrightarrow> pageOf page n rows = pageOf 1 n rows)
    \<and> (sz < 1 \<longrightarrow> pageOf page sz rows = pageOf page 20 rows)
    \<and> (100 < sz \<longrightarrow> pageOf page sz rows = pageOf page 100 rows)"
proof (intro conjI impI)
  have page: "pageOf (int k) n rows = Some (take (nat n) (drop ((k - 1) * nat n) rows))"
    if "int m * n \<le> 2 ^ 31" "k \<in> {1..m}" for k
  proof -
    have "(int k - 1) * n < int m * n" using that(2) assms(1) by (intro mult_strict_right_mono) auto
    moreover have nn: "0 \<le> (int k - 1) * n" using assms(1) that(2) by (intro mult_nonneg_nonneg) auto
    ultimately have "int32 ((int k - 1) * n) = (int k - 1) * n" using that(1) by (intro int32_id) linarith+
    moreover have "nat ((int k - 1) * n) = (k - 1) * nat n"
      using that(2) assms(1) by (simp add: nat_mult_distrib nat_diff_distrib)
    moreover have "\<not> (int k - 1) * n < 0" using nn by linarith
    ultimately show ?thesis
      using page_offset [OF assms, of "int k"] that(2) assms(1) by (simp add: pageOf_def paged_def)
  qed
  show "\<forall>k \<in> {1..m}. pageOf (int k) n rows \<noteq> None" if "int m * n \<le> 2 ^ 31" using page [OF that] by simp
  show "concat (map (\<lambda>k. the (pageOf (int k) n rows)) [1..<Suc m]) = take (m * nat n) rows"
    if "int m * n \<le> 2 ^ 31"
  proof -
    have "map (\<lambda>k. the (pageOf (int k) n rows)) [1..<Suc m]
        = map (\<lambda>k. take (nat n) (drop (k * nat n) rows)) [0..<m]"
      using page [OF that] by (auto simp: map_Suc_upt [symmetric] simp del: upt_Suc of_nat_Suc)
    then show ?thesis using pages_append by metis
  qed
  show "pageOf page n rows = None" if "1 \<le> page \<and> 2 ^ 31 \<le> (page - 1) * n \<and> (page - 1) * n < 2 ^ 32"
  proof -
    have "int32 ((page - 1) * n) = (page - 1) * n - 2 ^ 32"
      using that by (intro int32_overflow) simp_all
    then show ?thesis using page_offset [OF assms, of page] that by (simp add: pageOf_def paged_def)
  qed
qed (simp_all add: pageOf_def paginationToLimitOffset_def clampPagination_def)

end
