(* ===== verification/CostsWitnesses.thy ===== *)
theory CostsWitnesses
  imports CostsSpec RunWitnesses
begin

text \<open>The properties of the cost tracking applied to the sample project.\<close>

definition demo_costs :: cost_svc where
  "demo_costs = \<lparr>cs_order = modelPricing, cs_scan = (\<lambda>n. ScanOther)\<rparr>"

definition demo_events :: "cost_event list" where
  "demo_events =
     [\<lparr>ce_input = 1000, ce_output = 200, ce_model = ''gpt-4o'', ce_cost = 0\<rparr>,
      \<lparr>ce_input = 500, ce_output = 100, ce_model = [], ce_cost = 1 / 4\<rparr>]"

definition demo_record :: cost_record where
  "demo_record =
     \<lparr>cr_id = 90, cr_step = 31, cr_project = 1, cr_agent = None, cr_tokens_in = 7, cr_tokens_out = 3,
      cr_cost = 1 / 2, cr_model = ''gpt-4o'', cr_created_at = 0\<rparr>"

definition costed_world :: world where
  "costed_world = running_world\<lparr>w_costs := [demo_record]\<rparr>"

lemmas costed_simps = costed_world_def demo_record_def sample_world_def empty_world_def sample_run_def
  sample_a_def sample_b_def blank_step_def sample_project_def sample_story_def

lemma costed_rows:
  "costsOfRun 20 costed_world = [demo_record]" "costsOfStory 10 costed_world = [demo_record]"
  "costRole costed_world demo_record = ''unknown''"
  by (simp_all add: costsOfRun_def costsOfStory_def costRole_def costStep_def costRun_def costed_simps)

lemma step_cost_recorded_witness:
  "\<exists>w'. run_state (RecordStepCost demo_costs 31 1 demo_events None) costed_world = (Inr (), w')
     \<and> costOfRun 20 w' = costOfRun 20 costed_world + 1 / 4"
proof -
  have m: "micros (1 / 4) = 250000" by (simp add: micros_def roundAway_def)
  have c: "stored (batchCost demo_costs demo_events) = 1 / 4"
    by (simp add: stored_def batchCost_def demo_events_def m)
  show ?thesis
    using step_cost_recorded [of costed_world demo_events 31 "sample_a StepStatusRunning" 1 None demo_costs] c
    by (auto simp: costed_simps demo_events_def countable_tokens_def sumInput_def sumOutput_def
        agent_ref_ok_def decimal_def)
qed

lemma demo_report:
  "\<exists>w'. run_state (GetRunCostsByRole 1 20) costed_world
     = (Inr (1 / 2, 7, 3, [roleRow (''unknown'', [demo_record])]), w')"
  using costed_rows
  by (simp add: GetRunCostsByRole_def projectRun_def GetRun_def SumCostByRun_def SumTokensByRun_def
      ListCostsByRunByRole_def listCostsByRunByRole_def query_def run_simps find_row_def groupsCastable_def
      castable_def groupBy_def costOfRun_def sumTokensByRun_def bigint_def decimal_def costOf_def
      inputOf_def outputOf_def costed_simps)


lemma story_tokens_always_zero_witness:
  "\<exists>r w'. run_state (GetStoryCosts demo_costs 1 10) costed_world = (Inr r, w')
     \<and> stcs_input r = 0 \<and> inputOf (costsOfStory 10 costed_world) = 7"
proof -
  obtain r w' where r: "run_state (GetStoryCosts demo_costs 1 10) costed_world = (Inr r, w')"
    using costed_rows
    by (simp add: GetStoryCosts_def GetStoryByID_def SumCostByStory_def sumCostByStory_def query_def run_simps
        find_row_def decimal_def costOf_def demo_costs_def Let_def costed_simps)
  have "stcs_input r = 0" using story_tokens_always_zero [OF _ r] by (simp add: demo_costs_def)
  moreover have "inputOf (costsOfStory 10 costed_world) = 7"
    by (simp add: costed_rows inputOf_def demo_record_def)
  ultimately show ?thesis using r by blast
qed

lemma pages_partition_rows_witness:
  "concat (map (\<lambda>k. the (pageOf (int k) 2 [5, 6, 7 :: int])) [1..<Suc 2]) = [5, 6, 7]
   \<and> pageOf 1073741825 2 [5, 6, 7 :: int] = None"
  using pages_partition_rows [of 2 2 "[5, 6, 7 :: int]" 1073741825 1] by simp

end
