(* ===== verification/CallbacksSpec.thy ===== *)
theory CallbacksSpec
  imports AgentRun CostsSpec
begin

text \<open>
  What the callback channel promises, on both sides of it: a request without a live token changes
  nothing; a status that reaches the server, whichever of the client's attempts does, ends the wait of
  the action with its code, once; and two defects: a token is good for the steps of all other runs,
  and a cost whose response is lost is counted twice.
\<close>

section \<open>Tokens and channels\<close>

definition liveToken :: "uuid \<Rightarrow> time \<Rightarrow> world \<Rightarrow> bool" where
  "liveToken t now w \<longleftrightarrow> (\<exists>ct. tbl_find tok_token t (w_tokens w) = Some ct \<and> now \<le> tok_expires ct)"

lemma liveToken_before: "liveToken t now w \<Longrightarrow> now' \<le> now \<Longrightarrow> liveToken t now' w"
  by (force simp: liveToken_def)

lemma run_ValidateToken [run_simps]:
  "run_state (ValidateToken token) w =
     (case (case token of None \<Rightarrow> None | Some i \<Rightarrow> tbl_find tok_token i (w_tokens w)) of
        None \<Rightarrow> (Inl (PlainErr [T ''token not found'']), w)
      | Some ct \<Rightarrow>
          let v = w\<lparr>w_clock := w_clock w + int (w_tick w)\<rparr> in
          if tok_expires ct < w_clock w
          then (Inl (PlainErr [T ''token expired'']),
                v\<lparr>w_tokens := filter (\<lambda>t. tok_token t \<noteq> tok_token ct) (w_tokens w)\<rparr>)
          else (Inr ct, v))"
  by (simp add: ValidateToken_def RevokeToken_def run_simps Let_def split: option.split)

lemma run_channels [run_simps]:
  "run_state (getOrCreateChannel j) w =
     ((), case w_channels w j of None \<Rightarrow> w\<lparr>w_channels := (w_channels w)(j \<mapsto> None)\<rparr> | Some c \<Rightarrow> w)"
  "run_state (removeChannel j) w = ((), w\<lparr>w_channels := (w_channels w)(j := None)\<rparr>)"
  by (simp_all add: getOrCreateChannel_def removeChannel_def run_simps)

lemma run_receiveStatus [run_simps]:
  "run_state (receiveStatus wake j) w =
     (case wake of
        WakeCancelled \<Rightarrow> Inl ErrCtxCancelled
      | WakeTimeout \<Rightarrow> Inl (statusTimeout j)
      | WakeStatus \<Rightarrow> (case w_channels w j of Some (Some r) \<Rightarrow> Inr r | _ \<Rightarrow> Inl (statusTimeout j)),
      w\<lparr>w_channels := (w_channels w)(j := None)\<rparr>)"
  by (simp add: receiveStatus_def run_simps split: wake.split option.split)

text \<open>\<open>SetStatus\<close> keeps the first status.\<close>

definition offered :: "(int \<times> string) option option \<Rightarrow> int \<times> string \<Rightarrow> int \<times> string" where
  "offered c r = (case c of Some (Some r') \<Rightarrow> r' | _ \<Rightarrow> r)"

lemma offered_simps [simp]: "offered None r = r" "offered (Some None) r = r" "offered (Some (Some r')) r = r'"
  by (simp_all add: offered_def)

lemma run_SetStatus [run_simps]:
  "run_state (SetStatus j code msg) w =
     ((), w\<lparr>w_channels := (w_channels w)(j \<mapsto> Some (offered (w_channels w j) (code, msg)))\<rparr>)"
  by (auto simp: SetStatus_def run_simps fun_eq_iff split: option.split)

lemma offered_twice [simp]: "offered (Some (Some r)) r' = r"
  by simp

section \<open>Authentication\<close>

text \<open>
  a callback without a live token is rejected. Whatever the request asks for, when its header is
  absent or not a bearer, or its token is unknown or expired, the response is 401 and nothing
  changes, except that the token that turned out to be expired is dropped and the clock was read.
\<close>

theorem callback_needs_live_token:
  assumes "\<And>t. rq_bearer rq = Some (Some t) \<Longrightarrow> \<not> liveToken t (w_clock w) w"
  shows "\<exists>code ts now. run_state (serveCallback svc rq) w = ((401, code), w\<lparr>w_clock := now, w_tokens := ts\<rparr>)
    \<and> (\<forall>ct. ct \<in> set (w_tokens w) - set ts \<longrightarrow> rq_bearer rq = Some (Some (tok_token ct)))"
proof -
  let ?v = "w\<lparr>w_clock := w_clock w + int (w_tick w)\<rparr>"
  have same: "w = w\<lparr>w_clock := w_clock w, w_tokens := w_tokens w\<rparr>" by simp
  show ?thesis
  proof (cases "\<exists>t ct. rq_bearer rq = Some (Some t) \<and> tbl_find tok_token t (w_tokens w) = Some ct")
    case True
    then obtain t ct where t: "rq_bearer rq = Some (Some t)" "tbl_find tok_token t (w_tokens w) = Some ct"
      by blast
    then have "tok_expires ct < w_clock w" "tok_token ct = t"
      using assms by (fastforce simp: liveToken_def)+
    then show ?thesis
      using t by (intro exI [of _ "''INVALID_TOKEN''"] exI [of _ "filter (\<lambda>ct. tok_token ct \<noteq> t) (w_tokens w)"]
          exI [of _ "w_clock w + int (w_tick w)"])
        (simp add: serveCallback_def InternalAuth_def respond_def run_simps Let_def)
  next
    case False
    then have "\<exists>code. run_state (serveCallback svc rq) w = ((401, code), w)"
      by (auto simp: serveCallback_def InternalAuth_def respond_def run_simps split: option.split)
    then show ?thesis using same by (metis Diff_cancel empty_iff)
  qed
qed

section \<open>A status on its way\<close>

text \<open>A request with a live token that posts a status delivers it to the step of its path.\<close>

lemma run_post_status:
  assumes "liveToken t (w_clock w) w"
  shows "run_state (serveCallback svc \<lparr>rq_bearer = Some (Some t), rq_run = Some i, rq_step = Some j,
      rq_body = PostStatus (Some (code, msg))\<rparr>) w =
    ((204, []), w\<lparr>w_clock := w_clock w + int (w_tick w),
       w_channels := (w_channels w)(j \<mapsto> Some (offered (w_channels w j) (code, msg)))\<rparr>)"
  using assms
  by (auto simp: serveCallback_def InternalAuth_def HandleStatus_def parseRunStepIDs_def respond_def
      run_simps liveToken_def Let_def)

text \<open>
  C40: a callback token is not bound to its step. Any live token, whichever run and step it was minted
  for, posts a status for any step of any run: the request is accepted, and the wait of that step's
  action ends with the posted code.
\<close>

theorem foreign_token_ends_step:
  assumes "tbl_find tok_token t (w_tokens w) = Some ct" and "w_clock w \<le> tok_expires ct"
    and "w_channels w j = Some None"
  shows "\<exists>w' w''. run_state (serveCallback svc \<lparr>rq_bearer = Some (Some t), rq_run = Some i, rq_step = Some j,
      rq_body = PostStatus (Some (code, msg))\<rparr>) w = ((204, []), w')
    \<and> run_state (receiveStatus WakeStatus j) w' = (Inr (code, msg), w'')"
  using assms by (simp add: run_post_status liveToken_def run_simps)

text \<open>Which of the attempts of a post reach the server, and whether the client learns of it.\<close>

fun reaches_server :: "nat \<Rightarrow> delivery list \<Rightarrow> bool" where
  "reaches_server 0 ds = False"
| "reaches_server (Suc n) (ContextEnded # ds) = False"
| "reaches_server (Suc n) (RequestLost # ds) = reaches_server n ds"
| "reaches_server (Suc n) ds = True"

lemma postAttempts_status:
  assumes "liveToken (cl_token c) (w_clock w + int n * int (w_tick w)) w"
  shows "\<exists>r now. run_state (postAttempts (serveCallback svc) url
        (clientRequest c (PostStatus (Some (code, msg)))) ds n e) w =
      (r, w\<lparr>w_clock := now, w_channels := (if reaches_server n ds
            then (w_channels w)(cl_step c \<mapsto> Some (offered (w_channels w (cl_step c)) (code, msg)))
            else w_channels w)\<rparr>)"
  using assms
proof (induction n arbitrary: ds e w)
  case 0
  show ?case by (simp add: run_simps) (rule exI [of _ "w_clock w"], simp)
next
  case (Suc n)
  let ?v = "w\<lparr>w_clock := w_clock w + int (w_tick w),
    w_channels := (w_channels w)(cl_step c \<mapsto> Some (offered (w_channels w (cl_step c)) (code, msg)))\<rparr>"
  have live: "liveToken (cl_token c) (w_clock w) w" using Suc.prems by (rule liveToken_before) simp
  have served: "run_state (serveCallback svc (clientRequest c (PostStatus (Some (code, msg))))) w = ((204, []), ?v)"
    using run_post_status [OF live] by (simp add: clientRequest_def)
  have later: "liveToken (cl_token c) (w_clock ?v + int n * int (w_tick ?v)) ?v"
    using Suc.prems by (simp add: liveToken_def algebra_simps)
  have still: "liveToken (cl_token c) (w_clock w + int n * int (w_tick w)) w"
    using Suc.prems by (rule liveToken_before) (simp add: algebra_simps)
  have again: "\<exists>r now. run_state (postAttempts (serveCallback svc) url
      (clientRequest c (PostStatus (Some (code, msg)))) ds' n e') ?v = (r, w\<lparr>w_clock := now, w_channels := w_channels ?v\<rparr>)" for ds' e'
    using Suc.IH [OF later, of ds' e'] by (auto split: if_splits)
  show ?case
  proof (cases ds)
    case Nil
    then show ?thesis by (simp add: run_simps served) (rule exI [of _ "w_clock w + int (w_tick w)"], simp add: fun_upd_def)
  next
    case (Cons d ds')
    show ?thesis
    proof (cases d)
      case RequestLost
      then show ?thesis using Cons Suc.IH [OF still] by simp
    next
      case ResponseLost
      then show ?thesis using Cons again [of ds' requestFailed] by (simp add: run_simps served fun_upd_def)
    next
      case ContextEnded
      then show ?thesis using Cons by (simp add: run_simps) (rule exI [of _ "w_clock w"], simp)
    next
      case Delivered
      then show ?thesis using Cons by (simp add: run_simps served) (rule exI [of _ "w_clock w + int (w_tick w)"], simp add: fun_upd_def)
    qed
  qed
qed

section \<open>A cost on its way\<close>

definition cost_ready :: "client \<Rightarrow> run_step \<Rightarrow> run \<Rightarrow> world \<Rightarrow> bool" where
  "cost_ready c s r w \<longleftrightarrow>
     w_faults w = [] \<and> tbl_find rs_id (cl_step c) (w_steps w) = Some s
     \<and> tbl_find run_id (rs_run s) (w_runs w) = Some r
     \<and> tbl_find project_id (run_project r) (w_projects w) \<noteq> None"

lemma costsOfRun_clock: "costsOfRun k (w\<lparr>w_clock := t\<rparr>) = costsOfRun k w"
  by (simp add: costsOfRun_def costStep_def)

lemma run_post_cost:
  assumes "liveToken (cl_token c) (w_clock w) w" and ready: "cost_ready c s r w"
    and fits: "countable_tokens [e]" "decimal (stored (batchCost svc [e]))"
  obtains v where "run_state (serveCallback svc (clientRequest c (PostCost (Some e)))) w = ((200, []), v)"
    and "cost_ready c s r v" and "w_clock v = w_clock w + int (w_tick w)" and "w_tick v = w_tick w"
    and "w_tokens v = w_tokens w"
    and "costOfRun (rs_run s) v = costOfRun (rs_run s) w + stored (batchCost svc [e])"
proof -
  let ?u = "w\<lparr>w_clock := w_clock w + int (w_tick w)\<rparr>"
  let ?c = "reportRecord svc (cl_step c) (run_project r) None [e] ?u"
  let ?v = "?u\<lparr>w_costs := w_costs w @ [?c], w_next := Suc (w_next w)\<rparr>"
  have rec: "run_state (RecordStepCost svc (cl_step c) (run_project r) [e] None) ?u = (Inr (), ?v)"
    using run_RecordStepCost [of ?u "[e]" "cl_step c" s "run_project r" None svc] ready fits
    by (simp add: cost_ready_def agent_ref_ok_def)
  have "run_state (serveCallback svc (clientRequest c (PostCost (Some e)))) w = ((200, []), ?v)"
    using assms(1) ready rec
    by (auto simp: serveCallback_def InternalAuth_def HandleCost_def parseRunStepIDs_def respond_def clientRequest_def
        run_simps liveToken_def Let_def cost_ready_def GetRunStep_def GetRun_def)
  moreover have "cost_ready c s r ?v" using ready by (simp add: cost_ready_def)
  moreover have "costOfRun (rs_run s) ?v = costOfRun (rs_run s) w + stored (batchCost svc [e])"
    using ready costsOfRun_add [of ?c ?u s "rs_run s" "Suc (w_next w)"]
    by (simp add: cost_ready_def costOfRun_sum reportRecord_def stepRecord_def costOf_def costsOfRun_clock)
  ultimately show thesis by (intro that) simp_all
qed

text \<open>
  a reported cost is recorded once for each delivered request, not once for each report. The client
  repeats a request whose response was lost, and the server has no way to recognise it: when the
  first one or two responses are lost, the cost of the run grows by two or three times the amount.
\<close>

theorem lost_response_repeats_cost:
  assumes "n \<le> 2" and "cost_ready c s r w"
    and "countable_tokens [e]" and "decimal (stored (batchCost svc [e]))"
    and "liveToken (cl_token c) (w_clock w + 2 * int (w_tick w)) w"
  shows "\<exists>w'. run_state (SendCost (serveCallback svc) c (replicate n ResponseLost @ [Delivered]) e) w = (Inr (), w')
    \<and> costOfRun (rs_run s) w' = costOfRun (rs_run s) w + (real n + 1) * stored (batchCost svc [e])"
proof -
  have "\<exists>w'. run_state (postAttempts (serveCallback svc) url (clientRequest c (PostCost (Some e)))
        (replicate n ResponseLost @ [Delivered]) m err) w = (Inr (), w')
      \<and> costOfRun (rs_run s) w' = costOfRun (rs_run s) w + (real n + 1) * stored (batchCost svc [e])"
    if "n < m" "cost_ready c s r w" "liveToken (cl_token c) (w_clock w + int n * int (w_tick w)) w" for n m w url err
    using that
  proof (induction n arbitrary: m w err)
    case 0
    then obtain k where m: "m = Suc k" by (cases m) auto
    from 0 have "liveToken (cl_token c) (w_clock w) w" by simp
    then obtain v where
      "run_state (serveCallback svc (clientRequest c (PostCost (Some e)))) w = ((200, []), v)"
      "costOfRun (rs_run s) v = costOfRun (rs_run s) w + stored (batchCost svc [e])"
      using run_post_cost 0(2) assms(3,4) by metis
    then show ?case by (simp add: m run_simps)
  next
    case (Suc n)
    then obtain k where m: "m = Suc k" "n < k" by (cases m) auto
    have "liveToken (cl_token c) (w_clock w) w"
      using Suc.prems(3) by (rule liveToken_before) simp
    then obtain v where v:
      "run_state (serveCallback svc (clientRequest c (PostCost (Some e)))) w = ((200, []), v)"
      "cost_ready c s r v" "w_clock v = w_clock w + int (w_tick w)" "w_tick v = w_tick w" "w_tokens v = w_tokens w"
      "costOfRun (rs_run s) v = costOfRun (rs_run s) w + stored (batchCost svc [e])"
      using run_post_cost Suc.prems(2) assms(3,4) by metis
    have "liveToken (cl_token c) (w_clock v + int n * int (w_tick v)) v"
      using Suc.prems(3) v(3-5) by (simp add: liveToken_def algebra_simps)
    from Suc.IH [OF m(2) v(2) this, of requestFailed] show ?case
      using v(1,6) by (auto simp: m run_simps algebra_simps)
  qed
  moreover have "liveToken (cl_token c) (w_clock w + int n * int (w_tick w)) w"
  proof -
    have "int n * int (w_tick w) \<le> 2 * int (w_tick w)" using assms(1) by (intro mult_right_mono) auto
    then show ?thesis using liveToken_before [OF assms(5)] by simp
  qed
  ultimately show ?thesis
    using assms(1,2) unfolding SendCost_def postJSON_def maxRetries_def
    by (metis le_imp_less_Suc numeral_2_eq_2 numeral_3_eq_3)
qed

end
