(* ===== verification/AgentRunSpec.thy ===== *)
theory AgentRunSpec
  imports AgentFrame CallbacksSpec "HOL-Library.Sublist"
begin

text \<open>
  What the action that runs an agent promises: it closes whatever it opens outside, however it ends;
  the setup commands run in their order and before the agent; in callback mode the status the
  container reports decides; the token of the run dies with it once the container was launched.
\<close>

section \<open>Everything opened is closed\<close>

text \<open>
  A sequence of calls is tidy when each container created, execution launched and network brought up
  in it is stopped and removed, stopped, or cleaned up in the rest of it.
\<close>

fun released :: "call list \<Rightarrow> bool" where
  "released [] = True"
| "released (CallCreate opts i # cs) \<longleftrightarrow> CallStop i \<in> set cs \<and> CallRemove i \<in> set cs \<and> released cs"
| "released (CallLaunch spec h # cs) \<longleftrightarrow> CallStopRun h \<in> set cs \<and> released cs"
| "released (CallSidecars i n # cs) \<longleftrightarrow> CallCleanup i n \<in> set cs \<and> released cs"
| "released (c # cs) = released cs"

lemma released_append: "released cs \<Longrightarrow> released ds \<Longrightarrow> released (cs @ ds)"
  by (induction cs rule: released.induct) auto

lemma released_snoc: "released cs \<Longrightarrow> \<not> opens c \<Longrightarrow> released (cs @ [c])"
  by (rule released_append) (cases c; simp)+

definition tidy :: "world \<Rightarrow> world \<Rightarrow> bool" where
  "tidy w w' \<longleftrightarrow> (\<exists>cs. w_calls w' = w_calls w @ cs \<and> released cs)"

lemma tidy_same: "w_calls w' = w_calls w \<Longrightarrow> tidy w w'"
  unfolding tidy_def by (intro exI [of _ "[]"]) simp

lemma tidy_trans: "tidy u v \<Longrightarrow> tidy v w \<Longrightarrow> tidy u w"
  unfolding tidy_def by (metis append.assoc released_append)

lemma tidy_bracketed:
  assumes m: "keeps tidy m"
    and close: "\<And>v. w_calls (snd (run_state cleanup v)) = w_calls v @ ds"
    and rel: "\<And>cs. released cs \<Longrightarrow> released (c # cs @ ds)"
  shows "keeps tidy (bracketed c cleanup m)"
proof (rule keepsI)
  fix w :: world
  let ?v = "w\<lparr>w_calls := w_calls w @ [c]\<rparr>"
  obtain r u where run: "run_state m ?v = (r, u)" by fastforce
  from keepsD [OF m run] obtain cs where "w_calls u = w_calls ?v @ cs" "released cs"
    unfolding tidy_def by blast
  then show "tidy w (snd (run_state (bracketed c cleanup m) w))"
    using close [of u] rel [of cs] run
    by (simp add: bracketed_def run_simps tidy_def)
qed

lemma run_cleanups [run_simps]:
  "run_state (stopBestEffort c i) w = ((), w\<lparr>w_calls := w_calls w @ [c], w_stops := w_stops w @ [i]\<rparr>)"
  "run_state (cleanupContainer i) w =
     ((), w\<lparr>w_calls := w_calls w @ [CallStop i, CallRemove i], w_stops := w_stops w @ [i, i]\<rparr>)"
  by (simp_all add: stopBestEffort_def cleanupContainer_def run_simps)

interpretation tidy: agent_frame tidy
proof
  show "tidy w w" for w by (rule tidy_same) simp
  show "tidy u v \<Longrightarrow> tidy v w \<Longrightarrow> tidy u w" for u v w by (rule tidy_trans)
  show "\<not> opens c \<Longrightarrow> tidy w (w\<lparr>w_calls := w_calls w @ [c]\<rparr>)" for w c
    unfolding tidy_def by (intro exI [of _ "[c]"]) (cases c; simp)
  show "tidy (w\<lparr>w_faults := fs\<rparr>) w' \<Longrightarrow> tidy w (w'\<lparr>w_faults := w_faults w\<rparr>)" for w fs w'
    by (simp add: tidy_def)
  show "keeps tidy m \<Longrightarrow> keeps tidy (bracketed (CallCreate opts i) (cleanupContainer i) m)" for opts i m
    by (erule tidy_bracketed [where ds = "[CallStop i, CallRemove i]"])
       (simp_all add: run_simps released_append)
  show "keeps tidy m \<Longrightarrow> keeps tidy (bracketed (CallLaunch spec h) (stopBestEffort (CallStopRun h) h) m)" for spec h m
    by (erule tidy_bracketed [where ds = "[CallStopRun h]"]) (simp_all add: run_simps released_append)
  show "keeps tidy m \<Longrightarrow> keeps tidy (bracketed (CallSidecars i n) (noteCall (CallCleanup i n)) m)" for i n m
    by (erule tidy_bracketed [where ds = "[CallCleanup i n]"]) (simp_all add: run_simps released_append)
qed (auto intro!: tidy_same keepsI
      simp: run_ops other_ops epic_ops InsertCostRecord_def run_simps run_db_op_faults run_fault_op_faults Let_def
      split: list.split option.split)

text \<open>
  C11: an agent run leaves nothing behind. Whatever the container manager, the sidecar manager and
  the substrate answer, whatever the template, the environment and the waits return, and under every
  pattern of infrastructure failures: each container the action created was stopped and removed, each
  execution it launched was stopped and each network it brought up was cleaned up afterwards. What
  the other processes do while it waits has to clean up after itself.
\<close>

theorem agent_run_releases_everything:
  assumes "\<And>n. keeps tidy (ae_meanwhile ae n)"
    and "run_state (AgentRunAction ae ctx) w = (r, w')"
  shows "\<exists>cs. w_calls w' = w_calls w @ cs \<and> released cs"
proof -
  have "keeps tidy (AgentRunAction ae ctx)"
    using assms(1) by (intro tidy.agent_run_keeps) (simp add: tidy.agent_keeps_def)
  from keepsD [OF this assms(2)] show ?thesis by (simp add: tidy_def)
qed

section \<open>The status the container reports\<close>

definition revoked :: "agent_env \<Rightarrow> callback_spec option \<Rightarrow> world \<Rightarrow> world" where
  "revoked ae cb w =
     (case callbackToken cb of
        None \<Rightarrow> w
      | Some t \<Rightarrow> if ae_token_store ae then w\<lparr>w_tokens := filter (\<lambda>x. tok_token x \<noteq> t) (w_tokens w)\<rparr> else w)"

lemma run_revoke [run_simps]: "run_state (revokeCallbackToken ae cb) w = ((), revoked ae cb w)"
  by (simp add: revokeCallbackToken_def revoked_def RevokeToken_def run_simps split: option.split)

lemma revoked_channels [simp]: "w_channels (revoked ae cb w) = w_channels w"
  by (simp add: revoked_def split: option.split)

lemma revoked_gone:
  "callbackToken cb = Some t \<Longrightarrow> ae_token_store ae \<Longrightarrow> t \<notin> tok_token ` set (w_tokens (revoked ae cb w))"
  by (auto simp: revoked_def)

text \<open>The wait in callback mode, whichever way it goes, ends with the token revoked and the channel removed.\<close>

abbreviation callbackAgent :: "agent_env \<Rightarrow> run_context \<Rightarrow> string \<Rightarrow> bool" where
  "callbackAgent ae ctx img \<equiv> isCallbackMode ae (metaStr (rc_metadata ctx) ''runtime_kind'') img"

definition ensures :: "(world \<Rightarrow> bool) \<Rightarrow> 'a op \<Rightarrow> bool" where
  "ensures Q m \<longleftrightarrow> (\<forall>w. Q (snd (run_state m w)))"

lemma ensuresD: "ensures Q m \<Longrightarrow> run_state m w = (r, w') \<Longrightarrow> Q w'"
  unfolding ensures_def by (metis snd_conv)

lemma ensures_bind: "(\<And>x. ensures Q (f x)) \<Longrightarrow> ensures Q (State_Monad.bind m f)"
  by (simp add: ensures_def run_simps split: prod.split)

lemma ensures_then:
  "ensures Q m \<Longrightarrow> (\<And>x w. snd (run_state (f x) w) = w) \<Longrightarrow> ensures Q (State_Monad.bind m f)"
  by (simp add: ensures_def run_simps split: prod.split) (metis snd_conv)

lemma ensures_deferred:
  "ensures Q m \<Longrightarrow> (\<And>w. Q w \<Longrightarrow> Q (snd (run_state c w))) \<Longrightarrow> ensures Q (deferred c m)"
  by (auto simp: ensures_def run_simps split: prod.split) (metis snd_conv)

definition callback_closed :: "agent_env \<Rightarrow> run_context \<Rightarrow> callback_spec option \<Rightarrow> world \<Rightarrow> bool" where
  "callback_closed ae ctx cb w \<longleftrightarrow> w_channels w (rs_id (rc_step ctx)) = None
     \<and> (\<forall>t. callbackToken cb = Some t \<and> ae_token_store ae \<longrightarrow> t \<notin> tok_token ` set (w_tokens w))"

abbreviation unheard :: "run_context \<Rightarrow> world \<Rightarrow> bool" where
  "unheard ctx w \<equiv> w_channels w (rs_id (rc_step ctx)) = None"

lemma ensures_revoked:
  "ensures (unheard ctx) m \<Longrightarrow> ensures (callback_closed ae ctx cb) (deferred (revokeCallbackToken ae cb) m)"
  unfolding ensures_def callback_closed_def by (auto simp: run_simps revoked_gone split: prod.split) (metis snd_conv)

lemma ensures_received: "ensures (unheard ctx) (receiveStatus k (rs_id (rc_step ctx)))"
  by (simp add: ensures_def run_simps)

lemma finish_pure [simp]: "snd (run_state (finishCallbackStatus r) w) = w"
  by (simp add: finishCallbackStatus_def run_simps split: sum.split)

lemma ensures_receive:
  "ensures (unheard ctx) (do {
     k \<leftarrow> reading f; r \<leftarrow> receiveStatus k (rs_id (rc_step ctx)); finishCallbackStatus r })"
  by (intro ensures_bind [of _ _ "reading f"] ensures_then [OF ensures_received] finish_pure)

lemma ensures_crash:
  "ensures (unheard ctx) (do { _ \<leftarrow> removeChannel (rs_id (rc_step ctx)); fail (crashed c) })"
  by (simp add: ensures_def run_simps)

lemma wait_closes: "ensures (callback_closed ae ctx cb) (waitForCallback ae ctx cb)"
  unfolding waitForCallback_def WaitForStatus_def
  by (intro ensures_revoked ensures_then [OF ensures_bind [OF ensures_bind [OF ensures_bind]]]
      ensures_received finish_pure)

lemma crash_wait_closes: "ensures (callback_closed ae ctx cb) (awaitCallbackOrCrash ae ctx h cb)"
  unfolding awaitCallbackOrCrash_def Let_def
  by (intro ensures_revoked ensures_bind [of _ _ "getOrCreateChannel _"] ensures_bind [of _ _ "ae_meanwhile ae _"]
      ensures_bind [of _ _ "reading _"])
     (auto intro!: ensures_receive ensures_crash ensures_bind [of _ _ "ae_meanwhile ae _"]
        ensures_bind [of _ _ "reading (ae_arrived ae)"] split: option.split)

lemma awaitAgent_closes:
  assumes "callbackAgent ae ctx img"
  shows "ensures (callback_closed ae ctx cb) (awaitAgent ae ctx h img cb)"
proof -
  have "ensures Q (attempt (wrap_err f m) exitCodeError)" if "ensures Q m" for Q f and m :: "int fop"
    using that unfolding ensures_def
    by (auto simp: exitCodeError_def run_simps split: prod.split sum.split) (metis snd_conv)+
  then show ?thesis
    using assms by (simp add: awaitAgent_def wait_closes crash_wait_closes)
qed

text \<open>
  C15: the status a container reports decides its step. In callback mode on a substrate, when one of
  the three attempts of the container's report reaches the server while its token is live, the wait
  of the action ends with the reported code, whether or not the process is seen to exit, with
  whatever exit code: 0 succeeds, another code fails the step with that code. Afterwards the token is
  gone and the channel is removed. The scheduling is assumed fair: a status that is waiting is
  received, within the grace period too.
\<close>

theorem reported_status_decides:
  assumes "callbackAgent ae ctx img" and "ae_runtime ae"
    and container: "ae_meanwhile ae 0 = do { _ \<leftarrow> SendStatus (serveCallback svc) c ds code msg; skip }"
    and "ae_meanwhile ae 1 = skip" and "cl_step c = rs_id (rc_step ctx)"
    and fair: "\<And>v r. w_channels v (rs_id (rc_step ctx)) = Some (Some r) \<Longrightarrow> ae_wake ae v = WakeStatus \<and> ae_arrived ae v"
    and arrives: "reaches_server 3 ds" and live: "liveToken (cl_token c) (w_clock w + 3 * int (w_tick w)) w"
    and fresh: "w_channels w (rs_id (rc_step ctx)) = None"
  shows "\<exists>w'. run_state (awaitAgent ae ctx h img cb) w =
      ((if code = 0 then Inr ()
        else Inl (PlainErr [T ''agent exited with code '', N code])), w')
    \<and> callback_closed ae ctx cb w'"
proof -
  let ?j = "rs_id (rc_step ctx)"
  let ?u = "w\<lparr>w_channels := (w_channels w)(?j \<mapsto> None)\<rparr>"
  have "liveToken (cl_token c) (w_clock ?u + int 3 * int (w_tick ?u)) ?u" using live by (simp add: liveToken_def)
  from postAttempts_status [OF this, of svc "callbackURL c ''/status''" code msg ds "PlainErr []"] arrives assms(5)
  obtain r now where sent: "run_state (SendStatus (serveCallback svc) c ds code msg) ?u =
      (r, w\<lparr>w_clock := now, w_channels := (w_channels w)(?j \<mapsto> Some (code, msg))\<rparr>)"
    by (auto simp: SendStatus_def postJSON_def maxRetries_def)
  let ?v = "w\<lparr>w_clock := now, w_channels := (w_channels w)(?j \<mapsto> Some (code, msg))\<rparr>"
  have wake: "ae_wake ae ?v = WakeStatus" "ae_arrived ae ?v" using fair [of ?v "(code, msg)"] by simp_all
  obtain w' where waited: "run_state (awaitCallbackOrCrash ae ctx h cb) w = (Inr code, w')"
    using assms(4) fresh wake
    by (cases "ae_exited ae h ?v")
       (simp_all add: awaitCallbackOrCrash_def finishCallbackStatus_def container run_simps sent Let_def)
  have "run_state (awaitAgent ae ctx h img cb) w =
      (if code = 0 then Inr () else Inl (PlainErr [T ''agent exited with code '', N code]), w')"
    using assms(1,2) by (simp add: awaitAgent_def exitCodeError_def run_simps waited)
  then show ?thesis using ensuresD [OF awaitAgent_closes [OF assms(1)]] by blast
qed

definition silent :: "uuid \<Rightarrow> world \<Rightarrow> bool" where
  "silent j w \<longleftrightarrow> (\<forall>r. w_channels w j \<noteq> Some (Some r))"

definition stopsWithError :: "'a fop \<Rightarrow> world \<Rightarrow> bool" where
  "stopsWithError m w \<longleftrightarrow> (\<exists>e w'. run_state m w = (Inl e, w'))"

lemma stopsWithError_then:
  "run_state m w = (x, v) \<Longrightarrow> stopsWithError (f x) v \<Longrightarrow> stopsWithError (State_Monad.bind m f) w"
  by (auto simp: stopsWithError_def run_simps)

lemma stopsWithError_steps:
  "stopsWithError m w \<Longrightarrow> stopsWithError (attempt (wrap_err g m) f) w"
  "stopsWithError m w \<Longrightarrow> stopsWithError (deferred (revokeCallbackToken ae cb) m) w"
  "stopsWithError (fail e) w"
  by (auto simp: stopsWithError_def run_simps)

lemma silent_receive:
  "silent j w \<Longrightarrow> stopsWithError (do { r \<leftarrow> receiveStatus k j; finishCallbackStatus r }) w"
  "silent j w \<Longrightarrow> run_state (receiveStatus k j) w = (r, w') \<Longrightarrow> \<exists>e. r = Inl e"
  by (auto simp: stopsWithError_def silent_def finishCallbackStatus_def run_simps split: wake.split option.split)

lemma silent_opened: "silent j w \<Longrightarrow> silent j (snd (run_state (getOrCreateChannel j) w))"
  by (auto simp: silent_def run_simps split: option.split)

text \<open>
  without a reported status the step does not succeed. In callback mode, if no status is sent for
  the step while the action waits, it ends with an error, also when the process exits with code 0
  and whatever wakes the wait.
\<close>

theorem no_success_without_status:
  assumes "callbackAgent ae ctx img"
    and silent: "\<And>n. keeps (\<lambda>v v'. silent (rs_id (rc_step ctx)) v \<longrightarrow> silent (rs_id (rc_step ctx)) v') (ae_meanwhile ae n)"
    and "silent (rs_id (rc_step ctx)) w"
  shows "\<exists>e w'. run_state (awaitAgent ae ctx h img cb) w = (Inl e, w')"
proof -
  let ?j = "rs_id (rc_step ctx)"
  obtain u where u: "run_state (getOrCreateChannel ?j) w = ((), u)" "silent ?j u"
    using silent_opened [OF assms(3)] by (cases "run_state (getOrCreateChannel ?j) w") auto
  obtain v where v: "run_state (ae_meanwhile ae 0) u = ((), v)" "silent ?j v"
    using keepsD [OF silent [of 0]] u(2) by (cases "run_state (ae_meanwhile ae 0) u") auto
  obtain y where y: "run_state (ae_meanwhile ae 1) v = ((), y)" "silent ?j y"
    using keepsD [OF silent [of 1]] v(2) by (cases "run_state (ae_meanwhile ae 1) v") auto
  have "stopsWithError (awaitCallbackOrCrash ae ctx h cb) w"
    unfolding awaitCallbackOrCrash_def Let_def
    by (cases "ae_exited ae h v")
       (auto intro!: stopsWithError_steps(2,3) stopsWithError_then [OF u(1)] stopsWithError_then [OF v(1)]
          stopsWithError_then [OF y(1) [unfolded One_nat_def]] stopsWithError_then [OF run_reading]
          stopsWithError_then [OF run_channels(2)] silent_receive(1) v(2) y(2))
  moreover have "stopsWithError (waitForCallback ae ctx cb) w"
    using silent_receive(1) [OF v(2), of "ae_wake ae v"] u(1) v(1)
    by (simp add: waitForCallback_def WaitForStatus_def stopsWithError_def run_simps) (auto split: prod.splits)
  ultimately have "stopsWithError (awaitAgent ae ctx h img cb) w"
    using assms(1) by (auto simp: awaitAgent_def intro!: stopsWithError_steps(1))
  then show ?thesis by (simp add: stopsWithError_def)
qed

section \<open>The life of the token\<close>

lemma buildAgentEnv_reads: "keeps same_db (buildAgentEnv ae ctx p s img prompt branch extra token)"
proof -
  have "keeps same_db (ListRunsByStory k n m)" "keeps same_db (ListRunStepsByRun i)" for k n m i
    unfolding ListRunsByStory_def ListRunStepsByRun_def by (rule db_read)+
  moreover have "keeps same_db (reading f)" for f :: "world \<Rightarrow> 'x" by (simp add: keeps_def run_simps db.frame_refl)
  ultimately show ?thesis
    unfolding buildAgentEnv_def priorFailureContext_def by (intro frame_intros)
qed

text \<open>
  the token of a run dies with it once the agent was launched. However the execution ends, the
  token is revoked and the channel removed at its end, or the launch itself failed; then nothing was
  started and the tokens are as they were.
\<close>

theorem launched_run_revokes_token:
  assumes "run_state (executeViaRuntime ae ctx p s img prompt branch extra network cb) w = (r, w')"
    and "callbackAgent ae ctx img"
  shows "callback_closed ae ctx cb w'
    \<or> ((\<exists>e. r = Inl (WrapErr [T ''launch agent on substrate''] e)) \<and> w_calls w' = w_calls w \<and> w_tokens w' = w_tokens w)"
proof -
  let ?build = "buildAgentEnv ae ctx p s img prompt branch extra (callbackToken cb)"
  obtain env u where u: "run_state ?build w = (env, u)" by fastforce
  have same: "w_calls u = w_calls w" "w_tokens u = w_tokens w"
    using keepsD [OF buildAgentEnv_reads u] by (auto simp: same_db_def)
  show ?thesis
  proof (cases "ae_launch ae (runSpec ae ctx s img prompt env network cb) u")
    case (Inl e)
    then show ?thesis using assms(1) u same by (auto simp: executeViaRuntime_def run_simps Let_def)
  next
    case (Inr h)
    let ?body = "do { _ \<leftarrow> persistContainerID (rs_id (rc_step ctx)) h; awaitAgent ae ctx h img cb }"
    have "ensures (callback_closed ae ctx cb) (deferred (stopBestEffort (CallStopRun h) h) ?body)"
      by (intro ensures_deferred ensures_bind awaitAgent_closes assms(2)) (simp add: callback_closed_def run_simps)
    moreover have "run_state (deferred (stopBestEffort (CallStopRun h) h) ?body)
        (u\<lparr>w_calls := w_calls u @ [CallLaunch (runSpec ae ctx s img prompt env network cb) h]\<rparr>) = (r, w')"
      using assms(1) u Inr by (simp add: executeViaRuntime_def run_simps Let_def)
    ultimately show ?thesis by (blast dest: ensuresD)
  qed
qed

text \<open>
  when the launch fails, the token stays. \<open>Execute\<close> mints the token before it launches the agent
  and returns the launch's error without revoking it: the token of the step that never ran is live
  for two hours.
\<close>

theorem failed_launch_leaves_token:
  assumes "callbackAgent ae ctx (metaStr (rc_metadata ctx) ''agent_image'')" and "ae_runtime ae" and "ae_token_store ae"
    and "\<And>spec v. \<exists>e. ae_launch ae spec v = Inl e"
  shows "\<exists>e w' ct. run_state (executeAgent ae ctx p s (metaStr (rc_metadata ctx) ''agent_image'') prompt None network) w = (Inl e, w')
    \<and> ct \<in> set (w_tokens w') \<and> tok_run ct = run_id (rc_run ctx) \<and> tok_step ct = rs_id (rc_step ctx)
    \<and> tok_expires ct = w_clock w + tokenTTL"
proof -
  let ?img = "metaStr (rc_metadata ctx) ''agent_image''"
  let ?agent = "case extractAgentID ae ctx of None \<Rightarrow> uuid_nil | Some a \<Rightarrow> a"
  let ?ct = "\<lparr>tok_token = w_next w, tok_run = run_id (rc_run ctx), tok_step = rs_id (rc_step ctx), tok_agent = ?agent,
    tok_role = resolveRole ctx, tok_expires = w_clock w + tokenTTL\<rparr>"
  obtain cb u where u: "run_state (prepareCallback ae ctx (resolveRole ctx)) w = (cb, u)" "?ct \<in> set (w_tokens u)"
    using assms(1,3) by (simp add: prepareCallback_def CreateToken_def run_simps)
  obtain v where v: "run_state (auditPrompt ctx prompt) u = ((), v)" "w_tokens v = w_tokens u"
    by (cases "run_state (auditPrompt ctx prompt) u")
       (auto simp: auditPrompt_def publishEvent_def Publish_def run_simps run_db_op_faults
          split: prod.splits if_splits option.splits list.splits)
  let ?launch = "executeViaRuntime ae ctx p s ?img prompt (metaStr (rc_metadata ctx) ''branch_name'') (buildConnStrings None) network cb"
  obtain env y where y: "run_state (buildAgentEnv ae ctx p s ?img prompt (metaStr (rc_metadata ctx) ''branch_name'')
      (buildConnStrings None) (callbackToken cb)) v = (env, y)" by fastforce
  obtain e where "ae_launch ae (runSpec ae ctx s ?img prompt env network cb) y = Inl e" using assms(4) by blast
  then have "run_state ?launch v = (Inl (WrapErr [T ''launch agent on substrate''] e), y)"
    using y by (simp add: executeViaRuntime_def run_simps Let_def)
  moreover have "w_tokens y = w_tokens v" using keepsD [OF buildAgentEnv_reads y] by (auto simp: same_db_def)
  ultimately show ?thesis
    using u v assms(2)
    by (intro exI [of _ "WrapErr [T ''launch agent on substrate''] e"] exI [of _ y] exI [of _ ?ct])
       (simp add: executeAgent_def runEnvironmentCommands_def run_simps Let_def)
qed

section \<open>The setup commands\<close>

text \<open>The commands an environment has among the keys, in the order of the keys.\<close>

fun configured :: "environment \<Rightarrow> string list \<Rightarrow> (string \<times> string) list" where
  "configured env [] = []"
| "configured env (key # keys) =
     (case map_of (env_commands env) key of
        None \<Rightarrow> configured env keys
      | Some command \<Rightarrow>
          if TrimSpace command = [] then configured env keys else (key, command) # configured env keys)"

text \<open>The calls of one command's container, and that it was started and exited with 0.\<close>

definition commandCalls :: "agent_env \<Rightarrow> command_spec \<Rightarrow> (string \<times> string) \<times> string \<times> bool \<Rightarrow> call list" where
  "commandCalls ae spec x = (case x of ((key, command), i, started) \<Rightarrow>
     CallCreate (commandOpts ae key command spec) i # (if started then [CallStart i] else []) @ [CallStop i, CallRemove i])"

definition succeeded :: "agent_env \<Rightarrow> (string \<times> string) \<times> string \<times> bool \<Rightarrow> bool" where
  "succeeded ae x \<longleftrightarrow> snd (snd x) \<and> (\<exists>v. ae_exit_code ae (fst (snd x)) v = Inr 0)"

lemma run_one_command:
  assumes "run_state (runOneCommand ae key command spec) w = (r, w')"
  shows "(\<exists>e. r = Inl e \<and> w_calls w' = w_calls w)
    \<or> (\<exists>i started. w_calls w' = w_calls w @ commandCalls ae spec ((key, command), i, started)
         \<and> (r = Inr () \<longrightarrow> succeeded ae ((key, command), i, started)))"
proof (cases "ae_create ae (commandOpts ae key command spec) w")
  case (Inl e)
  then show ?thesis using assms by (auto simp: runOneCommand_def run_simps)
next
  case (Inr i)
  let ?u = "w\<lparr>w_calls := w_calls w @ [CallCreate (commandOpts ae key command spec) i]\<rparr>"
  show ?thesis
  proof (cases "ae_start ae i ?u")
    case (Inl e)
    then show ?thesis
      using assms Inr by (intro disjI2 exI [of _ i] exI [of _ False])
        (auto simp: runOneCommand_def run_simps commandCalls_def)
  next
    case (Inr _)
    then show ?thesis
      using assms \<open>ae_create ae (commandOpts ae key command spec) w = Inr i\<close>
      by (intro disjI2 exI [of _ i] exI [of _ True])
         (auto simp: runOneCommand_def run_simps commandCalls_def succeeded_def split: sum.splits if_splits)
  qed
qed

lemma run_commands:
  assumes "run_state (runCommands ae env spec keys) w = (r, w')"
  shows "\<exists>runs. w_calls w' = w_calls w @ concat (map (commandCalls ae spec) runs)
    \<and> prefix (map fst runs) (configured env keys) \<and> (\<forall>x \<in> set (butlast runs). succeeded ae x)
    \<and> (r = Inr () \<longrightarrow> map fst runs = configured env keys \<and> (\<forall>x \<in> set runs. succeeded ae x))"
  using assms
proof (induction keys arbitrary: w)
  case Nil
  then show ?case by (intro exI [of _ "[]"]) (simp add: run_simps)
next
  case (Cons key keys)
  show ?case
  proof (cases "\<exists>command. map_of (env_commands env) key = Some command \<and> TrimSpace command \<noteq> []")
    case False
    then show ?thesis using Cons by (auto split: option.splits if_splits)
  next
    case True
    then obtain command where c: "map_of (env_commands env) key = Some command" "TrimSpace command \<noteq> []" by blast
    obtain q u where u: "run_state (runOneCommand ae key command spec) w = (q, u)" by fastforce
    from run_one_command [OF u] consider
        (early) e where "q = Inl e" "w_calls u = w_calls w"
      | (ran) i started where "w_calls u = w_calls w @ commandCalls ae spec ((key, command), i, started)"
          "q = Inr () \<longrightarrow> succeeded ae ((key, command), i, started)"
      by blast
    then show ?thesis
    proof cases
      case early
      then show ?thesis using Cons.prems c u by (intro exI [of _ "[]"]) (auto simp: run_simps)
    next
      case ran
      let ?x = "((key, command), i, started)"
      show ?thesis
      proof (cases q)
        case (Inl e)
        then show ?thesis using Cons.prems c u ran by (intro exI [of _ "[?x]"]) (auto simp: run_simps)
      next
        case (Inr y)
        then have "run_state (runCommands ae env spec keys) u = (r, w')" using Cons.prems c u by (simp add: run_simps)
        from Cons.IH [OF this] obtain runs where
          "w_calls w' = w_calls u @ concat (map (commandCalls ae spec) runs)"
          "prefix (map fst runs) (configured env keys)" "\<forall>x \<in> set (butlast runs). succeeded ae x"
          "r = Inr () \<longrightarrow> map fst runs = configured env keys \<and> (\<forall>x \<in> set runs. succeeded ae x)"
          by blast
        then show ?thesis using Inr ran c by (intro exI [of _ "?x # runs"]) auto
      qed
    qed
  qed
qed

text \<open>
  the setup commands run in their order, one at a time. The environment's commands for build,
  migrate, seed and test run in that order, each in a container of its own that is stopped and
  removed before the next one is created; a command only runs when the ones before exited with 0,
  and the setup succeeds only when all of them did.
\<close>

theorem setup_commands_in_order:
  assumes "run_state (runEnvironmentCommands ae (Some env) network p i branch img extra) w = (r, w')"
  shows "\<exists>spec runs. w_calls w' = w_calls w @ concat (map (commandCalls ae spec) runs)
    \<and> prefix (map fst runs) (configured env [''build'', ''migrate'', ''seed'', ''test''])
    \<and> (\<forall>x \<in> set (butlast runs). succeeded ae x)
    \<and> (r = Inr () \<longrightarrow> map fst runs = configured env [''build'', ''migrate'', ''seed'', ''test'']
          \<and> (\<forall>x \<in> set runs. succeeded ae x))"
proof (cases "env_commands env = []")
  case True
  then show ?thesis using assms
    by (intro exI [of _ "[]"] exI) (simp add: runEnvironmentCommands_def run_simps)
next
  case False
  have "keeps same_db (GetStackByKey key)" for key
    unfolding GetStackByKey_def by (rule db_read)
  then have reads: "keeps same_db (resolveCommandImage env img)"
    by (cases "env_stacks env") (auto simp: resolveCommandImage_def fallbackImage_def intro!: frame_intros)
  obtain q u where u: "run_state (resolveCommandImage env img) w = (q, u)" by fastforce
  have calls: "w_calls u = w_calls w" using keepsD [OF reads u] by (auto simp: same_db_def)
  show ?thesis
  proof (cases "\<exists>cimg url. q = Inr cimg \<and> authenticatedRepoURL ae p = Inr url")
    case False
    then have "(\<exists>e. r = Inl e) \<and> w' = u"
      using assms u \<open>env_commands env \<noteq> []\<close> by (auto simp: runEnvironmentCommands_def run_simps split: sum.splits)
    then show ?thesis by (intro exI [of _ "[]"] exI) (auto simp: calls)
  next
    case True
    then obtain cimg url where q: "q = Inr cimg" "authenticatedRepoURL ae p = Inr url" by blast
    let ?spec = "\<lparr>cms_image = cimg, cms_clone_url = url, cms_branch = branch, cms_git_env = gitEnv ae p,
      cms_extra_env = extra, cms_run = i, cms_network = network\<rparr>"
    have "run_state (runCommands ae env ?spec commandOrder) u = (r, w')"
      using assms u \<open>env_commands env \<noteq> []\<close> q
      by (simp add: runEnvironmentCommands_def run_simps del: runCommands.simps)
    from run_commands [OF this] show ?thesis by (intro exI [of _ ?spec]) (simp only: calls commandOrder_def)
  qed
qed

end
