(* ===== verification/AgentEnvSpec.thy ===== *)
theory AgentEnvSpec
  imports AgentRun CostsSpec
begin

text \<open>
  What an agent is told, proved right: the credentials in a connection string can be read back,
  whatever characters they have; the log tail is the last lines of the log; the memory of the last
  failure is of the newest failed run.
\<close>

section \<open>Percent-encoding\<close>

lemma of_char_less: "(of_char c :: nat) < 256"
  by simp

lemma of_char_upperHex: "n < 16 \<Longrightarrow> of_char (upperHex n) = (if n < 10 then 48 + n else 55 + n)"
  by (simp add: upperHex_def)

lemma unhex_upperHex: "n < 16 \<Longrightarrow> unhex (upperHex n) = Some n"
  by (simp add: unhex_def of_char_upperHex Let_def)

lemma escapeChar_pieces:
  "shouldEscape m c \<Longrightarrow> unescape (escapeChar m c @ s) = map_option (Cons c) (unescape s)"
proof -
  have lt: "(of_char c :: nat) div 16 < 16" "(of_char c :: nat) mod 16 < 16"
    using of_char_less [of c] by (simp_all add: less_mult_imp_div_less)
  have "char_of (16 * (of_char c div 16) + of_char c mod 16 :: nat) = c" by simp
  then show "shouldEscape m c \<Longrightarrow> ?thesis" by (simp add: escapeChar_def unhex_upperHex lt)
qed

lemma percent_escaped: "\<not> shouldEscape m c \<Longrightarrow> c \<noteq> CHR 0x25"
  by (cases m) (auto simp: shouldEscape_def alnum_def)

lemma unescape_escape: "unescape (escape m s) = Some s"
proof (induction s)
  case (Cons c s)
  show ?case
  proof (cases "shouldEscape m c")
    case True
    then show ?thesis using Cons escapeChar_pieces [OF True, of "escape m s"] by (simp add: escape_def)
  next
    case False
    then show ?thesis using Cons percent_escaped [OF False] by (simp add: escape_def escapeChar_def)
  qed
qed (simp add: escape_def)

lemma escape_chars:
  assumes "x \<in> set (escape m s)"
  obtains "x = CHR 0x25" | n where "n < 16" "x = upperHex n" | "\<not> shouldEscape m x"
proof -
  from assms obtain c where "x \<in> set (escapeChar m c)" by (auto simp: escape_def)
  moreover have "(of_char c :: nat) div 16 < 16" "(of_char c :: nat) mod 16 < 16"
    using of_char_less [of c] by (simp_all add: less_mult_imp_div_less)
  ultimately show thesis
    using that(1,3) that(2) [of "of_char c div 16"] that(2) [of "of_char c mod 16"]
    by (auto simp: escapeChar_def split: if_splits)
qed

lemma upperHex_plain: "n < 16 \<Longrightarrow> upperHex n \<noteq> CHR ''@''" "n < 16 \<Longrightarrow> upperHex n \<noteq> CHR '':''"
proof -
  have "of_char (upperHex n) \<noteq> (64 :: nat) \<and> of_char (upperHex n) \<noteq> (58 :: nat)" if "n < 16"
    using that by (simp add: of_char_upperHex)
  moreover have "of_char (CHR ''@'') = (64 :: nat)" "of_char (CHR '':'') = (58 :: nat)" by simp_all
  ultimately show "n < 16 \<Longrightarrow> upperHex n \<noteq> CHR ''@''" "n < 16 \<Longrightarrow> upperHex n \<noteq> CHR '':''" by metis+
qed

lemma escaped_plain:
  "CHR ''@'' \<notin> set (escape EncodeUserPassword s)" "CHR '':'' \<notin> set (escape EncodeUserPassword s)"
proof -
  have "x \<notin> set (escape EncodeUserPassword s)" if "x = CHR ''@'' \<or> x = CHR '':''" for x
  proof
    assume "x \<in> set (escape EncodeUserPassword s)"
    then show False
      using that upperHex_plain by (cases rule: escape_chars) (auto simp: shouldEscape_def alnum_def)
  qed
  then show "CHR ''@'' \<notin> set (escape EncodeUserPassword s)" "CHR '':'' \<notin> set (escape EncodeUserPassword s)"
    by blast+
qed

section \<open>Connection strings\<close>

text \<open>The user name and the password of a URL, from the text after its scheme.\<close>

definition credentials :: "string \<Rightarrow> string option \<times> string option" where
  "credentials text =
     (let info = takeWhile (\<lambda>c. c \<noteq> CHR ''@'') text;
          user = takeWhile (\<lambda>c. c \<noteq> CHR '':'') info
      in (unescape user, unescape (drop (Suc (length user)) info)))"

lemma takeWhile_absent: "c \<notin> set xs \<Longrightarrow> takeWhile (\<lambda>x. x \<noteq> c) (xs @ c # ys) = xs"
  by (induction xs) auto

lemma credentials_userinfo:
  "credentials (userinfoText (user, Some pass) @ ''@'' @ rest) = (Some user, Some pass)"
proof -
  let ?u = "escape EncodeUserPassword user" and ?p = "escape EncodeUserPassword pass"
  have "takeWhile (\<lambda>c. c \<noteq> CHR ''@'') ((?u @ CHR '':'' # ?p) @ CHR ''@'' # rest) = ?u @ CHR '':'' # ?p"
    by (rule takeWhile_absent) (simp add: escaped_plain)
  moreover have "takeWhile (\<lambda>c. c \<noteq> CHR '':'') (?u @ CHR '':'' # ?p) = ?u"
    by (rule takeWhile_absent) (simp add: escaped_plain)
  ultimately show ?thesis
    by (simp add: credentials_def userinfoText_def Let_def unescape_escape)
qed

text \<open>
  the credentials of a connection string can be read back. Whatever characters the user name and
  the password of a PostgreSQL service have, reserved ones included, a client that splits the
  connection string at the first at sign and colon and decodes the two parts gets them back.
\<close>

theorem connection_credentials_roundtrip:
  assumes "DetectServiceType (svc_image svc) = ''postgres''"
  shows "\<exists>rest. connStringsForService svc = [''DATABASE_URL=postgres://'' @ rest]
    \<and> credentials rest = (Some (envOr (svc_env svc) ''POSTGRES_USER'' ''postgres''),
                          Some (envOr (svc_env svc) ''POSTGRES_PASSWORD'' ''postgres''))"
  using assms by (simp add: connStringsForService_def urlText_def Let_def credentials_userinfo [simplified])

section \<open>The log tail\<close>

lemma pushTail_last:
  assumes "0 < n"
  shows "foldl (pushTail n) [] ls = drop (length ls - n) ls"
proof (induction ls rule: rev_induct)
  case (snoc l ls)
  have "pushTail n (drop (length ls - n) ls) l = drop (length (ls @ [l]) - n) (ls @ [l])"
  proof (cases "n \<le> length ls")
    case True
    then show ?thesis using assms by (simp add: pushTail_def tl_drop drop_Suc [symmetric] Suc_diff_le)
  next
    case False
    then show ?thesis by (simp add: pushTail_def)
  qed
  then show ?case using snoc by simp
qed simp

text \<open>
  the buffer of the log tail holds the last lines. Pushing the lines of a log one by one into the
  buffer of the configured size (50 when the setting is not positive) leaves the last lines of the
  log, in order: the ring of \<open>streamAndWait\<close> is \<open>drop\<close> of all but the last of them.
\<close>

theorem log_tail_is_last_lines:
  "foldl (pushTail (tailSize ae)) [] ls = drop (length ls - tailSize ae) ls"
  by (rule pushTail_last) (simp add: tailSize_def)

section \<open>The memory of the last failure\<close>

text \<open>
  The prompt remembers the newest failed run. Without infrastructure failures, when some other
  run among the ten newest of the story failed, the context tells of the newest such run: why it
  failed and the last lines of the log of its failed step; otherwise it is empty.
\<close>

lemma prior_failure_is_newest:
  assumes "w_faults w = []"
  shows "run_state (priorFailureContext k current) w =
    ((case filter (\<lambda>r. run_id r \<noteq> current \<and> run_status r = RunStatusFailed)
             (take 10 (rev (filter (\<lambda>r. run_story r = k) (w_runs w)))) of
        [] \<Rightarrow> []
      | r # _ \<Rightarrow> failureBlock r (steps_of (run_id r) w)), w)"
  using assms
  by (simp add: priorFailureContext_def ListRunsByStory_def ListRunStepsByRun_def run_simps find_filter
      split: list.split)

end
