(* ===== verification/AgentWitnesses.thy ===== *)
theory AgentWitnesses
  imports AgentRunSpec AgentEnvSpec CostsWitnesses
begin

text \<open>The properties of the agent's run and of its callback channel applied to the sample project.\<close>

section \<open>A sample agent\<close>

definition demo_token :: container_token where
  "demo_token = \<lparr>tok_token = 77, tok_run = 21, tok_step = 40, tok_agent = 0, tok_role = ''dev'', tok_expires = 5000\<rparr>"

definition agent_world :: world where
  "agent_world = running_world\<lparr>w_tokens := [demo_token]\<rparr>"

definition demo_client :: client where
  "demo_client = \<lparr>cl_base = ''http://api:8080'', cl_run = 20, cl_step = 31, cl_token = 77\<rparr>"

definition demo_report :: "unit op" where
  "demo_report =
     do { _ \<leftarrow> SendStatus (serveCallback demo_costs) demo_client [RequestLost, ResponseLost, Delivered] 3 ''tests failed''; skip }"

definition demo_agent :: agent_env where
  "demo_agent =
     \<lparr>ae_memory = 0, ae_cpus = 1, ae_network = ''agents'', ae_isolate = False, ae_tail_lines = 0,
      ae_status_store = True, ae_token_store = True, ae_runtime = True, ae_callback_url = ''http://api:8080'',
      ae_getenv = (\<lambda>_. []), ae_raymond = (\<lambda>_ _. Inr [T ''do it'']), ae_auth_url = (\<lambda>u _. Inr u), ae_api_key = None,
      ae_parse_uuid = (\<lambda>_. None), ae_costs = demo_costs, ae_create = (\<lambda>opts _. Inr (co_image opts)),
      ae_start = (\<lambda>_ _. Inr ()), ae_exit_code = (\<lambda>_ _. Inr 0), ae_sidecars = (\<lambda>_ _ _. Inr None),
      ae_launch = (\<lambda>_ _. Inr ''pod''), ae_exited = (\<lambda>_ _. Some (Inr 137)), ae_arrived = (\<lambda>_. True),
      ae_stream = (\<lambda>_ _. Inr \<lparr>st_events = [], st_exit = 0, st_cancelled = False\<rparr>),
      ae_meanwhile = (\<lambda>n. if n = 0 then demo_report else skip), ae_wake = (\<lambda>_. WakeStatus)\<rparr>"

abbreviation idle_agent :: agent_env where
  "idle_agent \<equiv> demo_agent\<lparr>ae_meanwhile := \<lambda>_. skip\<rparr>"

definition demo_ctx :: run_context where
  "demo_ctx =
     \<lparr>rc_run = sample_run RunStatusRunning [] [], rc_step = sample_a StepStatusRunning, rc_project = 1, rc_story = 10,
      rc_user = 0, rc_metadata = [''agent_image'' \<mapsto> JStr ''hopeitworks/agent-claude'']\<rparr>"

lemmas agent_simps = demo_agent_def demo_ctx_def demo_client_def demo_token_def agent_world_def costed_simps

lemma demo_callback [simp]:
  "callbackAgent demo_agent demo_ctx ''hopeitworks/agent-claude''"
  "callbackAgent idle_agent demo_ctx ''hopeitworks/agent-claude''"
  "metaStr (rc_metadata demo_ctx) ''agent_image'' = ''hopeitworks/agent-claude''"
  "ae_runtime demo_agent" "ae_token_store demo_agent" "rs_id (rc_step demo_ctx) = 31"
  by (simp_all add: isCallbackMode_def metaStr_def agent_simps)

lemma demo_fields:
  "ae_meanwhile demo_agent n = (if n = 0 then demo_report else skip)"
  "ae_wake demo_agent v = WakeStatus" "ae_arrived demo_agent v"
  by (simp_all add: demo_agent_def)

lemma idle_fields [simp]:
  "ae_meanwhile idle_agent n = skip" "w_channels agent_world = Map.empty"
  by (simp_all add: agent_simps)

section \<open>Callbacks\<close>

lemma callback_needs_live_token_witness:
  "\<exists>code w'. run_state (serveCallback demo_costs
      \<lparr>rq_bearer = Some (Some 78), rq_run = Some 20, rq_step = Some 31, rq_body = PostStatus (Some (0, []))\<rparr>) agent_world
    = ((401, code), w')"
  using callback_needs_live_token [of "\<lparr>rq_bearer = Some (Some 78), rq_run = Some 20, rq_step = Some 31,
      rq_body = PostStatus (Some (0, []))\<rparr>" agent_world demo_costs]
  by (auto simp: liveToken_def agent_simps)

lemma foreign_token_ends_step_witness:
  "\<exists>w' w''. run_state (serveCallback demo_costs \<lparr>rq_bearer = Some (Some 77), rq_run = Some 20, rq_step = Some 31,
      rq_body = PostStatus (Some (0, []))\<rparr>) (agent_world\<lparr>w_channels := [31 \<mapsto> None]\<rparr>) = ((204, []), w')
    \<and> run_state (receiveStatus WakeStatus 31) w' = (Inr (0, []), w'')"
  by (rule foreign_token_ends_step [where ct = demo_token]) (simp_all add: agent_simps)

lemma lost_response_repeats_cost_witness:
  "\<exists>w'. run_state (SendCost (serveCallback demo_costs) demo_client [ResponseLost, Delivered] (hd (tl demo_events))) agent_world
      = (Inr (), w') \<and> costOfRun 20 w' = 1 / 2"
proof -
  have c: "stored (batchCost demo_costs [hd (tl demo_events)]) = 1 / 4"
    by (simp add: stored_def batchCost_def demo_events_def micros_def roundAway_def)
  have "costOfRun 20 agent_world = 0"
    by (simp add: costOfRun_def agent_simps)
  then show ?thesis
    using lost_response_repeats_cost [of 1 demo_client "sample_a StepStatusRunning" "hd (w_runs running_world)" agent_world
        "hd (tl demo_events)" demo_costs] c
    by (auto simp: cost_ready_def liveToken_def countable_tokens_def sumInput_def sumOutput_def demo_events_def decimal_def
        agent_simps)
qed

section \<open>The wait for the agent\<close>

lemma reported_status_decides_witness:
  "\<exists>w'. run_state (awaitAgent demo_agent demo_ctx ''pod'' ''hopeitworks/agent-claude'' None) agent_world
      = (Inl (PlainErr [T ''agent exited with code '', N 3]), w')
    \<and> callback_closed demo_agent demo_ctx None w'"
proof -
  have live: "liveToken (cl_token demo_client) (w_clock agent_world + 3 * int (w_tick agent_world)) agent_world"
    by (simp add: liveToken_def agent_simps)
  have step: "cl_step demo_client = 31" by (simp add: demo_client_def)
  show ?thesis
    using reported_status_decides [of demo_agent demo_ctx "''hopeitworks/agent-claude''" demo_costs demo_client
        "[RequestLost, ResponseLost, Delivered]" 3 "''tests failed''" agent_world "''pod''" None] live step
    by (simp add: demo_report_def demo_fields eval_nat_numeral)
qed

lemma no_success_without_status_witness:
  "\<exists>e w'. run_state (awaitAgent idle_agent demo_ctx ''pod'' ''hopeitworks/agent-claude'' None) agent_world = (Inl e, w')"
  by (rule no_success_without_status) (simp_all add: keeps_def silent_def run_simps)

section \<open>The life of the token\<close>

abbreviation demo_callback_spec :: callback_spec where
  "demo_callback_spec \<equiv> \<lparr>cs_url = [], cs_token = Some 77, cs_run = 20, cs_step = 31\<rparr>"

abbreviation launching :: "world \<Rightarrow> unit res \<times> world" where
  "launching \<equiv> run_state (executeViaRuntime demo_agent demo_ctx sample_project sample_story ''hopeitworks/agent-claude''
     [] [] [] None (Some demo_callback_spec))"

lemma launched_run_revokes_token_witness:
  "callback_closed demo_agent demo_ctx (Some demo_callback_spec) (snd (launching agent_world))
   \<or> w_calls (snd (launching agent_world)) = w_calls agent_world"
  using launched_run_revokes_token [of demo_agent demo_ctx sample_project sample_story "''hopeitworks/agent-claude''"
      "[]" "[]" "[]" None "Some demo_callback_spec" agent_world "fst (launching agent_world)" "snd (launching agent_world)"]
  by auto

abbreviation down_agent :: agent_env where
  "down_agent \<equiv> demo_agent\<lparr>ae_launch := \<lambda>_ _. Inl (PlainErr [T ''no capacity''])\<rparr>"

lemma failed_launch_leaves_token_witness:
  "\<exists>e w' ct. run_state (executeAgent down_agent demo_ctx sample_project sample_story ''hopeitworks/agent-claude''
      [T ''do it''] None None) agent_world = (Inl e, w')
    \<and> ct \<in> set (w_tokens w') \<and> tok_run ct = 20 \<and> tok_step ct = 31 \<and> tok_expires ct = 1000 + tokenTTL"
proof -
  have c: "callbackAgent down_agent demo_ctx (metaStr (rc_metadata demo_ctx) ''agent_image'')"
    by (simp add: isCallbackMode_def metaStr_def demo_agent_def demo_ctx_def)
  have f: "run_id (rc_run demo_ctx) = 20" "w_clock agent_world = 1000"
    by (simp_all add: agent_simps)
  from failed_launch_leaves_token [OF c, of sample_project sample_story "[T ''do it'']" None agent_world] f
  show ?thesis by simp
qed

section \<open>The setup and the clean-up\<close>

definition demo_environment :: environment where
  "demo_environment =
     \<lparr>env_id = 60, env_project = 1, env_stacks = [], env_services = [], env_source = [],
      env_commands = [(''test'', ''make test''), (''build'', ''make'')], env_created_at = 0, env_updated_at = 0\<rparr>"

abbreviation preparing :: "world \<Rightarrow> unit res \<times> world" where
  "preparing \<equiv> run_state (runEnvironmentCommands demo_agent (Some demo_environment) None sample_project 20 ''main'' ''img'' [])"

lemma setup_commands_in_order_witness:
  "\<exists>spec runs. w_calls (snd (preparing agent_world)) = concat (map (commandCalls demo_agent spec) runs)
     \<and> prefix (map fst runs) [(''build'', ''make''), (''test'', ''make test'')]"
proof -
  have c: "configured demo_environment [''build'', ''migrate'', ''seed'', ''test''] = [(''build'', ''make''), (''test'', ''make test'')]"
    by code_simp
  have calls: "w_calls agent_world = []" by (simp add: agent_simps)
  obtain r v where v: "preparing agent_world = (r, v)" by fastforce
  from setup_commands_in_order [OF v] obtain spec runs where
    "w_calls v = w_calls agent_world @ concat (map (commandCalls demo_agent spec) runs)"
    "prefix (map fst runs) (configured demo_environment [''build'', ''migrate'', ''seed'', ''test''])"
    by blast
  then show ?thesis by (intro exI [of _ spec] exI [of _ runs]) (simp only: v calls c snd_conv append_Nil simp_thms)
qed

abbreviation acting :: "world \<Rightarrow> (unit res \<times> metadata) \<times> world" where
  "acting \<equiv> run_state (AgentRunAction idle_agent demo_ctx)"

lemma agent_run_releases_everything_witness:
  "released (w_calls (snd (acting agent_world)))"
proof -
  have "w_calls agent_world = []" by (simp add: agent_simps)
  moreover have "keeps tidy (ae_meanwhile idle_agent n)" for n by (simp add: keeps_def run_simps tidy_same)
  ultimately show ?thesis
    using agent_run_releases_everything [of idle_agent demo_ctx agent_world "fst (acting agent_world)" "snd (acting agent_world)"]
    by auto
qed

lemma connection_credentials_roundtrip_witness:
  "\<exists>rest. connStringsForService \<lparr>svc_name = ''db'', svc_image = ''postgres:16'',
       svc_env = [''POSTGRES_USER'' \<mapsto> ''a:b'', ''POSTGRES_PASSWORD'' \<mapsto> ''p@ss/%'']\<rparr> = [''DATABASE_URL=postgres://'' @ rest]
     \<and> credentials rest = (Some ''a:b'', Some ''p@ss/%'')"
proof -
  let ?svc = "\<lparr>svc_name = ''db'', svc_image = ''postgres:16'',
       svc_env = [''POSTGRES_USER'' \<mapsto> ''a:b'', ''POSTGRES_PASSWORD'' \<mapsto> ''p@ss/%'']\<rparr>"
  have "DetectServiceType ''postgres:16'' = ''postgres''" by code_simp
  moreover have "envOr (svc_env ?svc) ''POSTGRES_USER'' d = ''a:b''" "envOr (svc_env ?svc) ''POSTGRES_PASSWORD'' d = ''p@ss/%''" for d
    by (simp_all add: envOr_def)
  ultimately show ?thesis using connection_credentials_roundtrip [of ?svc] by (simp del: append.simps)
qed

end
