(* ===== verification/Accounts.thy ===== *)
theory Accounts
  imports AgentRun
begin

text \<open>
  Accounts: \<open>auth_service.go\<close>, \<open>user_service.go\<close>, the repositories \<open>user_repository.go\<close>,
  \<open>password_reset_token_repository.go\<close> and \<open>token_blacklist_repo.go\<close> over their queries, and the
  middleware \<open>auth.go\<close> and \<open>rbac.go\<close>. The bcrypt and JWT libraries, the mail sender and the parser
  of identifiers are parameters (\<open>auth_libs\<close>).
\<close>

section \<open>Tokens and libraries\<close>

text \<open>\<open>Claims\<close>; a token without the identifier claim has \<open>None\<close> in \<open>cl_id\<close>.\<close>

record claims =
  cl_user :: uuid
  cl_role :: string
  cl_id :: "uuid option"
  cl_expires :: time
  cl_issued :: time

record auth_libs =
  bcrypt_generate :: "string \<Rightarrow> world \<Rightarrow> string res"
  bcrypt_matches :: "string \<Rightarrow> string \<Rightarrow> bool"
  jwt_sign :: "claims \<Rightarrow> string res"
  jwt_parse :: "time \<Rightarrow> string \<Rightarrow> claims res"
  jwt_date :: "time \<Rightarrow> time"
  jwt_expiration :: time
  send_mail :: "string \<Rightarrow> uuid \<Rightarrow> world \<Rightarrow> unit res"
  has_blacklist :: bool

definition ErrInvalidCredentials :: err where
  "ErrInvalidCredentials = PlainErr [T ''invalid credentials'']"

definition ErrEmailAlreadyExists :: err where
  "ErrEmailAlreadyExists = PlainErr [T ''email already exists'']"

definition ErrValidation :: err where
  "ErrValidation = PlainErr [T ''validation error'']"

definition ErrResetTokenExpired :: err where
  "ErrResetTokenExpired = PlainErr [T ''reset token expired'']"

definition ErrResetTokenInvalid :: err where
  "ErrResetTokenInvalid = PlainErr [T ''reset token invalid or already used'']"

section \<open>The table of users\<close>

text \<open>The user repository returns the driver's errors as they are.\<close>

definition no_rows :: err where
  "no_rows = PlainErr [T ''no rows in result set'']"

definition duplicate_key :: err where
  "duplicate_key = PlainErr [T ''SQLSTATE 23505'']"

definition isDuplicateKeyError :: "err \<Rightarrow> bool" where
  "isDuplicateKeyError e \<longleftrightarrow> err_is e duplicate_key"

definition raw_op :: "'a fop \<Rightarrow> 'a fop" where
  "raw_op = fault_op db_failure"

abbreviation set_users :: "user list \<Rightarrow> world \<Rightarrow> world" where
  "set_users us w \<equiv> w\<lparr>w_users := us\<rparr>"

definition alive :: "user \<Rightarrow> bool" where
  "alive u \<longleftrightarrow> usr_deleted_at u = None"

definition validRole :: "string \<Rightarrow> bool" where
  "validRole r \<longleftrightarrow> r = RoleAdmin \<or> r = RoleUser"

text \<open>The unique index on the address covers the deleted rows too.\<close>

definition CreateUser :: "string \<Rightarrow> string \<Rightarrow> string \<Rightarrow> string \<Rightarrow> user fop" where
  "CreateUser email hash name role =
     raw_op (writing (\<lambda>w.
       if \<not> validRole role then (Inl db_failure, w)
       else if email \<in> usr_email ` set (w_users w) then (Inl duplicate_key, w)
       else
         let u = \<lparr>usr_id = w_next w, usr_email = email, usr_password = hash, usr_name = name,
                  usr_role = role, usr_created_at = w_clock w, usr_updated_at = w_clock w,
                  usr_deleted_at = None\<rparr>
         in (Inr u, w\<lparr>w_users := w_users w @ [u], w_next := Suc (w_next w)\<rparr>)))"

definition liveUsers :: "world \<Rightarrow> user list" where
  "liveUsers w = filter alive (w_users w)"

definition GetUserByEmail :: "string \<Rightarrow> user fop" where
  "GetUserByEmail email =
     raw_op (reading (\<lambda>w. case tbl_find usr_email email (liveUsers w) of
         None \<Rightarrow> Inl no_rows | Some u \<Rightarrow> Inr u))"

definition GetUserByID :: "uuid \<Rightarrow> user fop" where
  "GetUserByID i =
     raw_op (reading (\<lambda>w. case tbl_find usr_id i (liveUsers w) of
         None \<Rightarrow> Inl no_rows | Some u \<Rightarrow> Inr u))"

definition ListUsers :: "int \<Rightarrow> int \<Rightarrow> user list fop" where
  "ListUsers limit offset =
     raw_op (reading (\<lambda>w. case paged limit offset (rev (liveUsers w)) of
         None \<Rightarrow> Inl db_failure | Some us \<Rightarrow> Inr us))"

definition CountUsers :: "int fop" where
  "CountUsers = raw_op (reading (\<lambda>w. Inr (int (length (liveUsers w)))))"

text \<open>An empty text is passed as \<open>NULL\<close>, which keeps the column; the password is not written.\<close>

definition orKeep :: "string \<Rightarrow> string \<Rightarrow> string" where
  "orKeep new old = (if new = [] then old else new)"

definition set_user :: "user \<Rightarrow> world \<Rightarrow> user \<Rightarrow> user" where
  "set_user x w u =
     u\<lparr>usr_name := orKeep (usr_name x) (usr_name u), usr_email := orKeep (usr_email x) (usr_email u),
       usr_role := orKeep (usr_role x) (usr_role u), usr_updated_at := w_clock w\<rparr>"

definition emailTaken :: "uuid \<Rightarrow> string \<Rightarrow> world \<Rightarrow> bool" where
  "emailTaken i email w \<longleftrightarrow> (\<exists>v \<in> set (w_users w). usr_id v \<noteq> i \<and> usr_email v = email)"

definition UpdateUser :: "user \<Rightarrow> user fop" where
  "UpdateUser x =
     raw_op (writing (\<lambda>w. case tbl_find usr_id (usr_id x) (liveUsers w) of
         None \<Rightarrow> (Inl no_rows, w)
       | Some u \<Rightarrow>
           let v = set_user x w u in
           if \<not> validRole (usr_role v) then (Inl db_failure, w)
           else if emailTaken (usr_id x) (usr_email v) w then (Inl duplicate_key, w)
           else (Inr v, w\<lparr>w_users := tbl_update usr_id (usr_id x) (set_user x w) (w_users w)\<rparr>)))"

definition updateLive :: "uuid \<Rightarrow> (world \<Rightarrow> user \<Rightarrow> user) \<Rightarrow> unit fop" where
  "updateLive i f =
     raw_op (writing (\<lambda>w. (Inr (), w\<lparr>w_users :=
        tbl_update usr_id i (\<lambda>u. if alive u then f w u else u) (w_users w)\<rparr>)))"

definition UpdateUserPasswordHash :: "uuid \<Rightarrow> string \<Rightarrow> unit fop" where
  "UpdateUserPasswordHash i hash =
     updateLive i (\<lambda>w u. u\<lparr>usr_password := hash, usr_updated_at := w_clock w\<rparr>)"

definition DeleteUser :: "uuid \<Rightarrow> unit fop" where
  "DeleteUser i =
     updateLive i (\<lambda>w u. u\<lparr>usr_updated_at := w_clock w, usr_deleted_at := Some (w_clock w)\<rparr>)"

section \<open>Reset tokens and revoked tokens\<close>

abbreviation set_resets :: "reset_token list \<Rightarrow> world \<Rightarrow> world" where
  "set_resets rs w \<equiv> w\<lparr>w_resets := rs\<rparr>"

definition CreateResetToken :: "uuid \<Rightarrow> uuid \<Rightarrow> time \<Rightarrow> reset_token fop" where
  "CreateResetToken user token expires =
     db_op ''create password reset token''
       (writing (\<lambda>w.
          if tbl_find usr_id user (w_users w) = None \<or> token \<in> rt_token ` set (w_resets w)
          then (Inl (NewInternal ''create password reset token'' db_failure), w)
          else
            let r = \<lparr>rt_id = w_next w, rt_user = user, rt_token = token, rt_expires = expires,
                     rt_used = None, rt_created_at = w_clock w\<rparr>
            in (Inr r, w\<lparr>w_resets := w_resets w @ [r], w_next := Suc (w_next w)\<rparr>)))"

definition GetResetToken :: "uuid \<Rightarrow> reset_token fop" where
  "GetResetToken token =
     db_op ''get password reset token'' (find_row w_resets rt_token ''password_reset_token'' token)"

definition MarkResetTokenUsed :: "uuid \<Rightarrow> unit fop" where
  "MarkResetTokenUsed i =
     db_op ''mark password reset token used''
       (writing (\<lambda>w. (Inr (), w\<lparr>w_resets :=
          tbl_update rt_id i (\<lambda>r. r\<lparr>rt_used := Some (w_clock w)\<rparr>) (w_resets w)\<rparr>)))"

definition Revoke :: "uuid \<Rightarrow> time \<Rightarrow> unit fop" where
  "Revoke jti expires =
     db_op ''failed to revoke token''
       (writing (\<lambda>w. (Inr (),
          if jti \<in> fst ` set (w_revoked w) then w
          else w\<lparr>w_revoked := w_revoked w @ [(jti, expires)]\<rparr>)))"

definition IsRevoked :: "uuid \<Rightarrow> bool fop" where
  "IsRevoked jti =
     db_op ''failed to check token revocation'' (reading (\<lambda>w. Inr (jti \<in> fst ` set (w_revoked w))))"

definition DeleteExpiredRevoked :: "unit fop" where
  "DeleteExpiredRevoked =
     db_op ''failed to delete expired revoked tokens''
       (writing (\<lambda>w. (Inr (),
          w\<lparr>w_revoked := filter (\<lambda>(i, t). w_clock w \<le> t) (w_revoked w)\<rparr>)))"

section \<open>Authentication\<close>

definition generateToken :: "auth_libs \<Rightarrow> uuid \<Rightarrow> string \<Rightarrow> string fop" where
  "generateToken lib user role = do {
     now \<leftarrow> time_now;
     i \<leftarrow> uuid_new;
     State_Monad.return (jwt_sign lib
       \<lparr>cl_user = user, cl_role = role, cl_id = Some i,
        cl_expires = jwt_date lib (now + jwt_expiration lib), cl_issued = jwt_date lib now\<rparr>) }"

definition withToken :: "auth_libs \<Rightarrow> user \<Rightarrow> (user \<times> string) fop" where
  "withToken lib u =
     attempt (generateToken lib (usr_id u) (usr_role u)) (\<lambda>token. ok (u, token))"

definition hashPassword :: "auth_libs \<Rightarrow> string \<Rightarrow> string fop" where
  "hashPassword lib password = reading (bcrypt_generate lib password)"

definition registerError :: "err \<Rightarrow> err" where
  "registerError e = (if isDuplicateKeyError e then ErrEmailAlreadyExists else e)"

definition Register :: "auth_libs \<Rightarrow> string \<Rightarrow> string \<Rightarrow> string \<Rightarrow> (user \<times> string) fop" where
  "Register lib email password name =
     (if email = [] \<or> password = [] \<or> name = [] then fail ErrValidation
      else if length password < 8 then fail ErrValidation
      else attempt (hashPassword lib password) (\<lambda>hash.
        attempt (wrap_err registerError (CreateUser email hash name RoleUser)) (withToken lib)))"

definition Login :: "auth_libs \<Rightarrow> string \<Rightarrow> string \<Rightarrow> (user \<times> string) fop" where
  "Login lib email password =
     (if email = [] \<or> password = [] then fail ErrValidation
      else attempt (wrap_err (\<lambda>_. ErrInvalidCredentials) (GetUserByEmail email)) (\<lambda>u.
        if \<not> bcrypt_matches lib (usr_password u) password then fail ErrInvalidCredentials
        else withToken lib u))"

text \<open>\<open>AuthService.ValidateToken\<close>: the library checks the signature and the expiry at this moment.\<close>

definition ValidateJWT :: "auth_libs \<Rightarrow> string \<Rightarrow> claims fop" where
  "ValidateJWT lib token = do { now \<leftarrow> time_now; State_Monad.return (jwt_parse lib now token) }"

definition Logout :: "auth_libs \<Rightarrow> string \<Rightarrow> unit fop" where
  "Logout lib token =
     (if \<not> has_blacklist lib then ok ()
      else do {
        r \<leftarrow> ValidateJWT lib token;
        case r of Inl e \<Rightarrow> ok ()
        | Inr c \<Rightarrow> (case cl_id c of None \<Rightarrow> ok () | Some jti \<Rightarrow> Revoke jti (cl_expires c)) })"

definition PurgeExpiredTokens :: "auth_libs \<Rightarrow> unit fop" where
  "PurgeExpiredTokens lib = (if has_blacklist lib then DeleteExpiredRevoked else ok ())"

definition hour :: time where
  "hour = 3600 * 1000000000"

text \<open>\<open>crypto/rand\<close> can fail as a round trip can; the token is a fresh identifier.\<close>

definition generateSecureToken :: "uuid fop" where
  "generateSecureToken =
     fault_op (PlainErr [T ''random source'']) (do { i \<leftarrow> uuid_new; ok i })"

definition ForgotPassword :: "auth_libs \<Rightarrow> string \<Rightarrow> unit fop" where
  "ForgotPassword lib email =
     (if email = [] then fail ErrValidation
      else do {
        r \<leftarrow> GetUserByEmail email;
        case r of Inl e \<Rightarrow> ok ()
        | Inr u \<Rightarrow> attempt generateSecureToken (\<lambda>token. do {
            now \<leftarrow> time_now;
            attempt (CreateResetToken (usr_id u) token (now + hour)) (\<lambda>_.
              outside (send_mail lib (usr_email u) token) (\<lambda>_. CallEmail (usr_email u) token)) }) })"

text \<open>The new hash is put into the row read from the database, and the row is written back.\<close>

definition resetUser :: "auth_libs \<Rightarrow> reset_token \<Rightarrow> string \<Rightarrow> unit fop" where
  "resetUser lib prt password =
     attempt (hashPassword lib password) (\<lambda>hash.
     attempt (GetUserByID (rt_user prt)) (\<lambda>u.
     attempt (UpdateUser (u\<lparr>usr_password := hash\<rparr>)) (\<lambda>_.
       MarkResetTokenUsed (rt_id prt))))"

definition ResetPassword :: "auth_libs \<Rightarrow> uuid option \<Rightarrow> string \<Rightarrow> unit fop" where
  "ResetPassword lib token password =
     (case token of None \<Rightarrow> fail ErrValidation
      | Some t \<Rightarrow>
          if password = [] then fail ErrValidation
          else if length password < 8 then fail ErrValidation
          else attempt (wrap_err (\<lambda>_. ErrResetTokenInvalid) (GetResetToken t)) (\<lambda>prt.
            if rt_used prt \<noteq> None then fail ErrResetTokenInvalid
            else do {
              now \<leftarrow> time_now;
              if rt_expires prt < now then fail ErrResetTokenExpired
              else resetUser lib prt password }))"

section \<open>User management\<close>

definition MaxNameLength :: nat where
  "MaxNameLength = 255"

definition notEmpty :: "string \<Rightarrow> err" where
  "notEmpty field = NewValidation [T field] [T ''must not be empty'']"

definition tooLong :: "string \<Rightarrow> nat \<Rightarrow> err" where
  "tooLong field n = NewValidation [T field] [T ''must be '', N (int n), T '' characters or less'']"

text \<open>An optional new name: \<open>Inr\<close> the name the row gets.\<close>

definition newName :: "string \<Rightarrow> string option \<Rightarrow> string \<Rightarrow> string res" where
  "newName field name old =
     (case name of None \<Rightarrow> Inr old
      | Some n \<Rightarrow> if n = [] then Inl (notEmpty field)
          else if MaxNameLength < length n then Inl (tooLong field MaxNameLength) else Inr n)"

definition newEmail :: "string option \<Rightarrow> string \<Rightarrow> string res" where
  "newEmail email old =
     (case email of None \<Rightarrow> Inr old
      | Some e \<Rightarrow> if e = [] then Inl (notEmpty ''email'') else Inr e)"

definition newRole :: "string option \<Rightarrow> string \<Rightarrow> string res" where
  "newRole role old =
     (case role of None \<Rightarrow> Inr old
      | Some r \<Rightarrow>
          if validRole r then Inr r
          else Inl (NewValidation [T ''role'']
            [T ''must be '', apostrophe, T ''admin'', apostrophe, T '' or '', apostrophe, T ''user'', apostrophe]))"

definition lift :: "'a res \<Rightarrow> 'a fop" where
  "lift r = State_Monad.return r"

definition UserGet :: "uuid \<Rightarrow> user fop" where
  "UserGet i = wrap_err (\<lambda>_. NewNotFound ''user'' (U i)) (GetUserByID i)"

definition UserList :: "int \<Rightarrow> int \<Rightarrow> (user list \<times> int) fop" where
  "UserList page perPage =
     (case paginationToLimitOffset page perPage of (limit, offset) \<Rightarrow>
        attempt (ListUsers limit offset) (\<lambda>us. attempt CountUsers (\<lambda>n. ok (us, n))))"

definition UserUpdate :: "uuid \<Rightarrow> string option \<Rightarrow> string option \<Rightarrow> string option \<Rightarrow> user fop" where
  "UserUpdate i name email role =
     attempt (UserGet i) (\<lambda>u.
     attempt (lift (newName ''name'' name (usr_name u))) (\<lambda>n.
     attempt (lift (newEmail email (usr_email u))) (\<lambda>e.
     attempt (lift (newRole role (usr_role u))) (\<lambda>r.
       UpdateUser (u\<lparr>usr_email := e, usr_name := n, usr_role := r\<rparr>)))))"

definition NewUnauthorized :: "string \<Rightarrow> err" where
  "NewUnauthorized msg = DomainError CategoryUnauthorized ''UNAUTHORIZED'' [T msg] None"

text \<open>A duplicate can only be the new address: the old one is the row's own.\<close>

definition profileError :: "string option \<Rightarrow> err \<Rightarrow> err" where
  "profileError email e =
     (if isDuplicateKeyError e
      then NewConflict ''email'' (case email of None \<Rightarrow> [] | Some x \<Rightarrow> x) else e)"

definition UserUpdateProfile :: "uuid \<Rightarrow> string option \<Rightarrow> string option \<Rightarrow> user fop" where
  "UserUpdateProfile i name email =
     attempt (wrap_err (\<lambda>_. NewUnauthorized ''user not found'') (GetUserByID i)) (\<lambda>u.
     attempt (lift (newName ''name'' name (usr_name u))) (\<lambda>n.
     attempt (lift (newEmail email (usr_email u))) (\<lambda>e.
       wrap_err (profileError email) (UpdateUser (u\<lparr>usr_email := e, usr_name := n\<rparr>)))))"

definition ChangePassword :: "auth_libs \<Rightarrow> uuid \<Rightarrow> string \<Rightarrow> string \<Rightarrow> unit fop" where
  "ChangePassword lib i current password =
     attempt (wrap_err (\<lambda>_. NewUnauthorized ''user not found'') (GetUserByID i)) (\<lambda>u.
       if \<not> bcrypt_matches lib (usr_password u) current
       then fail (NewUnauthorized ''current password is incorrect'')
       else if length password < 8
       then fail (NewValidation [T ''new_password''] [T ''must be at least 8 characters''])
       else attempt (wrap_err (NewInternal ''failed to hash password'') (hashPassword lib password))
         (\<lambda>hash. UpdateUserPasswordHash i hash))"

definition UserDelete :: "uuid \<Rightarrow> unit fop" where
  "UserDelete i = attempt (UserGet i) (\<lambda>_. DeleteUser i)"

section \<open>Middleware\<close>

text \<open>The user the request context carries, and the claims' role.\<close>

type_synonym identity = "(uuid \<times> string) option"

definition publicPaths :: "string list" where
  "publicPaths = [''/healthz'', ''/api/v1/auth/register'', ''/api/v1/auth/login'',
     ''/api/v1/auth/forgot-password'', ''/api/v1/auth/reset-password'']"

definition isPublicPath :: "string \<Rightarrow> bool" where
  "isPublicPath path \<longleftrightarrow> hasPrefix path ''/internal/'' \<or> path \<in> set publicPaths"

definition admit :: "auth_libs \<Rightarrow> claims \<Rightarrow> (identity \<Rightarrow> response op) \<Rightarrow> response op" where
  "admit lib c next =
     (let go = next (Some (cl_user c, cl_role c)) in
      case cl_id c of
        None \<Rightarrow> go
      | Some jti \<Rightarrow>
          if \<not> has_blacklist lib then go
          else do {
            r \<leftarrow> IsRevoked jti;
            case r of Inl e \<Rightarrow> respond 401 ''UNAUTHORIZED''
            | Inr revoked \<Rightarrow> if revoked then respond 401 ''TOKEN_REVOKED'' else go })"

definition Auth :: "auth_libs \<Rightarrow> string \<Rightarrow> string option \<Rightarrow> (identity \<Rightarrow> response op) \<Rightarrow> response op" where
  "Auth lib path cookie next =
     (if isPublicPath path then next None
      else (case cookie of None \<Rightarrow> respond 401 ''UNAUTHORIZED''
        | Some token \<Rightarrow> do {
            r \<leftarrow> ValidateJWT lib token;
            case r of Inl e \<Rightarrow> respond 401 ''UNAUTHORIZED'' | Inr c \<Rightarrow> admit lib c next }))"

definition IsUserInProject :: "uuid \<Rightarrow> uuid \<Rightarrow> bool fop" where
  "IsUserInProject p i =
     db_op ''failed to check project membership''
       (reading (\<lambda>w. Inr (\<exists>m \<in> set (w_members w). pm_project m = p \<and> pm_user m = i)))"

text \<open>The project identifier of the path, \<open>None\<close> when it does not parse.\<close>

definition RequireProjectAccess :: "identity \<Rightarrow> uuid option \<Rightarrow> response op \<Rightarrow> response op" where
  "RequireProjectAccess who path_project next =
     (case who of None \<Rightarrow> respond 403 ''FORBIDDEN''
      | Some (i, role) \<Rightarrow>
          if role = RoleAdmin then next
          else (case path_project of None \<Rightarrow> respond 400 ''VALIDATION_ERROR''
            | Some p \<Rightarrow> do {
                r \<leftarrow> IsUserInProject p i;
                case r of Inl e \<Rightarrow> respond 500 ''INTERNAL_ERROR''
                | Inr member \<Rightarrow> if member then next else respond 403 ''FORBIDDEN'' }))"

end
