(* ===== verification/Board.thy ===== *)
theory Board
  imports Accounts PlanningImport
begin

text \<open>
  The board: projects, pipeline configurations, epics and stories as people edit them.
  \<open>project_service.go\<close>, \<open>pipeline_config_service.go\<close>, \<open>epic_service.go\<close>, \<open>story_service.go\<close> and
  \<open>project_user_service.go\<close> over their repositories and queries, with the unique constraints, the
  foreign keys and their \<open>ON DELETE\<close> actions, and the trigger that forbids to delete an event.
  \<open>uuid.Nil\<close> stands for an absent identifier, as in the code.
\<close>

section \<open>Validation\<close>

definition MaxStoryKeyLength :: nat where "MaxStoryKeyLength = 50"
definition MaxProjectDescriptionLength :: nat where "MaxProjectDescriptionLength = 1000"
definition MaxEpicDescriptionLength :: nat where "MaxEpicDescriptionLength = 2000"

lemmas length_consts = MaxNameLength_def MaxStoryKeyLength_def MaxProjectDescriptionLength_def
  MaxEpicDescriptionLength_def

definition isRequired :: "string \<Rightarrow> err" where
  "isRequired field = NewValidation [T field] [T ''is required'']"

definition check :: "bool \<Rightarrow> err \<Rightarrow> unit fop" where
  "check good e = (if good then ok () else fail e)"

text \<open>A required name, and an optional description of bounded length.\<close>

definition checkName :: "string \<Rightarrow> string \<Rightarrow> unit fop" where
  "checkName field name =
     attempt (check (name \<noteq> []) (isRequired field)) (\<lambda>_.
       check (length name \<le> MaxNameLength) (tooLong field MaxNameLength))"

definition checkDescription :: "nat \<Rightarrow> string option \<Rightarrow> unit fop" where
  "checkDescription n d =
     check (case d of None \<Rightarrow> True | Some x \<Rightarrow> length x \<le> n) (tooLong ''description'' n)"

text \<open>A field that is replaced when it is given.\<close>

definition given :: "'a option \<Rightarrow> 'a \<Rightarrow> 'a" where
  "given new old = (case new of None \<Rightarrow> old | Some x \<Rightarrow> x)"

section \<open>The table of projects\<close>

text \<open>A budget is stored in cents, in a column of ten digits.\<close>

definition cents :: "real \<Rightarrow> int" where
  "cents x = roundAway (x * 100)"

definition budgetFits :: "real option \<Rightarrow> bool" where
  "budgetFits b = (case b of None \<Rightarrow> True | Some x \<Rightarrow> \<bar>cents x\<bar> < 10 ^ 10)"

definition toCents :: "real \<Rightarrow> real" where
  "toCents x = real_of_int (cents x) / 100"

definition projectNameTaken :: "uuid option \<Rightarrow> string \<Rightarrow> world \<Rightarrow> bool" where
  "projectNameTaken me n w \<longleftrightarrow>
     (\<exists>p \<in> set (w_projects w). project_name p = n \<and> Some (project_id p) \<noteq> me)"

definition newProjectRow :: "project \<Rightarrow> world \<Rightarrow> project" where
  "newProjectRow x w =
     x\<lparr>project_id := w_next w, project_max_budget := map_option toCents (project_max_budget x),
       project_max_container_timeout := None, cb_count := 0, cb_active := False, cb_max := 3,
       project_created_at := w_clock w, project_updated_at := w_clock w\<rparr>"

definition CreateProject :: "project \<Rightarrow> project fop" where
  "CreateProject x =
     db_op ''failed to create project''
       (writing (\<lambda>w.
          if \<not> budgetFits (project_max_budget x)
          then (Inl (NewInternal ''failed to create project'' db_failure), w)
          else if projectNameTaken None (project_name x) w
          then (Inl (NewConflict ''project'' (project_name x)), w)
          else (Inr (newProjectRow x w),
                w\<lparr>w_projects := w_projects w @ [newProjectRow x w], w_next := Suc (w_next w)\<rparr>)))"

definition set_project :: "project \<Rightarrow> world \<Rightarrow> project \<Rightarrow> project" where
  "set_project x w p =
     p\<lparr>project_name := project_name x,
       project_description := coalesce (project_description x) (project_description p),
       project_owner := coalesce (project_owner x) (project_owner p),
       project_repo_url := coalesce (project_repo_url x) (project_repo_url p),
       project_git_provider := project_git_provider x,
       project_git_token_env := coalesce (project_git_token_env x) (project_git_token_env p),
       project_agent_runtime := project_agent_runtime x,
       project_default_model := coalesce (project_default_model x) (project_default_model p),
       project_max_budget := coalesce (map_option toCents (project_max_budget x)) (project_max_budget p),
       project_updated_at := w_clock w\<rparr>"

definition UpdateProject :: "project \<Rightarrow> project fop" where
  "UpdateProject x =
     db_op ''failed to update project''
       (writing (\<lambda>w. case tbl_find project_id (project_id x) (w_projects w) of
           None \<Rightarrow> (Inl (NewNotFound ''project'' (U (project_id x))), w)
         | Some p \<Rightarrow>
             if \<not> budgetFits (project_max_budget x)
             then (Inl (NewInternal ''failed to update project'' db_failure), w)
             else if projectNameTaken (Some (project_id x)) (project_name x) w
             then (Inl (NewConflict ''project'' (project_name x)), w)
             else (Inr (toDomainProject (set_project x w p)),
                   w\<lparr>w_projects := tbl_update project_id (project_id x) (set_project x w) (w_projects w)\<rparr>)))"

definition ListProjects :: "int \<Rightarrow> int \<Rightarrow> project list fop" where
  "ListProjects limit offset =
     db_op ''failed to list projects''
       (reading (\<lambda>w. case paged limit offset (rev (w_projects w)) of
           None \<Rightarrow> Inl (NewInternal ''failed to list projects'' db_failure)
         | Some ps \<Rightarrow> Inr (map toDomainProject ps)))"

definition CountProjects :: "int fop" where
  "CountProjects = db_op ''failed to count projects'' (reading (\<lambda>w. Inr (int (length (w_projects w)))))"

subsection \<open>The deletion and its cascade\<close>

text \<open>\<open>ON DELETE SET NULL\<close>.\<close>

definition unlink :: "uuid list \<Rightarrow> uuid option \<Rightarrow> uuid option" where
  "unlink gone x = (case x of None \<Rightarrow> None | Some i \<Rightarrow> if i \<in> set gone then None else Some i)"

definition without :: "('r \<Rightarrow> bool) \<Rightarrow> 'r list \<Rightarrow> 'r list" where
  "without gone rows = filter (\<lambda>r. \<not> gone r) rows"

text \<open>The rows of the tables that go with the runs of a project, its epics, its stories and its agents.\<close>

definition dropRuns :: "uuid list \<Rightarrow> uuid list \<Rightarrow> world \<Rightarrow> world" where
  "dropRuns runs steps w =
     w\<lparr>w_runs := without (\<lambda>r. run_id r \<in> set runs) (w_runs w),
       w_steps := map (\<lambda>s. s\<lparr>rs_parent := unlink steps (rs_parent s)\<rparr>)
          (without (\<lambda>s. rs_id s \<in> set steps) (w_steps w)),
       w_hitl := without (\<lambda>h. hitl_step h \<in> set steps) (w_hitl w),
       w_epic_run_stories := map (\<lambda>x. x\<lparr>ers_run := unlink runs (ers_run x)\<rparr>) (w_epic_run_stories w),
       w_costs := without (\<lambda>c. cr_step c \<in> set steps) (w_costs w)\<rparr>"

definition dropEpicRuns :: "uuid list \<Rightarrow> world \<Rightarrow> world" where
  "dropEpicRuns ers w =
     w\<lparr>w_epic_runs := without (\<lambda>x. er_id x \<in> set ers) (w_epic_runs w),
       w_epic_run_stories := without (\<lambda>x. ers_epic_run x \<in> set ers) (w_epic_run_stories w)\<rparr>"

definition dropEpics :: "uuid list \<Rightarrow> world \<Rightarrow> world" where
  "dropEpics epics w =
     (dropEpicRuns (map er_id (filter (\<lambda>x. er_epic x \<in> set epics) (w_epic_runs w))) w)
       \<lparr>w_stories := map (\<lambda>s. s\<lparr>story_epic := unlink epics (story_epic s)\<rparr>) (w_stories w),
        w_epics := without (\<lambda>e. epic_id e \<in> set epics) (w_epics w)\<rparr>"

definition dropStories :: "uuid list \<Rightarrow> world \<Rightarrow> world" where
  "dropStories stories w =
     w\<lparr>w_stories := without (\<lambda>s. story_id s \<in> set stories) (w_stories w),
       w_epic_run_stories := without (\<lambda>x. ers_story x \<in> set stories) (w_epic_run_stories w)\<rparr>"

definition dropAgents :: "uuid list \<Rightarrow> world \<Rightarrow> world" where
  "dropAgents agents w =
     w\<lparr>w_agents := without (\<lambda>a. agent_id a \<in> set agents) (w_agents w),
       w_costs := map (\<lambda>c. c\<lparr>cr_agent := unlink agents (cr_agent c)\<rparr>) (w_costs w),
       w_agent_caps := without (\<lambda>x. fst x \<in> set agents) (w_agent_caps w)\<rparr>"

definition dropCapabilities :: "uuid list \<Rightarrow> world \<Rightarrow> world" where
  "dropCapabilities caps w =
     w\<lparr>w_capabilities := without (\<lambda>c. cap_id c \<in> set caps) (w_capabilities w),
       w_agent_caps := without (\<lambda>x. snd x \<in> set caps) (w_agent_caps w)\<rparr>"

text \<open>The tables whose rows only refer to the project.\<close>

definition dropProjectRows :: "uuid \<Rightarrow> world \<Rightarrow> world" where
  "dropProjectRows p w =
     w\<lparr>w_projects := without (\<lambda>x. project_id x = p) (w_projects w),
       w_configs := without (\<lambda>x. pc_project x = p) (w_configs w),
       w_costs := without (\<lambda>x. cr_project x = p) (w_costs w),
       w_connectors := without (\<lambda>x. conn_project x = p) (w_connectors w),
       w_members := without (\<lambda>x. pm_project x = p) (w_members w),
       w_credentials := without (\<lambda>x. cred_project x = Some p) (w_credentials w),
       w_git := without (\<lambda>x. gc_project x = p) (w_git w),
       w_notify := without (\<lambda>x. nc_project x = p) (w_notify w),
       w_environments := without (\<lambda>x. env_project x = p) (w_environments w)\<rparr>"

definition projectRuns :: "uuid \<Rightarrow> world \<Rightarrow> uuid list" where
  "projectRuns p w = map run_id (filter (\<lambda>r. run_project r = p) (w_runs w))"

definition projectSteps :: "uuid list \<Rightarrow> world \<Rightarrow> uuid list" where
  "projectSteps runs w = map rs_id (filter (\<lambda>s. rs_run s \<in> set runs) (w_steps w))"

definition cascadeProject :: "uuid \<Rightarrow> world \<Rightarrow> world" where
  "cascadeProject p w =
     (dropProjectRows p
      \<circ> dropCapabilities (map cap_id (filter (\<lambda>c. cap_project c = Some p) (w_capabilities w)))
      \<circ> dropAgents (map agent_id (filter (\<lambda>a. agent_project a = Some p) (w_agents w)))
      \<circ> dropStories (map story_id (filter (\<lambda>s. story_project s = p) (w_stories w)))
      \<circ> dropEpicRuns (map er_id (filter (\<lambda>x. er_project x = p) (w_epic_runs w)))
      \<circ> dropEpics (map epic_id (filter (\<lambda>e. epic_project e = p) (w_epics w)))
      \<circ> dropRuns (projectRuns p w) (projectSteps (projectRuns p w) w)) w"

text \<open>
  The cascade would delete the project's events, which the trigger \<open>events_no_delete\<close> forbids: the
  statement fails and nothing is deleted.
\<close>

definition DeleteProject :: "uuid \<Rightarrow> unit fop" where
  "DeleteProject p =
     db_op ''failed to delete project''
       (writing (\<lambda>w.
          if tbl_find project_id p (w_projects w) \<noteq> None \<and> (\<exists>e \<in> set (w_events w). ev_project e = p)
          then (Inl (NewInternal ''failed to delete project'' db_failure), w)
          else (Inr (), if tbl_find project_id p (w_projects w) = None then w else cascadeProject p w)))"

section \<open>Pipeline configurations\<close>

definition set_config :: "string \<Rightarrow> world \<Rightarrow> pipeline_config \<Rightarrow> pipeline_config" where
  "set_config yaml w c =
     c\<lparr>pc_yaml := yaml, pc_version := pc_version c + 1, pc_updated_at := w_clock w\<rparr>"

definition UpsertPipelineConfig :: "uuid \<Rightarrow> string \<Rightarrow> pipeline_config fop" where
  "UpsertPipelineConfig p yaml =
     db_op ''failed to upsert pipeline config''
       (writing (\<lambda>w. case tbl_find pc_project p (w_configs w) of
           Some c \<Rightarrow> (Inr (set_config yaml w c),
              w\<lparr>w_configs := tbl_update pc_project p (set_config yaml w) (w_configs w)\<rparr>)
         | None \<Rightarrow>
             if tbl_find project_id p (w_projects w) = None
             then (Inl (NewInternal ''failed to upsert pipeline config'' db_failure), w)
             else
               let c = \<lparr>pc_id = w_next w, pc_project = p, pc_yaml = yaml, pc_version = 1,
                        pc_created_at = w_clock w, pc_updated_at = w_clock w\<rparr>
               in (Inr c, w\<lparr>w_configs := w_configs w @ [c], w_next := Suc (w_next w)\<rparr>)))"

definition configError :: "string \<Rightarrow> msg \<Rightarrow> err" where
  "configError code m = DomainError CategoryValidation code m None"

definition atIndex :: "string \<Rightarrow> nat \<Rightarrow> string \<Rightarrow> msg" where
  "atIndex what i rest = [T what, N (int i), T rest]"

definition stepError :: "nat \<Rightarrow> nat \<Rightarrow> string \<Rightarrow> msg" where
  "stepError i j rest = atIndex ''groups['' i ''].steps['' @ [N (int j), T rest]"

definition invalidStep :: "nat \<Rightarrow> nat \<Rightarrow> pipeline_step \<Rightarrow> err option" where
  "invalidStep i j s =
     (if ps_name s = []
      then Some (configError ''INVALID_PIPELINE_CONFIG'' (stepError i j ''].name: step name is required''))
      else if ps_action_type s = []
      then Some (configError ''INVALID_PIPELINE_CONFIG''
        (stepError i j ''].action_type: action type is required for step ''
          @ [apostrophe, T (ps_name s), apostrophe]))
      else if \<not> ValidActionTypes (ps_action_type s)
      then Some (configError ''INVALID_ACTION_TYPE''
        (stepError i j ''].action_type: unknown action type: '' @ [T (ps_action_type s)]))
      else None)"

fun invalidSteps :: "nat \<Rightarrow> nat \<Rightarrow> pipeline_step list \<Rightarrow> err option" where
  "invalidSteps i j [] = None"
| "invalidSteps i j (s # ss) =
     (case invalidStep i j s of Some e \<Rightarrow> Some e | None \<Rightarrow> invalidSteps i (Suc j) ss)"

definition invalidGroup :: "nat \<Rightarrow> pipeline_group \<Rightarrow> err option" where
  "invalidGroup i g =
     (if pg_name g = []
      then Some (configError ''INVALID_PIPELINE_CONFIG'' (atIndex ''groups['' i ''].name: group name is required''))
      else if pg_steps g = []
      then Some (configError ''INVALID_PIPELINE_CONFIG''
        (atIndex ''groups['' i ''].steps: group must have at least one step''))
      else invalidSteps i 0 (pg_steps g))"

fun invalidGroups :: "nat \<Rightarrow> pipeline_group list \<Rightarrow> err option" where
  "invalidGroups i [] = None"
| "invalidGroups i (g # gs) =
     (case invalidGroup i g of Some e \<Rightarrow> Some e | None \<Rightarrow> invalidGroups (Suc i) gs)"

type_synonym decoder = "string \<Rightarrow> pipeline_config_raw res"

definition validatePipelineConfigYAML :: "decoder \<Rightarrow> string \<Rightarrow> unit res" where
  "validatePipelineConfigYAML decode yaml =
     (if yaml = [] then Inl (isRequired ''config_yaml'')
      else case ParsePipelineConfigYAML decode yaml of
        Inl e \<Rightarrow> Inl (configError ''INVALID_PIPELINE_CONFIG'' (err_text e))
      | Inr parsed \<Rightarrow>
          if groups parsed = []
          then Inl (configError ''INVALID_PIPELINE_CONFIG'' [T ''pipeline config must have at least one group''])
          else case invalidGroups 0 (groups parsed) of Some e \<Rightarrow> Inl e | None \<Rightarrow> Inr ())"

definition ConfigUpsert :: "decoder \<Rightarrow> uuid \<Rightarrow> string \<Rightarrow> pipeline_config fop" where
  "ConfigUpsert decode p yaml =
     attempt (lift (validatePipelineConfigYAML decode yaml)) (\<lambda>_. UpsertPipelineConfig p yaml)"

text \<open>The text of the default configuration, line by line.\<close>

definition DefaultPipelineConfigYAML :: string where
  "DefaultPipelineConfigYAML = concat (map (\<lambda>l. l @ nl)
     [''groups:'',
      ''  - id: setup'', ''    name: Setup'', ''    steps:'', ''      - id: git-branch'',
      ''        name: Create Branch'', ''        action_type: git_branch'', ''        config:'',
      ''          base_branch: main'', '''',
      ''  - id: development'', ''    name: Development'', ''    steps:'', ''      - id: agent-implement'',
      ''        name: Implement Story'', ''        action_type: agent_run'', ''        config:'',
      ''          role: dev'', ''          phase: dev-story'', '''',
      ''  - id: review'', ''    name: Review'', ''    steps:'', ''      - id: agent-review'',
      ''        name: Code Review'', ''        action_type: agent_run'', ''        config:'',
      ''          role: review'', ''          phase: code-review'', '''',
      ''  - id: merge'', ''    name: Merge'', ''    steps:'', ''      - id: git-pr'',
      ''        name: Create & Merge PR'', ''        action_type: git_pr'', ''        config:'',
      ''          strategy: squash'', '''',
      ''  - id: delivery'', ''    name: Delivery'', ''    steps:'', ''      - id: ci-poll'',
      ''        name: Wait for CI'', ''        action_type: ci_poll'', ''        config:'',
      ''          timeout_minutes: '' @ quoted ''30'', ''      - id: notify'',
      ''        name: Notify Completion'', ''        action_type: notification'', ''        config:'',
      ''          channel: default''])"

definition SeedDefault :: "uuid \<Rightarrow> pipeline_config fop" where
  "SeedDefault p = UpsertPipelineConfig p DefaultPipelineConfigYAML"

section \<open>Projects\<close>

record project_params =
  pp_name :: string
  pp_description :: "string option"
  pp_owner :: "uuid option"
  pp_repo_url :: "string option"
  pp_git_provider :: "string option"
  pp_git_token_env :: "string option"
  pp_agent_runtime :: "string option"
  pp_default_model :: "string option"

definition orDefault :: "string option \<Rightarrow> string \<Rightarrow> string" where
  "orDefault x d = (case x of None \<Rightarrow> d | Some v \<Rightarrow> if v = [] then d else v)"

definition newProject :: "project_params \<Rightarrow> project" where
  "newProject a =
     \<lparr>project_id = uuid_nil, project_name = pp_name a, project_description = pp_description a,
      project_owner = pp_owner a, project_repo_url = pp_repo_url a,
      project_git_provider = orDefault (pp_git_provider a) ''github'',
      project_git_token_env = pp_git_token_env a,
      project_agent_runtime = orDefault (pp_agent_runtime a) ''docker'',
      project_default_model = pp_default_model a, project_max_budget = None,
      project_max_container_timeout = None, cb_count = 0, cb_active = False, cb_max = 0,
      project_created_at = 0, project_updated_at = 0\<rparr>"

definition ProjectCreate :: "bool \<Rightarrow> project_params \<Rightarrow> project fop" where
  "ProjectCreate seeds a =
     attempt (checkName ''name'' (pp_name a)) (\<lambda>_.
     attempt (checkDescription MaxProjectDescriptionLength (pp_description a)) (\<lambda>_.
     attempt (CreateProject (newProject a)) (\<lambda>created.
       if seeds
       then attempt (wrap_err (WrapErr [T ''seeding default pipeline config'']) (SeedDefault (project_id created)))
              (\<lambda>_. ok created)
       else ok created)))"

definition ProjectList :: "int \<Rightarrow> int \<Rightarrow> (project list \<times> int) fop" where
  "ProjectList page perPage =
     (case paginationToLimitOffset page perPage of (limit, offset) \<Rightarrow>
        attempt (ListProjects limit offset) (\<lambda>ps. attempt CountProjects (\<lambda>n. ok (ps, n))))"

record project_update =
  pu_name :: "string option"
  pu_description :: "string option"
  pu_max_budget :: "real option"
  pu_set_budget :: bool
  pu_repo_url :: "string option"
  pu_set_repo_url :: bool
  pu_git_provider :: "string option"
  pu_git_token_env :: "string option"
  pu_set_token_env :: bool
  pu_agent_runtime :: "string option"
  pu_default_model :: "string option"
  pu_set_model :: bool

definition updatedProject :: "project_update \<Rightarrow> string \<Rightarrow> project \<Rightarrow> project" where
  "updatedProject u name p =
     p\<lparr>project_name := name,
       project_description := (if pu_description u = None then project_description p else pu_description u),
       project_repo_url := (if pu_set_repo_url u then pu_repo_url u else project_repo_url p),
       project_git_provider := given (pu_git_provider u) (project_git_provider p),
       project_git_token_env := (if pu_set_token_env u then pu_git_token_env u else project_git_token_env p),
       project_agent_runtime := given (pu_agent_runtime u) (project_agent_runtime p),
       project_default_model := (if pu_set_model u then pu_default_model u else project_default_model p),
       project_max_budget := (if pu_set_budget u then pu_max_budget u else project_max_budget p)\<rparr>"

definition ProjectUpdate :: "uuid \<Rightarrow> project_update \<Rightarrow> project fop" where
  "ProjectUpdate i u =
     attempt (GetProjectByID i) (\<lambda>p.
     attempt (lift (newName ''name'' (pu_name u) (project_name p))) (\<lambda>name.
     attempt (checkDescription MaxProjectDescriptionLength (pu_description u)) (\<lambda>_.
       UpdateProject (updatedProject u name p))))"

definition ProjectDelete :: "uuid \<Rightarrow> unit fop" where
  "ProjectDelete i = attempt (GetProjectByID i) (\<lambda>_. DeleteProject i)"

section \<open>Epics\<close>

definition newEpicRow :: "epic \<Rightarrow> world \<Rightarrow> epic" where
  "newEpicRow x w =
     x\<lparr>epic_id := w_next w, epic_source := SourceManual, epic_external_id := None,
       epic_source_url := None, epic_synced_at := None, epic_created_at := w_clock w,
       epic_updated_at := w_clock w\<rparr>"

definition CreateEpic :: "epic \<Rightarrow> epic fop" where
  "CreateEpic x =
     db_op ''failed to create epic''
       (writing (\<lambda>w.
          if list_ex (epic_named (epic_project x) (epic_name x)) (w_epics w)
          then (Inl (NewConflict ''epic'' (epic_name x)), w)
          else if tbl_find project_id (epic_project x) (w_projects w) = None
          then (Inl (NewInternal ''failed to create epic'' db_failure), w)
          else (Inr (newEpicRow x w),
                w\<lparr>w_epics := w_epics w @ [newEpicRow x w], w_next := Suc (w_next w)\<rparr>)))"

definition GetEpic :: "uuid \<Rightarrow> epic fop" where
  "GetEpic i = db_op ''failed to get epic'' (find_row w_epics epic_id ''epic'' i)"

definition set_epic :: "epic \<Rightarrow> world \<Rightarrow> epic \<Rightarrow> epic" where
  "set_epic x w e =
     e\<lparr>epic_name := epic_name x, epic_description := coalesce (epic_description x) (epic_description e),
       epic_status := epic_status x, epic_updated_at := w_clock w\<rparr>"

definition UpdateEpic :: "epic \<Rightarrow> epic fop" where
  "UpdateEpic x =
     db_op ''failed to update epic''
       (writing (\<lambda>w. case tbl_find epic_id (epic_id x) (w_epics w) of
           None \<Rightarrow> (Inl (NewNotFound ''epic'' (U (epic_id x))), w)
         | Some e \<Rightarrow>
             if list_ex (\<lambda>y. epic_named (epic_project e) (epic_name x) y \<and> epic_id y \<noteq> epic_id x) (w_epics w)
             then (Inl (NewConflict ''epic'' (epic_name x)), w)
             else (Inr (set_epic x w e),
                   w\<lparr>w_epics := tbl_update epic_id (epic_id x) (set_epic x w) (w_epics w)\<rparr>)))"

definition DeleteEpic :: "uuid \<Rightarrow> unit fop" where
  "DeleteEpic i = db_op ''failed to delete epic'' (writing (\<lambda>w. (Inr (), dropEpics [i] w)))"

definition epicsOf :: "uuid \<Rightarrow> world \<Rightarrow> epic list" where
  "epicsOf p w = filter (\<lambda>e. epic_project e = p) (w_epics w)"

definition ListEpicsByProject :: "uuid \<Rightarrow> int \<Rightarrow> int \<Rightarrow> epic list fop" where
  "ListEpicsByProject p limit offset =
     db_op ''failed to list epics''
       (reading (\<lambda>w. case paged limit offset (rev (epicsOf p w)) of
           None \<Rightarrow> Inl (NewInternal ''failed to list epics'' db_failure) | Some es \<Rightarrow> Inr es))"

definition CountEpicsByProject :: "uuid \<Rightarrow> int fop" where
  "CountEpicsByProject p =
     db_op ''failed to count epics'' (reading (\<lambda>w. Inr (int (length (epicsOf p w)))))"

definition isValidEpicStatus :: "string \<Rightarrow> bool" where
  "isValidEpicStatus s \<longleftrightarrow> s = EpicStatusBacklog \<or> s = EpicStatusInProgress \<or> s = EpicStatusDone"

definition badEpicStatus :: err where
  "badEpicStatus = NewValidation [T ''status''] [T ''must be one of: backlog, in_progress, done'']"

definition manualEpic :: "uuid \<Rightarrow> string \<Rightarrow> string option \<Rightarrow> string \<Rightarrow> epic" where
  "manualEpic p name desc st =
     \<lparr>epic_id = uuid_nil, epic_project = p, epic_name = name, epic_description = desc, epic_status = st,
      epic_source = [], epic_external_id = None, epic_source_url = None, epic_synced_at = None,
      epic_created_at = 0, epic_updated_at = 0\<rparr>"

definition EpicCreate :: "uuid \<Rightarrow> string \<Rightarrow> string option \<Rightarrow> string \<Rightarrow> epic fop" where
  "EpicCreate p name desc status =
     attempt (checkName ''name'' name) (\<lambda>_.
     attempt (checkDescription MaxEpicDescriptionLength desc) (\<lambda>_.
     attempt (check (p \<noteq> uuid_nil) (isRequired ''project_id'')) (\<lambda>_.
       let st = (if status = [] then EpicStatusBacklog else status) in
       attempt (check (isValidEpicStatus st) badEpicStatus) (\<lambda>_. CreateEpic (manualEpic p name desc st)))))"

definition EpicList :: "uuid \<Rightarrow> int \<Rightarrow> int \<Rightarrow> (epic list \<times> int) fop" where
  "EpicList p page perPage =
     (case paginationToLimitOffset page perPage of (limit, offset) \<Rightarrow>
        attempt (ListEpicsByProject p limit offset) (\<lambda>es. attempt (CountEpicsByProject p) (\<lambda>n. ok (es, n))))"

definition EpicUpdate :: "uuid \<Rightarrow> string option \<Rightarrow> string option \<Rightarrow> string option \<Rightarrow> epic fop" where
  "EpicUpdate i name desc status =
     attempt (GetEpic i) (\<lambda>e.
     attempt (lift (newName ''name'' name (epic_name e))) (\<lambda>n.
     attempt (checkDescription MaxEpicDescriptionLength desc) (\<lambda>_.
     attempt (check (case status of None \<Rightarrow> True | Some s \<Rightarrow> isValidEpicStatus s) badEpicStatus) (\<lambda>_.
       UpdateEpic (e\<lparr>epic_name := n,
         epic_description := (if desc = None then epic_description e else desc),
         epic_status := given status (epic_status e)\<rparr>)))))"

definition EpicDelete :: "uuid \<Rightarrow> unit fop" where
  "EpicDelete i = attempt (GetEpic i) (\<lambda>_. DeleteEpic i)"

section \<open>Stories\<close>

definition newStoryRow :: "story \<Rightarrow> world \<Rightarrow> story" where
  "newStoryRow x w =
     x\<lparr>story_id := w_next w, story_current_stage := None, story_source := SourceManual,
       story_external_id := None, story_external_item_id := None, story_source_url := None,
       story_synced_at := None, story_import_hash := None, story_writeback_status := None,
       story_created_at := w_clock w, story_updated_at := w_clock w\<rparr>"

definition CreateStory :: "story \<Rightarrow> story fop" where
  "CreateStory x =
     db_op ''failed to create story''
       (writing (\<lambda>w.
          if list_ex (story_keyed (story_project x) (story_key x)) (w_stories w)
          then (Inl (NewConflict ''story'' (story_key x)), w)
          else if tbl_find project_id (story_project x) (w_projects w) = None \<or> \<not> epic_ref_ok (story_epic x) w
          then (Inl (NewInternal ''failed to create story'' db_failure), w)
          else (Inr (newStoryRow x w),
                w\<lparr>w_stories := w_stories w @ [newStoryRow x w], w_next := Suc (w_next w)\<rparr>)))"

text \<open>\<open>StoryRepo.Update\<close> with a new epic, whose foreign key is checked.\<close>

definition UpdateStoryEpic :: "story \<Rightarrow> story fop" where
  "UpdateStoryEpic x =
     db_op ''failed to update story''
       (writing (\<lambda>w. case tbl_find story_id (story_id x) (w_stories w) of
           None \<Rightarrow> (Inl (NewNotFound ''story'' (U (story_id x))), w)
         | Some s \<Rightarrow>
             if \<not> epic_ref_ok (story_epic x) w
             then (Inl (NewInternal ''failed to update story'' db_failure), w)
             else (Inr (set_story x w s),
                   w\<lparr>w_stories := tbl_update story_id (story_id x) (set_story x w) (w_stories w)\<rparr>)))"

definition DeleteStory :: "uuid \<Rightarrow> unit fop" where
  "DeleteStory i = db_op ''failed to delete story'' (writing (\<lambda>w. (Inr (), dropStories [i] w)))"

definition pageOfStories :: "string \<Rightarrow> (story \<Rightarrow> bool) \<Rightarrow> int \<Rightarrow> int \<Rightarrow> story list fop" where
  "pageOfStories what which limit offset =
     db_op what
       (reading (\<lambda>w. case paged limit offset (rev (filter which (w_stories w))) of
           None \<Rightarrow> Inl (NewInternal what db_failure) | Some ss \<Rightarrow> Inr ss))"

definition countStories :: "string \<Rightarrow> (story \<Rightarrow> bool) \<Rightarrow> int fop" where
  "countStories what which = db_op what (reading (\<lambda>w. Inr (int (length (filter which (w_stories w))))))"

definition inProject :: "uuid \<Rightarrow> story \<Rightarrow> bool" where
  "inProject p s \<longleftrightarrow> story_project s = p"

definition inStatus :: "uuid \<Rightarrow> string list \<Rightarrow> story \<Rightarrow> bool" where
  "inStatus p sts s \<longleftrightarrow> story_project s = p \<and> story_status s \<in> set sts"

definition inEpic :: "uuid \<Rightarrow> story \<Rightarrow> bool" where
  "inEpic e s \<longleftrightarrow> story_epic s = Some e"

text \<open>The counts of an epic's stories by status; a status outside the four is not counted.\<close>

record story_counts =
  n_backlog :: int
  n_running :: int
  n_done :: int
  n_failed :: int

definition withStatus :: "uuid \<Rightarrow> string \<Rightarrow> world \<Rightarrow> int" where
  "withStatus e st w = int (length (filter (\<lambda>s. inEpic e s \<and> story_status s = st) (w_stories w)))"

definition CountByEpicGroupedByStatus :: "uuid \<Rightarrow> story_counts fop" where
  "CountByEpicGroupedByStatus e =
     db_op ''failed to count stories by epic grouped by status''
       (reading (\<lambda>w. Inr \<lparr>n_backlog = withStatus e StoryStatusBacklog w,
          n_running = withStatus e StoryStatusRunning w, n_done = withStatus e StoryStatusDone w,
          n_failed = withStatus e StoryStatusFailed w\<rparr>))"

definition isValidStoryStatus :: "string \<Rightarrow> bool" where
  "isValidStoryStatus s \<longleftrightarrow>
     s = StoryStatusBacklog \<or> s = StoryStatusRunning \<or> s = StoryStatusDone \<or> s = StoryStatusFailed"

definition isValidStoryScope :: "string \<Rightarrow> bool" where
  "isValidStoryScope s \<longleftrightarrow> s = ''backend'' \<or> s = ''frontend'' \<or> s = ''shared''"

definition badStoryStatus :: err where
  "badStoryStatus = NewValidation [T ''status''] [T ''must be one of: backlog, running, done, failed'']"

definition badScope :: err where
  "badScope = NewValidation [T ''scope''] [T ''must be one of: backend, frontend, shared'']"

record story_params =
  np_project :: uuid
  np_epic :: "uuid option"
  np_key :: string
  np_title :: string
  np_objective :: "string option"
  np_target_files :: "string list option"
  np_depends_on :: "string list option"
  np_scope :: "string option"
  np_status :: string
  np_acceptance :: "string option"

definition manualStory :: "story_params \<Rightarrow> string \<Rightarrow> story" where
  "manualStory a st =
     \<lparr>story_id = uuid_nil, story_project = np_project a, story_epic = np_epic a, story_key = np_key a,
      story_title = np_title a, story_objective = np_objective a, story_target_files = np_target_files a,
      story_depends_on = np_depends_on a, story_scope = np_scope a, story_status = st,
      story_acceptance = np_acceptance a, story_current_stage = None, story_source = [],
      story_external_id = None, story_external_item_id = None, story_source_url = None,
      story_synced_at = None, story_import_hash = None, story_writeback_status = None,
      story_created_at = 0, story_updated_at = 0\<rparr>"

definition checkKey :: "string \<Rightarrow> unit fop" where
  "checkKey k =
     attempt (check (k \<noteq> []) (isRequired ''key'')) (\<lambda>_.
     attempt (check (length k \<le> MaxStoryKeyLength) (tooLong ''key'' MaxStoryKeyLength)) (\<lambda>_.
       check (storyKeyPattern k)
         (NewValidation [T ''key''] [T ''must match format [A-Z0-9]+-N (e.g., S-14, STORY-123)''])))"

definition StoryCreate :: "story_params \<Rightarrow> story fop" where
  "StoryCreate a =
     attempt (checkKey (np_key a)) (\<lambda>_.
     attempt (checkName ''title'' (np_title a)) (\<lambda>_.
     attempt (check (np_project a \<noteq> uuid_nil) (isRequired ''project_id'')) (\<lambda>_.
       let st = (if np_status a = [] then StoryStatusBacklog else np_status a) in
       attempt (check (isValidStoryStatus st) badStoryStatus) (\<lambda>_.
       attempt (check (case np_scope a of None \<Rightarrow> True | Some s \<Rightarrow> isValidStoryScope s) badScope) (\<lambda>_.
         CreateStory (manualStory a st))))))"

definition storyPage :: "story list fop \<Rightarrow> int fop \<Rightarrow> (story list \<times> int) fop" where
  "storyPage rows total_op = attempt rows (\<lambda>ss. attempt total_op (\<lambda>n. ok (ss, n)))"

definition StoryListByProject :: "uuid \<Rightarrow> int \<Rightarrow> int \<Rightarrow> (story list \<times> int) fop" where
  "StoryListByProject p page perPage =
     (case paginationToLimitOffset page perPage of (limit, offset) \<Rightarrow>
        storyPage (pageOfStories ''failed to list stories'' (inProject p) limit offset)
          (countStories ''failed to count stories'' (inProject p)))"

definition StoryListByStatus :: "uuid \<Rightarrow> string list \<Rightarrow> int \<Rightarrow> int \<Rightarrow> (story list \<times> int) fop" where
  "StoryListByStatus p sts page perPage =
     (case paginationToLimitOffset page perPage of (limit, offset) \<Rightarrow>
        storyPage (pageOfStories ''failed to list stories by status'' (inStatus p sts) limit offset)
          (countStories ''failed to count stories by status'' (inStatus p sts)))"

definition StoryListByEpic :: "uuid \<Rightarrow> int \<Rightarrow> int \<Rightarrow> (story list \<times> int) fop" where
  "StoryListByEpic e page perPage =
     (case paginationToLimitOffset page perPage of (limit, offset) \<Rightarrow>
        storyPage (pageOfStories ''failed to list stories by epic'' (inEpic e) limit offset)
          (attempt (CountByEpicGroupedByStatus e)
             (\<lambda>c. ok (n_backlog c + n_running c + n_done c + n_failed c))))"

record story_update =
  su_title :: "string option"
  su_objective :: "string option"
  su_target_files :: "string list option option"
  su_depends_on :: "string list option option"
  su_scope :: "string option"
  su_status :: "string option"
  su_acceptance :: "string option"
  su_epic :: "uuid option"

definition orOld :: "'a option \<Rightarrow> 'a option \<Rightarrow> 'a option" where
  "orOld new old = (case new of None \<Rightarrow> old | Some x \<Rightarrow> Some x)"

definition updatedStory :: "story_update \<Rightarrow> string \<Rightarrow> story \<Rightarrow> story" where
  "updatedStory u title s =
     s\<lparr>story_epic := orOld (su_epic u) (story_epic s), story_title := title,
       story_objective := orOld (su_objective u) (story_objective s),
       story_target_files := given (su_target_files u) (story_target_files s),
       story_depends_on := given (su_depends_on u) (story_depends_on s),
       story_scope := orOld (su_scope u) (story_scope s),
       story_status := given (su_status u) (story_status s),
       story_acceptance := orOld (su_acceptance u) (story_acceptance s)\<rparr>"

definition StoryUpdate :: "uuid \<Rightarrow> story_update \<Rightarrow> story fop" where
  "StoryUpdate i u =
     attempt (GetStoryByID i) (\<lambda>s.
     attempt (lift (newName ''title'' (su_title u) (story_title s))) (\<lambda>title.
     attempt (check (case su_scope u of None \<Rightarrow> True | Some x \<Rightarrow> x = [] \<or> isValidStoryScope x) badScope) (\<lambda>_.
     attempt (check (case su_status u of None \<Rightarrow> True | Some x \<Rightarrow> isValidStoryStatus x) badStoryStatus) (\<lambda>_.
       UpdateStoryEpic (updatedStory u title s)))))"

definition StoryDelete :: "uuid \<Rightarrow> unit fop" where
  "StoryDelete i = attempt (GetStoryByID i) (\<lambda>_. DeleteStory i)"

section \<open>Members of a project\<close>

definition validProjectRole :: "string \<Rightarrow> bool" where
  "validProjectRole r \<longleftrightarrow> r = ''owner'' \<or> r = ''member''"

definition AddUserToProject :: "uuid \<Rightarrow> uuid \<Rightarrow> string \<Rightarrow> project_member fop" where
  "AddUserToProject p i role =
     db_op ''failed to add user to project''
       (writing (\<lambda>w.
          if \<exists>m \<in> set (w_members w). pm_project m = p \<and> pm_user m = i
          then (Inl (NewConflict ''project_user'' ''user already assigned''), w)
          else if tbl_find project_id p (w_projects w) = None \<or> tbl_find usr_id i (w_users w) = None
          then (Inl (NewNotFound ''project or user'' (U p)), w)
          else
            let m = \<lparr>pm_project = p, pm_user = i, pm_role = role, pm_created_at = w_clock w\<rparr>
            in (Inr m, w\<lparr>w_members := w_members w @ [m]\<rparr>)))"

definition RemoveUserFromProject :: "uuid \<Rightarrow> uuid \<Rightarrow> unit fop" where
  "RemoveUserFromProject p i =
     db_op ''failed to remove user from project''
       (writing (\<lambda>w. (Inr (), w\<lparr>w_members :=
          without (\<lambda>m. pm_project m = p \<and> pm_user m = i) (w_members w)\<rparr>)))"

definition MemberAdd :: "uuid \<Rightarrow> uuid \<Rightarrow> string \<Rightarrow> project_member fop" where
  "MemberAdd p i role =
     attempt (check (validProjectRole role) (NewValidation [T ''role'']
        [T ''must be '', apostrophe, T ''owner'', apostrophe, T '' or '', apostrophe, T ''member'', apostrophe])) (\<lambda>_.
     attempt (GetProjectByID p) (\<lambda>_.
     attempt (GetUserByID i) (\<lambda>_. AddUserToProject p i role)))"

definition MemberRemove :: "uuid \<Rightarrow> uuid \<Rightarrow> unit fop" where
  "MemberRemove p i =
     attempt (IsUserInProject p i) (\<lambda>member.
       if member then RemoveUserFromProject p i else fail (NewNotFound ''project_user'' (U i)))"

text \<open>The members with their accounts; the query does not look whether the account is deleted.\<close>

definition ListProjectUsers :: "uuid \<Rightarrow> (project_member \<times> user) list fop" where
  "ListProjectUsers p =
     db_op ''failed to list project members''
       (reading (\<lambda>w. Inr (concat (map (\<lambda>m. case tbl_find usr_id (pm_user m) (w_users w) of
            None \<Rightarrow> [] | Some u \<Rightarrow> [(m, u)])
          (filter (\<lambda>m. pm_project m = p) (w_members w))))))"

definition MemberList :: "uuid \<Rightarrow> (project_member \<times> user) list fop" where
  "MemberList p = attempt (GetProjectByID p) (\<lambda>_. ListProjectUsers p)"

definition assignedProjects :: "uuid \<Rightarrow> world \<Rightarrow> project list" where
  "assignedProjects i w =
     filter (\<lambda>p. \<exists>m \<in> set (w_members w). pm_project m = project_id p \<and> pm_user m = i) (w_projects w)"

definition ListProjectsByUser :: "uuid \<Rightarrow> int \<Rightarrow> int \<Rightarrow> project list fop" where
  "ListProjectsByUser i limit offset =
     db_op ''failed to list projects by user''
       (reading (\<lambda>w. case paged limit offset (rev (assignedProjects i w)) of
           None \<Rightarrow> Inl (NewInternal ''failed to list projects by user'' db_failure)
         | Some ps \<Rightarrow> Inr (map toDomainProject ps)))"

definition CountProjectsByUser :: "uuid \<Rightarrow> int fop" where
  "CountProjectsByUser i =
     db_op ''failed to count projects by user'' (reading (\<lambda>w. Inr (int (length (assignedProjects i w)))))"

definition MemberProjects :: "uuid \<Rightarrow> int \<Rightarrow> int \<Rightarrow> (project list \<times> int) fop" where
  "MemberProjects i page perPage =
     (case paginationToLimitOffset page perPage of (limit, offset) \<Rightarrow>
        attempt (ListProjectsByUser i limit offset) (\<lambda>ps. attempt (CountProjectsByUser i) (\<lambda>n. ok (ps, n))))"

end
