(* ===== verification/Secrets.thy ===== *)
theory Secrets
  imports Board "HOL-Library.List_Lexorder" "HOL-Library.Char_ord"
begin

text \<open>
  Secrets at rest: \<open>pkg/crypto\<close>, the API keys of users (\<open>api_key_service.go\<close>, \<open>api_key_repo.go\<close>) and the
  named credentials (\<open>credential_service.go\<close>, \<open>credential_repo.go\<close>). AES-GCM, SHA-256 and the source of
  nonces are parameters.
\<close>

section \<open>Encryption\<close>

record cipher =
  ci_sha256 :: "string \<Rightarrow> string"
  ci_nonce :: "world \<Rightarrow> string res"
  ci_seal :: "string \<Rightarrow> string \<Rightarrow> string \<Rightarrow> string"
  ci_open :: "string \<Rightarrow> string \<Rightarrow> string \<Rightarrow> string res"

definition DeriveKey :: "cipher \<Rightarrow> string \<Rightarrow> string" where
  "DeriveKey c master = ci_sha256 c master"

definition keyError :: "string \<Rightarrow> err" where
  "keyError key = PlainErr [T ''encryption key must be exactly 32 bytes, got '', N (int (length key))]"

definition nonceSize :: nat where
  "nonceSize = 12"

text \<open>The nonce is put before the sealed text.\<close>

definition Encrypt :: "cipher \<Rightarrow> string \<Rightarrow> string \<Rightarrow> world \<Rightarrow> string res" where
  "Encrypt c plaintext key w =
     (if length key \<noteq> 32 then Inl (keyError key)
      else case ci_nonce c w of
        Inl e \<Rightarrow> Inl (WrapErr [T ''generating nonce''] e)
      | Inr nonce \<Rightarrow> Inr (nonce @ ci_seal c key nonce plaintext))"

definition Decrypt :: "cipher \<Rightarrow> string \<Rightarrow> string \<Rightarrow> string res" where
  "Decrypt c ciphertext key =
     (if length key \<noteq> 32 then Inl (keyError key)
      else if length ciphertext < nonceSize
      then Inl (PlainErr [T ''ciphertext too short: must be at least '', N (int nonceSize), T '' bytes''])
      else case ci_open c key (take nonceSize ciphertext) (drop nonceSize ciphertext) of
        Inl e \<Rightarrow> Inl (WrapErr [T ''decryption failed''] e)
      | Inr plaintext \<Rightarrow> Inr plaintext)"

text \<open>What the services hold: the cipher and the master key of the server.\<close>

record secrets =
  se_cipher :: cipher
  se_master :: string

definition encrypting :: "secrets \<Rightarrow> string \<Rightarrow> string \<Rightarrow> string fop" where
  "encrypting se what raw =
     wrap_err (NewInternal what)
       (reading (\<lambda>w. Encrypt (se_cipher se) raw (DeriveKey (se_cipher se) (se_master se)) w))"

definition decrypting :: "secrets \<Rightarrow> string \<Rightarrow> string \<Rightarrow> string fop" where
  "decrypting se what value =
     wrap_err (NewInternal what)
       (lift (Decrypt (se_cipher se) value (DeriveKey (se_cipher se) (se_master se))))"

section \<open>API keys of users\<close>

definition sameKey :: "user_api_key \<Rightarrow> user_api_key \<Rightarrow> bool" where
  "sameKey k x \<longleftrightarrow> key_user x = key_user k \<and> key_provider x = key_provider k \<and> key_name x = key_name k"

definition CreateUserAPIKey :: "user_api_key \<Rightarrow> user_api_key fop" where
  "CreateUserAPIKey k =
     db_op ''failed to create API key''
       (writing (\<lambda>w.
          if \<exists>x \<in> set (w_api_keys w). sameKey k x
          then (Inl (NewConflict ''api_key'' (key_provider k @ ''/'' @ key_name k)), w)
          else if key_user k \<notin> usr_id ` set (w_users w)
          then (Inl (NewNotFound ''user'' (U (key_user k))), w)
          else
            let r = k\<lparr>key_created_at := w_clock w, key_updated_at := w_clock w\<rparr>
            in (Inr r, w\<lparr>w_api_keys := w_api_keys w @ [r]\<rparr>)))"

definition GetUserAPIKey :: "uuid \<Rightarrow> user_api_key fop" where
  "GetUserAPIKey i = db_op ''failed to get API key'' (find_row w_api_keys key_id ''api_key'' i)"

text \<open>\<open>LIMIT 1\<close> without an order: the oldest row.\<close>

definition GetUserAPIKeyByProvider :: "uuid \<Rightarrow> string \<Rightarrow> user_api_key fop" where
  "GetUserAPIKeyByProvider u provider =
     db_op ''failed to get API key by provider''
       (reading (\<lambda>w. case find (\<lambda>k. key_user k = u \<and> key_provider k = provider) (w_api_keys w) of
           None \<Rightarrow> Inl (NewNotFound ''api_key'' (T provider)) | Some k \<Rightarrow> Inr k))"

definition ListUserAPIKeys :: "uuid \<Rightarrow> user_api_key list fop" where
  "ListUserAPIKeys u =
     db_op ''failed to list API keys''
       (reading (\<lambda>w. Inr (sort_key key_provider (sort_key key_name (filter (\<lambda>k. key_user k = u) (w_api_keys w))))))"

definition DeleteUserAPIKey :: "uuid \<Rightarrow> unit fop" where
  "DeleteUserAPIKey i =
     db_op ''failed to delete API key''
       (writing (\<lambda>w. (Inr (), w\<lparr>w_api_keys := without (\<lambda>k. key_id k = i) (w_api_keys w)\<rparr>)))"

definition generateHint :: "string \<Rightarrow> string" where
  "generateHint raw = ''...'' @ (if length raw \<le> 4 then raw else drop (length raw - 4) raw)"

definition CreateKey :: "secrets \<Rightarrow> uuid \<Rightarrow> string \<Rightarrow> string \<Rightarrow> string \<Rightarrow> user_api_key fop" where
  "CreateKey se u provider name raw =
     attempt (check (provider \<noteq> []) (isRequired ''provider'')) (\<lambda>_.
     attempt (check (name \<noteq> []) (isRequired ''key_name'')) (\<lambda>_.
     attempt (check (raw \<noteq> []) (isRequired ''api_key'')) (\<lambda>_.
     attempt (encrypting se ''failed to encrypt API key'' raw) (\<lambda>value. do {
       i \<leftarrow> uuid_new;
       CreateUserAPIKey \<lparr>key_id = i, key_user = u, key_provider = provider, key_name = name,
         key_encrypted = value, key_hint = generateHint raw, key_created_at = 0, key_updated_at = 0\<rparr> }))))"

definition DecryptKey :: "secrets \<Rightarrow> uuid \<Rightarrow> string fop" where
  "DecryptKey se i =
     attempt (GetUserAPIKey i) (\<lambda>k. decrypting se ''failed to decrypt API key'' (key_encrypted k))"

definition DecryptKeyForUserProvider :: "secrets \<Rightarrow> uuid \<Rightarrow> string \<Rightarrow> string fop" where
  "DecryptKeyForUserProvider se u provider =
     attempt (GetUserAPIKeyByProvider u provider) (\<lambda>k.
       decrypting se ''failed to decrypt API key'' (key_encrypted k))"

definition DeleteKey :: "uuid \<Rightarrow> uuid \<Rightarrow> unit fop" where
  "DeleteKey u i = do {
     r \<leftarrow> GetUserAPIKey i;
     case r of
       Inl e \<Rightarrow> if isNotFound e then ok () else fail e
     | Inr k \<Rightarrow> if key_user k \<noteq> u then ok () else DeleteUserAPIKey i }"

section \<open>Named credentials\<close>

definition ScopeGlobal :: string where "ScopeGlobal = ''global''"
definition ScopeProject :: string where "ScopeProject = ''project''"

definition sameCredential :: "credential \<Rightarrow> credential \<Rightarrow> bool" where
  "sameCredential c x \<longleftrightarrow> cred_name x = cred_name c \<and> cred_scope x = cred_scope c \<and> cred_project x = cred_project c"

text \<open>The missing project of a foreign key violation.\<close>

definition projectRef :: "uuid option \<Rightarrow> frag" where
  "projectRef p = (case p of None \<Rightarrow> T ''<nil>'' | Some i \<Rightarrow> U i)"

definition projectExists :: "uuid option \<Rightarrow> world \<Rightarrow> bool" where
  "projectExists p w \<longleftrightarrow> (case p of None \<Rightarrow> True | Some i \<Rightarrow> i \<in> project_id ` set (w_projects w))"

definition CreateCredential :: "string \<Rightarrow> string \<Rightarrow> uuid option \<Rightarrow> string \<Rightarrow> credential fop" where
  "CreateCredential name scope p value =
     db_op ''failed to create credential''
       (writing (\<lambda>w.
          let c = \<lparr>cred_id = w_next w, cred_name = name, cred_scope = scope, cred_project = p, cred_value = value,
                   cred_created_at = w_clock w, cred_updated_at = w_clock w\<rparr>
          in if \<exists>x \<in> set (w_credentials w). sameCredential c x
             then (Inl (NewConflict ''credential'' name), w)
             else if \<not> projectExists p w then (Inl (NewNotFound ''project'' (projectRef p)), w)
             else (Inr c, w\<lparr>w_credentials := w_credentials w @ [c], w_next := Suc (w_next w)\<rparr>)))"

definition GetGlobalByName :: "string \<Rightarrow> credential fop" where
  "GetGlobalByName name =
     db_op ''failed to get global credential''
       (reading (\<lambda>w. case find (\<lambda>c. cred_name c = name \<and> cred_scope c = ScopeGlobal) (w_credentials w) of
           None \<Rightarrow> Inl (NewNotFound ''credential'' (T name)) | Some c \<Rightarrow> Inr c))"

definition GetProjectByName :: "string \<Rightarrow> uuid \<Rightarrow> credential fop" where
  "GetProjectByName name p =
     db_op ''failed to get project credential''
       (reading (\<lambda>w. case find (\<lambda>c. cred_name c = name \<and> cred_scope c = ScopeProject \<and> cred_project c = Some p)
              (w_credentials w) of
           None \<Rightarrow> Inl (NewNotFound ''credential'' (T name)) | Some c \<Rightarrow> Inr c))"

definition GetCredential :: "uuid \<Rightarrow> credential fop" where
  "GetCredential i = db_op ''failed to get credential'' (find_row w_credentials cred_id ''credential'' i)"

text \<open>The global ones and those of the project, if one is given, by scope and name.\<close>

definition ListCredentialsByScope :: "uuid option \<Rightarrow> credential list fop" where
  "ListCredentialsByScope p =
     db_op ''failed to list credentials''
       (reading (\<lambda>w. Inr (sort_key cred_scope (sort_key cred_name (filter (\<lambda>c. cred_scope c = ScopeGlobal
          \<or> cred_project c = Some (case p of None \<Rightarrow> uuid_nil | Some i \<Rightarrow> i)) (w_credentials w))))))"

definition DeleteCredential :: "uuid \<Rightarrow> unit fop" where
  "DeleteCredential i =
     db_op ''failed to delete credential''
       (writing (\<lambda>w. (Inr (), w\<lparr>w_credentials := without (\<lambda>c. cred_id c = i) (w_credentials w)\<rparr>)))"

definition createCredential :: "secrets \<Rightarrow> string \<Rightarrow> string \<Rightarrow> uuid option \<Rightarrow> string \<Rightarrow> credential fop" where
  "createCredential se name scope p raw =
     attempt (check (name \<noteq> []) (isRequired ''name'')) (\<lambda>_.
     attempt (check (raw \<noteq> []) (isRequired ''value'')) (\<lambda>_.
     attempt (encrypting se ''failed to encrypt credential'' raw) (\<lambda>value.
       CreateCredential name scope p value)))"

definition CreateGlobal :: "secrets \<Rightarrow> string \<Rightarrow> string \<Rightarrow> credential fop" where
  "CreateGlobal se name raw = createCredential se name ScopeGlobal None raw"

definition CreateForProject :: "secrets \<Rightarrow> string \<Rightarrow> uuid \<Rightarrow> string \<Rightarrow> credential fop" where
  "CreateForProject se name p raw = createCredential se name ScopeProject (Some p) raw"

text \<open>The project's credential shadows the global one; any other failure than its absence is final.\<close>

definition projectCredential :: "string \<Rightarrow> uuid option \<Rightarrow> credential option fop" where
  "projectCredential name p =
     (case p of
        None \<Rightarrow> ok None
      | Some i \<Rightarrow> do {
          r \<leftarrow> GetProjectByName name i;
          case r of
            Inr c \<Rightarrow> ok (Some c)
          | Inl e \<Rightarrow> if isNotFound e then ok None else fail e })"

definition ResolveCredential :: "secrets \<Rightarrow> string \<Rightarrow> uuid option \<Rightarrow> string fop" where
  "ResolveCredential se name p =
     attempt (projectCredential name p) (\<lambda>found.
     attempt (case found of Some c \<Rightarrow> ok c | None \<Rightarrow> GetGlobalByName name) (\<lambda>c.
       decrypting se ''failed to decrypt credential'' (cred_value c)))"

end
