(* ===== verification/Capabilities.thy ===== *)
theory Capabilities
  imports Secrets AgentRun "HOL-Library.AList"
begin

text \<open>
  The capabilities composed onto an agent (\<open>model/capability.go\<close>, \<open>capability_repo.go\<close>) and the bundle its
  container fetches at its start (\<open>bundle_service.go\<close>, \<open>agent_bundle_handler.go\<close>). The JSON decoder of
  their specifications is a parameter.
\<close>

section \<open>Capabilities\<close>

definition KindSkill :: string where "KindSkill = ''skill''"
definition KindMCPServer :: string where "KindMCPServer = ''mcp_server''"
definition KindToolPolicy :: string where "KindToolPolicy = ''tool_policy''"

text \<open>An empty list of roles is for all roles; a role that is not listed, the unknown one included, does not match.\<close>

definition RoleMatches :: "string list \<Rightarrow> string \<Rightarrow> bool" where
  "RoleMatches specRoles role \<longleftrightarrow> specRoles = [] \<or> role \<in> set specRoles"

text \<open>The names taken: one version of a name per scope.\<close>

definition sameCapability :: "capability \<Rightarrow> capability \<Rightarrow> bool" where
  "sameCapability c x \<longleftrightarrow> cap_name x = cap_name c \<and> cap_version x = cap_version c
     \<and> cap_scope x = cap_scope c \<and> cap_project x = cap_project c"

definition capabilityFits :: "capability \<Rightarrow> bool" where
  "capabilityFits c \<longleftrightarrow> cap_kind c \<in> {KindSkill, KindMCPServer, KindToolPolicy}
     \<and> (cap_scope c = ScopeGlobal \<and> cap_project c = None \<or> cap_scope c = ScopeProject \<and> cap_project c \<noteq> None)"

definition CreateCapability :: "capability \<Rightarrow> capability fop" where
  "CreateCapability x =
     db_op ''failed to create capability''
       (writing (\<lambda>w.
          let c = x\<lparr>cap_id := w_next w, cap_version := int32 (if cap_version x = 0 then 1 else cap_version x),
                    cap_created_at := w_clock w\<rparr>
          in if \<not> capabilityFits c then (Inl (NewInternal ''failed to create capability'' db_failure), w)
             else if \<exists>y \<in> set (w_capabilities w). sameCapability c y
             then (Inl (NewConflict ''capability'' (cap_name x)), w)
             else if \<not> projectExists (cap_project x) w
             then (Inl (NewNotFound ''project'' (projectRef (cap_project x))), w)
             else (Inr c, w\<lparr>w_capabilities := w_capabilities w @ [c], w_next := Suc (w_next w)\<rparr>)))"

definition GetCapability :: "uuid \<Rightarrow> capability fop" where
  "GetCapability i = db_op ''failed to get capability'' (find_row w_capabilities cap_id ''capability'' i)"

text \<open>The global ones and those of the project, if one is given, by kind and name, the newest version first.\<close>

definition ListCapabilitiesByScope :: "uuid option \<Rightarrow> capability list fop" where
  "ListCapabilitiesByScope p =
     db_op ''failed to list capabilities''
       (reading (\<lambda>w. Inr (sort_key cap_kind (sort_key cap_name (sort_key (\<lambda>c. - cap_version c) (filter (\<lambda>c. cap_scope c = ScopeGlobal
          \<or> cap_project c = Some (case p of None \<Rightarrow> uuid_nil | Some i \<Rightarrow> i)) (w_capabilities w)))))))"

definition DeleteCapability :: "uuid \<Rightarrow> unit fop" where
  "DeleteCapability i =
     db_op ''failed to delete capability'' (writing (\<lambda>w. (Inr (), dropCapabilities [i] w)))"

definition AttachToAgent :: "uuid \<Rightarrow> uuid \<Rightarrow> unit fop" where
  "AttachToAgent a c =
     db_op ''failed to attach capability to agent''
       (writing (\<lambda>w.
          if (a, c) \<in> set (w_agent_caps w) then (Inr (), w)
          else if a \<notin> agent_id ` set (w_agents w) \<or> c \<notin> cap_id ` set (w_capabilities w)
          then (Inl (NewNotFound ''agent_or_capability'' (U a)), w)
          else (Inr (), w\<lparr>w_agent_caps := w_agent_caps w @ [(a, c)]\<rparr>)))"

definition DetachFromAgent :: "uuid \<Rightarrow> uuid \<Rightarrow> unit fop" where
  "DetachFromAgent a c =
     db_op ''failed to detach capability from agent''
       (writing (\<lambda>w. (Inr (), w\<lparr>w_agent_caps := without (\<lambda>x. x = (a, c)) (w_agent_caps w)\<rparr>)))"

definition agentCaps :: "uuid \<Rightarrow> world \<Rightarrow> capability list" where
  "agentCaps a w =
     sort_key cap_kind (sort_key cap_name (filter (\<lambda>c. (a, cap_id c) \<in> set (w_agent_caps w)) (w_capabilities w)))"

definition ListForAgent :: "uuid \<Rightarrow> capability list fop" where
  "ListForAgent a =
     db_op ''failed to list capabilities for agent'' (reading (\<lambda>w. Inr (agentCaps a w)))"

section \<open>The bundle of an agent\<close>

text \<open>The specifications by kind; a map of the code is an association list.\<close>

record skill_spec =
  sk_name :: string
  sk_files :: "(string \<times> string) list"

record mcp_spec =
  ms_name :: string
  ms_url :: string
  ms_headers :: "(string \<times> string) list"
  ms_command :: string
  ms_credential :: string
  ms_roles :: "string list"

record tool_policy =
  tp_allow :: "string list"
  tp_deny :: "string list"
  tp_roles :: "string list"

record mcp_entry =
  me_url :: string
  me_headers :: "(string \<times> string) list"
  me_command :: string

record runtime_bundle =
  rb_prompt :: string
  rb_skills :: "skill_spec list"
  rb_servers :: "(string \<times> mcp_entry) list"
  rb_policy :: "tool_policy option"
  rb_credentials :: "(string \<times> string) list"

definition emptyBundle :: runtime_bundle where
  "emptyBundle = \<lparr>rb_prompt = [], rb_skills = [], rb_servers = [], rb_policy = None, rb_credentials = []\<rparr>"

definition IsEmpty :: "runtime_bundle \<Rightarrow> bool" where
  "IsEmpty b \<longleftrightarrow> rb_prompt b = [] \<and> rb_skills b = [] \<and> rb_servers b = [] \<and> rb_policy b = None
     \<and> rb_credentials b = []"

text \<open>What \<open>json.Unmarshal\<close> makes of a specification, \<open>None\<close> for an error.\<close>

record spec_codec =
  sc_skill :: "string \<rightharpoonup> skill_spec"
  sc_server :: "string \<rightharpoonup> mcp_spec"
  sc_policy :: "string \<rightharpoonup> tool_policy"

definition addSkill :: "spec_codec \<Rightarrow> capability \<Rightarrow> runtime_bundle \<Rightarrow> runtime_bundle" where
  "addSkill sc c b =
     (case sc_skill sc (cap_spec c) of
        None \<Rightarrow> b
      | Some sk \<Rightarrow>
          if sk_files sk = [] then b
          else b\<lparr>rb_skills := rb_skills b @ [if sk_name sk = [] then sk\<lparr>sk_name := cap_name c\<rparr> else sk]\<rparr>)"

definition serverEntry :: "mcp_spec \<Rightarrow> mcp_entry" where
  "serverEntry ms = \<lparr>me_url = ms_url ms, me_headers = ms_headers ms, me_command = ms_command ms\<rparr>"

text \<open>The secret a server refers to goes into the bundle; without it the server is kept all the same.\<close>

definition addCredential :: "secrets \<Rightarrow> uuid option \<Rightarrow> mcp_spec \<Rightarrow> runtime_bundle \<Rightarrow> runtime_bundle op" where
  "addCredential se p ms b =
     (if ms_credential ms = [] then State_Monad.return b
      else do {
        r \<leftarrow> ResolveCredential se (ms_credential ms) p;
        State_Monad.return (case r of
          Inl e \<Rightarrow> b
        | Inr value \<Rightarrow> b\<lparr>rb_credentials := AList.update (ms_credential ms) value (rb_credentials b)\<rparr>) })"

definition addMCPServer ::
  "secrets \<Rightarrow> spec_codec \<Rightarrow> capability \<Rightarrow> uuid option \<Rightarrow> string \<Rightarrow> runtime_bundle \<Rightarrow> runtime_bundle op" where
  "addMCPServer se sc c p role b =
     (case sc_server sc (cap_spec c) of
        None \<Rightarrow> State_Monad.return b
      | Some ms \<Rightarrow>
          if \<not> RoleMatches (ms_roles ms) role then State_Monad.return b
          else do {
            b' \<leftarrow> addCredential se p ms b;
            State_Monad.return (b'\<lparr>rb_servers :=
              AList.update (if ms_name ms = [] then cap_name c else ms_name ms) (serverEntry ms) (rb_servers b')\<rparr>) })"

definition addToolPolicy :: "spec_codec \<Rightarrow> capability \<Rightarrow> string \<Rightarrow> runtime_bundle \<Rightarrow> runtime_bundle" where
  "addToolPolicy sc c role b =
     (case sc_policy sc (cap_spec c) of
        None \<Rightarrow> b
      | Some tp \<Rightarrow>
          if \<not> RoleMatches (tp_roles tp) role then b
          else
            let old = (case rb_policy b of None \<Rightarrow> \<lparr>tp_allow = [], tp_deny = [], tp_roles = []\<rparr> | Some x \<Rightarrow> x)
            in b\<lparr>rb_policy := Some (old\<lparr>tp_allow := tp_allow old @ tp_allow tp,
                                       tp_deny := tp_deny old @ tp_deny tp\<rparr>)\<rparr>)"

definition addCapability ::
  "secrets \<Rightarrow> spec_codec \<Rightarrow> uuid option \<Rightarrow> string \<Rightarrow> capability \<Rightarrow> runtime_bundle \<Rightarrow> runtime_bundle op" where
  "addCapability se sc p role c b =
     (if cap_kind c = KindSkill then State_Monad.return (addSkill sc c b)
      else if cap_kind c = KindMCPServer then addMCPServer se sc c p role b
      else if cap_kind c = KindToolPolicy then State_Monad.return (addToolPolicy sc c role b)
      else State_Monad.return b)"

fun addCapabilities ::
  "secrets \<Rightarrow> spec_codec \<Rightarrow> uuid option \<Rightarrow> string \<Rightarrow> capability list \<Rightarrow> runtime_bundle \<Rightarrow> runtime_bundle op" where
  "addCapabilities se sc p role [] b = State_Monad.return b"
| "addCapabilities se sc p role (c # cs) b = do {
     b' \<leftarrow> addCapability se sc p role c b;
     addCapabilities se sc p role cs b' }"

definition ComposeBundle :: "secrets \<Rightarrow> spec_codec \<Rightarrow> uuid \<Rightarrow> string \<Rightarrow> runtime_bundle fop" where
  "ComposeBundle se sc a role =
     (if a = uuid_nil then ok emptyBundle
      else do {
        found \<leftarrow> GetAgent a;
        let p = (case found of Inl e \<Rightarrow> None | Inr x \<Rightarrow> agent_project x);
        attempt (ListForAgent a) (\<lambda>cs. do {
          b \<leftarrow> addCapabilities se sc p role cs emptyBundle;
          ok b }) })"

text \<open>The endpoint behind \<open>InternalAuth\<close>: agent and role are those of the token, an error gives the empty bundle.\<close>

definition HandleBundle :: "secrets \<Rightarrow> spec_codec \<Rightarrow> container_token \<Rightarrow> runtime_bundle op" where
  "HandleBundle se sc ct = do {
     r \<leftarrow> ComposeBundle se sc (tok_agent ct) (tok_role ct);
     State_Monad.return (case r of Inl e \<Rightarrow> emptyBundle | Inr b \<Rightarrow> b) }"

end
