(* ===== verification/Catalogue.thy ===== *)
theory Catalogue
  imports Secrets AgentRun
begin

text \<open>
  The catalogues of a project with their services and repositories: agents (\<open>agent_service.go\<close>),
  stacks (\<open>stack_service.go\<close>, \<open>stack_seeder.go\<close>), environments (\<open>environment_service.go\<close>) and
  notifications (\<open>notification_config_service.go\<close>, \<open>notification_dispatcher.go\<close>). The notifiers are a
  parameter.
\<close>

section \<open>Agents\<close>

definition ProviderClaude :: string where "ProviderClaude = ''claude''"
definition ProviderOpenCode :: string where "ProviderOpenCode = ''opencode''"

definition validProvider :: "string \<Rightarrow> bool" where
  "validProvider p \<longleftrightarrow> p = ProviderClaude \<or> p = ProviderOpenCode"

definition badProvider :: err where
  "badProvider = NewValidation [T ''provider''] [T ''must be '', apostrophe, T ''claude'', apostrophe, T '' or '',
     apostrophe, T ''opencode'', apostrophe]"

definition badAgentScope :: err where
  "badAgentScope = NewValidation [T ''scope''] [T ''must be '', apostrophe, T ''global'', apostrophe, T '' or '',
     apostrophe, T ''project'', apostrophe]"

text \<open>Two agents of one project cannot share a name; those of no project can.\<close>

definition agentNameTaken :: "uuid \<Rightarrow> uuid option \<Rightarrow> string \<Rightarrow> world \<Rightarrow> bool" where
  "agentNameTaken i p name w \<longleftrightarrow>
     p \<noteq> None \<and> (\<exists>a \<in> set (w_agents w). agent_id a \<noteq> i \<and> agent_project a = p \<and> agent_name a = name)"

definition agentRefsExist :: "uuid option \<Rightarrow> uuid option \<Rightarrow> world \<Rightarrow> bool" where
  "agentRefsExist p st w \<longleftrightarrow> projectExists p w
     \<and> (case st of None \<Rightarrow> True | Some s \<Rightarrow> s \<in> stack_id ` set (w_stacks w))"

definition validKind :: "string \<Rightarrow> bool" where
  "validKind k \<longleftrightarrow> k \<in> {''claude_code'', ''opencode'', ''cma''}"

text \<open>The defaults of the repository.\<close>

definition agentRow :: "agent \<Rightarrow> agent" where
  "agentRow a =
     (let provider = (if agent_provider a = [] then ProviderClaude else agent_provider a)
      in a\<lparr>agent_type := (if agent_type a = [] then ''custom'' else agent_type a), agent_provider := provider,
           agent_runtime_kind := (if agent_runtime_kind a = [] then RuntimeKindFromProvider provider
                                  else agent_runtime_kind a)\<rparr>)"

definition InsertAgent :: "agent \<Rightarrow> agent fop" where
  "InsertAgent a =
     db_op ''failed to create agent''
       (writing (\<lambda>w.
          let r = agentRow a
          in if \<not> validKind (agent_runtime_kind r) then (Inl (NewInternal ''failed to create agent'' db_failure), w)
             else if agentNameTaken (agent_id a) (agent_project a) (agent_name a) w
             then (Inl (NewConflict ''agent'' (agent_name a)), w)
             else if \<not> agentRefsExist (agent_project a) (agent_stack_ref a) w
             then (Inl (NewInternal ''failed to create agent'' db_failure), w)
             else (Inr (toDomainAgent r), w\<lparr>w_agents := w_agents w @ [r]\<rparr>)))"

definition CreateAgent :: "agent \<Rightarrow> agent fop" where
  "CreateAgent a =
     (if agent_id a = uuid_nil then do { i \<leftarrow> uuid_new; InsertAgent (a\<lparr>agent_id := i\<rparr>) } else InsertAgent a)"

text \<open>The columns of the update: type, scope and project stay.\<close>

definition set_agent :: "agent \<Rightarrow> agent \<Rightarrow> agent" where
  "set_agent a x =
     x\<lparr>agent_name := agent_name a, agent_model := agent_model a, agent_image := agent_image a,
       agent_stack_ref := agent_stack_ref a, agent_runtime_kind := agent_runtime_kind (agentRow a),
       agent_template := agent_template a, agent_provider := agent_provider (agentRow a)\<rparr>"

definition UpdateAgent :: "agent \<Rightarrow> agent fop" where
  "UpdateAgent a =
     db_op ''failed to update agent''
       (writing (\<lambda>w. case tbl_find agent_id (agent_id a) (w_agents w) of
           None \<Rightarrow> (Inl (NewNotFound ''agent'' (U (agent_id a))), w)
         | Some x \<Rightarrow>
             if \<not> validKind (agent_runtime_kind (agentRow a))
             then (Inl (NewInternal ''failed to update agent'' db_failure), w)
             else if agentNameTaken (agent_id a) (agent_project x) (agent_name a) w
             then (Inl (NewConflict ''agent'' (agent_name a)), w)
             else if \<not> agentRefsExist None (agent_stack_ref a) w
             then (Inl (NewInternal ''failed to update agent'' db_failure), w)
             else (Inr (toDomainAgent (set_agent a x)),
                   w\<lparr>w_agents := tbl_update agent_id (agent_id a) (set_agent a) (w_agents w)\<rparr>)))"

definition DeleteAgent :: "uuid \<Rightarrow> unit fop" where
  "DeleteAgent i = db_op ''failed to delete agent'' (writing (\<lambda>w. (Inr (), dropAgents [i] w)))"

text \<open>\<open>ORDER BY scope DESC, name ASC\<close>; a stable sort, downwards by sorting the reverse.\<close>

definition sortDown :: "('a \<Rightarrow> 'k::linorder) \<Rightarrow> 'a list \<Rightarrow> 'a list" where
  "sortDown f xs = rev (sort_key f (rev xs))"

definition listAgents :: "string \<Rightarrow> (agent \<Rightarrow> bool) \<Rightarrow> agent list fop" where
  "listAgents what which =
     db_op what (reading (\<lambda>w. Inr (map toDomainAgent (sort_key agent_name (filter which (w_agents w))))))"

definition ListAgentsByProjectMerged :: "uuid \<Rightarrow> agent list fop" where
  "ListAgentsByProjectMerged p =
     db_op ''failed to list merged agents''
       (reading (\<lambda>w. Inr (map toDomainAgent (sortDown agent_scope (sort_key agent_name
          (filter (\<lambda>a. agent_project a = Some p \<or> agent_scope a = ScopeGlobal) (w_agents w)))))))"

definition withTotal :: "'a list fop \<Rightarrow> ('a list \<times> nat) fop" where
  "withTotal m = attempt m (\<lambda>xs. ok (xs, length xs))"

definition AgentListByProject :: "uuid \<Rightarrow> (agent list \<times> nat) fop" where
  "AgentListByProject p =
     withTotal (listAgents ''failed to list agents by project'' (\<lambda>a. agent_project a = Some p))"

definition AgentListGlobal :: "(agent list \<times> nat) fop" where
  "AgentListGlobal = withTotal (listAgents ''failed to list global agents'' (\<lambda>a. agent_scope a = ScopeGlobal))"

definition AgentListMerged :: "uuid \<Rightarrow> (agent list \<times> nat) fop" where
  "AgentListMerged p = withTotal (ListAgentsByProjectMerged p)"

record agent_params =
  ap_project :: "uuid option"
  ap_name :: string
  ap_model :: string
  ap_image :: string
  ap_stack :: "uuid option"
  ap_template :: string
  ap_scope :: string
  ap_provider :: string

definition newAgent :: "agent_params \<Rightarrow> string \<Rightarrow> string \<Rightarrow> uuid \<Rightarrow> agent" where
  "newAgent p scope provider i =
     \<lparr>agent_id = i, agent_model = ap_model p, agent_image = ap_image p, agent_stack_ref = ap_stack p,
      agent_runtime_kind = [], agent_template = ap_template p, agent_provider = provider, agent_name = ap_name p,
      agent_type = [], agent_project = ap_project p, agent_scope = scope\<rparr>"

definition AgentCreate :: "agent_params \<Rightarrow> agent fop" where
  "AgentCreate p =
     attempt (checkName ''name'' (ap_name p)) (\<lambda>_.
     attempt (check (ap_template p \<noteq> []) (isRequired ''template_content'')) (\<lambda>_.
       let scope = (if ap_scope p = [] then ScopeProject else ap_scope p);
           provider = (if ap_provider p = [] then ProviderClaude else ap_provider p)
       in attempt (check (scope = ScopeGlobal \<or> scope = ScopeProject) badAgentScope) (\<lambda>_.
          attempt (check (\<not> (scope = ScopeProject \<and> (ap_project p = None \<or> ap_project p = Some uuid_nil)))
            (NewValidation [T ''project_id''] [T ''is required for project-scoped agents''])) (\<lambda>_.
          attempt (check (validProvider provider) badProvider) (\<lambda>_. do {
            i \<leftarrow> uuid_new;
            CreateAgent (newAgent p scope provider i) })))))"

record agent_update =
  au_name :: "string option"
  au_model :: "string option"
  au_image :: "string option"
  au_stack :: "uuid option"
  au_template :: "string option"
  au_provider :: "string option"

definition checkGiven :: "string option \<Rightarrow> (string \<Rightarrow> bool) \<Rightarrow> err \<Rightarrow> unit fop" where
  "checkGiven x good e = check (case x of None \<Rightarrow> True | Some v \<Rightarrow> good v) e"

text \<open>The stored agent with the fields that are given; its runtime stays what it is.\<close>

definition updatedAgent :: "agent_update \<Rightarrow> agent \<Rightarrow> agent" where
  "updatedAgent u a =
     a\<lparr>agent_name := given (au_name u) (agent_name a), agent_model := given (au_model u) (agent_model a),
       agent_image := given (au_image u) (agent_image a),
       agent_stack_ref := (case au_stack u of None \<Rightarrow> agent_stack_ref a | Some s \<Rightarrow> Some s),
       agent_template := given (au_template u) (agent_template a),
       agent_provider := given (au_provider u) (agent_provider a)\<rparr>"

definition AgentUpdate :: "uuid \<Rightarrow> agent_update \<Rightarrow> agent fop" where
  "AgentUpdate i u =
     attempt (GetAgent i) (\<lambda>existing.
     attempt (checkGiven (au_name u) (\<lambda>n. n \<noteq> []) (notEmpty ''name'')) (\<lambda>_.
     attempt (checkGiven (au_name u) (\<lambda>n. length n \<le> MaxNameLength) (tooLong ''name'' MaxNameLength)) (\<lambda>_.
     attempt (checkGiven (au_template u) (\<lambda>t. t \<noteq> []) (notEmpty ''template_content'')) (\<lambda>_.
     attempt (checkGiven (au_provider u) validProvider badProvider) (\<lambda>_.
       UpdateAgent (updatedAgent u existing))))))"

definition AgentDelete :: "uuid \<Rightarrow> unit fop" where
  "AgentDelete i = attempt (GetAgent i) (\<lambda>_. DeleteAgent i)"

section \<open>Stacks\<close>

definition StackKeys :: "string list" where
  "StackKeys = [''go'', ''node'', ''python'', ''go-node'']"

definition ListStacks :: "stack list fop" where
  "ListStacks = db_op ''failed to list stacks'' (reading (\<lambda>w. Inr (sort_key stack_key (w_stacks w))))"

definition StackList :: "(stack list \<times> nat) fop" where
  "StackList = withTotal ListStacks"

text \<open>\<open>ON CONFLICT (key) DO UPDATE\<close>; the key is checked.\<close>

definition UpsertStack :: "string \<Rightarrow> string \<Rightarrow> stack fop" where
  "UpsertStack key ref =
     db_op ''failed to upsert stack''
       (writing (\<lambda>w.
          if key \<notin> set StackKeys then (Inl (NewInternal ''failed to upsert stack'' db_failure), w)
          else case find (\<lambda>s. stack_key s = key) (w_stacks w) of
            Some s \<Rightarrow> (Inr (s\<lparr>stack_image_ref := ref\<rparr>),
              w\<lparr>w_stacks := map (\<lambda>x. if stack_key x = key then x\<lparr>stack_image_ref := ref\<rparr> else x) (w_stacks w)\<rparr>)
          | None \<Rightarrow>
              let s = \<lparr>stack_id = w_next w, stack_key = key, stack_image_ref = ref\<rparr>
              in (Inr s, w\<lparr>w_stacks := w_stacks w @ [s], w_next := Suc (w_next w)\<rparr>)))"

fun SeedStacks :: "(string \<times> string) list \<Rightarrow> unit fop" where
  "SeedStacks [] = ok ()"
| "SeedStacks ((key, ref) # rest) = attempt (UpsertStack key ref) (\<lambda>_. SeedStacks rest)"

section \<open>Environments\<close>

definition validSources :: "string list" where
  "validSources = [''devcontainer'', ''compose'', ''makefile'', ''declared'']"

record env_input =
  ei_stacks :: "string list"
  ei_services :: "env_service list"
  ei_source :: string
  ei_commands :: "(string \<times> string) list"

definition badSource :: err where
  "badSource = NewValidation [T ''source''] [T ''must be one of: devcontainer, compose, makefile, declared'']"

definition badStack :: "string \<Rightarrow> err" where
  "badStack key = NewValidation [T ''stacks'']
     [T ''unknown stack key: '', T key, T ''; must be one of: go, node, python, go-node'']"

definition validateEnvironmentInput :: "env_input \<Rightarrow> err option" where
  "validateEnvironmentInput x =
     (if ei_source x \<notin> set validSources then Some badSource
      else map_option badStack (find (\<lambda>k. k \<notin> set StackKeys) (ei_stacks x)))"

definition set_environment :: "env_input \<Rightarrow> world \<Rightarrow> environment \<Rightarrow> environment" where
  "set_environment x w e =
     e\<lparr>env_stacks := ei_stacks x, env_services := ei_services x, env_source := ei_source x,
       env_commands := ei_commands x, env_updated_at := w_clock w\<rparr>"

definition environmentTaken :: "uuid \<Rightarrow> err" where
  "environmentTaken p = DomainError CategoryConflict ''ENVIRONMENT_ALREADY_EXISTS''
     [T ''environment'', T '' '', apostrophe, U p, apostrophe, T '' already exists''] None"

definition newEnvironment :: "uuid \<Rightarrow> env_input \<Rightarrow> world \<Rightarrow> environment" where
  "newEnvironment p x w =
     \<lparr>env_id = w_next w, env_project = p, env_stacks = ei_stacks x, env_services = ei_services x,
      env_source = ei_source x, env_commands = ei_commands x, env_created_at = w_clock w, env_updated_at = w_clock w\<rparr>"

definition CreateEnvironment :: "uuid \<Rightarrow> env_input \<Rightarrow> environment fop" where
  "CreateEnvironment p x =
     db_op ''failed to create environment''
       (writing (\<lambda>w.
          if p \<in> env_project ` set (w_environments w) then (Inl (environmentTaken p), w)
          else if p \<notin> project_id ` set (w_projects w) then (Inl (NewNotFound ''project'' (U p)), w)
          else (Inr (newEnvironment p x w),
                w\<lparr>w_environments := w_environments w @ [newEnvironment p x w], w_next := Suc (w_next w)\<rparr>)))"

definition UpdateEnvironment :: "uuid \<Rightarrow> env_input \<Rightarrow> environment fop" where
  "UpdateEnvironment i x =
     db_op ''failed to update environment''
       (update_row w_environments (\<lambda>es w. w\<lparr>w_environments := es\<rparr>) env_id ''environment'' i (set_environment x))"

definition DeleteEnvironment :: "uuid \<Rightarrow> unit fop" where
  "DeleteEnvironment i =
     db_op ''failed to delete environment''
       (writing (\<lambda>w. (Inr (), w\<lparr>w_environments := without (\<lambda>e. env_id e = i) (w_environments w)\<rparr>)))"

definition EnvUpsert :: "uuid \<Rightarrow> env_input \<Rightarrow> environment fop" where
  "EnvUpsert p x0 =
     (let x = (if ei_source x0 = [] then x0\<lparr>ei_source := ''declared''\<rparr> else x0) in
      case validateEnvironmentInput x of
        Some e \<Rightarrow> fail e
      | None \<Rightarrow> do {
          r \<leftarrow> GetEnvironment p;
          case r of
            Inl e \<Rightarrow> if isNotFound e then CreateEnvironment p x else fail e
          | Inr existing \<Rightarrow> UpdateEnvironment (env_id existing) x })"

definition EnvDelete :: "uuid \<Rightarrow> unit fop" where
  "EnvDelete p = attempt (GetEnvironment p) (\<lambda>e. DeleteEnvironment (env_id e))"

section \<open>Notifications\<close>

definition ChannelTypes :: "string list" where
  "ChannelTypes = [''discord'', ''webhook'']"

record notify_input =
  ni_channel :: string
  ni_config :: "string \<rightharpoonup> string"
  ni_events :: "string list"
  ni_enabled :: bool

definition newNotification :: "uuid \<Rightarrow> notify_input \<Rightarrow> world \<Rightarrow> notification_config" where
  "newNotification p x w =
     \<lparr>nc_id = w_next w, nc_project = p, nc_channel = ni_channel x, nc_config = ni_config x, nc_events = ni_events x,
      nc_enabled = ni_enabled x, nc_created_at = w_clock w, nc_updated_at = w_clock w\<rparr>"

definition NotifyCreate :: "uuid \<Rightarrow> notify_input \<Rightarrow> notification_config fop" where
  "NotifyCreate p x =
     db_op ''failed to insert notification config''
       (writing (\<lambda>w.
          if ni_channel x \<notin> set ChannelTypes \<or> p \<notin> project_id ` set (w_projects w)
          then (Inl (NewInternal ''failed to insert notification config'' db_failure), w)
          else (Inr (newNotification p x w),
                w\<lparr>w_notify := w_notify w @ [newNotification p x w], w_next := Suc (w_next w)\<rparr>)))"

definition NotifyGet :: "uuid \<Rightarrow> notification_config fop" where
  "NotifyGet i = db_op ''failed to get notification config'' (find_row w_notify nc_id ''notification_config'' i)"

text \<open>The newest first.\<close>

definition NotifyListByProject :: "uuid \<Rightarrow> notification_config list fop" where
  "NotifyListByProject p =
     db_op ''failed to list notification configs'' (reading (\<lambda>w. Inr (rev (filter (\<lambda>c. nc_project c = p) (w_notify w)))))"

definition enabledConfigs :: "uuid \<Rightarrow> world \<Rightarrow> notification_config list" where
  "enabledConfigs p w = rev (filter (\<lambda>c. nc_project c = p \<and> nc_enabled c) (w_notify w))"

definition ListEnabledByProject :: "uuid \<Rightarrow> notification_config list fop" where
  "ListEnabledByProject p =
     db_op ''failed to list enabled notification configs'' (reading (\<lambda>w. Inr (enabledConfigs p w)))"

definition set_notification :: "notify_input \<Rightarrow> world \<Rightarrow> notification_config \<Rightarrow> notification_config" where
  "set_notification x w c =
     c\<lparr>nc_channel := ni_channel x, nc_config := ni_config x, nc_events := ni_events x, nc_enabled := ni_enabled x,
       nc_updated_at := w_clock w\<rparr>"

definition NotifyUpdate :: "uuid \<Rightarrow> notify_input \<Rightarrow> notification_config fop" where
  "NotifyUpdate i x =
     db_op ''failed to update notification config''
       (writing (\<lambda>w. case tbl_find nc_id i (w_notify w) of
           None \<Rightarrow> (Inl (NewNotFound ''notification_config'' (U i)), w)
         | Some c \<Rightarrow>
             if ni_channel x \<notin> set ChannelTypes
             then (Inl (NewInternal ''failed to update notification config'' db_failure), w)
             else (Inr (set_notification x w c),
                   w\<lparr>w_notify := tbl_update nc_id i (set_notification x w) (w_notify w)\<rparr>)))"

definition NotifyDelete :: "uuid \<Rightarrow> unit fop" where
  "NotifyDelete i =
     db_op ''failed to delete notification config''
       (writing (\<lambda>w. (Inr (), w\<lparr>w_notify := without (\<lambda>c. nc_id c = i) (w_notify w)\<rparr>)))"

text \<open>The notifiers by channel, \<open>None\<close> where there is none; what one answers is its error.\<close>

type_synonym notifiers = "string \<rightharpoonup> (event \<Rightarrow> (string \<rightharpoonup> string) \<Rightarrow> world \<Rightarrow> err option)"

definition sendTo ::
  "(event \<Rightarrow> (string \<rightharpoonup> string) \<Rightarrow> world \<Rightarrow> err option) \<Rightarrow> string \<Rightarrow> event \<Rightarrow> (string \<rightharpoonup> string) \<Rightarrow> unit fop" where
  "sendTo send channel ev cfg =
     outside (\<lambda>w. case send ev cfg w of None \<Rightarrow> Inr () | Some e \<Rightarrow> Inl e) (\<lambda>_. CallNotify channel cfg ev)"

definition unsupportedChannel :: "string \<Rightarrow> err" where
  "unsupportedChannel channel =
     NewValidation [T ''channel_type''] [T ''unsupported notification channel type: '', T channel]"

definition NotifyTest :: "notifiers \<Rightarrow> uuid \<Rightarrow> unit fop" where
  "NotifyTest ns i =
     attempt (NotifyGet i) (\<lambda>c.
       case ns (nc_channel c) of
         None \<Rightarrow> fail (unsupportedChannel (nc_channel c))
       | Some send \<Rightarrow> do {
           now \<leftarrow> time_now;
           sendTo send (nc_channel c)
             \<lparr>ev_project = nc_project c, ev_entity_type = ''notification'', ev_entity = i, ev_action = ''test'',
              ev_payload = [(''message'', JStr ''This is a test notification from hopeitworks'')], ev_created_at = now\<rparr>
             (nc_config c) })"

text \<open>One event: every enabled configuration of its project whose filter names it; failures are only logged.\<close>

fun notifyAll :: "notifiers \<Rightarrow> event \<Rightarrow> notification_config list \<Rightarrow> unit op" where
  "notifyAll ns ev [] = State_Monad.return ()"
| "notifyAll ns ev (c # cs) =
     (if EventName ev \<notin> set (nc_events c) then notifyAll ns ev cs
      else case ns (nc_channel c) of
        None \<Rightarrow> notifyAll ns ev cs
      | Some send \<Rightarrow> do {
          _ \<leftarrow> sendTo send (nc_channel c) ev (nc_config c);
          notifyAll ns ev cs })"

definition dispatch :: "notifiers \<Rightarrow> event \<Rightarrow> unit op" where
  "dispatch ns ev = do {
     r \<leftarrow> ListEnabledByProject (ev_project ev);
     case r of Inl e \<Rightarrow> State_Monad.return () | Inr cs \<Rightarrow> notifyAll ns ev cs }"

end
