(* ===== verification/WriteBack.thy ===== *)
theory WriteBack
  imports Accounts PlanningImport
begin

text \<open>
  The outbound side of planning: \<open>planning_writeback_service.go\<close> with its worker
  (\<open>river/write_back_job.go\<close>), \<open>planning_connector_service.go\<close>, the connector's model
  (\<open>model/planning_connector.go\<close>) and repository. The tracker behind the sink and the resolver of
  git credentials are parameters; an error of the sink is its text. When a job is retried is the
  queue's affair.
\<close>

section \<open>The connector\<close>

definition optionPointer :: "status_mapping \<Rightarrow> string \<Rightarrow> string option" where
  "optionPointer m st =
     (if st = StoryStatusBacklog then map_backlog m
      else if st = StoryStatusRunning then map_running m
      else if st = StoryStatusDone then map_done m
      else if st = StoryStatusFailed then map_failed m else None)"

definition OptionFor :: "status_mapping \<Rightarrow> string \<Rightarrow> string" where
  "OptionFor m st = derefString (optionPointer m st)"

definition HasAnyTarget :: "status_mapping \<Rightarrow> bool" where
  "HasAnyTarget m \<longleftrightarrow>
     list_ex (\<lambda>p. p \<noteq> None \<and> derefString p \<noteq> []) [map_backlog m, map_running m, map_done m, map_failed m]"

definition GetConnector :: "uuid \<Rightarrow> planning_connector fop" where
  "GetConnector p =
     db_op ''failed to get planning connector'' (find_row w_connectors conn_project ''planning_connector'' p)"

definition UpsertConnector :: "planning_connector \<Rightarrow> planning_connector fop" where
  "UpsertConnector c =
     db_op ''failed to upsert planning connector''
       (writing (\<lambda>w.
          if tbl_find conn_project (conn_project c) (w_connectors w) \<noteq> None
          then (Inr c, w\<lparr>w_connectors := tbl_update conn_project (conn_project c) (\<lambda>_. c) (w_connectors w)\<rparr>)
          else if tbl_find project_id (conn_project c) (w_projects w) = None
          then (Inl (NewNotFound ''project'' (U (conn_project c))), w)
          else (Inr c, w\<lparr>w_connectors := w_connectors w @ [c]\<rparr>)))"

definition CreateWriteBack :: "write_back \<Rightarrow> write_back fop" where
  "CreateWriteBack b =
     db_op ''failed to create planning write-back audit row''
       (writing (\<lambda>w. (Inr b, w\<lparr>w_writebacks := w_writebacks w @ [b]\<rparr>)))"

definition ListWriteBacksByStory :: "uuid \<Rightarrow> int \<Rightarrow> write_back list fop" where
  "ListWriteBacksByStory s limit =
     db_op ''failed to list planning write-backs''
       (reading (\<lambda>w. case paged limit 0 (rev (filter (\<lambda>b. wb_story b = s) (w_writebacks w))) of
           None \<Rightarrow> Inl (NewInternal ''failed to list planning write-backs'' db_failure) | Some bs \<Rightarrow> Inr bs))"

section \<open>The tracker\<close>

record tracker_request =
  tr_url :: string
  tr_item :: string
  tr_node :: string
  tr_field :: string
  tr_option :: string
  tr_comment :: msg

type_synonym tracker_options = "string \<times> string \<times> (string \<times> string) list"

record tracker =
  t_sink :: "uuid \<Rightarrow> world \<Rightarrow> string option"
  t_push :: "tracker_request \<Rightarrow> world \<Rightarrow> string + string"
  t_options :: "string \<Rightarrow> string \<Rightarrow> world \<Rightarrow> string + tracker_options"
  t_token :: "uuid \<Rightarrow> world \<Rightarrow> string res"
  t_base_url :: string

definition hasHTTPStatus :: "string \<Rightarrow> string \<Rightarrow> bool" where
  "hasHTTPStatus m code \<longleftrightarrow>
     list_ex (\<lambda>s. containsText s m)
       ['' '' @ code @ '' '', '' '' @ code, '':'' @ code, ''status '' @ code, ''status:'' @ code, ''code '' @ code]
     \<or> (drop (length m - length ('' '' @ code)) m = '' '' @ code)"

definition classifyWriteBackError :: "string \<Rightarrow> string" where
  "classifyWriteBackError text =
     (let m = ToLower text in
      if hasHTTPStatus m ''401'' \<or> containsText ''bad credentials'' m \<or> containsText ''unauthorized'' m
      then ''UNAUTHORIZED''
      else if hasHTTPStatus m ''403'' \<or> containsText ''forbidden'' m then ''FORBIDDEN''
      else if hasHTTPStatus m ''429'' \<or> containsText ''rate limit'' m then ''RATE_LIMITED''
      else if hasHTTPStatus m ''500'' \<or> hasHTTPStatus m ''502'' \<or> hasHTTPStatus m ''503'' \<or> hasHTTPStatus m ''504''
      then ''SERVER_ERROR''
      else ''WRITE_BACK_ERROR'')"

definition isTransientWriteBackCode :: "string \<Rightarrow> bool" where
  "isTransientWriteBackCode code \<longleftrightarrow> code = ''RATE_LIMITED'' \<or> code = ''SERVER_ERROR''"

text \<open>
  \<open>classifyOperationError\<close> of \<open>git_connection_service.go\<close>, which decides from the error of a git or
  planning operation what becomes of the connection's status; \<open>None\<close> leaves it as it is.
\<close>

definition transientText :: "string \<Rightarrow> bool" where
  "transientText m \<longleftrightarrow>
     hasHTTPStatus m ''429'' \<or> containsText ''rate limit'' m
     \<or> hasHTTPStatus m ''500'' \<or> hasHTTPStatus m ''502'' \<or> hasHTTPStatus m ''503'' \<or> hasHTTPStatus m ''504''"

definition classifyOperationError :: "string \<Rightarrow> (string \<times> string) option" where
  "classifyOperationError text =
     (let m = ToLower text in
      if transientText m then None
      else if hasHTTPStatus m ''401'' \<or> containsText ''bad credentials'' m
        \<or> containsText ''requires authentication'' m \<or> containsText ''unauthorized'' m
      then Some (''invalid'', ''unauthorized'')
      else if hasHTTPStatus m ''403'' \<or> containsText ''forbidden'' m
      then Some (''insufficient_scope'', ''insufficient_scope'')
      else None)"

section \<open>A status push\<close>

definition WritebackDisabled :: string where "WritebackDisabled = ''disabled''"
definition WritebackSynced :: string where "WritebackSynced = ''synced''"
definition WritebackFailed :: string where "WritebackFailed = ''failed''"

lemmas writeback_consts = WritebackDisabled_def WritebackPending_def WritebackSynced_def WritebackFailed_def

definition bestEffort :: "'a fop \<Rightarrow> unit op" where
  "bestEffort m = do { _ \<leftarrow> m; skip }"

definition markDisabled :: "uuid \<Rightarrow> unit op" where
  "markDisabled i = bestEffort (SetWritebackStatus i WritebackDisabled)"

definition auditRow ::
  "story \<Rightarrow> uuid option \<Rightarrow> string \<Rightarrow> string option \<Rightarrow> bool \<Rightarrow> string option \<Rightarrow> string option \<Rightarrow> write_back" where
  "auditRow s run st remote success code text =
     \<lparr>wb_project = story_project s, wb_story = story_id s, wb_run = run, wb_source = Some (story_source s),
      wb_external_id = story_external_item_id s, wb_internal_status = Some st, wb_remote_status = remote,
      wb_success = success, wb_error_code = code,
      wb_error_message = map_option (\<lambda>t. [T (take 1000 t)]) text\<rparr>"

definition recordPushed :: "story \<Rightarrow> uuid option \<Rightarrow> string \<Rightarrow> string \<Rightarrow> unit op" where
  "recordPushed s run st remote = do {
     _ \<leftarrow> bestEffort (SetWritebackStatus (story_id s) WritebackSynced);
     bestEffort (CreateWriteBack (auditRow s run st (Some remote) True None None)) }"

definition recordPushFailure :: "story \<Rightarrow> uuid option \<Rightarrow> string \<Rightarrow> string \<Rightarrow> string \<Rightarrow> unit op" where
  "recordPushFailure s run st code text = do {
     _ \<leftarrow> bestEffort (SetWritebackStatus (story_id s) WritebackFailed);
     bestEffort (CreateWriteBack (auditRow s run st None False (Some code) (Some text))) }"

definition buildComment :: "tracker \<Rightarrow> story \<Rightarrow> uuid option \<Rightarrow> string \<Rightarrow> msg" where
  "buildComment tk s run st =
     [T ''hopeitworks: story **'', T (story_key s), T ''** moved to **'', T st] @
     (case run of
        None \<Rightarrow> [T ''**.'']
      | Some i \<Rightarrow>
          if t_base_url tk \<noteq> []
          then [T ''** by run ['', U i, T ''](''] @ [T (t_base_url tk), T ''/projects/'', U (story_project s),
                T ''/runs/'', U i] @ [T '').'']
          else [T ''** by run '', U i, T ''.''])"

definition pushRequest :: "tracker \<Rightarrow> planning_connector \<Rightarrow> story \<Rightarrow> uuid option \<Rightarrow> string \<Rightarrow> tracker_request" where
  "pushRequest tk c s run st =
     \<lparr>tr_url = derefString (conn_project_url c), tr_item = derefString (story_external_item_id s),
      tr_node = derefString (story_external_id s), tr_field = conn_status_field c,
      tr_option = OptionFor (conn_mapping c) st,
      tr_comment = (if conn_post_comment c then buildComment tk s run st else [])\<rparr>"

text \<open>The push to the tracker: a success changes the item there.\<close>

definition WriteBack :: "tracker \<Rightarrow> tracker_request \<Rightarrow> (string + string) op" where
  "WriteBack tk rq = writing (\<lambda>w. case t_push tk rq w of
       Inl e \<Rightarrow> (Inl e, w)
     | Inr remote \<Rightarrow> (Inr remote,
         w\<lparr>w_calls := w_calls w @ [CallTracker (tr_url rq) (tr_item rq) (tr_option rq)]\<rparr>))"

definition missingTarget :: string where
  "missingTarget = ''missing tracker item id or board URL (re-import the board to capture item ids)''"

definition pushStatus :: "tracker \<Rightarrow> planning_connector \<Rightarrow> story \<Rightarrow> uuid option \<Rightarrow> string \<Rightarrow> unit fop" where
  "pushStatus tk c s run st = do {
     no_sink \<leftarrow> reading (t_sink tk (story_project s));
     case no_sink of
       Some e \<Rightarrow> do { _ \<leftarrow> recordPushFailure s run st (classifyWriteBackError e) e; ok () }
     | None \<Rightarrow> do {
         r \<leftarrow> WriteBack tk (pushRequest tk c s run st);
         case r of
           Inl e \<Rightarrow>
             if isTransientWriteBackCode (classifyWriteBackError e) then fail (PlainErr [T e])
             else do { _ \<leftarrow> recordPushFailure s run st (classifyWriteBackError e) e; ok () }
         | Inr remote \<Rightarrow> do { _ \<leftarrow> recordPushed s run st remote; ok () } } }"

text \<open>No push at all: write-back off, another source on either side, or no option for the status.\<close>

definition pushOff :: "planning_connector \<Rightarrow> story \<Rightarrow> string \<Rightarrow> bool" where
  "pushOff c s st \<longleftrightarrow>
     \<not> conn_writeback_enabled c \<or> conn_source c \<noteq> SourceGitHub \<or> story_source s \<noteq> SourceGitHub
     \<or> OptionFor (conn_mapping c) st = []"

definition syncStory :: "tracker \<Rightarrow> planning_connector \<Rightarrow> story \<Rightarrow> uuid option \<Rightarrow> string \<Rightarrow> unit fop" where
  "syncStory tk c s run st =
     (if pushOff c s st then do { _ \<leftarrow> markDisabled (story_id s); ok () }
      else if derefString (story_external_item_id s) = [] \<or> derefString (conn_project_url c) = []
      then do { _ \<leftarrow> recordPushFailure s run st ''MISSING_TARGET'' missingTarget; ok () }
      else pushStatus tk c s run st)"

definition SyncStatus :: "tracker \<Rightarrow> uuid \<Rightarrow> uuid option \<Rightarrow> string \<Rightarrow> unit fop" where
  "SyncStatus tk i run st = do {
     r \<leftarrow> GetStoryByID i;
     case r of
       Inl e \<Rightarrow> if isNotFound e then ok () else fail e
     | Inr s \<Rightarrow> do {
         c \<leftarrow> GetConnector (story_project s);
         case c of
           Inl e \<Rightarrow> if isNotFound e then do { _ \<leftarrow> markDisabled i; ok () } else fail e
         | Inr conn \<Rightarrow> syncStory tk conn s run st } }"

text \<open>\<open>WriteBackWorker.Work\<close> on a job of the queue; other jobs are not its own.\<close>

fun WriteBackWork :: "tracker \<Rightarrow> job \<Rightarrow> unit fop" where
  "WriteBackWork tk (JobWriteBack p s r st) = SyncStatus tk s (if r = uuid_nil then None else Some r) st"
| "WriteBackWork tk (JobExecuteRun i) = ok ()"

section \<open>The connector service\<close>

record connector_input =
  ci_source :: string
  ci_project_url :: "string option"
  ci_status_field :: string
  ci_done_options :: "string list"
  ci_epic_type :: string
  ci_mapping :: status_mapping
  ci_writeback :: bool
  ci_post_comment :: bool

definition nonEmptyOr :: "string \<Rightarrow> string \<Rightarrow> string" where
  "nonEmptyOr d x = (if x = [] then d else x)"

definition noGitConnection :: "msg \<Rightarrow> err" where
  "noGitConnection m = NewInvalidState ''PLANNING_CONNECTOR_NO_GIT_CONNECTION'' m"

definition checkWriteBack :: "tracker \<Rightarrow> uuid \<Rightarrow> connector_input \<Rightarrow> unit fop" where
  "checkWriteBack tk p a =
     (if \<not> ci_writeback a then ok ()
      else attempt (reading (t_token tk p)) (\<lambda>token.
        if token = [] then fail (noGitConnection
          [T ''write-back requires a configured git connection; connect this project to GitHub first''])
        else if \<not> HasAnyTarget (ci_mapping a) then fail (NewInvalidState ''PLANNING_CONNECTOR_INVALID_MAPPING''
          [T ''write-back requires a status mapping with at least one tracker option target''])
        else ok ()))"

definition SetConnector :: "tracker \<Rightarrow> uuid \<Rightarrow> connector_input \<Rightarrow> planning_connector fop" where
  "SetConnector tk p a =
     attempt (checkWriteBack tk p a) (\<lambda>_.
       UpsertConnector
         \<lparr>conn_project = p, conn_source = nonEmptyOr SourceGitHub (ci_source a),
          conn_project_url = ci_project_url a, conn_status_field = nonEmptyOr ''Status'' (ci_status_field a),
          conn_done_options = ci_done_options a, conn_epic_type = nonEmptyOr ''Epic'' (ci_epic_type a),
          conn_mapping = ci_mapping a, conn_writeback_enabled = ci_writeback a,
          conn_post_comment = ci_post_comment a\<rparr>)"

definition getConnectorOrNil :: "uuid \<Rightarrow> planning_connector option fop" where
  "getConnectorOrNil p = do {
     r \<leftarrow> GetConnector p;
     case r of Inl e \<Rightarrow> if isNotFound e then ok None else fail e | Inr c \<Rightarrow> ok (Some c) }"

definition statusFieldNotFound :: "msg \<Rightarrow> err" where
  "statusFieldNotFound m = NewInvalidState ''PLANNING_STATUS_FIELD_NOT_FOUND'' m"

definition StatusOptions :: "tracker \<Rightarrow> uuid \<Rightarrow> string option \<Rightarrow> string option \<Rightarrow> tracker_options fop" where
  "StatusOptions tk p url field =
     attempt (getConnectorOrNil p) (\<lambda>c.
       let url0 = (case c of None \<Rightarrow> [] | Some x \<Rightarrow> derefString (conn_project_url x));
           field0 = (case c of None \<Rightarrow> [] | Some x \<Rightarrow> conn_status_field x);
           url1 = nonEmptyOr url0 (derefString url);
           field1 = nonEmptyOr ''Status'' (nonEmptyOr field0 (derefString field))
       in if url1 = [] then fail (statusFieldNotFound
            [T ''no board URL configured; save a connector or pass project_url''])
          else do {
            no_sink \<leftarrow> reading (t_sink tk p);
            case no_sink of
              Some e \<Rightarrow> fail (noGitConnection [T e])
            | None \<Rightarrow> do {
                r \<leftarrow> reading (t_options tk url1 field1);
                case r of Inl e \<Rightarrow> fail (statusFieldNotFound [T e]) | Inr opts \<Rightarrow> ok opts } })"

end
