(* ===== verification/GitConnections.thy ===== *)
theory GitConnections
  imports Secrets WriteBack
begin

text \<open>
  The connection of a project to its git host (\<open>git_connection_service.go\<close>, \<open>git_connection_repo.go\<close>):
  the stored token, its validation and the resolution of tokens with the fallback to the environment.
  The probe of a token, the environment and the URL parser are parameters. The checks of the columns
  admit every value the service writes.
\<close>

section \<open>The repository\<close>

definition KindPAT :: string where "KindPAT = ''pat''"

definition ConnUnconfigured :: string where "ConnUnconfigured = ''unconfigured''"
definition ConnConnected :: string where "ConnConnected = ''connected''"
definition ConnInvalid :: string where "ConnInvalid = ''invalid''"
definition ConnExpired :: string where "ConnExpired = ''expired''"
definition ConnInsufficient :: string where "ConnInsufficient = ''insufficient_scope''"

definition TokenClassic :: string where "TokenClassic = ''classic''"
definition TokenFineGrained :: string where "TokenFineGrained = ''fine_grained''"
definition TokenUnknown :: string where "TokenUnknown = ''unknown''"

definition ErrUnauthorized :: string where "ErrUnauthorized = ''unauthorized''"
definition ErrInsufficientScope :: string where "ErrInsufficientScope = ''insufficient_scope''"
definition ErrDecryptFailed :: string where "ErrDecryptFailed = ''decrypt_failed''"

definition GetGitConnection :: "uuid \<Rightarrow> git_connection fop" where
  "GetGitConnection p = db_op ''failed to get git connection'' (find_row w_git gc_project ''git_connection'' p)"

record persist_fields =
  pf_status :: string
  pf_token_type :: "string option"
  pf_scopes :: "string list"
  pf_login :: "string option"
  pf_expires :: "time option"
  pf_validated :: "time option"

definition set_connection :: "string \<Rightarrow> string \<Rightarrow> string \<Rightarrow> persist_fields \<Rightarrow> world \<Rightarrow> git_connection \<Rightarrow> git_connection" where
  "set_connection provider secret hint f w c =
     c\<lparr>gc_provider := provider, gc_kind := KindPAT, gc_secret := secret, gc_last4 := Some hint,
       gc_token_type := pf_token_type f, gc_scopes := pf_scopes f, gc_status := pf_status f, gc_login := pf_login f,
       gc_expires := pf_expires f, gc_validated := pf_validated f, gc_error := None, gc_updated_at := w_clock w\<rparr>"

definition newConnection :: "uuid \<Rightarrow> string \<Rightarrow> string \<Rightarrow> string \<Rightarrow> persist_fields \<Rightarrow> world \<Rightarrow> git_connection" where
  "newConnection p provider secret hint f w =
     \<lparr>gc_id = w_next w, gc_project = p, gc_provider = provider, gc_kind = KindPAT, gc_secret = secret,
      gc_last4 = Some hint, gc_token_type = pf_token_type f, gc_scopes = pf_scopes f, gc_status = pf_status f,
      gc_login = pf_login f, gc_expires = pf_expires f, gc_validated = pf_validated f, gc_error = None,
      gc_created_at = w_clock w, gc_updated_at = w_clock w\<rparr>"

text \<open>\<open>ON CONFLICT (project_id) DO UPDATE\<close>: one connection per project.\<close>

definition UpsertGitConnection ::
  "uuid \<Rightarrow> string \<Rightarrow> string \<Rightarrow> string \<Rightarrow> persist_fields \<Rightarrow> git_connection fop" where
  "UpsertGitConnection p provider secret hint f =
     db_op ''failed to upsert git connection''
       (writing (\<lambda>w. case tbl_find gc_project p (w_git w) of
           Some c \<Rightarrow> (Inr (set_connection provider secret hint f w c),
             w\<lparr>w_git := tbl_update gc_project p (set_connection provider secret hint f w) (w_git w)\<rparr>)
         | None \<Rightarrow>
             if p \<notin> project_id ` set (w_projects w) then (Inl (NewNotFound ''project'' (U p)), w)
             else (Inr (newConnection p provider secret hint f w),
                   w\<lparr>w_git := w_git w @ [newConnection p provider secret hint f w], w_next := Suc (w_next w)\<rparr>)))"

definition set_validation ::
  "string \<Rightarrow> string option \<Rightarrow> string list \<Rightarrow> time option \<Rightarrow> string option \<Rightarrow> world \<Rightarrow> git_connection \<Rightarrow> git_connection" where
  "set_validation st login scopes expires code w c =
     c\<lparr>gc_status := st, gc_login := login, gc_scopes := scopes, gc_expires := expires,
       gc_validated := Some (w_clock w), gc_error := code, gc_updated_at := w_clock w\<rparr>"

definition SetGitValidation ::
  "uuid \<Rightarrow> string \<Rightarrow> string option \<Rightarrow> string list \<Rightarrow> time option \<Rightarrow> string option \<Rightarrow> unit fop" where
  "SetGitValidation p st login scopes expires code =
     db_op ''failed to set git connection validation''
       (writing (\<lambda>w. (Inr (),
          w\<lparr>w_git := tbl_update gc_project p (set_validation st login scopes expires code w) (w_git w)\<rparr>)))"

definition mark_connection :: "string \<Rightarrow> string option \<Rightarrow> world \<Rightarrow> git_connection \<Rightarrow> git_connection" where
  "mark_connection st code w c =
     c\<lparr>gc_status := st, gc_error := code, gc_validated := Some (w_clock w), gc_updated_at := w_clock w\<rparr>"

definition MarkGitStatus :: "uuid \<Rightarrow> string \<Rightarrow> string option \<Rightarrow> unit fop" where
  "MarkGitStatus p st code =
     db_op ''failed to mark git connection status''
       (writing (\<lambda>w. (Inr (), w\<lparr>w_git := tbl_update gc_project p (mark_connection st code w) (w_git w)\<rparr>)))"

definition DeleteGitConnection :: "uuid \<Rightarrow> unit fop" where
  "DeleteGitConnection p =
     db_op ''failed to delete git connection''
       (writing (\<lambda>w. (Inr (), w\<lparr>w_git := without (\<lambda>c. gc_project c = p) (w_git w)\<rparr>)))"

section \<open>Tokens and probes\<close>

text \<open>What a probe answers: the result, or an error, with its kind when it is a \<open>ProbeError\<close>.\<close>

record probe_result =
  pr_login :: string
  pr_scopes :: "string list"
  pr_expires :: "time option"
  pr_token_type :: string

record git_service =
  gs_secrets :: secrets
  gs_probe :: "string \<Rightarrow> string \<Rightarrow> string \<Rightarrow> world \<Rightarrow> string option + probe_result"
  gs_getenv :: "string \<Rightarrow> string"
  gs_parse_url :: "string \<rightharpoonup> string \<times> string"
  gs_events :: bool

definition ProbeUnauthorized :: string where "ProbeUnauthorized = ''unauthorized''"
definition ProbeForbidden :: string where "ProbeForbidden = ''insufficient_scope''"

definition transientKinds :: "string list" where
  "transientKinds = [''probe_5xx'', ''rate_limited'', ''dns_error'', ''tls_error'', ''network_error'']"

definition Transient :: "string \<Rightarrow> bool" where
  "Transient kind \<longleftrightarrow> kind \<in> set transientKinds"

definition providerGitHub :: string where "providerGitHub = ''github''"
definition providerGitea :: string where "providerGitea = ''gitea''"

definition normalizeProvider :: "string \<Rightarrow> string" where
  "normalizeProvider p = (if ToLower (TrimSpace p) = providerGitea then providerGitea else providerGitHub)"

definition classifyToken :: "string \<Rightarrow> string" where
  "classifyToken token =
     (if hasPrefix token ''github_pat_'' then TokenFineGrained
      else if hasPrefix token ''ghp_'' then TokenClassic else TokenUnknown)"

definition requiredClassicScopes :: "string list" where
  "requiredClassicScopes = [''read:project'']"

definition missingClassicScopes :: "string list \<Rightarrow> string list" where
  "missingClassicScopes granted =
     (let have = map TrimSpace granted
      in filter (\<lambda>req. \<not> (req \<in> set have \<or> req = ''read:project'' \<and> ''project'' \<in> set have)) requiredClassicScopes)"

definition last4 :: "string \<Rightarrow> string" where
  "last4 s = (if length s \<le> 4 then s else drop (length s - 4) s)"

definition strptrIfNonEmpty :: "string \<Rightarrow> string option" where
  "strptrIfNonEmpty s = (if s = [] then None else Some s)"

definition knownInsecureKeys :: "string list" where
  "knownInsecureKeys = ['''', ''dev-encryption-key-32bytes!!'', ''changeme'']"

definition keyInsecure :: "git_service \<Rightarrow> bool" where
  "keyInsecure gs \<longleftrightarrow> se_master (gs_secrets gs) \<in> set knownInsecureKeys"

text \<open>An expiry that is known and before \<open>time.Now\<close>, which is read only then.\<close>

definition pastExpiry :: "time option \<Rightarrow> bool op" where
  "pastExpiry x = (case x of None \<Rightarrow> State_Monad.return False
     | Some t \<Rightarrow> do { now \<leftarrow> time_now; State_Monad.return (t < now) })"

definition statusFromProbe :: "probe_result \<Rightarrow> (string \<times> string list) op" where
  "statusFromProbe r = do {
     past \<leftarrow> pastExpiry (pr_expires r);
     State_Monad.return
       (if past then (ConnExpired, [])
        else if pr_token_type r = TokenClassic \<and> missingClassicScopes (pr_scopes r) \<noteq> []
        then (ConnInsufficient, missingClassicScopes (pr_scopes r))
        else (ConnConnected, [])) }"

definition connInvalid :: "string \<Rightarrow> err" where
  "connInvalid m = NewInvalidState ''GIT_CONNECTION_INVALID'' [T m]"

definition connInsufficient :: "string \<Rightarrow> err" where
  "connInsufficient m = NewInvalidState ''GIT_CONNECTION_INSUFFICIENT_SCOPE'' [T m]"

definition ErrGitConnectionProbeUnavailable :: err where
  "ErrGitConnectionProbeUnavailable = PlainErr [T ''GIT_CONNECTION_PROBE_UNAVAILABLE'']"

definition mapProbeError :: "string option \<Rightarrow> err" where
  "mapProbeError e =
     (case e of
        None \<Rightarrow> connInvalid ''connection probe failed''
      | Some kind \<Rightarrow>
          if Transient kind then ErrGitConnectionProbeUnavailable
          else if kind = ProbeUnauthorized then connInvalid ''the provider rejected this token''
          else if kind = ProbeForbidden then connInsufficient ''the token lacks a required permission''
          else connInvalid ''connection probe failed'')"

definition missingScopes :: "string list \<Rightarrow> err" where
  "missingScopes missing = connInsufficient (''token is missing required scope(s): '' @ join_strings '', '' missing)"

definition testMessage :: "probe_result \<Rightarrow> string" where
  "testMessage r =
     (if pr_token_type r = TokenFineGrained
      then ''fine-grained PAT accepted; note that user-owned (personal) Projects v2 boards may be unreadable''
      else ''connection verified'')"

definition providerBaseURL :: "git_service \<Rightarrow> uuid \<Rightarrow> string \<Rightarrow> string op" where
  "providerBaseURL gs p provider =
     (if provider \<noteq> providerGitea then State_Monad.return []
      else do {
        r \<leftarrow> GetProjectByID p;
        State_Monad.return
          (case r of Inl e \<Rightarrow> []
           | Inr x \<Rightarrow> (case project_repo_url x of
               None \<Rightarrow> []
             | Some u \<Rightarrow> (case gs_parse_url gs u of
                 None \<Rightarrow> []
               | Some (scheme, host) \<Rightarrow> if host = [] then [] else scheme @ ''://'' @ host))) })"

section \<open>Resolution\<close>

definition legacyEnvFallback :: "git_service \<Rightarrow> uuid \<Rightarrow> (string \<times> time option) op" where
  "legacyEnvFallback gs p = do {
     r \<leftarrow> GetProjectByID p;
     let own = (case r of Inl e \<Rightarrow> []
                | Inr x \<Rightarrow> (case project_git_token_env x of
                    None \<Rightarrow> [] | Some v \<Rightarrow> if v = [] then [] else gs_getenv gs v));
     State_Monad.return (if own \<noteq> [] then own else gs_getenv gs ''GITHUB_TOKEN'', None) }"

definition openToken :: "git_service \<Rightarrow> git_connection \<Rightarrow> string res" where
  "openToken gs c = Decrypt (se_cipher (gs_secrets gs)) (gc_secret c)
     (DeriveKey (se_cipher (gs_secrets gs)) (se_master (gs_secrets gs)))"

definition TokenForProject :: "git_service \<Rightarrow> uuid \<Rightarrow> (string \<times> time option) fop" where
  "TokenForProject gs p = do {
     r \<leftarrow> GetGitConnection p;
     case r of
       Inl e \<Rightarrow> if isNotFound e then do { t \<leftarrow> legacyEnvFallback gs p; ok t } else fail e
     | Inr c \<Rightarrow> (case openToken gs c of
         Inl e \<Rightarrow> do {
           _ \<leftarrow> bestEffort (MarkGitStatus p ConnInvalid (Some ErrDecryptFailed));
           t \<leftarrow> legacyEnvFallback gs p;
           ok t }
       | Inr raw \<Rightarrow> ok (raw, gc_expires c)) }"

definition ReconcileFromOperationError :: "uuid \<Rightarrow> string option \<Rightarrow> unit op" where
  "ReconcileFromOperationError p opErr =
     (case opErr of None \<Rightarrow> skip
      | Some text \<Rightarrow> (case classifyOperationError text of
          None \<Rightarrow> skip
        | Some (st, code) \<Rightarrow> bestEffort (MarkGitStatus p st (Some code))))"

section \<open>Management\<close>

record git_view =
  gv_configured :: bool
  gv_source :: string
  gv_kind :: string
  gv_provider :: string
  gv_status :: string
  gv_last4 :: "string option"
  gv_token_type :: "string option"
  gv_login :: "string option"
  gv_scopes :: "string list"
  gv_expires :: "time option"
  gv_validated :: "time option"
  gv_error :: "string option"

definition viewFromConn :: "git_connection \<Rightarrow> git_view op" where
  "viewFromConn c = do {
     past \<leftarrow> pastExpiry (gc_expires c);
     State_Monad.return
       \<lparr>gv_configured = True, gv_source = ''connection'', gv_kind = gc_kind c, gv_provider = gc_provider c,
        gv_status = (if past \<and> gc_status c \<noteq> ConnUnconfigured then ConnExpired else gc_status c),
        gv_last4 = gc_last4 c, gv_token_type = gc_token_type c, gv_login = gc_login c, gv_scopes = gc_scopes c,
        gv_expires = gc_expires c, gv_validated = gc_validated c, gv_error = gc_error c\<rparr> }"

definition unconfiguredView :: "git_service \<Rightarrow> uuid \<Rightarrow> git_view op" where
  "unconfiguredView gs p = do {
     r \<leftarrow> GetProjectByID p;
     t \<leftarrow> legacyEnvFallback gs p;
     State_Monad.return
       \<lparr>gv_configured = False, gv_source = (if fst t \<noteq> [] then ''env'' else ''none''), gv_kind = KindPAT,
        gv_provider = (case r of Inl e \<Rightarrow> providerGitHub | Inr x \<Rightarrow> normalizeProvider (project_git_provider x)),
        gv_status = ConnUnconfigured, gv_last4 = None, gv_token_type = None, gv_login = None, gv_scopes = [],
        gv_expires = None, gv_validated = None, gv_error = None\<rparr> }"

definition GitStatus :: "git_service \<Rightarrow> uuid \<Rightarrow> git_view fop" where
  "GitStatus gs p = do {
     r \<leftarrow> GetGitConnection p;
     case r of
       Inl e \<Rightarrow> if isNotFound e then do { v \<leftarrow> unconfiguredView gs p; ok v } else fail e
     | Inr c \<Rightarrow> do { v \<leftarrow> viewFromConn c; ok v } }"

text \<open>The event never carries the token; its entries are in the order of the JSON encoder.\<close>

definition auditGit :: "git_service \<Rightarrow> uuid \<Rightarrow> string \<Rightarrow> (string \<times> jval) list \<Rightarrow> unit op" where
  "auditGit gs p act entries =
     (if \<not> gs_events gs then skip else publishEvent p ''git_connection'' p act entries)"

definition persist :: "git_service \<Rightarrow> uuid \<Rightarrow> string \<Rightarrow> string \<Rightarrow> persist_fields \<Rightarrow> git_view fop" where
  "persist gs p provider token f =
     attempt (encrypting (gs_secrets gs) ''failed to encrypt git token'' token) (\<lambda>secret.
     attempt (UpsertGitConnection p provider secret (last4 token) f) (\<lambda>c. do { v \<leftarrow> viewFromConn c; ok v }))"

record git_input =
  gi_provider :: string
  gi_token :: string
  gi_validate :: bool

definition storeUnverified :: "git_service \<Rightarrow> uuid \<Rightarrow> uuid \<Rightarrow> string \<Rightarrow> string \<Rightarrow> git_view fop" where
  "storeUnverified gs p u provider token =
     attempt (persist gs p provider token
       \<lparr>pf_status = ConnUnconfigured, pf_token_type = Some (classifyToken token), pf_scopes = [], pf_login = None,
        pf_expires = None, pf_validated = None\<rparr>) (\<lambda>v. do {
     _ \<leftarrow> auditGit gs p ''updated''
       [(''project_id'', JUuid p), (''provider'', JStr provider), (''status'', JStr ConnUnconfigured),
        (''token_type'', JStr (classifyToken token)), (''user_id'', JUuid u), (''validated'', JBool False)];
     ok v })"

definition storeVerified ::
  "git_service \<Rightarrow> uuid \<Rightarrow> uuid \<Rightarrow> string \<Rightarrow> string \<Rightarrow> probe_result \<Rightarrow> string \<Rightarrow> git_view fop" where
  "storeVerified gs p u provider token r st = do {
     now \<leftarrow> time_now;
     attempt (persist gs p provider token
       \<lparr>pf_status = st, pf_token_type = Some (classifyToken token), pf_scopes = pr_scopes r,
        pf_login = strptrIfNonEmpty (pr_login r), pf_expires = pr_expires r, pf_validated = Some now\<rparr>) (\<lambda>v. do {
     _ \<leftarrow> auditGit gs p ''updated''
       [(''project_id'', JUuid p), (''provider'', JStr provider), (''scopes'', JStrs (pr_scopes r)),
        (''secret_last4'', JStr (derefString (gv_last4 v))), (''status'', JStr st),
        (''token_type'', JStr (classifyToken token)), (''user_id'', JUuid u), (''validated'', JBool True)];
     ok v }) }"

definition GitSet :: "git_service \<Rightarrow> uuid \<Rightarrow> uuid \<Rightarrow> git_input \<Rightarrow> git_view fop" where
  "GitSet gs p u a =
     (let token = TrimSpace (gi_token a); provider = normalizeProvider (gi_provider a) in
      if token = [] then fail (isRequired ''token'')
      else if keyInsecure gs then fail (NewInvalidState ''GIT_CONNECTION_KEY_UNSET''
        [T ''server encryption key is unset or insecure; set ENCRYPTION_KEY before storing a token''])
      else if \<not> gi_validate a then storeUnverified gs p u provider token
      else do {
        base \<leftarrow> providerBaseURL gs p provider;
        probed \<leftarrow> reading (gs_probe gs provider base token);
        case probed of
          Inl e \<Rightarrow> fail (mapProbeError e)
        | Inr r \<Rightarrow> do {
            s \<leftarrow> statusFromProbe r;
            if fst s = ConnInsufficient then fail (missingScopes (snd s))
            else storeVerified gs p u provider token r (fst s) } })"

record git_test_view =
  tv_ok :: bool
  tv_status :: string
  tv_login :: "string option"
  tv_scopes :: "string list"
  tv_missing :: "string list"
  tv_token_type :: string
  tv_expires :: "time option"
  tv_message :: string

text \<open>The provider and the token to test: the stored ones, or the given token.\<close>

definition storedToken :: "git_service \<Rightarrow> uuid \<Rightarrow> (string \<times> string) fop" where
  "storedToken gs p = do {
     r \<leftarrow> GetGitConnection p;
     case r of
       Inl e \<Rightarrow> if isNotFound e
         then fail (connInvalid ''no stored token to test; provide a token or save one first'') else fail e
     | Inr c \<Rightarrow> (case openToken gs c of
         Inl e \<Rightarrow> do {
           _ \<leftarrow> bestEffort (MarkGitStatus p ConnInvalid (Some ErrDecryptFailed));
           fail (connInvalid ''stored token could not be decrypted (rotate ENCRYPTION_KEY => re-enter token)'') }
       | Inr raw \<Rightarrow> ok (gc_provider c, raw)) }"

definition givenToken :: "uuid \<Rightarrow> string \<Rightarrow> (string \<times> string) fop" where
  "givenToken p token = do {
     r \<leftarrow> GetProjectByID p;
     ok (case r of Inl e \<Rightarrow> providerGitHub | Inr x \<Rightarrow> normalizeProvider (project_git_provider x), token) }"

definition reconcileStoredFromProbe :: "uuid \<Rightarrow> string option \<Rightarrow> unit op" where
  "reconcileStoredFromProbe p e =
     (case e of None \<Rightarrow> skip
      | Some kind \<Rightarrow>
          if Transient kind then skip
          else if kind = ProbeUnauthorized then bestEffort (MarkGitStatus p ConnInvalid (Some ErrUnauthorized))
          else if kind = ProbeForbidden then bestEffort (MarkGitStatus p ConnInsufficient (Some ErrInsufficientScope))
          else skip)"

text \<open>What a test of the stored token writes back.\<close>

definition recordTest :: "uuid \<Rightarrow> string \<Rightarrow> probe_result \<Rightarrow> unit op" where
  "recordTest p st r =
     (if st = ConnConnected
      then bestEffort (SetGitValidation p st (strptrIfNonEmpty (pr_login r)) (pr_scopes r) (pr_expires r) None)
      else bestEffort (MarkGitStatus p st (Some ErrInsufficientScope)))"

definition testView :: "probe_result \<Rightarrow> string \<times> string list \<Rightarrow> git_test_view" where
  "testView r s =
     \<lparr>tv_ok = True, tv_status = fst s, tv_login = strptrIfNonEmpty (pr_login r), tv_scopes = pr_scopes r,
      tv_missing = snd s, tv_token_type = pr_token_type r, tv_expires = pr_expires r, tv_message = testMessage r\<rparr>"

definition GitTest :: "git_service \<Rightarrow> uuid \<Rightarrow> uuid \<Rightarrow> string option \<Rightarrow> git_test_view fop" where
  "GitTest gs p u body =
     (let given = (case body of None \<Rightarrow> [] | Some b \<Rightarrow> TrimSpace b); stored = (given = []) in
      attempt (if stored then storedToken gs p else givenToken p given) (\<lambda>t. do {
        base \<leftarrow> providerBaseURL gs p (fst t);
        probed \<leftarrow> reading (gs_probe gs (fst t) base (snd t));
        case probed of
          Inl e \<Rightarrow> do {
            _ \<leftarrow> (if stored then reconcileStoredFromProbe p e else skip);
            fail (mapProbeError e) }
        | Inr r \<Rightarrow> do {
            s \<leftarrow> statusFromProbe r;
            _ \<leftarrow> (if stored then recordTest p (fst s) r else skip);
            _ \<leftarrow> auditGit gs p ''tested''
              [(''account_login'', JStr (pr_login r)), (''project_id'', JUuid p), (''status'', JStr (fst s)),
               (''user_id'', JUuid u)];
            if fst s = ConnInsufficient then fail (missingScopes (snd s)) else ok (testView r s) } }))"

definition GitClear :: "git_service \<Rightarrow> uuid \<Rightarrow> uuid \<Rightarrow> unit fop" where
  "GitClear gs p u =
     attempt (DeleteGitConnection p) (\<lambda>_. do {
       _ \<leftarrow> auditGit gs p ''cleared'' [(''project_id'', JUuid p), (''user_id'', JUuid u)];
       ok () })"

end
