(* ===== verification/ServiceFrame.thy ===== *)
theory ServiceFrame
  imports Board Capabilities Catalogue GitConnections Integrity
begin

text \<open>
  The frame rule of the account, board and catalogue services: a reflexive and transitive relation between
  states that the writes of their repositories respect is respected by every operation. The locale
  \<open>service_frame\<close> has what all of them do (calls that fail, the clock, identifiers, calls outside);
  \<open>account_frame\<close>, \<open>board_frame\<close> and \<open>catalogue_frame\<close> add the writes of the three groups.
\<close>

locale service_frame = frame R for R :: "world \<Rightarrow> world \<Rightarrow> bool" +
  assumes moves: "\<And>w fs t. w_clock w \<le> t \<Longrightarrow> R w (w\<lparr>w_faults := fs, w_clock := t\<rparr>)"
    and new_id: "\<And>w. R w (w\<lparr>w_next := Suc (w_next w)\<rparr>)"
    and called: "\<And>w c. R w (w\<lparr>w_calls := w_calls w @ [c]\<rparr>)"
begin

lemma fault_op_keeps: "keeps R m \<Longrightarrow> keeps R (fault_op e m)"
proof (rule keepsI)
  fix w assume m: "keeps R m"
  have tail: "R w (w\<lparr>w_faults := bs\<rparr>)" for bs
    using moves [of w "w_clock w" bs] by simp
  have run: "R (w\<lparr>w_faults := bs\<rparr>) (snd (run_state m (w\<lparr>w_faults := bs\<rparr>)))" for bs
    using m by (simp add: keeps_def)
  show "R w (snd (run_state (fault_op e m) w))"
    using m frame_trans [OF tail run] tail by (auto simp: run_fault_op_faults keeps_def split: list.split)
qed

lemma db_op_keeps: "keeps R m \<Longrightarrow> keeps R (db_op what m)"
  unfolding db_op_def by (rule fault_op_keeps)

lemma raw_op_keeps: "keeps R m \<Longrightarrow> keeps R (raw_op m)"
  unfolding raw_op_def by (rule fault_op_keeps)

lemma reading_keeps [frame_intros]: "keeps R (reading f)"
  by (simp add: keeps_def run_simps frame_refl)

lemma find_row_keeps [frame_intros]: "keeps R (find_row tbl key what i)"
  unfolding find_row_def by (rule reading_keeps)

lemma clock_keeps [frame_intros]: "keeps R time_now"
  using moves [of w "w_clock w + int (w_tick w)" "w_faults w" for w] by (simp add: keeps_def run_simps)

lemma fresh_keeps [frame_intros]: "keeps R uuid_new"
  by (simp add: keeps_def run_simps new_id)

lemma lift_keeps [frame_intros]: "keeps R (lift x)"
  unfolding lift_def by (rule return)

lemma check_keeps [frame_intros]: "keeps R (check c e)"
  unfolding check_def by (intro frame_intros)

lemma outside_keeps [frame_intros]: "keeps R (outside answer entry)"
  by (simp add: keeps_def outside_def run_simps frame_refl called split: sum.split)

lemmas call_keeps = db_op_keeps raw_op_keeps

end

section \<open>Accounts\<close>

locale account_frame = service_frame +
  assumes create_user: "\<And>e h n r. keeps R (CreateUser e h n r)"
    and update_user: "\<And>u. keeps R (UpdateUser u)"
    and password_hash: "\<And>i h. keeps R (UpdateUserPasswordHash i h)"
    and delete_user: "\<And>i. keeps R (DeleteUser i)"
    and create_reset: "\<And>i t x. keeps R (CreateResetToken i t x)"
    and mark_used: "\<And>i. keeps R (MarkResetTokenUsed i)"
    and revoke: "\<And>j t. keeps R (Revoke j t)"
    and purge: "keeps R DeleteExpiredRevoked"
begin

lemmas account_writes [frame_intros] = create_user update_user password_hash delete_user
  create_reset mark_used revoke purge

lemma account_reads [frame_intros]:
  "keeps R (GetUserByEmail e)" "keeps R (GetUserByID i)" "keeps R (ListUsers m n)" "keeps R CountUsers"
  "keeps R (GetResetToken t)" "keeps R (IsRevoked j)"
  unfolding GetUserByEmail_def GetUserByID_def ListUsers_def CountUsers_def GetResetToken_def IsRevoked_def
  by (intro call_keeps frame_intros)+

lemma token_keeps [frame_intros]:
  "keeps R (withToken lib u)" "keeps R (hashPassword lib p)" "keeps R (ValidateJWT lib t)"
  "keeps R generateSecureToken"
  unfolding withToken_def generateToken_def hashPassword_def ValidateJWT_def generateSecureToken_def
  by (intro frame_intros fault_op_keeps)+

lemma auth_keeps [frame_intros]:
  "keeps R (Register lib e p n)" "keeps R (Login lib e p)" "keeps R (Logout lib tok)"
  "keeps R (PurgeExpiredTokens lib)" "keeps R (ForgotPassword lib e)" "keeps R (ResetPassword lib rt p)"
  unfolding Register_def Login_def Logout_def PurgeExpiredTokens_def ForgotPassword_def ResetPassword_def
    resetUser_def
  by (intro frame_intros)+

lemma user_keeps [frame_intros]:
  "keeps R (UserGet i)" "keeps R (UserUpdate i n e r)" "keeps R (UserUpdateProfile i n e)"
  "keeps R (ChangePassword lib i old new)" "keeps R (UserDelete i)"
  unfolding UserGet_def UserUpdate_def UserUpdateProfile_def ChangePassword_def UserDelete_def
  by (intro frame_intros)+

end

section \<open>The board\<close>

locale board_frame = service_frame +
  assumes create_project: "\<And>x. keeps R (CreateProject x)"
    and update_project: "\<And>x. keeps R (UpdateProject x)"
    and delete_project: "\<And>i. keeps R (DeleteProject i)"
    and upsert_config: "\<And>i y. keeps R (UpsertPipelineConfig i y)"
    and create_epic: "\<And>x. keeps R (CreateEpic x)"
    and update_epic: "\<And>x. keeps R (UpdateEpic x)"
    and delete_epic: "\<And>i. keeps R (DeleteEpic i)"
    and create_story: "\<And>x. keeps R (CreateStory x)"
    and update_story: "\<And>x. keeps R (UpdateStoryEpic x)"
    and delete_story: "\<And>i. keeps R (DeleteStory i)"
    and add_member: "\<And>p i r. keeps R (AddUserToProject p i r)"
    and remove_member: "\<And>p i. keeps R (RemoveUserFromProject p i)"
begin

lemmas board_writes [frame_intros] = create_project update_project delete_project upsert_config
  create_epic update_epic delete_epic create_story update_story delete_story add_member remove_member

lemma board_reads [frame_intros]:
  "keeps R (GetProjectByID i)" "keeps R (GetEpic i)" "keeps R (GetStoryByID i)" "keeps R (GetUserByID i)"
  "keeps R (IsUserInProject i j)"
  unfolding GetProjectByID_def GetEpic_def GetStoryByID_def GetUserByID_def IsUserInProject_def
  by (intro call_keeps frame_intros)+

lemma checks_keep [frame_intros]:
  "keeps R (checkName f n)" "keeps R (checkDescription m d)" "keeps R (checkKey k)"
  unfolding checkName_def checkDescription_def checkKey_def by (intro frame_intros)+

lemma project_keeps [frame_intros]:
  "keeps R (ProjectCreate seeds a)" "keeps R (ProjectUpdate i u)" "keeps R (ProjectDelete i)"
  "keeps R (ConfigUpsert decode i y)"
  unfolding ProjectCreate_def ProjectUpdate_def ProjectDelete_def ConfigUpsert_def SeedDefault_def
  by (intro frame_intros)+

lemma epic_service_keeps [frame_intros]:
  "keeps R (EpicCreate p n d st)" "keeps R (EpicUpdate i n' d st')" "keeps R (EpicDelete i)"
  unfolding EpicCreate_def EpicUpdate_def EpicDelete_def by (intro frame_intros)+

lemma story_service_keeps [frame_intros]:
  "keeps R (StoryCreate a)" "keeps R (StoryUpdate i u)" "keeps R (StoryDelete i)"
  unfolding StoryCreate_def StoryUpdate_def StoryDelete_def by (intro frame_intros)+

lemma member_keeps [frame_intros]:
  "keeps R (MemberAdd p i r)" "keeps R (MemberRemove p i)"
  unfolding MemberAdd_def MemberRemove_def by (intro frame_intros)+

end

section \<open>The catalogues\<close>

locale catalogue_frame = service_frame +
  assumes create_key: "\<And>k. keeps R (CreateUserAPIKey k)"
    and delete_key: "\<And>i. keeps R (DeleteUserAPIKey i)"
    and create_credential: "\<And>n sc p v. keeps R (CreateCredential n sc p v)"
    and delete_credential: "\<And>i. keeps R (DeleteCredential i)"
    and create_capability: "\<And>c. keeps R (CreateCapability c)"
    and delete_capability: "\<And>i. keeps R (DeleteCapability i)"
    and attach: "\<And>a c. keeps R (AttachToAgent a c)"
    and detach: "\<And>a c. keeps R (DetachFromAgent a c)"
    and insert_agent: "\<And>a. keeps R (InsertAgent a)"
    and update_agent: "\<And>a. keeps R (UpdateAgent a)"
    and delete_agent: "\<And>i. keeps R (DeleteAgent i)"
    and upsert_stack: "\<And>k r. keeps R (UpsertStack k r)"
    and create_environment: "\<And>p x. keeps R (CreateEnvironment p x)"
    and update_environment: "\<And>i x. keeps R (UpdateEnvironment i x)"
    and delete_environment: "\<And>i. keeps R (DeleteEnvironment i)"
    and create_notification: "\<And>p x. keeps R (NotifyCreate p x)"
    and update_notification: "\<And>i x. keeps R (NotifyUpdate i x)"
    and delete_notification: "\<And>i. keeps R (NotifyDelete i)"
    and upsert_connection: "\<And>p pv secret hint f. keeps R (UpsertGitConnection p pv secret hint f)"
    and set_git_validation: "\<And>p st login scopes x code. keeps R (SetGitValidation p st login scopes x code)"
    and mark_git_status: "\<And>p st code. keeps R (MarkGitStatus p st code)"
    and delete_connection: "\<And>p. keeps R (DeleteGitConnection p)"
begin

lemmas catalogue_writes [frame_intros] = create_key delete_key create_credential delete_credential create_capability
  delete_capability attach detach insert_agent update_agent delete_agent upsert_stack create_environment
  update_environment delete_environment create_notification update_notification delete_notification
  upsert_connection set_git_validation mark_git_status delete_connection

lemma catalogue_reads [frame_intros]:
  "keeps R (GetUserAPIKey i)" "keeps R (GetUserAPIKeyByProvider i k)" "keeps R (GetGlobalByName n)"
  "keeps R (GetProjectByName n i)" "keeps R (ListForAgent i)" "keeps R (GetAgent i)" "keeps R (GetEnvironment i)"
  "keeps R (NotifyGet i)" "keeps R (ListEnabledByProject i)"
  unfolding GetUserAPIKey_def GetUserAPIKeyByProvider_def GetGlobalByName_def GetProjectByName_def
    ListForAgent_def GetAgent_def GetEnvironment_def NotifyGet_def ListEnabledByProject_def
  by (intro call_keeps frame_intros)+

lemma crypto_keeps [frame_intros]: "keeps R (encrypting se what raw)" "keeps R (decrypting se what raw)"
  unfolding encrypting_def decrypting_def by (intro frame_intros)+

lemma secrets_keep [frame_intros]:
  "keeps R (CreateKey se i p n raw)" "keeps R (DeleteKey i j)" "keeps R (DecryptKey se i)"
  "keeps R (DecryptKeyForUserProvider se i p)" "keeps R (CreateGlobal se n raw)"
  "keeps R (CreateForProject se n i raw)" "keeps R (ResolveCredential se n q)"
  unfolding CreateKey_def DeleteKey_def DecryptKey_def DecryptKeyForUserProvider_def CreateGlobal_def
    CreateForProject_def createCredential_def ResolveCredential_def projectCredential_def
  by (intro frame_intros)+

lemma capability_keeps [frame_intros]: "keeps R (addCapability se sc p role c b)"
  unfolding addCapability_def addMCPServer_def addCredential_def by (intro frame_intros)

lemma capabilities_keep [frame_intros]: "keeps R (addCapabilities se sc p role cs b)"
  by (induction cs arbitrary: b) (auto intro!: frame_intros)

lemma bundle_keeps [frame_intros]: "keeps R (ComposeBundle se sc a role)" "keeps R (HandleBundle se sc ct)"
  unfolding HandleBundle_def ComposeBundle_def Let_def by (intro frame_intros)+

lemma agents_keep [frame_intros]:
  "keeps R (CreateAgent a)" "keeps R (AgentCreate ap)" "keeps R (AgentUpdate i u)" "keeps R (AgentDelete i)"
  unfolding CreateAgent_def AgentCreate_def AgentUpdate_def AgentDelete_def checkName_def checkGiven_def Let_def
  by (intro frame_intros)+

lemma seed_keeps [frame_intros]: "keeps R (SeedStacks ss)"
  by (induction ss rule: SeedStacks.induct) (auto intro!: frame_intros)

lemma environments_keep [frame_intros]: "keeps R (EnvUpsert i x)" "keeps R (EnvDelete i)"
  unfolding EnvUpsert_def EnvDelete_def Let_def by (intro frame_intros)+

lemma send_keeps [frame_intros]: "keeps R (sendTo send ch ev cfg)"
  unfolding sendTo_def by (intro frame_intros)

lemma notify_all_keeps [frame_intros]: "keeps R (notifyAll ns ev cs)"
  by (induction cs) (auto intro!: frame_intros split: option.split)

lemma notifications_keep [frame_intros]: "keeps R (NotifyTest ns i)" "keeps R (dispatch ns ev)"
  unfolding NotifyTest_def dispatch_def by (intro frame_intros)+

end

end
