(* ===== verification/AccountsSpec.thy ===== *)
theory AccountsSpec
  imports ServiceFrame
begin

text \<open>
  What the account services guarantee: the tables of accounts stay consistent, a reset token works
  at most once, a token that was logged out is never accepted again, and what the two ways to set
  a password do to the password.
\<close>

section \<open>Everything that can happen to accounts\<close>

text \<open>
  The operations in any order, by any caller; between them calls may be about to fail, and the
  clock moves forward.
\<close>

inductive account_steps :: "auth_libs \<Rightarrow> world \<Rightarrow> world \<Rightarrow> bool" for lib where
  stay: "account_steps lib w w"
| further: "account_steps lib u v \<Longrightarrow> account_steps lib v w \<Longrightarrow> account_steps lib u w"
| surroundings: "w_clock w \<le> t \<Longrightarrow> account_steps lib w (w\<lparr>w_faults := fs, w_clock := t\<rparr>)"
| register: "account_steps lib w (snd (run_state (Register lib e p n) w))"
| login: "account_steps lib w (snd (run_state (Login lib e p) w))"
| logout: "account_steps lib w (snd (run_state (Logout lib tok) w))"
| purge: "account_steps lib w (snd (run_state (PurgeExpiredTokens lib) w))"
| forgot: "account_steps lib w (snd (run_state (ForgotPassword lib e) w))"
| reset: "account_steps lib w (snd (run_state (ResetPassword lib rt p) w))"
| update: "account_steps lib w (snd (run_state (UserUpdate i n' e' r) w))"
| profile: "account_steps lib w (snd (run_state (UserUpdateProfile i n' e') w))"
| change: "account_steps lib w (snd (run_state (ChangePassword lib i old new) w))"
| delete: "account_steps lib w (snd (run_state (UserDelete i) w))"

lemma keepsE: "keeps R m \<Longrightarrow> R w (snd (run_state m w))"
  by (simp add: keeps_def)

context account_frame
begin

lemma steps_respect: "account_steps lib w w' \<Longrightarrow> R w w'"
proof (induction rule: account_steps.induct)
  case (further u v w)
  then show ?case by (blast intro: frame_trans)
next
  case (surroundings w t fs)
  then show ?case by (rule moves)
next
  case (stay w)
  then show ?case by (rule frame_refl)
qed (rule keepsE, rule auth_keeps user_keeps)+

end

section \<open>Consistent tables\<close>

definition accounts_ok :: "world \<Rightarrow> bool" where
  "accounts_ok w \<longleftrightarrow>
     distinct (map usr_id (w_users w)) \<and> distinct (map usr_email (w_users w))
     \<and> (\<forall>u \<in> set (w_users w). usr_id u < w_next w \<and> validRole (usr_role u))
     \<and> distinct (map rt_id (w_resets w)) \<and> distinct (map rt_token (w_resets w))
     \<and> (\<forall>r \<in> set (w_resets w). rt_id r < w_next w \<and> rt_user r \<in> usr_id ` set (w_users w))
     \<and> distinct (map fst (w_revoked w))"

definition stays_ok :: "world \<Rightarrow> world \<Rightarrow> bool" where
  "stays_ok w w' \<longleftrightarrow> (accounts_ok w \<longrightarrow> accounts_ok w')"

lemma accounts_ok_idle [simp]:
  "accounts_ok (w\<lparr>w_faults := fs\<rparr>) = accounts_ok w" "accounts_ok (w\<lparr>w_clock := t\<rparr>) = accounts_ok w"
  "accounts_ok (w\<lparr>w_calls := cs\<rparr>) = accounts_ok w"
  by (simp_all add: accounts_ok_def)

lemma accounts_ok_next: "accounts_ok w \<Longrightarrow> accounts_ok (w\<lparr>w_next := Suc (w_next w)\<rparr>)"
  by (auto simp: accounts_ok_def)

lemma keeps_fault_op:
  assumes "\<And>w fs. accounts_ok w \<Longrightarrow> accounts_ok (snd (run_state m (w\<lparr>w_faults := fs\<rparr>)))"
  shows "keeps stays_ok (fault_op e m)"
  using assms [of w "w_faults w" for w] assms
  by (simp add: keeps_def stays_ok_def run_fault_op_faults split: list.split)

lemma keeps_writing:
  assumes "\<And>w. accounts_ok w \<Longrightarrow> accounts_ok (snd (f w))"
  shows "keeps stays_ok (db_op what (writing f))" "keeps stays_ok (raw_op (writing f))"
  unfolding db_op_def raw_op_def by (rule keeps_fault_op, simp add: run_simps assms)+

lemma updateLive_keeps:
  assumes "\<And>w u. usr_id (f w u) = usr_id u" "\<And>w u. usr_email (f w u) = usr_email u"
    "\<And>w u. usr_role (f w u) = usr_role u"
  shows "keeps stays_ok (updateLive i f)"
  unfolding updateLive_def
proof (rule keeps_writing, simp)
  fix w assume inv: "accounts_ok w"
  let ?g = "\<lambda>u. if alive u then f w u else u"
  have m: "map usr_id (tbl_update usr_id i ?g us) = map usr_id us"
    "map usr_email (tbl_update usr_id i ?g us) = map usr_email us"
    "map usr_role (tbl_update usr_id i ?g us) = map usr_role us" for us
    by (induction us) (auto simp: assms)
  have "\<forall>u \<in> set (tbl_update usr_id i ?g (w_users w)). usr_id u < w_next w \<and> validRole (usr_role u)"
    using inv by (auto simp: accounts_ok_def set_tbl_update assms)
  then show "accounts_ok (w\<lparr>w_users := tbl_update usr_id i ?g (w_users w)\<rparr>)"
    using inv m [of "w_users w"] by (simp add: accounts_ok_def) (metis image_set)
qed

lemma set_user_id [simp]: "usr_id (set_user x w u) = usr_id u" "usr_password (set_user x w u) = usr_password u"
  by (simp_all add: set_user_def)

lemma liveUser: "tbl_find usr_id i (liveUsers w) = Some u \<Longrightarrow> u \<in> set (w_users w) \<and> usr_id u = i \<and> alive u"
  by (auto simp: liveUsers_def dest: tbl_find_eq_Some)

lemma distinct_update:
  assumes "distinct (map usr_id us)" "distinct (map usr_email us)" "u \<in> set us"
    "\<forall>v \<in> set us. usr_id v \<noteq> usr_id u \<longrightarrow> usr_email v \<noteq> usr_email (f u)"
  shows "distinct (map usr_email (tbl_update usr_id (usr_id u) f us))"
  using assms
proof (induction us)
  case (Cons v us)
  show ?case
  proof (cases "usr_id v = usr_id u")
    case True
    with Cons.prems have "v = u" and "usr_id u \<notin> usr_id ` set us"
      by (auto simp: rev_image_eqI)
    then have "tbl_update usr_id (usr_id u) f us = us" by (simp add: tbl_update_absent)
    moreover have "usr_email x \<noteq> usr_email (f u)" if "x \<in> set us" for x
      using that Cons.prems(4) \<open>usr_id u \<notin> usr_id ` set us\<close> by (auto simp: image_iff)
    then have "usr_email (f u) \<notin> usr_email ` set us" by (metis imageE)
    ultimately show ?thesis using Cons.prems \<open>v = u\<close> by auto
  next
    case False
    with Cons.prems have u: "u \<in> set us" by auto
    have inj: "inj_on usr_id (set us)" and fresh: "usr_email v \<notin> usr_email ` set us"
      using Cons.prems by (simp_all add: distinct_map)
    have "usr_email v \<notin> usr_email ` set (tbl_update usr_id (usr_id u) f us)"
    proof
      assume "usr_email v \<in> usr_email ` set (tbl_update usr_id (usr_id u) f us)"
      then obtain x where x: "x \<in> set us" "usr_email v = usr_email (if usr_id x = usr_id u then f x else x)"
        by (auto simp: set_tbl_update)
      show False
      proof (cases "usr_id x = usr_id u")
        case True
        then have "x = u" using inj x u by (simp add: inj_on_eq_iff)
        then have "usr_email v = usr_email (f u)" using x by simp
        with False Cons.prems(4) show ?thesis by simp
      next
        case other: False
        then have "usr_email v = usr_email x" using x by simp
        moreover have "usr_email x \<in> usr_email ` set us" using x(1) by (rule imageI)
        ultimately show ?thesis using fresh by simp
      qed
    qed
    with False Cons u show ?thesis by simp
  qed
qed simp

lemma UpdateUser_keeps: "keeps stays_ok (UpdateUser x)"
  unfolding UpdateUser_def
proof (rule keeps_writing, simp only: split: option.split, intro conjI allI impI)
  fix w u assume inv: "accounts_ok w" and u: "tbl_find usr_id (usr_id x) (liveUsers w) = Some u"
  let ?us = "tbl_update usr_id (usr_id x) (set_user x w) (w_users w)"
  have found: "u \<in> set (w_users w)" "usr_id u = usr_id x" using liveUser [OF u] by simp_all
  have ids: "map usr_id ?us = map usr_id (w_users w)" by simp
  show "accounts_ok (snd (let v = set_user x w u in
         if \<not> validRole (usr_role v) then (Inl db_failure, w)
         else if emailTaken (usr_id x) (usr_email v) w then (Inl duplicate_key, w)
         else (Inr v, w\<lparr>w_users := ?us\<rparr>)))"
  proof (cases "validRole (usr_role (set_user x w u)) \<and> \<not> emailTaken (usr_id x) (usr_email (set_user x w u)) w")
    case True
    then have "distinct (map usr_email ?us)"
      using distinct_update [of "w_users w" u "set_user x w"] inv found
      by (auto simp: accounts_ok_def emailTaken_def)
    moreover have "usr_id v < w_next w \<and> validRole (usr_role v)" if "v \<in> set ?us" for v
    proof -
      from that obtain v0 where v0: "v0 \<in> set (w_users w)"
        "v = (if usr_id v0 = usr_id x then set_user x w v0 else v0)" by (auto simp: set_tbl_update)
      have "v0 = u" if "usr_id v0 = usr_id x"
        using that v0 found inv by (auto simp: accounts_ok_def distinct_map inj_on_def)
      with v0 True inv show ?thesis by (auto simp: accounts_ok_def)
    qed
    moreover have "usr_id ` set ?us = usr_id ` set (w_users w)" by (metis ids image_set)
    ultimately show ?thesis using True inv ids by (simp add: accounts_ok_def)
  qed (use inv in \<open>auto simp: Let_def\<close>)
qed simp

lemma account_writes_keep:
  "keeps stays_ok (CreateUser e h n r)" "keeps stays_ok (CreateResetToken i t x)"
  "keeps stays_ok (MarkResetTokenUsed i)" "keeps stays_ok (Revoke j t')" "keeps stays_ok DeleteExpiredRevoked"
proof -
  show "keeps stays_ok (CreateUser e h n r)"
    unfolding CreateUser_def by (rule keeps_writing) (auto simp: accounts_ok_def Let_def)
  show "keeps stays_ok (CreateResetToken i t x)"
    unfolding CreateResetToken_def
    by (rule keeps_writing) (auto simp: accounts_ok_def Let_def tbl_find_None_iff)
  show "keeps stays_ok (MarkResetTokenUsed i)"
    unfolding MarkResetTokenUsed_def
  proof (rule keeps_writing, simp)
    fix w assume inv: "accounts_ok w"
    let ?f = "\<lambda>r. r\<lparr>rt_used := Some (w_clock w)\<rparr>"
    have m: "map rt_id (tbl_update rt_id i ?f rs) = map rt_id rs"
      "map rt_token (tbl_update rt_id i ?f rs) = map rt_token rs" for rs
      by (induction rs) auto
    show "accounts_ok (w\<lparr>w_resets := tbl_update rt_id i ?f (w_resets w)\<rparr>)"
      using inv by (auto simp: accounts_ok_def set_tbl_update m)
  qed
  show "keeps stays_ok (Revoke j t')"
    unfolding Revoke_def by (rule keeps_writing) (auto simp: accounts_ok_def)
  show "keeps stays_ok DeleteExpiredRevoked"
    unfolding DeleteExpiredRevoked_def
    by (rule keeps_writing) (auto simp: accounts_ok_def distinct_map_filter)
qed

interpretation consistent: account_frame stays_ok
proof unfold_locales
  show "keeps stays_ok (UpdateUserPasswordHash i h)" "keeps stays_ok (DeleteUser i)" for i h
    unfolding UpdateUserPasswordHash_def DeleteUser_def by (rule updateLive_keeps, simp_all)+
qed (auto simp: stays_ok_def accounts_ok_next intro: account_writes_keep UpdateUser_keeps)

text \<open>
  C23: the tables of accounts stay consistent under every sequence of account operations and every
  pattern of failures: identifiers and addresses are unique (those of deleted accounts included),
  every role is valid, a reset token is unique and belongs to an account, a token identifier is
  revoked once.
\<close>

theorem accounts_stay_consistent:
  assumes "account_steps lib w w'" and "accounts_ok w"
  shows "accounts_ok w'"
  using consistent.steps_respect [OF assms(1)] assms(2) by (simp add: stays_ok_def)

section \<open>Passwords\<close>

text \<open>The rows by identifier, with what a password check needs.\<close>

definition hashes :: "world \<Rightarrow> (uuid \<times> string) list" where
  "hashes w = map (\<lambda>u. (usr_id u, usr_password u)) (w_users w)"

definition same_hashes :: "world \<Rightarrow> world \<Rightarrow> bool" where
  "same_hashes w w' \<longleftrightarrow> hashes w' = hashes w"

interpretation same: service_frame same_hashes
  by unfold_locales (simp_all add: same_hashes_def hashes_def)

lemma UpdateUser_same_hashes: "keeps same_hashes (UpdateUser x)"
proof -
  have "map (\<lambda>u. (usr_id u, usr_password u)) (tbl_update usr_id i (set_user x w) us)
      = map (\<lambda>u. (usr_id u, usr_password u)) us" for i w us
    by (induction us) auto
  then show ?thesis
    unfolding UpdateUser_def
    by (intro same.raw_op_keeps keepsI)
      (simp add: run_simps same_hashes_def hashes_def Let_def split: option.split)
qed

lemma reset_parts:
  "keeps same_hashes (GetUserByID i)" "keeps same_hashes (GetResetToken t)"
  "keeps same_hashes (MarkResetTokenUsed j)" "keeps same_hashes (hashPassword lib p)"
  unfolding GetUserByID_def GetResetToken_def MarkResetTokenUsed_def hashPassword_def
  by (rule same.call_keeps | intro frame_intros same.reading_keeps same.find_row_keeps
      | rule keepsI, simp add: run_simps same_hashes_def hashes_def)+

lemma ResetPassword_same_hashes: "keeps same_hashes (ResetPassword lib t p)"
  unfolding ResetPassword_def resetUser_def
  by (intro frame_intros same.frame_axioms reset_parts UpdateUser_same_hashes same.clock_keeps)

text \<open>A reset token that has been used, as the lookup finds it.\<close>

definition spent :: "uuid \<Rightarrow> world \<Rightarrow> bool" where
  "spent t w \<longleftrightarrow> (\<exists>r. tbl_find rt_token t (w_resets w) = Some r \<and> rt_used r \<noteq> None)"

definition stays_spent :: "world \<Rightarrow> world \<Rightarrow> bool" where
  "stays_spent w w' \<longleftrightarrow> (\<forall>t. spent t w \<longrightarrow> spent t w')"

lemma spent_same: "w_resets w' = w_resets w \<Longrightarrow> spent t w' = spent t w"
  by (simp add: spent_def)

lemma spent_mark:
  "spent t w \<Longrightarrow> spent t (w\<lparr>w_resets := tbl_update rt_id i (\<lambda>r. r\<lparr>rt_used := Some x\<rparr>) (w_resets w)\<rparr>)"
proof -
  have "\<exists>r'. tbl_find rt_token t (tbl_update rt_id i (\<lambda>r. r\<lparr>rt_used := Some x\<rparr>) rs) = Some r' \<and> rt_used r' \<noteq> None"
    if "tbl_find rt_token t rs = Some r" "rt_used r \<noteq> None" for rs r
    using that by (induction rs) auto
  then show "spent t w \<Longrightarrow> spent t (w\<lparr>w_resets := tbl_update rt_id i (\<lambda>r. r\<lparr>rt_used := Some x\<rparr>) (w_resets w)\<rparr>)"
    by (auto simp: spent_def)
qed

lemma spent_add: "spent t w \<Longrightarrow> spent t (w\<lparr>w_resets := w_resets w @ [r], w_next := n\<rparr>)"
  by (auto simp: spent_def tbl_find_append)

lemma spent_fault_op:
  assumes "\<And>w. stays_spent w (snd (run_state m w))"
  shows "keeps stays_spent (fault_op e m)"
  using assms by (auto simp: keeps_def run_fault_op_faults stays_spent_def spent_def split: list.split)

lemma spent_writing:
  assumes "\<And>w t. spent t w \<Longrightarrow> spent t (snd (f w))"
  shows "keeps stays_spent (db_op what (writing f))" "keeps stays_spent (raw_op (writing f))"
  unfolding db_op_def raw_op_def
  by (rule spent_fault_op, simp add: run_simps stays_spent_def assms)+

interpretation spent: account_frame stays_spent
proof unfold_locales
  show "keeps stays_spent (CreateUser e h n r)" "keeps stays_spent (UpdateUser u)"
    "keeps stays_spent (UpdateUserPasswordHash i h)" "keeps stays_spent (DeleteUser i)"
    "keeps stays_spent (Revoke j t)" "keeps stays_spent DeleteExpiredRevoked" for e h n r u i j t
    unfolding CreateUser_def UpdateUser_def UpdateUserPasswordHash_def DeleteUser_def updateLive_def
      Revoke_def DeleteExpiredRevoked_def
    by (rule spent_writing, simp add: spent_def Let_def split: option.split)+
  show "keeps stays_spent (CreateResetToken i t x)" for i t x
    unfolding CreateResetToken_def by (rule spent_writing) (simp add: spent_add Let_def)
  show "keeps stays_spent (MarkResetTokenUsed i)" for i
    unfolding MarkResetTokenUsed_def by (rule spent_writing) (simp add: spent_mark)
qed (auto simp: stays_spent_def spent_def)

lemma run_db_op_Inr:
  assumes "run_state (db_op what m) w = (Inr x, w')"
  obtains fs where "run_state m (w\<lparr>w_faults := fs\<rparr>) = (Inr x, w')"
proof (cases "w_faults w")
  case Nil
  then have "w\<lparr>w_faults := w_faults w\<rparr> = w" by simp
  with assms Nil that [of "w_faults w"] show ?thesis by (simp only: run_db_op_faults list.case)
next
  case (Cons b bs)
  with assms that [of bs] show ?thesis by (simp add: run_db_op_faults split: if_splits)
qed

lemma marked:
  assumes "tbl_find rt_token t rs = Some r"
  shows "\<exists>r'. tbl_find rt_token t (tbl_update rt_id (rt_id r) (\<lambda>r. r\<lparr>rt_used := Some x\<rparr>) rs) = Some r' \<and> rt_used r' \<noteq> None"
  using assms by (induction rs) auto

text \<open>The rest of a reset leaves the table of reset tokens alone until it marks the token.\<close>

definition same_resets :: "world \<Rightarrow> world \<Rightarrow> bool" where
  "same_resets w w' \<longleftrightarrow> w_resets w' = w_resets w"

interpretation resets: service_frame same_resets
  by unfold_locales (simp_all add: same_resets_def)

lemma reset_keeps_resets:
  "keeps same_resets (hashPassword lib p)" "keeps same_resets (GetUserByID i)" "keeps same_resets (UpdateUser u)"
  unfolding hashPassword_def GetUserByID_def UpdateUser_def
  by (intro resets.call_keeps frame_intros | rule keepsI, simp add: run_simps same_resets_def Let_def split: option.split)+

lemma ResetPassword_InrE:
  assumes "run_state (ResetPassword lib (Some t) p) w = (Inr (), w')"
  obtains prt v where "run_state (GetResetToken t) w = (Inr prt, v)" "rt_used prt = None"
    "run_state (resetUser lib prt p) (snd (run_state time_now v)) = (Inr (), w')"
proof -
  from assms have "run_state (attempt (wrap_err (\<lambda>_. ErrResetTokenInvalid) (GetResetToken t)) (\<lambda>prt.
      if rt_used prt \<noteq> None then fail ErrResetTokenInvalid
      else do { now \<leftarrow> time_now;
                if rt_expires prt < now then fail ErrResetTokenExpired else resetUser lib prt p })) w = (Inr (), w')"
    by (simp add: ResetPassword_def run_fail split: if_splits)
  then obtain prt v where prt: "run_state (GetResetToken t) w = (Inr prt, v)"
    and body: "run_state (if rt_used prt \<noteq> None then fail ErrResetTokenInvalid
      else do { now \<leftarrow> time_now;
                if rt_expires prt < now then fail ErrResetTokenExpired else resetUser lib prt p }) v = (Inr (), w')"
    by (elim attempt_Inr) (auto simp: run_wrap_err_Inr)
  from body have "rt_used prt = None" by (auto simp: run_fail split: if_splits)
  moreover from body have "run_state (resetUser lib prt p) (snd (run_state time_now v)) = (Inr (), w')"
    by (auto simp: run_fail run_time_now run_state_bind split: if_splits)
  ultimately show ?thesis using prt that by blast
qed

lemma ResetPassword_spends:
  assumes "run_state (ResetPassword lib (Some t) p) w = (Inr (), w')"
  shows "spent t w'"
proof -
  from assms obtain prt v where prt: "run_state (GetResetToken t) w = (Inr prt, v)"
    and rest: "run_state (resetUser lib prt p) (snd (run_state time_now v)) = (Inr (), w')"
    by (rule ResetPassword_InrE)
  from prt have found: "tbl_find rt_token t (w_resets v) = Some prt"
    unfolding GetResetToken_def
    by (elim run_db_op_Inr) (auto simp: run_simps split: option.splits)
  from rest obtain hash a u b x c where steps:
    "run_state (hashPassword lib p) (snd (run_state time_now v)) = (Inr hash, a)"
    "run_state (GetUserByID (rt_user prt)) a = (Inr u, b)"
    "run_state (UpdateUser (u\<lparr>usr_password := hash\<rparr>)) b = (Inr x, c)"
    "run_state (MarkResetTokenUsed (rt_id prt)) c = (Inr (), w')"
    unfolding resetUser_def by (elim attempt_Inr) blast
  have "w_resets c = w_resets v"
    using keepsD [OF reset_keeps_resets(1) steps(1)] keepsD [OF reset_keeps_resets(2) steps(2)]
      keepsD [OF reset_keeps_resets(3) steps(3)] by (simp add: same_resets_def run_simps)
  with found marked [of t "w_resets c" prt] steps(4) show ?thesis
    unfolding MarkResetTokenUsed_def by (elim run_db_op_Inr) (auto simp: run_simps spent_def)
qed

lemma spent_refused:
  assumes "spent t w"
  shows "fst (run_state (ResetPassword lib (Some t) p) w) \<noteq> Inr ()"
proof
  assume "fst (run_state (ResetPassword lib (Some t) p) w) = Inr ()"
  then have "run_state (ResetPassword lib (Some t) p) w = (Inr (), snd (run_state (ResetPassword lib (Some t) p) w))"
    by (simp add: prod_eq_iff)
  then obtain prt v where "run_state (GetResetToken t) w = (Inr prt, v)" "rt_used prt = None"
    by (rule ResetPassword_InrE)
  then show False
    using assms unfolding GetResetToken_def
    by (elim run_db_op_Inr) (auto simp: run_simps spent_def split: option.splits)
qed

text \<open>
  C25: a reset token works at most once: when a password reset has succeeded with a token, no later
  reset with it succeeds, whatever account operations and failures come in between.
\<close>

theorem reset_token_single_use:
  assumes "run_state (ResetPassword lib (Some t) p) w = (Inr (), w1)" and "account_steps lib w1 w2"
  shows "fst (run_state (ResetPassword lib (Some t) q) w2) \<noteq> Inr ()"
proof (rule spent_refused)
  show "spent t w2"
    using ResetPassword_spends [OF assms(1)] spent.steps_respect [OF assms(2)] by (simp add: stays_spent_def)
qed

text \<open>
  C33: a password reset changes no password. It puts the new hash into the row it has read and writes
  the row back with a query that has no password column, so even a reset that succeeds, and uses up
  its token, leaves every hash as it was.
\<close>

theorem reset_keeps_old_password:
  assumes "run_state (ResetPassword lib (Some t) p) w = (r, w')"
  shows "hashes w' = hashes w \<and> (r = Inr () \<longrightarrow> spent t w')"
  using keepsD [OF ResetPassword_same_hashes assms] ResetPassword_spends assms
  by (auto simp: same_hashes_def)

section \<open>Tokens that were logged out\<close>

text \<open>A revoked identifier stays in the table until the token has expired.\<close>

definition stays_revoked :: "world \<Rightarrow> world \<Rightarrow> bool" where
  "stays_revoked w w' \<longleftrightarrow> w_clock w \<le> w_clock w' \<and>
     (\<forall>(j, t) \<in> set (w_revoked w). (j, t) \<in> set (w_revoked w') \<or> t < w_clock w')"

lemma revoked_fault_op:
  assumes "\<And>w. stays_revoked w (snd (run_state m w))"
  shows "keeps stays_revoked (fault_op e m)"
proof (rule keepsI)
  fix w
  show "stays_revoked w (snd (run_state (fault_op e m) w))"
    using assms [of w] assms [of "w\<lparr>w_faults := bs\<rparr>" for bs]
    by (auto simp: run_fault_op_faults stays_revoked_def split: list.split)
qed

lemma revoked_writing:
  assumes "\<And>w. stays_revoked w (snd (f w))"
  shows "keeps stays_revoked (db_op what (writing f))" "keeps stays_revoked (raw_op (writing f))"
  unfolding db_op_def raw_op_def by (rule revoked_fault_op, simp add: run_simps assms)+

interpretation revoked: account_frame stays_revoked
proof unfold_locales
  show "stays_revoked u w" if "stays_revoked u v" "stays_revoked v w" for u v w
    using that by (fastforce simp: stays_revoked_def)
  show "keeps stays_revoked (CreateUser e h n r)" "keeps stays_revoked (UpdateUser u)"
    "keeps stays_revoked (UpdateUserPasswordHash i h)" "keeps stays_revoked (DeleteUser i)"
    "keeps stays_revoked (CreateResetToken i t x)" "keeps stays_revoked (MarkResetTokenUsed i)"
    "keeps stays_revoked (Revoke j x)" "keeps stays_revoked DeleteExpiredRevoked" for e h n r u i t x j
    unfolding CreateUser_def UpdateUser_def UpdateUserPasswordHash_def DeleteUser_def updateLive_def
      CreateResetToken_def MarkResetTokenUsed_def Revoke_def DeleteExpiredRevoked_def
    by (rule revoked_writing, auto simp: stays_revoked_def Let_def split: option.split)+
qed (auto simp: stays_revoked_def)

lemma run_IsRevoked:
  "fst (run_state (IsRevoked j) w) = Inr (j \<in> fst ` set (w_revoked w))
   \<or> fst (run_state (IsRevoked j) w) = Inl (NewInternal ''failed to check token revocation'' db_failure)"
  by (auto simp: IsRevoked_def run_db_op_faults run_simps split: list.split)

text \<open>A token of a revoked identifier is answered without a look at what is behind the middleware.\<close>

lemma Auth_refuses:
  assumes "has_blacklist lib" and "\<not> isPublicPath path"
    and "jwt_parse lib (w_clock w) token = Inr c \<Longrightarrow> (\<exists>j. cl_id c = Some j \<and> j \<in> fst ` set (w_revoked w))"
    and "\<And>c'. jwt_parse lib (w_clock w) token = Inr c' \<Longrightarrow> c' = c"
  shows "\<exists>code w'. \<forall>next. run_state (Auth lib path (Some token) next) w = ((401, code), w')"
proof (cases "jwt_parse lib (w_clock w) token")
  case (Inl e)
  then show ?thesis using assms(2) by (simp add: Auth_def ValidateJWT_def run_simps respond_def)
next
  case (Inr c')
  with assms(4) have c: "jwt_parse lib (w_clock w) token = Inr c" by simp
  with assms(3) obtain j where j: "cl_id c = Some j" "j \<in> fst ` set (w_revoked w)" by blast
  let ?v = "w\<lparr>w_clock := w_clock w + int (w_tick w)\<rparr>"
  obtain r w' where r: "run_state (IsRevoked j) ?v = (r, w')" by (meson surj_pair)
  with run_IsRevoked [of j ?v] j(2) have "r = Inr True \<or> (\<exists>e. r = Inl e)" by auto
  with r c j(1) assms(1,2) show ?thesis
    by (auto simp: Auth_def ValidateJWT_def admit_def run_simps respond_def)
qed

lemma Logout_revokes:
  assumes "run_state (Logout lib token) w = (Inr (), w')" "has_blacklist lib"
    and "jwt_parse lib (w_clock w) token = Inr c" "cl_id c = Some j"
    and "\<And>t. (j, t) \<in> set (w_revoked w) \<Longrightarrow> t = cl_expires c"
  shows "(j, cl_expires c) \<in> set (w_revoked w')"
proof -
  from assms(1-4) have "run_state (Revoke j (cl_expires c)) (w\<lparr>w_clock := w_clock w + int (w_tick w)\<rparr>) = (Inr (), w')"
    by (simp add: Logout_def ValidateJWT_def run_simps)
  then show ?thesis
    using assms(5) unfolding Revoke_def by (elim run_db_op_Inr) (auto simp: run_simps split: if_splits)
qed

text \<open>
  C16: once a logout of a token has succeeded, the middleware answers 401 to it for ever, without
  calling what is behind it, whatever account operations (the purge of expired entries included)
  and failures come in between. The JWT library is assumed to read the same claims from a token at
  every moment and to refuse it after its expiry; the identifier of the token is its own.
\<close>

theorem logged_out_token_refused:
  assumes logout: "run_state (Logout lib token) w = (Inr (), w1)" "has_blacklist lib"
    and token: "jwt_parse lib (w_clock w) token = Inr c" "cl_id c = Some j"
    and own: "\<And>t. (j, t) \<in> set (w_revoked w) \<Longrightarrow> t = cl_expires c"
    and library: "\<And>t c'. jwt_parse lib t token = Inr c' \<Longrightarrow> c' = c \<and> t \<le> cl_expires c"
    and later: "account_steps lib w1 w2" and path: "\<not> isPublicPath path"
  shows "\<exists>code w3. \<forall>next. run_state (Auth lib path (Some token) next) w2 = ((401, code), w3)"
proof (rule Auth_refuses [OF logout(2) path, where c = c])
  have "stays_revoked w1 w2" by (rule revoked.steps_respect [OF later])
  with Logout_revokes [OF logout token own]
  have kept: "(j, cl_expires c) \<in> set (w_revoked w2) \<or> cl_expires c < w_clock w2"
    by (auto simp: stays_revoked_def)
  assume "jwt_parse lib (w_clock w2) token = Inr c"
  with library [of "w_clock w2" c] kept have "(j, cl_expires c) \<in> set (w_revoked w2)" by auto
  with token(2) show "\<exists>j. cl_id c = Some j \<and> j \<in> fst ` set (w_revoked w2)"
    by (auto intro!: image_eqI [where x = "(j, cl_expires c)"])
qed (use library in blast)

section \<open>Changing the password\<close>

lemma ChangePassword_runs:
  assumes "w_faults w = []" and "run_state (ChangePassword lib i old new) w = (Inr (), w')"
  obtains u h where "tbl_find usr_id i (liveUsers w) = Some u" "bcrypt_matches lib (usr_password u) old"
    "8 \<le> length new" "bcrypt_generate lib new w = Inr h"
    "w' = w\<lparr>w_users := tbl_update usr_id i
       (\<lambda>u. if alive u then u\<lparr>usr_password := h, usr_updated_at := w_clock w\<rparr> else u) (w_users w)\<rparr>"
proof -
  from assms obtain u where u: "tbl_find usr_id i (liveUsers w) = Some u"
    by (auto simp: ChangePassword_def GetUserByID_def raw_op_def run_simps split: option.splits)
  with assms obtain h where "bcrypt_generate lib new w = Inr h"
    by (auto simp: ChangePassword_def GetUserByID_def raw_op_def hashPassword_def run_simps
        split: if_splits sum.splits)
  with u assms that show ?thesis
    by (auto simp: ChangePassword_def GetUserByID_def raw_op_def hashPassword_def run_simps
        UpdateUserPasswordHash_def updateLive_def split: if_splits)
qed

lemma find_live_updated:
  assumes "\<And>u. usr_id (f u) = usr_id u" "\<And>u. usr_email (f u) = usr_email u" "\<And>u. alive (f u) = alive u"
    and "distinct (map usr_email us)" "distinct (map usr_id us)" "u \<in> set us" "alive u"
  shows "tbl_find usr_email (usr_email u) (filter alive (tbl_update usr_id (usr_id u) f us)) = Some (f u)"
proof -
  let ?vs = "tbl_update usr_id (usr_id u) f us"
  have "map usr_email ?vs = map usr_email us" by (rule map_tbl_update) (simp add: assms)
  then have "distinct (map usr_email (filter alive ?vs))"
    using assms(4) by (metis distinct_map_filter)
  moreover have "f u \<in> set (filter alive ?vs)"
    using assms by (auto simp: set_tbl_update intro!: image_eqI [where x = u])
  ultimately show ?thesis using assms(2) by (simp add: tbl_find_Some_iff)
qed

text \<open>
  a password change is what a login sees. When a change succeeds (no call failing), a login with
  the address of the account and the new password succeeds for this account, provided that the
  bcrypt library accepts a password for the hash it made of it and the token can be signed.
\<close>

theorem change_password_then_login:
  assumes ok: "accounts_ok w" "w_faults w = []"
    and change: "run_state (ChangePassword lib i old new) w = (Inr (), w')"
    and account: "tbl_find usr_id i (liveUsers w) = Some u" "usr_email u \<noteq> []"
    and bcrypt: "\<And>h v. bcrypt_generate lib new v = Inr h \<Longrightarrow> bcrypt_matches lib h new"
    and sign: "\<And>c. \<exists>s. jwt_sign lib c = Inr s"
  shows "\<exists>v token. fst (run_state (Login lib (usr_email u) new) w') = Inr (v, token) \<and> usr_id v = i"
proof -
  obtain h where h: "8 \<le> length new" "bcrypt_generate lib new w = Inr h"
    and w': "w' = w\<lparr>w_users := tbl_update usr_id i
       (\<lambda>u. if alive u then u\<lparr>usr_password := h, usr_updated_at := w_clock w\<rparr> else u) (w_users w)\<rparr>"
    using ok(2) change by (rule ChangePassword_runs) blast
  let ?f = "\<lambda>u. if alive u then u\<lparr>usr_password := h, usr_updated_at := w_clock w\<rparr> else u"
  have u: "u \<in> set (w_users w)" "usr_id u = i" "alive u" using liveUser [OF account(1)] by simp_all
  have "tbl_find usr_email (usr_email u) (filter alive (tbl_update usr_id (usr_id u) ?f (w_users w))) = Some (?f u)"
    by (rule find_live_updated) (use ok(1) u in \<open>auto simp: accounts_ok_def alive_def\<close>)
  then have found: "tbl_find usr_email (usr_email u) (liveUsers w') = Some (u\<lparr>usr_password := h, usr_updated_at := w_clock w\<rparr>)"
    using u by (simp add: liveUsers_def w')
  have "w_faults w' = []" using ok(2) w' by simp
  moreover have "new \<noteq> []" using h(1) by auto
  moreover obtain s where "jwt_sign lib \<lparr>cl_user = i, cl_role = usr_role u, cl_id = Some (w_next w'),
      cl_expires = jwt_date lib (w_clock w' + jwt_expiration lib), cl_issued = jwt_date lib (w_clock w')\<rparr> = Inr s"
    using sign by blast
  ultimately show ?thesis
    using found account(2) bcrypt [OF h(2)] u(2)
    by (simp add: Login_def GetUserByEmail_def raw_op_def withToken_def generateToken_def run_simps)
qed

end
