(* ===== verification/BoardSpec.thy ===== *)
theory BoardSpec
  imports AccountsSpec
begin

text \<open>
  What the board services guarantee: what an accepted pipeline configuration looks like and what the
  default one does, what an update can and cannot change, and what a failed creation leaves.
\<close>

section \<open>Pipeline configurations\<close>

definition sound_step :: "pipeline_step \<Rightarrow> bool" where
  "sound_step s \<longleftrightarrow> ps_name s \<noteq> [] \<and> ValidActionTypes (ps_action_type s)"

definition sound_config :: "pipeline_config_yaml \<Rightarrow> bool" where
  "sound_config c \<longleftrightarrow> groups c \<noteq> [] \<and>
     (\<forall>g \<in> set (groups c). pg_name g \<noteq> [] \<and> pg_steps g \<noteq> [] \<and> list_all sound_step (pg_steps g))"

lemma invalidStep_None: "invalidStep i j s = None \<longleftrightarrow> sound_step s"
  by (auto simp: invalidStep_def sound_step_def ValidActionTypes_def)

lemma first_None [simp]: "(case x of None \<Rightarrow> y | Some e \<Rightarrow> Some e) = None \<longleftrightarrow> x = None \<and> y = None"
  by (simp split: option.split)

lemma invalidSteps_None: "invalidSteps i j ss = None \<longleftrightarrow> list_all sound_step ss"
  by (induction ss arbitrary: j) (simp_all add: invalidStep_None)

lemma invalidGroup_None:
  "invalidGroup i g = None \<longleftrightarrow> pg_name g \<noteq> [] \<and> pg_steps g \<noteq> [] \<and> list_all sound_step (pg_steps g)"
  by (simp add: invalidGroup_def invalidSteps_None)

lemma invalidGroups_None:
  "invalidGroups i gs = None \<longleftrightarrow>
     (\<forall>g \<in> set gs. pg_name g \<noteq> [] \<and> pg_steps g \<noteq> [] \<and> list_all sound_step (pg_steps g))"
  by (induction gs arbitrary: i) (simp_all add: invalidGroup_None)

lemma validate_iff:
  "validatePipelineConfigYAML decode yaml = Inr () \<longleftrightarrow>
     yaml \<noteq> [] \<and> (\<exists>c. ParsePipelineConfigYAML decode yaml = Inr c \<and> sound_config c)"
  by (auto simp: validatePipelineConfigYAML_def sound_config_def simp flip: invalidGroups_None [of 0]
      split: sum.split option.split)

text \<open>The row of a project after a write of its configuration.\<close>

definition configRow :: "uuid \<Rightarrow> world \<Rightarrow> pipeline_config option" where
  "configRow p w = tbl_find pc_project p (w_configs w)"

definition nextVersion :: "pipeline_config option \<Rightarrow> int" where
  "nextVersion c = (case c of None \<Rightarrow> 1 | Some x \<Rightarrow> pc_version x + 1)"

lemma UpsertPipelineConfig_Inr:
  assumes "run_state (UpsertPipelineConfig p yaml) w = (Inr c, w')"
  shows "configRow p w' = Some c \<and> pc_yaml c = yaml \<and> pc_version c = nextVersion (configRow p w)"
proof -
  from assms obtain fs where "run_state (writing (\<lambda>w. case tbl_find pc_project p (w_configs w) of
           Some c \<Rightarrow> (Inr (set_config yaml w c),
              w\<lparr>w_configs := tbl_update pc_project p (set_config yaml w) (w_configs w)\<rparr>)
         | None \<Rightarrow>
             if tbl_find project_id p (w_projects w) = None
             then (Inl (NewInternal ''failed to upsert pipeline config'' db_failure), w)
             else
               let c = \<lparr>pc_id = w_next w, pc_project = p, pc_yaml = yaml, pc_version = 1,
                        pc_created_at = w_clock w, pc_updated_at = w_clock w\<rparr>
               in (Inr c, w\<lparr>w_configs := w_configs w @ [c], w_next := Suc (w_next w)\<rparr>))) (w\<lparr>w_faults := fs\<rparr>)
      = (Inr c, w')"
    unfolding UpsertPipelineConfig_def by (rule run_db_op_Inr)
  then show ?thesis
    by (auto simp: run_simps configRow_def nextVersion_def set_config_def tbl_find_update tbl_find_append Let_def
        split: option.splits if_splits)
qed

text \<open>
  C24: a pipeline configuration that is saved has at least one group, every group a name and at least
  one step, every step a name and a known action; the project's row then holds its text under the
  next version. A text that does not satisfy this is refused with nothing written.
\<close>

theorem saved_config_is_sound:
  assumes "run_state (ConfigUpsert decode p yaml) w = (r, w')"
  shows "(\<forall>c. r = Inr c \<longrightarrow> configRow p w' = Some c \<and> pc_yaml c = yaml
            \<and> pc_version c = nextVersion (configRow p w)
            \<and> (\<exists>y. ParsePipelineConfigYAML decode (pc_yaml c) = Inr y \<and> sound_config y))
    \<and> (\<not> (\<exists>y. yaml \<noteq> [] \<and> ParsePipelineConfigYAML decode yaml = Inr y \<and> sound_config y)
        \<longrightarrow> w' = w \<and> (\<exists>e. r = Inl e))"
proof (cases "validatePipelineConfigYAML decode yaml")
  case (Inl e)
  then show ?thesis using assms validate_iff [of decode yaml]
    by (auto simp: ConfigUpsert_def lift_def run_simps)
next
  case (Inr x)
  then have valid: "\<exists>y. yaml \<noteq> [] \<and> ParsePipelineConfigYAML decode yaml = Inr y \<and> sound_config y"
    using validate_iff [of decode yaml] by auto
  with Inr assms have "run_state (UpsertPipelineConfig p yaml) w = (r, w')"
    by (simp add: ConfigUpsert_def lift_def run_simps)
  with valid show ?thesis using UpsertPipelineConfig_Inr [of p yaml w _ w'] by auto
qed

subsection \<open>The default configuration\<close>

text \<open>What the default text says, as the YAML decoder returns it.\<close>

definition defaultStep :: "string \<Rightarrow> string \<Rightarrow> string \<Rightarrow> (string \<times> string) list \<Rightarrow> pipeline_step" where
  "defaultStep i name act cfg =
     \<lparr>ps_id = i, ps_name = name, ps_action_type = act, ps_description = [], ps_agent_id = [], ps_model = [],
      ps_auto_approve = False, ps_retry_policy = \<lparr>max_retries = 0, retry_type = []\<rparr>,
      ps_config = Some (map_of cfg), ps_guards = []\<rparr>"

definition defaultGroup :: "string \<Rightarrow> string \<Rightarrow> pipeline_step list \<Rightarrow> pipeline_group" where
  "defaultGroup i name steps =
     \<lparr>pg_id = i, pg_name = name, pg_steps = steps, pg_transition = [], pg_guards = []\<rparr>"

definition defaultRaw :: pipeline_config_raw where
  "defaultRaw =
     \<lparr>raw_groups =
       [defaultGroup ''setup'' ''Setup''
          [defaultStep ''git-branch'' ''Create Branch'' ''git_branch'' [(''base_branch'', ''main'')]],
        defaultGroup ''development'' ''Development''
          [defaultStep ''agent-implement'' ''Implement Story'' ''agent_run''
             [(''role'', ''dev''), (''phase'', ''dev-story'')]],
        defaultGroup ''review'' ''Review''
          [defaultStep ''agent-review'' ''Code Review'' ''agent_run''
             [(''role'', ''review''), (''phase'', ''code-review'')]],
        defaultGroup ''merge'' ''Merge''
          [defaultStep ''git-pr'' ''Create & Merge PR'' ''git_pr'' [(''strategy'', ''squash'')]],
        defaultGroup ''delivery'' ''Delivery''
          [defaultStep ''ci-poll'' ''Wait for CI'' ''ci_poll'' [(''timeout_minutes'', ''30'')],
           defaultStep ''notify'' ''Notify Completion'' ''notification'' [(''channel'', ''default'')]]],
      raw_steps = []\<rparr>"

lemma default_parses:
  assumes "decode DefaultPipelineConfigYAML = Inr defaultRaw"
  shows "ParsePipelineConfigYAML decode DefaultPipelineConfigYAML
     = Inr \<lparr>groups = map normalizeGroup (raw_groups defaultRaw)\<rparr>"
  using assms by (simp add: ParsePipelineConfigYAML_def rawGroups_def defaultRaw_def)

lemma default_sound: "sound_config \<lparr>groups = map normalizeGroup (raw_groups defaultRaw)\<rparr>"
  by (simp add: sound_config_def defaultRaw_def defaultGroup_def defaultStep_def sound_step_def
      ValidActionTypes_def)

lemma default_nonempty: "DefaultPipelineConfigYAML \<noteq> []"
  by (simp add: DefaultPipelineConfigYAML_def)

lemma default_steps:
  "\<exists>a b rest. FlatSteps \<lparr>groups = map normalizeGroup (raw_groups defaultRaw)\<rparr> = a # b # rest
     \<and> ps_action_type a = ''git_branch'' \<and> ps_agent_id a = [] \<and> ps_model a = []
     \<and> ps_action_type b = ''agent_run'' \<and> ps_agent_id b = []"
  by (simp add: FlatSteps_concat defaultRaw_def defaultGroup_def defaultStep_def)

lemma default_launch:
  assumes "s_unmarshal svc DefaultPipelineConfigYAML = Inr defaultRaw"
  shows "\<exists>e. run_state (launchConfigured svc p s u DefaultPipelineConfigYAML) w = (Inl e, w)"
proof -
  obtain a b rest where "FlatSteps \<lparr>groups = map normalizeGroup (raw_groups defaultRaw)\<rparr> = a # b # rest"
    "ps_action_type a = ''git_branch''" "ps_agent_id a = []" "ps_model a = []"
    "ps_action_type b = ''agent_run''" "ps_agent_id b = []"
    using default_steps by blast
  then show ?thesis
    using default_parses [where decode = "s_unmarshal svc", OF assms]
    by (simp add: launchConfigured_def stepMetadata_def needsAgent_def run_simps)
qed

text \<open>A read of the store changes nothing but the list of pending failures.\<close>

definition only_reads :: "world \<Rightarrow> world \<Rightarrow> bool" where
  "only_reads w w' \<longleftrightarrow> (\<exists>fs. w' = w\<lparr>w_faults := fs\<rparr>)"

interpretation unread: frame only_reads
proof
  show "only_reads s s" for s unfolding only_reads_def by (rule exI [where x = "w_faults s"]) simp
  show "only_reads s u" if "only_reads s t" "only_reads t u" for s t u
    using that unfolding only_reads_def by auto
qed

lemma quiet_db_op [frame_intros]: "keeps only_reads (db_op what (reading f))"
proof (rule keepsI)
  fix w
  have "only_reads w w" by (rule unread.frame_refl)
  moreover have "only_reads w (w\<lparr>w_faults := bs\<rparr>)" for bs unfolding only_reads_def by blast
  ultimately show "only_reads w (snd (run_state (db_op what (reading f)) w))"
    by (simp add: run_db_op_faults run_simps split: list.split)
qed

lemma quiet_reads:
  "keeps only_reads (GetStoryByID i)" "keeps only_reads (GetActiveRunByStory i)"
  "keeps only_reads (GetPipelineConfig i)" "keeps only_reads (GetProjectByID i)"
  unfolding GetStoryByID_def GetActiveRunByStory_def GetPipelineConfig_def GetProjectByID_def find_row_def
  by (rule quiet_db_op)+

lemma run_GetPipelineConfig:
  "fst (run_state (GetPipelineConfig p) w) = Inr c \<Longrightarrow> configRow p w = Some c"
  by (auto simp: GetPipelineConfig_def run_db_op_faults run_simps configRow_def
      split: list.splits option.splits if_splits)

text \<open>
  C36: the default configuration, seeded into every new project, passes the validation and can never
  be launched: its agent steps name no agent, which a launch requires. A launch of any story of a
  project with the default text fails and leaves the state as it was.
\<close>

theorem default_pipeline_not_launchable:
  assumes "s_unmarshal svc DefaultPipelineConfigYAML = Inr defaultRaw"
    and "configRow p w = Some cfg" and "pc_yaml cfg = DefaultPipelineConfigYAML"
  shows "validatePipelineConfigYAML (s_unmarshal svc) DefaultPipelineConfigYAML = Inr ()
    \<and> (\<exists>e fs. run_state (LaunchRun svc p s u) w = (Inl e, w\<lparr>w_faults := fs\<rparr>))"
proof
  show "validatePipelineConfigYAML (s_unmarshal svc) DefaultPipelineConfigYAML = Inr ()"
    using default_parses [where decode = "s_unmarshal svc", OF assms(1)] default_sound default_nonempty by (simp add: validate_iff)
  obtain r1 w1 where story: "run_state (GetStoryByID s) w = (r1, w1)" by (meson surj_pair)
  obtain r2 w2 where active: "run_state (GetActiveRunByStory s) w1 = (r2, w2)" by (meson surj_pair)
  obtain r3 w3 where config: "run_state (GetPipelineConfig p) w2 = (r3, w3)" by (meson surj_pair)
  note quiet = keepsD [OF quiet_reads(1) story] keepsD [OF quiet_reads(2) active] keepsD [OF quiet_reads(3) config]
  then have seen: "only_reads w w1" "only_reads w w2" "only_reads w w3"
    by (blast intro: unread.frame_trans)+
  have same: "configRow p w2 = configRow p w" using seen(2) by (auto simp: only_reads_def configRow_def)
  have "r3 = Inr c \<Longrightarrow> c = cfg" for c
    using run_GetPipelineConfig [of p w2 c] config same assms(2) by simp
  moreover obtain e where "run_state (launchConfigured svc p s u (pc_yaml cfg)) w3 = (Inl e, w3)"
    using default_launch [OF assms(1)] assms(3) by metis
  ultimately have "\<exists>e w'. run_state (LaunchRun svc p s u) w = (Inl e, w') \<and> only_reads w w'"
    using story active config seen
    by (cases r1; cases r2; cases r3) (auto simp: LaunchRun_def run_simps split: option.split)
  then show "\<exists>e fs. run_state (LaunchRun svc p s u) w = (Inl e, w\<lparr>w_faults := fs\<rparr>)"
    by (auto simp: only_reads_def)
qed

section \<open>Projects\<close>

text \<open>
  An update of a project cannot clear a field. Whatever the flags say that announce a field as
  explicitly set, an absent repository URL, token variable or model leaves the stored one, and a
  budget, once there, can be changed and not removed.
\<close>

theorem project_update_cannot_clear:
  assumes "tbl_find project_id i (w_projects w) = Some p"
    and "run_state (ProjectUpdate i u) w = (r, w')"
  shows "\<exists>p'. tbl_find project_id i (w_projects w') = Some p'
    \<and> (pu_repo_url u = None \<longrightarrow> project_repo_url p' = project_repo_url p)
    \<and> (pu_git_token_env u = None \<longrightarrow> project_git_token_env p' = project_git_token_env p)
    \<and> (pu_default_model u = None \<longrightarrow> project_default_model p' = project_default_model p)
    \<and> (project_max_budget p \<noteq> None \<longrightarrow> project_max_budget p' \<noteq> None)"
proof -
  obtain q v where q: "run_state (GetProjectByID i) w = (q, v)" by (meson surj_pair)
  then have v: "w_projects v = w_projects w"
    using keepsD [OF quiet_reads(4) q] by (auto simp: only_reads_def)
  have read: "q = Inr x \<Longrightarrow> x = toDomainProject p" for x
    using q assms(1) by (auto simp: GetProjectByID_def run_db_op_faults run_simps split: list.splits if_splits)
  show ?thesis
  proof (cases "\<exists>name. q = Inr (toDomainProject p) \<and> run_state (UpdateProject (updatedProject u name (toDomainProject p))) v = (r, w')")
    case False
    then have "w' = v"
      using assms(2) q read
      by (cases q) (auto simp: ProjectUpdate_def lift_def checkDescription_def check_def run_simps
          split: sum.splits if_splits)
    with v assms(1) show ?thesis by auto
  next
    case True
    then obtain name where up: "run_state (UpdateProject (updatedProject u name (toDomainProject p))) v = (r, w')" by blast
    let ?x = "updatedProject u name (toDomainProject p)"
    have id: "project_id ?x = i" using assms(1) by (auto simp: updatedProject_def)
    have "w_projects w' = w_projects v \<or>
      (\<exists>v'. w_projects w' = tbl_update project_id i (set_project ?x v') (w_projects v))"
      using up
      by (auto simp: UpdateProject_def run_db_op_faults run_simps id split: list.splits option.splits if_splits)
    then show ?thesis
      using assms(1) v
      by (auto simp: tbl_find_update set_project_def updatedProject_def toDomainProject_def coalesce_def
          split: option.split)
  qed
qed

text \<open>
  The creation of a project is not atomic. When the project is written and the seeding of its
  configuration then fails, the caller gets an error, the project stays, without a configuration, and
  the same request again is a conflict.
\<close>

theorem failed_seeding_leaves_project:
  assumes "checkName ''name'' (pp_name a) = ok ()"
    and "checkDescription MaxProjectDescriptionLength (pp_description a) = ok ()"
    and "\<not> projectNameTaken None (pp_name a) w" and "w_faults w = [False, True]"
  defines "w' \<equiv> after (ProjectCreate True a) w"
  shows "(\<exists>e. fst (run_state (ProjectCreate True a) w) = Inl e)
    \<and> (\<exists>p \<in> set (w_projects w'). project_name p = pp_name a) \<and> w_configs w' = w_configs w
    \<and> fst (run_state (ProjectCreate True a) w') = Inl (NewConflict ''project'' (pp_name a))"
proof -
  let ?p = "newProjectRow (newProject a) (w\<lparr>w_faults := [True]\<rparr>)"
  let ?v = "w\<lparr>w_faults := [], w_projects := w_projects w @ [?p], w_next := Suc (w_next w)\<rparr>"
  have name: "project_name (newProject a) = pp_name a" "project_max_budget (newProject a) = None"
    "project_name ?p = pp_name a"
    by (simp_all add: newProject_def newProjectRow_def)
  have run: "run_state (ProjectCreate True a) w
      = (Inl (WrapErr [T ''seeding default pipeline config'']
            (NewInternal ''failed to upsert pipeline config'' db_failure)), ?v)"
    using assms(1-4) name
    by (simp add: ProjectCreate_def CreateProject_def SeedDefault_def UpsertPipelineConfig_def run_simps
        run_db_op_faults budgetFits_def projectNameTaken_def run_wrap_err)
  then have "w' = ?v" by (simp add: w'_def after_def)
  moreover have "fst (run_state (ProjectCreate True a) ?v) = Inl (NewConflict ''project'' (pp_name a))"
    using assms(1,2) name
    by (simp add: ProjectCreate_def CreateProject_def run_simps run_db_op_faults budgetFits_def projectNameTaken_def)
  ultimately show ?thesis using run name by auto
qed

end
