(* ===== verification/Uses.thy ===== *)
theory Uses
  imports BoardSpec WriteBack
begin

text \<open>
  Everything together: the operations of the run engine, of the accounts, of the board, of the
  catalogues and of the write-back, in any order. The frame rules of the groups of services are put together, and
  the invariants of the whole store are proved for all of it, deletions included.
\<close>

section \<open>Everything that can happen to the store\<close>

inductive uses :: "world \<Rightarrow> world \<Rightarrow> bool" where
  engine: "reaches w w' \<Longrightarrow> uses w w'"
| accounts: "account_steps lib w w' \<Longrightarrow> uses w w'"
| further: "uses u v \<Longrightarrow> uses v w \<Longrightarrow> uses u w"
| create_project: "uses w (after (ProjectCreate seeds a) w)"
| update_project: "uses w (after (ProjectUpdate i u) w)"
| delete_project: "uses w (after (ProjectDelete i) w)"
| upsert_config: "uses w (after (ConfigUpsert decode i y) w)"
| create_epic: "uses w (after (EpicCreate p n d st) w)"
| update_epic: "uses w (after (EpicUpdate i n' d' st') w)"
| delete_epic: "uses w (after (EpicDelete i) w)"
| create_story: "uses w (after (StoryCreate x) w)"
| update_story: "uses w (after (StoryUpdate i su) w)"
| delete_story: "uses w (after (StoryDelete i) w)"
| add_member: "uses w (after (MemberAdd p i r) w)"
| remove_member: "uses w (after (MemberRemove p i) w)"
| create_key: "uses w (after (CreateKey se i ty n raw) w)"
| delete_key: "uses w (after (DeleteKey i j) w)"
| read_key: "uses w (after (DecryptKeyForUserProvider se i ty) w)"
| create_global: "uses w (after (CreateGlobal se n raw) w)"
| create_credential: "uses w (after (CreateForProject se n p raw) w)"
| delete_credential: "uses w (after (DeleteCredential i) w)"
| set_git: "uses w (after (GitSet gs p i gi) w)"
| test_git: "uses w (after (GitTest gs p i body) w)"
| clear_git: "uses w (after (GitClear gs p i) w)"
| resolve_git: "uses w (after (TokenForProject gs p) w)"
| reconcile_git: "uses w (after (ReconcileFromOperationError p opErr) w)"
| create_capability: "uses w (after (CreateCapability c) w)"
| delete_capability: "uses w (after (DeleteCapability i) w)"
| attach: "uses w (after (AttachToAgent i j) w)"
| detach: "uses w (after (DetachFromAgent i j) w)"
| fetch_bundle: "uses w (after (HandleBundle se sc ct) w)"
| create_agent: "uses w (after (AgentCreate ap) w)"
| update_agent: "uses w (after (AgentUpdate i au) w)"
| delete_agent: "uses w (after (AgentDelete i) w)"
| seed_stacks: "uses w (after (SeedStacks ss) w)"
| upsert_environment: "uses w (after (EnvUpsert p ei) w)"
| delete_environment: "uses w (after (EnvDelete p) w)"
| create_notification: "uses w (after (NotifyCreate p ni) w)"
| update_notification: "uses w (after (NotifyUpdate i ni) w)"
| delete_notification: "uses w (after (NotifyDelete i) w)"
| test_notification: "uses w (after (NotifyTest ns i) w)"
| notify: "uses w (after (dispatch ns ev) w)"
| set_connector: "uses w (after (SetConnector tk p ci) w)"
| write_back: "uses w (after (WriteBackWork tk jb) w)"

locale whole_frame = engine: system_frame R + people: account_frame R + board: board_frame R
    + catalogue: catalogue_frame R
  for R :: "world \<Rightarrow> world \<Rightarrow> bool" +
  assumes upsert_connector: "\<And>c. keeps R (UpsertConnector c)"
    and audit: "\<And>b. keeps R (CreateWriteBack b)"
begin

lemmas connector_writes [frame_intros] = upsert_connector audit

lemma connector_reads [frame_intros]: "keeps R (GetConnector p)"
  unfolding GetConnector_def by (intro people.call_keeps frame_intros)

lemma push_keeps [frame_intros]: "keeps R (WriteBack tk rq)"
  by (simp add: keeps_def WriteBack_def run_simps people.called engine.frame_refl split: sum.split)

lemma best_effort_keeps [frame_intros]: "keeps R m \<Longrightarrow> keeps R (bestEffort m)"
  unfolding bestEffort_def by (intro frame_intros)

lemma git_keeps [frame_intros]:
  "keeps R (TokenForProject gs p)" "keeps R (ReconcileFromOperationError p opErr)" "keeps R (GitSet gs p i gi)"
  "keeps R (GitTest gs p i body)" "keeps R (GitClear gs p i)"
proof -
  have get: "keeps R (GetGitConnection p)" for p
    unfolding GetGitConnection_def by (intro people.call_keeps frame_intros)
  have view: "keeps R (pastExpiry x)" "keeps R (viewFromConn c)" "keeps R (statusFromProbe r)" for x c r
    unfolding viewFromConn_def statusFromProbe_def pastExpiry_def by (intro frame_intros)+
  have read: "keeps R (legacyEnvFallback gs p)" "keeps R (providerBaseURL gs p pv)" for pv
    unfolding legacyEnvFallback_def providerBaseURL_def Let_def by (intro frame_intros)+
  have stores: "keeps R (auditGit gs p act entries)" "keeps R (persist gs p pv token f)" for act entries pv token f
    unfolding auditGit_def persist_def by (intro frame_intros view)+
  show "keeps R (TokenForProject gs p)" "keeps R (ReconcileFromOperationError p opErr)" "keeps R (GitClear gs p i)"
    unfolding TokenForProject_def ReconcileFromOperationError_def GitClear_def bestEffort_def
    by (intro frame_intros get read stores)+
  show "keeps R (GitSet gs p i gi)"
    unfolding GitSet_def storeUnverified_def storeVerified_def Let_def by (intro frame_intros read view stores)
  show "keeps R (GitTest gs p i body)"
    unfolding GitTest_def storedToken_def givenToken_def reconcileStoredFromProbe_def recordTest_def bestEffort_def Let_def
    by (intro frame_intros get read view stores)
qed

lemma connector_keeps [frame_intros]: "keeps R (SetConnector tk p a)"
  unfolding SetConnector_def checkWriteBack_def by (intro frame_intros)

lemma sync_keeps [frame_intros]: "keeps R (SyncStatus tk i r st)"
  unfolding SyncStatus_def syncStory_def pushStatus_def markDisabled_def recordPushed_def recordPushFailure_def
  by (intro frame_intros)

lemma write_back_keeps [frame_intros]: "keeps R (WriteBackWork tk j)"
  by (cases j) (auto intro: frame_intros)

theorem uses_respect: "uses w w' \<Longrightarrow> R w w'"
proof (induction rule: uses.induct)
  case (engine w w')
  then show ?case by (rule engine.reaches_respects)
next
  case (accounts lib w w')
  then show ?case by (rule people.steps_respect)
next
  case (further u v w)
  then show ?case by (blast intro: engine.frame_trans)
qed (auto simp flip: after_def intro!: keeps_after frame_intros)

end

section \<open>The references stay intact\<close>

text \<open>Rows that are taken out, and rows nothing refers to any more.\<close>

lemma references_both:
  assumes "references col rs key os"
    and "\<And>x y. x \<in> set rs \<Longrightarrow> \<not> gone x \<Longrightarrow> y \<in> set os \<Longrightarrow> col x = key y \<Longrightarrow> \<not> gone' y"
  shows "references col (without gone rs) key (without gone' os)"
proof -
  have "col x \<in> key ` set (without gone' os)" if x: "x \<in> set rs" "\<not> gone x" for x
  proof -
    from assms(1) x obtain y where y: "y \<in> set os" "col x = key y" by (auto simp: references_def)
    with assms(2) [OF x y] show ?thesis by (simp add: without_def)
  qed
  then show ?thesis by (auto simp: references_def without_def)
qed

lemma without_none [simp]: "without (\<lambda>_. False) rs = rs"
  by (simp add: without_def)

lemma references_kept:
  "references col rs key os \<Longrightarrow> (\<And>x y. x \<in> set rs \<Longrightarrow> y \<in> set os \<Longrightarrow> col x = key y \<Longrightarrow> \<not> gone y) \<Longrightarrow>
     references col rs key (without gone os)"
  using references_both [of col rs key os "\<lambda>_. False" gone] by simp

lemma references_fewer: "references col rs key os \<Longrightarrow> references col (without gone rs) key os"
  by (auto simp: references_def without_def)

lemma may_reference_without:
  "may_reference ocol rs key os \<Longrightarrow> may_reference ocol (without gone rs) key os"
  "primary pkey rs n \<Longrightarrow> primary pkey (without gone rs) n"
  "distinct (map f rs) \<Longrightarrow> distinct (map f (without gone rs))"
  by (auto simp: may_reference_def primary_def without_def distinct_map_filter)

lemmas cascade_intros = references_both references_fewer references_kept may_reference_without

lemma unlink_Some [simp]: "unlink gone x = Some i \<longleftrightarrow> x = Some i \<and> i \<notin> set gone"
  by (auto simp: unlink_def split: option.split)

lemma set_without [simp]: "x \<in> set (without gone rs) \<longleftrightarrow> x \<in> set rs \<and> \<not> gone x"
  by (auto simp: without_def)

lemma references_map [simp]:
  "(\<And>r. col (f r) = col r) \<Longrightarrow> references col (map f rs) key os = references col rs key os"
  "(\<And>r. key (g r) = key r) \<Longrightarrow> references col rs key (map g os) = references col rs key os"
  "(\<And>r. key (g r) = key r) \<Longrightarrow> may_reference ocol rs key (map g os) = may_reference ocol rs key os"
  "(\<And>r. ocol (f r) = ocol r) \<Longrightarrow> may_reference ocol (map f rs) key os = may_reference ocol rs key os"
  "(\<And>r. pkey (f r) = pkey r) \<Longrightarrow> primary pkey (map f rs) n = primary pkey rs n"
  by (simp_all add: references_def may_reference_def primary_def image_image comp_def)

lemma may_reference_unlink:
  "may_reference ocol rs key os \<Longrightarrow> (\<And>r. ocol (f r) = unlink gone (ocol r)) \<Longrightarrow>
     (\<And>y. y \<in> set os \<Longrightarrow> g y \<Longrightarrow> key y \<in> set gone) \<Longrightarrow>
     may_reference ocol (map f rs) key (without g os)"
  by (fastforce simp: may_reference_def)

lemma db_ok_dropEpicRuns:
  assumes "db_ok w"
  shows "db_ok (dropEpicRuns ers w)"
proof -
  note ok = assms [unfolded db_ok_def]
  show ?thesis
    unfolding db_ok_def dropEpicRuns_def by (simp, intro conjI cascade_intros; simp add: ok)
qed

lemma db_ok_dropEpics:
  assumes "db_ok w"
  shows "db_ok (dropEpics epics w)"
proof -
  let ?v = "dropEpicRuns (map er_id (filter (\<lambda>x. er_epic x \<in> set epics) (w_epic_runs w))) w"
  note ok = db_ok_dropEpicRuns [OF assms, unfolded db_ok_def]
  have gone: "x \<in> set (w_epic_runs ?v) \<Longrightarrow> er_epic x = k \<Longrightarrow> k \<notin> set epics" for x k
    by (auto simp: dropEpicRuns_def)
  have same: "w_stories ?v = w_stories w" "w_epics ?v = w_epics w"
    by (simp_all add: dropEpicRuns_def)
  have "db_ok (?v\<lparr>w_stories := map (\<lambda>s. s\<lparr>story_epic := unlink epics (story_epic s)\<rparr>) (w_stories ?v),
      w_epics := without (\<lambda>e. epic_id e \<in> set epics) (w_epics ?v)\<rparr>)"
    unfolding db_ok_def by (simp, intro conjI cascade_intros; (simp add: ok; fail | erule (1) gone))
  then show ?thesis by (simp add: dropEpics_def same)
qed

lemma db_ok_dropStories:
  assumes "db_ok w"
  shows "db_ok (dropStories stories w)"
proof -
  note ok = assms [unfolded db_ok_def]
  show ?thesis
    unfolding db_ok_def dropStories_def by (simp, intro conjI cascade_intros; simp add: ok)
qed

lemma db_ok_dropAgents:
  assumes "db_ok w"
  shows "db_ok (dropAgents agents w)"
proof -
  note ok = assms [unfolded db_ok_def]
  show ?thesis
    unfolding db_ok_def dropAgents_def by (simp, intro conjI may_reference_unlink; simp add: ok)
qed

lemma db_ok_dropCapabilities: "db_ok w \<Longrightarrow> db_ok (dropCapabilities caps w)"
  by (simp add: db_ok_def dropCapabilities_def)

lemma db_ok_dropRuns:
  assumes "db_ok w"
  shows "db_ok (dropRuns runs (projectSteps runs w) w)"
proof -
  note ok = assms [unfolded db_ok_def]
  have gone: "k \<notin> set runs" if "s \<in> set (w_steps w)" "rs_id s \<notin> set (projectSteps runs w)" "rs_run s = k" for s k
    using that by (auto simp: projectSteps_def)
  show ?thesis
    unfolding db_ok_def dropRuns_def
    by (simp, intro conjI may_reference_unlink cascade_intros;
        (simp add: ok comp_def; fail | erule (2) gone))
qed

text \<open>Nothing of a project is left when its own rows go.\<close>

lemma db_ok_dropProjectRows:
  assumes "db_ok w"
    and "\<forall>r \<in> set (w_runs w). run_project r \<noteq> p" "\<forall>s \<in> set (w_stories w). story_project s \<noteq> p"
    and "\<forall>e \<in> set (w_epics w). epic_project e \<noteq> p" "\<forall>x \<in> set (w_epic_runs w). er_project x \<noteq> p"
    and "\<forall>e \<in> set (w_events w). ev_project e \<noteq> p"
  shows "db_ok (dropProjectRows p w)"
proof -
  note ok = assms(1) [unfolded db_ok_def]
  have gone: "x \<in> set (w_runs w) \<Longrightarrow> run_project x = k \<Longrightarrow> k \<noteq> p"
    "s \<in> set (w_stories w) \<Longrightarrow> story_project s = k \<Longrightarrow> k \<noteq> p"
    "e \<in> set (w_epics w) \<Longrightarrow> epic_project e = k \<Longrightarrow> k \<noteq> p"
    "u \<in> set (w_epic_runs w) \<Longrightarrow> er_project u = k \<Longrightarrow> k \<noteq> p"
    "v \<in> set (w_events w) \<Longrightarrow> ev_project v = k \<Longrightarrow> k \<noteq> p" for x s e u v k
    using assms(2-6) by auto
  show ?thesis
    unfolding db_ok_def dropProjectRows_def
    by (simp, intro conjI cascade_intros; (simp add: ok; fail | erule (1) gone))
qed

lemma drop_fields [simp]:
  "w_runs (dropRuns rs ss w) = without (\<lambda>r. run_id r \<in> set rs) (w_runs w)"
  "w_stories (dropRuns rs ss w) = w_stories w" "w_epics (dropRuns rs ss w) = w_epics w"
  "w_epic_runs (dropRuns rs ss w) = w_epic_runs w" "w_events (dropRuns rs ss w) = w_events w"
  "w_runs (dropEpicRuns es w) = w_runs w" "w_stories (dropEpicRuns es w) = w_stories w"
  "w_epics (dropEpicRuns es w) = w_epics w" "w_events (dropEpicRuns es w) = w_events w"
  "w_epic_runs (dropEpicRuns es w) = without (\<lambda>x. er_id x \<in> set es) (w_epic_runs w)"
  "w_runs (dropStories ks w) = w_runs w" "w_epics (dropStories ks w) = w_epics w"
  "w_epic_runs (dropStories ks w) = w_epic_runs w" "w_events (dropStories ks w) = w_events w"
  "w_stories (dropStories ks w) = without (\<lambda>s. story_id s \<in> set ks) (w_stories w)"
  by (simp_all add: dropRuns_def dropEpicRuns_def dropStories_def)

lemma drop_fields' [simp]:
  "w_runs (dropEpics ks w) = w_runs w" "w_events (dropEpics ks w) = w_events w"
  "w_epics (dropEpics ks w) = without (\<lambda>e. epic_id e \<in> set ks) (w_epics w)"
  "w_stories (dropEpics ks w) = map (\<lambda>s. s\<lparr>story_epic := unlink ks (story_epic s)\<rparr>) (w_stories w)"
  "w_epic_runs (dropEpics ks w)
     = without (\<lambda>x. er_id x \<in> er_id ` {x \<in> set (w_epic_runs w). er_epic x \<in> set ks}) (w_epic_runs w)"
  "w_runs (dropAgents as w) = w_runs w" "w_stories (dropAgents as w) = w_stories w"
  "w_epics (dropAgents as w) = w_epics w" "w_epic_runs (dropAgents as w) = w_epic_runs w"
  "w_events (dropAgents as w) = w_events w"
  "w_runs (dropCapabilities cs w) = w_runs w" "w_stories (dropCapabilities cs w) = w_stories w"
  "w_epics (dropCapabilities cs w) = w_epics w" "w_epic_runs (dropCapabilities cs w) = w_epic_runs w"
  "w_events (dropCapabilities cs w) = w_events w"
  by (simp_all add: dropEpics_def dropAgents_def dropCapabilities_def)

lemma drop_projects [simp]:
  "w_projects (dropRuns rs ss w) = w_projects w" "w_projects (dropEpicRuns es w) = w_projects w"
  "w_projects (dropStories ks w) = w_projects w" "w_projects (dropEpics ks w) = w_projects w"
  "w_projects (dropAgents as w) = w_projects w" "w_projects (dropCapabilities cs w) = w_projects w"
  by (simp_all add: dropRuns_def dropEpicRuns_def dropStories_def dropEpics_def dropAgents_def dropCapabilities_def)

lemma none_left:
  assumes "x \<in> set rs" "key x \<notin> key ` {y \<in> set rs. col y = p}"
  shows "col x \<noteq> p"
  using assms by auto

lemma db_ok_cascade:
  assumes "db_ok w" and events: "\<forall>e \<in> set (w_events w). ev_project e \<noteq> p"
  shows "db_ok (cascadeProject p w)"
proof -
  have story: "story_project s \<noteq> p"
    if "s \<in> (\<lambda>s. s\<lparr>story_epic := unlink es (story_epic s)\<rparr>) ` set (w_stories w)"
      "story_id s \<notin> story_id ` {s \<in> set (w_stories w). story_project s = p}" for s es
  proof
    assume p: "story_project s = p"
    from that(1) obtain t where "t \<in> set (w_stories w)" "story_id s = story_id t" "story_project s = story_project t"
      by auto
    with that(2) p show False by auto
  qed
  show ?thesis
    unfolding cascadeProject_def comp_def
  proof (rule db_ok_dropProjectRows)
    show "db_ok (dropCapabilities cs (dropAgents as (dropStories ks (dropEpicRuns xs (dropEpics es
        (dropRuns (projectRuns p w) (projectSteps (projectRuns p w) w) w))))))" for cs as ks xs es
      by (intro db_ok_dropCapabilities db_ok_dropAgents db_ok_dropStories db_ok_dropEpicRuns db_ok_dropEpics
          db_ok_dropRuns assms(1))
  qed (rule ballI, simp add: projectRuns_def events; elim conjE; (erule (1) none_left | erule (1) story))+
qed

lemma db_ok_others [simp]:
  "db_ok (w\<lparr>w_users := us\<rparr>) = db_ok w" "db_ok (w\<lparr>w_resets := rs\<rparr>) = db_ok w"
  "db_ok (w\<lparr>w_revoked := ts\<rparr>) = db_ok w" "db_ok (w\<lparr>w_configs := cs\<rparr>) = db_ok w"
  "db_ok (w\<lparr>w_members := ms\<rparr>) = db_ok w" "db_ok (w\<lparr>w_connectors := ns\<rparr>) = db_ok w"
  "db_ok (w\<lparr>w_writebacks := bs\<rparr>) = db_ok w"
  by (simp_all add: db_ok_def)

lemma db_ok_counted [intro]:
  "db_ok w \<Longrightarrow> db_ok (w\<lparr>w_users := us, w_next := Suc (w_next w)\<rparr>)"
  "db_ok w \<Longrightarrow> db_ok (w\<lparr>w_resets := rs, w_next := Suc (w_next w)\<rparr>)"
  "db_ok w \<Longrightarrow> db_ok (w\<lparr>w_configs := cs, w_next := Suc (w_next w)\<rparr>)"
  "db_ok w \<Longrightarrow> db_ok (w\<lparr>w_projects := w_projects w @ [p], w_next := Suc (w_next w)\<rparr>)"
  unfolding db_ok_def by (simp_all add: primary_next references_other)

lemma integral_accounts:
  "keeps integral (CreateUser e h n r)" "keeps integral (UpdateUser u)" "keeps integral (UpdateUserPasswordHash i h)"
  "keeps integral (DeleteUser i)" "keeps integral (CreateResetToken i t x)" "keeps integral (MarkResetTokenUsed i)"
  "keeps integral (Revoke j y)" "keeps integral DeleteExpiredRevoked"
  unfolding CreateUser_def UpdateUser_def UpdateUserPasswordHash_def DeleteUser_def updateLive_def
    CreateResetToken_def MarkResetTokenUsed_def Revoke_def DeleteExpiredRevoked_def db_op_def raw_op_def
  by (rule integral_fault_op, auto simp: run_simps Let_def split: option.split)+

lemma set_row_keys [simp]:
  "project_id (set_project x w p) = project_id p" "epic_id (set_epic e w f) = epic_id f"
  "epic_project (set_epic e w f) = epic_project f"
  by (simp_all add: set_project_def set_epic_def)

lemma integral_board_creates:
  "keeps integral (CreateProject x)" "keeps integral (UpsertPipelineConfig i y)" "keeps integral (CreateEpic e)"
  "keeps integral (CreateStory s)" "keeps integral (AddUserToProject p i r)"
  "keeps integral (RemoveUserFromProject p i)" "keeps integral (UpsertConnector c)" "keeps integral (CreateWriteBack b)"
  unfolding CreateProject_def UpsertPipelineConfig_def CreateEpic_def CreateStory_def AddUserToProject_def
    RemoveUserFromProject_def UpsertConnector_def CreateWriteBack_def
  by (intro integral_db_op; auto simp: run_simps Let_def newStoryRow_def newEpicRow_def split: option.split
      intro!: db_ok_adds)+

lemma integral_board_updates:
  "keeps integral (UpdateProject x)" "keeps integral (UpdateEpic e)" "keeps integral (UpdateStoryEpic s)"
  unfolding UpdateProject_def UpdateEpic_def UpdateStoryEpic_def
  by (intro integral_db_op; auto simp: run_simps set_story_def split: option.split)+

lemma integral_board_deletes:
  "keeps integral (DeleteProject i)" "keeps integral (DeleteEpic i)" "keeps integral (DeleteStory i)"
  unfolding DeleteProject_def DeleteEpic_def DeleteStory_def
  by (intro integral_db_op; auto simp: run_simps intro: db_ok_cascade db_ok_dropEpics db_ok_dropStories)+

lemma db_ok_catalogue [simp]:
  "db_ok (w\<lparr>w_api_keys := ks\<rparr>) = db_ok w" "db_ok (w\<lparr>w_agent_caps := acs\<rparr>) = db_ok w"
  "db_ok (w\<lparr>w_environments := es\<rparr>) = db_ok w" "db_ok (w\<lparr>w_notify := ns\<rparr>) = db_ok w"
  "db_ok (w\<lparr>w_stacks := ss\<rparr>) = db_ok w" "db_ok (w\<lparr>w_credentials := cs\<rparr>) = db_ok w"
  "db_ok (w\<lparr>w_git := gs\<rparr>) = db_ok w"
  by (simp_all add: db_ok_def)

lemma db_ok_catalogue_new [intro]:
  "db_ok w \<Longrightarrow> db_ok (w\<lparr>w_credentials := cs, w_next := Suc (w_next w)\<rparr>)"
  "db_ok w \<Longrightarrow> db_ok (w\<lparr>w_git := gs, w_next := Suc (w_next w)\<rparr>)"
  "db_ok w \<Longrightarrow> db_ok (w\<lparr>w_capabilities := caps, w_next := Suc (w_next w)\<rparr>)"
  "db_ok w \<Longrightarrow> db_ok (w\<lparr>w_environments := es, w_next := Suc (w_next w)\<rparr>)"
  "db_ok w \<Longrightarrow> db_ok (w\<lparr>w_notify := ns, w_next := Suc (w_next w)\<rparr>)"
  "db_ok w \<Longrightarrow> db_ok (w\<lparr>w_stacks := ss, w_next := Suc (w_next w)\<rparr>)"
  "db_ok w \<Longrightarrow> agent_id ` set (w_agents w) \<subseteq> agent_id ` set as \<Longrightarrow> db_ok (w\<lparr>w_agents := as\<rparr>)"
  unfolding db_ok_def by (simp_all add: primary_next) (auto simp: may_reference_def)

lemma integral_catalogue:
  "keeps integral (CreateUserAPIKey k)" "keeps integral (DeleteUserAPIKey i)"
  "keeps integral (CreateCredential n scp q v)" "keeps integral (CreateCapability c)" "keeps integral (DeleteCredential i)"
  "keeps integral (DeleteCapability i)" "keeps integral (AttachToAgent i j)" "keeps integral (DetachFromAgent i j)"
  "keeps integral (InsertAgent a)" "keeps integral (UpdateAgent a)" "keeps integral (DeleteAgent i)"
  "keeps integral (UpsertStack k' r)" "keeps integral (CreateEnvironment p x)" "keeps integral (UpdateEnvironment i x)"
  "keeps integral (DeleteEnvironment i)" "keeps integral (NotifyCreate p ni)" "keeps integral (NotifyUpdate i ni)"
  "keeps integral (NotifyDelete i)"
  "keeps integral (UpsertGitConnection p pv secret hint f)" "keeps integral (SetGitValidation p st login scopes x' code)"
  "keeps integral (MarkGitStatus p st code)" "keeps integral (DeleteGitConnection p)"
  unfolding CreateUserAPIKey_def DeleteUserAPIKey_def CreateCredential_def CreateCapability_def DeleteCapability_def
    DeleteCredential_def AttachToAgent_def DetachFromAgent_def InsertAgent_def UpdateAgent_def DeleteAgent_def UpsertStack_def
    CreateEnvironment_def UpdateEnvironment_def DeleteEnvironment_def NotifyCreate_def NotifyUpdate_def NotifyDelete_def
    UpsertGitConnection_def SetGitValidation_def MarkGitStatus_def DeleteGitConnection_def
  by (intro integral_db_op; auto simp: run_simps Let_def set_agent_def agentRow_def image_tbl_update split: option.split
      intro: db_ok_dropAgents db_ok_dropCapabilities)+

interpretation integral: whole_frame integral
  by unfold_locales
    (simp_all add: integral_idle integral_outside integral_accounts integral_board_creates
      integral_board_updates integral_board_deletes integral_catalogue)


section \<open>Projects that cannot go\<close>

text \<open>A project with an event.\<close>

definition eventful :: "uuid \<Rightarrow> world \<Rightarrow> bool" where
  "eventful p w \<longleftrightarrow> tbl_find project_id p (w_projects w) \<noteq> None \<and> (\<exists>e \<in> set (w_events w). ev_project e = p)"

definition stays_eventful :: "world \<Rightarrow> world \<Rightarrow> bool" where
  "stays_eventful w w' \<longleftrightarrow> (\<forall>p. eventful p w \<longrightarrow> eventful p w')"

lemma eventful_iff:
  "eventful p w \<longleftrightarrow> p \<in> project_id ` set (w_projects w) \<and> (\<exists>e \<in> set (w_events w). ev_project e = p)"
  by (simp add: eventful_def tbl_find_None_iff)

lemma eventful_fault_op:
  assumes "\<And>w p. eventful p w \<Longrightarrow> eventful p (snd (run_state m w))"
  shows "keeps stays_eventful (fault_op e m)"
  using assms by (auto simp: keeps_def run_fault_op_faults stays_eventful_def eventful_def split: list.split)

lemma eventful_same:
  "map project_id (w_projects w') = map project_id (w_projects w) \<Longrightarrow> w_events w' = w_events w
     \<Longrightarrow> eventful p w' = eventful p w"
  by (metis eventful_iff image_set)

lemma eventful_brackets:
  assumes "keeps stays_eventful m"
  shows "keeps stays_eventful (bracketed c (cleanupContainer i) m)"
    "keeps stays_eventful (bracketed c (stopBestEffort c' i) m)" "keeps stays_eventful (bracketed c (noteCall c') m)"
  by (rule bracketed_keeps [of stays_eventful, OF _ _ _ _ assms]; simp add: stays_eventful_def eventful_def)+

lemma eventful_cascade: "eventful p w \<Longrightarrow> p \<noteq> i \<Longrightarrow> eventful p (cascadeProject i w)"
  by (auto simp: eventful_iff cascadeProject_def dropProjectRows_def)

interpretation eventful: system_frame stays_eventful
proof
  show "stays_eventful w w" for w by (simp add: stays_eventful_def)
  show "stays_eventful u v \<Longrightarrow> stays_eventful v w \<Longrightarrow> stays_eventful u w" for u v w
    by (simp add: stays_eventful_def)
  show "keeps stays_eventful m \<Longrightarrow> keeps stays_eventful (bracketed (CallCreate opts i) (cleanupContainer i) m)"
    for opts i m by (rule eventful_brackets)
  show "keeps stays_eventful m \<Longrightarrow> keeps stays_eventful (bracketed (CallLaunch spec h) (stopBestEffort (CallStopRun h) h) m)"
    for spec h m by (rule eventful_brackets)
  show "keeps stays_eventful m \<Longrightarrow>
      keeps stays_eventful (bracketed (CallSidecars i n) (noteCall (CallCleanup i n)) m)" for i n m
    by (rule eventful_brackets)
qed (simp_all add: InsertCostRecord_def stays_eventful_def eventful_iff keeps_def run_ops other_ops epic_ops
  planning_ops run_simps run_db_op_faults run_fault_op_faults Let_def image_tbl_update increment_breaker_def
  reset_breaker_def split: list.split option.split)

lemma eventful_deletes:
  "keeps stays_eventful (DeleteProject i)" "keeps stays_eventful (DeleteEpic i)" "keeps stays_eventful (DeleteStory i)"
proof -
  have other: "eventful p (cascadeProject i w)"
    if "\<not> (tbl_find project_id i (w_projects w) \<noteq> None \<and> (\<exists>e \<in> set (w_events w). ev_project e = i))" "eventful p w" for p w
    using that eventful_cascade [OF that(2), of i] unfolding eventful_def by (cases "p = i") auto
  show "keeps stays_eventful (DeleteProject i)"
    unfolding DeleteProject_def db_op_def by (rule eventful_fault_op) (auto simp: run_simps intro: other)
  have "eventful p (dropEpics ks w) = eventful p w" "eventful p (dropStories ks w) = eventful p w" for p ks w
    by (simp_all add: eventful_def)
  then show "keeps stays_eventful (DeleteEpic i)" "keeps stays_eventful (DeleteStory i)"
    unfolding DeleteEpic_def DeleteStory_def db_op_def by (intro eventful_fault_op; simp add: run_simps)+
qed

lemma eventful_update: "eventful p (w\<lparr>w_projects := tbl_update project_id i (set_project x v) (w_projects w)\<rparr>) = eventful p w"
  by (rule eventful_same) (simp_all add: map_tbl_update)

lemma eventful_writes:
  "keeps stays_eventful (CreateProject x)" "keeps stays_eventful (UpdateProject x)"
  "keeps stays_eventful (UpsertPipelineConfig i y)" "keeps stays_eventful (CreateEpic e)"
  "keeps stays_eventful (UpdateEpic e)" "keeps stays_eventful (CreateStory s)" "keeps stays_eventful (UpdateStoryEpic s)"
  "keeps stays_eventful (AddUserToProject p i r)" "keeps stays_eventful (RemoveUserFromProject p i)"
  "keeps stays_eventful (UpsertConnector c)" "keeps stays_eventful (CreateWriteBack b)"
  unfolding CreateProject_def UpdateProject_def UpsertPipelineConfig_def CreateEpic_def UpdateEpic_def CreateStory_def
    UpdateStoryEpic_def AddUserToProject_def RemoveUserFromProject_def UpsertConnector_def CreateWriteBack_def db_op_def
  by (rule eventful_fault_op, auto simp: run_simps Let_def eventful_update split: option.split;
      auto simp: eventful_iff)+

lemma eventful_accounts:
  "keeps stays_eventful (CreateUser e h n r)" "keeps stays_eventful (UpdateUser u)"
  "keeps stays_eventful (UpdateUserPasswordHash i h)" "keeps stays_eventful (DeleteUser i)"
  "keeps stays_eventful (CreateResetToken i t x)" "keeps stays_eventful (MarkResetTokenUsed i)"
  "keeps stays_eventful (Revoke j y)" "keeps stays_eventful DeleteExpiredRevoked"
  unfolding CreateUser_def UpdateUser_def UpdateUserPasswordHash_def DeleteUser_def updateLive_def
    CreateResetToken_def MarkResetTokenUsed_def Revoke_def DeleteExpiredRevoked_def db_op_def raw_op_def
  by (rule eventful_fault_op, simp add: run_simps Let_def eventful_def split: option.split)+

lemma eventful_catalogue:
  "keeps stays_eventful (CreateUserAPIKey k)" "keeps stays_eventful (DeleteUserAPIKey i)"
  "keeps stays_eventful (CreateCredential n scp q v)" "keeps stays_eventful (CreateCapability c)" "keeps stays_eventful (DeleteCredential i)"
  "keeps stays_eventful (DeleteCapability i)" "keeps stays_eventful (AttachToAgent i j)"
  "keeps stays_eventful (DetachFromAgent i j)" "keeps stays_eventful (InsertAgent a)"
  "keeps stays_eventful (UpdateAgent a)" "keeps stays_eventful (DeleteAgent i)" "keeps stays_eventful (UpsertStack k' r)"
  "keeps stays_eventful (CreateEnvironment p x)" "keeps stays_eventful (UpdateEnvironment i x)"
  "keeps stays_eventful (DeleteEnvironment i)" "keeps stays_eventful (NotifyCreate p ni)"
  "keeps stays_eventful (NotifyUpdate i ni)" "keeps stays_eventful (NotifyDelete i)"
  "keeps stays_eventful (UpsertGitConnection p pv secret hint f)" "keeps stays_eventful (SetGitValidation p st login scopes x' code)"
  "keeps stays_eventful (MarkGitStatus p st code)" "keeps stays_eventful (DeleteGitConnection p)"
  unfolding CreateUserAPIKey_def DeleteUserAPIKey_def CreateCredential_def CreateCapability_def DeleteCapability_def
    DeleteCredential_def AttachToAgent_def DetachFromAgent_def InsertAgent_def UpdateAgent_def DeleteAgent_def UpsertStack_def
    CreateEnvironment_def UpdateEnvironment_def DeleteEnvironment_def NotifyCreate_def NotifyUpdate_def NotifyDelete_def
    UpsertGitConnection_def SetGitValidation_def MarkGitStatus_def DeleteGitConnection_def
    db_op_def
  by (rule eventful_fault_op, simp add: run_simps Let_def eventful_def dropCapabilities_def dropAgents_def
      split: option.split)+

lemma eventful_idle:
  "stays_eventful w (w\<lparr>w_faults := fs, w_clock := t\<rparr>)" "stays_eventful w (w\<lparr>w_next := n\<rparr>)"
  "stays_eventful w (w\<lparr>w_calls := cs\<rparr>)"
  by (simp_all add: stays_eventful_def eventful_def)

interpretation eventful: whole_frame stays_eventful
  by unfold_locales (simp_all add: eventful_accounts eventful_writes eventful_deletes eventful_idle
      eventful_catalogue)

lemma eventful_DeleteProject:
  "eventful p w \<Longrightarrow> \<exists>e fs. run_state (DeleteProject p) w = (Inl e, w\<lparr>w_faults := fs\<rparr>)"
  unfolding DeleteProject_def
  by (auto simp: eventful_def run_db_op_faults run_simps split: list.split intro: exI [of _ "w_faults w"])

text \<open>
  C32: a project that has an event can never be deleted again. The events reference their project
  with a cascade, and a trigger forbids to delete an event: whatever happens after the first event,
  every deletion of the project fails and leaves the state as it was.
\<close>

theorem project_with_events_not_deletable:
  assumes "eventful p w" and "uses w w'"
  shows "\<exists>e fs. run_state (ProjectDelete p) w' = (Inl e, w'\<lparr>w_faults := fs\<rparr>)"
proof -
  have "eventful p w'" using eventful.uses_respect [OF assms(2)] assms(1) by (simp add: stays_eventful_def)
  obtain r v where r: "run_state (GetProjectByID p) w' = (r, v)" by (meson surj_pair)
  then obtain fs where v: "v = w'\<lparr>w_faults := fs\<rparr>"
    using keepsD [OF quiet_reads(4) r] by (auto simp: only_reads_def)
  then have "eventful p v" using \<open>eventful p w'\<close> by (simp add: eventful_def)
  from eventful_DeleteProject [OF this] v r show ?thesis
    by (cases r) (auto simp: ProjectDelete_def run_simps)
qed

end
