(* ===== verification/WriteBackSpec.thy ===== *)
theory WriteBackSpec
  imports WriteBack BoardSpec
begin

text \<open>
  What a write-back does: a reference description of its outcome and the proof that the service
  implements it, what a retry of the queue finds, and two ways the outcome can surprise.
\<close>

section \<open>The outcome of a push\<close>

datatype push_verdict = PushOff | PushRefused string string | PushLater string | Pushed string

definition verdictOf ::
  "tracker \<Rightarrow> planning_connector option \<Rightarrow> story \<Rightarrow> uuid option \<Rightarrow> string \<Rightarrow> world \<Rightarrow> push_verdict" where
  "verdictOf tk conn s run st w =
     (case conn of
        None \<Rightarrow> PushOff
      | Some c \<Rightarrow>
          if pushOff c s st then PushOff
          else if derefString (story_external_item_id s) = [] \<or> derefString (conn_project_url c) = []
          then PushRefused ''MISSING_TARGET'' missingTarget
          else case t_sink tk (story_project s) w of
            Some e \<Rightarrow> PushRefused (classifyWriteBackError e) e
          | None \<Rightarrow>
              (case t_push tk (pushRequest tk c s run st) w of
                 Inr remote \<Rightarrow> Pushed remote
               | Inl e \<Rightarrow> if isTransientWriteBackCode (classifyWriteBackError e) then PushLater e
                          else PushRefused (classifyWriteBackError e) e))"

text \<open>The status on the story, the row of the audit, and the item of the tracker.\<close>

definition marked :: "uuid \<Rightarrow> string \<Rightarrow> world \<Rightarrow> world" where
  "marked i st w =
     w\<lparr>w_stories := tbl_update story_id i
         (\<lambda>s. s\<lparr>story_writeback_status := Some st, story_updated_at := w_clock w\<rparr>) (w_stories w)\<rparr>"

definition audited :: "write_back \<Rightarrow> world \<Rightarrow> world" where
  "audited b w = w\<lparr>w_writebacks := w_writebacks w @ [b]\<rparr>"

definition moved :: "planning_connector option \<Rightarrow> story \<Rightarrow> string \<Rightarrow> world \<Rightarrow> world" where
  "moved conn s st w =
     (case conn of
        None \<Rightarrow> w
      | Some c \<Rightarrow> w\<lparr>w_calls := w_calls w @ [CallTracker (derefString (conn_project_url c))
            (derefString (story_external_item_id s)) (OptionFor (conn_mapping c) st)]\<rparr>)"

definition push_result ::
  "push_verdict \<Rightarrow> planning_connector option \<Rightarrow> story \<Rightarrow> uuid option \<Rightarrow> string \<Rightarrow> world \<Rightarrow> unit res \<times> world" where
  "push_result v conn s run st w =
     (case v of
        PushOff \<Rightarrow> (Inr (), marked (story_id s) WritebackDisabled w)
      | PushRefused code text \<Rightarrow>
          (Inr (), audited (auditRow s run st None False (Some code) (Some text))
             (marked (story_id s) WritebackFailed w))
      | PushLater text \<Rightarrow> (Inl (PlainErr [T text]), w)
      | Pushed remote \<Rightarrow>
          (Inr (), audited (auditRow s run st (Some remote) True None None)
             (marked (story_id s) WritebackSynced (moved conn s st w))))"

lemma run_SetWriteback: "w_faults w = [] \<Longrightarrow> run_state (SetWritebackStatus i st) w = (Inr (), marked i st w)"
  by (simp add: SetWritebackStatus_def run_db_op_faults run_simps marked_def)

lemma run_CreateWriteBack: "w_faults w = [] \<Longrightarrow> run_state (CreateWriteBack b) w = (Inr b, audited b w)"
  by (simp add: CreateWriteBack_def run_db_op_faults run_simps audited_def)

lemma marked_fields [simp]:
  "w_faults (marked i st w) = w_faults w" "w_connectors (marked i st w) = w_connectors w"
  "w_calls (marked i st w) = w_calls w" "w_writebacks (marked i st w) = w_writebacks w"
  "w_stories (audited b w) = w_stories w" "w_connectors (audited b w) = w_connectors w"
  "w_calls (audited b w) = w_calls w" "w_faults (audited b w) = w_faults w"
  "w_faults (moved conn s st w) = w_faults w" "w_stories (moved conn s st w) = w_stories w"
  "w_connectors (moved conn s st w) = w_connectors w"
  by (simp_all add: marked_def audited_def moved_def split: option.split)

lemma run_records:
  assumes "w_faults w = []"
  shows "run_state (markDisabled i) w = ((), marked i WritebackDisabled w)"
    and "run_state (recordPushed s run st remote) w
      = ((), audited (auditRow s run st (Some remote) True None None) (marked (story_id s) WritebackSynced w))"
    and "run_state (recordPushFailure s run st code text) w
      = ((), audited (auditRow s run st None False (Some code) (Some text)) (marked (story_id s) WritebackFailed w))"
  using assms
  by (simp_all add: markDisabled_def recordPushed_def recordPushFailure_def bestEffort_def run_simps
      run_SetWriteback run_CreateWriteBack)

lemma run_syncStory:
  assumes "w_faults w = []"
  shows "run_state (syncStory tk c s run st) w = push_result (verdictOf tk (Some c) s run st w) (Some c) s run st w"
  using assms
  by (simp add: syncStory_def pushStatus_def WriteBack_def verdictOf_def push_result_def moved_def pushRequest_def
      run_records run_simps split: option.split sum.split)

lemma sync_effect:
  assumes "w_faults w = []"
  shows "run_state (SyncStatus tk i run st) w =
    (case tbl_find story_id i (w_stories w) of
       None \<Rightarrow> (Inr (), w)
     | Some s \<Rightarrow> push_result (verdictOf tk (tbl_find conn_project (story_project s) (w_connectors w)) s run st w)
         (tbl_find conn_project (story_project s) (w_connectors w)) s run st w)"
  using assms
  by (auto simp: SyncStatus_def GetStoryByID_def GetConnector_def run_db_op_faults run_simps run_syncStory run_records
      verdictOf_def [of _ None] push_result_def [of PushOff] dest: tbl_find_eq_Some split: option.split)


section \<open>Retries\<close>

text \<open>
  a job of the write-back is retried only when it changed nothing: whatever failed, the database
  or the tracker, a returned error means that neither the store nor the tracker was touched.
\<close>

theorem retried_write_back_changed_nothing:
  assumes "run_state (WriteBackWork tk j) w = (Inl e, w')"
  shows "\<exists>fs. w' = w\<lparr>w_faults := fs\<rparr>"
proof -
  have quiet: "keeps only_reads (GetConnector p)" "keeps only_reads (GetStoryByID i)" for p i
    by (simp_all add: GetConnector_def find_row_def quiet_db_op quiet_reads)
  have sync: "run_state (syncStory tk c s run st) v = (Inl e, v') \<Longrightarrow> v' = v" for c s run st v v'
    by (auto simp: syncStory_def pushStatus_def WriteBack_def run_simps
        split: option.splits sum.splits if_splits prod.splits)
  have "only_reads w w'" if "run_state (SyncStatus tk i run st) w = (Inl e, w')" for i run st
  proof -
    obtain r v where r: "run_state (GetStoryByID i) w = (r, v)" by (meson surj_pair)
    then have wv: "only_reads w v" using keepsD [OF quiet(2)] by blast
    show ?thesis
    proof (cases r)
      case (Inl e')
      with that r wv show ?thesis by (simp add: SyncStatus_def run_simps split: if_splits)
    next
      case (Inr s)
      obtain q u where q: "run_state (GetConnector (story_project s)) v = (q, u)" by (meson surj_pair)
      then have wu: "only_reads w u" using wv keepsD [OF quiet(1)] by (blast intro: unread.frame_trans)
      show ?thesis
        using that r Inr q wu by (cases q) (auto simp: SyncStatus_def run_simps split: if_splits prod.splits dest: sync)
    qed
  qed
  with assms show ?thesis by (cases j) (auto simp: only_reads_def run_simps)
qed

section \<open>An old job after a new one\<close>

lemma verdict_Pushed:
  "\<not> pushOff c s st \<Longrightarrow> derefString (story_external_item_id s) \<noteq> [] \<Longrightarrow> derefString (conn_project_url c) \<noteq> [] \<Longrightarrow>
     t_sink tk (story_project s) w = None \<Longrightarrow> t_push tk (pushRequest tk c s run st) w = Inr remote \<Longrightarrow>
     verdictOf tk (Some c) s run st w = Pushed remote"
  by (simp add: verdictOf_def)

text \<open>What a push reads of a story.\<close>

lemma pushRequest_cong:
  "story_key s' = story_key s \<Longrightarrow> story_project s' = story_project s \<Longrightarrow> story_external_id s' = story_external_id s \<Longrightarrow>
     story_external_item_id s' = story_external_item_id s \<Longrightarrow>
     pushRequest tk c s' run st = pushRequest tk c s run st"
  by (auto simp: pushRequest_def buildComment_def split: option.split)

lemma after_job:
  assumes "w_faults w = []" "tbl_find story_id i (w_stories w) = Some s"
    "tbl_find conn_project (story_project s) (w_connectors w) = Some c"
  shows "after (WriteBackWork tk (JobWriteBack p i r st)) w
    = snd (push_result (verdictOf tk (Some c) s (if r = uuid_nil then None else Some r) st w) (Some c) s
        (if r = uuid_nil then None else Some r) st w)"
  using assms by (simp add: after_def sync_effect)

lemma after_pushed:
  fixes p r :: uuid
  assumes "w_faults w = []" "tbl_find story_id i (w_stories w) = Some s"
    "tbl_find conn_project (story_project s) (w_connectors w) = Some c"
    "verdictOf tk (Some c) s (if r = uuid_nil then None else Some r) st w = Pushed remote"
  defines "w' \<equiv> after (WriteBackWork tk (JobWriteBack p i r st)) w"
  shows "w_faults w' = []" "w_connectors w' = w_connectors w"
    "w_calls w' = w_calls w @ [CallTracker (derefString (conn_project_url c))
        (derefString (story_external_item_id s)) (OptionFor (conn_mapping c) st)]"
    "tbl_find story_id i (w_stories w')
      = Some (s\<lparr>story_writeback_status := Some WritebackSynced, story_updated_at := w_clock w\<rparr>)"
  using assms(1-4) tbl_find_eq_Some [OF assms(2)]
  unfolding w'_def after_job [OF assms(1-3)] assms(4) push_result_def
  by (simp_all add: moved_def marked_def audited_def tbl_find_update)

text \<open>
  C37: an old job overwrites the tracker. A job carries the status it was made for and never reads the
  story's own again: when the push of ``running'' meets a transient error, the push of ``done'' goes
  through, and the queue then retries the first, the tracker's item ends at ``running'', both pushes are
  recorded as a success, and nothing corrects it.
\<close>

theorem late_retry_overwrites_status:
  fixes r p i :: uuid
  defines "run \<equiv> if r = uuid_nil then None else Some r"
  assumes "w_faults w = []" "tbl_find story_id i (w_stories w) = Some s"
    "tbl_find conn_project (story_project s) (w_connectors w) = Some c"
    and live: "\<not> pushOff c s StoryStatusRunning" "\<not> pushOff c s StoryStatusDone"
      "derefString (story_external_item_id s) \<noteq> []" "derefString (conn_project_url c) \<noteq> []"
      "\<forall>v. t_sink tk (story_project s) v = None"
    and busy: "t_push tk (pushRequest tk c s run StoryStatusRunning) w = Inl e"
      "isTransientWriteBackCode (classifyWriteBackError e)"
    and free: "t_push tk (pushRequest tk c s run StoryStatusDone) w = Inr d"
    and later: "\<forall>v. w_calls v \<noteq> w_calls w \<longrightarrow> t_push tk (pushRequest tk c s run StoryStatusRunning) v = Inr x"
  defines "running \<equiv> WriteBackWork tk (JobWriteBack p i r StoryStatusRunning)"
    and "done_job \<equiv> WriteBackWork tk (JobWriteBack p i r StoryStatusDone)"
    and "push \<equiv> \<lambda>st. CallTracker (derefString (conn_project_url c)) (derefString (story_external_item_id s))
      (OptionFor (conn_mapping c) st)"
  shows "w_calls (after running (after done_job (after running w)))
      = w_calls w @ [push StoryStatusDone, push StoryStatusRunning]"
proof -
  have "verdictOf tk (Some c) s run StoryStatusRunning w = PushLater e"
    using live busy by (simp add: verdictOf_def)
  then have "after running w = w"
    unfolding running_def run_def after_job [OF assms(2-4)] by (simp add: push_result_def)
  moreover have "verdictOf tk (Some c) s run StoryStatusDone w = Pushed d"
    using verdict_Pushed live free by blast
  note done_ = after_pushed [OF assms(2-4) this [unfolded run_def], of p, folded done_job_def]
  let ?s = "s\<lparr>story_writeback_status := Some WritebackSynced, story_updated_at := w_clock w\<rparr>"
  have "t_push tk (pushRequest tk c ?s run StoryStatusRunning) (after done_job w) = Inr x"
    using later done_(3) by (simp add: pushRequest_cong [of ?s s])
  then have "verdictOf tk (Some c) ?s run StoryStatusRunning (after done_job w) = Pushed x"
    using live by (intro verdict_Pushed) (simp_all add: pushOff_def)
  note running = after_pushed [OF done_(1) done_(4) _ this [unfolded run_def], of p, folded running_def]
  ultimately show ?thesis
    using running(3) done_(2,3) assms(4) by (simp add: push_def)
qed

section \<open>Two classifications of an error\<close>

definition refusedText :: "string \<Rightarrow> bool" where
  "refusedText m \<longleftrightarrow>
     hasHTTPStatus m ''401'' \<or> containsText ''bad credentials'' m \<or> containsText ''unauthorized'' m
     \<or> hasHTTPStatus m ''403'' \<or> containsText ''forbidden'' m"

text \<open>
  A refusal that names a rate limit is not retried. The text of an error can carry both a marker of
  a transient failure and one of a refused access, as GitHub's secondary rate limit does (``403'' with
  ``rate limit''). The connection's classification then sees a transient failure and leaves the
  connection alone; the write-back's sees a permanent one, and these are all the texts the two
  disagree on in this direction.
\<close>

theorem classifications_disagree:
  "isTransientWriteBackCode (classifyWriteBackError text)
      = (transientText (ToLower text) \<and> \<not> refusedText (ToLower text))
    \<and> (transientText (ToLower text) \<and> \<not> isTransientWriteBackCode (classifyWriteBackError text))
      = (classifyOperationError text = None \<and> transientText (ToLower text) \<and> refusedText (ToLower text))"
  by (auto simp: transientText_def classifyWriteBackError_def classifyOperationError_def
      isTransientWriteBackCode_def refusedText_def Let_def)

end
