(* ===== verification/BoardWitnesses.thy ===== *)
theory BoardWitnesses
  imports Uses WriteBackSpec RunWitnesses
begin

text \<open>The properties of the accounts, the board and the write-back applied to a small installation.\<close>

section \<open>Accounts\<close>

definition demo_user :: user where
  "demo_user = \<lparr>usr_id = 3, usr_email = ''ann@x'', usr_password = ''#password1'', usr_name = ''Ann'',
     usr_role = RoleUser, usr_created_at = 0, usr_updated_at = 0, usr_deleted_at = None\<rparr>"

definition demo_reset :: reset_token where
  "demo_reset = \<lparr>rt_id = 4, rt_user = 3, rt_token = 5, rt_expires = 60, rt_used = None, rt_created_at = 0\<rparr>"

definition demo_claims :: claims where
  "demo_claims = \<lparr>cl_user = 3, cl_role = RoleUser, cl_id = Some 9, cl_expires = 100, cl_issued = 0\<rparr>"

definition demo_lib :: auth_libs where
  "demo_lib = \<lparr>bcrypt_generate = (\<lambda>p w. Inr (CHR ''#'' # p)), bcrypt_matches = (\<lambda>h p. h = CHR ''#'' # p),
     jwt_sign = (\<lambda>c. Inr ''token''), jwt_parse = (\<lambda>t s. if t \<le> 100 then Inr demo_claims else Inl no_rows),
     jwt_date = id, jwt_expiration = 100, send_mail = (\<lambda>to i w. Inr ()), has_blacklist = True\<rparr>"

definition people_world :: world where
  "people_world = empty_world\<lparr>w_users := [demo_user], w_resets := [demo_reset], w_clock := 7\<rparr>"

lemmas people_defs = people_world_def empty_world_def demo_user_def demo_reset_def demo_lib_def demo_claims_def

lemma people_ok: "accounts_ok people_world" "w_faults people_world = []"
  by (simp_all add: accounts_ok_def people_defs validRole_def)

lemma reset_runs:
  "run_state (ResetPassword demo_lib (Some 5) ''password2'') people_world
     = (Inr (), snd (run_state (ResetPassword demo_lib (Some 5) ''password2'') people_world))"
  by (simp add: ResetPassword_def GetResetToken_def resetUser_def hashPassword_def GetUserByID_def UpdateUser_def
      MarkResetTokenUsed_def liveUsers_def alive_def raw_op_def run_simps run_wrap_err run_db_op_faults run_fault_op_faults
      find_row_def set_user_def orKeep_def validRole_def emailTaken_def people_defs Let_def)

lemma accounts_stay_consistent_witness:
  "accounts_ok (snd (run_state (Register demo_lib ''bob@x'' ''password3'' ''Bob'') people_world))"
  using accounts_stay_consistent [OF account_steps.register people_ok(1)] by simp

lemma reset_token_single_use_witness:
  "fst (run_state (ResetPassword demo_lib (Some 5) ''password3'')
     (snd (run_state (ResetPassword demo_lib (Some 5) ''password2'') people_world))) \<noteq> Inr ()"
  using reset_token_single_use [OF reset_runs account_steps.stay] by simp

lemma reset_keeps_old_password_witness:
  "hashes (snd (run_state (ResetPassword demo_lib (Some 5) ''password2'') people_world)) = [(3, ''#password1'')]"
  using reset_keeps_old_password [OF reset_runs] by (simp add: hashes_def people_defs)

lemma logout_runs:
  "run_state (Logout demo_lib ''token'') people_world
     = (Inr (), snd (run_state (Logout demo_lib ''token'') people_world))"
  by (simp add: Logout_def ValidateJWT_def Revoke_def run_simps run_db_op_faults people_defs)

lemma logged_out_token_refused_witness:
  "\<exists>code w3. \<forall>next. run_state (Auth demo_lib ''/api/v1/projects'' (Some ''token'') next)
     (snd (run_state (PurgeExpiredTokens demo_lib) (snd (run_state (Logout demo_lib ''token'') people_world))))
   = ((401, code), w3)"
  by (rule logged_out_token_refused [OF logout_runs _ _ _ _ _ account_steps.purge, where c = demo_claims and j = 9])
     (auto simp: demo_lib_def demo_claims_def people_world_def empty_world_def isPublicPath_def publicPaths_def
       hasPrefix_def split: if_splits)

lemma change_runs:
  "run_state (ChangePassword demo_lib 3 ''password1'' ''password2'') people_world
     = (Inr (), snd (run_state (ChangePassword demo_lib 3 ''password1'' ''password2'') people_world))"
  by (simp add: ChangePassword_def GetUserByID_def hashPassword_def UpdateUserPasswordHash_def updateLive_def
      liveUsers_def alive_def raw_op_def run_simps run_wrap_err run_fault_op_faults people_defs)

lemma change_password_then_login_witness:
  "\<exists>v token. fst (run_state (Login demo_lib ''ann@x'' ''password2'')
     (snd (run_state (ChangePassword demo_lib 3 ''password1'' ''password2'') people_world))) = Inr (v, token) \<and> usr_id v = 3"
proof -
  have "tbl_find usr_id 3 (liveUsers people_world) = Some demo_user" "usr_email demo_user = ''ann@x''"
    by (simp_all add: liveUsers_def alive_def people_defs)
  then show ?thesis
    using change_password_then_login [OF people_ok change_runs, of demo_user] by (simp add: demo_lib_def)
qed

section \<open>The board\<close>

lemma sample_parses:
  "ParsePipelineConfigYAML (\<lambda>s. Inr sample_raw) (y :: string) = Inr launch_config"
  using launch_parse [where y = y and c = launch_config] by (simp add: sample_svc_def)

lemma sample_sound: "sound_config launch_config"
  by (simp add: sound_config_def launch_config_def sample_config_def sample_pstep_def sound_step_def ValidActionTypes_def)

lemma config_saved:
  "\<exists>c w'. run_state (ConfigUpsert (\<lambda>s. Inr sample_raw) 1 ''new'') launch_world = (Inr c, w')"
proof -
  have "validatePipelineConfigYAML (\<lambda>s. Inr sample_raw) ''new'' = Inr ()"
    using sample_parses [of "''new''"] sample_sound by (simp add: validate_iff)
  then show ?thesis
    by (simp add: ConfigUpsert_def lift_def UpsertPipelineConfig_def run_simps run_db_op_faults)
qed

lemma saved_config_is_sound_witness:
  "\<exists>c w'. run_state (ConfigUpsert (\<lambda>s. Inr sample_raw) 1 ''new'') launch_world = (Inr c, w')
     \<and> pc_yaml c = ''new'' \<and> pc_version c = 2"
proof -
  obtain c w' where run: "run_state (ConfigUpsert (\<lambda>s. Inr sample_raw) 1 ''new'') launch_world = (Inr c, w')"
    using config_saved by blast
  with saved_config_is_sound [OF run] show ?thesis by (simp add: configRow_def nextVersion_def)
qed

definition default_svc :: run_svc where
  "default_svc = sample_svc\<lparr>s_unmarshal := (\<lambda>y. Inr defaultRaw)\<rparr>"

definition default_world :: world where
  "default_world = empty_world\<lparr>w_projects := [sample_project], w_stories := [sample_story],
     w_configs := [\<lparr>pc_id = 0, pc_project = 1, pc_yaml = DefaultPipelineConfigYAML, pc_version = 1,
       pc_created_at = 0, pc_updated_at = 0\<rparr>]\<rparr>"

lemma default_pipeline_not_launchable_witness:
  "\<exists>e fs. run_state (LaunchRun default_svc 1 10 7) default_world = (Inl e, default_world\<lparr>w_faults := fs\<rparr>)"
  using default_pipeline_not_launchable [of default_svc 1 default_world _ 10 7]
  by (simp add: default_svc_def configRow_def default_world_def)

definition clear_repo :: project_update where
  "clear_repo = \<lparr>pu_name = None, pu_description = None, pu_max_budget = None, pu_set_budget = False,
     pu_repo_url = None, pu_set_repo_url = True, pu_git_provider = None, pu_git_token_env = None,
     pu_set_token_env = False, pu_agent_runtime = None, pu_default_model = None, pu_set_model = False\<rparr>"

lemma project_update_cannot_clear_witness:
  "\<exists>p. tbl_find project_id 1 (w_projects (after (ProjectUpdate 1 clear_repo) launch_world)) = Some p
     \<and> project_repo_url p = Some ''https://git.example/demo.git''"
proof -
  have "tbl_find project_id 1 (w_projects launch_world) = Some sample_project"
    "project_repo_url sample_project = Some ''https://git.example/demo.git''"
    by (simp_all) (simp add: sample_project_def)
  then show ?thesis
    using project_update_cannot_clear [of 1 launch_world sample_project clear_repo _
        "after (ProjectUpdate 1 clear_repo) launch_world"]
    by (auto simp: after_def clear_repo_def prod_eq_iff)
qed

definition fresh_project :: project_params where
  "fresh_project = \<lparr>pp_name = ''fresh'', pp_description = None, pp_owner = None, pp_repo_url = None,
     pp_git_provider = None, pp_git_token_env = None, pp_agent_runtime = None, pp_default_model = None\<rparr>"

lemma failed_seeding_leaves_project_witness:
  "\<exists>p \<in> set (w_projects (after (ProjectCreate True fresh_project) (launch_world\<lparr>w_faults := [False, True]\<rparr>))).
     project_name p = ''fresh''"
proof -
  have "checkName ''name'' (pp_name fresh_project) = ok ()"
    "checkDescription MaxProjectDescriptionLength (pp_description fresh_project) = ok ()"
    by (simp_all add: fresh_project_def checkName_def checkDescription_def check_def MaxNameLength_def attempt_def ok_def)
  then show ?thesis
    using failed_seeding_leaves_project [of fresh_project "launch_world\<lparr>w_faults := [False, True]\<rparr>"]
    by (simp add: projectNameTaken_def fresh_project_def sample_project_def)
qed

section \<open>Everything together\<close>

lemma sample_db_ok: "db_ok launch_world"
  by (simp add: db_ok_def primary_def references_def may_reference_def launch_world_def empty_world_def
      sample_story_def sample_project_def)


definition eventful_world :: world where
  "eventful_world = launch_world\<lparr>w_events := [\<lparr>ev_project = 1, ev_entity_type = ''run'', ev_entity = 20,
     ev_action = ''started'', ev_payload = [], ev_created_at = 0\<rparr>]\<rparr>"

lemma eventful_start: "eventful 1 eventful_world"
  by (simp add: eventful_iff eventful_world_def launch_world_def sample_project_def)

lemma project_with_events_not_deletable_witness:
  "\<exists>e fs. run_state (ProjectDelete 1) (after (StoryDelete 10) eventful_world)
     = (Inl e, (after (StoryDelete 10) eventful_world)\<lparr>w_faults := fs\<rparr>)"
  by (rule project_with_events_not_deletable [OF eventful_start uses.delete_story])

section \<open>The write-back\<close>

definition tracked_story :: story where
  "tracked_story = sample_story\<lparr>story_source := SourceGitHub, story_external_item_id := Some ''item''\<rparr>"

definition demo_connector :: planning_connector where
  "demo_connector = \<lparr>conn_project = 1, conn_source = SourceGitHub, conn_project_url = Some ''board'',
     conn_status_field = ''Status'', conn_done_options = [], conn_epic_type = ''Epic'',
     conn_mapping = \<lparr>map_backlog = None, map_running = Some ''r'', map_done = Some ''d'', map_failed = None\<rparr>,
     conn_writeback_enabled = True, conn_post_comment = False\<rparr>"

text \<open>A tracker that is busy for the first push of the option \<open>r\<close>.\<close>

definition busy_tracker :: tracker where
  "busy_tracker = \<lparr>t_sink = (\<lambda>p w. None),
     t_push = (\<lambda>rq w. if tr_option rq = ''r'' \<and> w_calls w = [] then Inl ''status 503'' else Inr ''ok''),
     t_options = (\<lambda>u f w. Inl []), t_token = (\<lambda>p w. Inr ''t''), t_base_url = []\<rparr>"

definition pushed_world :: world where
  "pushed_world = empty_world\<lparr>w_projects := [sample_project], w_stories := [tracked_story],
     w_connectors := [demo_connector]\<rparr>"

lemmas push_defs = pushed_world_def empty_world_def tracked_story_def sample_story_def demo_connector_def
  busy_tracker_def

lemma pushed_rows:
  "w_faults pushed_world = []" "w_calls pushed_world = []"
  "tbl_find story_id 10 (w_stories pushed_world) = Some tracked_story"
  "tbl_find conn_project (story_project tracked_story) (w_connectors pushed_world) = Some demo_connector"
  by (simp_all add: push_defs)

lemma push_targets:
  "derefString (conn_project_url demo_connector) = ''board''"
  "derefString (story_external_item_id tracked_story) = ''item''" "t_sink busy_tracker p v = None"
  by (simp_all add: push_defs derefString_def)

lemma busy_text: "isTransientWriteBackCode (classifyWriteBackError ''status 503'')"
  by code_simp

lemma pushes_on:
  "\<not> pushOff demo_connector tracked_story StoryStatusRunning" "\<not> pushOff demo_connector tracked_story StoryStatusDone"
  by (simp_all add: pushOff_def push_defs OptionFor_def optionPointer_def derefString_def story_status_consts)

lemma busy_answers:
  "t_push busy_tracker (pushRequest busy_tracker demo_connector tracked_story r StoryStatusRunning) w
     = (if w_calls w = [] then Inl ''status 503'' else Inr ''ok'')"
  "t_push busy_tracker (pushRequest busy_tracker demo_connector tracked_story r StoryStatusDone) w = Inr ''ok''"
  by (simp_all add: pushRequest_def push_defs OptionFor_def optionPointer_def derefString_def story_status_consts)

lemma late_retry_overwrites_status_witness:
  "w_calls (after (WriteBackWork busy_tracker (JobWriteBack 1 10 20 StoryStatusRunning))
      (after (WriteBackWork busy_tracker (JobWriteBack 1 10 20 StoryStatusDone))
        (after (WriteBackWork busy_tracker (JobWriteBack 1 10 20 StoryStatusRunning)) pushed_world)))
   = [CallTracker ''board'' ''item'' ''d'', CallTracker ''board'' ''item'' ''r'']"
proof -
  have fields: "conn_project_url demo_connector = Some ''board''" "story_external_item_id tracked_story = Some ''item''"
    "OptionFor (conn_mapping demo_connector) StoryStatusRunning = ''r''"
    "OptionFor (conn_mapping demo_connector) StoryStatusDone = ''d''" "\<And>p v. t_sink busy_tracker p v = None"
    by (simp_all add: push_defs OptionFor_def optionPointer_def story_status_consts derefString_def)
  show ?thesis
    using late_retry_overwrites_status [OF pushed_rows(1,3,4) pushes_on, of busy_tracker 20 "''status 503''" "''ok''" "''ok''" 1]
    by (simp add: busy_answers busy_text pushed_rows fields derefString_def)
qed


lemma late_push:
  "run_state (WriteBackWork busy_tracker (JobWriteBack 1 10 20 StoryStatusRunning)) pushed_world
     = (Inl (PlainErr [T ''status 503'']), pushed_world)"
  using busy_text
  by (simp add: sync_effect pushed_rows verdictOf_def push_result_def pushes_on busy_answers push_targets)

lemma retried_write_back_changed_nothing_witness:
  "\<exists>fs. pushed_world = pushed_world\<lparr>w_faults := fs\<rparr>"
  by (rule retried_write_back_changed_nothing [OF late_push])

end
