(* ===== verification/ExternalSpec.thy ===== *)
theory ExternalSpec
  imports ExternalActions RunLaunch
begin

text \<open>
  What the actions on the git host do: the name of a branch is a clean slug, a pull request comes
  from the branch of the story, the poll ends with the first decisive answer, and the settings of
  these steps never reach them.
\<close>

section \<open>Slugs\<close>

text \<open>A slug: words of lower-case letters and digits, joined by single dashes.\<close>

definition slugChars :: "string \<Rightarrow> bool" where
  "slugChars s \<longleftrightarrow> list_all (\<lambda>c. isSlugChar c \<or> isDash c) s"

fun singleDashes :: "string \<Rightarrow> bool" where
  "singleDashes (c # d # cs) = (\<not> (isDash c \<and> isDash d) \<and> singleDashes (d # cs))"
| "singleDashes _ = True"

definition cleanSlug :: "string \<Rightarrow> bool" where
  "cleanSlug s \<longleftrightarrow> slugChars s \<and> singleDashes s \<and> (s = [] \<or> \<not> isDash (hd s) \<and> \<not> isDash (last s))"

lemma dash_no_slug [simp]: "isDash c \<Longrightarrow> \<not> isSlugChar c" "\<not> isSlugChar (CHR ''-'')" "isDash (CHR ''-'')"
  by (auto simp: isDash_def isSlugChar_def Let_def)

lemma dashed_chars: "slugChars (dashed s)"
  by (induction s rule: dashed.induct) (simp_all add: slugChars_def)

lemma dashed_hd: "dashed s \<noteq> [] \<Longrightarrow> isDash (hd (dashed s)) \<longleftrightarrow> \<not> isSlugChar (hd s)"
  by (cases s) auto

lemma dashed_Nil [simp]: "dashed s = [] \<longleftrightarrow> s = []"
  by (cases s) auto

lemma singleDashes_Cons:
  "singleDashes (c # s) \<longleftrightarrow> singleDashes s \<and> (s = [] \<or> \<not> (isDash c \<and> isDash (hd s)))"
  by (cases s) auto

lemma dashed_single: "singleDashes (dashed s)"
proof (induction s rule: dashed.induct)
  case (2 c cs)
  let ?rest = "dropWhile (\<lambda>x. \<not> isSlugChar x) cs"
  show ?case
  proof (cases "isSlugChar c")
    case True
    with 2 show ?thesis by (auto simp: singleDashes_Cons)
  next
    case False
    have "?rest = [] \<or> isSlugChar (hd ?rest)" using hd_dropWhile [of "\<lambda>x. \<not> isSlugChar x" cs] by blast
    then have "dashed ?rest = [] \<or> \<not> isDash (hd (dashed ?rest))" using dashed_hd [of ?rest] by auto
    with False 2 show ?thesis by (auto simp: singleDashes_Cons)
  qed
qed simp

lemma singleDashes_dropWhile: "singleDashes s \<Longrightarrow> singleDashes (dropWhile P s)"
  by (induction s) (auto simp: singleDashes_Cons)

lemma singleDashes_snoc:
  "singleDashes (s @ [c]) \<longleftrightarrow> singleDashes s \<and> (s = [] \<or> \<not> (isDash c \<and> isDash (last s)))"
  by (induction s) (auto simp: singleDashes_Cons hd_append)

lemma singleDashes_rev [simp]: "singleDashes (rev s) = singleDashes s"
  by (induction s) (auto simp: singleDashes_snoc singleDashes_Cons last_rev)

lemma trim_clean:
  assumes "slugChars s" "singleDashes s"
  shows "cleanSlug (trimDashes s)"
proof -
  let ?a = "dropWhile isDash s" and ?t = "trimDashes s"
  have "set ?t \<subseteq> set s"
    unfolding trimDashes_def using set_dropWhileD [of _ isDash] by (metis set_rev subsetI)
  then have chars: "slugChars ?t"
    using assms(1) by (auto simp: slugChars_def list_all_iff)
  have single: "singleDashes ?t"
    using assms(2) by (simp add: trimDashes_def singleDashes_dropWhile)
  have ends: "\<not> isDash (last ?t)" if "?t \<noteq> []"
    using that hd_dropWhile [of isDash "rev ?a"] by (simp add: trimDashes_def last_rev)
  have "\<not> isDash (hd ?t)" if "?t \<noteq> []"
  proof -
    have "?a = [] \<Longrightarrow> ?t = []" by (simp only: trimDashes_def) simp
    with that have "?a \<noteq> []" by blast
    then have "\<not> isDash (hd ?a)" by (rule hd_dropWhile)
    have "?a = rev (takeWhile isDash (rev ?a) @ dropWhile isDash (rev ?a))"
      by (simp only: takeWhile_dropWhile_id rev_rev_ident)
    also have "\<dots> = ?t @ rev (takeWhile isDash (rev ?a))"
      by (simp only: rev_append trimDashes_def)
    finally have "?a = ?t @ rev (takeWhile isDash (rev ?a))" .
    with that \<open>\<not> isDash (hd ?a)\<close> show ?thesis by (metis hd_append2)
  qed
  with chars single ends show ?thesis by (auto simp: cleanSlug_def)
qed

lemma lower_slug [simp]: "isSlugChar c \<Longrightarrow> lower_char c = c" "isDash c \<Longrightarrow> lower_char c = c"
  by (auto simp: isSlugChar_def isDash_def lower_char_def Let_def)

lemma dashed_fixed: "slugChars s \<Longrightarrow> singleDashes s \<Longrightarrow> dashed s = s"
proof (induction s rule: dashed.induct)
  case (2 c cs)
  show ?case
  proof (cases "isSlugChar c")
    case True
    with 2 show ?thesis by (simp add: slugChars_def singleDashes_Cons)
  next
    case False
    with 2 have c: "isDash c" "c = CHR ''-''" by (auto simp: slugChars_def isDash_def)
    have "cs = [] \<or> isSlugChar (hd cs)"
      using 2 c by (cases cs) (auto simp: slugChars_def singleDashes_Cons)
    then have "dropWhile (\<lambda>x. \<not> isSlugChar x) cs = cs" by (cases cs) auto
    with False 2 c show ?thesis by (simp add: slugChars_def singleDashes_Cons)
  qed
qed simp

lemma trim_fixed: "cleanSlug s \<Longrightarrow> trimDashes s = s"
proof -
  assume "cleanSlug s"
  then have "dropWhile isDash s = s" by (cases s) (auto simp: cleanSlug_def)
  moreover have "dropWhile isDash (rev s) = rev s"
    using \<open>cleanSlug s\<close> by (cases s rule: rev_cases) (auto simp: cleanSlug_def)
  ultimately show ?thesis by (simp add: trimDashes_def)
qed

text \<open>
  the slug of a title is clean: words of lower-case letters and digits, joined by single dashes,
  without a dash at either end, whatever the title; and a clean slug is its own slug, so that the
  function is idempotent.
\<close>

theorem slugs_are_clean:
  "cleanSlug (slugify title) \<and> (slugify s = s \<longleftrightarrow> cleanSlug s)"
proof -
  have clean: "cleanSlug (slugify t)" for t
    unfolding slugify_def by (intro trim_clean dashed_chars dashed_single)
  have "slugify s = s" if "cleanSlug s"
  proof -
    have "lower_char c = c" if "c \<in> set s" for c
      using that \<open>cleanSlug s\<close> by (auto simp: cleanSlug_def slugChars_def list_all_iff)
    then have "ToLower s = s" by (simp add: ToLower_def map_idI)
    with that show ?thesis by (simp add: slugify_def cleanSlug_def dashed_fixed trim_fixed)
  qed
  then show ?thesis using clean by metis
qed

section \<open>Settings that never arrive\<close>

text \<open>The settings the actions look for in the run's metadata.\<close>

definition deliverySettings :: "string list" where
  "deliverySettings = [''title_template'', ''target_branch'', ''draft'', ''poll_interval_seconds'',
     ''timeout_seconds'', ''message'']"

definition unset :: "metadata \<Rightarrow> bool" where
  "unset meta \<longleftrightarrow> (\<forall>k \<in> set deliverySettings. meta k = None)"

lemma unset_upd: "k \<notin> set deliverySettings \<Longrightarrow> unset (meta(k := v)) = unset meta"
  by (auto simp: unset_def)

lemma stepKey_other: "stepKey i n \<notin> set deliverySettings"
  by (simp add: stepKey_def deliverySettings_def)

text \<open>What an operation returns, if it returns, has a property.\<close>

definition yields :: "'a fop \<Rightarrow> ('a \<Rightarrow> bool) \<Rightarrow> bool" where
  "yields m P \<longleftrightarrow> (\<forall>w x w'. run_state m w = (Inr x, w') \<longrightarrow> P x)"

lemma yieldsD: "yields m P \<Longrightarrow> run_state m w = (Inr x, w') \<Longrightarrow> P x"
  unfolding yields_def by blast

lemma yields_then: "yields m Q \<Longrightarrow> (\<And>x. Q x \<Longrightarrow> yields (f x) P) \<Longrightarrow> yields (attempt m f) P"
  unfolding yields_def by (blast elim: attempt_Inr)

lemma yields_ends: "yields (fail e) P" "P x \<Longrightarrow> yields (ok x) P"
  by (simp_all add: yields_def run_ok run_fail)

lemma yields_after:
  "(\<And>x. yields (f x) P) \<Longrightarrow> yields (attempt m f) P" "(\<And>y. yields (h y) P) \<Longrightarrow> yields (n \<bind> h) P"
  by (auto simp: yields_def run_state_bind elim!: attempt_Inr split: prod.splits)

lemma yields_if: "yields m P \<Longrightarrow> yields n P \<Longrightarrow> yields (if c then m else n) P"
  by simp

lemma unset_step: "unset meta \<Longrightarrow> yields (stepMetadata svc i s meta) unset"
  by (auto simp: stepMetadata_def agentMetadata_def Let_def unset_upd stepKey_other
      split: option.split sum.split intro!: yields_ends yields_after)

lemma unset_metadata: "unset meta \<Longrightarrow> yields (launchMetadata svc i ss meta) unset"
proof (induction ss arbitrary: i meta)
  case (Cons s ss)
  then show ?case unfolding launchMetadata.simps by (intro yields_then [OF unset_step])
qed (simp add: yields_ends)

lemma unset_created: "unset meta \<Longrightarrow> yields (CreateRun p s st sn meta) (\<lambda>r. unset (run_metadata r))"
  unfolding yields_def by (auto elim!: CreateRun_cases)

lemma unset_launched: "yields (LaunchRun svc p s u) (\<lambda>(r, steps). unset (run_metadata r))"
proof -
  let ?P = "\<lambda>(r, steps :: run_step list). unset (run_metadata r)"
  have start: "unset [''launched_by_user_id'' \<mapsto> JUuid u]" by (simp add: unset_def deliverySettings_def)
  have create: "yields (attempt (CreateRun p s RunStatusPending sn meta) f) ?P"
    if "unset meta" "\<And>r. unset (run_metadata r) \<Longrightarrow> yields (f r) ?P" for sn meta f
    by (rule yields_then [OF unset_created [OF that(1)] that(2)])
  have "yields (launchConfigured svc p s u y) ?P" for y
    unfolding launchConfigured_def
    by (auto split: sum.split
        intro!: yields_ends(1) yields_then [OF unset_metadata [OF start]] create intro: yields_ends yields_after)
  then show ?thesis
    unfolding LaunchRun_def by (auto split: option.split sum.split intro!: yields_ends yields_after)
qed

lemma unset_plain: "yields (RunService_CreateRun p s c) (\<lambda>(r, steps). unset (run_metadata r))"
proof -
  have "unset Map.empty" by (simp add: unset_def)
  then show ?thesis
    unfolding RunService_CreateRun_def
    by (auto split: sum.split intro!: yields_ends(1) yields_after(1) [of _ _ "GetProjectByID p"]
        yields_then [OF unset_created] intro: yields_ends yields_after)
qed

lemma unset_inject: "unset meta \<Longrightarrow> unset (injectStepMetadata i meta)"
proof -
  have "unset m \<Longrightarrow> unset (injectKey i n m)" if "n \<notin> set deliverySettings" for n m
    using that by (simp add: injectKey_def Let_def unset_upd)
  then show "unset meta \<Longrightarrow> unset (injectStepMetadata i meta)"
    unfolding injectStepMetadata_def by (simp add: deliverySettings_def)
qed

text \<open>The actions the server registers.\<close>

inductive shipped :: "action \<Rightarrow> bool" where
  "shipped (AgentRunAction agent)"
| "shipped (IncrementalRetryAction ae)"
| "shipped (HITLGateAction ae)"
| "shipped (HumanAction ae)"
| "shipped (GitBranchAction g)"
| "shipped (GitPRAction g)"
| "shipped (CIPollAction g)"
| "shipped (NotificationAction g)"

text \<open>
  The metadata that can arrive at a step: those a run is created with, and those the action of a
  step leaves for the next one.
\<close>

inductive arrives :: "metadata \<Rightarrow> bool" where
  launched: "run_state (LaunchRun svc p s u) w = (Inr (r, steps), w') \<Longrightarrow> arrives (run_metadata r)"
| created: "run_state (RunService_CreateRun p s c) w = (Inr (r, steps), w') \<Longrightarrow> arrives (run_metadata r)"
| left: "arrives m \<Longrightarrow> shipped a \<Longrightarrow> run_state (a (runContext env r s m)) w = ((q, m'), w') \<Longrightarrow> arrives m'"

lemma keep_left: "run_state (keepMetadata ctx m) w = ((q, meta), w') \<Longrightarrow> meta = rc_metadata ctx"
  by (auto simp: keepMetadata_def run_simps split: prod.splits)

lemma changing_left:
  "run_state (changingMetadata ctx m) w = ((q, meta), w') \<Longrightarrow> yields m P \<Longrightarrow> P (rc_metadata ctx) \<Longrightarrow> P meta"
  by (auto simp: changingMetadata_def run_simps split: prod.splits sum.splits dest: yieldsD)

lemma unset_shipped:
  assumes "shipped a" "run_state (a ctx) w = ((q, m'), w')" "unset (rc_metadata ctx)"
  shows "unset m'"
proof -
  have new: "unset ((rc_metadata ctx)(''branch_name'' \<mapsto> b))" "unset ((rc_metadata ctx)(''pr_url'' \<mapsto> b))" for b
    using assms(3) by (simp_all add: unset_upd deliverySettings_def)
  have "m' = rc_metadata ctx \<or> (\<exists>g. a = GitBranchAction g \<or> a = GitPRAction g)"
    using assms(1,2)
    by cases (auto simp: AgentRunAction_def IncrementalRetryAction_def HITLGateAction_def HumanAction_def
        CIPollAction_def NotificationAction_def dest: keep_left)
  then show ?thesis
  proof (elim disjE exE)
    fix g assume "a = GitBranchAction g"
    with assms(2) have "run_state (GitBranchAction g ctx) w = ((q, m'), w')" by simp
    then show ?thesis unfolding GitBranchAction_def
      by (rule changing_left) (intro yields_after(1) yields_ends(2) new assms(3))+
  next
    fix g assume "a = GitPRAction g"
    with assms(2) have "run_state (GitPRAction g ctx) w = ((q, m'), w')" by simp
    then show ?thesis unfolding GitPRAction_def Let_def
      by (rule changing_left) (intro yields_after(1) yields_if yields_ends new assms(3))+
  qed (simp add: assms(3))
qed

lemma arrives_unset: "arrives m \<Longrightarrow> unset m"
proof (induction rule: arrives.induct)
  case (left m a env r s w q m' w')
  then have "unset (rc_metadata (runContext env r s m))" by (simp add: runContext_def unset_inject)
  with left show ?case by (blast intro: unset_shipped)
qed (use yieldsD [OF unset_launched] yieldsD [OF unset_plain] in fastforce)+


section \<open>From the branch to the checks\<close>

lemma read_attempt_Inr:
  assumes "run_state (attempt m f) w = (Inr y, w')" "keeps readOnly m"
  obtains x v where "run_state m w = (Inr x, v)" "readOnly w v" "run_state (f x) v = (Inr y, w')"
  using assms by (cases rule: readOnly_attempt) auto

lemma readOnly_repo [frame_intros]: "keeps readOnly (repoOf g name p)"
proof -
  have "keeps readOnly (GetProjectByID p)"
    unfolding GetProjectByID_def by (rule readOnly_db_op, simp add: run_simps split: option.split)
  moreover have "keeps readOnly (providerFor g p)"
    by (auto simp: providerFor_def keeps_def run_simps read_only.frame_refl split: option.split)
  ultimately show ?thesis unfolding repoOf_def by (intro frame_intros)
qed

lemma readOnly_story: "readOnly w v \<Longrightarrow> readOnly v u \<Longrightarrow>
    run_state (GetStoryByID i) v = (Inr st, u) \<Longrightarrow> tbl_find story_id i (w_stories w) = Some st \<and> w_calls u = w_calls w"
  by (auto dest!: launch_reads(1) simp: readOnly_def)

lemma changing_Inr:
  assumes "run_state (changingMetadata ctx m) w = ((Inr (), meta), w')"
  shows "run_state m w = (Inr meta, w')"
  using assms by (auto simp: changingMetadata_def run_simps split: prod.splits sum.splits)

lemma repo_story_Inr:
  assumes "run_state (attempt (repoOf g name p) (\<lambda>repo. attempt (wrap_err h (GetStoryByID i)) (f repo))) w = (Inr y, w')"
  obtains repo st u where "tbl_find story_id i (w_stories w) = Some st" "w_calls u = w_calls w"
    "run_state (f repo st) u = (Inr y, w')"
proof -
  from assms readOnly_repo obtain repo v where v: "readOnly w v"
    "run_state (attempt (wrap_err h (GetStoryByID i)) (f repo)) v = (Inr y, w')"
    by (rule read_attempt_Inr)
  have "keeps readOnly (wrap_err h (GetStoryByID i))" by (intro frame_intros)
  with v(2) obtain st u where "run_state (wrap_err h (GetStoryByID i)) v = (Inr st, u)" "readOnly v u"
    "run_state (f repo st) u = (Inr y, w')"
    by (rule read_attempt_Inr)
  moreover from this have "tbl_find story_id i (w_stories w) = Some st \<and> w_calls u = w_calls w"
    by (intro readOnly_story [OF v(1)]) (simp_all add: run_wrap_err_Inr)
  ultimately show ?thesis using that by blast
qed

lemma GitBranch_Inr:
  assumes "run_state (GitBranchAction g ctx) w = ((Inr (), m), w')"
  obtains st where "tbl_find story_id (rc_story ctx) (w_stories w) = Some st"
    "m = (rc_metadata ctx)(''branch_name'' \<mapsto> JStr (branchName ctx st))"
  using changing_Inr [OF assms [unfolded GitBranchAction_def]] that
  by (elim repo_story_Inr attempt_Inr) (simp add: run_ok)

lemma GitPR_Inr:
  assumes "run_state (GitPRAction g ctx) w = ((Inr (), m), w')"
    and "metadataString (rc_metadata ctx) ''branch_name'' = branch"
  obtains st repo u url where "tbl_find story_id (rc_story ctx) (w_stories w) = Some st"
    "g_create_pr g repo (prTitle g ctx st branch) (buildPRBody st) branch (targetBranch ctx) u = Inr url"
    "w_calls w' = w_calls w @ [CallPullRequest repo branch (targetBranch ctx)]"
    "m = (rc_metadata ctx)(''pr_url'' \<mapsto> JStr url)"
proof -
  note pr = changing_Inr [OF assms(1) [unfolded GitPRAction_def Let_def assms(2)]]
  have "branch \<noteq> []" using pr by (auto elim!: attempt_Inr simp: run_fail)
  with pr have "run_state (attempt (repoOf g ''git_pr'' (rc_project ctx)) (\<lambda>repo.
      attempt (wrap_err (WrapErr [T ''fetch story'']) (GetStoryByID (rc_story ctx))) (\<lambda>s.
      attempt (createPR g ctx repo s branch) (\<lambda>url. ok ((rc_metadata ctx)(''pr_url'' \<mapsto> JStr url)))))) w = (Inr m, w')"
    by simp
  then obtain repo st u where s: "tbl_find story_id (rc_story ctx) (w_stories w) = Some st" "w_calls u = w_calls w"
    "run_state (attempt (createPR g ctx repo st branch) (\<lambda>url. ok ((rc_metadata ctx)(''pr_url'' \<mapsto> JStr url)))) u
       = (Inr m, w')"
    by (rule repo_story_Inr)
  from s(3) obtain url v where c: "run_state (createPR g ctx repo st branch) u = (Inr url, v)"
    "run_state (ok ((rc_metadata ctx)(''pr_url'' \<mapsto> JStr url)) :: metadata fop) v = (Inr m, w')"
    by (rule attempt_Inr)
  from c(1) have "g_create_pr g repo (prTitle g ctx st branch) (buildPRBody st) branch (targetBranch ctx) u = Inr url"
    "w_calls v = w_calls u @ [CallPullRequest repo branch (targetBranch ctx)]"
    by (auto simp: createPR_def run_simps split: sum.splits)
  with c(2) s(1,2) that show ?thesis by (simp add: run_ok)
qed

lemma inject_key:
  assumes "k \<notin> {''runtime_kind'', ''agent_image'', ''agent_id'', ''model'', ''template_content''}"
  shows "injectStepMetadata i m k = m k"
proof -
  have "injectKey i n m k = m k" if "k \<noteq> n" for n m
    using that by (simp add: injectKey_def Let_def)
  with assms show ?thesis by (simp add: injectStepMetadata_def)
qed

lemma inject_other [simp]:
  "metadataString (injectStepMetadata i m) ''branch_name'' = metadataString m ''branch_name''"
  "metadataString (injectStepMetadata i m) ''pr_url'' = metadataString m ''pr_url''"
  by (simp_all add: metadataString_def inject_key)

text \<open>
  C13: the pull request comes from the branch of the story and the poll watches that pull request.
  When the branch step succeeds with \<open>m\<close> and the pull request step after it, started with \<open>m\<close>,
  succeeds with \<open>m'\<close>, then exactly one pull request has been opened, from the branch whose name the
  branch step made of the story; the address the host answered with is the one that the context of
  every later step started with \<open>m'\<close> hands to the poll.
\<close>

theorem pull_request_from_branch:
  assumes "run_state (GitBranchAction g ctx) w = ((Inr (), m), w')"
    and "run_state (GitPRAction g (runContext env r s m)) v = ((Inr (), m'), v')"
  shows "\<exists>st st' repo url u. tbl_find story_id (rc_story ctx) (w_stories w) = Some st
    \<and> tbl_find story_id (run_story r) (w_stories v) = Some st'
    \<and> w_calls v' = w_calls v
        @ [CallPullRequest repo (branchName ctx st) (targetBranch (runContext env r s m))]
    \<and> g_create_pr g repo (prTitle g (runContext env r s m) st' (branchName ctx st)) (buildPRBody st')
        (branchName ctx st) (targetBranch (runContext env r s m)) u = Inr url
    \<and> metadataString (rc_metadata (runContext env r s' m')) ''pr_url'' = url"
proof -
  from assms(1) obtain st where st: "tbl_find story_id (rc_story ctx) (w_stories w) = Some st"
    "m = (rc_metadata ctx)(''branch_name'' \<mapsto> JStr (branchName ctx st))" by (rule GitBranch_Inr)
  then have "metadataString (rc_metadata (runContext env r s m)) ''branch_name'' = branchName ctx st"
    by (simp add: runContext_def) (simp add: metadataString_def)
  from assms(2) this obtain st' repo u url where pr: "tbl_find story_id (run_story r) (w_stories v) = Some st'"
    "g_create_pr g repo (prTitle g (runContext env r s m) st' (branchName ctx st)) (buildPRBody st')
       (branchName ctx st) (targetBranch (runContext env r s m)) u = Inr url"
    "w_calls v' = w_calls v @ [CallPullRequest repo (branchName ctx st) (targetBranch (runContext env r s m))]"
    "m' = (rc_metadata (runContext env r s m))(''pr_url'' \<mapsto> JStr url)"
    by (rule GitPR_Inr) (simp add: runContext_def)
  from pr(4) have "metadataString m' ''pr_url'' = url" by (simp add: metadataString_def)
  then have url: "metadataString (rc_metadata (runContext env r s' m')) ''pr_url'' = url" by (simp add: runContext_def)
  show ?thesis by (intro exI conjI) (rule st(1), rule pr(1), rule pr(3), rule pr(2), rule url)
qed

section \<open>The poll of the checks\<close>

text \<open>The answers that have been published for a step, in order; an answer that could not be had is \<open>error\<close>.\<close>

definition polled :: "run_context \<Rightarrow> world \<Rightarrow> string list" where
  "polled ctx w = map (\<lambda>e. metadataString (map_of (ev_payload e)) ''status'')
     (filter (\<lambda>e. ev_entity_type e = ''ci_poll'' \<and> ev_entity e = rs_id (rc_step ctx)) (w_events w))"

definition undecided :: "string list \<Rightarrow> bool" where
  "undecided ss \<longleftrightarrow> list_all (\<lambda>s. s \<noteq> ''pass'' \<and> s \<noteq> ''fail'') ss"

text \<open>How a poll of at most \<open>n\<close> ticks ends, by the answers it got.\<close>

definition pollEnds :: "string \<Rightarrow> time \<Rightarrow> nat \<Rightarrow> string list \<Rightarrow> unit res \<Rightarrow> bool" where
  "pollEnds url timeout n ss r \<longleftrightarrow>
     (\<exists>us. ss = us @ [''pass''] \<and> undecided us \<and> length us < n \<and> r = Inr ())
     \<or> (\<exists>us. ss = us @ [''fail''] \<and> undecided us \<and> length us < n
          \<and> r = Inl (PlainErr [T ''CI_POLL_FAILED: CI checks failed for PR '', T url]))
     \<or> undecided ss \<and> length ss = n
          \<and> (r = Inl ErrCtxCancelled
             \<or> r = Inl (PlainErr [T ''CI_POLL_TIMEOUT: timed out after '', N timeout, T '' waiting for CI on '', T url]))"

text \<open>Events can be written, and other processes leave it so and publish none for this step.\<close>

definition watchable :: "run_context \<Rightarrow> world \<Rightarrow> bool" where
  "watchable ctx w \<longleftrightarrow> w_faults w = [] \<and> tbl_find project_id (rc_project ctx) (w_projects w) \<noteq> None"

definition unobtrusive :: "git_host \<Rightarrow> run_context \<Rightarrow> bool" where
  "unobtrusive g ctx \<longleftrightarrow> (\<forall>k v. watchable ctx v \<longrightarrow>
     watchable ctx (after (g_meanwhile g k) v) \<and> polled ctx (after (g_meanwhile g k) v) = polled ctx v)"

lemma published:
  assumes "watchable ctx w"
  shows "\<exists>w'. run_state (publishPolling ctx url st) w = ((), w') \<and> watchable ctx w' \<and> polled ctx w' = polled ctx w @ [st]"
  using assms by (auto simp: watchable_def publishPolling_def publishEvent_def Publish_def polled_def metadataString_def
      run_simps run_db_op_faults)

lemma pollEnds_0: "pollEnds url timeout 0 [] r \<longleftrightarrow>
    r = Inl ErrCtxCancelled
    \<or> r = Inl (PlainErr [T ''CI_POLL_TIMEOUT: timed out after '', N timeout, T '' waiting for CI on '', T url])"
  by (simp add: pollEnds_def undecided_def)

lemma pollEnds_now:
  "pollEnds url timeout (Suc n) [''pass''] (Inr ())"
  "pollEnds url timeout (Suc n) [''fail''] (Inl (PlainErr [T ''CI_POLL_FAILED: CI checks failed for PR '', T url]))"
  by (simp_all add: pollEnds_def undecided_def)

lemma undecided_Cons: "undecided (s # ss) \<longleftrightarrow> s \<noteq> ''pass'' \<and> s \<noteq> ''fail'' \<and> undecided ss"
  by (simp add: undecided_def)

lemma pollEnds_later:
  assumes "pollEnds url timeout n ss r" "s \<noteq> ''pass''" "s \<noteq> ''fail''"
  shows "pollEnds url timeout (Suc n) (s # ss) r"
  using assms unfolding pollEnds_def
  by (elim disjE exE conjE) (simp_all add: undecided_Cons Cons_eq_append_conv)

lemma pollCI_ends:
  assumes "unobtrusive g ctx" "watchable ctx w" "run_state (pollCI g ctx url timeout n) w = (r, w')"
  shows "\<exists>ss. polled ctx w' = polled ctx w @ ss \<and> pollEnds url timeout n ss r"
  using assms(2,3)
proof (induction n arbitrary: w)
  case 0
  then have "w' = w" "pollEnds url timeout 0 [] r" by (auto simp: run_simps pollEnds_0 split: if_splits)
  then show ?case by (intro exI [of _ "[]"]) simp
next
  case (Suc n)
  let ?u = "after (g_meanwhile g n) w"
  have u: "watchable ctx ?u" "polled ctx ?u = polled ctx w"
    using assms(1) Suc.prems(1) by (simp_all add: unobtrusive_def)
  define st where "st = (case g_ci_status g url ?u of Inl e \<Rightarrow> ''error'' | Inr x \<Rightarrow> x)"
  obtain v where v: "run_state (publishPolling ctx url st) ?u = ((), v)" "watchable ctx v"
    "polled ctx v = polled ctx w @ [st]"
    using published [OF u(1)] u(2) by metis
  have run: "(if st = ''pass'' then (Inr (), v)
      else if st = ''fail'' then (Inl (PlainErr [T ''CI_POLL_FAILED: CI checks failed for PR '', T url]), v)
      else run_state (pollCI g ctx url timeout n) v) = (r, w')"
    using Suc.prems(2) v(1) by (auto simp: st_def run_simps after_def split: prod.splits sum.splits if_splits)
  show ?case
  proof (cases "st = ''pass'' \<or> st = ''fail''")
    case True
    with run v(3) pollEnds_now show ?thesis by (intro exI [of _ "[st]"]) auto
  next
    case False
    with run have "run_state (pollCI g ctx url timeout n) v = (r, w')" by simp
    from Suc.IH [OF v(2) this] obtain ss where "polled ctx w' = polled ctx v @ ss" "pollEnds url timeout n ss r"
      by blast
    with False v(3) pollEnds_later show ?thesis by (intro exI [of _ "st # ss"]) simp
  qed
qed

text \<open>
  the first decisive answer ends the poll. When the action polls at all (it has the address of a
  pull request, a host and a positive interval), the answers it gets at its ticks are published one
  by one, every answer before the last is undecided (an error of the host included), and the step
  succeeds exactly on \<open>pass\<close>, fails as failed exactly on \<open>fail\<close>, and fails as timed out or cancelled
  exactly when all the ticks before the deadline brought no decision.
\<close>

theorem first_answer_ends_poll:
  assumes "watchable ctx w" and "unobtrusive g ctx" and "g_provider g (rc_project ctx) w = None"
    and "url = metadataString (rc_metadata ctx) ''pr_url''" and "url \<noteq> []"
    and "interval = durationOf (rc_metadata ctx) ''poll_interval_seconds'' (g_poll_interval g)" and "0 < interval"
    and "timeout = durationOf (rc_metadata ctx) ''timeout_seconds'' (g_poll_timeout g)"
    and "run_state (CIPollAction g ctx) w = ((r, m), w')"
  shows "m = rc_metadata ctx
    \<and> (\<exists>ss. polled ctx w' = polled ctx w @ ss \<and> pollEnds url timeout (g_ticks g interval timeout w) ss r)"
proof -
  have run: "run_state (pollCI g ctx url timeout (g_ticks g interval timeout w)) w = (r, w')" "m = rc_metadata ctx"
    using assms(3-9) by (auto simp: CIPollAction_def keepMetadata_def providerFor_def Let_def run_simps split: prod.splits)
  from pollCI_ends [OF assms(2,1) run(1)] run(2) show ?thesis by blast
qed

end
