(* ===== verification/ExternalWitnesses.thy ===== *)
theory ExternalWitnesses
  imports ExternalSpec RunWitnesses
begin

text \<open>The properties of the actions on the git host applied to the sample project and its story.\<close>

text \<open>A host that creates everything and whose checks pass at the second look.\<close>

definition sample_host :: git_host where
  "sample_host =
     \<lparr>g_provider = (\<lambda>p w. None), g_create_branch = (\<lambda>repo branch base w. None),
      g_create_pr = (\<lambda>repo title body branch base w. Inr ''pr/1''),
      g_ci_status = (\<lambda>url w. if w_events w = [] then Inl ''unreachable'' else Inr ''pass''),
      g_var_order = (\<lambda>vs. vs), g_uuid_text = show_nat, g_poll_interval = 30000000000,
      g_poll_timeout = 900000000000, g_ticks = (\<lambda>interval timeout w. 3),
      g_meanwhile = (\<lambda>k. State_Monad.return ()), g_cancelled = (\<lambda>w. False)\<rparr>"

abbreviation sample_open :: run where
  "sample_open \<equiv> sample_run RunStatusRunning [] []"

abbreviation hosted_world :: world where
  "hosted_world \<equiv> sample_world sample_open []"

lemma sample_host_fields [simp]:
  "g_provider sample_host p w = None" "g_create_branch sample_host repo branch base w = None"
  "g_create_pr sample_host repo title body branch base w = Inr ''pr/1''"
  "g_ticks sample_host interval timeout w = 3" "g_meanwhile sample_host k = State_Monad.return ()"
  "g_poll_interval sample_host = 30000000000"
  by (simp_all add: sample_host_def)

text \<open>A pull request step whose configuration names another target.\<close>

definition develop_step :: run_step where
  "develop_step = (sample_b StepStatusPending)\<lparr>rs_config := Some [''target_branch'' \<mapsto> ''develop'']\<rparr>"


definition branch_step :: run_step where
  "branch_step = (sample_a StepStatusRunning)\<lparr>rs_config := Some [''branch_pattern'' \<mapsto> ''wip/{story_key}-{slug}'']\<rparr>"

abbreviation branch_context :: run_context where
  "branch_context \<equiv> runContext sample_env sample_open branch_step Map.empty"

definition branched :: metadata where
  "branched = (rc_metadata branch_context)(''branch_name'' \<mapsto> JStr ''wip/S-1-demo'')"

lemma sample_branch: "branchName branch_context sample_story = ''wip/S-1-demo''"
proof -
  have "replaceAll ''{slug}'' (slugify ''demo'') (replaceAll ''{story_key}'' ''S-1'' ''wip/{story_key}-{slug}'') = ''wip/S-1-demo''"
    by code_simp
  then show ?thesis
    by (simp add: branchName_def configValue_def runContext_def branch_step_def withDefault_def sample_story_def)
qed

lemma sample_rows [simp]:
  "rc_story (runContext sample_env sample_open s m) = 10" "rc_project (runContext sample_env sample_open s m) = 1"
  "project_repo_url (toDomainProject sample_project) = Some ''https://git.example/demo.git''"
  by (simp_all add: runContext_def toDomainProject_def sample_project_def)

lemmas host_defs = changingMetadata_def repoOf_def providerFor_def GetProjectByID_def GetStoryByID_def
  createBranch_def createPR_def run_simps run_db_op derefString_def

lemma pull_request_from_branch_witness:
  "\<exists>w' v' m'. run_state (GitBranchAction sample_host branch_context) hosted_world = ((Inr (), branched), w')
     \<and> run_state (GitPRAction sample_host (runContext sample_env sample_open (sample_b StepStatusRunning) branched)) w'
         = ((Inr (), m'), v')
     \<and> w_calls w' = [CallBranch ''https://git.example/demo.git'' ''wip/S-1-demo'' ''main'']
     \<and> metadataString (rc_metadata (runContext sample_env sample_open branch_step m')) ''pr_url'' = ''pr/1''"
proof -
  have base: "baseBranch branch_context = ''main''"
    by (simp add: baseBranch_def configValue_def runContext_def branch_step_def withDefault_def)
  let ?w = "hosted_world\<lparr>w_calls := [CallBranch ''https://git.example/demo.git'' ''wip/S-1-demo'' ''main'']\<rparr>"
  have calls: "w_calls hosted_world = []" by (simp add: sample_world_def empty_world_def)
  have b: "run_state (GitBranchAction sample_host branch_context) hosted_world = ((Inr (), branched), ?w)"
    by (simp add: GitBranchAction_def host_defs find_row_def sample_branch base branched_def calls)
  have name: "metadataString (rc_metadata (runContext sample_env sample_open s branched)) ''branch_name'' = ''wip/S-1-demo''" for s
    by (simp add: runContext_def) (simp add: metadataString_def branched_def)
  obtain m' v' where p: "run_state (GitPRAction sample_host
      (runContext sample_env sample_open (sample_b StepStatusRunning) branched)) ?w = ((Inr (), m'), v')"
    by (simp add: GitPRAction_def host_defs find_row_def name Let_def)
  from pull_request_from_branch [OF b p, of branch_step] have
    "metadataString (rc_metadata (runContext sample_env sample_open branch_step m')) ''pr_url'' = ''pr/1''" by auto
  with b p show ?thesis by (intro exI conjI) (assumption | simp)+
qed

definition poll_context :: run_context where
  "poll_context = runContext sample_env sample_open (sample_b StepStatusRunning) [''pr_url'' \<mapsto> JStr ''pr/1'']"

lemma first_answer_ends_poll_witness:
  "\<exists>r m w' ss. run_state (CIPollAction sample_host poll_context) hosted_world = ((r, m), w')
     \<and> polled poll_context w' = polled poll_context hosted_world @ ss
     \<and> pollEnds ''pr/1'' 900000000000 3 ss r"
proof -
  have url: "metadataString (rc_metadata poll_context) ''pr_url'' = ''pr/1''"
    by (simp add: poll_context_def runContext_def) (simp add: metadataString_def)
  have "rc_metadata poll_context ''poll_interval_seconds'' = None" "rc_metadata poll_context ''timeout_seconds'' = None"
    by (simp_all add: poll_context_def runContext_def inject_key)
  then have times: "durationOf (rc_metadata poll_context) ''poll_interval_seconds'' (g_poll_interval sample_host) = 30000000000"
    "durationOf (rc_metadata poll_context) ''timeout_seconds'' (g_poll_timeout sample_host) = 900000000000"
    by (simp_all add: durationOf_def sample_host_def)
  have "watchable poll_context hosted_world" "unobtrusive sample_host poll_context"
    by (simp_all add: watchable_def unobtrusive_def poll_context_def after_def run_simps)
  moreover obtain r m w' where run: "run_state (CIPollAction sample_host poll_context) hosted_world = ((r, m), w')"
    by (metis surj_pair)
  ultimately show ?thesis
    using first_answer_ends_poll [of poll_context hosted_world sample_host, OF _ _ _ url [symmetric] _ times(1) [symmetric]
        _ times(2) [symmetric] run] by auto
qed

end
