(* ===== verification/CatalogueSpec.thy ===== *)
theory CatalogueSpec
  imports Capabilities Catalogue RunLaunch
begin

text \<open>
  What the catalogues guarantee: a stored secret comes back, for its project only; a user deletes own
  keys only; the bundle of an agent holds what its role is granted. And what they do not do: an agent
  that changes its provider keeps the runtime of the old one.
\<close>

lemma run_check: "run_state (attempt (check good e) f) w = (if good then run_state (f ()) w else (Inl e, w))"
  by (simp add: check_def run_attempt run_ok run_fail)

section \<open>Secrets\<close>

text \<open>What AES-256-GCM, SHA-256 and the source of nonces document.\<close>

definition authenticated :: "cipher \<Rightarrow> bool" where
  "authenticated c \<longleftrightarrow> (\<forall>m. length (ci_sha256 c m) = 32)
     \<and> (\<forall>w n. ci_nonce c w = Inr n \<longrightarrow> length n = nonceSize)
     \<and> (\<forall>k n p. length k = 32 \<and> length n = nonceSize \<longrightarrow> ci_open c k n (ci_seal c k n p) = Inr p)"

lemma decrypt_encrypt:
  assumes "authenticated c" "Encrypt c p (DeriveKey c m) w = Inr x"
  shows "Decrypt c x (DeriveKey c m) = Inr p"
  using assms by (auto simp: authenticated_def Encrypt_def Decrypt_def DeriveKey_def split: sum.splits)

lemma encrypting_decrypting:
  assumes "authenticated (se_cipher se)" "run_state (encrypting se what raw) w = (Inr x, w')"
  shows "w' = w \<and> run_state (decrypting se what' x) v = (Inr raw, v)"
proof -
  from assms(2) have "w' = w" "Encrypt (se_cipher se) raw (DeriveKey (se_cipher se) (se_master se)) w = Inr x"
    by (auto simp: encrypting_def run_simps split: prod.splits sum.splits)
  with decrypt_encrypt [OF assms(1) this(2)] show ?thesis
    by (simp add: decrypting_def lift_def run_simps)
qed

lemma CreateCredential_Inr:
  assumes "run_state (CreateCredential name scope p value) w = (Inr c, w')"
  shows "w_credentials w' = w_credentials w @ [c] \<and> cred_name c = name \<and> cred_scope c = scope \<and> cred_project c = p
    \<and> cred_value c = value \<and> (\<forall>x \<in> set (w_credentials w). \<not> sameCredential c x)"
  using assms by (auto simp: CreateCredential_def run_db_op_faults run_simps Let_def split: list.splits if_splits)

lemma createCredential_Inr:
  assumes "authenticated (se_cipher se)" "run_state (createCredential se name scope p raw) w = (Inr c, w')"
  obtains u where "w_credentials u = w_credentials w"
    "run_state (CreateCredential name scope p (cred_value c)) u = (Inr c, w')"
    "\<And>v what. run_state (decrypting se what (cred_value c)) v = (Inr raw, v)"
proof -
  from assms(2) have "run_state (attempt (encrypting se ''failed to encrypt credential'' raw)
      (\<lambda>value. CreateCredential name scope p value)) w = (Inr c, w')"
    by (simp add: createCredential_def run_check split: if_splits)
  then obtain x v where "run_state (encrypting se ''failed to encrypt credential'' raw) w = (Inr x, v)"
    "run_state (CreateCredential name scope p x) v = (Inr c, w')"
    by (rule attempt_Inr)
  with encrypting_decrypting [OF assms(1) this(1)] have x:
    "run_state (encrypting se ''failed to encrypt credential'' raw) w = (Inr x, w)"
    "run_state (CreateCredential name scope p x) w = (Inr c, w')"
    by simp_all
  with CreateCredential_Inr [OF x(2)] encrypting_decrypting [OF assms(1) x(1)] that show ?thesis by blast
qed

lemma find_new: "\<forall>x \<in> set xs. \<not> P x \<Longrightarrow> P c \<Longrightarrow> find P (xs @ [c]) = Some c"
  by (induction xs) auto

lemma find_other: "\<not> P c \<Longrightarrow> find P (xs @ [c]) = find P xs"
  by (induction xs) auto

lemma resolve_same:
  assumes "w_faults u = []" "w_faults v = []"
    "\<And>name. find (\<lambda>c. cred_name c = name \<and> cred_scope c = ScopeGlobal) (w_credentials u)
       = find (\<lambda>c. cred_name c = name \<and> cred_scope c = ScopeGlobal) (w_credentials v)"
    "\<And>name i. q = Some i \<Longrightarrow>
       find (\<lambda>c. cred_name c = name \<and> cred_scope c = ScopeProject \<and> cred_project c = Some i) (w_credentials u)
       = find (\<lambda>c. cred_name c = name \<and> cred_scope c = ScopeProject \<and> cred_project c = Some i) (w_credentials v)"
  shows "fst (run_state (ResolveCredential se name q) u) = fst (run_state (ResolveCredential se name q) v)"
  using assms
  by (auto simp: ResolveCredential_def projectCredential_def GetProjectByName_def GetGlobalByName_def
      decrypting_def lift_def run_simps run_db_op split: option.splits sum.splits)

text \<open>
  C27: a stored secret comes back, to its project only. Once \<open>CreateForProject\<close> has stored a
  credential, resolving its name for that project gives the value that was stored, as long as the
  table stays as it is and the database answers, whatever global credential has the same name; and
  what every other project, and an agent of no project, resolves any name to is what it was before.
\<close>

theorem stored_secret_comes_back:
  assumes "authenticated (se_cipher se)" and "run_state (CreateForProject se name p raw) w = (Inr c, w')"
    and "w_credentials v = w_credentials w'" and "w_faults v = []"
  shows "run_state (ResolveCredential se name (Some p)) v = (Inr raw, v)
    \<and> (\<forall>q other. q \<noteq> Some p \<longrightarrow>
         fst (run_state (ResolveCredential se other q) v)
           = fst (run_state (ResolveCredential se other q) (v\<lparr>w_credentials := w_credentials w\<rparr>)))"
proof -
  from assms(2) have "run_state (createCredential se name ScopeProject (Some p) raw) w = (Inr c, w')"
    by (simp add: CreateForProject_def)
  with assms(1) obtain u where u: "w_credentials u = w_credentials w"
    "run_state (CreateCredential name ScopeProject (Some p) (cred_value c)) u = (Inr c, w')"
    "\<And>v what. run_state (decrypting se what (cred_value c)) v = (Inr raw, v)"
    by (rule createCredential_Inr) blast
  have c: "w_credentials v = w_credentials w @ [c]" "cred_name c = name" "cred_scope c = ScopeProject"
    "cred_project c = Some p" "\<forall>x \<in> set (w_credentials w). \<not> sameCredential c x"
    using CreateCredential_Inr [OF u(2)] assms(3) u(1) by auto
  have "find (\<lambda>x. cred_name x = name \<and> cred_scope x = ScopeProject \<and> cred_project x = Some p) (w_credentials v) = Some c"
    unfolding c(1) using c(2-5) by (intro find_new) (auto simp: sameCredential_def)
  then have "run_state (ResolveCredential se name (Some p)) v = (Inr raw, v)"
    using assms(4) u(3) by (simp add: ResolveCredential_def projectCredential_def GetProjectByName_def run_simps run_db_op)
  moreover have "fst (run_state (ResolveCredential se other q) v)
      = fst (run_state (ResolveCredential se other q) (v\<lparr>w_credentials := w_credentials w\<rparr>))" if "q \<noteq> Some p" for q other
    using that assms(4) c by (intro resolve_same) (auto simp: find_other ScopeGlobal_def ScopeProject_def)
  ultimately show ?thesis by blast
qed

section \<open>Keys of users\<close>

text \<open>
  A user deletes own keys only. Under every pattern of infrastructure failures \<open>DeleteKey\<close> leaves
  every key of every other user and every other key of the user; and when the database answers it
  succeeds, whether the key was there or not, and the user has no key of that identifier any more.
\<close>

theorem delete_key_only_own:
  assumes "run_state (DeleteKey u i) w = (r, w')" and "distinct (map key_id (w_api_keys w))"
  shows "filter (\<lambda>k. key_user k \<noteq> u) (w_api_keys w') = filter (\<lambda>k. key_user k \<noteq> u) (w_api_keys w)
    \<and> filter (\<lambda>k. key_id k \<noteq> i) (w_api_keys w') = filter (\<lambda>k. key_id k \<noteq> i) (w_api_keys w)
    \<and> (w_faults w = [] \<longrightarrow> r = Inr () \<and> (\<forall>k \<in> set (w_api_keys w'). \<not> (key_id k = i \<and> key_user k = u)))"
proof -
  have unique: "k' = k" if "k \<in> set (w_api_keys w)" "k' \<in> set (w_api_keys w)" "key_id k' = key_id k" for k k'
    using that assms(2) by (auto simp: distinct_map dest: inj_onD)
  have "w_api_keys w' = w_api_keys w \<or>
      (\<exists>k. tbl_find key_id i (w_api_keys w) = Some k \<and> key_user k = u \<and> w_api_keys w' = without (\<lambda>k. key_id k = i) (w_api_keys w))"
    using assms(1)
    by (auto simp: DeleteKey_def GetUserAPIKey_def DeleteUserAPIKey_def find_row_def run_db_op_faults run_simps
        split: list.splits option.splits if_splits)
  moreover have "filter (\<lambda>k. key_user k \<noteq> u) (without (\<lambda>k. key_id k = i) (w_api_keys w)) = filter (\<lambda>k. key_user k \<noteq> u) (w_api_keys w)"
    if "tbl_find key_id i (w_api_keys w) = Some k" "key_user k = u" for k
  proof -
    from that have "k \<in> set (w_api_keys w)" "key_id k = i" by (auto dest: tbl_find_eq_Some)
    with unique that(2) show ?thesis by (auto simp: without_def intro!: filter_cong)
  qed
  moreover have "r = Inr () \<and> (\<forall>k \<in> set (w_api_keys w'). \<not> (key_id k = i \<and> key_user k = u))" if "w_faults w = []"
  proof (cases "tbl_find key_id i (w_api_keys w)")
    case None
    with that assms(1) have "r = Inr ()" "w_api_keys w' = w_api_keys w"
      by (auto simp: DeleteKey_def GetUserAPIKey_def find_row_def run_simps run_db_op)
    with None show ?thesis by (auto simp: tbl_find_None_iff)
  next
    case (Some k)
    then have "k \<in> set (w_api_keys w)" "key_id k = i" by (auto dest: tbl_find_eq_Some)
    with Some that assms(1) unique show ?thesis
      by (auto simp: DeleteKey_def GetUserAPIKey_def DeleteUserAPIKey_def find_row_def run_simps run_db_op without_def
          split: if_splits)
  qed
  ultimately show ?thesis by (auto simp: without_def)
qed

section \<open>The runtime of an agent\<close>


section \<open>The bundle of an agent\<close>

text \<open>What a role is granted of a list of capabilities, in its order.\<close>

definition serverOf :: "spec_codec \<Rightarrow> string \<Rightarrow> capability \<Rightarrow> (string \<times> mcp_spec) option" where
  "serverOf sc role c =
     (if cap_kind c \<noteq> KindMCPServer then None
      else case sc_server sc (cap_spec c) of
        None \<Rightarrow> None
      | Some ms \<Rightarrow> if RoleMatches (ms_roles ms) role then Some (if ms_name ms = [] then cap_name c else ms_name ms, ms) else None)"

definition policyOf :: "spec_codec \<Rightarrow> string \<Rightarrow> capability \<Rightarrow> tool_policy option" where
  "policyOf sc role c =
     (if cap_kind c \<noteq> KindToolPolicy then None
      else case sc_policy sc (cap_spec c) of
        None \<Rightarrow> None | Some tp \<Rightarrow> if RoleMatches (tp_roles tp) role then Some tp else None)"

definition skillOf :: "spec_codec \<Rightarrow> capability \<Rightarrow> skill_spec option" where
  "skillOf sc c =
     (if cap_kind c \<noteq> KindSkill then None
      else case sc_skill sc (cap_spec c) of
        None \<Rightarrow> None
      | Some sk \<Rightarrow> if sk_files sk = [] then None else Some (if sk_name sk = [] then sk\<lparr>sk_name := cap_name c\<rparr> else sk))"

definition grantedServers :: "spec_codec \<Rightarrow> string \<Rightarrow> capability list \<Rightarrow> (string \<times> mcp_spec) list" where
  "grantedServers sc role cs = List.map_filter (serverOf sc role) cs"

definition grantedPolicies :: "spec_codec \<Rightarrow> string \<Rightarrow> capability list \<Rightarrow> tool_policy list" where
  "grantedPolicies sc role cs = List.map_filter (policyOf sc role) cs"

text \<open>The secrets the granted servers refer to, and the value of a secret in the scope of a project.\<close>

definition grantedRefs :: "spec_codec \<Rightarrow> string \<Rightarrow> capability list \<Rightarrow> string set" where
  "grantedRefs sc role cs = {r. r \<noteq> [] \<and> (\<exists>x \<in> set (grantedServers sc role cs). r = ms_credential (snd x))}"

definition secretOf :: "secrets \<Rightarrow> uuid option \<Rightarrow> string \<Rightarrow> world \<Rightarrow> string option" where
  "secretOf se p name w =
     (let own = (case p of None \<Rightarrow> None
                 | Some i \<Rightarrow> find (\<lambda>c. cred_name c = name \<and> cred_scope c = ScopeProject \<and> cred_project c = Some i) (w_credentials w));
          found = (case own of Some c \<Rightarrow> Some c
                   | None \<Rightarrow> find (\<lambda>c. cred_name c = name \<and> cred_scope c = ScopeGlobal) (w_credentials w))
      in case found of
           None \<Rightarrow> None
         | Some c \<Rightarrow> (case Decrypt (se_cipher se) (cred_value c) (DeriveKey (se_cipher se) (se_master se)) of
              Inl e \<Rightarrow> None | Inr v \<Rightarrow> Some v))"

definition mergedPolicy :: "tool_policy option \<Rightarrow> tool_policy list \<Rightarrow> tool_policy option" where
  "mergedPolicy start tps =
     (if tps = [] then start
      else let old = (case start of None \<Rightarrow> \<lparr>tp_allow = [], tp_deny = [], tp_roles = []\<rparr> | Some x \<Rightarrow> x)
           in Some (old\<lparr>tp_allow := tp_allow old @ concat (map tp_allow tps),
                        tp_deny := tp_deny old @ concat (map tp_deny tps)\<rparr>))"

lemma map_filter_snoc: "List.map_filter f (xs @ [x]) = List.map_filter f xs @ (case f x of None \<Rightarrow> [] | Some y \<Rightarrow> [y])"
  by (induction xs) (auto simp: map_filter_simps split: option.split)

lemma granted_snoc [simp]:
  "grantedServers sc role (cs @ [c]) = grantedServers sc role cs @ (case serverOf sc role c of None \<Rightarrow> [] | Some x \<Rightarrow> [x])"
  "grantedPolicies sc role (cs @ [c]) = grantedPolicies sc role cs @ (case policyOf sc role c of None \<Rightarrow> [] | Some x \<Rightarrow> [x])"
  by (simp_all add: grantedServers_def grantedPolicies_def map_filter_snoc)

lemma grantedRefs_snoc:
  "grantedRefs sc role (cs @ [c]) = grantedRefs sc role cs
     \<union> (case serverOf sc role c of None \<Rightarrow> {} | Some x \<Rightarrow> {ms_credential (snd x)} - {[]})"
  by (auto simp: grantedRefs_def split: option.split)

lemma mergedPolicy_Nil: "mergedPolicy start [] = start"
  by (simp add: mergedPolicy_def)

lemma secretOf_same: "w_credentials v = w_credentials w \<Longrightarrow> secretOf se p r v = secretOf se p r w"
proof -
  assume same: "w_credentials v = w_credentials w"
  show ?thesis unfolding secretOf_def same ..
qed

lemma mergedPolicy_snoc: "mergedPolicy start (tps @ [tp]) = mergedPolicy (mergedPolicy start tps) [tp]"
  by (auto simp: mergedPolicy_def Let_def split: option.split)

text \<open>A resolution under failures gives the secret or nothing, and without failures the secret if there is one.\<close>

lemma resolve_secret:
  assumes "run_state (ResolveCredential se name p) w = (r, w')"
  shows "readOnly w w' \<and> (case r of Inr v \<Rightarrow> secretOf se p name w = Some v | Inl e \<Rightarrow> w_faults w = [] \<longrightarrow> secretOf se p name w = None)"
proof -
  have reads: "keeps readOnly (GetProjectByName n i)" "keeps readOnly (GetGlobalByName n)" for n i
    unfolding GetProjectByName_def GetGlobalByName_def by (rule readOnly_db_op, simp add: run_simps)+
  have "keeps readOnly (ResolveCredential se name p)"
    unfolding ResolveCredential_def projectCredential_def decrypting_def lift_def using reads
    by (intro frame_intros)
  with assms have "readOnly w w'" by (blast dest: keepsD)
  moreover have "case r of Inr v \<Rightarrow> secretOf se p name w = Some v | Inl e \<Rightarrow> w_faults w = [] \<longrightarrow> secretOf se p name w = None"
    using assms
    by (cases p)
      (auto simp: ResolveCredential_def projectCredential_def GetProjectByName_def GetGlobalByName_def decrypting_def lift_def
        run_simps run_db_op_faults secretOf_def Let_def split: option.splits sum.splits list.splits if_splits)
  ultimately show ?thesis by blast
qed

text \<open>
  The servers (a later one of the same name replaces an earlier one), the policy and the skills a role
  is granted of the capabilities \<open>cs\<close>; secrets \<open>cr\<close> that are right, and complete without failures; a
  bundle that holds all of this.
\<close>

definition composed :: "spec_codec \<Rightarrow> string \<Rightarrow> capability list \<Rightarrow> runtime_bundle \<Rightarrow> bool" where
  "composed sc role cs b \<longleftrightarrow>
     map_of (rb_servers b) = map_of (rev (map (\<lambda>(n, ms). (n, serverEntry ms)) (grantedServers sc role cs)))
     \<and> rb_policy b = mergedPolicy None (grantedPolicies sc role cs)
     \<and> rb_skills b = List.map_filter (skillOf sc) cs \<and> rb_prompt b = []"

definition rightSecrets :: "(string \<rightharpoonup> string) \<Rightarrow> bool \<Rightarrow> string set \<Rightarrow> (string \<rightharpoonup> string) \<Rightarrow> bool" where
  "rightSecrets secret full refs cr \<longleftrightarrow>
     (\<forall>r v. cr r = Some v \<longrightarrow> r \<in> refs \<and> secret r = Some v)
     \<and> (full \<longrightarrow> (\<forall>r \<in> refs. cr r = secret r))"

definition bundled ::
  "secrets \<Rightarrow> spec_codec \<Rightarrow> uuid option \<Rightarrow> string \<Rightarrow> world \<Rightarrow> capability list \<Rightarrow> runtime_bundle \<Rightarrow> bool" where
  "bundled se sc p role w cs b \<longleftrightarrow>
     composed sc role cs b
     \<and> rightSecrets (\<lambda>r. secretOf se p r w) (w_faults w = []) (grantedRefs sc role cs) (map_of (rb_credentials b))"

lemma kinds [simp]:
  "KindSkill \<noteq> KindMCPServer" "KindSkill \<noteq> KindToolPolicy" "KindMCPServer \<noteq> KindToolPolicy"
  "KindMCPServer \<noteq> KindSkill" "KindToolPolicy \<noteq> KindSkill" "KindToolPolicy \<noteq> KindMCPServer"
  by (simp_all add: KindSkill_def KindMCPServer_def KindToolPolicy_def)

lemma bundled_quiet:
  assumes "bundled se sc p role w cs b" "serverOf sc role c = None"
    and "rb_policy b' = mergedPolicy (rb_policy b) (case policyOf sc role c of None \<Rightarrow> [] | Some x \<Rightarrow> [x])"
    and "rb_skills b' = rb_skills b @ (case skillOf sc c of None \<Rightarrow> [] | Some x \<Rightarrow> [x])"
    and "rb_prompt b' = rb_prompt b" "rb_servers b' = rb_servers b" "rb_credentials b' = rb_credentials b"
  shows "bundled se sc p role w (cs @ [c]) b'"
proof -
  from assms(2) have servers: "grantedServers sc role (cs @ [c]) = grantedServers sc role cs"
    "grantedRefs sc role (cs @ [c]) = grantedRefs sc role cs"
    by (simp_all add: grantedRefs_snoc)
  have "rb_policy b' = mergedPolicy None (grantedPolicies sc role (cs @ [c]))"
    using assms(1,3) by (cases "policyOf sc role c") (simp_all add: bundled_def composed_def mergedPolicy_snoc mergedPolicy_Nil)
  with assms(1,4-7) servers show ?thesis by (simp add: bundled_def composed_def map_filter_snoc)
qed

lemma rightSecrets_missing:
  assumes "rightSecrets secret full refs cr" "full \<longrightarrow> secret k = None"
  shows "rightSecrets secret full (insert k refs) cr"
proof -
  have "cr k = secret k" if full
    using assms that unfolding rightSecrets_def by (metis not_Some_eq)
  with assms(1) show ?thesis unfolding rightSecrets_def by blast
qed

lemma rightSecrets_found:
  assumes "rightSecrets secret full refs cr" "secret k = Some x"
  shows "rightSecrets secret full (insert k refs) (cr(k \<mapsto> x))"
  unfolding rightSecrets_def
proof (intro conjI allI impI ballI)
  fix r v
  assume "(cr(k \<mapsto> x)) r = Some v"
  then have "r = k \<and> v = x \<or> cr r = Some v" by (simp split: if_splits)
  then show "r \<in> insert k refs" "secret r = Some v"
    using assms unfolding rightSecrets_def by blast+
next
  fix r
  assume "full" "r \<in> insert k refs"
  then have "r = k \<or> cr r = secret r" using assms(1) unfolding rightSecrets_def by blast
  with assms(2) show "(cr(k \<mapsto> x)) r = secret r" by (cases "r = k") simp_all
qed

text \<open>What \<open>addCredential\<close> makes of the bundle, by the outcome of the resolution.\<close>

lemma addCredential_cases:
  assumes "run_state (addCredential se p ms b) v = (b', v')" and "readOnly w v"
  obtains "ms_credential ms = []" "b' = b" "v' = v"
  | "ms_credential ms \<noteq> []" "b' = b" "readOnly w v'" "w_faults w = [] \<longrightarrow> secretOf se p (ms_credential ms) w = None"
  | x where "ms_credential ms \<noteq> []" "b' = b\<lparr>rb_credentials := AList.update (ms_credential ms) x (rb_credentials b)\<rparr>"
      "readOnly w v'" "secretOf se p (ms_credential ms) w = Some x"
proof (cases "ms_credential ms = []")
  case True
  with assms(1) have "b' = b" "v' = v" by (simp_all add: addCredential_def run_simps)
  with True that(1) show ?thesis by blast
next
  case False
  obtain r u where r: "run_state (ResolveCredential se (ms_credential ms) p) v = (r, u)" by (meson surj_pair)
  have same: "secretOf se p (ms_credential ms) v = secretOf se p (ms_credential ms) w"
    using assms(2) by (intro secretOf_same) (auto simp: readOnly_def)
  note secret = resolve_secret [OF r, unfolded same]
  then have u: "readOnly w u" using read_only.frame_trans [OF assms(2)] by blast
  show ?thesis
  proof (cases r)
    case (Inl e)
    with False assms(1) r have "b' = b" "v' = u" by (simp_all add: addCredential_def run_simps)
    moreover have "w_faults w = [] \<longrightarrow> secretOf se p (ms_credential ms) w = None"
      using conjunct2 [OF secret] Inl readOnly_fields(11) [OF assms(2)] by simp
    ultimately show ?thesis using that(2) False u by blast
  next
    case (Inr x)
    with False assms(1) r have "b' = b\<lparr>rb_credentials := AList.update (ms_credential ms) x (rb_credentials b)\<rparr>" "v' = u"
      by (simp_all add: addCredential_def run_simps)
    moreover have "secretOf se p (ms_credential ms) w = Some x" using conjunct2 [OF secret] Inr by simp
    ultimately show ?thesis using that(3) False u by blast
  qed
qed

lemma addCredential_effect:
  assumes "run_state (addCredential se p ms b) v = (b', v')" and "readOnly w v"
    and "rightSecrets (\<lambda>r. secretOf se p r w) (w_faults w = []) refs (map_of (rb_credentials b))"
  shows "readOnly w v' \<and> rb_servers b' = rb_servers b \<and> rb_policy b' = rb_policy b \<and> rb_skills b' = rb_skills b
    \<and> rb_prompt b' = rb_prompt b \<and> rightSecrets (\<lambda>r. secretOf se p r w) (w_faults w = [])
      (refs \<union> ({ms_credential ms} - {[]})) (map_of (rb_credentials b'))"
  using assms(1,2)
proof (cases rule: addCredential_cases)
  case 1
  with assms(2,3) show ?thesis by simp
next
  case 2
  with rightSecrets_missing [OF assms(3), of "ms_credential ms"] show ?thesis by simp
next
  case (3 x)
  with rightSecrets_found [OF assms(3), of "ms_credential ms" x] show ?thesis by (simp add: update_conv')
qed

lemma bundled_server:
  assumes "bundled se sc p role w cs b" "serverOf sc role c = Some (n, ms)" "readOnly w v"
    and "run_state (addCredential se p ms b) v = (b1, v')"
  shows "readOnly w v' \<and> bundled se sc p role w (cs @ [c])
    (b1\<lparr>rb_servers := AList.update n (serverEntry ms) (rb_servers b1)\<rparr>)"
proof -
  have "cap_kind c = KindMCPServer" using assms(2) by (auto simp: serverOf_def split: if_splits)
  then have others: "policyOf sc role c = None" "skillOf sc c = None" by (simp_all add: policyOf_def skillOf_def)
  have "rightSecrets (\<lambda>r. secretOf se p r w) (w_faults w = []) (grantedRefs sc role cs) (map_of (rb_credentials b))"
    using assms(1) by (simp add: bundled_def)
  note e = addCredential_effect [OF assms(4,3) this]
  have "grantedRefs sc role (cs @ [c]) = grantedRefs sc role cs \<union> ({ms_credential ms} - {[]})"
    using assms(2) by (simp add: grantedRefs_snoc)
  with e assms(1,2) others show ?thesis
    by (simp add: bundled_def composed_def map_filter_snoc update_conv')
qed

lemma addCapability_bundled:
  assumes "bundled se sc p role w cs b" "readOnly w v" "run_state (addCapability se sc p role c b) v = (b', v')"
  shows "readOnly w v' \<and> bundled se sc p role w (cs @ [c]) b'"
proof (cases "serverOf sc role c")
  case None
  have step: "v' = v \<and> b' = (if cap_kind c = KindSkill then addSkill sc c b
      else if cap_kind c = KindToolPolicy then addToolPolicy sc c role b else b)"
    using assms(3) None
    by (auto simp: addCapability_def addMCPServer_def serverOf_def run_simps split: if_splits option.splits)
  have "bundled se sc p role w (cs @ [c]) b'"
    by (rule bundled_quiet [OF assms(1) None])
      (auto simp: step addSkill_def addToolPolicy_def skillOf_def policyOf_def mergedPolicy_def Let_def
        split: option.split)
  with step assms(2) show ?thesis by simp
next
  case (Some x)
  obtain n ms where x: "x = (n, ms)" by (cases x)
  obtain b1 v1 where b1: "run_state (addCredential se p ms b) v = (b1, v1)" by (meson surj_pair)
  from Some x have c: "cap_kind c = KindMCPServer" "sc_server sc (cap_spec c) = Some ms" "RoleMatches (ms_roles ms) role"
    "n = (if ms_name ms = [] then cap_name c else ms_name ms)"
    by (auto simp: serverOf_def split: if_splits option.splits)
  with assms(3) b1 have "b' = b1\<lparr>rb_servers := AList.update n (serverEntry ms) (rb_servers b1)\<rparr>" "v' = v1"
    by (auto simp: addCapability_def addMCPServer_def run_simps)
  with bundled_server [OF assms(1) _ assms(2) b1] Some x show ?thesis by blast
qed

lemma addCapabilities_bundled:
  "bundled se sc p role w ds b \<Longrightarrow> readOnly w v \<Longrightarrow> run_state (addCapabilities se sc p role cs b) v = (b', v') \<Longrightarrow>
     readOnly w v' \<and> bundled se sc p role w (ds @ cs) b'"
proof (induction cs arbitrary: ds b v)
  case (Cons c cs)
  obtain b1 v1 where s: "run_state (addCapability se sc p role c b) v = (b1, v1)" by (meson surj_pair)
  from addCapability_bundled [OF Cons.prems(1,2) s] Cons.IH [of "ds @ [c]" b1 v1] Cons.prems(3) s
  show ?case by (simp add: run_simps)
qed (simp add: run_simps)


end
