(* ===== verification/GitConnectionsSpec.thy ===== *)
theory GitConnectionsSpec
  imports GitConnections CatalogueSpec
begin

text \<open>
  What the git connection guarantees: a token is stored completely or not at all, and comes back. And
  what it does not do: the test of an expired token succeeds and blames the scopes.
\<close>

section \<open>What leaves connections and events alone\<close>

definition gitUntouched :: "world \<Rightarrow> world \<Rightarrow> bool" where
  "gitUntouched w v \<longleftrightarrow> w_git v = w_git w \<and> w_events v = w_events w"

interpretation gitUntouched: frame gitUntouched
  by unfold_locales (simp_all add: gitUntouched_def)

lemma gitUntouched_self [simp]: "gitUntouched w w"
  by (simp add: gitUntouched_def)

lemma gitUntouched_fault_op:
  "(\<And>w. gitUntouched w (snd (run_state m w))) \<Longrightarrow> keeps gitUntouched (fault_op e m)"
  by (auto simp: keeps_def gitUntouched_def run_fault_op_faults split: list.split)

lemma gitUntouched_reads [frame_intros]:
  "keeps gitUntouched (GetProjectByID p)" "keeps gitUntouched (GetGitConnection p)" "keeps gitUntouched time_now"
  "keeps gitUntouched (reading f)"
proof -
  show "keeps gitUntouched (GetProjectByID p)" "keeps gitUntouched (GetGitConnection p)"
    unfolding GetProjectByID_def GetGitConnection_def db_op_def
    by (rule gitUntouched_fault_op, simp add: gitUntouched_def run_simps find_row_def)+
qed (simp_all add: keeps_def gitUntouched_def run_simps)

lemma gitUntouched_service [frame_intros]:
  "keeps gitUntouched (pastExpiry x)" "keeps gitUntouched (viewFromConn c)" "keeps gitUntouched (statusFromProbe r)"
  "keeps gitUntouched (providerBaseURL gs p pv)" "keeps gitUntouched (legacyEnvFallback gs p)"
  unfolding pastExpiry_def viewFromConn_def statusFromProbe_def providerBaseURL_def legacyEnvFallback_def Let_def
  by (intro frame_intros)+

lemma publish_git [simp]: "w_git (snd (run_state (Publish p ty en act pl) w)) = w_git w"
  by (simp add: Publish_def run_simps run_db_op_faults split: list.split)

lemma audit_git [simp]: "w_git (snd (run_state (auditGit gs p act pl) w)) = w_git w"
proof -
  obtain r v where "run_state (Publish p ''git_connection'' p act pl) w = (r, v)" by (meson surj_pair)
  with publish_git [of p "''git_connection''" p act pl w] show ?thesis
    by (simp add: auditGit_def publishEvent_def run_simps)
qed

section \<open>Storing a token\<close>

lemma set_connection_fields [simp]:
  "gc_project (set_connection provider secret hint f w c) = gc_project c"
  "gc_secret (set_connection provider secret hint f w c) = secret"
  "gc_expires (set_connection provider secret hint f w c) = pf_expires f"
  by (simp_all add: set_connection_def)

lemma newConnection_fields [simp]:
  "gc_project (newConnection p provider secret hint f w) = p"
  "gc_secret (newConnection p provider secret hint f w) = secret"
  "gc_expires (newConnection p provider secret hint f w) = pf_expires f"
  by (simp_all add: newConnection_def)

lemma others_update:
  assumes "\<And>c. gc_project (f c) = gc_project c"
  shows "filter (\<lambda>c. gc_project c \<noteq> p) (tbl_update gc_project p f cs) = filter (\<lambda>c. gc_project c \<noteq> p) cs"
    and "tbl_find gc_project p (tbl_update gc_project p f cs) = map_option f (tbl_find gc_project p cs)"
  using assms by (induction cs) auto

lemma find_git_append: "tbl_find gc_project p cs = None \<Longrightarrow> gc_project c = p \<Longrightarrow> tbl_find gc_project p (cs @ [c]) = Some c"
  by (induction cs) (auto split: if_splits)

lemma UpsertGitConnection_cases:
  assumes "run_state (UpsertGitConnection p provider secret hint f) w = (r, w')"
  obtains e where "r = Inl e" "gitUntouched w w'"
  | c where "r = Inr c" "gc_secret c = secret" "gc_expires c = pf_expires f" "tbl_find gc_project p (w_git w') = Some c"
      "filter (\<lambda>c. gc_project c \<noteq> p) (w_git w') = filter (\<lambda>c. gc_project c \<noteq> p) (w_git w)"
  using assms
  by (auto simp: UpsertGitConnection_def run_db_op_faults run_simps others_update find_git_append gitUntouched_def
      split: list.splits option.splits if_splits)

lemma run_encrypting:
  "run_state (encrypting se what raw) w =
     (case Encrypt (se_cipher se) raw (DeriveKey (se_cipher se) (se_master se)) w of
        Inl e \<Rightarrow> Inl (NewInternal what e) | Inr x \<Rightarrow> Inr x, w)"
  by (simp add: encrypting_def run_simps run_wrap_err split: sum.split)

text \<open>What a project's connection holds after a token has been stored, the others as they were.\<close>

definition holdsToken :: "git_service \<Rightarrow> uuid \<Rightarrow> string \<Rightarrow> time option \<Rightarrow> world \<Rightarrow> world \<Rightarrow> bool" where
  "holdsToken gs p token expires w w' \<longleftrightarrow>
     (\<exists>c. tbl_find gc_project p (w_git w') = Some c \<and> openToken gs c = Inr token \<and> gc_expires c = expires)
     \<and> filter (\<lambda>c. gc_project c \<noteq> p) (w_git w') = filter (\<lambda>c. gc_project c \<noteq> p) (w_git w)"

lemma persist_cases:
  assumes "authenticated (se_cipher (gs_secrets gs))" "run_state (persist gs p provider token f) w = (r, w')"
  obtains e where "r = Inl e" "gitUntouched w w'"
  | v where "r = Inr v" "holdsToken gs p token (gv_expires v) w w'"
proof -
  let ?key = "DeriveKey (se_cipher (gs_secrets gs)) (se_master (gs_secrets gs))"
  show ?thesis
  proof (cases "Encrypt (se_cipher (gs_secrets gs)) token ?key w")
    case (Inl e)
    with assms(2) have "r = Inl (NewInternal ''failed to encrypt git token'' e)" "w' = w"
      by (simp_all add: persist_def run_attempt run_encrypting)
    with that(1) show ?thesis by simp
  next
    case (Inr x)
    obtain q u where q: "run_state (UpsertGitConnection p provider x (last4 token) f) w = (q, u)" by (meson surj_pair)
    from q show ?thesis
    proof (cases rule: UpsertGitConnection_cases)
      case (1 e)
      with assms(2) Inr q have "r = Inl e" "w' = u" by (auto simp: persist_def run_attempt run_encrypting)
      with 1 that(1) show ?thesis by blast
    next
      case (2 c)
      obtain v u' where v: "run_state (viewFromConn c) u = (v, u')" by (meson surj_pair)
      then have "gv_expires v = gc_expires c" by (auto simp: viewFromConn_def run_simps split: prod.splits)
      moreover have "gitUntouched u u'" using v by (blast dest: keepsD [OF gitUntouched_service(2)])
      moreover have "openToken gs c = Inr token"
        using decrypt_encrypt [OF assms(1) Inr] 2(2) by (simp add: openToken_def)
      moreover have "r = Inr v" "w' = u'"
        using assms(2) Inr q v 2(1) by (simp_all add: persist_def run_attempt run_encrypting run_simps)
      ultimately show ?thesis using that(2) 2 by (auto simp: holdsToken_def gitUntouched_def)
    qed
  qed
qed

lemma stored_cases:
  assumes "authenticated (se_cipher (gs_secrets gs))"
    and "run_state (attempt (persist gs p provider token f) (\<lambda>v. do { _ \<leftarrow> auditGit gs p act (entries v); ok v })) w = (r, w')"
  shows "case r of Inl e \<Rightarrow> gitUntouched w w' | Inr v \<Rightarrow> holdsToken gs p token (gv_expires v) w w'"
proof -
  obtain q u where q: "run_state (persist gs p provider token f) w = (q, u)" by (meson surj_pair)
  with assms(1) show ?thesis
  proof (cases rule: persist_cases)
    case (1 e)
    with assms(2) q show ?thesis by (auto simp: run_attempt)
  next
    case (2 v)
    obtain x u' where x: "run_state (auditGit gs p act (entries v)) u = (x, u')" by (meson surj_pair)
    with audit_git [of gs p act "entries v" u] have "w_git u' = w_git u" by simp
    with assms(2) q 2 x show ?thesis by (auto simp: run_attempt run_simps holdsToken_def)
  qed
qed

lemma run_bind: "run_state (m \<bind> f) w = (case run_state m w of (x, v) \<Rightarrow> run_state (f x) v)"
  by (simp add: run_simps)

lemma GitSet_cases:
  assumes "authenticated (se_cipher (gs_secrets gs))" "run_state (GitSet gs p u a) w = (r, w')"
  shows "case r of Inl e \<Rightarrow> gitUntouched w w' | Inr v \<Rightarrow> holdsToken gs p (TrimSpace (gi_token a)) (gv_expires v) w w'"
proof -
  let ?token = "TrimSpace (gi_token a)" and ?provider = "normalizeProvider (gi_provider a)"
  consider "?token = [] \<or> keyInsecure gs" | "?token \<noteq> []" "\<not> keyInsecure gs" "\<not> gi_validate a"
    | "?token \<noteq> []" "\<not> keyInsecure gs" "gi_validate a" by blast
  then show ?thesis
  proof cases
    case 1
    with assms(2) show ?thesis by (cases "?token = []") (auto simp: GitSet_def Let_def run_simps)
  next
    case 2
    with assms(2) have "run_state (storeUnverified gs p u ?provider ?token) w = (r, w')" by (simp add: GitSet_def Let_def)
    then show ?thesis unfolding storeUnverified_def by (rule stored_cases [OF assms(1)])
  next
    case 3
    obtain base v where base: "run_state (providerBaseURL gs p ?provider) w = (base, v)" by (meson surj_pair)
    then have v: "gitUntouched w v" by (blast dest: keepsD [OF gitUntouched_service(4)])
    show ?thesis
    proof (cases "gs_probe gs ?provider base ?token v")
      case (Inl e)
      with 3 assms(2) base v show ?thesis by (auto simp: GitSet_def Let_def run_simps)
    next
      case (Inr x)
      obtain s v1 where s: "run_state (statusFromProbe x) v = (s, v1)" by (meson surj_pair)
      then have v1: "gitUntouched w v1"
        using gitUntouched.frame_trans [OF v] keepsD [OF gitUntouched_service(3) s] by blast
      show ?thesis
      proof (cases "fst s = ConnInsufficient")
        case True
        with 3 assms(2) base Inr s v1 show ?thesis by (auto simp: GitSet_def Let_def run_simps)
      next
        case False
        obtain now v2 where now: "run_state time_now v1 = (now, v2)" by (meson surj_pair)
        then have v2: "gitUntouched w v2"
          using gitUntouched.frame_trans [OF v1] keepsD [OF gitUntouched_reads(3) now] by blast
        from 3 assms(2) base Inr s False have "run_state (storeVerified gs p u ?provider ?token x (fst s)) v1 = (r, w')"
          by (auto simp: GitSet_def Let_def run_simps)
        then have "case r of Inl e \<Rightarrow> gitUntouched v2 w' | Inr view \<Rightarrow> holdsToken gs p ?token (gv_expires view) v2 w'"
          unfolding storeVerified_def run_bind now prod.case by (rule stored_cases [OF assms(1)])
        with v2 show ?thesis by (auto simp: gitUntouched_def holdsToken_def split: sum.splits)
      qed
    qed
  qed
qed

text \<open>
  C26: a token is stored completely or not at all. Under every pattern of infrastructure failures and
  whatever the host answers to the probe, \<open>Set\<close> that returns an error (an empty token, an insecure
  master key, a token the host refuses or that lacks a scope, a host that is not reached, a failing
  database) has changed no connection and published nothing; and one that succeeds has left the other
  projects' connections alone, and until the connections change and as long as the database answers
  the token resolves, without its surrounding spaces and with the expiry that was reported.
\<close>

theorem token_stored_or_nothing:
  assumes "authenticated (se_cipher (gs_secrets gs))" and "run_state (GitSet gs p u a) w = (r, w')"
  shows "case r of
      Inl e \<Rightarrow> w_git w' = w_git w \<and> w_events w' = w_events w
    | Inr v \<Rightarrow> filter (\<lambda>c. gc_project c \<noteq> p) (w_git w') = filter (\<lambda>c. gc_project c \<noteq> p) (w_git w)
        \<and> (\<forall>x. w_git x = w_git w' \<longrightarrow> w_faults x = [] \<longrightarrow>
             run_state (TokenForProject gs p) x = (Inr (TrimSpace (gi_token a), gv_expires v), x))"
  using GitSet_cases [OF assms]
  by (auto simp: gitUntouched_def holdsToken_def TokenForProject_def GetGitConnection_def run_db_op find_row_def run_simps
      split: sum.splits)

section \<open>An expired token\<close>

text \<open>
  C39: the test of an expired token succeeds and blames the scopes. When the host still accepts the
  stored token but reports an expiry that has passed, \<open>Test\<close> answers \<open>ok\<close> with the status \<open>expired\<close>, and
  the connection is stored with the validation error \<open>insufficient_scope\<close>, which is not what is wrong
  with it, although there is a code for an expired token.
\<close>

theorem expired_token_tests_ok:
  assumes "tbl_find gc_project p (w_git w) = Some c" and "openToken gs c = Inr raw" and "w_faults w = []"
    and "\<And>base v. gs_probe gs (gc_provider c) base raw v = Inr r" and "pr_expires r = Some t" and "t < w_clock w"
    and "run_state (GitTest gs p u None) w = (res, w')"
  shows "(\<exists>v. res = Inr v \<and> tv_ok v \<and> tv_status v = ConnExpired)
    \<and> (\<exists>c'. tbl_find gc_project p (w_git w') = Some c' \<and> gc_status c' = ConnExpired
        \<and> gc_error c' = Some ErrInsufficientScope)"
proof -
  obtain base v where base: "run_state (providerBaseURL gs p (gc_provider c)) w = (base, v)"
    "w_git v = w_git w" "w_faults v = []" "w_clock v = w_clock w"
  proof (cases "gc_provider c = providerGitea")
    case True
    with assms(3) that show ?thesis
      by (auto simp: providerBaseURL_def GetProjectByID_def run_db_op find_row_def run_simps)
  next
    case False
    with assms(3) that show ?thesis by (auto simp: providerBaseURL_def run_simps)
  qed
  let ?v1 = "v\<lparr>w_clock := w_clock v + int (w_tick v)\<rparr>"
  let ?mark = "mark_connection ConnExpired (Some ErrInsufficientScope) ?v1"
  let ?v2 = "?v1\<lparr>w_git := tbl_update gc_project p ?mark (w_git v)\<rparr>"
  have status: "run_state (statusFromProbe r) v = ((ConnExpired, []), ?v1)"
    using assms(5,6) base(4) by (simp add: statusFromProbe_def pastExpiry_def run_simps)
  have mark: "run_state (recordTest p ConnExpired r) ?v1 = ((), ?v2)"
    using base(3) by (simp add: recordTest_def bestEffort_def MarkGitStatus_def run_db_op run_simps ConnExpired_def ConnConnected_def)
  obtain x v3 where audit: "run_state (auditGit gs p ''tested''
      [(''account_login'', JStr (pr_login r)), (''project_id'', JUuid p), (''status'', JStr ConnExpired),
       (''user_id'', JUuid u)]) ?v2 = (x, v3)" by (meson surj_pair)
  then have "w_git v3 = w_git ?v2"
    using audit_git [of gs p "''tested''" "[(''account_login'', JStr (pr_login r)), (''project_id'', JUuid p),
      (''status'', JStr ConnExpired), (''user_id'', JUuid u)]" ?v2] by simp
  moreover have "res = Inr (testView r (ConnExpired, []))" "w' = v3"
    using assms(7) base(1) status mark audit assms(1-4)
    by (simp_all add: GitTest_def storedToken_def GetGitConnection_def run_db_op find_row_def run_attempt run_simps
        ConnExpired_def ConnInsufficient_def)
  moreover have "gc_project (?mark c) = gc_project c" for c by (simp add: mark_connection_def)
  ultimately show ?thesis
    using assms(1) base(2) by (auto simp: testView_def others_update mark_connection_def)
qed

end
