(* ===== verification/CatalogueWitnesses.thy ===== *)
theory CatalogueWitnesses
  imports CatalogueSpec GitConnectionsSpec RunWitnesses
begin

text \<open>The properties of the catalogues applied to a project with one agent.\<close>

text \<open>A cipher that leaves the text as it is behind a nonce of zeros.\<close>

definition demo_cipher :: cipher where
  "demo_cipher =
     \<lparr>ci_sha256 = (\<lambda>m. replicate 32 (CHR ''k'')), ci_nonce = (\<lambda>w. Inr (replicate 12 (CHR ''0''))),
      ci_seal = (\<lambda>k n p. p), ci_open = (\<lambda>k n p. Inr p)\<rparr>"

definition demo_secrets :: secrets where
  "demo_secrets = \<lparr>se_cipher = demo_cipher, se_master = ''master''\<rparr>"

lemma demo_authenticated: "authenticated (se_cipher demo_secrets)"
  by (simp add: authenticated_def demo_secrets_def demo_cipher_def nonceSize_def)

lemma demo_encrypting: "run_state (encrypting demo_secrets what raw) w = (Inr (replicate 12 (CHR ''0'') @ raw), w)"
  by (simp add: encrypting_def Encrypt_def DeriveKey_def demo_secrets_def demo_cipher_def run_simps)

abbreviation github_row :: credential where
  "github_row \<equiv> \<lparr>cred_id = w_next launch_world, cred_name = ''github'', cred_scope = ScopeProject, cred_project = Some 1,
     cred_value = replicate 12 (CHR ''0'') @ ''s3cret'', cred_created_at = w_clock launch_world,
     cred_updated_at = w_clock launch_world\<rparr>"

abbreviation github_world :: world where
  "github_world \<equiv> launch_world\<lparr>w_credentials := [github_row], w_next := Suc (w_next launch_world)\<rparr>"

lemma launch_catalogues [simp]:
  "w_credentials launch_world = []" "w_api_keys launch_world = []" "w_capabilities launch_world = []"
  "w_agent_caps launch_world = []" "w_agents launch_world = []" "w_stacks launch_world = []"
  by (simp_all add: launch_world_def empty_world_def)

lemma demo_create:
  "run_state (CreateForProject demo_secrets ''github'' 1 ''s3cret'') launch_world = (Inr github_row, github_world)"
  by (simp add: CreateForProject_def createCredential_def check_def run_attempt demo_encrypting CreateCredential_def
      run_db_op run_simps Let_def projectExists_def sample_project_def)

lemma stored_secret_comes_back_witness:
  "run_state (ResolveCredential demo_secrets ''github'' (Some 1)) github_world = (Inr ''s3cret'', github_world)"
  using stored_secret_comes_back [OF demo_authenticated demo_create, of github_world] by simp

definition demo_key :: user_api_key where
  "demo_key = \<lparr>key_id = 5, key_user = 7, key_provider = ''anthropic'', key_name = ''main'', key_encrypted = ''x'',
     key_hint = ''...x'', key_created_at = 0, key_updated_at = 0\<rparr>"

abbreviation key_world :: world where
  "key_world \<equiv> launch_world\<lparr>w_api_keys := [demo_key]\<rparr>"

lemma delete_key_only_own_witness:
  "filter (\<lambda>k. key_user k \<noteq> 8) (w_api_keys (snd (run_state (DeleteKey 8 5) key_world))) = [demo_key]"
proof -
  obtain r w' where run: "run_state (DeleteKey 8 5) key_world = (r, w')" by (meson surj_pair)
  have "distinct (map key_id (w_api_keys key_world))" by simp
  from delete_key_only_own [OF run this] run show ?thesis by (simp add: demo_key_def)
qed

definition demo_agent :: agent where
  "demo_agent =
     \<lparr>agent_id = 6, agent_model = ''opus'', agent_image = [], agent_stack_ref = None, agent_runtime_kind = ''claude_code'',
      agent_template = ''{{story}}'', agent_provider = ProviderClaude, agent_name = ''dev'', agent_type = ''custom'',
      agent_project = Some 1, agent_scope = ScopeProject\<rparr>"

definition to_opencode :: agent_update where
  "to_opencode = \<lparr>au_name = None, au_model = None, au_image = None, au_stack = None, au_template = None,
     au_provider = Some ''opencode''\<rparr>"

abbreviation agent_world :: world where
  "agent_world \<equiv> launch_world\<lparr>w_agents := [demo_agent]\<rparr>"

lemma update_runs: "\<exists>a w'. run_state (AgentUpdate 6 to_opencode) agent_world = (Inr a, w')"
  by (simp add: AgentUpdate_def GetAgent_def checkGiven_def check_def run_attempt UpdateAgent_def run_db_op run_simps
      to_opencode_def updatedAgent_def given_def agentRow_def toDomainAgent_def demo_agent_def validProvider_def validKind_def
      agentNameTaken_def agentRefsExist_def projectExists_def ProviderClaude_def ProviderOpenCode_def Let_def)


text \<open>A server of the tracker for reviewers, which refers to the stored secret.\<close>

definition tracker_capability :: capability where
  "tracker_capability =
     \<lparr>cap_id = 9, cap_kind = KindMCPServer, cap_name = ''tracker'', cap_version = 1, cap_scope = ScopeGlobal,
      cap_project = None, cap_spec = ''spec'', cap_created_at = 0\<rparr>"

definition tracker_spec :: mcp_spec where
  "tracker_spec = \<lparr>ms_name = [], ms_url = ''https://mcp.example'', ms_headers = [], ms_command = [],
     ms_credential = ''github'', ms_roles = [''review'']\<rparr>"

definition demo_codec :: spec_codec where
  "demo_codec = \<lparr>sc_skill = Map.empty, sc_server = [''spec'' \<mapsto> tracker_spec], sc_policy = Map.empty\<rparr>"

abbreviation bundle_world :: world where
  "bundle_world \<equiv> github_world\<lparr>w_agents := [demo_agent], w_capabilities := [tracker_capability], w_agent_caps := [(6, 9)]\<rparr>"

lemma bundle_caps: "agentCaps 6 bundle_world = [tracker_capability]"
  by (simp add: agentCaps_def tracker_capability_def)

lemma compose_runs: "\<exists>b w'. run_state (ComposeBundle demo_secrets demo_codec 6 ''review'') bundle_world = (Inr b, w')"
  by (simp add: ComposeBundle_def GetAgent_def ListForAgent_def run_db_op run_simps run_attempt uuid_nil_def
      split: prod.split)


section \<open>The connection to the git host\<close>

definition demo_probe :: "time option \<Rightarrow> probe_result" where
  "demo_probe x = \<lparr>pr_login = ''ann'', pr_scopes = [''project''], pr_expires = x, pr_token_type = TokenClassic\<rparr>"

definition demo_git :: "time option \<Rightarrow> git_service" where
  "demo_git x =
     \<lparr>gs_secrets = demo_secrets, gs_probe = (\<lambda>pv base token w. Inr (demo_probe x)), gs_getenv = (\<lambda>n. []),
      gs_parse_url = Map.empty, gs_events = False\<rparr>"

definition demo_input :: git_input where
  "demo_input = \<lparr>gi_provider = ''github'', gi_token = '' ghp_1 '', gi_validate = True\<rparr>"

lemma demo_git_fields [simp]:
  "gs_secrets (demo_git x) = demo_secrets" "gs_probe (demo_git x) pv base token w = Inr (demo_probe x)"
  "auditGit (demo_git x) p act entries = skip" "\<not> keyInsecure (demo_git x)"
  by (simp_all add: demo_git_def auditGit_def keyInsecure_def knownInsecureKeys_def demo_secrets_def)

lemma demo_trim: "TrimSpace '' ghp_1 '' = ''ghp_1''" "normalizeProvider ''github'' = providerGitHub"
  "TrimSpace ''project'' = ''project''"
  by code_simp+

lemma launch_no_connection [simp]: "w_git launch_world = []"
  by (simp add: launch_world_def empty_world_def)

lemma demo_set: "\<exists>v w'. run_state (GitSet (demo_git None) 1 3 demo_input) launch_world = (Inr v, w') \<and> w_faults w' = []"
  by (simp add: GitSet_def demo_input_def demo_trim providerBaseURL_def providerGitHub_def providerGitea_def
      statusFromProbe_def pastExpiry_def demo_probe_def missingClassicScopes_def requiredClassicScopes_def
      ConnConnected_def ConnInsufficient_def storeVerified_def persist_def demo_encrypting UpsertGitConnection_def
      run_db_op run_simps run_attempt newConnection_def viewFromConn_def sample_project_def Let_def)

lemma token_stored_or_nothing_witness:
  "\<exists>v w' expires. run_state (GitSet (demo_git None) 1 3 demo_input) launch_world = (Inr v, w')
     \<and> run_state (TokenForProject (demo_git None) 1) w' = (Inr (''ghp_1'', expires), w')"
proof -
  obtain v w' where run: "run_state (GitSet (demo_git None) 1 3 demo_input) launch_world = (Inr v, w')" "w_faults w' = []"
    using demo_set by blast
  have "authenticated (se_cipher (gs_secrets (demo_git None)))" by (simp add: demo_authenticated)
  from token_stored_or_nothing [OF this run(1)] run show ?thesis by (simp add: demo_input_def demo_trim)
qed

definition demo_connection :: git_connection where
  "demo_connection =
     \<lparr>gc_id = 8, gc_project = 1, gc_provider = providerGitHub, gc_kind = KindPAT,
      gc_secret = replicate 12 (CHR ''0'') @ ''ghp_1'', gc_last4 = Some ''hp_1'', gc_token_type = Some TokenClassic,
      gc_scopes = [], gc_status = ConnConnected, gc_login = None, gc_expires = None, gc_validated = None,
      gc_error = None, gc_created_at = 0, gc_updated_at = 0\<rparr>"

lemma expired_token_tests_ok_witness:
  "\<exists>v w'. run_state (GitTest (demo_git (Some 5)) 1 3 None) (launch_world\<lparr>w_git := [demo_connection]\<rparr>) = (Inr v, w')
     \<and> tv_ok v \<and> tv_status v = ConnExpired
     \<and> (\<exists>c. c \<in> set (w_git w') \<and> gc_error c = Some ErrInsufficientScope)"
proof -
  let ?w = "launch_world\<lparr>w_git := [demo_connection]\<rparr>"
  obtain res w' where run: "run_state (GitTest (demo_git (Some 5)) 1 3 None) ?w = (res, w')" by (meson surj_pair)
  have found: "tbl_find gc_project 1 (w_git ?w) = Some demo_connection" by (simp add: demo_connection_def)
  have opened: "openToken (demo_git (Some 5)) demo_connection = Inr ''ghp_1''"
    by (simp add: openToken_def Decrypt_def DeriveKey_def demo_secrets_def demo_cipher_def nonceSize_def demo_connection_def)
  have "w_faults ?w = []" "pr_expires (demo_probe (Some 5)) = Some 5" "5 < w_clock ?w"
    by (simp_all add: demo_probe_def launch_world_def empty_world_def)
  from expired_token_tests_ok [OF found opened this(1) demo_git_fields(2) this(2,3) run] run show ?thesis
    by (auto dest: tbl_find_eq_Some)
qed

end
