(* ===== verification/Spec2Isabelle.thy ===== *)
theory Spec2Isabelle
  imports RunWitnesses SchedulerWitnesses EpicWitnesses ProcessWitnesses ActionsWitnesses PlanningWitnesses SystemWitnesses CostsWitnesses AgentWitnesses BoardWitnesses ExternalWitnesses CatalogueWitnesses
begin

text \<open>
  The control plane of hopeitworks (\<open>backend/\<close>): a Go service that runs a project's stories through a
  pipeline of steps, most of them coding agents in containers. This development models its domain
  services with the PostgreSQL tables, the in-memory state and the middleware they rest on, and
  proves what they guarantee and, where they do not do what they mean to, what they do instead.
\<close>

text \<open>
  \<^bold>\<open>The program.\<close> A project has a pipeline configuration (groups of steps, a transition policy per
  group, guards) and a board of epics and stories, edited by people or imported from a tracker.
  \<open>RunService.LaunchRun\<close> snapshots the configuration into a run with its steps and queues a job; the
  worker calls \<open>PipelineExecutor.ExecuteRun\<close>, which executes the steps one after the other through
  the registered actions, parks the run at manual stages and gates, and counts failures in the
  project's circuit breaker. \<open>HITLService\<close> takes the decisions of people, \<open>Watchdog\<close> halts or fails
  steps that breach a guard, \<open>TimeoutEnforcer\<close>, \<open>OrphanReconciler\<close> and \<open>OrphanCleaner\<close> compare
  containers with runs. \<open>SchedulerService\<close> layers the stories of an epic and \<open>ParallelGroupExecutor\<close>
  executes the layers. The agent's action starts the container and waits for its callback, which
  comes in through \<open>InternalAuth\<close> and the callback handler; costs are recorded on the way. The story's
  status goes back to the tracker through a queued write-back. Users log in through \<open>AuthService\<close>; the
  middleware admits their requests.
\<close>

text \<open>
  \<^bold>\<open>The model.\<close> One record \<open>world\<close> (theory \<open>Store\<close>) is the state: the tables as lists of rows in insertion
  order, the token and channel maps of the memory adapters, the trace \<open>w_calls\<close> of the calls to the
  outside that succeeded, the clock, the counter of fresh identifiers, and \<open>w_faults\<close>. An operation is
  a value of the state monad (\<open>'a op\<close>), a fallible one returns \<open>err + 'a\<close> (\<open>'a fop\<close>); each error
  return of the code is a branch. \<open>w_faults\<close> says of the next round trips to the database or the queue
  whether they fail, in order: a property without an assumption about it holds under every pattern of
  infrastructure failures, and \<open>w_faults w = []\<close> means that none fails. \<open>time.Now\<close> advances the clock by
  the arbitrary \<open>w_tick\<close>; times and durations are whole nanoseconds. Identifiers are natural numbers from one counter,
  0 is \<open>uuid.Nil\<close>. Texts that go to logs only are left out, every other message is built from the same
  parts as in the code (\<open>frag\<close>). Fields that no modelled operation reads are left out of the records.
  Columns hold whatever the code writes; unique constraints, foreign keys with their
  \<open>ON DELETE\<close> actions and the trigger on events are part of the queries. \<open>float64\<close> amounts of money are
  reals, the progress of a run is IEEE double arithmetic; pagination limits are 32-bit integers with
  their wrap-around. Upper and lower case and trimming are those of ASCII.
\<close>

text \<open>
  \<^bold>\<open>Parameters.\<close> What is not this program is an argument of the definitions that use it: the YAML decoder
  (\<open>s_unmarshal\<close>), the registered actions (\<open>x_actions\<close>), what other processes do between two steps or
  while an action waits (\<open>x_other\<close>, \<open>ae_meanwhile\<close>, \<open>g_meanwhile\<close>), the interleaving of the goroutines of a layer (\<open>ep_turns\<close>,
  \<open>ep_cancel\<close>), the order in which Go ranges over a map (files of the scheduler, price list, template
  variables), the git host, the container and sidecar managers, the agent substrate, the template and URL
  libraries, SHA-256, AES-GCM and its nonces, the JSON decoder of capabilities, the notifiers, the probe of a
  git token, the environment, the planning adapter and the tracker, bcrypt, JWT, the mail sender, what the
  database driver scans an uncast sum into, and which of the callbacks of a container and their
  responses are lost. A property that needs one of them to behave says so in a hypothesis, and its
  witness instantiates it.
\<close>

text \<open>
  \<^bold>\<open>The theories\<close>, by component; a name with \<open>Spec\<close> holds the properties of the one without it, the theories
  \<open>*Witnesses\<close> apply every property with hypotheses to concrete states.

  \<^item> \<open>Prelude\<close>: errors (\<open>pkg/errors\<close>), messages, tables as lists, the collections \<open>run_simps\<close> and
    \<open>frame_intros\<close>, the locale \<open>frame\<close>. \<open>Model\<close>: \<open>domain/model\<close> with the transition tables.
    \<open>PipelineConfig\<close>: \<open>model/pipeline_config.go\<close>. \<open>Store\<close>, \<open>PlanningStore\<close>: \<open>adapter/postgres\<close> and the job queue.
  \<^item> \<open>CircuitBreaker\<close>, \<open>Executor\<close> (with \<open>ExecutorSpec\<close>, \<open>ExecutorStages\<close>, \<open>ExecutorFrame\<close>): the circuit
    breaker and \<open>pipeline_executor.go\<close>: success, the first failure, manual stages and gates,
    that an execution touches no other run.
  \<^item> \<open>RunService\<close> (with \<open>RunServiceSpec\<close>, \<open>RunLaunch\<close>, \<open>RunCancel\<close>, \<open>RunControl\<close>): \<open>run_service.go\<close>: lawful moves, the launch,
    cancellation, manual starts and retries. \<open>Lifecycle\<close>: an abstract specification of the control of runs
    and the refinement proof.
  \<^item> \<open>HITL\<close>: \<open>hitl_service.go\<close>: decisions are final, what each resolution does.
  \<^item> \<open>Scheduler\<close>: \<open>scheduler_service.go\<close>: layers are sound and exist iff the graph is acyclic.
    \<open>EpicRun\<close>: \<open>epic_run_service.go\<close>, \<open>parallel_group_executor.go\<close>: the outcome of an epic run.
  \<^item> \<open>Watchdog\<close>, \<open>Reapers\<close>: \<open>watchdog.go\<close>, \<open>timeout_enforcer.go\<close>, \<open>orphan_reconciler.go\<close>, \<open>orphan_cleaner.go\<close>:
    what a tick does, and that the reconciler acts on proof of absence.
  \<^item> \<open>Actions\<close>: \<open>hitl_gate.go\<close>, \<open>human.go\<close>, \<open>incremental_retry.go\<close>: the approval cycle.
    \<open>ExternalActions\<close> (with \<open>ExternalSpec\<close>): \<open>git_branch.go\<close>, \<open>git_pr.go\<close>, \<open>ci_poll.go\<close>, \<open>notification.go\<close>: from the
    branch to the pull request to its checks, clean slugs, and settings that never arrive.
  \<^item> \<open>AgentEnv\<close>, \<open>AgentRun\<close> (with \<open>AgentFrame\<close>): \<open>agent_run.go\<close>, \<open>agent_run_commands.go\<close>,
    \<open>agent_run_environment.go\<close>: everything opened is closed, the setup commands, the status that decides.
    \<open>Callbacks\<close>: \<open>adapter/memory\<close>, \<open>internal_auth.go\<close>, \<open>agent_callback_handler.go\<close> and the container's client
    (\<open>agent-runtime/internal/callback\<close>).
  \<^item> \<open>Costs\<close>: \<open>cost_service.go\<close>, \<open>cost_repo.go\<close>, \<open>model/cost_record.go\<close>: breakdowns add up.
  \<^item> \<open>PlanningImport\<close> (with \<open>PlanningReimport\<close>): \<open>planning_import.go\<close>: never disturbs an execution, a second import
    is a no-op. \<open>WriteBack\<close>: \<open>planning_writeback_service.go\<close>, \<open>planning_connector_service.go\<close>: refines a reference
    description of its outcome.
  \<^item> \<open>Accounts\<close>: \<open>auth_service.go\<close>, \<open>user_service.go\<close>, the middlewares \<open>auth.go\<close> and \<open>rbac.go\<close>: consistent
    tables, single-use reset tokens, logged-out tokens, password changes.
  \<^item> \<open>Board\<close>: \<open>project_service.go\<close>, \<open>pipeline_config_service.go\<close>, \<open>epic_service.go\<close>, \<open>story_service.go\<close>,
    \<open>project_user_service.go\<close> with the cascades of deletions: sound configurations.
  \<^item> \<open>Secrets\<close>: \<open>pkg/crypto\<close>, \<open>api_key_service.go\<close>, \<open>credential_service.go\<close>. \<open>Capabilities\<close>: \<open>capability_repo.go\<close>,
    \<open>bundle_service.go\<close>. \<open>Catalogue\<close>: \<open>agent_service.go\<close>, \<open>stack_service.go\<close>, \<open>environment_service.go\<close>,
    \<open>notification_config_service.go\<close>, \<open>notification_dispatcher.go\<close>. \<open>CatalogueSpec\<close>: secrets come back in their scope
    only, a bundle holds what the role is granted, a changed provider keeps the runtime.
    \<open>GitConnections\<close> (with \<open>GitConnectionsSpec\<close>): \<open>git_connection_service.go\<close>, \<open>git_connection_repo.go\<close>: a token is
    stored completely or not at all.
  \<^item> \<open>StoreFrame\<close>, \<open>System\<close>, \<open>ServiceFrame\<close>, \<open>Uses\<close>, \<open>Integrity\<close>: the frame rules. The locales
    \<open>exec_frame\<close>, \<open>run_frame\<close>, \<open>store_frame\<close>, \<open>agent_frame\<close>, \<open>system_frame\<close> and \<open>service_frame\<close>, \<open>account_frame\<close>,
    \<open>board_frame\<close>, \<open>catalogue_frame\<close>, joined in \<open>whole_frame\<close>, state what a relation between states has to respect (the writes of
    the repositories) and prove once that every service respects it; \<open>reaches\<close>, \<open>account_steps\<close> and
    \<open>uses\<close> are the step relations of all operations in any order. The interpretations give the
    invariants: references intact, append-only history, consistent accounts, tokens that stay spent or
    revoked, projects that stay undeletable.
\<close>

text \<open>
  \<^bold>\<open>Bounds and termination.\<close> Loops over lists are structural recursion. The scheduler's queue, the
  log streams and the retries of the client are bounded by their inputs, with their measures in the
  theories. The executor's loop ends because each turn takes one step off the list that was read at
  its start. Waiting (for a status, for a log line) ends by what the parameters say
  arrives or by the timeout, whichever the choice functions put first; the number of attempts of the client is
  the code's (three). The poll of the checks has as many turns as there are
  ticks before its deadline (\<open>g_ticks\<close>). No definition uses fuel.
\<close>

text \<open>
  \<^bold>\<open>Not modelled.\<close> The adapters that talk to Docker, microVMs, git hosts and GitHub (\<open>adapter/docker\<close>,
  \<open>adapter/microsandbox\<close>, \<open>adapter/git\<close>, \<open>adapter/planning\<close>), which are parameters here; the HTTP handlers and the generated
  server (\<open>api/handler\<close>), which decode requests for the services; the wiring in \<open>cmd/api\<close>; tickers
  and shutdown; the agent runtime but its callback client; the TypeScript frontend; the collection of
  sidecars; the subscription of the notification dispatcher to the event stream.
\<close>

end
